(* ===== verification/Prelude.thy ===== *)
theory Prelude
  imports Main "HOL-Library.AList" "HOL-Library.Char_ord" "HOL-Library.List_Lexorder"
begin

text \<open>
  What every component of the wallet platform shares: the Go types the services are
  written in (64-bit integers with wrap-around, strings, errors), the string functions of
  Go's \<open>strings\<close> package the sources call, association lists for Go maps, and the
  lemma collections the component theories hand to the simplifier.

  A Go string is the list of its bytes. The string functions are those of Go on ASCII
  text; bytes above 127 are left alone, where Go would decode UTF-8 first.
\<close>

named_theorems go_defs "unfolding of the small string and integer helpers"
named_theorems op_defs "unfolding of the operations of a component"
named_theorems inv_intros "what keeps the invariant of a component"

subsection \<open>Fixed-width integers\<close>

text \<open>
  An \<open>int64\<close> (\<open>int32\<close>) is the integer it denotes; \<open>wrap64\<close> (\<open>wrap32\<close>) is the two's
  complement reduction that every arithmetic result of the source goes through.
\<close>

type_synonym int64 = int
type_synonym int32 = int

definition wrap64 :: "int \<Rightarrow> int64" where
  "wrap64 x = (x + 2 ^ 63) mod 2 ^ 64 - 2 ^ 63"

definition wrap32 :: "int \<Rightarrow> int32" where
  "wrap32 x = (x + 2 ^ 31) mod 2 ^ 32 - 2 ^ 31"

definition fits64 :: "int \<Rightarrow> bool" where
  "fits64 x \<longleftrightarrow> - (2 ^ 63) \<le> x \<and> x < 2 ^ 63"

definition fits32 :: "int \<Rightarrow> bool" where
  "fits32 x \<longleftrightarrow> - (2 ^ 31) \<le> x \<and> x < 2 ^ 31"

subsection \<open>Errors\<close>

text \<open>
  An error message is its format string with the arguments it is printed with: the
  arguments of \<open>fmt.Errorf\<close> and \<open>status.Errorf\<close>, not yet rendered. \<open>gocode\<close> lists the
  gRPC status codes. \<open>NilDereference\<close> is the panic of a method call on a
  nil pointer. A gRPC handler returns a response and an error, both of which may be nil.
\<close>

datatype gomsg = Msg string "fmt_arg list"
  and fmt_arg = ArgS string | ArgD int | ArgE gomsg

datatype gocode = OK | Canceled | Unknown | InvalidArgument | DeadlineExceeded | NotFound | AlreadyExists
  | PermissionDenied | ResourceExhausted | FailedPrecondition | Aborted | OutOfRange | Unimplemented
  | Internal | Unavailable | DataLoss | Unauthenticated

datatype goerr = StatusErr gocode gomsg | PlainErr gomsg | NilDereference

type_synonym 'r grpc = "'r option \<times> goerr option"

abbreviation lit :: "string \<Rightarrow> gomsg" where
  "lit s \<equiv> Msg s []"

subsection \<open>Strings\<close>

definition is_space :: "char \<Rightarrow> bool" where
  "is_space c \<longleftrightarrow> c \<in> {CHR 0x09, CHR 0x0A, CHR 0x0B, CHR 0x0C, CHR 0x0D, CHR 0x20}"

definition TrimSpace :: "string \<Rightarrow> string" where
  "TrimSpace s = rev (dropWhile is_space (rev (dropWhile is_space s)))"

definition upper_letters :: "string" where
  "upper_letters = ''ABCDEFGHIJKLMNOPQRSTUVWXYZ''"

definition lower_letters :: "string" where
  "lower_letters = ''abcdefghijklmnopqrstuvwxyz''"

definition to_lower_char :: "char \<Rightarrow> char" where
  "to_lower_char c = (case map_of (zip upper_letters lower_letters) c of Some d \<Rightarrow> d | None \<Rightarrow> c)"

definition to_upper_char :: "char \<Rightarrow> char" where
  "to_upper_char c = (case map_of (zip lower_letters upper_letters) c of Some d \<Rightarrow> d | None \<Rightarrow> c)"

definition ToLower :: "string \<Rightarrow> string" where
  "ToLower s = map to_lower_char s"

definition ToUpper :: "string \<Rightarrow> string" where
  "ToUpper s = map to_upper_char s"

definition EqualFold :: "string \<Rightarrow> string \<Rightarrow> bool" where
  "EqualFold s t \<longleftrightarrow> ToLower s = ToLower t"

fun HasPrefix :: "string \<Rightarrow> string \<Rightarrow> bool" where
  "HasPrefix s [] = True"
| "HasPrefix [] (p # ps) = False"
| "HasPrefix (c # cs) (p # ps) = (c = p \<and> HasPrefix cs ps)"

text \<open>\<open>strings.Split(s, sep)\<close> for a one-byte separator: always at least one piece.\<close>

fun Split :: "char \<Rightarrow> string \<Rightarrow> string list" where
  "Split sep [] = [[]]"
| "Split sep (c # cs) =
     (if c = sep then [] # Split sep cs
      else (case Split sep cs of [] \<Rightarrow> [[c]] | p # ps \<Rightarrow> (c # p) # ps))"

text \<open>\<open>strconv\<close> and \<open>fmt\<close>'s \<open>%d\<close>: the decimal digits of an integer.\<close>

fun show_nat :: "nat \<Rightarrow> string" where
  "show_nat n = (if n < 10 then [''0123456789'' ! n]
                 else show_nat (n div 10) @ [''0123456789'' ! (n mod 10)])"

declare show_nat.simps [simp del]

definition show_int :: "int \<Rightarrow> string" where
  "show_int i = (if i < 0 then ''-'' @ show_nat (nat (- i)) else show_nat (nat i))"

subsection \<open>Go maps\<close>

text \<open>
  A Go map is an association list with distinct keys; the list order is one of the orders
  in which \<open>range\<close> may visit it. Reading a missing key of a numeric map gives 0.
\<close>

type_synonym ('k, 'v) gomap = "('k \<times> 'v) list"

definition getz :: "('k, int) gomap \<Rightarrow> 'k \<Rightarrow> int" where
  "getz m k = (case map_of m k of Some v \<Rightarrow> v | None \<Rightarrow> 0)"

definition gomap_ok :: "('k, 'v) gomap \<Rightarrow> bool" where
  "gomap_ok m \<longleftrightarrow> distinct (map fst m)"

lemmas gomap_defs [go_defs] = getz_def gomap_ok_def

subsection \<open>Lemmas\<close>

lemma wrap64_id [simp]: "fits64 x \<Longrightarrow> wrap64 x = x"
  by (simp add: wrap64_def fits64_def)

lemma wrap64_fits [simp]: "fits64 (wrap64 x)"
proof -
  have "0 \<le> (x + 2 ^ 63) mod 2 ^ 64" and "(x + 2 ^ 63) mod 2 ^ 64 < (2 :: int) ^ 64"
    by simp_all
  then show ?thesis by (auto simp: wrap64_def fits64_def)
qed

lemma wrap32_id [simp]: "fits32 x \<Longrightarrow> wrap32 x = x"
  by (simp add: wrap32_def fits32_def)

lemma dropWhile_idem [simp]: "dropWhile P (dropWhile P xs) = dropWhile P xs"
  by (induction xs) auto

lemma TrimSpace_Nil [simp]: "TrimSpace [] = []"
  by (simp add: TrimSpace_def)

lemma dropWhile_rev_keeps_hd:
  assumes "xs \<noteq> []" and "\<not> P (hd xs)"
  shows "\<exists>ys. rev (dropWhile P (rev xs)) = hd xs # ys"
proof -
  obtain x zs where xs: "xs = x # zs" using assms by (cases xs) auto
  with assms have "\<not> P x" by simp
  then have "dropWhile P (rev zs @ [x]) = dropWhile P (rev zs) @ [x]"
    by (simp add: dropWhile_append3)
  then show ?thesis using xs by simp
qed

lemma TrimSpace_idem [simp]: "TrimSpace (TrimSpace s) = TrimSpace s"
proof (cases "dropWhile is_space s = []")
  case True
  show ?thesis unfolding TrimSpace_def True by simp
next
  case False
  let ?d = "dropWhile is_space s"
  have "\<not> is_space (hd ?d)" using False hd_dropWhile by blast
  from dropWhile_rev_keeps_hd [of ?d is_space, OF False this]
  obtain ys where ys: "rev (dropWhile is_space (rev ?d)) = hd ?d # ys" by blast
  have "dropWhile is_space (hd ?d # ys) = hd ?d # ys"
    using \<open>\<not> is_space (hd ?d)\<close> by simp
  moreover have "rev (hd ?d # ys) = dropWhile is_space (rev ?d)"
    by (metis ys rev_rev_ident)
  ultimately show ?thesis
    unfolding TrimSpace_def ys by (metis dropWhile_idem rev_rev_ident)
qed

lemma HasPrefix_iff: "HasPrefix s p \<longleftrightarrow> (\<exists>t. s = p @ t)"
  by (induction s p rule: HasPrefix.induct) auto

lemma HasPrefix_append [simp]: "HasPrefix (p @ t) p"
  by (simp add: HasPrefix_iff)

lemma EqualFold_refl [simp]: "EqualFold s s"
  by (simp add: EqualFold_def)

lemma EqualFold_sym: "EqualFold s t \<Longrightarrow> EqualFold t s"
  by (simp add: EqualFold_def)

lemma EqualFold_trans: "EqualFold s t \<Longrightarrow> EqualFold t u \<Longrightarrow> EqualFold s u"
  by (simp add: EqualFold_def)

lemma Split_nonempty [simp]: "Split sep s \<noteq> []"
  by (induction sep s rule: Split.induct) (auto split: list.splits)

lemma Split_no_sep: "sep \<notin> set s \<Longrightarrow> Split sep s = [s]"
  by (induction s) auto

lemma Split_at_sep: "sep \<notin> set a \<Longrightarrow> Split sep (a @ sep # b) = a # Split sep b"
  by (induction a) auto

lemma getz_update: "getz (AList.update k v m) k' = (if k' = k then v else getz m k')"
  by (simp add: getz_def update_conv')

lemma gomap_ok_update [simp]: "gomap_ok m \<Longrightarrow> gomap_ok (AList.update k v m)"
  by (simp add: gomap_ok_def distinct_update)

lemma gomap_ok_delete [simp]: "gomap_ok m \<Longrightarrow> gomap_ok (AList.delete k m)"
  by (simp add: gomap_ok_def distinct_delete)

lemma map_update_same: "f y = f (xs ! i) \<Longrightarrow> map f (xs[i := y]) = map f xs"
  by (cases "i < length xs") (simp_all add: map_update list_update_same_conv list_update_beyond)

text \<open>A sum over a list of which one element is replaced.\<close>

lemma sum_list_update_nth:
  fixes f :: "'a \<Rightarrow> int"
  assumes "i < length xs"
  shows "sum_list (map f (xs[i := y])) = sum_list (map f xs) - f (xs ! i) + f y"
  using assms
proof (induction xs arbitrary: i)
  case Nil
  then show ?case by simp
next
  case (Cons x xs)
  then show ?case by (cases i) auto
qed

end
