(* ===== verification/GoFloat.thy ===== *)
theory GoFloat
  imports Prelude Complex_Main
begin

text \<open>
  Go's \<open>float64\<close>: a finite value is the rational number it denotes, and every operation
  returns the exact result rounded to the nearest binary64 value, ties to even (\<open>fl\<close>):
  53 significant bits, exponents down to the subnormal \<open>2 ^ -1074\<close>. Overflow to infinity
  is left out: a result of \<open>2 ^ 1024\<close> or more stays a rational here; it differs from Go's
  infinity in no comparison and no conversion the sources make of such a value. Constant
  expressions are exact in Go and rounded once, which is how they are written below.
\<close>

type_synonym float64 = rat

function nbits :: "int \<Rightarrow> int" where
  "nbits n = (if n \<le> 0 then 0 else nbits (n div 2) + 1)"
  by pat_completeness auto
termination
  by (relation "measure nat") auto

declare nbits.simps [simp del]

definition pow2 :: "int \<Rightarrow> rat" where
  "pow2 e = (if 0 \<le> e then 2 ^ nat e else 1 / 2 ^ nat (- e))"

text \<open>The binary exponent of a positive rational: \<open>pow2 e \<le> x < pow2 (e + 1)\<close>.\<close>

definition binexp :: "rat \<Rightarrow> int" where
  "binexp x =
     (let (a, b) = quotient_of x; e = nbits a - nbits b
      in if pow2 e \<le> x then e else e - 1)"

definition RoundToEven :: "rat \<Rightarrow> int" where
  "RoundToEven x =
     (let f = \<lfloor>x\<rfloor>; d = x - of_int f
      in if d < 1 / 2 then f else if 1 / 2 < d then f + 1 else if even f then f else f + 1)"

text \<open>\<open>math.Round\<close>: half away from zero.\<close>

definition RoundHalfAway :: "rat \<Rightarrow> int" where
  "RoundHalfAway x = (if 0 \<le> x then \<lfloor>x + 1 / 2\<rfloor> else - \<lfloor>- x + 1 / 2\<rfloor>)"

definition fl :: "rat \<Rightarrow> float64" where
  "fl x = (if x = 0 then 0
           else let e = max (binexp \<bar>x\<bar> - 52) (- 1074)
                in of_int (RoundToEven (x / pow2 e)) * pow2 e)"

definition fmul :: "float64 \<Rightarrow> float64 \<Rightarrow> float64" where
  "fmul x y = fl (x * y)"

definition fdiv :: "float64 \<Rightarrow> float64 \<Rightarrow> float64" where
  "fdiv x y = fl (x / y)"

definition fadd :: "float64 \<Rightarrow> float64 \<Rightarrow> float64" where
  "fadd x y = fl (x + y)"

definition fsub :: "float64 \<Rightarrow> float64 \<Rightarrow> float64" where
  "fsub x y = fl (x - y)"

definition float_of_int :: "int \<Rightarrow> float64" where
  "float_of_int n = fl (of_int n)"

text \<open>
  \<open>int64(x)\<close> truncates towards zero; outside the range of \<open>int64\<close> the result is the
  "integer indefinite" value of the amd64 conversion instruction.
\<close>

definition int64_of_float :: "float64 \<Rightarrow> int64" where
  "int64_of_float x =
     (let t = (if 0 \<le> x then \<lfloor>x\<rfloor> else - \<lfloor>- x\<rfloor>) in if fits64 t then t else - (2 ^ 63))"

text \<open>
  \<open>math.Pow(10, float64(d))\<close> for the exponents the sources use (-3 to 3): Go multiplies the
  exact powers and takes one reciprocal, so the result is the rounded power.
\<close>

definition Pow10 :: "int \<Rightarrow> float64" where
  "Pow10 d = fl (if 0 \<le> d then 10 ^ nat d else 1 / 10 ^ nat (- d))"

lemmas float_defs [go_defs] = fmul_def fdiv_def fadd_def fsub_def float_of_int_def

subsection \<open>Rounding to an integer\<close>

lemma RoundToEven_of_int [simp]: "RoundToEven (of_int n) = n"
  by (simp add: RoundToEven_def)

lemma RoundToEven_err: "\<bar>of_int (RoundToEven x) - x\<bar> \<le> 1 / 2"
proof -
  have "of_int \<lfloor>x\<rfloor> \<le> x" and "x < of_int \<lfloor>x\<rfloor> + 1" by linarith+
  then show ?thesis by (auto simp: RoundToEven_def Let_def)
qed

lemma RoundToEven_lower: "of_int n \<le> x \<Longrightarrow> n \<le> RoundToEven x"
proof -
  assume "of_int n \<le> x"
  then have "n \<le> \<lfloor>x\<rfloor>" by (simp add: le_floor_iff)
  then show ?thesis by (auto simp: RoundToEven_def Let_def)
qed

lemma RoundToEven_upper: "x \<le> of_int n \<Longrightarrow> RoundToEven x \<le> n"
proof -
  assume le: "x \<le> of_int n"
  show ?thesis
  proof (cases "x = of_int n")
    case False
    with le have "\<lfloor>x\<rfloor> < n" by (simp add: floor_less_iff)
    then show ?thesis by (auto simp: RoundToEven_def Let_def)
  qed simp
qed

lemma RoundToEven_mono: "x \<le> y \<Longrightarrow> RoundToEven x \<le> RoundToEven y"
proof -
  assume xy: "x \<le> y"
  show ?thesis
  proof (cases "\<lfloor>x\<rfloor> = \<lfloor>y\<rfloor>")
    case True
    with xy show ?thesis by (auto simp: RoundToEven_def Let_def)
  next
    case False
    with xy have "\<lfloor>x\<rfloor> + 1 \<le> \<lfloor>y\<rfloor>" using floor_mono [OF xy] by linarith
    then show ?thesis by (auto simp: RoundToEven_def Let_def)
  qed
qed

subsection \<open>The binary exponent\<close>

lemma pow2_pos [simp]: "0 < pow2 e"
  by (simp add: pow2_def)

lemma pow2_nonzero [simp]: "pow2 e \<noteq> 0"
  using pow2_pos [of e] by linarith

lemma pow2_nonneg [simp]: "0 \<le> pow2 e"
  using pow2_pos [of e] by linarith

lemma pow2_powi: "pow2 e = 2 powi e"
  by (simp add: pow2_def power_int_def power_one_over)

lemma pow2_add: "pow2 (a + b) = pow2 a * pow2 b"
  by (simp add: pow2_powi power_int_add)

lemma pow2_mono: "a \<le> b \<Longrightarrow> pow2 a \<le> pow2 b"
  by (simp add: pow2_powi power_int_increasing)

lemma pow2_of_nat: "pow2 (int n) = 2 ^ n"
  by (simp add: pow2_def)

lemma nbits_bounds: "0 < n \<Longrightarrow> 0 < nbits n \<and> pow2 (nbits n - 1) \<le> of_int n \<and> of_int n < pow2 (nbits n)"
proof (induction n rule: nbits.induct)
  case (1 n)
  show ?case
  proof (cases "n = 1")
    case True
    then show ?thesis by (simp add: nbits.simps pow2_def)
  next
    case False
    with "1.prems" have h: "0 < n div 2" by presburger
    let ?m = "nbits (n div 2)" and ?h = "of_int (n div 2) :: rat"
    have ih: "0 < ?m" "pow2 (?m - 1) \<le> ?h" "?h < pow2 ?m"
      using "1.IH" "1.prems" h by auto
    have eq: "nbits n = ?m + 1" using "1.prems" by (simp add: nbits.simps)
    have "?h + ?h \<le> of_int n" by (simp flip: of_int_add)
    moreover have "pow2 ?m = pow2 (?m - 1) + pow2 (?m - 1)"
      using pow2_add [of "?m - 1" 1] by (simp add: pow2_def [of 1])
    ultimately have lo: "pow2 ?m \<le> of_int n" using ih(2) by linarith
    have pm: "pow2 ?m = of_int (2 ^ nat ?m)" using ih(1) by (simp add: pow2_def)
    have "n div 2 < 2 ^ nat ?m" using ih(3) unfolding pm by (simp only: of_int_less_iff)
    then have "n < 2 * 2 ^ nat ?m" by linarith
    then have "(of_int n :: rat) < of_int (2 * 2 ^ nat ?m)" by (simp only: of_int_less_iff)
    then have up: "of_int n < pow2 (?m + 1)" using ih(1) by (simp add: pow2_def nat_add_distrib)
    from lo up ih(1) show ?thesis unfolding eq by simp
  qed
qed

lemma binexp_bounds:
  assumes "0 < x"
  shows "pow2 (binexp x) \<le> x \<and> x < pow2 (binexp x + 1)"
proof -
  obtain a b where ab: "quotient_of x = (a, b)" by (cases "quotient_of x")
  have b: "0 < b" using quotient_of_denom_pos [OF ab] .
  have x: "x = of_int a / of_int b" using quotient_of_div [OF ab] .
  have a: "0 < a" using assms b x by (simp add: zero_less_divide_iff)
  define p q where "p = nbits a" and "q = nbits b"
  define e where "e = p - q"
  have A: "pow2 (p - 1) \<le> of_int a" "of_int a < pow2 p"
    and B: "pow2 (q - 1) \<le> of_int b" "of_int b < pow2 q"
    using nbits_bounds [OF a] nbits_bounds [OF b] by (auto simp: p_def q_def)
  have bpos: "0 < (of_int b :: rat)" using b by simp
  have "pow2 (e - 1) * of_int b \<le> pow2 (e - 1) * pow2 q"
    using B(2) by (intro mult_left_mono) auto
  also have "\<dots> = pow2 (p - 1)" by (simp add: e_def flip: pow2_add)
  also note A(1)
  finally have low: "pow2 (e - 1) \<le> x" using bpos by (simp add: x pos_le_divide_eq)
  have "of_int a < pow2 p" by (rule A(2))
  also have "\<dots> = pow2 (e + 1) * pow2 (q - 1)" by (simp add: e_def flip: pow2_add)
  also have "\<dots> \<le> pow2 (e + 1) * of_int b" using B(1) by (intro mult_left_mono) auto
  finally have up: "x < pow2 (e + 1)" using bpos by (simp add: x pos_divide_less_eq)
  have "binexp x = (if pow2 e \<le> x then e else e - 1)"
    by (simp add: binexp_def ab p_def q_def e_def Let_def)
  with low up show ?thesis by auto
qed

subsection \<open>Rounding to binary64\<close>

lemma fl_0 [simp]: "fl 0 = 0"
  by (simp add: fl_def)

lemma fl_nonneg: "0 \<le> x \<Longrightarrow> 0 \<le> fl x"
  using RoundToEven_lower [of 0 "x / pow2 e" for e]
  by (auto simp: fl_def Let_def intro!: mult_nonneg_nonneg)

text \<open>In the normal range the result is positive and within one part in \<open>2 ^ 53\<close>.\<close>

lemma fl_err:
  assumes "0 < x" and "pow2 (- 1022) \<le> x"
  shows "\<bar>fl x - x\<bar> \<le> x * pow2 (- 53)"
proof -
  define b where "b = binexp x"
  have b: "pow2 b \<le> x" "x < pow2 (b + 1)" using binexp_bounds [OF assms(1)] by (auto simp: b_def)
  have "pow2 (- 1022) < pow2 (b + 1)" using assms(2) b(2) by linarith
  then have "- 1022 < b + 1" using pow2_mono [of "b + 1" "- 1022"] by linarith
  then have e: "max (binexp \<bar>x\<bar> - 52) (- 1074) = b - 52" using assms(1) by (simp add: b_def)
  let ?p = "pow2 (b - 52)"
  have "fl x - x = (of_int (RoundToEven (x / ?p)) - x / ?p) * ?p"
    using assms(1) e by (simp add: fl_def Let_def left_diff_distrib)
  then have "\<bar>fl x - x\<bar> = \<bar>of_int (RoundToEven (x / ?p)) - x / ?p\<bar> * ?p"
    by (simp add: abs_mult)
  also have "\<dots> \<le> 1 / 2 * ?p" using RoundToEven_err by (intro mult_right_mono) auto
  also have "\<dots> = pow2 b * pow2 (- 53)"
  proof -
    have "1 / 2 * ?p = pow2 (- 1) * pow2 (b - 52)" by (simp add: pow2_def [of "- 1"])
    also have "\<dots> = pow2 (b - 53)" by (simp flip: pow2_add)
    also have "\<dots> = pow2 b * pow2 (- 53)" by (simp flip: pow2_add)
    finally show ?thesis .
  qed
  also have "\<dots> \<le> x * pow2 (- 53)" using b(1) by (intro mult_right_mono) auto
  finally show ?thesis .
qed

lemma fl_pos_normal:
  assumes "0 < x" and "pow2 (- 1022) \<le> x"
  shows "0 < fl x"
proof -
  have "x * pow2 (- 53) < x * 1"
    using assms(1) by (intro mult_strict_left_mono) (simp_all add: pow2_def)
  with fl_err [OF assms] show ?thesis by linarith
qed

text \<open>Integers of at most 53 bits are represented exactly.\<close>

lemma fl_of_int_exact:
  assumes "0 < n" and "n < 2 ^ 53"
  shows "fl (of_int n) = of_int n"
proof -
  let ?x = "of_int n :: rat"
  have x: "0 < ?x" "\<bar>?x\<bar> = ?x" using assms by auto
  have b: "pow2 (binexp ?x) \<le> ?x" "?x < pow2 (binexp ?x + 1)" using binexp_bounds [OF x(1)] by auto
  have "?x < of_int (2 ^ 53)" using assms(2) by (simp only: of_int_less_iff)
  then have "?x < pow2 53" by (simp add: pow2_def)
  with b(1) have "pow2 (binexp ?x) < pow2 53" by linarith
  then have u: "binexp ?x < 53" using pow2_mono [of 53 "binexp ?x"] by linarith
  have "(1 :: rat) \<le> ?x" using assms(1) by simp
  with b(2) have "pow2 0 < pow2 (binexp ?x + 1)" by (simp add: pow2_def)
  then have l: "0 \<le> binexp ?x" using pow2_mono [of "binexp ?x + 1" 0] by linarith
  define k where "k = nat (52 - binexp ?x)"
  have k: "binexp ?x - 52 = - int k" using u by (simp add: k_def)
  have p: "pow2 (- int k) = 1 / 2 ^ k" by (simp add: pow2_def)
  have "?x / pow2 (- int k) = of_int (n * 2 ^ k)" by (simp add: p)
  moreover have "max (binexp \<bar>?x\<bar> - 52) (- 1074) = - int k" using l k x(2) by simp
  ultimately have "fl ?x = of_int (RoundToEven (of_int (n * 2 ^ k))) * pow2 (- int k)"
    using assms(1) by (simp add: fl_def Let_def)
  also have "\<dots> = of_int (n * 2 ^ k) * pow2 (- int k)" by (simp only: RoundToEven_of_int)
  finally show ?thesis by (simp add: p)
qed

lemma float_of_int_exact: "0 \<le> n \<Longrightarrow> n < 2 ^ 53 \<Longrightarrow> float_of_int n = of_int n"
  by (cases "n = 0") (simp_all add: float_of_int_def fl_of_int_exact)

lemma float_of_int_pos: "0 < n \<Longrightarrow> 0 < float_of_int n"
  unfolding float_of_int_def
proof (rule fl_pos_normal)
  assume "0 < n"
  then show "0 < (of_int n :: rat)" by simp
  have "pow2 (- 1022) \<le> pow2 0" by (rule pow2_mono) simp
  also have "\<dots> \<le> of_int n" using \<open>0 < n\<close> by (simp add: pow2_def)
  finally show "pow2 (- 1022) \<le> of_int n" .
qed

end
