(* ===== verification/Currency.thy ===== *)
theory Currency
  imports GoFloat
begin

text \<open>
  The money domain of \<open>pkg/db/currency.go\<close>: the ISO-4217 catalogue, normalisation and
  validation of currency codes and amounts, and the conversion of minor units between
  currencies with banker's rounding.
\<close>

subsection \<open>The catalogue\<close>

record CurrencyInfo =
  ci_Code :: string
  ci_NumericCode :: string
  ci_Scale :: int
  ci_Symbol :: string
  ci_Name :: string

definition cinfo :: "string \<Rightarrow> string \<Rightarrow> int \<Rightarrow> string \<Rightarrow> string \<Rightarrow> string \<times> CurrencyInfo" where
  "cinfo c n sc sy nm =
     (c, \<lparr>ci_Code = c, ci_NumericCode = n, ci_Scale = sc, ci_Symbol = sy, ci_Name = nm\<rparr>)"

text \<open>The display symbols outside ASCII are written as their UTF-8 bytes.\<close>

definition ISO4217Catalog :: "(string, CurrencyInfo) gomap" where
  "ISO4217Catalog =
    [cinfo ''USD'' ''840'' 2 ''$'' ''US Dollar'',
     cinfo ''EUR'' ''978'' 2 [CHR 0xE2, CHR 0x82, CHR 0xAC] ''Euro'',
     cinfo ''GBP'' ''826'' 2 [CHR 0xC2, CHR 0xA3] ''British Pound Sterling'',
     cinfo ''CAD'' ''124'' 2 ''CA$'' ''Canadian Dollar'',
     cinfo ''AUD'' ''036'' 2 ''A$'' ''Australian Dollar'',
     cinfo ''JPY'' ''392'' 0 [CHR 0xC2, CHR 0xA5] ''Japanese Yen'',
     cinfo ''KRW'' ''410'' 0 [CHR 0xE2, CHR 0x82, CHR 0xA9] ''South Korean Won'',
     cinfo ''CHF'' ''756'' 2 ''CHF'' ''Swiss Franc'',
     cinfo ''SGD'' ''702'' 2 ''S$'' ''Singapore Dollar'',
     cinfo ''INR'' ''356'' 2 [CHR 0xE2, CHR 0x82, CHR 0xB9] ''Indian Rupee'',
     cinfo ''BHD'' ''048'' 3 ''BD'' ''Bahraini Dinar'',
     cinfo ''KWD'' ''414'' 3 ''KD'' ''Kuwaiti Dinar'',
     cinfo ''TND'' ''788'' 3 ''DT'' ''Tunisian Dinar'']"

definition SupportedCurrencies :: "(string, int) gomap" where
  "SupportedCurrencies =
    [(''USD'', 2), (''EUR'', 2), (''GBP'', 2), (''CAD'', 2), (''AUD'', 2), (''JPY'', 0),
     (''KRW'', 0), (''CHF'', 2), (''SGD'', 2), (''INR'', 2), (''BHD'', 3), (''KWD'', 3),
     (''TND'', 3)]"

subsection \<open>Codes and scales\<close>

definition NormalizeCurrency :: "string \<Rightarrow> string" where
  "NormalizeCurrency code = ToUpper (TrimSpace code)"

definition IsValidCurrency :: "string \<Rightarrow> bool" where
  "IsValidCurrency code \<longleftrightarrow> map_of SupportedCurrencies (NormalizeCurrency code) \<noteq> None"

definition GetCurrencyInfo :: "string \<Rightarrow> CurrencyInfo option" where
  "GetCurrencyInfo code = map_of ISO4217Catalog (NormalizeCurrency code)"

definition ListSupportedCurrencies :: "CurrencyInfo list" where
  "ListSupportedCurrencies = sort_key ci_Code (map snd ISO4217Catalog)"

definition CurrencyScale :: "string \<Rightarrow> gomsg + int" where
  "CurrencyScale code =
     (let code = NormalizeCurrency code
      in case map_of SupportedCurrencies code of
           None \<Rightarrow> Inl (Msg ''unsupported or invalid ISO-4217 currency: %s'' [ArgS code])
         | Some scale \<Rightarrow> Inr scale)"

definition CurrencyScaleInt32 :: "string \<Rightarrow> gomsg + int32" where
  "CurrencyScaleInt32 code =
     (case CurrencyScale code of
        Inl err \<Rightarrow> Inl err
      | Inr scale \<Rightarrow>
          if scale < 0 \<or> 18 < scale then Inl (Msg ''scale out of bounds: %d'' [ArgD scale])
          else Inr scale)"

text \<open>The scale where the caller drops the error: \<open>scale, _ := CurrencyScaleInt32(c)\<close>.\<close>

definition scale_or_0 :: "string \<Rightarrow> int32" where
  "scale_or_0 code = (case CurrencyScaleInt32 code of Inl _ \<Rightarrow> 0 | Inr s \<Rightarrow> s)"

subsection \<open>Validation\<close>

definition ValidateMoney :: "string \<Rightarrow> int64 \<Rightarrow> int32 \<Rightarrow> int32 \<Rightarrow> gomsg option" where
  "ValidateMoney currency units nanos scale =
     (let normCurr = NormalizeCurrency currency
      in if \<not> IsValidCurrency normCurr
         then Some (Msg ''invalid or unsupported currency: %s'' [ArgS currency])
         else case CurrencyScaleInt32 normCurr of
                Inl err \<Rightarrow> Some err
              | Inr expectedScale \<Rightarrow>
                  if scale \<noteq> 0 \<and> scale \<noteq> expectedScale
                  then Some (Msg ''invalid scale %d for currency %s (expected %d)''
                               [ArgD scale, ArgS normCurr, ArgD expectedScale])
                  else if nanos < 0 \<or> 999999999 < nanos
                  then Some (Msg ''nanos out of range [0, 999999999]: %d'' [ArgD nanos])
                  else if units < 0
                  then Some (Msg ''amount units must be non-negative, got: %d'' [ArgD units])
                  else if units = 0 \<and> nanos = 0
                  then Some (lit ''amount units must be strictly positive, got: 0'')
                  else if expectedScale = 0 \<and> nanos \<noteq> 0
                  then Some (Msg ''zero-decimal currency %s does not allow fractional subunits (got nanos=%d)''
                               [ArgS normCurr, ArgD nanos])
                  else None)"

definition ValidateAmount :: "int64 \<Rightarrow> string \<Rightarrow> gomsg option" where
  "ValidateAmount units currency = ValidateMoney currency units 0 0"

subsection \<open>Conversion\<close>

definition ConvertUnitsBankers :: "int64 \<Rightarrow> float64 \<Rightarrow> int64" where
  "ConvertUnitsBankers sourceUnits effectiveRate =
     (if sourceUnits \<le> 0 \<or> effectiveRate \<le> 0 then 0
      else let converted = RoundToEven (fmul (float_of_int sourceUnits) effectiveRate)
           in if converted < 1 \<and> 0 < sourceUnits then 1 else int64_of_float (of_int converted))"

definition ConvertUnitsScaleBankers ::
    "int64 \<Rightarrow> string \<Rightarrow> string \<Rightarrow> float64 \<Rightarrow> int64" where
  "ConvertUnitsScaleBankers sourceUnits baseCurrency targetCurrency effectiveRate =
     (if sourceUnits \<le> 0 \<or> effectiveRate \<le> 0 then 0
      else case (CurrencyScale baseCurrency, CurrencyScale targetCurrency) of
             (Inr baseScale, Inr targetScale) \<Rightarrow>
               let scaleFactor = Pow10 (targetScale - baseScale);
                   converted = RoundToEven
                     (fmul (fmul (float_of_int sourceUnits) effectiveRate) scaleFactor)
               in if converted < 1 \<and> 0 < sourceUnits then 1
                  else int64_of_float (of_int converted)
           | _ \<Rightarrow> ConvertUnitsBankers sourceUnits effectiveRate)"

subsection \<open>Lemmas on codes\<close>

lemma map_of_list_all: "list_all (\<lambda>(k, v). P k v) xs \<Longrightarrow> map_of xs k = Some v \<Longrightarrow> P k v"
  by (auto simp: list_all_iff dest: map_of_SomeD)

lemma upper_table:
  "list_all (\<lambda>(c, d). \<not> is_space c \<and> \<not> is_space d
      \<and> map_of (zip lower_letters upper_letters) d = None) (zip lower_letters upper_letters)"
  by code_simp

lemmas to_upper_char_table = map_of_list_all [OF upper_table]

lemma is_space_upper [simp]: "is_space (to_upper_char c) = is_space c"
  by (auto simp: to_upper_char_def dest: to_upper_char_table split: option.splits)

lemma to_upper_char_idem [simp]: "to_upper_char (to_upper_char c) = to_upper_char c"
proof (cases "map_of (zip lower_letters upper_letters) c")
  case (Some d)
  then have "map_of (zip lower_letters upper_letters) d = None"
    using to_upper_char_table by blast
  with Some show ?thesis by (simp add: to_upper_char_def)
qed (simp add: to_upper_char_def)

lemma ToUpper_idem [simp]: "ToUpper (ToUpper s) = ToUpper s"
  by (simp add: ToUpper_def)

lemma TrimSpace_ToUpper: "TrimSpace (ToUpper s) = ToUpper (TrimSpace s)"
  by (simp add: TrimSpace_def ToUpper_def dropWhile_map rev_map comp_def)

lemma NormalizeCurrency_idem [simp]:
  "NormalizeCurrency (NormalizeCurrency c) = NormalizeCurrency c"
  by (simp add: NormalizeCurrency_def TrimSpace_ToUpper)

lemma NormalizeCurrency_Nil [simp]: "NormalizeCurrency [] = []"
  by (simp add: NormalizeCurrency_def ToUpper_def)

lemma IsValidCurrency_normalize [simp]:
  "IsValidCurrency (NormalizeCurrency c) = IsValidCurrency c"
  by (simp add: IsValidCurrency_def)

lemma IsValidCurrency_Nil [simp]: "\<not> IsValidCurrency []"
  by (simp add: IsValidCurrency_def SupportedCurrencies_def)

lemma supported_scales: "list_all (\<lambda>(c, k). 0 \<le> k \<and> k \<le> 3) SupportedCurrencies"
  by code_simp

lemmas SupportedCurrencies_scale = map_of_list_all [OF supported_scales]

lemma CurrencyScaleInt32_eq: "CurrencyScaleInt32 c = CurrencyScale c"
  by (auto simp: CurrencyScaleInt32_def CurrencyScale_def Let_def
      dest: SupportedCurrencies_scale split: option.splits)

lemma CurrencyScale_Inr_iff:
  "CurrencyScale c = Inr k \<longleftrightarrow> map_of SupportedCurrencies (NormalizeCurrency c) = Some k"
  by (auto simp: CurrencyScale_def Let_def split: option.splits)

lemma CurrencyScale_normalize [simp]: "CurrencyScale (NormalizeCurrency c) = CurrencyScale c"
  by (simp add: CurrencyScale_def)

lemma CurrencyScale_valid: "IsValidCurrency c \<Longrightarrow> \<exists>k. CurrencyScale c = Inr k \<and> 0 \<le> k \<and> k \<le> 3"
  by (auto simp: IsValidCurrency_def CurrencyScale_Inr_iff dest: SupportedCurrencies_scale)

lemma ValidateMoney_None:
  "ValidateMoney c u n sc = None \<longleftrightarrow>
     (\<exists>k. CurrencyScale c = Inr k \<and> (sc = 0 \<or> sc = k) \<and> 0 \<le> n \<and> n \<le> 999999999
        \<and> 0 \<le> u \<and> (0 < u \<or> 0 < n) \<and> (n = 0 \<or> 0 < k))"
proof (cases "IsValidCurrency c")
  case True
  then obtain k where k: "CurrencyScale c = Inr k" "0 \<le> k" using CurrencyScale_valid by blast
  with True show ?thesis
    by (auto simp: ValidateMoney_def Let_def CurrencyScaleInt32_eq)
next
  case False
  then have "CurrencyScale c \<noteq> Inr k" for k
    by (auto simp: IsValidCurrency_def CurrencyScale_Inr_iff)
  with False show ?thesis by (simp add: ValidateMoney_def Let_def)
qed

lemma ValidateAmount_None:
  "ValidateAmount u c = None \<longleftrightarrow> IsValidCurrency c \<and> 0 < u"
  using CurrencyScale_valid [of c]
  by (auto simp: ValidateAmount_def ValidateMoney_None CurrencyScale_Inr_iff IsValidCurrency_def)

subsection \<open>Lemmas on conversion\<close>

lemma int64_of_float_of_int: "int64_of_float (of_int n) = (if fits64 n then n else - (2 ^ 63))"
  by (simp add: int64_of_float_def Let_def)

lemma int64_of_float_fits: "fits64 (int64_of_float x)"
  by (simp add: int64_of_float_def Let_def fits64_def)

lemma ConvertUnitsBankers_result:
  "(ConvertUnitsBankers u r = 0 \<longleftrightarrow> u \<le> 0 \<or> r \<le> 0) \<and> fits64 (ConvertUnitsBankers u r)
   \<and> (0 \<le> ConvertUnitsBankers u r \<or> ConvertUnitsBankers u r = - (2 ^ 63))"
  by (auto simp: ConvertUnitsBankers_def Let_def int64_of_float_of_int fits64_def)

lemma Pow10_0 [simp]: "Pow10 0 = 1"
  using fl_of_int_exact [of 1] by (simp add: Pow10_def)

subsection \<open>Properties\<close>

text \<open>
  \<open>ValidateMoney\<close> accepts exactly the amounts its contract describes: a supported
  currency, a scale that is absent (0) or the ISO-4217 one, \<open>nanos\<close> within a unit, no
  negative part, a strictly positive total, and no fraction for zero-decimal currencies.
\<close>

lemma ValidateMoney_accepts_iff:
  "ValidateMoney c u n sc = None \<longleftrightarrow>
     (\<exists>k. map_of SupportedCurrencies (NormalizeCurrency c) = Some k \<and> (sc = 0 \<or> sc = k)
        \<and> 0 \<le> n \<and> n \<le> 999999999 \<and> 0 \<le> u \<and> (0 < u \<or> 0 < n) \<and> (n = 0 \<or> 0 < k))"
  by (simp add: ValidateMoney_None CurrencyScale_Inr_iff)

text \<open>
  A conversion yields 0 exactly for a non-positive amount or rate: a positive amount
  at a positive rate gives at least one minor unit, unless the product leaves the range of
  \<open>int64\<close>, where the conversion instruction yields the minimum value; no other negative
  result exists.
\<close>

lemma ConvertUnitsScaleBankers_result:
  "(ConvertUnitsScaleBankers u b t r = 0 \<longleftrightarrow> u \<le> 0 \<or> r \<le> 0)
   \<and> fits64 (ConvertUnitsScaleBankers u b t r)
   \<and> (0 \<le> ConvertUnitsScaleBankers u b t r \<or> ConvertUnitsScaleBankers u b t r = - (2 ^ 63))"
proof (cases "u \<le> 0 \<or> r \<le> 0")
  case False
  then show ?thesis using ConvertUnitsBankers_result [of u r]
    by (auto simp: ConvertUnitsScaleBankers_def Let_def int64_of_float_of_int fits64_def
        split: sum.splits)
qed (auto simp: ConvertUnitsScaleBankers_def fits64_def)

text \<open>
  Converting between currencies of the same scale at rate 1 is the identity on every
  amount that a \<open>float64\<close> represents exactly.
\<close>

lemma ConvertUnitsScaleBankers_identity:
  assumes "0 < u" and "u < 2 ^ 53" and "CurrencyScale b = CurrencyScale t"
  shows "ConvertUnitsScaleBankers u b t 1 = u"
proof -
  have u: "float_of_int u = of_int u" using assms by (simp add: float_of_int_exact)
  have e: "fl (of_int u) = of_int u" using assms by (simp add: fl_of_int_exact)
  have f: "fits64 u" using assms by (simp add: fits64_def)
  have "ConvertUnitsBankers u 1 = u"
    using assms f by (simp add: ConvertUnitsBankers_def Let_def fmul_def u e int64_of_float_of_int)
  then show ?thesis using assms f
    by (auto simp: ConvertUnitsScaleBankers_def Let_def fmul_def u e int64_of_float_of_int
        split: sum.splits)
qed

text \<open>
  The two currency tables agree: the supported currencies are the catalogue's, each
  with the catalogue's scale, and the catalogue is keyed by its own codes.
\<close>

lemma currency_tables_agree:
  "map_of SupportedCurrencies c = map_option ci_Scale (map_of ISO4217Catalog c)
   \<and> list_all (\<lambda>(k, i). ci_Code i = k) ISO4217Catalog
   \<and> map ci_Code ListSupportedCurrencies = sort (map fst SupportedCurrencies)"
proof (intro conjI)
  show "map_of SupportedCurrencies c = map_option ci_Scale (map_of ISO4217Catalog c)"
    by (simp add: SupportedCurrencies_def ISO4217Catalog_def cinfo_def)
  show "list_all (\<lambda>(k, i). ci_Code i = k) ISO4217Catalog"
    by (simp add: ISO4217Catalog_def cinfo_def)
  show "map ci_Code ListSupportedCurrencies = sort (map fst SupportedCurrencies)"
    by code_simp
qed

end
