(* ===== verification/Mongo.thy ===== *)
theory Mongo
  imports Prelude "HOL-Library.Multiset"
begin

text \<open>
  The interface to MongoDB. The database is not part of the repository, so it is a
  parameter of the model: a record of driver operations over the documents of one
  collection, and a runner for multi-document transactions. Queries are predicates on
  documents, updates are partial functions on them (\<open>None\<close>: the server refuses the update,
  as it does a \<open>$inc\<close> that leaves the range of \<open>int64\<close>), sort orders are integer keys.

  What the services rely on is the documented behaviour of these operations, stated as the
  laws of the locales \<open>collection\<close> and \<open>transaction_runner\<close>. The laws never say that a
  call succeeds: every call may fail with an error of the driver. An in-memory collection
  and a single-attempt runner satisfy the laws and make the model executable.
\<close>

datatype mongo_error = ErrNoDocuments | DuplicateKey gomsg | DriverError gomsg

fun err_msg :: "mongo_error \<Rightarrow> gomsg" where
  "err_msg ErrNoDocuments = lit ''mongo: no documents in result''"
| "err_msg (DuplicateKey m) = m"
| "err_msg (DriverError m) = m"

fun IsDuplicateKeyError :: "mongo_error \<Rightarrow> bool" where
  "IsDuplicateKeyError (DuplicateKey m) = True"
| "IsDuplicateKeyError _ = False"

record UpdateResult =
  MatchedCount :: int
  ModifiedCount :: int

record 'd collection_ops =
  FindOne :: "('d \<Rightarrow> bool) \<Rightarrow> ('d \<Rightarrow> int) option \<Rightarrow> 'd list \<Rightarrow> mongo_error + 'd"
  Find :: "('d \<Rightarrow> bool) \<Rightarrow> ('d \<Rightarrow> int) \<Rightarrow> nat \<Rightarrow> nat option \<Rightarrow> 'd list \<Rightarrow> mongo_error + 'd list"
  CountDocuments :: "('d \<Rightarrow> bool) \<Rightarrow> 'd list \<Rightarrow> mongo_error + int"
  InsertOne :: "'d \<Rightarrow> 'd list \<Rightarrow> 'd list \<times> mongo_error option"
  UpdateOne :: "('d \<Rightarrow> bool) \<Rightarrow> ('d \<Rightarrow> 'd option) \<Rightarrow> 'd list
                 \<Rightarrow> 'd list \<times> (mongo_error + UpdateResult)"
  UpsertOne :: "('d \<Rightarrow> bool) \<Rightarrow> ('d \<Rightarrow> 'd option) \<Rightarrow> 'd \<Rightarrow> 'd list
                 \<Rightarrow> 'd list \<times> mongo_error option"
  FindOneAndUpdate :: "('d \<Rightarrow> bool) \<Rightarrow> ('d \<Rightarrow> 'd option) \<Rightarrow> 'd list
                 \<Rightarrow> 'd list \<times> (mongo_error + 'd)"
  AggregateSums :: "('d \<Rightarrow> bool) \<Rightarrow> ('d \<Rightarrow> int) list \<Rightarrow> 'd list \<Rightarrow> mongo_error + int list list"

text \<open>
  \<open>UpsertOne f u d\<close> is \<open>UpdateOne\<close> with the option \<open>upsert\<close>: it inserts \<open>d\<close> where no document
  matches. \<open>FindOneAndUpdate\<close> returns the document after the update. \<open>AggregateSums f gs\<close> is
  the pipeline of a \<open>$match\<close> with \<open>f\<close> and a \<open>$group\<close> of all matches into one document with
  one \<open>$sum\<close> for each expression in \<open>gs\<close>: no match, no group.
\<close>

subsection \<open>Transactions\<close>

text \<open>
  \<open>session.WithTransaction(ctx, callback)\<close>: the callback reads and writes the database
  \<open>'s\<close> and the variables \<open>'x\<close> of the enclosing Go function that it captures. An attempt
  commits, or aborts with the callback's error, or its commit fails; an attempt whose commit
  or whose database call failed transiently is run again from the unchanged database, but
  with the captured variables as the failed attempt left them. Only errors of the driver
  (\<open>DriverErr\<close>, also wrapped) carry the label that asks for a retry; an error the service
  made itself (\<open>AppErr\<close>) never does.
\<close>

datatype txn_error = DriverErr gomsg | AppErr gomsg

fun txn_msg :: "txn_error \<Rightarrow> gomsg" where
  "txn_msg (DriverErr m) = m"
| "txn_msg (AppErr m) = m"

fun retryable :: "txn_error option \<Rightarrow> bool" where
  "retryable None = True"
| "retryable (Some (DriverErr m)) = True"
| "retryable (Some (AppErr m)) = False"

type_synonym ('s, 'x) txn_body = "'s \<Rightarrow> 'x \<Rightarrow> 's \<times> 'x \<times> txn_error option"

inductive txn_outcome :: "('s, 'x) txn_body \<Rightarrow> 's \<Rightarrow> 'x \<Rightarrow> 's \<times> 'x \<times> txn_error option \<Rightarrow> bool"
  for body s where
  not_started: "txn_outcome body s x (s, x, Some (DriverErr e))"
| committed: "body s x = (s1, x1, None) \<Longrightarrow> txn_outcome body s x (s1, x1, None)"
| commit_failed: "body s x = (s1, x1, None) \<Longrightarrow> txn_outcome body s x (s, x1, Some (DriverErr e))"
| aborted: "body s x = (s1, x1, Some e) \<Longrightarrow> txn_outcome body s x (s, x1, Some e)"
| retried: "body s x = (s1, x1, r) \<Longrightarrow> retryable r \<Longrightarrow> txn_outcome body s x1 out \<Longrightarrow>
    txn_outcome body s x out"

inductive_cases txn_committedE: "txn_outcome body s x (s', x', None)"

type_synonym ('s, 'x) txn_runner = "('s, 'x) txn_body \<Rightarrow> ('s, 'x) txn_body"

definition run_once :: "('s, 'x) txn_runner" where
  "run_once body s x =
     (case body s x of (s1, x1, None) \<Rightarrow> (s1, x1, None) | (s1, x1, Some e) \<Rightarrow> (s, x1, Some e))"

subsection \<open>An in-memory collection\<close>

definition mem_FindOne :: "('d \<Rightarrow> bool) \<Rightarrow> ('d \<Rightarrow> int) option \<Rightarrow> 'd list \<Rightarrow> mongo_error + 'd" where
  "mem_FindOne f sk ds =
     (case (case sk of None \<Rightarrow> filter f ds | Some k \<Rightarrow> sort_key k (filter f ds)) of
        [] \<Rightarrow> Inl ErrNoDocuments | d # _ \<Rightarrow> Inr d)"

definition mem_Find ::
    "('d \<Rightarrow> bool) \<Rightarrow> ('d \<Rightarrow> int) \<Rightarrow> nat \<Rightarrow> nat option \<Rightarrow> 'd list \<Rightarrow> mongo_error + 'd list" where
  "mem_Find f k skip lm ds =
     Inr (let ys = drop skip (sort_key k (filter f ds))
          in case lm of None \<Rightarrow> ys | Some l \<Rightarrow> take l ys)"

definition mem_InsertOne ::
    "('d \<Rightarrow> 'd \<Rightarrow> bool) \<Rightarrow> 'd \<Rightarrow> 'd list \<Rightarrow> 'd list \<times> mongo_error option" where
  "mem_InsertOne conflict d ds =
     (if list_ex (conflict d) ds then (ds, Some (DuplicateKey (lit ''E11000 duplicate key error'')))
      else (ds @ [d], None))"

definition mem_UpdateOne ::
    "('d \<Rightarrow> bool) \<Rightarrow> ('d \<Rightarrow> 'd option) \<Rightarrow> 'd list \<Rightarrow> 'd list \<times> (mongo_error + UpdateResult)" where
  "mem_UpdateOne f u ds =
     (case find (\<lambda>i. f (ds ! i)) [0..<length ds] of
        None \<Rightarrow> (ds, Inr \<lparr>MatchedCount = 0, ModifiedCount = 0\<rparr>)
      | Some i \<Rightarrow>
          (case u (ds ! i) of
             None \<Rightarrow> (ds, Inl (DriverError (lit ''failed to apply the update'')))
           | Some d \<Rightarrow> (ds[i := d],
               Inr \<lparr>MatchedCount = 1, ModifiedCount = (if d = ds ! i then 0 else 1)\<rparr>)))"

definition mem_FindOneAndUpdate ::
    "('d \<Rightarrow> bool) \<Rightarrow> ('d \<Rightarrow> 'd option) \<Rightarrow> 'd list \<Rightarrow> 'd list \<times> (mongo_error + 'd)" where
  "mem_FindOneAndUpdate f u ds =
     (case find (\<lambda>i. f (ds ! i)) [0..<length ds] of
        None \<Rightarrow> (ds, Inl ErrNoDocuments)
      | Some i \<Rightarrow>
          (case u (ds ! i) of
             None \<Rightarrow> (ds, Inl (DriverError (lit ''failed to apply the update'')))
           | Some d \<Rightarrow> (ds[i := d], Inr d)))"

definition mem_UpsertOne ::
    "('d \<Rightarrow> 'd \<Rightarrow> bool) \<Rightarrow> ('d \<Rightarrow> bool) \<Rightarrow> ('d \<Rightarrow> 'd option) \<Rightarrow> 'd \<Rightarrow> 'd list
       \<Rightarrow> 'd list \<times> mongo_error option" where
  "mem_UpsertOne conflict f u d ds =
     (if list_ex f ds
      then (case mem_UpdateOne f u ds of (ds', Inl e) \<Rightarrow> (ds', Some e) | (ds', Inr r) \<Rightarrow> (ds', None))
      else mem_InsertOne conflict d ds)"

definition mem_AggregateSums ::
    "('d \<Rightarrow> bool) \<Rightarrow> ('d \<Rightarrow> int) list \<Rightarrow> 'd list \<Rightarrow> mongo_error + int list list" where
  "mem_AggregateSums f gs ds =
     Inr (if filter f ds = [] then [] else [map (\<lambda>g. sum_list (map g (filter f ds))) gs])"

definition mem_ops :: "('d \<Rightarrow> 'd \<Rightarrow> bool) \<Rightarrow> 'd collection_ops" where
  "mem_ops conflict =
     \<lparr>FindOne = mem_FindOne, Find = mem_Find,
      CountDocuments = (\<lambda>f ds. Inr (int (length (filter f ds)))),
      InsertOne = mem_InsertOne conflict, UpdateOne = mem_UpdateOne,
      UpsertOne = mem_UpsertOne conflict, FindOneAndUpdate = mem_FindOneAndUpdate,
      AggregateSums = mem_AggregateSums\<rparr>"

subsection \<open>The laws of a collection\<close>

text \<open>
  \<open>conflict d d'\<close> says that two documents agree on a key of a unique index of the
  collection (the primary key \<open>_id\<close> among them).
\<close>

locale collection =
  fixes M :: "'d collection_ops" and conflict :: "'d \<Rightarrow> 'd \<Rightarrow> bool"
  assumes FindOne_Inr: "FindOne M f sk ds = Inr d \<Longrightarrow> d \<in> set ds \<and> f d"
    and FindOne_least: "FindOne M f (Some k) ds = Inr d \<Longrightarrow> d' \<in> set ds \<Longrightarrow> f d' \<Longrightarrow> k d \<le> k d'"
    and FindOne_none: "FindOne M f sk ds = Inl ErrNoDocuments \<Longrightarrow> d \<in> set ds \<Longrightarrow> \<not> f d"
    and Find_Inr: "Find M f k skip lm ds = Inr xs \<Longrightarrow>
      \<exists>ys. mset ys = mset (filter f ds) \<and> sorted (map k ys)
         \<and> xs = (case lm of None \<Rightarrow> drop skip ys | Some l \<Rightarrow> take l (drop skip ys))"
    and CountDocuments_Inr: "CountDocuments M f ds = Inr n \<Longrightarrow> n = int (length (filter f ds))"
    and InsertOne_None: "InsertOne M d ds = (ds', None) \<Longrightarrow>
      ds' = ds @ [d] \<and> \<not> list_ex (conflict d) ds"
    and InsertOne_Some: "InsertOne M d ds = (ds', Some e) \<Longrightarrow> ds' = ds"
    and InsertOne_dup: "InsertOne M d ds = (ds', Some (DuplicateKey m)) \<Longrightarrow> list_ex (conflict d) ds"
    and UpdateOne_Inl: "UpdateOne M f u ds = (ds', Inl e) \<Longrightarrow> ds' = ds"
    and UpdateOne_Inr: "UpdateOne M f u ds = (ds', Inr r) \<Longrightarrow>
      (MatchedCount r = 0 \<and> ModifiedCount r = 0 \<and> ds' = ds \<and> \<not> list_ex f ds)
      \<or> (\<exists>i d. i < length ds \<and> f (ds ! i) \<and> u (ds ! i) = Some d \<and> ds' = ds[i := d]
           \<and> MatchedCount r = 1 \<and> ModifiedCount r = (if d = ds ! i then 0 else 1))"
    and UpsertOne_Some: "UpsertOne M f u new ds = (ds', Some e) \<Longrightarrow> ds' = ds"
    and UpsertOne_None: "UpsertOne M f u new ds = (ds', None) \<Longrightarrow>
      (\<not> list_ex f ds \<and> ds' = ds @ [new])
      \<or> (\<exists>i d. i < length ds \<and> f (ds ! i) \<and> u (ds ! i) = Some d \<and> ds' = ds[i := d])"
    and FindOneAndUpdate_Inl: "FindOneAndUpdate M f u ds = (ds', Inl e) \<Longrightarrow> ds' = ds"
    and FindOneAndUpdate_none:
      "FindOneAndUpdate M f u ds = (ds', Inl ErrNoDocuments) \<Longrightarrow> \<not> list_ex f ds"
    and FindOneAndUpdate_Inr: "FindOneAndUpdate M f u ds = (ds', Inr d) \<Longrightarrow>
      \<exists>i. i < length ds \<and> f (ds ! i) \<and> u (ds ! i) = Some d \<and> ds' = ds[i := d]"
    and AggregateSums_Inr: "AggregateSums M f gs ds = Inr rs \<Longrightarrow>
      rs = (if filter f ds = [] then [] else [map (\<lambda>g. sum_list (map g (filter f ds))) gs])"
begin

lemma InsertOne_cases:
  obtains (ok) "InsertOne M d ds = (ds @ [d], None)" "\<not> list_ex (conflict d) ds"
  | (err) e where "InsertOne M d ds = (ds, Some e)"
proof (cases "InsertOne M d ds")
  case (Pair ds' r)
  show thesis
  proof (cases r)
    case None
    with Pair show thesis using InsertOne_None [of d ds ds'] ok by auto
  next
    case (Some e)
    with Pair show thesis using InsertOne_Some [of d ds ds' e] err by auto
  qed
qed

lemma UpdateOne_cases:
  obtains (err) e where "UpdateOne M f u ds = (ds, Inl e)"
  | (nomatch) r where "UpdateOne M f u ds = (ds, Inr r)" "MatchedCount r = 0"
      "ModifiedCount r = 0" "\<not> list_ex f ds"
  | (match) i d r where "UpdateOne M f u ds = (ds[i := d], Inr r)" "i < length ds" "f (ds ! i)"
      "u (ds ! i) = Some d" "MatchedCount r = 1"
      "ModifiedCount r = (if d = ds ! i then 0 else 1)"
proof (cases "UpdateOne M f u ds")
  case (Pair ds' r)
  show thesis
  proof (cases r)
    case (Inl e)
    with Pair show thesis using UpdateOne_Inl [of f u ds ds' e] err by auto
  next
    case (Inr q)
    with Pair have "UpdateOne M f u ds = (ds', Inr q)" by simp
    from UpdateOne_Inr [OF this] show thesis
      using Pair Inr nomatch [of q] match [of _ _ q] by auto
  qed
qed

lemma FindOne_cases:
  obtains (err) e where "FindOne M f sk ds = Inl e" | (found) d where "FindOne M f sk ds = Inr d"
    "d \<in> set ds" "f d"
  using FindOne_Inr [of f sk ds] by (cases "FindOne M f sk ds") auto

end

lemma mem_Find_law:
  "mem_Find f k skip lm ds = Inr xs \<Longrightarrow>
     \<exists>ys. mset ys = mset (filter f ds) \<and> sorted (map k ys)
        \<and> xs = (case lm of None \<Rightarrow> drop skip ys | Some l \<Rightarrow> take l (drop skip ys))"
  by (rule exI [of _ "sort_key k (filter f ds)"]) (auto simp: mem_Find_def Let_def split: option.splits)

lemma mem_UpdateOne_law:
  "mem_UpdateOne f u ds = (ds', Inr r) \<Longrightarrow>
     (MatchedCount r = 0 \<and> ModifiedCount r = 0 \<and> ds' = ds \<and> \<not> list_ex f ds)
     \<or> (\<exists>i d. i < length ds \<and> f (ds ! i) \<and> u (ds ! i) = Some d \<and> ds' = ds[i := d]
          \<and> MatchedCount r = 1 \<and> ModifiedCount r = (if d = ds ! i then 0 else 1))"
proof (cases "find (\<lambda>i. f (ds ! i)) [0..<length ds]")
  case None
  assume eq: "mem_UpdateOne f u ds = (ds', Inr r)"
  from None have "\<forall>i < length ds. \<not> f (ds ! i)" by (auto simp: find_None_iff)
  then have "\<not> list_ex f ds" by (auto simp: list_ex_iff in_set_conv_nth)
  with eq None show ?thesis by (auto simp: mem_UpdateOne_def)
next
  case (Some i)
  assume eq: "mem_UpdateOne f u ds = (ds', Inr r)"
  from Some have i: "i < length ds" "f (ds ! i)" by (auto simp: find_Some_iff)
  from eq Some obtain d where "u (ds ! i) = Some d" "ds' = ds[i := d]"
    "r = \<lparr>MatchedCount = 1, ModifiedCount = (if d = ds ! i then 0 else 1)\<rparr>"
    by (auto simp: mem_UpdateOne_def split: option.splits)
  with i show ?thesis by (intro disjI2 exI [of _ i] exI [of _ d]) simp
qed

lemma mem_FindOne_least:
  assumes "mem_FindOne f (Some k) ds = Inr d" and "d' \<in> set ds" and "f d'"
  shows "k d \<le> k d'"
proof -
  from assms(1) obtain rest where r: "sort_key k (filter f ds) = d # rest"
    by (auto simp: mem_FindOne_def split: list.splits)
  have "d' \<in> set (d # rest)" using assms(2,3) by (simp flip: r)
  moreover have "sorted (map k (d # rest))" by (metis r sorted_sort_key)
  ultimately show ?thesis by auto
qed

lemma mem_FindOne_set:
  "mem_FindOne f sk ds = Inr d \<Longrightarrow> d \<in> set ds \<and> f d"
proof (cases sk)
  case None
  assume "mem_FindOne f sk ds = Inr d"
  with None have "d \<in> set (filter f ds)"
    by (auto simp: mem_FindOne_def simp del: set_filter split: list.splits)
  then show ?thesis by simp
next
  case (Some k)
  assume "mem_FindOne f sk ds = Inr d"
  with Some have "d \<in> set (sort_key k (filter f ds))"
    by (auto simp: mem_FindOne_def simp del: set_sort set_filter split: list.splits)
  then show ?thesis by simp
qed

lemma mem_FindOne_none:
  "mem_FindOne f sk ds = Inl e \<Longrightarrow> d \<in> set ds \<Longrightarrow> \<not> f d"
proof (cases sk)
  case None
  assume "mem_FindOne f sk ds = Inl e" and "d \<in> set ds"
  with None show ?thesis by (auto simp: mem_FindOne_def filter_empty_conv split: list.splits)
next
  case (Some k)
  assume a: "mem_FindOne f sk ds = Inl e" and "d \<in> set ds"
  with Some have "sort_key k (filter f ds) = []" by (auto simp: mem_FindOne_def split: list.splits)
  then have "set (filter f ds) = {}" by (metis set_sort list.set(1))
  with \<open>d \<in> set ds\<close> show ?thesis by auto
qed

lemma mem_FindOneAndUpdate_law:
  "mem_FindOneAndUpdate f u ds = (ds', Inr d) \<Longrightarrow>
     \<exists>i. i < length ds \<and> f (ds ! i) \<and> u (ds ! i) = Some d \<and> ds' = ds[i := d]"
  by (auto simp: mem_FindOneAndUpdate_def find_Some_iff split: option.splits)

lemma mem_FindOneAndUpdate_none:
  assumes "mem_FindOneAndUpdate f u ds = (ds', Inl ErrNoDocuments)"
  shows "\<not> list_ex f ds"
proof -
  from assms have "find (\<lambda>i. f (ds ! i)) [0..<length ds] = None"
    by (auto simp: mem_FindOneAndUpdate_def split: option.splits)
  then show ?thesis by (auto simp: find_None_iff list_ex_iff in_set_conv_nth)
qed

lemma mem_UpsertOne_law:
  "mem_UpsertOne conflict f u n ds = (ds', None) \<Longrightarrow>
     (\<not> list_ex f ds \<and> ds' = ds @ [n])
     \<or> (\<exists>i d. i < length ds \<and> f (ds ! i) \<and> u (ds ! i) = Some d \<and> ds' = ds[i := d])"
  using mem_UpdateOne_law [of f u ds ds']
  by (auto simp: mem_UpsertOne_def mem_InsertOne_def split: if_splits prod.splits sum.splits)

interpretation mem: collection "mem_ops conflict" conflict for conflict :: "'d \<Rightarrow> 'd \<Rightarrow> bool"
proof unfold_locales
  fix f u and ds ds' :: "'d list" and r
  assume "UpdateOne (mem_ops conflict) f u ds = (ds', Inr r)"
  then have "mem_UpdateOne f u ds = (ds', Inr r)" by (simp add: mem_ops_def)
  then show "(MatchedCount r = 0 \<and> ModifiedCount r = 0 \<and> ds' = ds \<and> \<not> list_ex f ds)
      \<or> (\<exists>i d. i < length ds \<and> f (ds ! i) \<and> u (ds ! i) = Some d \<and> ds' = ds[i := d]
           \<and> MatchedCount r = 1 \<and> ModifiedCount r = (if d = ds ! i then 0 else 1))"
    by (rule mem_UpdateOne_law)
next
  fix f k skip lm and ds xs :: "'d list"
  assume "Find (mem_ops conflict) f k skip lm ds = Inr xs"
  then have "mem_Find f k skip lm ds = Inr xs" by (simp add: mem_ops_def)
  then show "\<exists>ys. mset ys = mset (filter f ds) \<and> sorted (map k ys)
      \<and> xs = (case lm of None \<Rightarrow> drop skip ys | Some l \<Rightarrow> take l (drop skip ys))"
    by (rule mem_Find_law)
next
  fix f u n and ds ds' :: "'d list"
  assume "UpsertOne (mem_ops conflict) f u n ds = (ds', None)"
  then have "mem_UpsertOne conflict f u n ds = (ds', None)" by (simp add: mem_ops_def)
  then show "(\<not> list_ex f ds \<and> ds' = ds @ [n])
      \<or> (\<exists>i d. i < length ds \<and> f (ds ! i) \<and> u (ds ! i) = Some d \<and> ds' = ds[i := d])"
    by (rule mem_UpsertOne_law)
next
  fix f u d and ds ds' :: "'d list"
  assume "FindOneAndUpdate (mem_ops conflict) f u ds = (ds', Inr d)"
  then have "mem_FindOneAndUpdate f u ds = (ds', Inr d)" by (simp add: mem_ops_def)
  then show "\<exists>i. i < length ds \<and> f (ds ! i) \<and> u (ds ! i) = Some d \<and> ds' = ds[i := d]"
    by (rule mem_FindOneAndUpdate_law)
next
  fix f u and ds ds' :: "'d list"
  assume "FindOneAndUpdate (mem_ops conflict) f u ds = (ds', Inl ErrNoDocuments)"
  then show "\<not> list_ex f ds" by (simp add: mem_ops_def mem_FindOneAndUpdate_none)
qed (auto simp: mem_ops_def mem_InsertOne_def mem_UpdateOne_def mem_UpsertOne_def
      mem_FindOneAndUpdate_def mem_AggregateSums_def
    dest: mem_FindOne_set mem_FindOne_none mem_FindOne_least
    split: if_splits option.splits)

subsection \<open>The laws of a transaction\<close>

locale transaction_runner =
  fixes WT :: "('s, 'x) txn_runner"
  assumes outcome: "txn_outcome body s x (WT body s x)"
begin

text \<open>A transaction that reports an error leaves the database as it was.\<close>

lemma error_rolls_back: "WT body s x = (s', x', Some e) \<Longrightarrow> s' = s"
proof -
  have "txn_outcome body s x out \<Longrightarrow> out = (s', x', Some e) \<Longrightarrow> s' = s" for out
    by (induction rule: txn_outcome.induct) auto
  moreover assume "WT body s x = (s', x', Some e)"
  ultimately show ?thesis using outcome [of body s x] by auto
qed

text \<open>
  A committed transaction is one successful run of the callback from the database at the
  start, with captured variables that some number of failed attempts may have changed.
\<close>

lemma commit_is_run:
  assumes "WT body s x = (s', x', None)"
    and "P x" and "\<And>y s1 y1 r. P y \<Longrightarrow> body s y = (s1, y1, r) \<Longrightarrow> retryable r \<Longrightarrow> P y1"
  shows "\<exists>y. P y \<and> body s y = (s', x', None)"
proof -
  have "txn_outcome body s x out \<Longrightarrow> P x \<Longrightarrow> out = (s', x', None) \<Longrightarrow>
      \<exists>y. P y \<and> body s y = (s', x', None)" for out
  proof (induction rule: txn_outcome.induct)
    case (retried x s1 x1 r out)
    then show ?case using assms(3) [of x s1 x1 r] by auto
  qed auto
  then show ?thesis using outcome [of body s x] assms(1,2) by auto
qed

text \<open>An invariant of the captured variables that every attempt keeps, holds at the end.\<close>

lemma captured_invariant:
  assumes "WT body s x = (s', x', r')"
    and "P x" and "\<And>y s1 y1 r. P y \<Longrightarrow> body s y = (s1, y1, r) \<Longrightarrow> P y1"
  shows "P x'"
proof -
  have "txn_outcome body s x out \<Longrightarrow> P x \<Longrightarrow> P (fst (snd out))" for out
  proof (induction rule: txn_outcome.induct)
    case (retried x s1 x1 r out)
    then show ?case using assms(3) [of x s1 x1 r] by auto
  qed (use assms(3) in \<open>auto\<close>)
  then show ?thesis using outcome [of body s x] assms(1,2) by fastforce
qed

text \<open>An invariant of the database that every successful run of the callback keeps.\<close>

lemma database_invariant:
  assumes "WT body s x = (s', x', r')" and "I s"
    and "\<And>y s1 y1. body s y = (s1, y1, None) \<Longrightarrow> I s1"
  shows "I s'"
proof (cases r')
  case None
  then have "\<exists>y. True \<and> body s y = (s', x', None)"
    using commit_is_run [where P = "\<lambda>_. True"] assms(1) by blast
  then show ?thesis using assms(3) by blast
next
  case (Some e)
  then show ?thesis using error_rolls_back assms(1,2) by blast
qed

end

interpretation once: transaction_runner run_once
proof
  fix body :: "('s, 'x) txn_body" and s x
  show "txn_outcome body s x (run_once body s x)"
    by (auto simp: run_once_def intro: txn_outcome.intros split: prod.splits option.splits)
qed

end
