(* ===== verification/WalletTypes.thy ===== *)
theory WalletTypes
  imports Currency Mongo
begin

text \<open>
  The data of the wallet service (\<open>cmd/wallet-service/main.go\<close>): the wallet document with its
  currency pots, the idempotency record, the caller's identity, and the checks every
  handler starts with: is this replica writable, may this caller touch this wallet, is the
  wallet operational. Also the audit event of \<open>pkg/observability\<close> that a transfer writes.

  A point in time is the number of nanoseconds since the epoch. The stored text of
  \<open>updated_at\<close> is represented by the second it renders. A numeric field that is absent from
  a document reads as 0.
\<close>

subsection \<open>Messages and documents\<close>

record Money =
  m_Currency :: string
  m_Units :: int64
  m_Nanos :: int32
  m_Scale :: int32
  m_CurrencyCode :: string

record GetBalanceResponse =
  gb_WalletId :: string
  gb_Balances :: "Money list"
  gb_HandledByRegion :: string
  gb_Status :: string

record WalletModel =
  w_ID :: string
  w_OwnerID :: string
  w_CreatedBy :: string
  w_Currency :: string
  w_Balance :: int64
  w_Balances :: "(string, int64) gomap"
  w_Status :: string
  w_KYCTier :: string
  w_Region :: string
  w_UpdatedAt :: int

record IdempotencyRecord =
  i_ID :: string
  i_TransactionID :: string
  i_CreatedAt :: int

definition WalletStatusActive :: string where "WalletStatusActive = ''ACTIVE''"
definition WalletStatusFrozen :: string where "WalletStatusFrozen = ''FROZEN''"
definition WalletStatusClosed :: string where "WalletStatusClosed = ''CLOSED''"

definition KYCTier1 :: string where "KYCTier1 = ''TIER_1''"
definition KYCTier2 :: string where "KYCTier2 = ''TIER_2''"
definition KYCTier3 :: string where "KYCTier3 = ''TIER_3''"

definition unix_second :: "int \<Rightarrow> int" where
  "unix_second now = now div 1000000000"

subsection \<open>The caller\<close>

text \<open>The incoming metadata of a gRPC call: \<open>None\<close> when the context carries none.\<close>

type_synonym metadata = "(string, string list) gomap option"

record callerContext =
  c_UserID :: string
  c_Roles :: "string list"

definition md_Get :: "(string, string list) gomap \<Rightarrow> string \<Rightarrow> string list" where
  "md_Get md k = (case map_of md k of None \<Rightarrow> [] | Some vs \<Rightarrow> vs)"

definition callerFromContext :: "metadata \<Rightarrow> callerContext" where
  "callerFromContext ctx =
     (case ctx of
        None \<Rightarrow> \<lparr>c_UserID = [], c_Roles = []\<rparr>
      | Some md \<Rightarrow>
          \<lparr>c_UserID = (case md_Get md ''x-user-id'' of [] \<Rightarrow> [] | v # _ \<Rightarrow> TrimSpace v),
           c_Roles = (case md_Get md ''x-user-roles'' of
                        [] \<Rightarrow> []
                      | v # _ \<Rightarrow> filter (\<lambda>r. r \<noteq> []) (map TrimSpace (Split (CHR '','') v)))\<rparr>)"

fun HasRole :: "string list \<Rightarrow> string \<Rightarrow> bool" where
  "HasRole [] role = False"
| "HasRole (r # rs) role = (if EqualFold r role then True else HasRole rs role)"

definition IsAdmin :: "callerContext \<Rightarrow> bool" where
  "IsAdmin c = HasRole (c_Roles c) ''admin''"

text \<open>\<open>w[:idx]\<close> for \<open>idx = strings.IndexAny(w, "_-")\<close>, where that index is positive.\<close>

definition before_any :: "char set \<Rightarrow> string \<Rightarrow> string" where
  "before_any cs w = (let p = takeWhile (\<lambda>c. c \<notin> cs) w
                      in if p \<noteq> [] \<and> length p < length w then p else w)"

definition extractOwnerFromWalletID :: "string \<Rightarrow> string" where
  "extractOwnerFromWalletID walletID =
     (let w = TrimSpace walletID;
          w = (if HasPrefix (ToLower w) ''w-'' then drop 2 w else w)
      in before_any {CHR ''_'', CHR ''-''} w)"

subsection \<open>The server\<close>

text \<open>
  What a request sees of the server's configuration. The services it calls are functions
  of the request: \<open>None\<close> for a client that is not configured. \<open>s_coordinator\<close> is what the
  failover coordinator answers during the request.
\<close>

record FraudSignals =
  fs_SourceWalletID :: string
  fs_DestinationWalletID :: string
  fs_AmountUnits :: int64
  fs_Currency :: string
  fs_Region :: string
  fs_Timestamp :: int
  fs_RecentTxnCount :: int
  fs_IsNewWalletPair :: bool
  fs_IsRoundNumber :: bool
  fs_CrossRegion :: bool

record FraudDecision =
  fd_RiskScore :: float64
  fd_Decision :: string
  fd_Reason :: string
  fd_Confidence :: float64

record ConvertCurrencyRequest =
  cc_IdempotencyKey :: string
  cc_QuoteId :: string
  cc_BaseCurrency :: string
  cc_TargetCurrency :: string
  cc_SourceAmount :: int64
  cc_ClientId :: string
  cc_ReferenceId :: string

record ConvertCurrencyResponse =
  cr_TargetAmount :: int64
  cr_EffectiveRate :: float64
  cr_QuoteId :: string

record RecordTransactionRequest =
  rt_TransactionId :: string
  rt_IdempotencyKey :: string
  rt_SourceWalletId :: string
  rt_DestinationWalletId :: string
  rt_Amount :: int64
  rt_Currency :: string
  rt_Region :: string
  rt_DestinationAmount :: int64
  rt_DestinationCurrency :: string
  rt_ExchangeRate :: float64
  rt_FxQuoteId :: string

record RecordTransactionResponse =
  rr_TransactionId :: string
  rr_Success :: bool
  rr_ErrorMessage :: gomsg

type_synonym fx_client = "ConvertCurrencyRequest \<Rightarrow> gomsg + ConvertCurrencyResponse option"
type_synonym ledger_client = "RecordTransactionRequest \<Rightarrow> gomsg + RecordTransactionResponse option"

record server =
  s_mongoClient :: bool
  s_fxClient :: "fx_client option"
  s_region :: string
  s_isActive :: bool
  s_targetRole :: string
  s_coordinator :: "(gomsg + string) option"
  s_outbox :: bool
  s_ledgerRelay :: "ledger_client option"
  s_fraudDetector :: "(FraudSignals \<Rightarrow> FraudDecision) option"

definition isWritable :: "server \<Rightarrow> bool" where
  "isWritable s =
     (case s_coordinator s of
        Some (Inl err) \<Rightarrow> False
      | Some (Inr target) \<Rightarrow> if s_targetRole s \<noteq> [] then target = s_targetRole s else s_isActive s
      | None \<Rightarrow> s_isActive s)"

definition HealthCheck :: "server \<Rightarrow> string \<times> string \<times> bool" where
  "HealthCheck s = (let active = isWritable s
                    in (if active then ''ACTIVE'' else ''STANDBY'', s_region s, active))"

definition errWalletIDRequired :: gomsg where
  "errWalletIDRequired = lit ''wallet_id is required''"

definition errStandbyReplicaFmt :: "server \<Rightarrow> gomsg" where
  "errStandbyReplicaFmt s =
     Msg ''instance is standby replica; write operations rejected (region: %s)'' [ArgS (s_region s)]"

definition walletServiceName :: string where
  "walletServiceName = ''wallet-service''"

subsection \<open>Access\<close>

definition forbidden :: "string \<Rightarrow> string \<Rightarrow> goerr" where
  "forbidden user walletID = StatusErr PermissionDenied
     (Msg ''forbidden: caller %s does not have access to wallet %s'' [ArgS user, ArgS walletID])"

definition owns_by_name :: "string \<Rightarrow> string \<Rightarrow> bool" where
  "owns_by_name callerID target \<longleftrightarrow>
     target = callerID
     \<or> HasPrefix target (callerID @ ''_'')
     \<or> HasPrefix target (callerID @ ''-'')
     \<or> HasPrefix target (''w-'' @ callerID @ ''-'')
     \<or> HasPrefix target (''w-'' @ callerID @ ''_'')"

definition verifyWalletAccessByWalletID ::
    "server \<Rightarrow> WalletModel collection_ops \<Rightarrow> metadata \<Rightarrow> string \<Rightarrow> WalletModel list \<Rightarrow> goerr option" where
  "verifyWalletAccessByWalletID s col ctx walletID ws =
     (let caller = callerFromContext ctx
      in if c_UserID caller = [] \<or> IsAdmin caller then None
         else if owns_by_name (ToLower (c_UserID caller)) (ToLower walletID) then None
         else if \<not> s_mongoClient s then Some (forbidden (c_UserID caller) walletID)
         else case FindOne col (\<lambda>w. w_ID w = walletID) None ws of
                Inr doc \<Rightarrow>
                  if w_OwnerID doc \<noteq> [] \<and> EqualFold (w_OwnerID doc) (c_UserID caller) then None
                  else Some (forbidden (c_UserID caller) walletID)
              | Inl err \<Rightarrow> Some (forbidden (c_UserID caller) walletID))"

subsection \<open>The wallet\<close>

definition EffectiveStatus :: "WalletModel \<Rightarrow> string" where
  "EffectiveStatus w = (if w_Status w = [] then WalletStatusActive else w_Status w)"

definition EffectiveKYCTier :: "WalletModel \<Rightarrow> string" where
  "EffectiveKYCTier w = (if w_KYCTier w = [] then KYCTier1 else w_KYCTier w)"

definition mk_money :: "string \<Rightarrow> int64 \<Rightarrow> Money" where
  "mk_money cur units =
     \<lparr>m_Currency = cur, m_Units = units, m_Nanos = 0, m_Scale = scale_or_0 cur,
      m_CurrencyCode = cur\<rparr>"

definition GetAllBalances :: "WalletModel \<Rightarrow> Money list" where
  "GetAllBalances w =
     (if w_Balances w \<noteq> []
      then sort_key m_Currency (map (\<lambda>(cur, units). mk_money cur units) (w_Balances w))
      else if w_Currency w \<noteq> []
      then (let cur = NormalizeCurrency (w_Currency w)
            in [\<lparr>m_Currency = w_Currency w, m_Units = w_Balance w, m_Nanos = 0,
                 m_Scale = scale_or_0 cur, m_CurrencyCode = cur\<rparr>])
      else [])"

definition WalletModel_GetBalance :: "WalletModel \<Rightarrow> string \<Rightarrow> int64" where
  "WalletModel_GetBalance w cur =
     (let cur = NormalizeCurrency cur
      in if w_Balances w \<noteq> [] then getz (w_Balances w) cur
         else if NormalizeCurrency (w_Currency w) = cur then w_Balance w
         else 0)"

definition HasSufficientBalance :: "WalletModel \<Rightarrow> string \<Rightarrow> int64 \<Rightarrow> bool" where
  "HasSufficientBalance w cur amount =
     (if amount \<le> 0 then False else amount \<le> WalletModel_GetBalance w cur)"

definition checkWalletStatus :: "WalletModel \<Rightarrow> string \<Rightarrow> (gomsg \<times> gomsg) option" where
  "checkWalletStatus w role =
     (if EffectiveStatus w = WalletStatusFrozen
      then Some (Msg ''%s wallet %s is FROZEN; transfers prohibited'' [ArgS role, ArgS (w_ID w)],
                 Msg ''%s wallet %s is FROZEN'' [ArgS role, ArgS (w_ID w)])
      else if EffectiveStatus w = WalletStatusClosed
      then Some (Msg ''%s wallet %s is CLOSED; transfers prohibited'' [ArgS role, ArgS (w_ID w)],
                 Msg ''%s wallet %s is CLOSED'' [ArgS role, ArgS (w_ID w)])
      else None)"

subsection \<open>Queries and updates on wallet documents\<close>

text \<open>
  The debit filter of transfers, exchanges and withdrawals: the pot of the currency holds
  the units, or the base balance of a wallet with that primary currency does. An absent
  pot or currency field never matches.
\<close>

definition debit_filter :: "string \<Rightarrow> string \<Rightarrow> int64 \<Rightarrow> WalletModel \<Rightarrow> bool" where
  "debit_filter walletID cur units w \<longleftrightarrow>
     w_ID w = walletID
     \<and> ((case map_of (w_Balances w) cur of Some v \<Rightarrow> units \<le> v | None \<Rightarrow> False)
        \<or> (w_Currency w = cur \<and> cur \<noteq> [] \<and> units \<le> w_Balance w))"

text \<open>
  \<open>$inc\<close> on pots and base balance with \<open>$set updated_at\<close>; an increment outside \<open>int64\<close> is refused.
\<close>

fun inc_pots :: "(string \<times> int64) list \<Rightarrow> (string, int64) gomap \<Rightarrow> (string, int64) gomap option" where
  "inc_pots [] m = Some m"
| "inc_pots ((c, n) # incs) m =
     (if fits64 (getz m c + n) then inc_pots incs (AList.update c (getz m c + n) m) else None)"

definition inc_wallet ::
    "(string \<times> int64) list \<Rightarrow> int64 option \<Rightarrow> int \<Rightarrow> WalletModel \<Rightarrow> WalletModel option" where
  "inc_wallet pots base now w =
     (case inc_pots pots (w_Balances w) of
        None \<Rightarrow> None
      | Some m \<Rightarrow>
          (case base of
             None \<Rightarrow> Some (w\<lparr>w_Balances := m, w_UpdatedAt := unix_second now\<rparr>)
           | Some n \<Rightarrow>
               if fits64 (w_Balance w + n)
               then Some (w\<lparr>w_Balances := m, w_Balance := w_Balance w + n,
                            w_UpdatedAt := unix_second now\<rparr>)
               else None))"

subsection \<open>Audit events\<close>

text \<open>
  An attribute is a Go value of type \<open>any\<close>: what the services put there, and what decoding JSON
  puts there.
\<close>

datatype attr_value = AttrS string | AttrD int | AttrF float64 | AttrMap "(string \<times> attr_value) list"
  | AttrNil | AttrB bool | AttrList "attr_value list"

definition sensitiveKeys :: "string list" where
  "sensitiveKeys =
    [''password'', ''passwd'', ''secret'', ''token'', ''access_token'', ''refresh_token'',
     ''authorization'', ''auth'', ''api_key'', ''apikey'', ''pin'', ''cvv'', ''credit_card'',
     ''card_number'']"

fun RedactValue :: "attr_value \<Rightarrow> attr_value"
  and RedactAttributes :: "(string \<times> attr_value) list \<Rightarrow> (string \<times> attr_value) list" where
  "RedactValue (AttrMap m) = AttrMap (RedactAttributes m)"
| "RedactValue (AttrS s) = AttrS s"
| "RedactValue (AttrD d) = AttrD d"
| "RedactValue (AttrF f) = AttrF f"
| "RedactValue AttrNil = AttrNil"
| "RedactValue (AttrB b) = AttrB b"
| "RedactValue (AttrList vs) = AttrList vs"
| "RedactAttributes [] = []"
| "RedactAttributes ((k, v) # rest) =
     (let lowerKey = ToLower (TrimSpace k)
      in if lowerKey \<in> set sensitiveKeys then (k, AttrS ''[REDACTED]'') # RedactAttributes rest
         else (k, RedactValue v) # RedactAttributes rest)"

record Correlation =
  co_AssociationID :: string
  co_TransactionID :: string
  co_IdempotencyKey :: string

record Event =
  ev_SchemaVersion :: int
  ev_EventID :: string
  ev_OccurredAt :: int
  ev_Service :: string
  ev_InstanceID :: string
  ev_Environment :: string
  ev_Region :: string
  ev_Level :: string
  ev_EventType :: string
  ev_Message :: string
  ev_AssociationID :: string
  ev_TransactionID :: string
  ev_IdempotencyKey :: string
  ev_ParentEventID :: string
  ev_DurationMS :: int64
  ev_Success :: "bool option"
  ev_Attributes :: "(string \<times> attr_value) list"

record OutboxEntry =
  oe_ID :: string
  oe_Status :: string
  oe_Attempts :: int
  oe_CreatedAt :: int
  oe_PublishedAt :: "int option"
  oe_Event :: Event

definition Outbox_Append ::
    "OutboxEntry collection_ops \<Rightarrow> string \<Rightarrow> int \<Rightarrow> Event \<Rightarrow> OutboxEntry list
       \<Rightarrow> OutboxEntry list \<times> mongo_error option" where
  "Outbox_Append col oid now event es =
     InsertOne col \<lparr>oe_ID = oid, oe_Status = ''pending'', oe_Attempts = 0, oe_CreatedAt = now,
                    oe_PublishedAt = None, oe_Event = event\<rparr> es"

definition firstMetadataValue :: "(string, string list) gomap \<Rightarrow> string \<Rightarrow> string" where
  "firstMetadataValue md k = (case md_Get md k of [] \<Rightarrow> [] | v # _ \<Rightarrow> v)"

text \<open>A context that carries no correlation yet, as at the start of every handler; \<open>fresh\<close> is
  the random identifier of \<open>NewAssociationID\<close>.\<close>

definition FromIncomingContext :: "string \<Rightarrow> metadata \<Rightarrow> Correlation" where
  "FromIncomingContext fresh ctx =
     (case ctx of
        None \<Rightarrow> \<lparr>co_AssociationID = [], co_TransactionID = [], co_IdempotencyKey = []\<rparr>
      | Some md \<Rightarrow>
          (let a = firstMetadataValue md ''x-association-id''
           in \<lparr>co_AssociationID = (if a = [] then fresh else a),
               co_TransactionID = firstMetadataValue md ''x-transaction-id'',
               co_IdempotencyKey = firstMetadataValue md ''x-idempotency-key''\<rparr>))"

subsection \<open>The invariant of a wallet\<close>

text \<open>
  A wallet as \<open>CreateWallet\<close> makes it: one pot for each currency, none of them negative, the
  base balance the balance of the pot of its primary currency. \<open>wallets_ok\<close> adds that the
  identifiers are distinct, which the unique index on \<open>_id\<close> gives.
\<close>

definition wallet_ok :: "WalletModel \<Rightarrow> bool" where
  "wallet_ok w \<longleftrightarrow>
     gomap_ok (w_Balances w) \<and> w_Currency w \<noteq> []
     \<and> map_of (w_Balances w) (w_Currency w) = Some (w_Balance w)
     \<and> list_all (\<lambda>(c, v). 0 \<le> v \<and> fits64 v) (w_Balances w)"

definition wallets_ok :: "WalletModel list \<Rightarrow> bool" where
  "wallets_ok ws \<longleftrightarrow> distinct (map w_ID ws) \<and> list_all wallet_ok ws"

text \<open>What all wallets together hold of a currency.\<close>

definition pot_total :: "string \<Rightarrow> WalletModel list \<Rightarrow> int" where
  "pot_total c ws = sum_list (map (\<lambda>w. getz (w_Balances w) c) ws)"

definition net_inc :: "(string \<times> int64) list \<Rightarrow> string \<Rightarrow> int" where
  "net_inc incs c = sum_list (map snd (filter (\<lambda>p. fst p = c) incs))"

lemma net_inc_simps [simp]:
  "net_inc [] c = 0"
  "net_inc ((c', n) # incs) c = (if c' = c then n else 0) + net_inc incs c"
  by (simp_all add: net_inc_def)

lemma inc_pots_getz: "inc_pots incs m = Some m' \<Longrightarrow> getz m' c = getz m c + net_inc incs c"
  by (induction incs m rule: inc_pots.induct) (auto simp: getz_update split: if_splits)

lemma inc_pots_ok: "inc_pots incs m = Some m' \<Longrightarrow> gomap_ok m \<Longrightarrow> gomap_ok m'"
  by (induction incs m rule: inc_pots.induct) (auto split: if_splits)

lemma fits64_0 [simp]: "fits64 0"
  by (simp add: fits64_def)

lemma list_all_getz:
  assumes "gomap_ok m" and "P 0"
  shows "list_all (\<lambda>(c, v). P v) m \<longleftrightarrow> (\<forall>c. P (getz m c))"
proof
  assume "list_all (\<lambda>(c, v). P v) m"
  then show "\<forall>c. P (getz m c)" using assms(2)
    by (auto simp: getz_def list_all_iff dest: map_of_SomeD split: option.splits)
next
  assume all: "\<forall>c. P (getz m c)"
  show "list_all (\<lambda>(c, v). P v) m"
    unfolding list_all_iff
  proof clarify
    fix c v assume "(c, v) \<in> set m"
    then have "getz m c = v" using assms(1) by (simp add: getz_def gomap_ok_def)
    then show "P v" using all by metis
  qed
qed

lemma inc_pots_fits:
  "inc_pots incs m = Some m' \<Longrightarrow> (\<forall>c. fits64 (getz m c)) \<Longrightarrow> fits64 (getz m' c)"
  by (induction incs m rule: inc_pots.induct) (auto simp: getz_update split: if_splits)

lemma inc_pots_defined:
  "inc_pots incs m = Some m' \<Longrightarrow> map_of m c \<noteq> None \<Longrightarrow> map_of m' c \<noteq> None"
  by (induction incs m rule: inc_pots.induct) (auto simp: update_conv' split: if_splits)

lemma wallet_ok_iff:
  "wallet_ok w \<longleftrightarrow> gomap_ok (w_Balances w) \<and> w_Currency w \<noteq> []
     \<and> map_of (w_Balances w) (w_Currency w) \<noteq> None
     \<and> getz (w_Balances w) (w_Currency w) = w_Balance w
     \<and> (\<forall>c. 0 \<le> getz (w_Balances w) c \<and> fits64 (getz (w_Balances w) c))"
  using list_all_getz [of "w_Balances w" "\<lambda>v. 0 \<le> v \<and> fits64 v"]
  by (auto simp: wallet_ok_def getz_def split: option.splits)

text \<open>What a successful \<open>$inc\<close> update does to a wallet.\<close>

lemma inc_wallet_Some:
  assumes "inc_wallet pots base now w = Some w'"
  shows "getz (w_Balances w') c = getz (w_Balances w) c + net_inc pots c"
    and "w_Balance w' = w_Balance w + (case base of None \<Rightarrow> 0 | Some n \<Rightarrow> n)"
    and "w_ID w' = w_ID w" and "w_Currency w' = w_Currency w" and "w_Status w' = w_Status w"
    and "w_KYCTier w' = w_KYCTier w" and "w_OwnerID w' = w_OwnerID w"
    and "gomap_ok (w_Balances w) \<Longrightarrow> gomap_ok (w_Balances w')"
    and "map_of (w_Balances w) c \<noteq> None \<Longrightarrow> map_of (w_Balances w') c \<noteq> None"
    and "(\<forall>c. fits64 (getz (w_Balances w) c)) \<Longrightarrow> fits64 (getz (w_Balances w') c)"
  using assms inc_pots_ok inc_pots_fits inc_pots_defined [where c = c]
  by (auto simp: inc_wallet_def inc_pots_getz split: option.splits if_splits)

lemma inc_wallet_ok [inv_intros]:
  assumes ok: "wallet_ok w" and upd: "inc_wallet pots base now w = Some w'"
    and base: "(case base of None \<Rightarrow> 0 | Some n \<Rightarrow> n) = net_inc pots (w_Currency w)"
    and nonneg: "\<And>c. 0 \<le> getz (w_Balances w) c + net_inc pots c"
  shows "wallet_ok w'"
proof -
  have "fits64 (getz (w_Balances w) c + net_inc pots c)" for c
    using inc_wallet_Some(10) [OF upd, of c] ok
    by (simp add: inc_wallet_Some(1) [OF upd] wallet_ok_iff)
  then show ?thesis using ok base nonneg unfolding wallet_ok_iff
    by (auto simp: inc_wallet_Some [OF upd])
qed

lemma debit_filter_covered:
  "wallet_ok w \<Longrightarrow> debit_filter i c u w \<Longrightarrow> u \<le> getz (w_Balances w) c"
  by (auto simp: wallet_ok_iff debit_filter_def getz_def split: option.splits)

lemma distinct_ids_eq:
  "distinct (map w_ID ws) \<Longrightarrow> w \<in> set ws \<Longrightarrow> w' \<in> set ws \<Longrightarrow> w_ID w = w_ID w' \<Longrightarrow> w = w'"
  by (auto simp: distinct_map inj_on_def)

lemma wallets_ok_update:
  assumes "wallets_ok ws" and "i < length ws" and "wallet_ok w'" and "w_ID w' = w_ID (ws ! i)"
  shows "wallets_ok (ws[i := w'])"
proof -
  have "map w_ID (ws[i := w']) = map w_ID ws"
    using assms(2,4) by (simp add: map_update list_update_same_conv)
  then show ?thesis using assms(1,3) set_update_subset_insert [of ws i w']
    by (auto simp: wallets_ok_def list_all_iff)
qed

lemma pot_total_update:
  "i < length ws \<Longrightarrow>
   pot_total c (ws[i := w']) = pot_total c ws - getz (w_Balances (ws ! i)) c + getz (w_Balances w') c"
  by (simp add: pot_total_def sum_list_update_nth)

lemma pot_total_append [simp]:
  "pot_total c (ws @ ws') = pot_total c ws + pot_total c ws'"
  by (simp add: pot_total_def)

lemma checkWalletStatus_None:
  "checkWalletStatus w role = None \<longleftrightarrow>
     EffectiveStatus w \<noteq> WalletStatusFrozen \<and> EffectiveStatus w \<noteq> WalletStatusClosed"
  by (auto simp: checkWalletStatus_def)

lemma wallet_ok_nonempty: "wallet_ok w \<Longrightarrow> w_Balances w \<noteq> []"
  by (auto simp: wallet_ok_def)

text \<open>On a sound wallet the balance query reads the pot.\<close>

lemma GetBalance_pot:
  "wallet_ok w \<Longrightarrow> WalletModel_GetBalance w c = getz (w_Balances w) (NormalizeCurrency c)"
  by (simp add: WalletModel_GetBalance_def wallet_ok_nonempty)

end
