(* ===== verification/Encoding.thy ===== *)
theory Encoding
  imports Prelude "HOL-Library.Word"
begin

text \<open>
  The encodings of Go's standard library that the ledger service and the Merkle trees rest
  on: SHA-256 (\<open>crypto/sha256\<close>, FIPS 180-4), lower-case hexadecimal (\<open>encoding/hex\<close>), string
  literals of \<open>encoding/json\<close>, decimal parsing (\<open>strconv\<close>) and standard Base64
  (\<open>encoding/base64\<close>). Bytes of a digest are integers between 0 and 255; bytes of a string
  are characters.
\<close>

unbundle bit_operations_syntax

subsection \<open>SHA-256\<close>

type_synonym w32 = "32 word"

definition sha_k :: "int list" where
  "sha_k =
   [1116352408, 1899447441, 3049323471, 3921009573, 961987163, 1508970993, 2453635748, 2870763221,
    3624381080, 310598401, 607225278, 1426881987, 1925078388, 2162078206, 2614888103, 3248222580,
    3835390401, 4022224774, 264347078, 604807628, 770255983, 1249150122, 1555081692, 1996064986,
    2554220882, 2821834349, 2952996808, 3210313671, 3336571891, 3584528711, 113926993, 338241895,
    666307205, 773529912, 1294757372, 1396182291, 1695183700, 1986661051, 2177026350, 2456956037,
    2730485921, 2820302411, 3259730800, 3345764771, 3516065817, 3600352804, 4094571909, 275423344,
    430227734, 506948616, 659060556, 883997877, 958139571, 1322822218, 1537002063, 1747873779,
    1955562222, 2024104815, 2227730452, 2361852424, 2428436474, 2756734187, 3204031479, 3329325298]"

definition sha_h0 :: "int list" where
  "sha_h0 =
   [1779033703, 3144134277, 1013904242, 2773480762, 1359893119, 2600822924, 528734635, 1541459225]"

definition rotr32 :: "nat \<Rightarrow> w32 \<Rightarrow> w32" where
  "rotr32 n x = drop_bit n x OR push_bit (32 - n) x"

text \<open>The message schedule, \<open>k\<close> words longer than the given one.\<close>

fun schedule :: "nat \<Rightarrow> w32 list \<Rightarrow> w32 list" where
  "schedule 0 ws = ws"
| "schedule (Suc k) ws =
     (let n = length ws;
          s0 = (let x = ws ! (n - 15) in rotr32 7 x XOR rotr32 18 x XOR drop_bit 3 x);
          s1 = (let x = ws ! (n - 2) in rotr32 17 x XOR rotr32 19 x XOR drop_bit 10 x)
      in schedule k (ws @ [ws ! (n - 16) + s0 + ws ! (n - 7) + s1]))"

fun sha_round :: "w32 \<Rightarrow> w32 \<Rightarrow> w32 list \<Rightarrow> w32 list" where
  "sha_round k w [a, b, c, d, e, f, g, h] =
     (let t1 = h + (rotr32 6 e XOR rotr32 11 e XOR rotr32 25 e) + ((e AND f) XOR (NOT e AND g)) + k + w;
          t2 = (rotr32 2 a XOR rotr32 13 a XOR rotr32 22 a) + ((a AND b) XOR (a AND c) XOR (b AND c))
      in [t1 + t2, a, b, c, d + t1, e, f, g])"
| "sha_round k w hs = hs"

fun be32 :: "int list \<Rightarrow> w32 list" where
  "be32 (a # b # c # d # rest) = of_int (((a * 256 + b) * 256 + c) * 256 + d) # be32 rest"
| "be32 _ = []"

definition sha_block :: "w32 list \<Rightarrow> int list \<Rightarrow> w32 list" where
  "sha_block hs bytes =
     map2 (+) hs (fold (\<lambda>(k, w) s. sha_round (of_int k) w s) (zip sha_k (schedule 48 (be32 bytes))) hs)"

definition sha_pad :: "int list \<Rightarrow> int list" where
  "sha_pad m =
     (let l = length m; z = (119 - l mod 64) mod 64
      in m @ [128] @ replicate z 0 @ map (\<lambda>i. (8 * int l) div 256 ^ (7 - i) mod 256) [0..<8])"

function sha_blocks :: "w32 list \<Rightarrow> int list \<Rightarrow> w32 list" where
  "sha_blocks hs m = (if m = [] then hs else sha_blocks (sha_block hs (take 64 m)) (drop 64 m))"
  by auto
termination by (relation "measure (length \<circ> snd)") auto

definition word_bytes :: "w32 \<Rightarrow> int list" where
  "word_bytes w = map (\<lambda>i. uint w div 256 ^ (3 - i) mod 256) [0..<4]"

definition Sum256 :: "string \<Rightarrow> int list" where
  "Sum256 s = concat (map word_bytes (sha_blocks (map of_int sha_h0) (sha_pad (map of_char s))))"

declare sha_blocks.simps [simp del]

lemma length_sha_round [simp]: "length (sha_round k w hs) = length hs"
  by (induction k w hs rule: sha_round.induct) (simp_all add: Let_def)

lemma length_sha_fold [simp]: "length (fold (\<lambda>(k, w) s. sha_round (of_int k) w s) kws hs) = length hs"
  by (induction kws arbitrary: hs) auto

lemma length_sha_block [simp]: "length (sha_block hs m) = length hs"
  by (simp add: sha_block_def)

lemma length_sha_blocks [simp]: "length (sha_blocks hs m) = length hs"
proof (induction hs m rule: sha_blocks.induct)
  case (1 hs m)
  then show ?case by (subst sha_blocks.simps) simp
qed

lemma length_word_bytes [simp]: "length (word_bytes w) = 4"
  by (simp add: word_bytes_def)

lemma length_Sum256 [simp]: "length (Sum256 s) = 32"
proof -
  have "length (concat (map word_bytes ws)) = 4 * length ws" for ws by (induction ws) auto
  then show ?thesis by (simp add: Sum256_def sha_h0_def)
qed

lemma byte_Sum256: "b \<in> set (Sum256 s) \<Longrightarrow> 0 \<le> b \<and> b < 256"
  by (auto simp: Sum256_def word_bytes_def)

subsection \<open>Hexadecimal\<close>

definition hex_digits :: string where "hex_digits = ''0123456789abcdef''"

definition hex_byte :: "int \<Rightarrow> string" where
  "hex_byte b = [hex_digits ! nat (b div 16), hex_digits ! nat (b mod 16)]"

definition hex_EncodeToString :: "int list \<Rightarrow> string" where
  "hex_EncodeToString bs = concat (map hex_byte bs)"

definition is_hex :: "char \<Rightarrow> bool" where
  "is_hex c \<longleftrightarrow> c \<in> set ''0123456789abcdefABCDEF''"

text \<open>The digest of a text, as every caller prints it.\<close>

definition sha256_hex :: "string \<Rightarrow> string" where
  "sha256_hex s = hex_EncodeToString (Sum256 s)"

lemma hex_byte_digits: "0 \<le> b \<Longrightarrow> b < 256 \<Longrightarrow> set (hex_byte b) \<subseteq> set hex_digits"
proof -
  assume "0 \<le> b" "b < 256"
  then have "nat (b div 16) < 16" "nat (b mod 16) < 16" by auto
  moreover have "length hex_digits = 16" by (simp add: hex_digits_def)
  ultimately show ?thesis by (auto simp: hex_byte_def)
qed

lemma length_hex [simp]: "length (hex_EncodeToString bs) = 2 * length bs"
  by (induction bs) (simp_all add: hex_EncodeToString_def hex_byte_def)

lemma length_sha256_hex [simp]: "length (sha256_hex s) = 64"
  by (simp add: sha256_hex_def)

lemma sha256_hex_nonempty [simp]: "sha256_hex s \<noteq> []" "[] \<noteq> sha256_hex s"
  using length_sha256_hex [of s] by (metis length_0_conv zero_neq_numeral)+

lemma sha256_hex_digits: "set (sha256_hex s) \<subseteq> set hex_digits"
proof -
  have "set (hex_byte b) \<subseteq> set hex_digits" if "b \<in> set (Sum256 s)" for b
    using byte_Sum256 [OF that] hex_byte_digits by blast
  then show ?thesis by (auto simp: sha256_hex_def hex_EncodeToString_def)
qed

text \<open>Trimming and lower-casing leave a digest alone.\<close>

lemma hex_digits_plain: "list_all (\<lambda>c. \<not> is_space c \<and> to_lower_char c = c) hex_digits"
  by code_simp

lemma hex_digit_plain: "c \<in> set hex_digits \<Longrightarrow> \<not> is_space c \<and> to_lower_char c = c"
  using hex_digits_plain by (simp add: list_all_iff)

lemma dropWhile_none: "list_all (\<lambda>c. \<not> P c) s \<Longrightarrow> dropWhile P s = s"
  by (cases s) auto

lemma TrimSpace_plain: "list_all (\<lambda>c. \<not> is_space c) s \<Longrightarrow> TrimSpace s = s"
  by (simp add: TrimSpace_def dropWhile_none)

lemma sha256_hex_clean [simp]: "ToLower (TrimSpace (sha256_hex s)) = sha256_hex s"
proof -
  have "TrimSpace (sha256_hex s) = sha256_hex s"
    by (rule TrimSpace_plain) (use sha256_hex_digits hex_digit_plain in \<open>auto simp: list_all_iff\<close>)
  moreover have "ToLower (sha256_hex s) = sha256_hex s"
    unfolding ToLower_def by (rule map_idI) (use sha256_hex_digits hex_digit_plain in blast)
  ultimately show ?thesis by simp
qed

subsection \<open>JSON\<close>

text \<open>
  A string literal as \<open>json.Marshal\<close> writes it: quotes and backslashes escaped, control
  characters by name or code, and the characters special to HTML by code. Bytes above 127
  are copied.
\<close>

definition json_char :: "char \<Rightarrow> string" where
  "json_char c =
     (let u = (\<lambda>n. [CHR 0x5C] @ ''u00'' @ hex_byte n)
      in if c = CHR 0x22 then [CHR 0x5C, CHR 0x22]
         else if c = CHR 0x5C then [CHR 0x5C, CHR 0x5C]
         else if c = CHR 0x08 then [CHR 0x5C] @ ''b''
         else if c = CHR 0x0C then [CHR 0x5C] @ ''f''
         else if c = CHR 0x0A then [CHR 0x5C] @ ''n''
         else if c = CHR 0x0D then [CHR 0x5C] @ ''r''
         else if c = CHR 0x09 then [CHR 0x5C] @ ''t''
         else if c \<in> set ''<>&'' \<or> (of_char c :: int) < 32 then u (of_char c)
         else [c])"

definition json_string :: "string \<Rightarrow> string" where
  "json_string s = [CHR 0x22] @ concat (map json_char s) @ [CHR 0x22]"

fun Join :: "string list \<Rightarrow> string \<Rightarrow> string" where
  "Join [] sep = []"
| "Join [s] sep = s"
| "Join (s # t # ts) sep = s @ sep @ Join (t # ts) sep"

subsection \<open>Decimal numbers\<close>

definition digit_value :: "char \<Rightarrow> int option" where
  "digit_value c = map_of (zip ''0123456789'' [0, 1, 2, 3, 4, 5, 6, 7, 8, 9]) c"

fun parse_digits :: "int \<Rightarrow> string \<Rightarrow> int option" where
  "parse_digits acc [] = Some acc"
| "parse_digits acc (c # cs) =
     (case digit_value c of None \<Rightarrow> None | Some d \<Rightarrow> parse_digits (10 * acc + d) cs)"

text \<open>\<open>strconv.ParseInt(s, 10, 64)\<close>: an optional sign, at least one digit, in range.\<close>

definition ParseInt :: "string \<Rightarrow> int option" where
  "ParseInt s =
     (let (neg, ds) = (case s of [] \<Rightarrow> (False, []) | c # cs \<Rightarrow>
            if c = CHR ''-'' then (True, cs) else if c = CHR ''+'' then (False, cs) else (False, s))
      in if ds = [] then None
         else case parse_digits 0 ds of
                None \<Rightarrow> None
              | Some n \<Rightarrow> (let v = (if neg then - n else n) in if fits64 v then Some v else None))"

lemma parse_digits_append:
  "parse_digits acc (s @ t) = (case parse_digits acc s of None \<Rightarrow> None | Some a \<Rightarrow> parse_digits a t)"
  by (induction acc s rule: parse_digits.induct) (auto split: option.splits)

lemma digit_table:
  "list_all (\<lambda>n. digit_value (''0123456789'' ! n) = Some (int n) \<and> (''0123456789'' ! n) \<noteq> CHR ''-''
     \<and> (''0123456789'' ! n) \<noteq> CHR ''+'') [0..<10]"
  by code_simp

lemma nth_digits:
  "n < 10 \<Longrightarrow> digit_value (''0123456789'' ! n) = Some (int n) \<and> (''0123456789'' ! n) \<noteq> CHR ''-''
     \<and> (''0123456789'' ! n) \<noteq> CHR ''+''"
  using digit_table by (auto simp: list_all_iff)

lemma parse_show_nat: "parse_digits 0 (show_nat n) = Some (int n)"
proof (induction n rule: show_nat.induct)
  case (1 n)
  show ?case
  proof (cases "n < 10")
    case True
    then show ?thesis by (subst show_nat.simps) (simp add: nth_digits)
  next
    case False
    have "digit_value (''0123456789'' ! (n mod 10)) = Some (int (n mod 10))" using nth_digits [of "n mod 10"] by simp
    moreover have "10 * int (n div 10) + int (n mod 10) = int n" by presburger
    ultimately show ?thesis using 1 False
      by (subst show_nat.simps) (simp add: parse_digits_append del: of_nat_mod of_nat_div)
  qed
qed

lemma show_nat_Cons: "\<exists>c cs. show_nat n = c # cs \<and> c \<noteq> CHR ''-'' \<and> c \<noteq> CHR ''+''"
proof (induction n rule: show_nat.induct)
  case (1 n)
  show ?case
  proof (cases "n < 10")
    case True
    then show ?thesis using nth_digits [of n] by (subst show_nat.simps) simp
  next
    case False
    with 1 obtain c cs where "show_nat (n div 10) = c # cs" "c \<noteq> CHR ''-''" "c \<noteq> CHR ''+''" by auto
    with False show ?thesis by (subst show_nat.simps) simp
  qed
qed

lemma ParseInt_show: "0 \<le> i \<Longrightarrow> fits64 i \<Longrightarrow> ParseInt (show_int i) = Some i"
  using show_nat_Cons [of "nat i"] parse_show_nat [of "nat i"]
  by (auto simp: ParseInt_def show_int_def)

subsection \<open>Base64\<close>

definition b64_alphabet :: string where
  "b64_alphabet = ''ABCDEFGHIJKLMNOPQRSTUVWXYZabcdefghijklmnopqrstuvwxyz0123456789+/''"

definition b64_digit :: "int \<Rightarrow> char" where
  "b64_digit n = b64_alphabet ! nat n"

definition b64_value :: "char \<Rightarrow> int option" where
  "b64_value c = map_of (zip b64_alphabet (map int [0..<64])) c"

fun b64_encode :: "int list \<Rightarrow> string" where
  "b64_encode [] = []"
| "b64_encode [a] = [b64_digit (a div 4), b64_digit (a mod 4 * 16), CHR ''='', CHR ''='']"
| "b64_encode [a, b] =
     [b64_digit (a div 4), b64_digit (a mod 4 * 16 + b div 16), b64_digit (b mod 16 * 4), CHR ''='']"
| "b64_encode (a # b # c # rest) =
     [b64_digit (a div 4), b64_digit (a mod 4 * 16 + b div 16), b64_digit (b mod 16 * 4 + c div 64),
      b64_digit (c mod 64)] @ b64_encode rest"

fun b64_decode :: "string \<Rightarrow> int list option" where
  "b64_decode [] = Some []"
| "b64_decode (w # x # y # z # rest) =
     (case (b64_value w, b64_value x) of
        (Some p, Some q) \<Rightarrow>
          if y = CHR ''='' \<and> z = CHR ''='' \<and> rest = [] then Some [p * 4 + q div 16]
          else (case b64_value y of
                  None \<Rightarrow> None
                | Some r \<Rightarrow>
                    if z = CHR ''='' \<and> rest = [] then Some [p * 4 + q div 16, q mod 16 * 16 + r div 4]
                    else (case (b64_value z, b64_decode rest) of
                            (Some t, Some bs) \<Rightarrow>
                              Some ([p * 4 + q div 16, q mod 16 * 16 + r div 4, r mod 4 * 64 + t] @ bs)
                          | _ \<Rightarrow> None))
      | _ \<Rightarrow> None)"
| "b64_decode _ = None"

text \<open>\<open>base64.StdEncoding\<close>: decoding skips carriage returns and line feeds.\<close>

definition base64_EncodeToString :: "string \<Rightarrow> string" where
  "base64_EncodeToString s = b64_encode (map of_char s)"

definition base64_DecodeString :: "string \<Rightarrow> string option" where
  "base64_DecodeString s =
     map_option (map char_of) (b64_decode (filter (\<lambda>c. c \<noteq> CHR 0x0A \<and> c \<noteq> CHR 0x0D) s))"

lemma b64_table:
  "list_all (\<lambda>n. b64_value (b64_digit (int n)) = Some (int n) \<and> b64_digit (int n) \<noteq> CHR ''=''
     \<and> b64_digit (int n) \<noteq> CHR 0x0A \<and> b64_digit (int n) \<noteq> CHR 0x0D) [0..<64]"
  by code_simp

lemma b64_digit_ok:
  assumes "0 \<le> i" and "i < 64"
  shows "b64_value (b64_digit i) = Some i" "b64_digit i \<noteq> CHR ''=''" "b64_digit i \<noteq> CHR 0x0A" "b64_digit i \<noteq> CHR 0x0D"
proof -
  have "nat i \<in> set [0..<64]" "int (nat i) = i" using assms by auto
  with b64_table show "b64_value (b64_digit i) = Some i" "b64_digit i \<noteq> CHR ''=''"
    "b64_digit i \<noteq> CHR 0x0A" "b64_digit i \<noteq> CHR 0x0D"
    unfolding list_all_iff by metis+
qed

definition byte :: "int \<Rightarrow> bool" where
  "byte b \<longleftrightarrow> 0 \<le> b \<and> b < 256"

text \<open>The four digits of a group, and how the bytes come back from them.\<close>

definition digit_ok :: "int \<Rightarrow> bool" where
  "digit_ok n \<longleftrightarrow> 0 \<le> n \<and> n < 64"

lemma digit_rules:
  assumes "digit_ok n"
  shows "b64_value (b64_digit n) = Some n" "(b64_digit n = CHR ''='') = False"
    "(b64_digit n = CHR 0x0A) = False" "(b64_digit n = CHR 0x0D) = False"
  using b64_digit_ok [of n] assms by (simp_all add: digit_ok_def)

lemma b64_parts:
  assumes "byte a"
  shows "digit_ok (a div 4)" "digit_ok (a mod 4 * 16)" "digit_ok (a mod 16 * 4)" "digit_ok (a mod 64)"
  using assms unfolding byte_def digit_ok_def by simp_all presburger+

lemma b64_joined:
  assumes "byte a" and "byte b"
  shows "digit_ok (a mod 4 * 16 + b div 16)" "digit_ok (a mod 16 * 4 + b div 64)"
proof -
  have "0 \<le> a mod 4" "a mod 4 < 4" "0 \<le> a mod 16" "a mod 16 < 16" by simp_all
  moreover have "0 \<le> b div 16" "b div 16 < 16" "0 \<le> b div 64" "b div 64 < 4" using assms by (auto simp: byte_def)
  ultimately show "digit_ok (a mod 4 * 16 + b div 16)" "digit_ok (a mod 16 * 4 + b div 64)"
    unfolding digit_ok_def by linarith+
qed

lemma b64_splits:
  assumes "byte b"
  shows "b div 16 div 16 = 0" "b div 16 mod 16 = b div 16" "b div 64 div 4 = 0" "b div 64 mod 4 = b div 64"
  using assms by (auto simp: byte_def)

lemma b64_decode_one: "byte a \<Longrightarrow> b64_decode (b64_encode [a]) = Some [a]"
  by (simp add: digit_rules b64_parts)

lemma b64_decode_two: "byte a \<Longrightarrow> byte b \<Longrightarrow> b64_decode (b64_encode [a, b]) = Some [a, b]"
  by (simp add: digit_rules b64_parts b64_joined b64_splits)

lemma b64_decode_three:
  "byte a \<Longrightarrow> byte b \<Longrightarrow> byte c \<Longrightarrow>
     b64_decode (b64_encode (a # b # c # rest)) = map_option (\<lambda>bs. a # b # c # bs) (b64_decode (b64_encode rest))"
  by (simp add: digit_rules b64_parts b64_joined b64_splits split: option.split)

lemma b64_roundtrip: "list_all byte bs \<Longrightarrow> b64_decode (b64_encode bs) = Some bs"
  by (induction bs rule: b64_encode.induct)
     (simp_all only: b64_decode_one b64_decode_two b64_decode_three list_all_iff list.set ball_simps, simp_all)

lemma b64_encode_plain:
  "list_all byte bs \<Longrightarrow> filter (\<lambda>c. c \<noteq> CHR 0x0A \<and> c \<noteq> CHR 0x0D) (b64_encode bs) = b64_encode bs"
  by (induction bs rule: b64_encode.induct) (simp_all add: digit_rules b64_parts b64_joined)

lemma base64_roundtrip [simp]: "base64_DecodeString (base64_EncodeToString s) = Some s"
proof -
  have "byte (of_char c)" for c
    using pos_mod_bound [of 256 "of_char c :: int"] pos_mod_sign [of 256 "of_char c :: int"]
    by (simp only: byte_def of_char_mod_256 zero_less_numeral)
  then have "list_all byte (map of_char s)" by (simp add: list_all_iff)
  then show ?thesis
    by (simp add: base64_DecodeString_def base64_EncodeToString_def b64_encode_plain b64_roundtrip comp_def)
qed

subsection \<open>Time\<close>

text \<open>
  A \<open>time.Time\<close> in UTC is the number of nanoseconds since 1970, as an unbounded integer;
  \<open>UnixNano\<close> reads it as an \<open>int64\<close>. \<open>time.RFC3339\<close> prints it to the second; the date is
  counted in years that start in March, in eras of 400 years.
\<close>

definition Truncate :: "int \<Rightarrow> int \<Rightarrow> int" where
  "Truncate t d = (if d \<le> 0 then t else t - t mod d)"

definition Millisecond :: int where "Millisecond = 1000000"
definition Second :: int where "Second = 1000000000"

definition UnixNano :: "int \<Rightarrow> int64" where
  "UnixNano t = wrap64 t"

definition two_digits :: "int \<Rightarrow> string" where
  "two_digits n = (if n < 10 then ''0'' else []) @ show_int n"

definition civil_date :: "int \<Rightarrow> int \<times> int \<times> int" where
  "civil_date days =
     (let z = days + 719468; era = z div 146097; doe = z - era * 146097;
          yoe = (doe - doe div 1460 + doe div 36524 - doe div 146096) div 365;
          doy = doe - (365 * yoe + yoe div 4 - yoe div 100); mp = (5 * doy + 2) div 153;
          d = doy - (153 * mp + 2) div 5 + 1; mo = (if mp < 10 then mp + 3 else mp - 9)
      in (yoe + era * 400 + (if mo \<le> 2 then 1 else 0), mo, d))"

definition four_digits :: "int \<Rightarrow> string" where
  "four_digits n = (let s = show_int n in replicate (4 - length s) (CHR ''0'') @ s)"

definition FormatRFC3339 :: "int \<Rightarrow> string" where
  "FormatRFC3339 t =
     (let secs = t div Second; days = secs div 86400; sod = secs mod 86400;
          (y, mo, d) = civil_date days
      in four_digits y @ ''-'' @ two_digits mo @ ''-'' @ two_digits d @ ''T''
         @ two_digits (sod div 3600) @ '':'' @ two_digits (sod mod 3600 div 60) @ '':''
         @ two_digits (sod mod 60) @ ''Z'')"

lemma Truncate_idem [simp]: "Truncate (Truncate t d) d = Truncate t d"
  by (simp add: Truncate_def)

end
