(* ===== verification/DoubleEntry.thy ===== *)
theory DoubleEntry
  imports WalletTypes Encoding
begin

text \<open>
  Double-entry postings and the hash chain of the ledger (\<open>cmd/ledger-service/double_entry.go\<close>):
  journal postings and their validation, the postings of transfers, deposits, withdrawals and
  cross-currency settlements, the hash of an entry and the audit of the whole chain.

  Account types and directions are strings, since stored documents may hold any. A cursor may
  fail between two documents: the code does not ask it for an error, so it sees a prefix.
\<close>

subsection \<open>Postings\<close>

definition GenesisHash :: string where
  "GenesisHash = replicate 64 (CHR ''0'')"

definition PostingDebit :: string where "PostingDebit = ''DEBIT''"
definition PostingCredit :: string where "PostingCredit = ''CREDIT''"

definition AccountTypeCustomerLiability :: string where
  "AccountTypeCustomerLiability = ''CUSTOMER_LIABILITY''"
definition AccountTypeSettlementAsset :: string where
  "AccountTypeSettlementAsset = ''SETTLEMENT_ASSET''"

record JournalPosting =
  p_AccountID :: string
  p_AccountType :: string
  p_Direction :: string
  p_Amount :: int64
  p_Currency :: string

type_synonym totals = "(string, int64) gomap"

definition add_total :: "string \<Rightarrow> int64 \<Rightarrow> totals \<Rightarrow> totals" where
  "add_total cur n m = AList.update cur (wrap64 (getz m cur + n)) m"

fun accumulate_from ::
    "int \<Rightarrow> JournalPosting list \<Rightarrow> totals \<Rightarrow> totals \<Rightarrow> gomsg + totals \<times> totals" where
  "accumulate_from i [] debits credits = Inr (debits, credits)"
| "accumulate_from i (p # ps) debits credits =
     (if p_AccountID p = [] then Inl (Msg ''posting [%d]: account_id is required'' [ArgD i])
      else if p_Amount p \<le> 0
      then Inl (Msg ''posting [%d]: amount must be positive, got %d'' [ArgD i, ArgD (p_Amount p)])
      else if p_Currency p = [] then Inl (Msg ''posting [%d]: currency is required'' [ArgD i])
      else if p_Direction p = PostingDebit
      then accumulate_from (i + 1) ps (add_total (p_Currency p) (p_Amount p) debits) credits
      else if p_Direction p = PostingCredit
      then accumulate_from (i + 1) ps debits (add_total (p_Currency p) (p_Amount p) credits)
      else Inl (Msg ''posting [%d]: invalid direction %q (must be DEBIT or CREDIT)''
                  [ArgD i, ArgS (p_Direction p)]))"

definition accumulatePostingTotals :: "JournalPosting list \<Rightarrow> gomsg + totals \<times> totals" where
  "accumulatePostingTotals postings = accumulate_from 0 postings [] []"

definition checkCurrencyEquilibrium :: "totals \<Rightarrow> totals \<Rightarrow> gomsg option" where
  "checkCurrencyEquilibrium debits credits =
     (case find (\<lambda>(cur, debitSum). debitSum \<noteq> getz credits cur) debits of
        Some (cur, debitSum) \<Rightarrow>
          Some (Msg ''unbalanced double-entry entry for currency %s: debits=%d credits=%d (diff=%d)''
            [ArgS cur, ArgD debitSum, ArgD (getz credits cur), ArgD (wrap64 (debitSum - getz credits cur))])
      | None \<Rightarrow>
          (case find (\<lambda>(cur, creditSum). map_of debits cur = None) credits of
             Some (cur, creditSum) \<Rightarrow>
               Some (Msg ''unbalanced double-entry entry for currency %s: debits=0 credits=%d''
                 [ArgS cur, ArgD creditSum])
           | None \<Rightarrow> None))"

definition ValidatePostings :: "JournalPosting list \<Rightarrow> gomsg option" where
  "ValidatePostings postings =
     (if length postings < 2
      then Some (Msg ''double-entry journal entry must have at least 2 postings (got %d)''
                   [ArgD (int (length postings))])
      else case accumulatePostingTotals postings of
             Inl err \<Rightarrow> Some err
           | Inr (debits, credits) \<Rightarrow> checkCurrencyEquilibrium debits credits)"

definition DetermineAccountType :: "string \<Rightarrow> string" where
  "DetermineAccountType accountID =
     (if HasPrefix accountID ''EXTERNAL_CLEARING_'' \<or> HasPrefix accountID ''CLEARING_''
         \<or> HasPrefix accountID ''FX_LIQUIDITY_POOL_''
      then AccountTypeSettlementAsset else AccountTypeCustomerLiability)"

definition posting :: "string \<Rightarrow> string \<Rightarrow> string \<Rightarrow> int64 \<Rightarrow> string \<Rightarrow> JournalPosting" where
  "posting acc ty dir amount cur =
     \<lparr>p_AccountID = acc, p_AccountType = ty, p_Direction = dir, p_Amount = amount, p_Currency = cur\<rparr>"

definition validated :: "JournalPosting list \<Rightarrow> gomsg + JournalPosting list" where
  "validated postings = (case ValidatePostings postings of Some err \<Rightarrow> Inl err | None \<Rightarrow> Inr postings)"

definition CreateTransferPostings ::
    "string \<Rightarrow> string \<Rightarrow> int64 \<Rightarrow> string \<Rightarrow> gomsg + JournalPosting list" where
  "CreateTransferPostings sourceWalletID destWalletID amount currency =
     validated
       [posting sourceWalletID (DetermineAccountType sourceWalletID) PostingDebit amount currency,
        posting destWalletID (DetermineAccountType destWalletID) PostingCredit amount currency]"

definition rail_account :: "string \<Rightarrow> string \<Rightarrow> string \<Rightarrow> string" where
  "rail_account dflt rail currency =
     (let railStr = ToUpper (TrimSpace rail)
      in ''EXTERNAL_CLEARING_'' @ (if railStr = [] then dflt else railStr) @ ''_'' @ currency)"

definition CreateDepositPostings ::
    "string \<Rightarrow> string \<Rightarrow> int64 \<Rightarrow> string \<Rightarrow> gomsg + JournalPosting list" where
  "CreateDepositPostings walletID rail amount currency =
     CreateTransferPostings (rail_account ''CARD'' rail currency) walletID amount currency"

definition CreateWithdrawalPostings ::
    "string \<Rightarrow> string \<Rightarrow> int64 \<Rightarrow> string \<Rightarrow> gomsg + JournalPosting list" where
  "CreateWithdrawalPostings walletID rail amount currency =
     CreateTransferPostings walletID (rail_account ''ACH'' rail currency) amount currency"

definition fx_pool :: "string \<Rightarrow> string" where
  "fx_pool cur = ''FX_LIQUIDITY_POOL_'' @ cur"

definition CreateMultiCurrencyTransferPostings ::
    "string \<Rightarrow> string \<Rightarrow> int64 \<Rightarrow> string \<Rightarrow> int64 \<Rightarrow> string \<Rightarrow> gomsg + JournalPosting list" where
  "CreateMultiCurrencyTransferPostings sourceWalletID destWalletID sourceAmount sourceCurrency destAmount destCurrency =
     (if destCurrency = [] \<or> destCurrency = sourceCurrency \<or> destAmount \<le> 0
         \<or> destAmount = sourceAmount \<and> destCurrency = sourceCurrency
      then CreateTransferPostings sourceWalletID destWalletID sourceAmount sourceCurrency
      else validated
        [posting sourceWalletID AccountTypeCustomerLiability PostingDebit sourceAmount sourceCurrency,
         posting (fx_pool sourceCurrency) AccountTypeSettlementAsset PostingCredit
           sourceAmount sourceCurrency,
         posting (fx_pool destCurrency) AccountTypeSettlementAsset PostingDebit
           destAmount destCurrency,
         posting destWalletID AccountTypeCustomerLiability PostingCredit destAmount destCurrency])"

subsection \<open>The hash of an entry\<close>

definition json_posting :: "JournalPosting \<Rightarrow> string" where
  "json_posting p =
     [CHR ''{''] @ json_string ''account_id'' @ '':'' @ json_string (p_AccountID p) @ '',''
     @ json_string ''account_type'' @ '':'' @ json_string (p_AccountType p) @ '',''
     @ json_string ''direction'' @ '':'' @ json_string (p_Direction p) @ '',''
     @ json_string ''amount'' @ '':'' @ show_int (p_Amount p) @ '',''
     @ json_string ''currency'' @ '':'' @ json_string (p_Currency p) @ [CHR ''}'']"

text \<open>\<open>json.Marshal\<close> of a slice; a document without postings decodes to the nil slice.\<close>

definition json_postings :: "JournalPosting list \<Rightarrow> string" where
  "json_postings ps = (if ps = [] then ''null'' else ''['' @ Join (map json_posting ps) '','' @ '']'')"

definition canonical ::
    "string \<Rightarrow> int64 \<Rightarrow> string \<Rightarrow> string \<Rightarrow> int \<Rightarrow> JournalPosting list \<Rightarrow> string" where
  "canonical previousHash sequenceNumber txID idempKey ts postings =
     previousHash @ ''|'' @ show_int sequenceNumber @ ''|'' @ txID @ ''|'' @ idempKey @ ''|''
     @ show_int (UnixNano (Truncate ts Millisecond)) @ ''|'' @ json_postings postings"

definition ComputeEntryHash ::
    "string \<Rightarrow> int64 \<Rightarrow> string \<Rightarrow> string \<Rightarrow> int \<Rightarrow> JournalPosting list \<Rightarrow> string" where
  "ComputeEntryHash previousHash sequenceNumber txID idempKey ts postings =
     sha256_hex (canonical previousHash sequenceNumber txID idempKey ts postings)"

subsection \<open>The audit\<close>

text \<open>An \<open>ObjectID\<close> is its 24 lower-case hexadecimal digits.\<close>

record LedgerDocument =
  ld_ID :: string
  ld_SequenceNumber :: int64
  ld_IdempotencyKey :: string
  ld_SourceWalletID :: string
  ld_DestinationWalletID :: string
  ld_Amount :: int64
  ld_Currency :: string
  ld_DestinationAmount :: int64
  ld_DestinationCurrency :: string
  ld_ExchangeRate :: float64
  ld_FXQuoteID :: string
  ld_Region :: string
  ld_Timestamp :: int
  ld_Postings :: "JournalPosting list"
  ld_PreviousHash :: string
  ld_EntryHash :: string

record AuditVerificationResult =
  av_Status :: string
  av_TotalEntries :: int64
  av_TotalDebits :: totals
  av_TotalCredits :: totals
  av_IsBalanced :: bool
  av_GenesisHash :: string
  av_LatestHash :: string
  av_LastSequence :: int64
  av_TamperedEntrySeq :: int64
  av_ErrorMessage :: gomsg

definition doc_canonical :: "LedgerDocument \<Rightarrow> string" where
  "doc_canonical doc = canonical (ld_PreviousHash doc) (ld_SequenceNumber doc) (ld_ID doc)
     (ld_IdempotencyKey doc) (ld_Timestamp doc) (ld_Postings doc)"

definition verifyDocIntegrity :: "LedgerDocument \<Rightarrow> int64 \<Rightarrow> string \<Rightarrow> gomsg option" where
  "verifyDocIntegrity doc expectedSeq expectedPrevHash =
     (if ld_SequenceNumber doc \<noteq> expectedSeq
      then Some (Msg ''sequence gap detected: expected %d, got %d''
                   [ArgD expectedSeq, ArgD (ld_SequenceNumber doc)])
      else if ld_PreviousHash doc \<noteq> expectedPrevHash
      then Some (Msg ''hash chain broken at sequence %d: expected previous_hash %q, got %q''
                   [ArgD (ld_SequenceNumber doc), ArgS expectedPrevHash, ArgS (ld_PreviousHash doc)])
      else let computed = ComputeEntryHash (ld_PreviousHash doc) (ld_SequenceNumber doc) (ld_ID doc)
                            (ld_IdempotencyKey doc) (ld_Timestamp doc) (ld_Postings doc)
           in if ld_EntryHash doc \<noteq> computed
              then Some (Msg ''tamper detected at sequence %d: recorded hash %q does not match computed hash %q''
                           [ArgD (ld_SequenceNumber doc), ArgS (ld_EntryHash doc), ArgS computed])
              else case ValidatePostings (ld_Postings doc) of
                     Some err \<Rightarrow> Some (Msg ''unbalanced posting at sequence %d: %v''
                                         [ArgD (ld_SequenceNumber doc), ArgE err])
                   | None \<Rightarrow> None)"

definition add_posting :: "JournalPosting \<Rightarrow> AuditVerificationResult \<Rightarrow> AuditVerificationResult" where
  "add_posting p result =
     (if p_Direction p = PostingDebit
      then result\<lparr>av_TotalDebits := add_total (p_Currency p) (p_Amount p) (av_TotalDebits result)\<rparr>
      else if p_Direction p = PostingCredit
      then result\<lparr>av_TotalCredits := add_total (p_Currency p) (p_Amount p) (av_TotalCredits result)\<rparr>
      else result)"

definition accumulateDocPostings :: "LedgerDocument \<Rightarrow> AuditVerificationResult \<Rightarrow> AuditVerificationResult" where
  "accumulateDocPostings doc result = fold add_posting (ld_Postings doc) result"

definition checkTrialBalanceEquilibrium :: "AuditVerificationResult \<Rightarrow> AuditVerificationResult" where
  "checkTrialBalanceEquilibrium result =
     (case find (\<lambda>(cur, debitTotal). debitTotal \<noteq> getz (av_TotalCredits result) cur) (av_TotalDebits result) of
        None \<Rightarrow> result
      | Some (cur, debitTotal) \<Rightarrow>
          result\<lparr>av_IsBalanced := False, av_Status := ''TRIAL_BALANCE_UNBALANCED'',
            av_ErrorMessage := Msg ''ledger-wide trial balance discrepancy in %s: debits=%d, credits=%d''
              [ArgS cur, ArgD debitTotal, ArgD (getz (av_TotalCredits result) cur)]\<rparr>)"

definition initial_result :: AuditVerificationResult where
  "initial_result =
     \<lparr>av_Status = ''VERIFIED'', av_TotalEntries = 0, av_TotalDebits = [], av_TotalCredits = [],
      av_IsBalanced = True, av_GenesisHash = GenesisHash, av_LatestHash = [], av_LastSequence = 0,
      av_TamperedEntrySeq = 0, av_ErrorMessage = lit []\<rparr>"

text \<open>The loop over the cursor; \<open>Inl\<close> is the return out of the loop at a corrupted entry.\<close>

fun verify_loop ::
    "LedgerDocument list \<Rightarrow> int64 \<Rightarrow> string \<Rightarrow> AuditVerificationResult
       \<Rightarrow> AuditVerificationResult + AuditVerificationResult" where
  "verify_loop [] expectedSeq expectedPrevHash result = Inr result"
| "verify_loop (doc # docs) expectedSeq expectedPrevHash result =
     (case verifyDocIntegrity doc expectedSeq expectedPrevHash of
        Some errMsg \<Rightarrow>
          Inl (result\<lparr>av_Status := ''CORRUPTED'', av_TamperedEntrySeq := ld_SequenceNumber doc,
                      av_ErrorMessage := errMsg\<rparr>)
      | None \<Rightarrow>
          (let result = accumulateDocPostings doc result
           in verify_loop docs (wrap64 (expectedSeq + 1)) (ld_EntryHash doc)
                (result\<lparr>av_TotalEntries := wrap64 (av_TotalEntries result + 1),
                        av_LatestHash := ld_EntryHash doc, av_LastSequence := ld_SequenceNumber doc\<rparr>)))"

definition cursor_docs :: "nat option \<Rightarrow> 'd list \<Rightarrow> 'd list" where
  "cursor_docs stop docs = (case stop of None \<Rightarrow> docs | Some n \<Rightarrow> take n docs)"

definition sequenced :: "LedgerDocument \<Rightarrow> bool" where
  "sequenced d \<longleftrightarrow> 0 < ld_SequenceNumber d"

definition VerifyAuditChain ::
    "LedgerDocument collection_ops \<Rightarrow> nat option \<Rightarrow> LedgerDocument list \<Rightarrow> gomsg + AuditVerificationResult" where
  "VerifyAuditChain col stop ds =
     (case Find col sequenced ld_SequenceNumber 0 None ds of
        Inl err \<Rightarrow> Inl (Msg ''failed to query ledger entries for verification: %w'' [ArgE (err_msg err)])
      | Inr docs \<Rightarrow>
          (case verify_loop (cursor_docs stop docs) 1 GenesisHash initial_result of
             Inl result \<Rightarrow> Inr result
           | Inr result \<Rightarrow> Inr (checkTrialBalanceEquilibrium result)))"

subsection \<open>What validation accepts\<close>

text \<open>The exact totals of a list of postings, without wrap-around.\<close>

definition side_sum :: "string \<Rightarrow> string \<Rightarrow> JournalPosting list \<Rightarrow> int" where
  "side_sum dir c ps =
     sum_list (map p_Amount (filter (\<lambda>p. p_Direction p = dir \<and> p_Currency p = c) ps))"

definition side_currencies :: "string \<Rightarrow> JournalPosting list \<Rightarrow> string set" where
  "side_currencies dir ps = p_Currency ` {p \<in> set ps. p_Direction p = dir}"

definition posting_ok :: "JournalPosting \<Rightarrow> bool" where
  "posting_ok p \<longleftrightarrow> p_AccountID p \<noteq> [] \<and> 0 < p_Amount p \<and> p_Currency p \<noteq> []
     \<and> (p_Direction p = PostingDebit \<or> p_Direction p = PostingCredit)"

definition balanced :: "JournalPosting list \<Rightarrow> bool" where
  "balanced ps \<longleftrightarrow> (\<forall>c. side_sum PostingDebit c ps = side_sum PostingCredit c ps)"

lemma side_sum_simps [simp]:
  "side_sum dir c [] = 0"
  "side_sum dir c (p # ps) =
     (if p_Direction p = dir \<and> p_Currency p = c then p_Amount p else 0) + side_sum dir c ps"
  by (simp_all add: side_sum_def)

lemma side_currencies_simps [simp]:
  "side_currencies dir [] = {}"
  "side_currencies dir (p # ps) =
     (if p_Direction p = dir then {p_Currency p} else {}) \<union> side_currencies dir ps"
  by (auto simp: side_currencies_def)

lemma posting_fields [simp]:
  "p_AccountID (posting a ty dir n c) = a" "p_AccountType (posting a ty dir n c) = ty"
  "p_Direction (posting a ty dir n c) = dir" "p_Amount (posting a ty dir n c) = n"
  "p_Currency (posting a ty dir n c) = c"
  by (simp_all add: posting_def)

lemma fx_pool_nonempty [simp]: "fx_pool c \<noteq> []"
  by (simp add: fx_pool_def)

lemma side_sum_append [simp]: "side_sum dir c (ps @ qs) = side_sum dir c ps + side_sum dir c qs"
  by (simp add: side_sum_def)

lemma debit_not_credit [simp]: "PostingDebit \<noteq> PostingCredit" "PostingCredit \<noteq> PostingDebit"
  by (simp_all add: PostingDebit_def PostingCredit_def)

lemma wrap64_add [simp]:
  "wrap64 (wrap64 x + y) = wrap64 (x + y)" "wrap64 (x + wrap64 y) = wrap64 (x + y)"
  by (simp_all add: wrap64_def mod_simps algebra_simps)

lemma getz_add_total: "getz (add_total cur n m) c = (if c = cur then wrap64 (getz m cur + n) else getz m c)"
  by (simp add: add_total_def getz_update)

lemma gomap_ok_add_total [simp]: "gomap_ok m \<Longrightarrow> gomap_ok (add_total cur n m)"
  by (simp add: add_total_def)

lemma dom_add_total [simp]: "dom (map_of (add_total cur n m)) = insert cur (dom (map_of m))"
  by (auto simp: add_total_def update_conv' split: if_splits)

definition totals_ok :: "totals \<Rightarrow> bool" where
  "totals_ok m \<longleftrightarrow> gomap_ok m \<and> (\<forall>c. fits64 (getz m c))"

lemma totals_ok_add [simp]: "totals_ok m \<Longrightarrow> totals_ok (add_total cur n m)"
  by (simp add: totals_ok_def getz_add_total)

lemma accumulate_from_result:
  assumes "accumulate_from i ps d c = Inr (d', c')" and "totals_ok d" and "totals_ok c"
  shows "list_all posting_ok ps \<and> totals_ok d' \<and> totals_ok c'
    \<and> (\<forall>k. getz d' k = wrap64 (getz d k + side_sum PostingDebit k ps))
    \<and> (\<forall>k. getz c' k = wrap64 (getz c k + side_sum PostingCredit k ps))
    \<and> dom (map_of d') = dom (map_of d) \<union> side_currencies PostingDebit ps
    \<and> dom (map_of c') = dom (map_of c) \<union> side_currencies PostingCredit ps"
  using assms
proof (induction i ps d c rule: accumulate_from.induct)
  case (1 i d c)
  then show ?case by (auto simp: totals_ok_def)
next
  case (2 i p ps d c)
  show ?case
  proof (cases "p_Direction p = PostingDebit")
    case True
    with 2 show ?thesis
      by (auto simp: posting_ok_def getz_add_total add.assoc split: if_splits)
  next
    case False
    with 2 show ?thesis
      by (auto simp: posting_ok_def getz_add_total add.assoc split: if_splits)
  qed
qed

lemma accumulate_from_ok: "list_all posting_ok ps \<Longrightarrow> \<exists>dc. accumulate_from i ps d c = Inr dc"
  by (induction i ps d c rule: accumulate_from.induct) (auto simp: posting_ok_def)

lemma find_pair_None:
  assumes "gomap_ok m"
  shows "find (\<lambda>(k, v). Q k v) m = None \<longleftrightarrow> (\<forall>k \<in> dom (map_of m). \<not> Q k (getz m k))"
proof -
  have "(k, v) \<in> set m \<longleftrightarrow> map_of m k = Some v" for k v using assms by (simp add: gomap_ok_def)
  then have "find (\<lambda>(k, v). Q k v) m = None \<longleftrightarrow> (\<forall>k v. map_of m k = Some v \<longrightarrow> \<not> Q k v)"
    by (auto simp: find_None_iff)
  also have "\<dots> \<longleftrightarrow> (\<forall>k \<in> dom (map_of m). \<not> Q k (getz m k))" by (simp add: getz_def dom_def) fastforce
  finally show ?thesis .
qed

lemma checkCurrencyEquilibrium_None:
  assumes "gomap_ok d" and "gomap_ok c"
  shows "checkCurrencyEquilibrium d c = None \<longleftrightarrow>
    (\<forall>k. getz d k = getz c k) \<and> dom (map_of c) \<subseteq> dom (map_of d)"
proof -
  have absent: "getz d k = 0" "getz c k = 0" if "k \<notin> dom (map_of d)" "dom (map_of c) \<subseteq> dom (map_of d)" for k
    using that by (auto simp: getz_def domIff split: option.splits)
  have "checkCurrencyEquilibrium d c = None \<longleftrightarrow>
      (\<forall>k \<in> dom (map_of d). getz d k = getz c k) \<and> (\<forall>k \<in> dom (map_of c). map_of d k \<noteq> None)"
    using find_pair_None [OF assms(1), of "\<lambda>k v. v \<noteq> getz c k"]
      find_pair_None [OF assms(2), of "\<lambda>k v. map_of d k = None"]
    by (auto simp: checkCurrencyEquilibrium_def split: option.splits)
  also have "\<dots> \<longleftrightarrow> (\<forall>k. getz d k = getz c k) \<and> dom (map_of c) \<subseteq> dom (map_of d)"
  proof
    assume a: "(\<forall>k \<in> dom (map_of d). getz d k = getz c k) \<and> (\<forall>k \<in> dom (map_of c). map_of d k \<noteq> None)"
    then have "dom (map_of c) \<subseteq> dom (map_of d)" by (auto simp: domIff)
    with a absent show "(\<forall>k. getz d k = getz c k) \<and> dom (map_of c) \<subseteq> dom (map_of d)" by metis
  qed (auto simp: domIff)
  finally show ?thesis .
qed

lemma ValidatePostings_None:
  "ValidatePostings ps = None \<longleftrightarrow>
     2 \<le> length ps \<and> list_all posting_ok ps
     \<and> (\<forall>c. wrap64 (side_sum PostingDebit c ps) = wrap64 (side_sum PostingCredit c ps))
     \<and> side_currencies PostingCredit ps \<subseteq> side_currencies PostingDebit ps"
proof (cases "accumulate_from 0 ps [] []")
  case (Inl e)
  with accumulate_from_ok [of ps 0 "[]" "[]"] have "\<not> list_all posting_ok ps" by auto
  with Inl show ?thesis by (auto simp: ValidatePostings_def accumulatePostingTotals_def)
next
  case (Inr dc)
  obtain d c where dc: "dc = (d, c)" by fastforce
  have "totals_ok []" by (simp add: totals_ok_def gomap_ok_def getz_def fits64_def)
  with accumulate_from_result [of 0 ps "[]" "[]" d c] Inr dc
  show ?thesis
    by (auto simp: ValidatePostings_def accumulatePostingTotals_def checkCurrencyEquilibrium_None totals_ok_def getz_def)
qed

lemma validated_Inr: "validated ps = Inr qs \<longleftrightarrow> qs = ps \<and> ValidatePostings ps = None"
  by (auto simp: validated_def split: option.splits)

lemma two_legs_valid:
  "ValidatePostings [posting a ta PostingDebit n c, posting b tb PostingCredit n c] = None
     \<longleftrightarrow> a \<noteq> [] \<and> b \<noteq> [] \<and> 0 < n \<and> c \<noteq> []"
  by (auto simp: ValidatePostings_None posting_ok_def)

lemma four_legs_valid:
  "c \<noteq> c' \<Longrightarrow>
   ValidatePostings [posting a ta PostingDebit n c, posting (fx_pool c) t1 PostingCredit n c,
                     posting (fx_pool c') t2 PostingDebit m c', posting b tb PostingCredit m c'] = None
     \<longleftrightarrow> a \<noteq> [] \<and> b \<noteq> [] \<and> 0 < n \<and> 0 < m \<and> c \<noteq> [] \<and> c' \<noteq> []"
  by (auto simp: ValidatePostings_None posting_ok_def)

text \<open>The postings of a request are exactly balanced in every currency, without wrap-around.\<close>

lemma multi_currency_balanced:
  assumes "CreateMultiCurrencyTransferPostings s d n c n' c' = Inr ps"
  shows "balanced ps" "ValidatePostings ps = None" "s \<noteq> []" "d \<noteq> []" "0 < n" "c \<noteq> []"
  using assms
  by (auto simp: CreateMultiCurrencyTransferPostings_def CreateTransferPostings_def validated_Inr
      two_legs_valid four_legs_valid balanced_def split: if_splits)

lemma multi_currency_defined:
  "s \<noteq> [] \<Longrightarrow> d \<noteq> [] \<Longrightarrow> 0 < n \<Longrightarrow> c \<noteq> [] \<Longrightarrow>
   \<exists>ps. CreateMultiCurrencyTransferPostings s d n c n' c' = Inr ps"
  by (auto simp: CreateMultiCurrencyTransferPostings_def CreateTransferPostings_def validated_Inr
      two_legs_valid four_legs_valid)

subsection \<open>What the audit establishes\<close>

text \<open>
  A chain of entries: consecutive sequence numbers from \<open>n\<close>, each entry carrying the hash of
  the one before it (\<open>h\<close> for the first) and the hash of its own canonical text, and balanced.
\<close>

fun linked :: "int \<Rightarrow> string \<Rightarrow> LedgerDocument list \<Rightarrow> bool" where
  "linked n h [] \<longleftrightarrow> True"
| "linked n h (d # ds) \<longleftrightarrow>
     ld_SequenceNumber d = n \<and> ld_PreviousHash d = h \<and> ld_EntryHash d = sha256_hex (doc_canonical d)
     \<and> ValidatePostings (ld_Postings d) = None \<and> linked (n + 1) (ld_EntryHash d) ds"

definition all_postings :: "LedgerDocument list \<Rightarrow> JournalPosting list" where
  "all_postings docs = concat (map ld_Postings docs)"

definition last_hash :: "string \<Rightarrow> LedgerDocument list \<Rightarrow> string" where
  "last_hash h docs = (if docs = [] then h else ld_EntryHash (last docs))"

lemma linked_append:
  "linked n h (ds @ es) \<longleftrightarrow> linked n h ds \<and> linked (n + int (length ds)) (last_hash h ds) es"
  by (induction n h ds rule: linked.induct) (auto simp: last_hash_def algebra_simps)

lemma linked_take: "linked n h ds \<Longrightarrow> linked n h (take k ds)"
  using linked_append [of n h "take k ds" "drop k ds"] by simp

lemma linked_nth: "linked n h ds \<Longrightarrow> i < length ds \<Longrightarrow> ld_SequenceNumber (ds ! i) = n + int i"
proof (induction n h ds arbitrary: i rule: linked.induct)
  case (2 n h d ds)
  then show ?case by (cases i) auto
qed simp

lemma verifyDocIntegrity_None:
  "verifyDocIntegrity d n h = None \<longleftrightarrow>
     ld_SequenceNumber d = n \<and> ld_PreviousHash d = h \<and> ld_EntryHash d = sha256_hex (doc_canonical d)
     \<and> ValidatePostings (ld_Postings d) = None"
  by (auto simp: verifyDocIntegrity_def ComputeEntryHash_def doc_canonical_def Let_def split: option.splits)

text \<open>Adding up postings changes nothing of a result but its totals.\<close>

lemma fold_add_posting:
  fixes r :: AuditVerificationResult
  assumes "totals_ok (av_TotalDebits r)" and "totals_ok (av_TotalCredits r)"
  shows "(let r' = fold add_posting ps r in
     totals_ok (av_TotalDebits r') \<and> totals_ok (av_TotalCredits r')
     \<and> (\<forall>c. getz (av_TotalDebits r') c = wrap64 (getz (av_TotalDebits r) c + side_sum PostingDebit c ps))
     \<and> (\<forall>c. getz (av_TotalCredits r') c = wrap64 (getz (av_TotalCredits r) c + side_sum PostingCredit c ps))
     \<and> av_Status r' = av_Status r \<and> av_IsBalanced r' = av_IsBalanced r \<and> av_TotalEntries r' = av_TotalEntries r
     \<and> av_LatestHash r' = av_LatestHash r \<and> av_LastSequence r' = av_LastSequence r)"
  using assms
proof (induction ps arbitrary: r)
  case Nil
  then show ?case by (simp add: totals_ok_def)
next
  case (Cons p ps)
  have "totals_ok (av_TotalDebits (add_posting p r))" "totals_ok (av_TotalCredits (add_posting p r))"
    using Cons.prems by (simp_all add: add_posting_def)
  from Cons.IH [OF this] show ?case
    by (auto simp: Let_def add_posting_def getz_add_total add.assoc)
qed

definition audit_state_ok :: "AuditVerificationResult \<Rightarrow> bool" where
  "audit_state_ok r \<longleftrightarrow> totals_ok (av_TotalDebits r) \<and> totals_ok (av_TotalCredits r)
     \<and> (\<forall>c. getz (av_TotalDebits r) c = getz (av_TotalCredits r) c)
     \<and> av_Status r = ''VERIFIED'' \<and> av_IsBalanced r"

lemma audit_state_step:
  assumes ok: "audit_state_ok r" and "ValidatePostings ps = None"
  shows "audit_state_ok (fold add_posting ps r)"
proof -
  have "wrap64 (side_sum PostingDebit c ps) = wrap64 (side_sum PostingCredit c ps)" for c
    using assms(2) by (simp add: ValidatePostings_None)
  then have "wrap64 (x + side_sum PostingDebit c ps) = wrap64 (x + side_sum PostingCredit c ps)" for x c
    by (metis wrap64_add(2))
  then show ?thesis using fold_add_posting [of r ps] ok by (simp add: audit_state_ok_def Let_def)
qed

text \<open>
  The loop accepts exactly the chains; on the way the totals of both sides agree. At the
  first entry that breaks the chain it reports that entry.
\<close>

lemma verify_loop_Inr:
  assumes "verify_loop docs n h r = Inr r'" and "audit_state_ok r" and "fits64 (n + int (length docs))" and "0 \<le> n"
  shows "linked n h docs \<and> audit_state_ok r'
    \<and> (\<forall>c. getz (av_TotalDebits r') c = wrap64 (getz (av_TotalDebits r) c + side_sum PostingDebit c (all_postings docs)))
    \<and> av_TotalEntries r' = (if docs = [] then av_TotalEntries r else wrap64 (av_TotalEntries r + int (length docs)))
    \<and> av_LatestHash r' = last_hash (av_LatestHash r) docs
    \<and> av_LastSequence r' = (if docs = [] then av_LastSequence r else n + int (length docs) - 1)"
  using assms
proof (induction docs arbitrary: n h r)
  case Nil
  then show ?case by (auto simp: all_postings_def last_hash_def audit_state_ok_def totals_ok_def)
next
  case (Cons d docs)
  let ?f = "fold add_posting (ld_Postings d) r"
  let ?r = "?f\<lparr>av_TotalEntries := wrap64 (av_TotalEntries ?f + 1), av_LatestHash := ld_EntryHash d,
              av_LastSequence := ld_SequenceNumber d\<rparr>"
  from Cons.prems have v: "verifyDocIntegrity d n h = None"
    by (auto split: option.splits)
  have fits: "fits64 (n + 1)" "fits64 (n + 1 + int (length docs))" using Cons.prems by (auto simp: fits64_def)
  from Cons.prems(1) v fits have l: "verify_loop docs (n + 1) (ld_EntryHash d) ?r = Inr r'"
    by (simp add: accumulateDocPostings_def Let_def)
  have "audit_state_ok ?f" using audit_state_step Cons.prems(2) v by (simp add: verifyDocIntegrity_None)
  then have ok: "audit_state_ok ?r" by (simp add: audit_state_ok_def)
  have t: "\<forall>c. getz (av_TotalDebits ?f) c = wrap64 (getz (av_TotalDebits r) c + side_sum PostingDebit c (ld_Postings d))"
    "av_TotalEntries ?f = av_TotalEntries r"
    using fold_add_posting [of r "ld_Postings d"] Cons.prems(2) by (simp_all add: audit_state_ok_def Let_def)
  show ?case using Cons.IH [OF l ok fits(2)] Cons.prems(4) v t
    by (auto simp: verifyDocIntegrity_None all_postings_def last_hash_def algebra_simps)
qed

lemma verify_loop_Inl:
  assumes "verify_loop docs n h r = Inl r'" and "fits64 (n + int (length docs))" and "0 \<le> n"
  shows "av_Status r' = ''CORRUPTED'' \<and> (\<exists>i < length docs. linked n h (take i docs) \<and> \<not> linked n h (take (Suc i) docs)
    \<and> av_TamperedEntrySeq r' = ld_SequenceNumber (docs ! i))"
  using assms
proof (induction docs arbitrary: n h r)
  case Nil
  then show ?case by simp
next
  case (Cons d docs)
  show ?case
  proof (cases "verifyDocIntegrity d n h")
    case None
    have "fits64 (n + 1)" "fits64 (n + 1 + int (length docs))" using Cons.prems by (auto simp: fits64_def)
    with Cons None obtain i where "av_Status r' = ''CORRUPTED''" "i < length docs" "linked (n + 1) (ld_EntryHash d) (take i docs)"
      "\<not> linked (n + 1) (ld_EntryHash d) (take (Suc i) docs)" "av_TamperedEntrySeq r' = ld_SequenceNumber (docs ! i)"
      by (fastforce simp: Let_def)
    with None show ?thesis by (intro conjI exI [of _ "Suc i"]) (auto simp: verifyDocIntegrity_None)
  next
    case (Some e)
    with Cons.prems(1) have "r' = r\<lparr>av_Status := ''CORRUPTED'', av_TamperedEntrySeq := ld_SequenceNumber d,
        av_ErrorMessage := e\<rparr>" by simp
    moreover have "verifyDocIntegrity d n h \<noteq> None" using Some by simp
    ultimately show ?thesis by (intro conjI exI [of _ 0]) (auto simp: verifyDocIntegrity_None)
  qed
qed

lemma trial_balance_passes: "audit_state_ok r \<Longrightarrow> checkTrialBalanceEquilibrium r = r"
proof -
  assume ok: "audit_state_ok r"
  then have "gomap_ok (av_TotalDebits r)" by (simp add: audit_state_ok_def totals_ok_def)
  from find_pair_None [OF this, of "\<lambda>k v. v \<noteq> getz (av_TotalCredits r) k"] ok
  have "find (\<lambda>(k, v). v \<noteq> getz (av_TotalCredits r) k) (av_TotalDebits r) = None"
    by (simp add: audit_state_ok_def)
  then show ?thesis by (simp add: checkTrialBalanceEquilibrium_def)
qed

lemma initial_result_ok: "audit_state_ok initial_result"
  by (simp add: initial_result_def audit_state_ok_def totals_ok_def gomap_ok_def getz_def fits64_def)

end
