(* ===== verification/LedgerService.thy ===== *)
theory LedgerService
  imports DoubleEntry
begin

text \<open>
  The ledger service (\<open>cmd/ledger-service/main.go\<close>): recording a transaction as the next entry
  of the hash chain, and paging through the entries of a wallet.

  Several pods record at once. Before its \<open>n\<close>-th call to the database a request finds what
  the other pods have done meanwhile (\<open>le_others n\<close>), and each call may fail on its own
  (\<open>le_col n\<close> is the driver as that call meets it). The idempotency check is call 0; attempt
  \<open>k\<close> reads the head of the chain in call \<open>3 k + 1\<close>, inserts in call \<open>3 k + 2\<close> and looks for a
  duplicate in call \<open>3 k + 3\<close>; the last lookup of \<open>handleInsertError\<close> is call 16. The mutex of
  the pod only removes some of these interleavings.
\<close>

subsection \<open>The environment of a request\<close>

record ledger_env =
  le_db :: bool
  le_region :: string
  le_environment :: string
  le_col :: "nat \<Rightarrow> LedgerDocument collection_ops"
  le_others :: "nat \<Rightarrow> LedgerDocument list \<Rightarrow> LedgerDocument list"
  le_now :: "nat \<Rightarrow> int"
  le_newID :: string
  le_outbox :: "OutboxEntry collection_ops option"
  le_outboxID :: string
  le_assoc :: "nat \<Rightarrow> string"
  le_durationMS :: int64

record ledger_db =
  lb_entries :: "LedgerDocument list"
  lb_outbox :: "OutboxEntry list"

definition ledgerServiceName :: string where
  "ledgerServiceName = ''ledger-service''"

subsection \<open>Recording a transaction\<close>

definition ObjectIDFromHex :: "string \<Rightarrow> string option" where
  "ObjectIDFromHex s = (if length s = 24 \<and> list_all is_hex s then Some (ToLower s) else None)"

definition parseTransactionDocID :: "string \<Rightarrow> string \<Rightarrow> string" where
  "parseTransactionDocID fresh txID =
     (if txID \<noteq> [] then (case ObjectIDFromHex txID of Some parsed \<Rightarrow> parsed | None \<Rightarrow> fresh) else fresh)"

definition recorded_as :: "LedgerDocument \<Rightarrow> RecordTransactionResponse" where
  "recorded_as doc = \<lparr>rr_TransactionId = ld_ID doc, rr_Success = True, rr_ErrorMessage = lit []\<rparr>"

definition find_key ::
    "LedgerDocument collection_ops \<Rightarrow> string \<Rightarrow> LedgerDocument list \<Rightarrow> mongo_error + LedgerDocument" where
  "find_key col key ds = FindOne col (\<lambda>d. ld_IdempotencyKey d = key) None ds"

definition checkDuplicateTransaction ::
    "LedgerDocument collection_ops \<Rightarrow> string \<Rightarrow> LedgerDocument list \<Rightarrow> RecordTransactionResponse option" where
  "checkDuplicateTransaction col key ds =
     (case find_key col key ds of Inr existing \<Rightarrow> Some (recorded_as existing) | Inl err \<Rightarrow> None)"

definition getPreviousSequenceAndHash ::
    "LedgerDocument collection_ops \<Rightarrow> LedgerDocument list \<Rightarrow> int64 \<times> string" where
  "getPreviousSequenceAndHash col ds =
     (case FindOne col sequenced (Some (\<lambda>d. - ld_SequenceNumber d)) ds of
        Inr lastDoc \<Rightarrow>
          (wrap64 (ld_SequenceNumber lastDoc + 1),
           if ld_EntryHash lastDoc \<noteq> [] then ld_EntryHash lastDoc else GenesisHash)
      | Inl err \<Rightarrow> (1, GenesisHash))"

definition handleInsertError ::
    "LedgerDocument collection_ops \<Rightarrow> RecordTransactionRequest \<Rightarrow> mongo_error \<Rightarrow> LedgerDocument list
       \<Rightarrow> RecordTransactionResponse" where
  "handleInsertError col req err ds =
     (let failed = \<lparr>rr_TransactionId = [], rr_Success = False, rr_ErrorMessage = err_msg err\<rparr>
      in if IsDuplicateKeyError err
         then (case find_key col (rt_IdempotencyKey req) ds of
                 Inr dupDoc \<Rightarrow> recorded_as dupDoc
               | Inl findErr \<Rightarrow> failed)
         else failed)"

definition ledger_document ::
    "ledger_env \<Rightarrow> RecordTransactionRequest \<Rightarrow> string \<Rightarrow> JournalPosting list \<Rightarrow> int64 \<Rightarrow> string \<Rightarrow> int
       \<Rightarrow> LedgerDocument" where
  "ledger_document E req docID postings seqNumber prevHash now =
     \<lparr>ld_ID = docID, ld_SequenceNumber = seqNumber, ld_IdempotencyKey = rt_IdempotencyKey req,
      ld_SourceWalletID = rt_SourceWalletId req, ld_DestinationWalletID = rt_DestinationWalletId req,
      ld_Amount = rt_Amount req, ld_Currency = rt_Currency req,
      ld_DestinationAmount = rt_DestinationAmount req, ld_DestinationCurrency = rt_DestinationCurrency req,
      ld_ExchangeRate = rt_ExchangeRate req, ld_FXQuoteID = rt_FxQuoteId req, ld_Region = le_region E,
      ld_Timestamp = now, ld_Postings = postings, ld_PreviousHash = prevHash,
      ld_EntryHash = ComputeEntryHash prevHash seqNumber docID (rt_IdempotencyKey req) now postings\<rparr>"

definition maxInsertRetries :: nat where
  "maxInsertRetries = 5"

text \<open>How the loop ends: with the inserted document, or by answering the request.\<close>

datatype insert_outcome = Inserted LedgerDocument | Answered RecordTransactionResponse

text \<open>\<open>insert_loop E req docID postings n insertErr\<close> has \<open>n\<close> attempts left; after the last one
  its error is handed to \<open>handleInsertError\<close>. Five attempts are made, so the error the loop
  starts with is never read.\<close>

fun insert_loop ::
    "ledger_env \<Rightarrow> RecordTransactionRequest \<Rightarrow> string \<Rightarrow> JournalPosting list \<Rightarrow> nat \<Rightarrow> mongo_error
       \<Rightarrow> LedgerDocument list \<Rightarrow> LedgerDocument list \<times> insert_outcome" where
  "insert_loop E req docID postings 0 insertErr ds =
     (let ds = le_others E 16 ds
      in (ds, Answered (handleInsertError (le_col E 16) req insertErr ds)))"
| "insert_loop E req docID postings (Suc n) insertErr ds =
     (let attempt = maxInsertRetries - Suc n;
          ds1 = le_others E (3 * attempt + 1) ds;
          (seqNumber, prevHash) = getPreviousSequenceAndHash (le_col E (3 * attempt + 1)) ds1;
          now = Truncate (le_now E attempt) Millisecond;
          doc = ledger_document E req docID postings seqNumber prevHash now;
          ds2 = le_others E (3 * attempt + 2) ds1
      in case InsertOne (le_col E (3 * attempt + 2)) doc ds2 of
           (ds3, None) \<Rightarrow> (ds3, Inserted doc)
         | (ds3, Some err) \<Rightarrow>
             (let ds4 = le_others E (3 * attempt + 3) ds3
              in if IsDuplicateKeyError err
                 then (case find_key (le_col E (3 * attempt + 3)) (rt_IdempotencyKey req) ds4 of
                         Inr dupDoc \<Rightarrow> (ds4, Answered (recorded_as dupDoc))
                       | Inl findErr \<Rightarrow> insert_loop E req docID postings n err ds4)
                 else (ds4, Answered (handleInsertError (le_col E (3 * attempt + 3)) req err ds4))))"

definition persisted_event ::
    "ledger_env \<Rightarrow> Correlation \<Rightarrow> RecordTransactionRequest \<Rightarrow> LedgerDocument \<Rightarrow> Event" where
  "persisted_event E correlation req doc =
     \<lparr>ev_SchemaVersion = 1, ev_EventID = le_assoc E 1, ev_OccurredAt = le_now E maxInsertRetries,
      ev_Service = ledgerServiceName, ev_InstanceID = [], ev_Environment = le_environment E,
      ev_Region = le_region E, ev_Level = ''AUDIT'', ev_EventType = ''ledger.transaction.persisted'',
      ev_Message = ''Ledger transaction persisted'', ev_AssociationID = co_AssociationID correlation,
      ev_TransactionID = ld_ID doc, ev_IdempotencyKey = co_IdempotencyKey correlation,
      ev_ParentEventID = [], ev_DurationMS = le_durationMS E, ev_Success = None,
      ev_Attributes =
        [(''transaction_id'', AttrS (ld_ID doc)), (''source'', AttrS (rt_SourceWalletId req)),
         (''dest'', AttrS (rt_DestinationWalletId req)), (''amount'', AttrD (rt_Amount req)),
         (''currency'', AttrS (rt_Currency req)),
         (''destination_amount'', AttrD (rt_DestinationAmount req)),
         (''destination_currency'', AttrS (rt_DestinationCurrency req)),
         (''exchange_rate'', AttrF (rt_ExchangeRate req)), (''fx_quote_id'', AttrS (rt_FxQuoteId req))]\<rparr>"

definition record_validation :: "ledger_env \<Rightarrow> RecordTransactionRequest \<Rightarrow> goerr option" where
  "record_validation E req =
     (if rt_IdempotencyKey req = []
      then Some (StatusErr InvalidArgument (lit ''idempotency_key is required''))
      else case ValidateAmount (rt_Amount req) (rt_Currency req) of
             Some err \<Rightarrow> Some (StatusErr InvalidArgument (Msg ''%v'' [ArgE err]))
           | None \<Rightarrow>
               (case (if rt_DestinationCurrency req \<noteq> [] \<and> rt_DestinationCurrency req \<noteq> rt_Currency req
                      then ValidateAmount (rt_DestinationAmount req) (rt_DestinationCurrency req) else None) of
                  Some err \<Rightarrow>
                    Some (StatusErr InvalidArgument (Msg ''invalid destination FX amount/currency: %v'' [ArgE err]))
                | None \<Rightarrow> if \<not> le_db E then Some (StatusErr Unavailable (lit ''database unavailable'')) else None))"

definition RecordTransaction ::
    "ledger_env \<Rightarrow> metadata \<Rightarrow> RecordTransactionRequest \<Rightarrow> ledger_db
       \<Rightarrow> ledger_db \<times> RecordTransactionResponse grpc" where
  "RecordTransaction E ctx req st =
     (let correlation = FromIncomingContext (le_assoc E 0) ctx;
          correlation = (if co_IdempotencyKey correlation = []
                         then correlation\<lparr>co_IdempotencyKey := rt_IdempotencyKey req\<rparr> else correlation)
      in case record_validation E req of
           Some err \<Rightarrow> (st, None, Some err)
         | None \<Rightarrow>
             (let ds = le_others E 0 (lb_entries st)
              in case checkDuplicateTransaction (le_col E 0) (rt_IdempotencyKey req) ds of
                   Some resp \<Rightarrow> (st\<lparr>lb_entries := ds\<rparr>, Some resp, None)
                 | None \<Rightarrow>
                     (case CreateMultiCurrencyTransferPostings (rt_SourceWalletId req) (rt_DestinationWalletId req)
                             (rt_Amount req) (rt_Currency req) (rt_DestinationAmount req) (rt_DestinationCurrency req) of
                        Inl postErr \<Rightarrow>
                          (st\<lparr>lb_entries := ds\<rparr>, None,
                           Some (StatusErr InvalidArgument (Msg ''double-entry validation failed: %v'' [ArgE postErr])))
                      | Inr postings \<Rightarrow>
                          (case insert_loop E req (parseTransactionDocID (le_newID E) (rt_TransactionId req)) postings
                                  maxInsertRetries ErrNoDocuments ds of
                             (ds', Answered resp) \<Rightarrow> (st\<lparr>lb_entries := ds'\<rparr>, Some resp, None)
                           | (ds', Inserted doc) \<Rightarrow>
                               (let st = st\<lparr>lb_entries := ds'\<rparr>
                                in case le_outbox E of
                                     None \<Rightarrow> (st, Some (recorded_as doc), None)
                                   | Some col \<Rightarrow>
                                       (case Outbox_Append col (le_outboxID E) (le_now E maxInsertRetries)
                                               (persisted_event E correlation req doc) (lb_outbox st) of
                                          (es, Some err) \<Rightarrow>
                                            (st\<lparr>lb_outbox := es\<rparr>, None,
                                             Some (StatusErr Internal
                                               (Msg ''failed to append to outbox: %v'' [ArgE (err_msg err)])))
                                        | (es, None) \<Rightarrow> (st\<lparr>lb_outbox := es\<rparr>, Some (recorded_as doc), None)))))))"

subsection \<open>Paging through the entries of a wallet\<close>

record GetLedgerRequest =
  gl_WalletId :: string
  gl_Limit :: int32
  gl_PageToken :: string

record LedgerEntry =
  en_TransactionId :: string
  en_IdempotencyKey :: string
  en_SourceWalletId :: string
  en_DestinationWalletId :: string
  en_Amount :: int64
  en_Currency :: string
  en_Timestamp :: string
  en_Region :: string
  en_DestinationAmount :: int64
  en_DestinationCurrency :: string
  en_ExchangeRate :: float64
  en_FxQuoteId :: string

record GetLedgerResponse =
  gr_Entries :: "LedgerEntry list"
  gr_NextPageToken :: string
  gr_TotalCount :: int64

definition parseLedgerPagination :: "GetLedgerRequest \<Rightarrow> int64 \<times> int64" where
  "parseLedgerPagination req =
     (let limit = (if gl_Limit req \<le> 0 \<or> 100 < gl_Limit req then 20 else gl_Limit req);
          offset = (if gl_PageToken req = [] then 0
                    else case base64_DecodeString (gl_PageToken req) of
                           None \<Rightarrow> 0
                         | Some decoded \<Rightarrow>
                             (case ParseInt decoded of
                                None \<Rightarrow> 0
                              | Some parsedOffset \<Rightarrow> if 0 \<le> parsedOffset then parsedOffset else 0))
      in (limit, offset))"

definition ledger_entry :: "LedgerDocument \<Rightarrow> LedgerEntry" where
  "ledger_entry doc =
     \<lparr>en_TransactionId = ld_ID doc, en_IdempotencyKey = ld_IdempotencyKey doc,
      en_SourceWalletId = ld_SourceWalletID doc, en_DestinationWalletId = ld_DestinationWalletID doc,
      en_Amount = ld_Amount doc, en_Currency = ld_Currency doc,
      en_Timestamp = FormatRFC3339 (ld_Timestamp doc), en_Region = ld_Region doc,
      en_DestinationAmount = ld_DestinationAmount doc, en_DestinationCurrency = ld_DestinationCurrency doc,
      en_ExchangeRate = ld_ExchangeRate doc, en_FxQuoteId = ld_FXQuoteID doc\<rparr>"

definition decodeLedgerEntries :: "LedgerDocument list \<Rightarrow> LedgerEntry list" where
  "decodeLedgerEntries docs = map ledger_entry docs"

definition of_wallet :: "string \<Rightarrow> LedgerDocument \<Rightarrow> bool" where
  "of_wallet walletID d \<longleftrightarrow> ld_SourceWalletID d = walletID \<or> ld_DestinationWalletID d = walletID"

definition GetLedgerEntries ::
    "bool \<Rightarrow> LedgerDocument collection_ops \<Rightarrow> nat option \<Rightarrow> GetLedgerRequest option \<Rightarrow> LedgerDocument list
       \<Rightarrow> GetLedgerResponse grpc" where
  "GetLedgerEntries dbReady col stop req ds =
     (case req of
        None \<Rightarrow> (None, Some (StatusErr InvalidArgument (lit ''wallet_id is required'')))
      | Some req \<Rightarrow>
          if TrimSpace (gl_WalletId req) = []
          then (None, Some (StatusErr InvalidArgument (lit ''wallet_id is required'')))
          else if \<not> dbReady then (None, Some (StatusErr Unavailable (lit ''database unavailable'')))
          else
            (let (limit, offset) = parseLedgerPagination req;
                 totalCount = (case CountDocuments col (of_wallet (gl_WalletId req)) ds of Inr n \<Rightarrow> n | Inl err \<Rightarrow> 0)
             in case Find col (of_wallet (gl_WalletId req)) (\<lambda>d. - ld_Timestamp d) (nat offset)
                       (Some (nat limit)) ds of
                  Inl err \<Rightarrow> (None, Some (StatusErr Internal (Msg ''failed to query ledger: %v'' [ArgE (err_msg err)])))
                | Inr docs \<Rightarrow>
                    (let entries = decodeLedgerEntries (cursor_docs stop docs);
                         next = wrap64 (offset + int (length entries))
                     in (Some \<lparr>gr_Entries = entries,
                               gr_NextPageToken = (if next < totalCount
                                                   then base64_EncodeToString (show_int next) else []),
                               gr_TotalCount = totalCount\<rparr>, None))))"

end
