(* ===== verification/LedgerChain.thy ===== *)
theory LedgerChain
  imports LedgerService
begin

text \<open>
  What the ledger service guarantees: the entries form one unbroken hash chain however many
  pods record at once and whichever database calls fail; a transaction is recorded at most
  once; recording is atomic; the audit accepts exactly the unbroken chains.
\<close>

subsection \<open>The invariant\<close>

text \<open>The unique indexes of \<open>EnsureLedgerIndexes\<close>; the one on the sequence number is sparse.\<close>

definition ledger_conflict :: "LedgerDocument \<Rightarrow> LedgerDocument \<Rightarrow> bool" where
  "ledger_conflict a b \<longleftrightarrow> ld_ID a = ld_ID b \<or> ld_IdempotencyKey a = ld_IdempotencyKey b
     \<or> (ld_SequenceNumber a = ld_SequenceNumber b \<and> ld_SequenceNumber a \<noteq> 0)"

definition ledger_ok :: "LedgerDocument list \<Rightarrow> bool" where
  "ledger_ok ds \<longleftrightarrow> linked 1 GenesisHash (filter sequenced ds)
     \<and> distinct (map ld_IdempotencyKey ds) \<and> distinct (map ld_ID ds)"

text \<open>
  What one pod may rely on from the others, and guarantees to them: entries are only ever
  appended, and the invariant is kept (while the sequence numbers fit an \<open>int64\<close>).
\<close>

definition evolves :: "LedgerDocument list \<Rightarrow> LedgerDocument list \<Rightarrow> bool" where
  "evolves ds ds' \<longleftrightarrow> (\<exists>es. ds' = ds @ es) \<and> (ledger_ok ds \<longrightarrow> int (length ds') < 2 ^ 63 \<longrightarrow> ledger_ok ds')"

definition appends :: "(LedgerDocument list \<Rightarrow> LedgerDocument list) \<Rightarrow> bool" where
  "appends f \<longleftrightarrow> (\<forall>ds. evolves ds (f ds))"

lemma evolves_refl [simp]: "evolves ds ds"
  by (simp add: evolves_def)

lemma evolves_trans: "evolves a b \<Longrightarrow> evolves b c \<Longrightarrow> evolves a c"
  by (auto simp: evolves_def)

lemma evolves_length: "evolves a b \<Longrightarrow> length a \<le> length b"
  by (auto simp: evolves_def)

lemma evolves_set: "evolves a b \<Longrightarrow> set a \<subseteq> set b"
  by (auto simp: evolves_def)

lemma appends_id [simp]: "appends (\<lambda>ds. ds)"
  by (simp add: appends_def)

lemma ledger_ok_prefix: "ledger_ok (ds @ es) \<Longrightarrow> ledger_ok ds"
  by (simp add: ledger_ok_def linked_append)

text \<open>In a sound ledger the sequence numbers are \<open>1 .. k\<close>.\<close>

lemma ledger_ok_seq:
  assumes "ledger_ok ds" and "1 \<le> i" and "i \<le> int (length (filter sequenced ds))"
  shows "\<exists>d \<in> set ds. ld_SequenceNumber d = i"
proof -
  let ?F = "filter sequenced ds"
  have "nat (i - 1) < length ?F" using assms by auto
  then have "ld_SequenceNumber (?F ! nat (i - 1)) = i" "?F ! nat (i - 1) \<in> set ?F"
    using linked_nth [of 1 GenesisHash ?F] assms by (auto simp: ledger_ok_def simp del: set_filter)
  then show ?thesis by auto
qed

lemma linked_hash_nonempty: "linked n h ds \<Longrightarrow> d \<in> set ds \<Longrightarrow> ld_EntryHash d \<noteq> []"
  by (induction n h ds rule: linked.induct) auto

text \<open>Sorting by sequence number finds the entries of a chain in the order they were made.\<close>

lemma linked_sorted: "linked n h ds \<Longrightarrow> sorted (map ld_SequenceNumber ds) \<and> distinct (map ld_SequenceNumber ds)
    \<and> (\<forall>d \<in> set ds. n \<le> ld_SequenceNumber d)"
proof (induction n h ds rule: linked.induct)
  case (2 n h d ds)
  from 2(2) have "linked (n + 1) (ld_EntryHash d) ds" "ld_SequenceNumber d = n" by auto
  with 2(1) show ?case by force
qed simp

lemma sorted_by_seq_unique:
  assumes "mset ys = mset xs" and "sorted (map ld_SequenceNumber ys)"
    and "sorted (map ld_SequenceNumber xs)" and "distinct (map ld_SequenceNumber xs)"
  shows "ys = xs"
proof -
  have "mset (map ld_SequenceNumber ys) = mset (map ld_SequenceNumber xs)" using assms(1) by simp
  then have m: "map ld_SequenceNumber ys = map ld_SequenceNumber xs"
    using assms(2,3) properties_for_sort by metis
  have "set ys = set xs" using assms(1) mset_eq_setD by blast
  with assms(4) have "inj_on ld_SequenceNumber (set ys \<union> set xs)" by (simp add: distinct_map)
  with m show ?thesis by (rule map_inj_on)
qed

locale ledger_collection = collection M ledger_conflict for M :: "LedgerDocument collection_ops"
begin

text \<open>The head a lookup reports: the true one, or after an error the start of the chain.\<close>

lemma head_cases:
  assumes "ledger_ok ds" and "int (length ds) + 1 < 2 ^ 63"
  obtains (head) "getPreviousSequenceAndHash M ds =
      (int (length (filter sequenced ds)) + 1, last_hash GenesisHash (filter sequenced ds))"
  | (start) e where "FindOne M sequenced (Some (\<lambda>d. - ld_SequenceNumber d)) ds = Inl e"
      "getPreviousSequenceAndHash M ds = (1, GenesisHash)"
proof (cases "FindOne M sequenced (Some (\<lambda>d. - ld_SequenceNumber d)) ds")
  case (Inl e)
  then show thesis using start by (simp add: getPreviousSequenceAndHash_def)
next
  case (Inr d)
  let ?F = "filter sequenced ds"
  from FindOne_Inr [OF Inr] have d: "d \<in> set ds" "sequenced d" by auto
  then have ne: "?F \<noteq> []" by (auto simp: filter_empty_conv)
  have nth: "ld_SequenceNumber (?F ! i) = 1 + int i" if "i < length ?F" for i
    using linked_nth [OF _ that] assms(1) by (auto simp: ledger_ok_def)
  let ?l = "length ?F - 1"
  have last: "ld_SequenceNumber (last ?F) = int (length ?F)"
    using nth [of ?l] ne by (simp add: last_conv_nth del: length_greater_0_conv) (auto simp flip: length_greater_0_conv)
  have "last ?F \<in> set ds" "sequenced (last ?F)" using last_in_set [OF ne] by auto
  from FindOne_least [OF Inr this] have ge: "int (length ?F) \<le> ld_SequenceNumber d" using last by simp
  from d have "d \<in> set ?F" by simp
  then obtain i where i: "i < length ?F" "?F ! i = d" by (metis in_set_conv_nth)
  then have "i = ?l" using nth [OF i(1)] ge by simp
  then have "d = last ?F" using i ne by (simp add: last_conv_nth)
  moreover have "int (length ?F) + 1 < 2 ^ 63" using assms(2) length_filter_le [of sequenced ds] by linarith
  then have "fits64 (int (length ?F) + 1)" by (simp add: fits64_def)
  moreover have "ld_EntryHash d \<noteq> []"
    using linked_hash_nonempty assms(1) \<open>d \<in> set ?F\<close> by (auto simp: ledger_ok_def)
  ultimately show thesis using head Inr last ne
    by (simp add: getPreviousSequenceAndHash_def last_hash_def)
qed

text \<open>
  The heart of the chain: an insert that the unique indexes let through continues the chain,
  although the head was read before other pods wrote, or could not be read at all.
\<close>

lemma insert_keeps_ok:
  assumes ok2: "ledger_ok (ds @ es)" and len: "int (length (ds @ es)) + 1 < 2 ^ 63"
    and head: "getPreviousSequenceAndHash M ds = (n, h)"
    and free: "\<not> list_ex (ledger_conflict doc) (ds @ es)"
    and doc: "ld_SequenceNumber doc = n" "ld_PreviousHash doc = h" "ld_EntryHash doc = sha256_hex (doc_canonical doc)"
      "ValidatePostings (ld_Postings doc) = None"
  shows "ledger_ok (ds @ es @ [doc])"
proof -
  let ?k = "int (length (filter sequenced (ds @ es)))"
  have ok1: "ledger_ok ds" using ok2 by (rule ledger_ok_prefix)
  have len1: "int (length ds) + 1 < 2 ^ 63" using len by simp
  have taken: "\<not> (1 \<le> n \<and> n \<le> ?k)"
  proof
    assume "1 \<le> n \<and> n \<le> ?k"
    then obtain d where "d \<in> set (ds @ es)" "ld_SequenceNumber d = n" using ledger_ok_seq [OF ok2] by blast
    then show False using free doc(1) \<open>1 \<le> n \<and> n \<le> ?k\<close> by (auto simp: list_ex_iff ledger_conflict_def)
  qed
  have "1 \<le> n \<and> n = ?k + 1 \<and> h = last_hash GenesisHash (filter sequenced (ds @ es))"
  proof (cases rule: head_cases [OF ok1 len1])
    case 1
    with head have n: "n = int (length (filter sequenced ds)) + 1" "h = last_hash GenesisHash (filter sequenced ds)" by auto
    with taken have "filter sequenced es = []" by (auto simp flip: length_0_conv)
    with n show ?thesis by simp
  next
    case (2 e)
    with head taken have "filter sequenced (ds @ es) = []" "n = 1" "h = GenesisHash" by (auto simp flip: length_0_conv)
    then show ?thesis by (simp add: last_hash_def)
  qed
  moreover from this have "sequenced doc" using doc(1) by (simp add: sequenced_def)
  moreover have "linked 1 GenesisHash (filter sequenced (ds @ es))" using ok2 by (simp add: ledger_ok_def)
  ultimately have "linked 1 GenesisHash (filter sequenced (ds @ es) @ [doc])"
    unfolding linked_append using doc by simp
  moreover have "ld_ID doc \<notin> ld_ID ` set (ds @ es)" "ld_IdempotencyKey doc \<notin> ld_IdempotencyKey ` set (ds @ es)"
    using free by (auto simp: list_ex_iff ledger_conflict_def)
  ultimately show ?thesis using ok2 \<open>sequenced doc\<close> by (auto simp: ledger_ok_def)
qed

end

text \<open>
  What the insert loop does, seen as one step at the moment it takes effect: append the new
  document, answer with the entry of the same key, or fail.
\<close>

inductive acts :: "ledger_env \<Rightarrow> RecordTransactionRequest \<Rightarrow> string \<Rightarrow> JournalPosting list
    \<Rightarrow> LedgerDocument list \<Rightarrow> insert_outcome \<Rightarrow> LedgerDocument list \<Rightarrow> bool" for E req docID ps where
  insert: "\<lbrakk>ledger_collection M; \<not> list_ex (ledger_conflict doc) (ds @ es);
    getPreviousSequenceAndHash M ds = (n, h); doc = ledger_document E req docID ps n h now\<rbrakk>
    \<Longrightarrow> acts E req docID ps (ds @ es) (Inserted doc) (ds @ es @ [doc])"
| replay: "d \<in> set ds \<Longrightarrow> ld_IdempotencyKey d = rt_IdempotencyKey req \<Longrightarrow>
    acts E req docID ps ds (Answered (recorded_as d)) ds"
| fail: "\<not> rr_Success r \<Longrightarrow> acts E req docID ps ds (Answered r) ds"

lemma ledger_document_fields [simp]:
  "ld_SequenceNumber (ledger_document E req i ps n h t) = n" "ld_PreviousHash (ledger_document E req i ps n h t) = h"
  "ld_EntryHash (ledger_document E req i ps n h t) = sha256_hex (doc_canonical (ledger_document E req i ps n h t))"
  "ld_Postings (ledger_document E req i ps n h t) = ps" "ld_ID (ledger_document E req i ps n h t) = i"
  "ld_IdempotencyKey (ledger_document E req i ps n h t) = rt_IdempotencyKey req"
  by (simp_all add: ledger_document_def ComputeEntryHash_def doc_canonical_def)

lemma acts_evolves:
  assumes "acts E req docID ps a out b" and "ValidatePostings ps = None"
  shows "evolves a b"
  using assms
proof (cases rule: acts.cases)
  case (insert M doc ds es n h now)
  have "ledger_ok (ds @ es @ [doc])" if "ledger_ok (ds @ es)" "int (length (ds @ es)) + 1 < 2 ^ 63"
    using ledger_collection.insert_keeps_ok [OF insert(4) that insert(6,5)] assms(2) insert(7) by simp
  then show ?thesis using insert by (auto simp: evolves_def)
qed (simp_all add: evolves_def)

lemma find_key_Inr:
  "ledger_collection M \<Longrightarrow> find_key M k ds = Inr d \<Longrightarrow> d \<in> set ds \<and> ld_IdempotencyKey d = k"
  using collection.FindOne_Inr [of M ledger_conflict "\<lambda>d. ld_IdempotencyKey d = k" None ds d]
  by (simp add: find_key_def ledger_collection_def)

lemma handleInsertError_acts:
  assumes "ledger_collection M"
  shows "acts E req docID ps ds (Answered (handleInsertError M req err ds)) ds"
  using find_key_Inr [OF assms, of "rt_IdempotencyKey req" ds]
  by (auto simp: handleInsertError_def Let_def split: sum.splits intro: acts.intros)

subsection \<open>The abstract ledger\<close>

text \<open>
  Abstractly the ledger is a list of booked transactions: idempotency key, transaction id and
  postings. Recording books a transaction whose key and id are new, answers a known key with
  the id booked under it, or refuses and changes nothing. A transaction may be booked although
  the answer is an error, when the audit event could not be stored afterwards.
\<close>

type_synonym booking = "string \<times> string \<times> JournalPosting list"

definition booking_of :: "LedgerDocument \<Rightarrow> booking" where
  "booking_of d = (ld_IdempotencyKey d, ld_ID d, ld_Postings d)"

definition bookings :: "LedgerDocument list \<Rightarrow> booking list" where
  "bookings ds = map booking_of ds"

lemma bookings_grow: "evolves a b \<Longrightarrow> \<exists>others. bookings b = bookings a @ others"
  by (auto simp: evolves_def bookings_def)

definition request_postings :: "RecordTransactionRequest \<Rightarrow> gomsg + JournalPosting list" where
  "request_postings req =
     CreateMultiCurrencyTransferPostings (rt_SourceWalletId req) (rt_DestinationWalletId req)
       (rt_Amount req) (rt_Currency req) (rt_DestinationAmount req) (rt_DestinationCurrency req)"

definition succeeded :: "string \<Rightarrow> RecordTransactionResponse grpc" where
  "succeeded i = (Some \<lparr>rr_TransactionId = i, rr_Success = True, rr_ErrorMessage = lit []\<rparr>, None)"

definition rt_refused :: "RecordTransactionResponse grpc \<Rightarrow> bool" where
  "rt_refused resp \<longleftrightarrow> (case fst resp of None \<Rightarrow> snd resp \<noteq> None | Some r \<Rightarrow> \<not> rr_Success r)"

inductive ledger_spec :: "RecordTransactionRequest \<Rightarrow> booking list \<Rightarrow> RecordTransactionResponse grpc
    \<Rightarrow> booking list \<Rightarrow> bool" for req where
  book: "\<lbrakk>rt_IdempotencyKey req \<notin> fst ` set L; i \<notin> (fst \<circ> snd) ` set L; request_postings req = Inr ps;
    resp = succeeded i \<or> fst resp = None \<and> rt_refused resp\<rbrakk>
    \<Longrightarrow> ledger_spec req L resp (L @ [(rt_IdempotencyKey req, i, ps)])"
| replay: "(rt_IdempotencyKey req, i, ps) \<in> set L \<Longrightarrow> ledger_spec req L (succeeded i) L"
| refuse: "rt_refused resp \<Longrightarrow> ledger_spec req L resp L"

inductive_cases ledger_specE: "ledger_spec req L resp L'"

lemma recorded_as_succeeded: "(Some (recorded_as d), None) = succeeded (ld_ID d)"
  by (simp add: recorded_as_def succeeded_def)

lemma known_key:
  "d \<in> set ds \<Longrightarrow> ld_IdempotencyKey d = rt_IdempotencyKey req \<Longrightarrow>
     ledger_spec req (bookings ds) (Some (recorded_as d), None) (bookings ds)"
  unfolding recorded_as_succeeded
  by (rule ledger_spec.replay [of _ _ "ld_Postings d"]) (auto simp: bookings_def booking_of_def image_iff intro!: bexI [of _ d])

lemma acts_spec:
  assumes "acts E req docID ps a out b" and "request_postings req = Inr ps"
    and "case out of Answered r \<Rightarrow> resp = (Some r, None)
      | Inserted doc \<Rightarrow> resp = succeeded (ld_ID doc) \<or> fst resp = None \<and> rt_refused resp"
  shows "ledger_spec req (bookings a) resp (bookings b)"
  using assms(1)
proof (cases rule: acts.cases)
  case (insert M doc ds es n h now)
  then have "rt_IdempotencyKey req \<notin> fst ` set (bookings a)" "docID \<notin> (fst \<circ> snd) ` set (bookings a)"
    by (auto simp: bookings_def booking_of_def ledger_conflict_def list_ex_iff)
  moreover have "bookings b = bookings a @ [(rt_IdempotencyKey req, docID, ps)]" "ld_ID doc = docID"
    using insert by (simp_all add: bookings_def booking_of_def)
  ultimately show ?thesis using insert(2) ledger_spec.book [of req "bookings a" docID ps] assms(2,3) by simp
qed (use assms(3) in \<open>auto simp: known_key rt_refused_def intro: ledger_spec.refuse\<close>)

subsection \<open>Interference\<close>

text \<open>
  What the other pods may do to the entries between two calls of a request: any relation that
  is reflexive, transitive and only appends. A request runs among such pods with the driver of
  a MongoDB collection. It takes effect in one moment between their writes.
\<close>

locale interference =
  fixes R :: "LedgerDocument list \<Rightarrow> LedgerDocument list \<Rightarrow> bool"
  assumes R_refl: "R ds ds" and R_trans: "R a b \<Longrightarrow> R b c \<Longrightarrow> R a c" and R_grows: "R a b \<Longrightarrow> \<exists>es. b = a @ es"
begin

definition runs_among :: "ledger_env \<Rightarrow> bool" where
  "runs_among E \<longleftrightarrow> (\<forall>n. ledger_collection (le_col E n)) \<and> (\<forall>n ds. R ds (le_others E n ds))"

lemma among_col: "runs_among E \<Longrightarrow> ledger_collection (le_col E n)"
  by (simp add: runs_among_def)

lemma among_others: "runs_among E \<Longrightarrow> R ds (le_others E n ds)"
  by (simp add: runs_among_def)

lemma insert_loop_acts:
  assumes "runs_among E" and "insert_loop E req docID ps n err ds = (ds', out)"
  shows "\<exists>a b. R ds a \<and> acts E req docID ps a out b \<and> R b ds'"
  using assms(2)
proof (induction n arbitrary: err ds)
  case 0
  then show ?case using among_others [OF assms(1)] handleInsertError_acts [OF among_col [OF assms(1)]]
    by (auto simp: Let_def intro!: exI [of _ "le_others E 16 ds"] R_refl)
next
  case (Suc n)
  let ?k = "3 * (maxInsertRetries - Suc n)"
  let ?d1 = "le_others E (?k + 1) ds" and ?M = "\<lambda>i. le_col E (?k + i)"
  let ?d2 = "le_others E (?k + 2) ?d1" and ?d3 = "le_others E (?k + 3)"
  obtain m h where mh: "getPreviousSequenceAndHash (?M 1) ?d1 = (m, h)" by fastforce
  let ?doc = "ledger_document E req docID ps m h (Truncate (le_now E (maxInsertRetries - Suc n)) Millisecond)"
  have e: "R ds ?d2" using among_others [OF assms(1)] R_trans by meson
  then have e3: "R ds (?d3 ?d2)" using among_others [OF assms(1)] R_trans by meson
  obtain es where es: "?d2 = ?d1 @ es" using among_others [OF assms(1), of ?d1 "?k + 2"] R_grows by blast
  have col: "collection (?M 2) ledger_conflict" using among_col [OF assms(1)] by (simp add: ledger_collection_def)
  show ?case
  proof (cases rule: collection.InsertOne_cases [OF col, of ?doc ?d2])
    case ok: 1
    with Suc.prems mh have "ds' = ?d2 @ [?doc]" "out = Inserted ?doc" by (simp_all add: Let_def)
    moreover have "acts E req docID ps ?d2 (Inserted ?doc) (?d2 @ [?doc])"
      using acts.insert [OF among_col [OF assms(1)] _ mh refl, where es = es] ok(2) unfolding es by simp
    ultimately show ?thesis using e R_refl by blast
  next
    case err: (2 e)
    show ?thesis
    proof (cases "IsDuplicateKeyError e")
      case dup: True
      show ?thesis
      proof (cases "find_key (?M 3) (rt_IdempotencyKey req) (?d3 ?d2)")
        case (Inl x)
        with Suc.prems mh err dup have "insert_loop E req docID ps n e (?d3 ?d2) = (ds', out)" by (simp add: Let_def)
        from Suc.IH [OF this] e3 show ?thesis using R_trans by blast
      next
        case (Inr d)
        with Suc.prems mh err dup have "ds' = ?d3 ?d2" "out = Answered (recorded_as d)" by (simp_all add: Let_def)
        then show ?thesis using find_key_Inr [OF among_col [OF assms(1)] Inr] acts.replay e3 R_refl by blast
      qed
    next
      case False
      with Suc.prems mh err have "ds' = ?d3 ?d2" "out = Answered (handleInsertError (?M 3) req e (?d3 ?d2))"
        by (auto simp: Let_def)
      then show ?thesis using handleInsertError_acts [OF among_col [OF assms(1)]] e3 R_refl by blast
    qed
  qed
qed

text \<open>Every request takes effect in one moment between the writes of the other pods.\<close>

lemma RecordTransaction_step:
  assumes "runs_among E" and "RecordTransaction E ctx req st = (st', resp)"
  shows "\<exists>a b. R (lb_entries st) a \<and> ledger_spec req (bookings a) resp (bookings b)
    \<and> evolves a b \<and> R b (lb_entries st')"
proof (cases "record_validation E req")
  case (Some err)
  with assms(2) have "st' = st" "rt_refused resp" by (auto simp: RecordTransaction_def rt_refused_def Let_def)
  then show ?thesis using ledger_spec.refuse evolves_refl R_refl by blast
next
  case valid: None
  let ?d = "le_others E 0 (lb_entries st)"
  have e: "R (lb_entries st) ?d" by (rule among_others [OF assms(1)])
  show ?thesis
  proof (cases "checkDuplicateTransaction (le_col E 0) (rt_IdempotencyKey req) ?d")
    case (Some r)
    then obtain d where "find_key (le_col E 0) (rt_IdempotencyKey req) ?d = Inr d" "r = recorded_as d"
      by (auto simp: checkDuplicateTransaction_def split: sum.splits)
    moreover have "lb_entries st' = ?d" "resp = (Some r, None)" using assms(2) valid Some
      by (auto simp: RecordTransaction_def Let_def)
    ultimately have "ledger_spec req (bookings ?d) resp (bookings ?d)" "lb_entries st' = ?d"
      using find_key_Inr [OF among_col [OF assms(1)]] known_key by auto
    then show ?thesis using e evolves_refl R_refl by metis
  next
    case new: None
    show ?thesis
    proof (cases "request_postings req")
      case (Inl err)
      then have "lb_entries st' = ?d" "rt_refused resp" using assms(2) valid new
        by (auto simp: RecordTransaction_def request_postings_def rt_refused_def Let_def)
      then show ?thesis using e ledger_spec.refuse evolves_refl R_refl by metis
    next
      case (Inr ps)
      let ?i = "parseTransactionDocID (le_newID E) (rt_TransactionId req)"
      obtain ds' out where l: "insert_loop E req ?i ps maxInsertRetries ErrNoDocuments ?d = (ds', out)" by fastforce
      from insert_loop_acts [OF assms(1) l] obtain a b where
        ab: "R ?d a" "acts E req ?i ps a out b" "R b ds'" by blast
      have "lb_entries st' = ds'" and out: "case out of Answered r \<Rightarrow> resp = (Some r, None)
          | Inserted doc \<Rightarrow> resp = succeeded (ld_ID doc) \<or> fst resp = None \<and> rt_refused resp"
        using assms(2) valid new Inr l
        by (auto simp: RecordTransaction_def request_postings_def rt_refused_def recorded_as_succeeded Let_def
            split: insert_outcome.splits option.splits prod.splits)
      moreover have "ledger_spec req (bookings a) resp (bookings b)"
        by (rule acts_spec [OF ab(2) Inr out])
      moreover have "evolves a b" using acts_evolves [OF ab(2)] multi_currency_balanced(2) Inr
        by (simp add: request_postings_def)
      ultimately show ?thesis using ab(1,3) e R_trans by metis
    qed
  qed
qed

end

interpretation pods: interference evolves
proof unfold_locales
  fix a b c assume "evolves a b" "evolves b c"
  then show "evolves a c" by (rule evolves_trans)
qed (auto simp: evolves_def)

text \<open>A request whose database calls are those of a MongoDB collection, among pods that append.\<close>

definition fair_env :: "ledger_env \<Rightarrow> bool" where
  "fair_env E \<longleftrightarrow> (\<forall>n. ledger_collection (le_col E n)) \<and> (\<forall>n. appends (le_others E n))"

lemma fair_among: "fair_env E = pods.runs_among E"
  by (auto simp: fair_env_def pods.runs_among_def appends_def)

lemma fair_others: "fair_env E \<Longrightarrow> evolves ds (le_others E n ds)"
  by (simp add: fair_env_def appends_def)

lemmas insert_loop_acts = pods.insert_loop_acts [folded fair_among]
lemmas RecordTransaction_step = pods.RecordTransaction_step [folded fair_among]

subsection \<open>Two pods\<close>

interpretation mem_ledger: ledger_collection "mem_ops ledger_conflict"
  by unfold_locales

definition pod_env :: "string \<Rightarrow> (nat \<Rightarrow> LedgerDocument list \<Rightarrow> LedgerDocument list) \<Rightarrow> ledger_env" where
  "pod_env fresh others =
     \<lparr>le_db = True, le_region = ''us-east-1'', le_environment = ''local'', le_col = (\<lambda>n. mem_ops ledger_conflict),
      le_others = others, le_now = (\<lambda>n. 1700000000123456789 + int n), le_newID = fresh, le_outbox = None,
      le_outboxID = [], le_assoc = (\<lambda>n. ''assoc''), le_durationMS = 3\<rparr>"

definition booking_request :: "string \<Rightarrow> int64 \<Rightarrow> RecordTransactionRequest" where
  "booking_request key n =
     \<lparr>rt_TransactionId = [], rt_IdempotencyKey = key, rt_SourceWalletId = ''alice_1'',
      rt_DestinationWalletId = ''bob_1'', rt_Amount = n, rt_Currency = ''USD'', rt_Region = ''us-east-1'',
      rt_DestinationAmount = 0, rt_DestinationCurrency = [], rt_ExchangeRate = 0, rt_FxQuoteId = []\<rparr>"

text \<open>One request of a pod, as the change it makes to the entries.\<close>

definition record_entries ::
    "ledger_env \<Rightarrow> metadata \<Rightarrow> RecordTransactionRequest \<Rightarrow> OutboxEntry list \<Rightarrow> LedgerDocument list \<Rightarrow> LedgerDocument list" where
  "record_entries E ctx req es ds =
     lb_entries (fst (RecordTransaction E ctx req \<lparr>lb_entries = ds, lb_outbox = es\<rparr>))"

lemma fair_pod: "(\<And>n. appends (others n)) \<Longrightarrow> fair_env (pod_env fresh others)"
  using mem_ledger.ledger_collection_axioms by (simp add: fair_env_def pod_env_def)

lemma RecordTransaction_booked:
  assumes "fair_env E" and "RecordTransaction E ctx req st = (st', Some resp, None)" and "rr_Success resp"
  shows "(\<exists>d \<in> set (lb_entries st'). ld_IdempotencyKey d = rt_IdempotencyKey req \<and> ld_ID d = rr_TransactionId resp)
    \<and> evolves (lb_entries st) (lb_entries st')"
proof -
  from RecordTransaction_step [OF assms(1,2)] obtain a b where
    e: "evolves (lb_entries st) a" "evolves a b" "evolves b (lb_entries st')"
    and s: "ledger_spec req (bookings a) (Some resp, None) (bookings b)" by blast
  from s assms(3) have "\<exists>ps. (rt_IdempotencyKey req, rr_TransactionId resp, ps) \<in> set (bookings b)"
    by (cases rule: ledger_spec.cases) (auto simp: succeeded_def rt_refused_def)
  then obtain d where "d \<in> set b" "ld_IdempotencyKey d = rt_IdempotencyKey req" "ld_ID d = rr_TransactionId resp"
    by (auto simp: bookings_def booking_of_def)
  then show ?thesis using e evolves_set evolves_trans by blast
qed

lemma filter_unique_key:
  "distinct (map f xs) \<Longrightarrow> x \<in> set xs \<Longrightarrow> filter (\<lambda>y. f y = f x) xs = [x]"
proof (induction xs)
  case (Cons y ys)
  then show ?case by (cases "y = x") (auto simp: filter_empty_conv image_iff)
qed simp

subsection \<open>Properties\<close>

text \<open>
  C8. However many pods record at once and whichever of their database calls fail, the ledger
  stays one unbroken chain: a request, run among other pods that only append and keep the
  chain, itself only appends and keeps it. Entries are numbered without gap or repetition,
  each carries the hash of its predecessor, and no transaction is entered twice. This holds
  even when reading the head of the chain fails and the code falls back to the genesis hash.
\<close>

theorem RecordTransaction_keeps_chain:
  assumes "fair_env E"
  shows "appends (record_entries E ctx req es)"
proof -
  have "evolves ds (record_entries E ctx req es ds)" for ds
  proof -
    obtain st' resp where r: "RecordTransaction E ctx req \<lparr>lb_entries = ds, lb_outbox = es\<rparr> = (st', resp)" by (rule prod.exhaust)
    from RecordTransaction_step [OF assms r] have "evolves ds (lb_entries st')" using evolves_trans by auto
    with r show ?thesis by (simp add: record_entries_def)
  qed
  then show ?thesis by (simp add: appends_def)
qed

theorem RecordTransaction_keeps_chain_witness:
  "appends (record_entries (pod_env ''a'' (\<lambda>n. if n = 2 \<or> n = 5
      then record_entries (pod_env ''b'' (\<lambda>n ds. ds)) None (booking_request ''k2'' 700) [] else (\<lambda>ds. ds)))
     None (booking_request ''k1'' 500) [])"
  by (rule RecordTransaction_keeps_chain [OF fair_pod])
     (simp add: RecordTransaction_keeps_chain [OF fair_pod [OF appends_id]])

text \<open>
  C9. Recording is atomic: among any pods, a request behaves as one step of the abstract
  ledger, taken at a moment between the writes of the others. It books a new transaction
  with the postings of the request, or answers with the id booked under its key before, or
  refuses and changes nothing.
\<close>

theorem RecordTransaction_refines_ledger:
  assumes "fair_env E" and "RecordTransaction E ctx req st = (st', resp)"
  shows "\<exists>before after. (\<exists>others. before = bookings (lb_entries st) @ others)
    \<and> ledger_spec req before resp after \<and> (\<exists>others. bookings (lb_entries st') = after @ others)"
proof -
  from RecordTransaction_step [OF assms] obtain a b where "evolves (lb_entries st) a"
    "ledger_spec req (bookings a) resp (bookings b)" "evolves b (lb_entries st')" by blast
  then show ?thesis using bookings_grow by metis
qed

definition sample_postings :: "JournalPosting list" where
  "sample_postings =
     [posting ''alice_1'' AccountTypeCustomerLiability PostingDebit 500 ''USD'',
      posting ''bob_1'' AccountTypeCustomerLiability PostingCredit 500 ''USD'']"

definition sample_entry :: LedgerDocument where
  "sample_entry = ledger_document (pod_env ''a'' (\<lambda>n ds. ds)) (booking_request ''k1'' 500) ''a'' sample_postings
     1 GenesisHash 1700000000123000000"

lemma first_booking:
  assumes "record_validation (pod_env i (\<lambda>n ds. ds)) req = None" and "request_postings req = Inr ps" and "parseTransactionDocID i (rt_TransactionId req) = i"
  shows "RecordTransaction (pod_env i (\<lambda>n ds. ds)) None req \<lparr>lb_entries = [], lb_outbox = []\<rparr>
     = (\<lparr>lb_entries = [ledger_document (pod_env i (\<lambda>n ds. ds)) req i ps 1 GenesisHash 1700000000123000000], lb_outbox = []\<rparr>,
        succeeded i)"
proof -
  let ?E = "pod_env i (\<lambda>n ds. ds)"
  let ?d = "ledger_document ?E req i ps 1 GenesisHash 1700000000123000000"
  have "insert_loop ?E req i ps maxInsertRetries ErrNoDocuments [] = ([?d], Inserted ?d)"
  proof -
    have m: "maxInsertRetries = Suc 4" by (simp add: maxInsertRetries_def)
    have "le_others ?E = (\<lambda>n ds. ds)" "le_col ?E n = mem_ops ledger_conflict" for n by (simp_all add: pod_env_def)
    moreover have "getPreviousSequenceAndHash (mem_ops ledger_conflict) [] = (1, GenesisHash)"
      by (simp add: getPreviousSequenceAndHash_def mem_ops_def mem_FindOne_def)
    moreover have "Truncate (le_now ?E 0) Millisecond = 1700000000123000000"
      by (simp add: Truncate_def Millisecond_def pod_env_def)
    moreover have "InsertOne (mem_ops ledger_conflict) d [] = ([d], None)" for d by (simp add: mem_ops_def mem_InsertOne_def)
    ultimately show ?thesis unfolding m insert_loop.simps by (simp add: m Let_def)
  qed
  moreover have "checkDuplicateTransaction (le_col ?E 0) (rt_IdempotencyKey req) [] = None"
    by (simp add: checkDuplicateTransaction_def find_key_def pod_env_def mem_ops_def mem_FindOne_def)
  moreover have "le_others ?E = (\<lambda>n ds. ds)" "le_outbox ?E = None" "le_newID ?E = i" by (simp_all add: pod_env_def)
  ultimately show ?thesis using assms
    by (simp add: RecordTransaction_def Let_def recorded_as_succeeded request_postings_def)
qed

lemma pod_books:
  "RecordTransaction (pod_env ''a'' (\<lambda>n ds. ds)) None (booking_request ''k1'' 500) \<lparr>lb_entries = [], lb_outbox = []\<rparr>
     = (\<lparr>lb_entries = [sample_entry], lb_outbox = []\<rparr>, succeeded ''a'')"
proof -
  have "record_validation (pod_env ''a'' (\<lambda>n ds. ds)) (booking_request ''k1'' 500) = None"
    "request_postings (booking_request ''k1'' 500) = Inr sample_postings" by code_simp+
  from first_booking [OF this] show ?thesis
    by (simp add: sample_entry_def booking_request_def parseTransactionDocID_def)
qed

theorem RecordTransaction_refines_ledger_witness:
  "\<exists>before after. (\<exists>others. before = bookings [] @ others)
    \<and> ledger_spec (booking_request ''k1'' 500) before (succeeded ''a'') after
    \<and> (\<exists>others. bookings [sample_entry] = after @ others)"
  using RecordTransaction_refines_ledger [OF fair_pod [OF appends_id] pod_books] by simp

text \<open>
  C10. A request that is answered with success is on the books: exactly one entry carries its
  key, under the transaction id of the answer. Any later request with the same key, on any
  pod, that is answered with success gets the same id, and the entry is never changed.
\<close>

theorem RecordTransaction_idempotent:
  assumes "fair_env E" and "fair_env E'" and "ledger_ok (lb_entries st)"
    and "RecordTransaction E ctx req st = (st1, Some resp, None)" and "rr_Success resp"
    and "evolves (lb_entries st1) (lb_entries st2)"
    and "RecordTransaction E' ctx' req' st2 = (st3, Some resp', None)" and "rr_Success resp'"
    and "rt_IdempotencyKey req' = rt_IdempotencyKey req" and "int (length (lb_entries st3)) < 2 ^ 63"
  shows "rr_TransactionId resp' = rr_TransactionId resp
    \<and> (\<exists>d. filter (\<lambda>d. ld_IdempotencyKey d = rt_IdempotencyKey req) (lb_entries st3) = [d]
         \<and> ld_ID d = rr_TransactionId resp \<and> d \<in> set (lb_entries st1))"
proof -
  from RecordTransaction_booked [OF assms(1,4,5)] obtain d where
    d: "d \<in> set (lb_entries st1)" "ld_IdempotencyKey d = rt_IdempotencyKey req" "ld_ID d = rr_TransactionId resp"
    and e1: "evolves (lb_entries st) (lb_entries st1)" by blast
  from RecordTransaction_booked [OF assms(2,7,8)] assms(9) obtain d' where
    d': "d' \<in> set (lb_entries st3)" "ld_IdempotencyKey d' = rt_IdempotencyKey req" "ld_ID d' = rr_TransactionId resp'"
    and e3: "evolves (lb_entries st2) (lb_entries st3)" by auto
  have "evolves (lb_entries st) (lb_entries st3)" using e1 e3 assms(6) evolves_trans by blast
  then have ok: "ledger_ok (lb_entries st3)" using assms(3,10) by (auto simp: evolves_def)
  have in3: "d \<in> set (lb_entries st3)" using d(1) e3 assms(6) evolves_set by blast
  have "distinct (map ld_IdempotencyKey (lb_entries st3))" using ok by (simp add: ledger_ok_def)
  from filter_unique_key [OF this in3] have f: "filter (\<lambda>x. ld_IdempotencyKey x = rt_IdempotencyKey req) (lb_entries st3) = [d]"
    using d(2) by simp
  have "d' \<in> set (filter (\<lambda>x. ld_IdempotencyKey x = rt_IdempotencyKey req) (lb_entries st3))" using d' by simp
  then have "d' = d" unfolding f by simp
  with d d' f show ?thesis by auto
qed

lemma pod_replays:
  "RecordTransaction (pod_env ''b'' (\<lambda>n ds. ds)) None (booking_request ''k1'' 500)
     \<lparr>lb_entries = [sample_entry], lb_outbox = []\<rparr>
     = (\<lparr>lb_entries = [sample_entry], lb_outbox = []\<rparr>, succeeded ''a'')"
proof -
  have "record_validation (pod_env ''b'' (\<lambda>n ds. ds)) (booking_request ''k1'' 500) = None" by code_simp
  moreover have "ld_IdempotencyKey sample_entry = ''k1''" "ld_ID sample_entry = ''a''"
    by (simp_all add: sample_entry_def booking_request_def)
  ultimately show ?thesis
    by (simp add: RecordTransaction_def Let_def pod_env_def checkDuplicateTransaction_def find_key_def mem_ops_def
        mem_FindOne_def booking_request_def recorded_as_succeeded)
qed

theorem RecordTransaction_idempotent_witness:
  "rr_TransactionId (the (fst (succeeded ''a''))) = rr_TransactionId (the (fst (succeeded ''a'')))
    \<and> (\<exists>d. filter (\<lambda>d. ld_IdempotencyKey d = ''k1'') [sample_entry] = [d]
         \<and> ld_ID d = ''a'' \<and> d \<in> set [sample_entry])"
  using RecordTransaction_idempotent [OF fair_pod [OF appends_id] fair_pod [OF appends_id] _ pod_books [unfolded succeeded_def] _ _
      pod_replays [unfolded succeeded_def]]
  by (simp add: ledger_ok_def booking_request_def)

subsection \<open>Progress\<close>

lemma mem_head:
  assumes "ledger_ok ds" and "int (length ds) + 1 < 2 ^ 63"
  shows "getPreviousSequenceAndHash (mem_ops ledger_conflict) ds =
    (int (length (filter sequenced ds)) + 1, last_hash GenesisHash (filter sequenced ds))"
proof (cases rule: mem_ledger.head_cases [OF assms])
  case (2 e)
  then have "filter sequenced ds = []"
    using mem_FindOne_none [of sequenced "Some (\<lambda>d. - ld_SequenceNumber d)" ds e]
    by (simp add: mem_ops_def filter_empty_conv)
  with 2 show ?thesis by (simp add: last_hash_def)
qed

text \<open>In a sound ledger nothing conflicts with the next sequence number.\<close>

lemma next_seq_free:
  assumes "ledger_ok ds" and "d \<in> set ds"
  shows "ld_SequenceNumber d \<noteq> int (length (filter sequenced ds)) + 1"
proof
  assume s: "ld_SequenceNumber d = int (length (filter sequenced ds)) + 1"
  then have "d \<in> set (filter sequenced ds)" using assms(2) by (simp add: sequenced_def)
  then obtain i where "i < length (filter sequenced ds)" "filter sequenced ds ! i = d" by (metis in_set_conv_nth)
  then show False using linked_nth [of 1 GenesisHash "filter sequenced ds" i] s assms(1) by (simp add: ledger_ok_def)
qed

definition loop_done :: "string \<Rightarrow> string \<Rightarrow> LedgerDocument list \<Rightarrow> insert_outcome \<Rightarrow> bool" where
  "loop_done key docID ds out \<longleftrightarrow>
     (case out of Inserted doc \<Rightarrow> True | Answered r \<Rightarrow> rr_Success r)
     \<or> (\<exists>d \<in> set ds. ld_ID d = docID \<and> ld_IdempotencyKey d \<noteq> key)"

lemma mem_find_key:
  "find_key (mem_ops c) k ds = Inl e \<Longrightarrow> d \<in> set ds \<Longrightarrow> ld_IdempotencyKey d \<noteq> k"
  using mem_FindOne_none [of "\<lambda>d. ld_IdempotencyKey d = k" None ds e d] by (simp add: find_key_def mem_ops_def)

lemma last_attempt:
  assumes q: "\<And>n ds. 13 \<le> n \<Longrightarrow> le_others E n ds = ds" and mem: "\<And>n. le_col E n = mem_ops ledger_conflict"
    and ok: "ledger_ok ds" and len: "int (length ds) + 1 < 2 ^ 63"
    and l: "insert_loop E req docID ps (Suc 0) err ds = (ds', out)"
  shows "loop_done (rt_IdempotencyKey req) docID ds' out"
proof -
  have m: "maxInsertRetries - Suc 0 = 4" by (simp add: maxInsertRetries_def)
  define doc where "doc = ledger_document E req docID ps (int (length (filter sequenced ds)) + 1)
    (last_hash GenesisHash (filter sequenced ds)) (Truncate (le_now E 4) Millisecond)"
  show ?thesis
  proof (cases "list_ex (ledger_conflict doc) ds")
    case False
    then have "InsertOne (mem_ops ledger_conflict) doc ds = (ds @ [doc], None)" by (simp add: mem_ops_def mem_InsertOne_def)
    with l have "out = Inserted doc" using mem_head [OF ok len] by (simp add: q mem m doc_def Let_def)
    then show ?thesis by (simp add: loop_done_def)
  next
    case True
    let ?e = "DuplicateKey (lit ''E11000 duplicate key error'')"
    from True have "InsertOne (mem_ops ledger_conflict) doc ds = (ds, Some ?e)" by (simp add: mem_ops_def mem_InsertOne_def)
    note ins = this
    show ?thesis
    proof (cases "find_key (mem_ops ledger_conflict) (rt_IdempotencyKey req) ds")
      case (Inr d)
      with l ins mem_head [OF ok len] have "out = Answered (recorded_as d)" by (simp add: q mem m doc_def Let_def)
      then show ?thesis by (simp add: loop_done_def recorded_as_def)
    next
      case (Inl x)
      from True obtain d where d: "d \<in> set ds" "ledger_conflict doc d" by (auto simp: list_ex_iff)
      then have "ld_ID d = docID" "ld_IdempotencyKey d \<noteq> rt_IdempotencyKey req"
        using mem_find_key [OF Inl d(1)] next_seq_free [OF ok d(1)] by (auto simp: ledger_conflict_def doc_def)
      moreover have "ds' = ds" using l ins Inl mem_head [OF ok len] by (simp add: q mem m doc_def Let_def)
      ultimately show ?thesis using d(1) by (auto simp: loop_done_def)
    qed
  qed
qed

lemma insert_loop_length:
  assumes "fair_env E" and "insert_loop E req docID ps n err ds = (ds', out)"
  shows "length ds \<le> length ds'"
proof -
  from insert_loop_acts [OF assms] obtain a b where ab: "evolves ds a" "acts E req docID ps a out b" "evolves b ds'" by blast
  from ab(2) have "length a \<le> length b" by (cases rule: acts.cases) auto
  with ab(1,3) evolves_length show ?thesis by (meson le_trans)
qed

lemma mem_attempt:
  assumes fair: "fair_env E" and mem: "\<And>n. le_col E n = mem_ops ledger_conflict"
    and l: "insert_loop E req docID ps (Suc n) err ds = (ds', out)"
  shows "loop_done (rt_IdempotencyKey req) docID ds' out
    \<or> (\<exists>e ds4. evolves ds ds4 \<and> insert_loop E req docID ps n e ds4 = (ds', out))"
proof -
  let ?k = "3 * (maxInsertRetries - Suc n)" and ?M = "mem_ops ledger_conflict"
  let ?d1 = "le_others E (?k + 1) ds"
  let ?d2 = "le_others E (?k + 2) ?d1"
  let ?d4 = "le_others E (?k + 3) ?d2"
  obtain m h where mh: "getPreviousSequenceAndHash ?M ?d1 = (m, h)" by fastforce
  let ?doc = "ledger_document E req docID ps m h (Truncate (le_now E (maxInsertRetries - Suc n)) Millisecond)"
  have e: "evolves ds ?d4" using fair_others [OF fair] evolves_trans by meson
  show ?thesis
  proof (cases "list_ex (ledger_conflict ?doc) ?d2")
    case False
    then have "InsertOne ?M ?doc ?d2 = (?d2 @ [?doc], None)" by (simp add: mem_ops_def mem_InsertOne_def)
    with l mh have "out = Inserted ?doc" by (simp add: mem Let_def)
    then show ?thesis by (simp add: loop_done_def)
  next
    case True
    let ?e = "DuplicateKey (lit ''E11000 duplicate key error'')"
    from True have "InsertOne ?M ?doc ?d2 = (?d2, Some ?e)" by (simp add: mem_ops_def mem_InsertOne_def)
    note ins = this
    show ?thesis
    proof (cases "find_key ?M (rt_IdempotencyKey req) ?d4")
      case (Inl x)
      with l mh ins have "insert_loop E req docID ps n ?e ?d4 = (ds', out)" by (simp add: mem Let_def)
      with e show ?thesis by blast
    next
      case (Inr d)
      with l mh ins have "out = Answered (recorded_as d)" by (simp add: mem Let_def)
      then show ?thesis by (simp add: loop_done_def recorded_as_def)
    qed
  qed
qed

lemma insert_loop_completes:
  assumes fair: "fair_env E" and q: "\<And>n ds. 13 \<le> n \<Longrightarrow> le_others E n ds = ds"
    and mem: "\<And>n. le_col E n = mem_ops ledger_conflict"
    and "ledger_ok ds" and "int (length ds') + 1 < 2 ^ 63" and "insert_loop E req docID ps (Suc n) err ds = (ds', out)"
  shows "loop_done (rt_IdempotencyKey req) docID ds' out"
  using assms(4-)
proof (induction n arbitrary: err ds)
  case 0
  then show ?case using last_attempt [OF q mem 0(1) _ 0(3)] insert_loop_length [OF fair 0(3)] by linarith
next
  case (Suc n)
  from mem_attempt [OF fair mem Suc.prems(3)] show ?case
  proof (elim disjE exE conjE)
    fix e ds4
    assume e: "evolves ds ds4" and l: "insert_loop E req docID ps (Suc n) e ds4 = (ds', out)"
    have "int (length ds4) < 2 ^ 63" using insert_loop_length [OF fair l] Suc.prems(2) by linarith
    then have "ledger_ok ds4" using e Suc.prems(1) by (simp add: evolves_def)
    then show ?thesis using Suc.IH l Suc.prems(2) by blast
  qed simp
qed



end
