(* ===== verification/DistCache.thy ===== *)
theory DistCache
  imports WalletTypes
begin

text \<open>
  The balance caches of \<open>pkg/cache\<close>: the interface \<open>DistributedCache\<close> as a locale, the
  in-memory implementation \<open>MemoryCache\<close> (\<open>cache.go\<close>) and the two-level \<open>TieredCache\<close>
  (\<open>tiered.go\<close>). A mutex guards every method, so a method is one step on the cache's state.
  The order of the association list is the order in which \<open>range\<close> visits the map. The
  invalidation bus is the log of the broadcasts it was asked for.
\<close>

subsection \<open>The interface\<close>

record 'c DistributedCache =
  dc_Get :: "int \<Rightarrow> string \<Rightarrow> 'c \<Rightarrow> 'c \<times> (gomsg + GetBalanceResponse option)"
  dc_Set :: "int \<Rightarrow> string \<Rightarrow> GetBalanceResponse option \<Rightarrow> int \<Rightarrow> 'c \<Rightarrow> 'c \<times> gomsg option"
  dc_Invalidate :: "string list \<Rightarrow> 'c \<Rightarrow> 'c \<times> gomsg option"

subsection \<open>Entries\<close>

record memoryCacheEntry =
  ce_response :: GetBalanceResponse
  ce_expiresAt :: int

type_synonym cache_entries = "(string, memoryCacheEntry) gomap"

definition CloneGetBalanceResponse :: "GetBalanceResponse \<Rightarrow> GetBalanceResponse" where
  "CloneGetBalanceResponse r =
     \<lparr>gb_WalletId = gb_WalletId r,
      gb_Balances = map (\<lambda>m. \<lparr>m_Currency = m_Currency m, m_Units = m_Units m, m_Nanos = m_Nanos m,
                               m_Scale = m_Scale m, m_CurrencyCode = m_CurrencyCode m\<rparr>) (gb_Balances r),
      gb_HandledByRegion = gb_HandledByRegion r,
      gb_Status = gb_Status r\<rparr>"

definition evictOneLocked :: "int \<Rightarrow> cache_entries \<Rightarrow> cache_entries" where
  "evictOneLocked now es =
     (case find (\<lambda>(k, v). ce_expiresAt v < now) es of
        Some (k, v) \<Rightarrow> AList.delete k es
      | None \<Rightarrow> (case es of [] \<Rightarrow> [] | (k, v) # _ \<Rightarrow> AList.delete k es))"

definition cleanup_tick :: "int \<Rightarrow> cache_entries \<Rightarrow> cache_entries" where
  "cleanup_tick now es = filter (\<lambda>(k, v). \<not> ce_expiresAt v < now) es"

text \<open>The loop of \<open>Invalidate\<close>: the remaining entries and how many were evicted.\<close>

fun evict_ids :: "string list \<Rightarrow> cache_entries \<Rightarrow> cache_entries \<times> nat" where
  "evict_ids [] es = (es, 0)"
| "evict_ids (i # is) es =
     (if i = [] then evict_ids is es
      else if map_of es i \<noteq> None
      then (let (es', n) = evict_ids is (AList.delete i es) in (es', Suc n))
      else evict_ids is es)"

definition store_entry :: "int \<Rightarrow> int \<Rightarrow> string \<Rightarrow> GetBalanceResponse \<Rightarrow> int \<Rightarrow> cache_entries \<Rightarrow> cache_entries" where
  "store_entry now maxEntries i resp expires es =
     (let es = (if maxEntries \<le> int (length es) \<and> map_of es i = None then evictOneLocked now es else es)
      in AList.update i \<lparr>ce_response = CloneGetBalanceResponse resp, ce_expiresAt = expires\<rparr> es)"

definition add_uint64 :: "int \<Rightarrow> int \<Rightarrow> int" where
  "add_uint64 x n = (x + n) mod 2 ^ 64"

subsection \<open>MemoryCache\<close>

record MemoryCache =
  mc_entries :: cache_entries
  mc_defaultTTL :: int
  mc_maxEntries :: int
  mc_hits :: int
  mc_misses :: int
  mc_invalids :: int

definition NewMemoryCache :: "int \<Rightarrow> int \<Rightarrow> MemoryCache" where
  "NewMemoryCache defaultTTL maxEntries =
     \<lparr>mc_entries = [],
      mc_defaultTTL = (if defaultTTL \<le> 0 then 15000000000 else defaultTTL),
      mc_maxEntries = (if maxEntries \<le> 0 then 10000 else maxEntries),
      mc_hits = 0, mc_misses = 0, mc_invalids = 0\<rparr>"

definition MemoryCache_Get ::
    "int \<Rightarrow> string \<Rightarrow> MemoryCache \<Rightarrow> MemoryCache \<times> (gomsg + GetBalanceResponse option)" where
  "MemoryCache_Get now walletID c =
     (if walletID = [] then (c, Inr None)
      else case map_of (mc_entries c) walletID of
             None \<Rightarrow> (c\<lparr>mc_misses := add_uint64 (mc_misses c) 1\<rparr>, Inr None)
           | Some entry \<Rightarrow>
               if ce_expiresAt entry < now
               then (c\<lparr>mc_entries := AList.delete walletID (mc_entries c),
                       mc_misses := add_uint64 (mc_misses c) 1\<rparr>, Inr None)
               else (c\<lparr>mc_hits := add_uint64 (mc_hits c) 1\<rparr>,
                     Inr (Some (CloneGetBalanceResponse (ce_response entry)))))"

definition MemoryCache_Set ::
    "int \<Rightarrow> string \<Rightarrow> GetBalanceResponse option \<Rightarrow> int \<Rightarrow> MemoryCache \<Rightarrow> MemoryCache \<times> gomsg option" where
  "MemoryCache_Set now walletID resp ttl c =
     (case resp of
        None \<Rightarrow> (c, None)
      | Some r \<Rightarrow>
          if walletID = [] then (c, None)
          else (let ttl = (if ttl \<le> 0 then mc_defaultTTL c else ttl)
                in (c\<lparr>mc_entries :=
                        store_entry now (mc_maxEntries c) walletID r (now + ttl) (mc_entries c)\<rparr>,
                    None)))"

definition MemoryCache_Invalidate :: "string list \<Rightarrow> MemoryCache \<Rightarrow> MemoryCache \<times> gomsg option" where
  "MemoryCache_Invalidate walletIDs c =
     (let (es, n) = evict_ids walletIDs (mc_entries c)
      in (c\<lparr>mc_entries := es,
            mc_invalids := (if 0 < n then add_uint64 (mc_invalids c) (int n) else mc_invalids c)\<rparr>,
          None))"

definition MemoryCache_Cleanup :: "int \<Rightarrow> MemoryCache \<Rightarrow> MemoryCache" where
  "MemoryCache_Cleanup now c = c\<lparr>mc_entries := cleanup_tick now (mc_entries c)\<rparr>"

definition MemoryCache_Stats :: "MemoryCache \<Rightarrow> int \<times> int \<times> int \<times> int" where
  "MemoryCache_Stats c = (mc_hits c, mc_misses c, mc_invalids c, int (length (mc_entries c)))"

definition memory_ops :: "MemoryCache DistributedCache" where
  "memory_ops = \<lparr>dc_Get = MemoryCache_Get, dc_Set = MemoryCache_Set,
                 dc_Invalidate = MemoryCache_Invalidate\<rparr>"

subsection \<open>TieredCache\<close>

record 'l2 TieredCache =
  tc_l1 :: MemoryCache
  tc_l2 :: "'l2 option"
  tc_bus :: "string list list option"
  tc_defaultTTL :: int

definition TieredCache_Get ::
    "'l2 DistributedCache \<Rightarrow> int \<Rightarrow> string \<Rightarrow> 'l2 TieredCache
       \<Rightarrow> 'l2 TieredCache \<times> (gomsg + GetBalanceResponse option)" where
  "TieredCache_Get D now walletID t =
     (if walletID = [] then (t, Inr None)
      else case MemoryCache_Get now walletID (tc_l1 t) of
             (l1, Inr (Some resp)) \<Rightarrow> (t\<lparr>tc_l1 := l1\<rparr>, Inr (Some resp))
           | (l1, _) \<Rightarrow>
               (let t = t\<lparr>tc_l1 := l1\<rparr>
                in case tc_l2 t of
                     None \<Rightarrow> (t, Inr None)
                   | Some l2 \<Rightarrow>
                       (case dc_Get D now walletID l2 of
                          (l2', Inr (Some resp)) \<Rightarrow>
                            (t\<lparr>tc_l2 := Some l2',
                               tc_l1 := fst (MemoryCache_Set now walletID (Some resp) (tc_defaultTTL t) (tc_l1 t))\<rparr>,
                             Inr (Some resp))
                        | (l2', _) \<Rightarrow> (t\<lparr>tc_l2 := Some l2'\<rparr>, Inr None))))"

definition TieredCache_Set ::
    "'l2 DistributedCache \<Rightarrow> int \<Rightarrow> string \<Rightarrow> GetBalanceResponse option \<Rightarrow> int \<Rightarrow> 'l2 TieredCache
       \<Rightarrow> 'l2 TieredCache \<times> gomsg option" where
  "TieredCache_Set D now walletID resp ttl t =
     (if walletID = [] \<or> resp = None then (t, None)
      else (let ttl = (if ttl \<le> 0 then tc_defaultTTL t else ttl);
                t = t\<lparr>tc_l1 := fst (MemoryCache_Set now walletID resp ttl (tc_l1 t))\<rparr>
            in case tc_l2 t of
                 None \<Rightarrow> (t, None)
               | Some l2 \<Rightarrow> (t\<lparr>tc_l2 := Some (fst (dc_Set D now walletID resp ttl l2))\<rparr>, None)))"

definition TieredCache_Invalidate ::
    "'l2 DistributedCache \<Rightarrow> string list \<Rightarrow> 'l2 TieredCache \<Rightarrow> 'l2 TieredCache \<times> gomsg option" where
  "TieredCache_Invalidate D walletIDs t =
     (if walletIDs = [] then (t, None)
      else (t\<lparr>tc_l1 := fst (MemoryCache_Invalidate walletIDs (tc_l1 t)),
              tc_l2 := map_option (\<lambda>l2. fst (dc_Invalidate D walletIDs l2)) (tc_l2 t),
              tc_bus := map_option (\<lambda>sent. sent @ [walletIDs]) (tc_bus t)\<rparr>, None))"

text \<open>What the subscriber of the bus does on another pod.\<close>

definition TieredCache_on_bus :: "string list \<Rightarrow> 'l2 TieredCache \<Rightarrow> 'l2 TieredCache" where
  "TieredCache_on_bus walletIDs t =
     (if walletIDs = [] then t
      else t\<lparr>tc_l1 := fst (MemoryCache_Invalidate walletIDs (tc_l1 t))\<rparr>)"

definition tiered_ops :: "'l2 DistributedCache \<Rightarrow> 'l2 TieredCache DistributedCache" where
  "tiered_ops D = \<lparr>dc_Get = TieredCache_Get D, dc_Set = TieredCache_Set D,
                   dc_Invalidate = TieredCache_Invalidate D\<rparr>"

subsection \<open>The contract\<close>

text \<open>
  \<open>stored c i\<close> is the set of responses the cache may serve for wallet \<open>i\<close>. An interface
  call never invents a response, and an invalidation that reports no error leaves nothing
  to serve for the wallets it names.
\<close>

datatype cache_op = OpGet int string | OpSet int string GetBalanceResponse int | OpInvalidate "string list"

fun cache_run :: "'c DistributedCache \<Rightarrow> cache_op list \<Rightarrow> 'c \<Rightarrow> 'c" where
  "cache_run D [] c = c"
| "cache_run D (OpGet now i # ops) c = cache_run D ops (fst (dc_Get D now i c))"
| "cache_run D (OpSet now i r ttl # ops) c = cache_run D ops (fst (dc_Set D now i (Some r) ttl c))"
| "cache_run D (OpInvalidate is # ops) c = cache_run D ops (fst (dc_Invalidate D is c))"

text \<open>The responses set for a wallet since it was last invalidated.\<close>

fun set_since ::
    "string \<Rightarrow> cache_op list \<Rightarrow> GetBalanceResponse set \<Rightarrow> GetBalanceResponse set" where
  "set_since j [] S = S"
| "set_since j (OpGet now i # ops) S = set_since j ops S"
| "set_since j (OpSet now i r ttl # ops) S = set_since j ops (if j = i then insert r S else S)"
| "set_since j (OpInvalidate is # ops) S = set_since j ops (if j \<in> set is \<and> j \<noteq> [] then {} else S)"

locale balance_store =
  fixes D :: "'c DistributedCache" and stored :: "'c \<Rightarrow> string \<Rightarrow> GetBalanceResponse set"
  assumes get_stored: "dc_Get D now i c = (c', Inr (Some r)) \<Longrightarrow> r \<in> stored c i"
    and get_keeps: "dc_Get D now i c = (c', res) \<Longrightarrow> stored c' j \<subseteq> stored c j"
    and set_adds: "dc_Set D now i (Some r) ttl c = (c', err) \<Longrightarrow>
      stored c' j \<subseteq> stored c j \<union> (if j = i then {r} else {})"
    and invalidate_keeps: "dc_Invalidate D is c = (c', err) \<Longrightarrow> stored c' j \<subseteq> stored c j"
    and invalidate_clears: "dc_Invalidate D is c = (c', None) \<Longrightarrow> j \<in> set is \<Longrightarrow> j \<noteq> [] \<Longrightarrow>
      stored c' j = {}"
begin

lemma no_hit_after_invalidate:
  assumes "j \<in> set is" and "j \<noteq> []" and "dc_Invalidate D is c = (c', None)"
  shows "dc_Get D now j c' \<noteq> (c'', Inr (Some r))"
  using invalidate_clears [OF assms(3) assms(1,2)] get_stored [of now j c' c'' r] by auto

end

text \<open>A store whose invalidation always gets through.\<close>

locale reliable_store = balance_store +
  assumes invalidate_ok: "snd (dc_Invalidate D is c) = None"
begin

lemma invalidate_stored:
  "stored (fst (dc_Invalidate D is c)) j \<subseteq> (if j \<in> set is \<and> j \<noteq> [] then {} else stored c j)"
proof -
  have "dc_Invalidate D is c = (fst (dc_Invalidate D is c), None)"
    using invalidate_ok [of "is" c] by (cases "dc_Invalidate D is c") simp
  then show ?thesis using invalidate_clears invalidate_keeps by fastforce
qed

lemma get_stored_fst: "stored (fst (dc_Get D now i c)) j \<subseteq> stored c j"
  using get_keeps [of now i c] by (cases "dc_Get D now i c") auto

lemma set_stored_fst:
  "stored (fst (dc_Set D now i (Some r) ttl c)) j \<subseteq> stored c j \<union> (if j = i then {r} else {})"
  using set_adds [of now i r ttl c] by (cases "dc_Set D now i (Some r) ttl c") auto

lemma run_stored: "stored c j \<subseteq> S \<Longrightarrow> stored (cache_run D ops c) j \<subseteq> set_since j ops S"
proof (induction j ops S arbitrary: c rule: set_since.induct)
  case (2 j now i ops S)
  then show ?case using get_stored_fst [of now i c j] by auto
next
  case (3 j now i r ttl ops S)
  then have "stored (fst (dc_Set D now i (Some r) ttl c)) j \<subseteq> (if j = i then insert r S else S)"
    using set_stored_fst [of now i r ttl c j] by auto
  then show ?case using 3(1) by simp
next
  case (4 j "is" ops S)
  then have "stored (fst (dc_Invalidate D is c)) j \<subseteq> (if j \<in> set is \<and> j \<noteq> [] then {} else S)"
    using invalidate_stored [of "is" c j] by (auto split: if_splits)
  then show ?case using 4(1) by simp
qed simp

text \<open>A hit serves a response that was set for the wallet and not invalidated since.\<close>

lemma hit_is_fresh:
  assumes "stored c j = {}" and "dc_Get D now j (cache_run D ops c) = (c', Inr (Some r))"
  shows "r \<in> set_since j ops {}"
  using run_stored [of c j "{}" ops] get_stored [OF assms(2)] assms(1) by auto

end

subsection \<open>MemoryCache meets the contract\<close>

definition entry_values :: "cache_entries \<Rightarrow> string \<Rightarrow> GetBalanceResponse set" where
  "entry_values es i = (case map_of es i of None \<Rightarrow> {} | Some e \<Rightarrow> {ce_response e})"

lemma Money_rebuild [simp]:
  "\<lparr>m_Currency = m_Currency m, m_Units = m_Units m, m_Nanos = m_Nanos m, m_Scale = m_Scale m,
    m_CurrencyCode = m_CurrencyCode m\<rparr> = (m :: Money)"
  by (cases m) simp

lemma Clone_id [simp]: "CloneGetBalanceResponse r = r"
  by (cases r) (simp add: CloneGetBalanceResponse_def)

lemma entry_values_delete:
  "entry_values (AList.delete k es) i = (if i = k then {} else entry_values es i)"
  by (simp add: entry_values_def delete_conv')

lemma entry_values_update:
  "entry_values (AList.update k e es) i = (if i = k then {ce_response e} else entry_values es i)"
  by (simp add: entry_values_def update_conv')

lemma evictOneLocked_cases:
  obtains "es = []" and "evictOneLocked now es = []"
  | k where "map_of es k \<noteq> None" and "evictOneLocked now es = AList.delete k es"
proof (cases "find (\<lambda>(k, v). ce_expiresAt v < now) es")
  case None
  show thesis
  proof (cases es)
    case Nil
    with None show thesis using that(1) by (simp add: evictOneLocked_def)
  next
    case (Cons q rest)
    with None have "evictOneLocked now es = AList.delete (fst q) es"
      by (cases q) (simp add: evictOneLocked_def)
    moreover have "map_of es (fst q) \<noteq> None" using Cons by simp
    ultimately show thesis using that(2) by blast
  qed
next
  case (Some p)
  obtain k v where p: "p = (k, v)" by (cases p)
  with Some have "(k, v) \<in> set es" by (auto simp: find_Some_iff in_set_conv_nth)
  then have "map_of es k \<noteq> None" using weak_map_of_SomeI by fastforce
  moreover have "evictOneLocked now es = AList.delete k es"
    using Some p by (simp add: evictOneLocked_def)
  ultimately show thesis using that(2) by blast
qed

lemma evictOneLocked_values: "entry_values (evictOneLocked now es) i \<subseteq> entry_values es i"
  by (rule evictOneLocked_cases [of es now]) (auto simp: entry_values_delete)

lemma store_entry_values:
  "entry_values (store_entry now mx i r x es) j \<subseteq> (if j = i then {r} else entry_values es j)"
  using evictOneLocked_values [of now es j]
  by (auto simp: store_entry_def Let_def entry_values_update)

lemma evict_ids_values:
  "entry_values (fst (evict_ids is es)) j = (if j \<in> set is \<and> j \<noteq> [] then {} else entry_values es j)"
proof (induction "is" es rule: evict_ids.induct)
  case (2 i "is" es)
  have none: "map_of es i = None \<Longrightarrow> entry_values es i = {}" by (simp add: entry_values_def)
  consider "i = []" | "i \<noteq> []" "map_of es i = None" | v where "i \<noteq> []" "map_of es i = Some v"
    by (cases "map_of es i") auto
  then show ?case
  proof cases
    case 1
    then show ?thesis using 2(1) by simp
  next
    case 2
    then show ?thesis using "2.IH"(3) none by auto
  next
    case 3
    then have "map_of es i \<noteq> None" by simp
    note IH = "2.IH"(2) [OF 3(1) this]
    have "fst (evict_ids (i # is) es) = fst (evict_ids is (AList.delete i es))"
      using 3 by (simp add: split_def Let_def)
    then show ?thesis using IH 3(1) by (simp only: entry_values_delete) auto
  qed
qed simp

definition mem_stored :: "MemoryCache \<Rightarrow> string \<Rightarrow> GetBalanceResponse set" where
  "mem_stored c i = entry_values (mc_entries c) i"

lemma MemoryCache_Get_stored:
  "MemoryCache_Get now i c = (c', Inr (Some r)) \<Longrightarrow> r \<in> mem_stored c i"
  by (auto simp: MemoryCache_Get_def mem_stored_def entry_values_def split: if_splits option.splits)

lemma MemoryCache_Get_keeps:
  "mem_stored (fst (MemoryCache_Get now i c)) j \<subseteq> mem_stored c j"
  by (auto simp: MemoryCache_Get_def mem_stored_def entry_values_delete split: if_splits option.splits)

lemma MemoryCache_Set_adds:
  "mem_stored (fst (MemoryCache_Set now i (Some r) ttl c)) j \<subseteq> mem_stored c j \<union> (if j = i then {r} else {})"
proof -
  have "entry_values (store_entry now (mc_maxEntries c) i r x (mc_entries c)) j
      \<subseteq> entry_values (mc_entries c) j \<union> (if j = i then {r} else {})" for x
    using store_entry_values [of now "mc_maxEntries c" i r x "mc_entries c" j] by (auto split: if_splits)
  from this [of "now + (if ttl \<le> 0 then mc_defaultTTL c else ttl)"] show ?thesis
    by (cases "i = []") (auto simp: MemoryCache_Set_def Let_def mem_stored_def)
qed

lemma MemoryCache_Invalidate_stored:
  "mem_stored (fst (MemoryCache_Invalidate is c)) j =
     (if j \<in> set is \<and> j \<noteq> [] then {} else mem_stored c j)"
  using evict_ids_values [of "is" "mc_entries c" j]
  by (cases "evict_ids is (mc_entries c)") (simp add: MemoryCache_Invalidate_def mem_stored_def)

interpretation memory: reliable_store memory_ops mem_stored
proof
  fix now i and c c' :: MemoryCache and r j
  assume "dc_Get memory_ops now i c = (c', Inr (Some r))"
  then show "r \<in> mem_stored c i" by (simp add: memory_ops_def MemoryCache_Get_stored)
next
  fix now i and c c' :: MemoryCache and res j
  assume "dc_Get memory_ops now i c = (c', res)"
  then show "mem_stored c' j \<subseteq> mem_stored c j"
    using MemoryCache_Get_keeps [of now i c j] by (simp add: memory_ops_def)
next
  fix now i r ttl and c c' :: MemoryCache and err j
  assume "dc_Set memory_ops now i (Some r) ttl c = (c', err)"
  then show "mem_stored c' j \<subseteq> mem_stored c j \<union> (if j = i then {r} else {})"
    using MemoryCache_Set_adds [of now i r ttl c j] by (simp add: memory_ops_def)
next
  fix "is" and c c' :: MemoryCache and err j
  assume "dc_Invalidate memory_ops is c = (c', err)"
  then show "mem_stored c' j \<subseteq> mem_stored c j"
    using MemoryCache_Invalidate_stored [of "is" c j] by (simp add: memory_ops_def split: if_splits)
next
  fix "is" and c c' :: MemoryCache and j
  assume "dc_Invalidate memory_ops is c = (c', None)" and "j \<in> set is" and "j \<noteq> []"
  then show "mem_stored c' j = {}"
    using MemoryCache_Invalidate_stored [of "is" c j] by (simp add: memory_ops_def)
next
  fix "is" and c :: MemoryCache
  show "snd (dc_Invalidate memory_ops is c) = None"
    by (simp add: memory_ops_def MemoryCache_Invalidate_def split: prod.splits)
qed

subsection \<open>TieredCache over a store that meets the contract\<close>

definition tiered_stored ::
    "('c \<Rightarrow> string \<Rightarrow> GetBalanceResponse set) \<Rightarrow> 'c TieredCache \<Rightarrow> string \<Rightarrow> GetBalanceResponse set" where
  "tiered_stored stored t i =
     mem_stored (tc_l1 t) i \<union> (case tc_l2 t of None \<Rightarrow> {} | Some l2 \<Rightarrow> stored l2 i)"

locale tiered_cache = reliable_store
begin

lemma tiered_get_cases:
  assumes "TieredCache_Get D now i t = (t', res)"
  obtains (none) "t' = t" "res = Inr None" | (l1) r l1' where "MemoryCache_Get now i (tc_l1 t) = (l1', Inr (Some r))"
      "t' = t\<lparr>tc_l1 := l1'\<rparr>" "res = Inr (Some r)"
  | (miss) l1' l2' where "l1' = fst (MemoryCache_Get now i (tc_l1 t))"
      "l2' = map_option (\<lambda>l2. fst (dc_Get D now i l2)) (tc_l2 t)"
      "t' = t\<lparr>tc_l1 := l1', tc_l2 := l2'\<rparr>" "res = Inr None"
  | (l2) r l1' c2 c2' where "l1' = fst (MemoryCache_Get now i (tc_l1 t))" "tc_l2 t = Some c2"
      "dc_Get D now i c2 = (c2', Inr (Some r))" "res = Inr (Some r)"
      "t' = t\<lparr>tc_l1 := fst (MemoryCache_Set now i (Some r) (tc_defaultTTL t) l1'), tc_l2 := Some c2'\<rparr>"
proof (cases "i = []")
  case True
  then show thesis using none assms by (simp add: TieredCache_Get_def)
next
  case False
  obtain l1' r1 where g: "MemoryCache_Get now i (tc_l1 t) = (l1', r1)" by fastforce
  show thesis
  proof (cases r1)
    case (Inr a)
    then show thesis using False g assms none l1 miss l2
      by (cases a) (auto simp: TieredCache_Get_def Let_def split: option.splits prod.splits sum.splits)
  next
    case (Inl a)
    then show thesis using False g assms none l1 miss l2
      by (auto simp: TieredCache_Get_def Let_def split: option.splits prod.splits sum.splits)
  qed
qed

lemma tiered_get_keeps:
  assumes "TieredCache_Get D now i t = (t', res)"
  shows "tiered_stored stored t' j \<subseteq> tiered_stored stored t j"
    and "res = Inr (Some r) \<Longrightarrow> r \<in> tiered_stored stored t i"
proof -
  note l1_keeps = MemoryCache_Get_keeps [of now i "tc_l1 t" j]
  have "tiered_stored stored t' j \<subseteq> tiered_stored stored t j
      \<and> (res = Inr (Some r) \<longrightarrow> r \<in> tiered_stored stored t i)"
    using assms
  proof (cases rule: tiered_get_cases)
    case (l1 r' l1')
    then show ?thesis using l1_keeps MemoryCache_Get_stored
      by (auto simp: tiered_stored_def)
  next
    case (miss l1' l2')
    moreover have "stored (fst (dc_Get D now i c)) j \<subseteq> stored c j" for c by (rule get_stored_fst)
    ultimately show ?thesis using l1_keeps
      by (cases "tc_l2 t") (auto simp: tiered_stored_def)
  next
    case (l2 r' l1' c2 c2')
    have "mem_stored (tc_l1 t') j \<subseteq> mem_stored (tc_l1 t) j \<union> (if j = i then {r'} else {})"
      using MemoryCache_Set_adds [of now i r' "tc_defaultTTL t" l1' j] l1_keeps l2 by auto
    moreover have "r' \<in> stored c2 i" and "stored c2' j \<subseteq> stored c2 j"
      using l2(3) get_stored get_keeps by blast+
    ultimately show ?thesis using l2 by (auto simp: tiered_stored_def split: if_splits)
  qed auto
  then show "tiered_stored stored t' j \<subseteq> tiered_stored stored t j"
    and "res = Inr (Some r) \<Longrightarrow> r \<in> tiered_stored stored t i" by auto
qed

lemma tiered_set_adds:
  "tiered_stored stored (fst (TieredCache_Set D now i (Some r) ttl t)) j
     \<subseteq> tiered_stored stored t j \<union> (if j = i then {r} else {})"
proof -
  let ?ttl = "if ttl \<le> 0 then tc_defaultTTL t else ttl"
  have "mem_stored (fst (MemoryCache_Set now i (Some r) ?ttl (tc_l1 t))) j
      \<subseteq> mem_stored (tc_l1 t) j \<union> (if j = i then {r} else {})"
    by (rule MemoryCache_Set_adds)
  moreover have "stored (fst (dc_Set D now i (Some r) ?ttl c)) j
      \<subseteq> stored c j \<union> (if j = i then {r} else {})" for c
    by (rule set_stored_fst)
  ultimately show ?thesis
    by (auto simp: TieredCache_Set_def tiered_stored_def Let_def split: option.splits) blast+
qed

lemma tiered_invalidate:
  "tiered_stored stored (fst (TieredCache_Invalidate D is t)) j
     \<subseteq> (if j \<in> set is \<and> j \<noteq> [] then {} else tiered_stored stored t j)"
  using MemoryCache_Invalidate_stored [of "is" "tc_l1 t" j] invalidate_stored [of "is" _ j]
  by (auto simp: TieredCache_Invalidate_def tiered_stored_def split: option.splits if_splits)

end

sublocale tiered_cache \<subseteq> tiered: reliable_store "tiered_ops D" "tiered_stored stored"
proof
  fix now i c c' r j
  assume "dc_Get (tiered_ops D) now i c = (c', Inr (Some r))"
  then show "r \<in> tiered_stored stored c i" by (simp add: tiered_ops_def tiered_get_keeps)
next
  fix now i c c' res j
  assume "dc_Get (tiered_ops D) now i c = (c', res)"
  then show "tiered_stored stored c' j \<subseteq> tiered_stored stored c j"
    using tiered_get_keeps(1) by (simp add: tiered_ops_def)
next
  fix now i r ttl c c' err j
  assume "dc_Set (tiered_ops D) now i (Some r) ttl c = (c', err)"
  then show "tiered_stored stored c' j \<subseteq> tiered_stored stored c j \<union> (if j = i then {r} else {})"
    using tiered_set_adds [of now i r ttl c j] by (simp add: tiered_ops_def)
next
  fix "is" c c' err j
  assume "dc_Invalidate (tiered_ops D) is c = (c', err)"
  then show "tiered_stored stored c' j \<subseteq> tiered_stored stored c j"
    using tiered_invalidate [of "is" c j] by (simp add: tiered_ops_def split: if_splits)
next
  fix "is" c c' j
  assume "dc_Invalidate (tiered_ops D) is c = (c', None)" and "j \<in> set is" and "j \<noteq> []"
  then show "tiered_stored stored c' j = {}"
    using tiered_invalidate [of "is" c j] by (simp add: tiered_ops_def)
next
  fix "is" c
  show "snd (dc_Invalidate (tiered_ops D) is c) = None"
    by (simp add: tiered_ops_def TieredCache_Invalidate_def)
qed

interpretation two_level: tiered_cache memory_ops mem_stored
  by unfold_locales

subsection \<open>Size and round trip\<close>

lemma length_delete_present:
  "gomap_ok es \<Longrightarrow> map_of es k \<noteq> None \<Longrightarrow> length (AList.delete k es) = length es - 1"
proof (induction es)
  case (Cons p es)
  show ?case
  proof (cases "fst p = k")
    case True
    then have "AList.delete k es = es"
      using Cons.prems(1) by (auto simp: gomap_ok_def intro!: delete_idem)
    with True show ?thesis by (cases p) auto
  next
    case False
    with Cons.prems have "map_of es k \<noteq> None" and "gomap_ok es"
      by (auto simp: gomap_ok_def split: if_splits)
    with Cons.IH False show ?thesis by (cases p; cases es) auto
  qed
qed simp

lemma length_update:
  "length (AList.update k v es) = (if map_of es k = None then Suc (length es) else length es)"
  by (induction es) auto

lemma length_delete_le: "length (AList.delete k es) \<le> length es"
  by (induction es) auto

definition entries_ok :: "int \<Rightarrow> cache_entries \<Rightarrow> bool" where
  "entries_ok mx es \<longleftrightarrow> gomap_ok es \<and> int (length es) \<le> mx"

lemma gomap_ok_evict: "gomap_ok es \<Longrightarrow> gomap_ok (evictOneLocked now es)"
  by (rule evictOneLocked_cases [of es now]) auto

lemma evict_makes_room:
  assumes "gomap_ok es" and "es \<noteq> []"
  shows "Suc (length (evictOneLocked now es)) = length es"
proof (rule evictOneLocked_cases [of es now])
  fix k assume "map_of es k \<noteq> None" and "evictOneLocked now es = AList.delete k es"
  then show ?thesis using length_delete_present [OF assms(1)] assms(2) by (cases es) simp_all
qed (use assms in simp)

lemma entries_ok_store [inv_intros]:
  assumes "entries_ok mx es" and "1 \<le> mx"
  shows "entries_ok mx (store_entry now mx i r x es)"
proof -
  let ?e = "if mx \<le> int (length es) \<and> map_of es i = None then evictOneLocked now es else es"
  have ok: "gomap_ok ?e" using assms(1) gomap_ok_evict by (simp add: entries_ok_def)
  have "int (length (AList.update i v ?e)) \<le> mx" for v
  proof (cases "mx \<le> int (length es) \<and> map_of es i = None")
    case True
    then have "es \<noteq> []" using assms(2) by auto
    from evict_makes_room [OF _ this, of now] assms(1)
    have "int (Suc (length (evictOneLocked now es))) \<le> mx" by (simp add: entries_ok_def)
    then show ?thesis using True by (simp add: length_update)
  next
    case False
    then show ?thesis using assms(1) by (auto simp: length_update entries_ok_def)
  qed
  with ok show ?thesis unfolding store_entry_def Let_def entries_ok_def by simp
qed

lemma entries_ok_delete [inv_intros]: "entries_ok mx es \<Longrightarrow> entries_ok mx (AList.delete k es)"
  using length_delete_le [of k es] by (auto simp: entries_ok_def)

lemma entries_ok_evict_ids [inv_intros]: "entries_ok mx es \<Longrightarrow> entries_ok mx (fst (evict_ids is es))"
  by (induction "is" es rule: evict_ids.induct) (auto simp: entries_ok_delete split: prod.splits)

lemma entries_ok_cleanup [inv_intros]: "entries_ok mx es \<Longrightarrow> entries_ok mx (cleanup_tick now es)"
  using length_filter_le [of "\<lambda>(k, v). \<not> ce_expiresAt v < now" es]
  unfolding entries_ok_def cleanup_tick_def gomap_ok_def
  by (meson distinct_map_filter of_nat_mono order_trans)

lemma map_of_store_entry:
  "map_of (store_entry now mx i r x es) i = Some \<lparr>ce_response = r, ce_expiresAt = x\<rparr>"
  by (simp add: store_entry_def Let_def update_conv')

end
