(* ===== verification/WalletCache.thy ===== *)
theory WalletCache
  imports DistCache
begin

text \<open>
  The read-through balance cache of the wallet service (\<open>cmd/wallet-service/cache.go\<close>): a
  local map with expiry and a bound on its size, an optional second level behind the
  \<open>DistributedCache\<close> interface (Redis in production, here any store \<open>D\<close>), and an optional
  broadcast of invalidations to the other pods, recorded as the log of what was published.
\<close>

type_synonym cachedBalanceEntry = memoryCacheEntry

record 'l2 BalanceCache =
  bc_entries :: "(string, cachedBalanceEntry) gomap"
  bc_ttl :: int
  bc_maxEntries :: int
  bc_hits :: int
  bc_misses :: int
  bc_invalids :: int
  bc_l2 :: "'l2 option"
  bc_bus :: "string list list option"

definition NewBalanceCache :: "int \<Rightarrow> int \<Rightarrow> 'l2 option \<Rightarrow> bool \<Rightarrow> 'l2 BalanceCache" where
  "NewBalanceCache ttl maxEntries l2 bus =
     \<lparr>bc_entries = [],
      bc_ttl = (if ttl \<le> 0 then 15000000000 else ttl),
      bc_maxEntries = (if maxEntries \<le> 0 then 10000 else maxEntries),
      bc_hits = 0, bc_misses = 0, bc_invalids = 0,
      bc_l2 = l2, bc_bus = (if bus then Some [] else None)\<rparr>"

definition setLocal :: "int \<Rightarrow> string \<Rightarrow> GetBalanceResponse \<Rightarrow> 'l2 BalanceCache \<Rightarrow> 'l2 BalanceCache" where
  "setLocal now walletID resp c =
     c\<lparr>bc_entries := store_entry now (bc_maxEntries c) walletID resp (now + bc_ttl c) (bc_entries c)\<rparr>"

text \<open>\<open>Get\<close> in its two stages: the local map, with lazy removal of an expired entry, then level 2.\<close>

definition l1_lookup ::
    "int \<Rightarrow> string \<Rightarrow> 'l2 BalanceCache \<Rightarrow> 'l2 BalanceCache \<times> GetBalanceResponse option" where
  "l1_lookup now walletID c =
     (case map_of (bc_entries c) walletID of
        None \<Rightarrow> (c, None)
      | Some entry \<Rightarrow>
          if \<not> ce_expiresAt entry < now
          then (c\<lparr>bc_hits := add_uint64 (bc_hits c) 1\<rparr>,
                Some (CloneGetBalanceResponse (ce_response entry)))
          else (c\<lparr>bc_entries := AList.delete walletID (bc_entries c)\<rparr>, None))"

definition l2_lookup ::
    "'l2 DistributedCache \<Rightarrow> int \<Rightarrow> string \<Rightarrow> 'l2 BalanceCache
       \<Rightarrow> 'l2 BalanceCache \<times> GetBalanceResponse option" where
  "l2_lookup D now walletID c =
     (case bc_l2 c of
        None \<Rightarrow> (c, None)
      | Some l2 \<Rightarrow>
          (case dc_Get D now walletID l2 of
             (l2', Inr (Some resp)) \<Rightarrow>
               (let c = setLocal now walletID resp (c\<lparr>bc_l2 := Some l2'\<rparr>)
                in (c\<lparr>bc_hits := add_uint64 (bc_hits c) 1\<rparr>, Some resp))
           | (l2', _) \<Rightarrow> (c\<lparr>bc_l2 := Some l2'\<rparr>, None)))"

definition BalanceCache_Get ::
    "'l2 DistributedCache \<Rightarrow> int \<Rightarrow> string \<Rightarrow> 'l2 BalanceCache
       \<Rightarrow> 'l2 BalanceCache \<times> GetBalanceResponse option" where
  "BalanceCache_Get D now walletID c =
     (if walletID = [] then (c, None)
      else case l1_lookup now walletID c of
             (c, Some r) \<Rightarrow> (c, Some r)
           | (c, None) \<Rightarrow>
               (case l2_lookup D now walletID c of
                  (c, Some r) \<Rightarrow> (c, Some r)
                | (c, None) \<Rightarrow> (c\<lparr>bc_misses := add_uint64 (bc_misses c) 1\<rparr>, None)))"

definition BalanceCache_Set ::
    "'l2 DistributedCache \<Rightarrow> int \<Rightarrow> string \<Rightarrow> GetBalanceResponse \<Rightarrow> 'l2 BalanceCache \<Rightarrow> 'l2 BalanceCache" where
  "BalanceCache_Set D now walletID resp c =
     (if walletID = [] then c
      else (let c = setLocal now walletID resp c
            in c\<lparr>bc_l2 := map_option (\<lambda>l2. fst (dc_Set D now walletID (Some resp) (bc_ttl c) l2)) (bc_l2 c)\<rparr>))"

definition InvalidateLocal :: "string list \<Rightarrow> 'l2 BalanceCache \<Rightarrow> 'l2 BalanceCache" where
  "InvalidateLocal walletIDs c =
     (let (es, n) = evict_ids walletIDs (bc_entries c)
      in c\<lparr>bc_entries := es,
           bc_invalids := (if 0 < n then add_uint64 (bc_invalids c) (int n) else bc_invalids c)\<rparr>)"

definition BalanceCache_Invalidate ::
    "'l2 DistributedCache \<Rightarrow> string list \<Rightarrow> 'l2 BalanceCache \<Rightarrow> 'l2 BalanceCache" where
  "BalanceCache_Invalidate D walletIDs c =
     (if walletIDs = [] then c
      else (let c = InvalidateLocal walletIDs c
            in c\<lparr>bc_l2 := map_option (\<lambda>l2. fst (dc_Invalidate D walletIDs l2)) (bc_l2 c),
                 bc_bus := map_option (\<lambda>sent. sent @ [walletIDs]) (bc_bus c)\<rparr>))"

definition BalanceCache_Clear :: "'l2 BalanceCache \<Rightarrow> 'l2 BalanceCache" where
  "BalanceCache_Clear c = c\<lparr>bc_entries := []\<rparr>"

definition BalanceCache_Cleanup :: "int \<Rightarrow> 'l2 BalanceCache \<Rightarrow> 'l2 BalanceCache" where
  "BalanceCache_Cleanup now c = c\<lparr>bc_entries := cleanup_tick now (bc_entries c)\<rparr>"

definition BalanceCache_Stats :: "'l2 BalanceCache \<Rightarrow> int \<times> int \<times> int \<times> int" where
  "BalanceCache_Stats c = (bc_hits c, bc_misses c, bc_invalids c, int (length (bc_entries c)))"

subsection \<open>Lemmas\<close>

definition cache_ok :: "'l2 BalanceCache \<Rightarrow> bool" where
  "cache_ok c \<longleftrightarrow> 1 \<le> bc_maxEntries c \<and> entries_ok (bc_maxEntries c) (bc_entries c)"

definition served ::
    "('l2 \<Rightarrow> string \<Rightarrow> GetBalanceResponse set) \<Rightarrow> 'l2 BalanceCache \<Rightarrow> string \<Rightarrow> GetBalanceResponse set" where
  "served stored c i =
     entry_values (bc_entries c) i \<union> (case bc_l2 c of None \<Rightarrow> {} | Some l2 \<Rightarrow> stored l2 i)"

lemma cache_ok_new [inv_intros]: "cache_ok (NewBalanceCache ttl mx l2 bus)"
  by (simp add: cache_ok_def NewBalanceCache_def entries_ok_def gomap_ok_def)

lemma cache_ok_setLocal [inv_intros]: "cache_ok c \<Longrightarrow> cache_ok (setLocal now i r c)"
  by (simp add: cache_ok_def setLocal_def entries_ok_store)

lemma cache_ok_l1 [inv_intros]: "cache_ok c \<Longrightarrow> cache_ok (fst (l1_lookup now i c))"
  by (auto simp: cache_ok_def l1_lookup_def entries_ok_delete split: option.splits)

lemma cache_ok_l2 [inv_intros]: "cache_ok c \<Longrightarrow> cache_ok (fst (l2_lookup D now i c))"
  by (auto simp: l2_lookup_def cache_ok_def setLocal_def Let_def entries_ok_store
      split: option.splits prod.splits sum.splits)

lemma cache_ok_Get [inv_intros]: "cache_ok c \<Longrightarrow> cache_ok (fst (BalanceCache_Get D now i c))"
proof -
  assume "cache_ok c"
  moreover obtain c1 r1 where 1: "l1_lookup now i c = (c1, r1)" by fastforce
  moreover obtain c2 r2 where 2: "l2_lookup D now i c1 = (c2, r2)" by fastforce
  ultimately have "cache_ok c1" "cache_ok c2"
    using cache_ok_l1 [of c now i] cache_ok_l2 [of c1 D now i] by simp_all
  then show ?thesis using 1 2 \<open>cache_ok c\<close>
    by (auto simp: BalanceCache_Get_def cache_ok_def split: option.splits)
qed

lemma cache_ok_Set [inv_intros]: "cache_ok c \<Longrightarrow> cache_ok (BalanceCache_Set D now i r c)"
  using cache_ok_setLocal [of c now i r]
  by (auto simp: BalanceCache_Set_def Let_def cache_ok_def)

lemma InvalidateLocal_simps:
  "bc_entries (InvalidateLocal is c) = fst (evict_ids is (bc_entries c))"
  "bc_maxEntries (InvalidateLocal is c) = bc_maxEntries c"
  "bc_l2 (InvalidateLocal is c) = bc_l2 c" "bc_bus (InvalidateLocal is c) = bc_bus c"
  by (simp_all add: InvalidateLocal_def split_def Let_def)

lemma Invalidate_simps:
  "is \<noteq> [] \<Longrightarrow> bc_entries (BalanceCache_Invalidate D is c) = fst (evict_ids is (bc_entries c))"
  "is \<noteq> [] \<Longrightarrow> bc_l2 (BalanceCache_Invalidate D is c)
     = map_option (\<lambda>l2. fst (dc_Invalidate D is l2)) (bc_l2 c)"
  "bc_maxEntries (BalanceCache_Invalidate D is c) = bc_maxEntries c"
  by (simp_all add: BalanceCache_Invalidate_def Let_def InvalidateLocal_simps)

lemma cache_ok_Invalidate [inv_intros]: "cache_ok c \<Longrightarrow> cache_ok (BalanceCache_Invalidate D is c)"
  by (cases "is = []") (simp_all add: BalanceCache_Invalidate_def Let_def cache_ok_def
      InvalidateLocal_simps entries_ok_evict_ids)

text \<open>The cache over a second level that meets the contract of the interface.\<close>

context reliable_store
begin

lemma setLocal_served:
  "served stored (setLocal now i r c) j \<subseteq> served stored c j \<union> (if j = i then {r} else {})"
  using store_entry_values [of now "bc_maxEntries c" i r "now + bc_ttl c" "bc_entries c" j]
  by (auto simp: served_def setLocal_def split: if_splits option.splits)

lemma Invalidate_served:
  assumes "j \<in> set is" and "j \<noteq> []"
  shows "served stored (BalanceCache_Invalidate D is c) j = {}"
proof -
  have "is \<noteq> []" using assms by auto
  then show ?thesis
    using assms evict_ids_values [of "is" "bc_entries c" j] invalidate_stored [of "is" _ j]
    by (auto simp: served_def Invalidate_simps split: option.splits)
qed

lemma l1_lookup_served:
  "l1_lookup now i c = (c', res) \<Longrightarrow> served stored c' j \<subseteq> served stored c j
     \<and> (\<forall>r. res = Some r \<longrightarrow> r \<in> served stored c i)"
  by (auto simp: l1_lookup_def served_def entry_values_def delete_conv' restrict_map_def
      split: option.splits if_splits)

lemma l2_lookup_served:
  assumes "l2_lookup D now i c = (c', res)"
  shows "served stored c' j \<subseteq> served stored c j \<and> (\<forall>r. res = Some r \<longrightarrow> r \<in> served stored c i)"
proof (cases "bc_l2 c")
  case None
  then show ?thesis using assms by (simp add: l2_lookup_def)
next
  case (Some l2)
  obtain l2' g where g: "dc_Get D now i l2 = (l2', g)" by fastforce
  then have keep: "stored l2' k \<subseteq> stored l2 k" for k by (rule get_keeps)
  let ?c = "c\<lparr>bc_l2 := Some l2'\<rparr>"
  have sub: "served stored ?c k \<subseteq> served stored c k" for k
    using keep [of k] Some by (auto simp: served_def)
  show ?thesis
  proof (cases "\<exists>r. g = Inr (Some r)")
    case True
    then obtain r where r: "g = Inr (Some r)" by blast
    have mem: "r \<in> served stored c i" using get_stored g r Some by (auto simp: served_def)
    have "c' = (setLocal now i r ?c)\<lparr>bc_hits := add_uint64 (bc_hits (setLocal now i r ?c)) 1\<rparr>"
      and res: "res = Some r"
      using assms Some g r by (simp_all add: l2_lookup_def Let_def)
    then have "served stored c' j = served stored (setLocal now i r ?c) j" by (simp add: served_def)
    then show ?thesis using setLocal_served [of now i r ?c j] sub [of j] mem res
      by (auto split: if_splits)
  next
    case False
    then have "c' = ?c" and "res = None"
      using assms Some g by (auto simp: l2_lookup_def split: sum.splits option.splits)
    then show ?thesis using sub by simp
  qed
qed

lemma Get_served:
  assumes "BalanceCache_Get D now i c = (c', Some r)"
  shows "r \<in> served stored c i"
proof -
  obtain c1 r1 where 1: "l1_lookup now i c = (c1, r1)" by fastforce
  obtain c2 r2 where 2: "l2_lookup D now i c1 = (c2, r2)" by fastforce
  have "r1 = Some r \<or> (r1 = None \<and> r2 = Some r)"
    using assms 1 2 by (auto simp: BalanceCache_Get_def split: if_splits option.splits)
  then show ?thesis
    using l1_lookup_served [OF 1, of i] l2_lookup_served [OF 2, of i] by blast
qed

lemma Get_after_Invalidate_misses:
  assumes "j \<in> set is" and "j \<noteq> []"
  shows "snd (BalanceCache_Get D now j (BalanceCache_Invalidate D is c)) = None"
  using Get_served [of now j "BalanceCache_Invalidate D is c"] Invalidate_served [OF assms]
  by (cases "BalanceCache_Get D now j (BalanceCache_Invalidate D is c)";
      cases "snd (BalanceCache_Get D now j (BalanceCache_Invalidate D is c))") auto

end

text \<open>A pod that receives the broadcast no longer serves the wallets from its local map.\<close>

lemma InvalidateLocal_evicts:
  "j \<in> set is \<Longrightarrow> j \<noteq> [] \<Longrightarrow> snd (l1_lookup now j (InvalidateLocal is c)) = None"
  using evict_ids_values [of "is" "bc_entries c" j]
  by (auto simp: l1_lookup_def InvalidateLocal_simps entry_values_def split: option.splits)

subsection \<open>Properties\<close>

definition sample_balance :: "int \<Rightarrow> GetBalanceResponse" where
  "sample_balance units =
     \<lparr>gb_WalletId = ''alice_1'', gb_Balances = [mk_money ''USD'' units], gb_HandledByRegion = ''us-east'',
      gb_Status = WalletStatusActive\<rparr>"



text \<open>
  The local cache of the wallet service stays within its bound: no lookup, store,
  invalidation or clean-up leaves more entries than the configured maximum, or two entries for
  one wallet.
\<close>

lemma BalanceCache_bounded:
  assumes "cache_ok c"
  shows "cache_ok (fst (BalanceCache_Get D now i c)) \<and> cache_ok (BalanceCache_Set D now i r c)
    \<and> cache_ok (BalanceCache_Invalidate D is c) \<and> cache_ok (InvalidateLocal is c)
    \<and> cache_ok (BalanceCache_Clear c) \<and> cache_ok (BalanceCache_Cleanup now c)"
proof -
  have "cache_ok (InvalidateLocal is c)"
    using assms by (simp add: cache_ok_def InvalidateLocal_simps entries_ok_evict_ids)
  moreover have "cache_ok (BalanceCache_Clear c)"
    using assms by (auto simp: cache_ok_def BalanceCache_Clear_def entries_ok_def gomap_ok_def)
  moreover have "cache_ok (BalanceCache_Cleanup now c)"
    using assms by (simp add: cache_ok_def BalanceCache_Cleanup_def entries_ok_cleanup)
  ultimately show ?thesis using assms by (simp add: inv_intros)
qed

text \<open>
  A stored balance is served until it expires: a lookup between the store and the end of
  the time to live returns exactly the stored response.
\<close>

lemma BalanceCache_set_then_get:
  assumes "i \<noteq> []" and "now \<le> later" and "later \<le> now + bc_ttl c"
  shows "snd (BalanceCache_Get D later i (BalanceCache_Set D now i r c)) = Some r"
  using assms by (simp add: BalanceCache_Get_def BalanceCache_Set_def Let_def setLocal_def
      l1_lookup_def map_of_store_entry)

end
