(* ===== verification/LedgerOutbox.thy ===== *)
theory LedgerOutbox
  imports WalletTypes
begin

text \<open>
  The transactional outbox towards the ledger (\<open>cmd/wallet-service/ledger_outbox.go\<close>): the
  dispatch tasks that wallet transactions store, the interface \<open>LedgerTaskStore\<close> with its
  MongoDB implementation, the immediate dispatch after a commit, and one batch of the relay.

  The ledger service is a parameter. In a batch it is called once per task and may answer
  each call differently, so it is indexed by the number of the call.
\<close>

subsection \<open>Tasks\<close>

definition LedgerTaskStatusPending :: string where "LedgerTaskStatusPending = ''pending''"
definition LedgerTaskStatusCompleted :: string where "LedgerTaskStatusCompleted = ''completed''"
definition LedgerTaskStatusFailed :: string where "LedgerTaskStatusFailed = ''failed''"

lemmas task_status_defs =
  LedgerTaskStatusPending_def LedgerTaskStatusCompleted_def LedgerTaskStatusFailed_def

record LedgerTask =
  lt_ID :: string
  lt_TransactionID :: string
  lt_IdempotencyKey :: string
  lt_SourceWalletID :: string
  lt_DestinationWalletID :: string
  lt_Amount :: int64
  lt_Currency :: string
  lt_DestinationAmount :: int64
  lt_DestinationCurrency :: string
  lt_ExchangeRate :: float64
  lt_FXQuoteID :: string
  lt_Region :: string
  lt_Status :: string
  lt_CreatedAt :: int
  lt_ProcessedAt :: "int option"
  lt_Error :: gomsg
  lt_Retries :: int

definition DefaultMaxLedgerTaskRetries :: int where
  "DefaultMaxLedgerTaskRetries = 5"

definition AppendLedgerTask ::
    "LedgerTask collection_ops \<Rightarrow> LedgerTask \<Rightarrow> LedgerTask list \<Rightarrow> LedgerTask list \<times> mongo_error option" where
  "AppendLedgerTask col task ts = InsertOne col task ts"

subsection \<open>The task store\<close>

record 's LedgerTaskStore =
  FindPending :: "nat \<Rightarrow> 's \<Rightarrow> gomsg + LedgerTask list"
  MarkCompleted :: "string \<Rightarrow> int \<Rightarrow> 's \<Rightarrow> 's \<times> gomsg option"
  MarkFailed :: "string \<Rightarrow> gomsg \<Rightarrow> 's \<Rightarrow> 's \<times> gomsg option"
  MarkPermanentlyFailed :: "string \<Rightarrow> gomsg \<Rightarrow> 's \<Rightarrow> 's \<times> gomsg option"

definition set_completed :: "int \<Rightarrow> LedgerTask \<Rightarrow> LedgerTask" where
  "set_completed processedAt t =
     t\<lparr>lt_Status := LedgerTaskStatusCompleted, lt_ProcessedAt := Some processedAt, lt_Error := lit []\<rparr>"

definition set_failed :: "gomsg \<Rightarrow> LedgerTask \<Rightarrow> LedgerTask" where
  "set_failed errMsg t = t\<lparr>lt_Retries := lt_Retries t + 1, lt_Error := errMsg\<rparr>"

definition set_permanently_failed :: "gomsg \<Rightarrow> LedgerTask \<Rightarrow> LedgerTask" where
  "set_permanently_failed errMsg t =
     t\<lparr>lt_Retries := lt_Retries t + 1, lt_Status := LedgerTaskStatusFailed, lt_Error := errMsg\<rparr>"

text \<open>\<open>UpdateOne\<close> by \<open>_id\<close> with the result dropped, as the three \<open>Mark\<close> methods use it.\<close>

definition mark_by_id ::
    "LedgerTask collection_ops option \<Rightarrow> string \<Rightarrow> (LedgerTask \<Rightarrow> LedgerTask) \<Rightarrow> LedgerTask list
       \<Rightarrow> LedgerTask list \<times> gomsg option" where
  "mark_by_id col i u ts =
     (case col of
        None \<Rightarrow> (ts, None)
      | Some M \<Rightarrow>
          (case UpdateOne M (\<lambda>t. lt_ID t = i) (\<lambda>t. Some (u t)) ts of
             (ts', Inl e) \<Rightarrow> (ts', Some (err_msg e))
           | (ts', Inr r) \<Rightarrow> (ts', None)))"

definition mongo_FindPending ::
    "LedgerTask collection_ops option \<Rightarrow> nat \<Rightarrow> LedgerTask list \<Rightarrow> gomsg + LedgerTask list" where
  "mongo_FindPending col limit ts =
     (case col of
        None \<Rightarrow> Inr []
      | Some M \<Rightarrow>
          (case Find M (\<lambda>t. lt_Status t = LedgerTaskStatusPending) lt_CreatedAt 0 (Some limit) ts of
             Inl e \<Rightarrow> Inl (err_msg e)
           | Inr tasks \<Rightarrow> Inr tasks))"

definition mongo_MarkCompleted ::
    "LedgerTask collection_ops option \<Rightarrow> string \<Rightarrow> int \<Rightarrow> LedgerTask list \<Rightarrow> LedgerTask list \<times> gomsg option" where
  "mongo_MarkCompleted col i processedAt ts = mark_by_id col i (set_completed processedAt) ts"

definition mongo_MarkFailed ::
    "LedgerTask collection_ops option \<Rightarrow> string \<Rightarrow> gomsg \<Rightarrow> LedgerTask list \<Rightarrow> LedgerTask list \<times> gomsg option" where
  "mongo_MarkFailed col i errMsg ts = mark_by_id col i (set_failed errMsg) ts"

definition mongo_MarkPermanentlyFailed ::
    "LedgerTask collection_ops option \<Rightarrow> string \<Rightarrow> gomsg \<Rightarrow> LedgerTask list \<Rightarrow> LedgerTask list \<times> gomsg option" where
  "mongo_MarkPermanentlyFailed col i errMsg ts = mark_by_id col i (set_permanently_failed errMsg) ts"

definition mongoLedgerTaskStore ::
    "LedgerTask collection_ops option \<Rightarrow> LedgerTask list LedgerTaskStore" where
  "mongoLedgerTaskStore col =
     \<lparr>FindPending = mongo_FindPending col,
      MarkCompleted = mongo_MarkCompleted col,
      MarkFailed = mongo_MarkFailed col,
      MarkPermanentlyFailed = mongo_MarkPermanentlyFailed col\<rparr>"

subsection \<open>Dispatch\<close>

definition request_of_task :: "LedgerTask \<Rightarrow> RecordTransactionRequest" where
  "request_of_task task =
     \<lparr>rt_TransactionId = lt_TransactionID task,
      rt_IdempotencyKey = lt_IdempotencyKey task,
      rt_SourceWalletId = lt_SourceWalletID task,
      rt_DestinationWalletId = lt_DestinationWalletID task,
      rt_Amount = lt_Amount task,
      rt_Currency = lt_Currency task,
      rt_Region = lt_Region task,
      rt_DestinationAmount = lt_DestinationAmount task,
      rt_DestinationCurrency = lt_DestinationCurrency task,
      rt_ExchangeRate = lt_ExchangeRate task,
      rt_FxQuoteId = lt_FXQuoteID task\<rparr>"

text \<open>The error text of a failed call, \<open>None\<close> for a call the ledger answered with success.\<close>

definition dispatch_error :: "string \<Rightarrow> gomsg + RecordTransactionResponse option \<Rightarrow> gomsg option" where
  "dispatch_error dflt r =
     (case r of
        Inl err \<Rightarrow> Some err
      | Inr None \<Rightarrow> Some (lit dflt)
      | Inr (Some resp) \<Rightarrow> if rr_Success resp then None else Some (rr_ErrorMessage resp))"

definition DispatchImmediate ::
    "'s LedgerTaskStore option \<Rightarrow> ledger_client \<Rightarrow> int \<Rightarrow> LedgerTask \<Rightarrow> 's \<Rightarrow> 's \<times> gomsg option" where
  "DispatchImmediate store client now task s =
     (case dispatch_error ''unknown error'' (client (request_of_task task)) of
        Some errMsg \<Rightarrow> (s, Some (Msg ''ledger sync dispatch failed: %s'' [ArgE errMsg]))
      | None \<Rightarrow> (case store of
                    None \<Rightarrow> (s, None)
                  | Some S \<Rightarrow> MarkCompleted S (lt_ID task) now s))"

text \<open>The loop over the tasks of a batch: the counts of \<open>ProcessBatch\<close> and the last error.\<close>

record batch_counts =
  b_processed :: int
  b_failed :: int
  b_lastErr :: gomsg

fun process_tasks ::
    "'s LedgerTaskStore \<Rightarrow> (nat \<Rightarrow> ledger_client) \<Rightarrow> int \<Rightarrow> nat \<Rightarrow> LedgerTask list \<Rightarrow> batch_counts \<Rightarrow> 's
       \<Rightarrow> 's \<times> batch_counts" where
  "process_tasks S client now k [] b s = (s, b)"
| "process_tasks S client now k (task # tasks) b s =
     (case dispatch_error ''unknown failure'' (client k (request_of_task task)) of
        Some errMsg \<Rightarrow>
          (let b = b\<lparr>b_failed := b_failed b + 1, b_lastErr := errMsg\<rparr>;
               s = (if DefaultMaxLedgerTaskRetries \<le> lt_Retries task + 1
                    then fst (MarkPermanentlyFailed S (lt_ID task) errMsg s)
                    else fst (MarkFailed S (lt_ID task) errMsg s))
           in process_tasks S client now (Suc k) tasks b s)
      | None \<Rightarrow>
          (let (s, updateErr) = MarkCompleted S (lt_ID task) now s;
               b = (if updateErr = None then b\<lparr>b_processed := b_processed b + 1\<rparr> else b)
           in process_tasks S client now (Suc k) tasks b s))"

definition ProcessBatch ::
    "'s LedgerTaskStore option \<Rightarrow> (nat \<Rightarrow> ledger_client) \<Rightarrow> nat \<Rightarrow> int \<Rightarrow> 's \<Rightarrow> 's \<times> int \<times> gomsg option" where
  "ProcessBatch store client batchSize now s =
     (case store of
        None \<Rightarrow> (s, 0, None)
      | Some S \<Rightarrow>
          (case FindPending S batchSize s of
             Inl err \<Rightarrow> (s, 0, Some (Msg ''failed to query pending ledger tasks: %w'' [ArgE err]))
           | Inr tasks \<Rightarrow>
               (let (s, b) = process_tasks S client now 0 tasks
                               \<lparr>b_processed = 0, b_failed = 0, b_lastErr = lit []\<rparr> s
                in if 0 < b_failed b
                   then (s, b_processed b, Some (Msg ''failed to dispatch %d ledger tasks (last error: %s)''
                                                    [ArgD (b_failed b), ArgE (b_lastErr b)]))
                   else (s, b_processed b, None))))"

subsection \<open>The contract of a task store\<close>

text \<open>
  \<open>replace_task i u ts\<close>: the task with identifier \<open>i\<close> replaced by its update.
\<close>

definition replace_task :: "string \<Rightarrow> (LedgerTask \<Rightarrow> LedgerTask) \<Rightarrow> LedgerTask list \<Rightarrow> LedgerTask list" where
  "replace_task i u ts = map (\<lambda>t. if lt_ID t = i then u t else t) ts"

definition distinct_tasks :: "LedgerTask list \<Rightarrow> bool" where
  "distinct_tasks ts \<longleftrightarrow> distinct (map lt_ID ts)"

text \<open>
  What a task may look like: pending tasks have attempts left, failed ones have used all
  of them.
\<close>

definition task_ok :: "LedgerTask \<Rightarrow> bool" where
  "task_ok t \<longleftrightarrow>
     0 \<le> lt_Retries t \<and> lt_Retries t \<le> DefaultMaxLedgerTaskRetries
     \<and> (if lt_Status t = LedgerTaskStatusPending then lt_Retries t < DefaultMaxLedgerTaskRetries
        else if lt_Status t = LedgerTaskStatusFailed then lt_Retries t = DefaultMaxLedgerTaskRetries
        else lt_Status t = LedgerTaskStatusCompleted)"

text \<open>Everything about a task that the relay must not touch.\<close>

definition task_payload :: "LedgerTask \<Rightarrow> LedgerTask" where
  "task_payload t = t\<lparr>lt_Status := [], lt_ProcessedAt := None, lt_Error := lit [], lt_Retries := 0\<rparr>"

text \<open>How many failed deliveries the pending tasks can still take.\<close>

definition attempts_left :: "LedgerTask \<Rightarrow> int" where
  "attempts_left t =
     (if lt_Status t = LedgerTaskStatusPending then DefaultMaxLedgerTaskRetries - lt_Retries t else 0)"

definition total_attempts_left :: "LedgerTask list \<Rightarrow> int" where
  "total_attempts_left ts = sum_list (map attempts_left ts)"

subsection \<open>Lemmas on task lists\<close>

lemmas mark_defs = set_completed_def set_failed_def set_permanently_failed_def

text \<open>One pass of the loop over task \<open>t\<close>: nothing, or the mark the outcome asks for.\<close>

inductive marked :: "LedgerTask \<Rightarrow> LedgerTask list \<Rightarrow> LedgerTask list \<Rightarrow> bool" for t ts where
  delivered: "marked t ts (replace_task (lt_ID t) (set_completed now) ts)"
| again: "lt_Retries t + 1 < DefaultMaxLedgerTaskRetries \<Longrightarrow>
    marked t ts (replace_task (lt_ID t) (set_failed m) ts)"
| given_up: "DefaultMaxLedgerTaskRetries \<le> lt_Retries t + 1 \<Longrightarrow>
    marked t ts (replace_task (lt_ID t) (set_permanently_failed m) ts)"

inductive_cases markedE: "marked t ts ts'"

definition mark_step :: "LedgerTask \<Rightarrow> LedgerTask list \<Rightarrow> LedgerTask list \<Rightarrow> bool" where
  "mark_step t ts ts' \<longleftrightarrow> ts' = ts \<or> marked t ts ts'"

lemma mark_stepE:
  assumes "mark_step t ts ts'"
  obtains "ts' = ts" | now where "ts' = replace_task (lt_ID t) (set_completed now) ts"
  | m where "lt_Retries t + 1 < DefaultMaxLedgerTaskRetries"
      "ts' = replace_task (lt_ID t) (set_failed m) ts"
  | m where "DefaultMaxLedgerTaskRetries \<le> lt_Retries t + 1"
      "ts' = replace_task (lt_ID t) (set_permanently_failed m) ts"
  using assms by (auto simp: mark_step_def elim: markedE)

lemma marks_keep [simp]:
  "lt_ID (set_completed n t) = lt_ID t" "lt_ID (set_failed m t) = lt_ID t"
  "lt_ID (set_permanently_failed m t) = lt_ID t"
  "task_payload (set_completed n t) = task_payload t" "task_payload (set_failed m t) = task_payload t"
  "task_payload (set_permanently_failed m t) = task_payload t"
  by (simp_all add: mark_defs task_payload_def)

lemma replace_task_map:
  "(\<And>t. g (u t) = g t) \<Longrightarrow> map g (replace_task i u ts) = map g ts"
  by (simp add: replace_task_def)

lemma mark_step_keeps:
  assumes "mark_step t ts ts'"
  shows "map lt_ID ts' = map lt_ID ts" and "map task_payload ts' = map task_payload ts"
  using assms by (auto elim!: mark_stepE simp: replace_task_map simp del: list.map_id)

lemma mark_step_distinct: "mark_step t ts ts' \<Longrightarrow> distinct_tasks ts \<Longrightarrow> distinct_tasks ts'"
  by (simp add: distinct_tasks_def mark_step_keeps(1))

text \<open>A pass touches no task but its own.\<close>

lemma mark_step_others:
  "mark_step t ts ts' \<Longrightarrow> x \<in> set ts \<Longrightarrow> lt_ID x \<noteq> lt_ID t \<Longrightarrow> x \<in> set ts'"
  by (force elim!: mark_stepE simp: replace_task_def)

lemma distinct_tasks_eq:
  "distinct_tasks ts \<Longrightarrow> x \<in> set ts \<Longrightarrow> t \<in> set ts \<Longrightarrow> lt_ID x = lt_ID t \<Longrightarrow> x = t"
  by (auto simp: distinct_tasks_def distinct_map inj_on_def)

lemma distinct_tasks_Cons:
  "distinct_tasks (t # ts) \<longleftrightarrow> (\<forall>x \<in> set ts. lt_ID x \<noteq> lt_ID t) \<and> distinct_tasks ts"
  by (auto simp: distinct_tasks_def image_iff)

lemma replace_task_set:
  assumes "distinct_tasks ts" and "t \<in> set ts"
  shows "set (replace_task (lt_ID t) u ts) \<subseteq> insert (u t) (set ts)"
  using assms distinct_tasks_eq [OF assms(1)] by (auto simp: replace_task_def)

lemma mark_step_ok:
  assumes "mark_step t ts ts'" and "distinct_tasks ts" and "t \<in> set ts"
    and "lt_Status t = LedgerTaskStatusPending" and "list_all task_ok ts"
  shows "list_all task_ok ts'"
proof -
  have "task_ok t" using assms(3,5) by (auto simp: list_all_iff)
  then have "task_ok (set_completed n t)"
    "lt_Retries t + 1 < DefaultMaxLedgerTaskRetries \<Longrightarrow> task_ok (set_failed m t)"
    "DefaultMaxLedgerTaskRetries \<le> lt_Retries t + 1 \<Longrightarrow> task_ok (set_permanently_failed m t)" for n m
    using assms(4) by (auto simp: task_ok_def mark_defs task_status_defs DefaultMaxLedgerTaskRetries_def)
  with assms(1) show ?thesis
    using replace_task_set [OF assms(2,3)] assms(5)
    by (auto elim!: mark_stepE simp: list_all_iff) blast+
qed

lemma sum_replace_task:
  fixes f :: "LedgerTask \<Rightarrow> int"
  assumes "distinct_tasks ts" and "t \<in> set ts"
  shows "sum_list (map f (replace_task (lt_ID t) u ts)) = sum_list (map f ts) - f t + f (u t)"
  using assms
proof (induction ts)
  case (Cons x ts)
  show ?case
  proof (cases "x = t")
    case True
    then have "lt_ID y \<noteq> lt_ID t" if "y \<in> set ts" for y
      using Cons.prems(1) that by (simp add: distinct_tasks_Cons)
    then have "replace_task (lt_ID t) u ts = ts"
      by (auto simp: replace_task_def intro: map_idI)
    with True show ?thesis by (simp add: replace_task_def)
  next
    case False
    with Cons.prems have "t \<in> set ts" "distinct_tasks ts" and "lt_ID x \<noteq> lt_ID t"
      by (auto simp: distinct_tasks_def)
    with Cons.IH show ?thesis by (simp add: replace_task_def)
  qed
qed simp

lemma marked_attempts:
  assumes "marked t ts ts'" and "distinct_tasks ts" and "t \<in> set ts"
    and "lt_Status t = LedgerTaskStatusPending" and "task_ok t"
  shows "total_attempts_left ts' < total_attempts_left ts"
proof -
  have "attempts_left (set_completed n t) < attempts_left t"
    "attempts_left (set_failed m t) < attempts_left t"
    "attempts_left (set_permanently_failed m t) < attempts_left t" for n m
    using assms(4,5) by (auto simp: attempts_left_def task_ok_def mark_defs task_status_defs)
  with assms show ?thesis
    by (auto elim!: markedE simp: total_attempts_left_def sum_replace_task)
qed

locale task_store =
  fixes S :: "'s LedgerTaskStore" and tasks :: "'s \<Rightarrow> LedgerTask list"
  assumes find_pending: "FindPending S n s = Inr xs \<Longrightarrow> distinct_tasks (tasks s) \<Longrightarrow>
      distinct_tasks xs \<and> set xs \<subseteq> set (tasks s) \<and> list_all (\<lambda>t. lt_Status t = LedgerTaskStatusPending) xs"
    and completed: "MarkCompleted S i now s = (s', r) \<Longrightarrow> distinct_tasks (tasks s) \<Longrightarrow>
      tasks s' = (case r of None \<Rightarrow> replace_task i (set_completed now) (tasks s) | Some e \<Rightarrow> tasks s)"
    and failed: "MarkFailed S i m s = (s', r) \<Longrightarrow> distinct_tasks (tasks s) \<Longrightarrow>
      tasks s' = (case r of None \<Rightarrow> replace_task i (set_failed m) (tasks s) | Some e \<Rightarrow> tasks s)"
    and permanently_failed: "MarkPermanentlyFailed S i m s = (s', r) \<Longrightarrow> distinct_tasks (tasks s) \<Longrightarrow>
      tasks s' = (case r of None \<Rightarrow> replace_task i (set_permanently_failed m) (tasks s) | Some e \<Rightarrow> tasks s)"
begin

lemma step_completed:
  assumes "distinct_tasks (tasks s)"
  shows "mark_step t (tasks s) (tasks (fst (MarkCompleted S (lt_ID t) now s)))"
  using completed [of "lt_ID t" now s] assms
  by (cases "MarkCompleted S (lt_ID t) now s"; cases "snd (MarkCompleted S (lt_ID t) now s)")
    (auto simp: mark_step_def intro: marked.intros)

lemma step_failed:
  assumes "distinct_tasks (tasks s)"
  shows "mark_step t (tasks s)
    (tasks (if DefaultMaxLedgerTaskRetries \<le> lt_Retries t + 1
            then fst (MarkPermanentlyFailed S (lt_ID t) m s)
            else fst (MarkFailed S (lt_ID t) m s)))"
  using failed [of "lt_ID t" m s] permanently_failed [of "lt_ID t" m s] assms
  by (cases "MarkFailed S (lt_ID t) m s"; cases "MarkPermanentlyFailed S (lt_ID t) m s";
      cases "snd (MarkFailed S (lt_ID t) m s)"; cases "snd (MarkPermanentlyFailed S (lt_ID t) m s)")
    (auto simp: mark_step_def intro: marked.intros)

text \<open>What the loop does to a state, as one pass after the other.\<close>

lemma process_tasks_step:
  assumes "distinct_tasks (tasks s)"
  obtains s1 b1 where "mark_step t (tasks s) (tasks s1)"
    and "process_tasks S client now k (t # ts) b s = process_tasks S client now (Suc k) ts b1 s1"
proof (cases "dispatch_error ''unknown failure'' (client k (request_of_task t))")
  case None
  then show thesis using that [OF step_completed [OF assms]] by (simp add: split_def Let_def)
next
  case (Some m)
  then show thesis using that [OF step_failed [OF assms]] by (simp add: Let_def)
qed

lemma process_tasks_keeps:
  assumes "process_tasks S client now k xs b s = (s', b')"
    and "distinct_tasks (tasks s)" and "distinct_tasks xs" and "set xs \<subseteq> set (tasks s)"
    and "list_all (\<lambda>t. lt_Status t = LedgerTaskStatusPending) xs" and "list_all task_ok (tasks s)"
  shows "list_all task_ok (tasks s') \<and> map task_payload (tasks s') = map task_payload (tasks s)
    \<and> distinct_tasks (tasks s') \<and> (\<forall>x \<in> set (tasks s). lt_ID x \<notin> lt_ID ` set xs \<longrightarrow> x \<in> set (tasks s'))"
  using assms
proof (induction xs arbitrary: k b s)
  case (Cons t xs)
  obtain s1 b1 where step: "mark_step t (tasks s) (tasks s1)"
    and rest: "process_tasks S client now (Suc k) xs b1 s1 = (s', b')"
    using process_tasks_step [OF Cons.prems(2)] Cons.prems(1) by metis
  have t: "t \<in> set (tasks s)" "lt_Status t = LedgerTaskStatusPending" using Cons.prems by auto
  have others: "lt_ID x \<noteq> lt_ID t" if "x \<in> set xs" for x
    using Cons.prems(3) that by (simp add: distinct_tasks_Cons)
  have "set xs \<subseteq> set (tasks s1)"
    using mark_step_others [OF step] others Cons.prems(4) by auto
  moreover have "list_all task_ok (tasks s1)"
    using mark_step_ok [OF step Cons.prems(2) t Cons.prems(6)] .
  moreover have "distinct_tasks xs" using Cons.prems(3) by (simp add: distinct_tasks_def)
  ultimately have *: "list_all task_ok (tasks s') \<and> map task_payload (tasks s') = map task_payload (tasks s1)
    \<and> distinct_tasks (tasks s') \<and> (\<forall>x \<in> set (tasks s1). lt_ID x \<notin> lt_ID ` set xs \<longrightarrow> x \<in> set (tasks s'))"
    using Cons.IH [OF rest] mark_step_distinct [OF step Cons.prems(2)] Cons.prems(5) by simp
  then show ?case
    using mark_step_keeps(2) [OF step] mark_step_others [OF step] by auto
qed auto

end

text \<open>A store whose updates get through.\<close>

locale live_task_store = task_store +
  assumes completed_ok: "snd (MarkCompleted S i now s) = None"
    and failed_ok: "snd (MarkFailed S i m s) = None"
    and permanently_failed_ok: "snd (MarkPermanentlyFailed S i m s) = None"
begin

lemma marked_completed:
  assumes "distinct_tasks (tasks s)"
  shows "marked t (tasks s) (tasks (fst (MarkCompleted S (lt_ID t) now s)))"
  using completed [of "lt_ID t" now s] completed_ok [of "lt_ID t" now s] assms
  by (cases "MarkCompleted S (lt_ID t) now s") (auto intro: marked.intros)

lemma marked_failed:
  assumes "distinct_tasks (tasks s)"
  shows "marked t (tasks s)
    (tasks (if DefaultMaxLedgerTaskRetries \<le> lt_Retries t + 1
            then fst (MarkPermanentlyFailed S (lt_ID t) m s)
            else fst (MarkFailed S (lt_ID t) m s)))"
  using failed [of "lt_ID t" m s] permanently_failed [of "lt_ID t" m s]
    failed_ok [of "lt_ID t" m s] permanently_failed_ok [of "lt_ID t" m s] assms
  by (cases "MarkFailed S (lt_ID t) m s"; cases "MarkPermanentlyFailed S (lt_ID t) m s")
    (auto intro: marked.intros)

lemma process_tasks_marked:
  assumes "distinct_tasks (tasks s)"
  obtains s1 b1 where "marked t (tasks s) (tasks s1)"
    and "process_tasks S client now k (t # ts) b s = process_tasks S client now (Suc k) ts b1 s1"
proof (cases "dispatch_error ''unknown failure'' (client k (request_of_task t))")
  case None
  then show thesis using that [OF marked_completed [OF assms]] by (simp add: split_def Let_def)
next
  case (Some m)
  then show thesis using that [OF marked_failed [OF assms]] by (simp add: Let_def)
qed

text \<open>Every task of a batch uses up at least one attempt.\<close>

lemma process_tasks_progress:
  assumes "process_tasks S client now k xs b s = (s', b')"
    and "distinct_tasks (tasks s)" and "distinct_tasks xs" and "set xs \<subseteq> set (tasks s)"
    and "list_all (\<lambda>t. lt_Status t = LedgerTaskStatusPending) xs" and "list_all task_ok (tasks s)"
  shows "total_attempts_left (tasks s') + int (length xs) \<le> total_attempts_left (tasks s)"
  using assms
proof (induction xs arbitrary: k b s)
  case (Cons t xs)
  obtain s1 b1 where m: "marked t (tasks s) (tasks s1)"
    and rest: "process_tasks S client now (Suc k) xs b1 s1 = (s', b')"
    using process_tasks_marked [OF Cons.prems(2)] Cons.prems(1) by metis
  then have step: "mark_step t (tasks s) (tasks s1)" by (simp add: mark_step_def)
  have t: "t \<in> set (tasks s)" "lt_Status t = LedgerTaskStatusPending" using Cons.prems by auto
  then have "task_ok t" using Cons.prems(6) by (simp add: list_all_iff)
  have "set xs \<subseteq> set (tasks s1)"
    using mark_step_others [OF step] Cons.prems(3,4) by (auto simp: distinct_tasks_Cons)
  then have "total_attempts_left (tasks s') + int (length xs) \<le> total_attempts_left (tasks s1)"
    using Cons.IH [OF rest] mark_step_distinct [OF step Cons.prems(2)] Cons.prems
      mark_step_ok [OF step Cons.prems(2) t Cons.prems(6)]
    by (simp add: distinct_tasks_Cons)
  then show ?case using marked_attempts [OF m Cons.prems(2) t \<open>task_ok t\<close>] by simp
qed simp

end

subsection \<open>The MongoDB store meets the contract\<close>

text \<open>The only unique index of \<open>ledger_tasks\<close> is the one on \<open>_id\<close>.\<close>

definition task_conflict :: "LedgerTask \<Rightarrow> LedgerTask \<Rightarrow> bool" where
  "task_conflict a b \<longleftrightarrow> lt_ID a = lt_ID b"

locale task_collection = collection M task_conflict for M :: "LedgerTask collection_ops"
begin

lemma replace_task_nth:
  assumes "distinct_tasks ts" and "i < length ts"
  shows "replace_task (lt_ID (ts ! i)) u ts = ts[i := u (ts ! i)]"
proof (rule nth_equalityI)
  fix k assume "k < length (replace_task (lt_ID (ts ! i)) u ts)"
  then have k: "k < length ts" by (simp add: replace_task_def)
  have "lt_ID (ts ! k) = lt_ID (ts ! i) \<longleftrightarrow> k = i"
    using assms k by (auto simp: distinct_tasks_def distinct_conv_nth)
  then show "replace_task (lt_ID (ts ! i)) u ts ! k = ts[i := u (ts ! i)] ! k"
    using k assms(2) by (auto simp: replace_task_def nth_list_update)
qed (simp add: replace_task_def)

lemma mark_by_id_replace:
  assumes "mark_by_id (Some M) i u ts = (ts', r)" and "distinct_tasks ts"
  shows "ts' = (case r of None \<Rightarrow> replace_task i u ts | Some e \<Rightarrow> ts)"
proof (cases rule: UpdateOne_cases [of "\<lambda>t. lt_ID t = i" "\<lambda>t. Some (u t)" ts])
  case (err e)
  then show ?thesis using assms(1) by (auto simp: mark_by_id_def)
next
  case (nomatch q)
  then have "replace_task i u ts = ts" by (auto simp: replace_task_def list_ex_iff intro: map_idI)
  then show ?thesis using nomatch assms(1) by (auto simp: mark_by_id_def)
next
  case (match k d q)
  then show ?thesis using assms replace_task_nth [of ts k u] by (auto simp: mark_by_id_def)
qed

lemma mongo_FindPending_Inr:
  assumes "mongo_FindPending (Some M) n ts = Inr xs"
  obtains ys where "mset ys = mset (filter (\<lambda>t. lt_Status t = LedgerTaskStatusPending) ts)"
    and "xs = take n ys" and "sorted (map lt_CreatedAt ys)"
proof -
  from assms have "Find M (\<lambda>t. lt_Status t = LedgerTaskStatusPending) lt_CreatedAt 0 (Some n) ts = Inr xs"
    by (auto simp: mongo_FindPending_def split: sum.splits)
  from Find_Inr [OF this] that show thesis by auto
qed

lemma mongo_FindPending_law:
  assumes "mongo_FindPending (Some M) n ts = Inr xs" and "distinct_tasks ts"
  shows "distinct_tasks xs \<and> set xs \<subseteq> set ts \<and> list_all (\<lambda>t. lt_Status t = LedgerTaskStatusPending) xs"
proof -
  obtain ys where ys: "mset ys = mset (filter (\<lambda>t. lt_Status t = LedgerTaskStatusPending) ts)"
    and xs: "xs = take n ys" using mongo_FindPending_Inr [OF assms(1)] by metis
  have "mset (map lt_ID ys) = mset (map lt_ID (filter (\<lambda>t. lt_Status t = LedgerTaskStatusPending) ts))"
    using ys by simp
  then have "distinct (map lt_ID ys)"
    using assms(2) by (metis distinct_map_filter distinct_tasks_def mset_eq_imp_distinct_iff)
  then have "distinct_tasks xs" by (simp add: xs distinct_tasks_def take_map [symmetric])
  moreover have "set xs \<subseteq> set ys" using xs by (simp add: set_take_subset)
  moreover have "set ys = {t \<in> set ts. lt_Status t = LedgerTaskStatusPending}"
    using mset_eq_setD [OF ys] by auto
  ultimately show ?thesis by (auto simp: list_all_iff)
qed

end

sublocale task_collection \<subseteq> store: task_store "mongoLedgerTaskStore (Some M)" "\<lambda>ts. ts"
  by unfold_locales
    (auto simp: mongoLedgerTaskStore_def mongo_MarkCompleted_def mongo_MarkFailed_def
      mongo_MarkPermanentlyFailed_def dest: mark_by_id_replace mongo_FindPending_law)

context task_collection
begin

lemma mongo_store: "task_store (mongoLedgerTaskStore (Some M)) (\<lambda>ts. ts)"
  by (rule store.task_store_axioms)

end

interpretation mem_tasks: task_collection "mem_ops task_conflict"
  by unfold_locales

lemma mem_mark_by_id: "snd (mark_by_id (Some (mem_ops task_conflict)) i u ts) = None"
  by (auto simp: mark_by_id_def mem_ops_def mem_UpdateOne_def split: option.splits)

interpretation mem_live: live_task_store "mongoLedgerTaskStore (Some (mem_ops task_conflict))" "\<lambda>ts. ts"
  by unfold_locales
    (simp_all add: mongoLedgerTaskStore_def mongo_MarkCompleted_def mongo_MarkFailed_def
      mongo_MarkPermanentlyFailed_def mem_mark_by_id)

subsection \<open>Properties\<close>

lemma ProcessBatch_cases:
  assumes "ProcessBatch (Some S) client n now s = (s', c, e)"
  obtains (query_failed) err where "FindPending S n s = Inl err" "s' = s" "c = 0" "e \<noteq> None"
  | (batch) xs b where "FindPending S n s = Inr xs"
      "process_tasks S client now 0 xs \<lparr>b_processed = 0, b_failed = 0, b_lastErr = lit []\<rparr> s = (s', b)"
      "c = b_processed b" "e = None \<longleftrightarrow> \<not> 0 < b_failed b"
  using assms
  by (auto simp: ProcessBatch_def Let_def split: sum.splits prod.splits if_splits)

text \<open>
  A batch of the relay never touches what a task says (who pays whom, how much, under
  which idempotency key), never touches a task that is no longer pending, and keeps the
  bookkeeping sound: a pending task has attempts left, a failed one has used exactly five.
\<close>

lemma ProcessBatch_keeps_tasks:
  assumes "task_collection M" and "distinct_tasks ts" and "list_all task_ok ts"
    and "ProcessBatch (Some (mongoLedgerTaskStore (Some M))) client n now ts = (ts', c, e)"
  shows "list_all task_ok ts' \<and> map task_payload ts' = map task_payload ts
    \<and> (\<forall>x \<in> set ts. lt_Status x \<noteq> LedgerTaskStatusPending \<longrightarrow> x \<in> set ts')"
  using assms(4)
proof (cases rule: ProcessBatch_cases)
  case (query_failed err)
  then show ?thesis using assms(3) by simp
next
  case (batch xs b)
  note laws = task_collection.mongo_store [OF assms(1)]
  have found: "distinct_tasks xs \<and> set xs \<subseteq> set ts
      \<and> list_all (\<lambda>t. lt_Status t = LedgerTaskStatusPending) xs"
    using task_store.find_pending [OF laws batch(1) assms(2)] .
  then have "lt_Status x = LedgerTaskStatusPending" if "x \<in> set ts" "lt_ID x \<in> lt_ID ` set xs" for x
    using that distinct_tasks_eq [OF assms(2) that(1)] by (auto simp: list_all_iff)
  then show ?thesis
    using task_store.process_tasks_keeps [OF laws batch(2) assms(2)] found assms(3) by auto
qed

definition sample_task :: "string \<Rightarrow> int \<Rightarrow> int \<Rightarrow> LedgerTask" where
  "sample_task i created retries =
     \<lparr>lt_ID = i, lt_TransactionID = ''tx'' @ i, lt_IdempotencyKey = ''key'' @ i,
      lt_SourceWalletID = ''w-alice-1'', lt_DestinationWalletID = ''w-bob-1'', lt_Amount = 2500,
      lt_Currency = ''USD'', lt_DestinationAmount = 2500, lt_DestinationCurrency = ''USD'',
      lt_ExchangeRate = 1, lt_FXQuoteID = [], lt_Region = ''us-east'',
      lt_Status = LedgerTaskStatusPending, lt_CreatedAt = created, lt_ProcessedAt = None,
      lt_Error = lit [], lt_Retries = retries\<rparr>"

text \<open>A ledger that accepts the first call of a batch and is down afterwards.\<close>

definition flaky_ledger :: "nat \<Rightarrow> ledger_client" where
  "flaky_ledger k r = (if k = 0 then Inr (Some \<lparr>rr_TransactionId = [], rr_Success = True, rr_ErrorMessage = lit []\<rparr>)
                       else Inl (lit ''unavailable''))"

definition sample_tasks :: "LedgerTask list" where
  "sample_tasks = [sample_task ''a'' 2 4, sample_task ''b'' 1 0, sample_task ''c'' 3 1]"

lemma sample_tasks_ok: "distinct_tasks sample_tasks" "list_all task_ok sample_tasks"
  by code_simp+



end
