(* ===== verification/Compliance.thy ===== *)
theory Compliance
  imports WalletCache LedgerOutbox
begin

text \<open>
  KYC tiers and velocity limits (\<open>cmd/wallet-service/compliance.go\<close>), and the state every
  handler of the wallet service works on: the collections of its database, the balance cache,
  and what a request finds around it (configuration, drivers, clock, identifiers).

  A request reads the clock once; \<open>e_oid\<close> and \<open>e_assoc\<close> are the identifiers that
  \<open>primitive.NewObjectID\<close> and \<open>NewAssociationID\<close> return to it; \<open>e_session\<close> is the error of
  \<open>StartSession\<close>, if any, and \<open>e_environment\<close> the name of the deployment environment.
\<close>

subsection \<open>State\<close>

record VelocityRecord =
  v_ID :: string
  v_WalletID :: string
  v_DestWalletID :: string
  v_Amount :: int64
  v_Currency :: string
  v_USDUnits :: int64
  v_TxnType :: string
  v_CreatedAt :: int

record wallet_db =
  d_wallets :: "WalletModel list"
  d_idempotency :: "IdempotencyRecord list"
  d_tasks :: "LedgerTask list"
  d_velocity :: "VelocityRecord list"
  d_outbox :: "OutboxEntry list"

record wallet_driver =
  k_wallets :: "WalletModel collection_ops"
  k_idempotency :: "IdempotencyRecord collection_ops"
  k_tasks :: "LedgerTask collection_ops"
  k_velocity :: "VelocityRecord collection_ops"
  k_outbox :: "OutboxEntry collection_ops"

record 'l2 wallet_env =
  e_srv :: server
  e_drv :: wallet_driver
  e_l2 :: "'l2 DistributedCache"
  e_now :: int
  e_oid :: "nat \<Rightarrow> string"
  e_assoc :: "nat \<Rightarrow> string"
  e_session :: "gomsg option"
  e_environment :: string

record 'l2 wallet_state =
  st_db :: wallet_db
  st_cache :: "'l2 BalanceCache option"

definition invalidate_cache :: "'l2 wallet_env \<Rightarrow> string list \<Rightarrow> 'l2 wallet_state \<Rightarrow> 'l2 wallet_state" where
  "invalidate_cache E ids st =
     st\<lparr>st_cache := map_option (BalanceCache_Invalidate (e_l2 E) ids) (st_cache st)\<rparr>"

subsection \<open>Tiers\<close>

record KYCTierConfig =
  t_Tier :: string
  t_SingleTxnLimitUnits :: int64
  t_DailyRollingLimitUnits :: int64
  t_HourlyRateLimitCount :: int32

definition tier1_config :: KYCTierConfig where
  "tier1_config = \<lparr>t_Tier = KYCTier1, t_SingleTxnLimitUnits = 100000,
                   t_DailyRollingLimitUnits = 500000, t_HourlyRateLimitCount = 10\<rparr>"

definition TierConfigs :: "(string, KYCTierConfig) gomap" where
  "TierConfigs =
    [(KYCTier1, tier1_config),
     (KYCTier2, \<lparr>t_Tier = KYCTier2, t_SingleTxnLimitUnits = 1000000,
                 t_DailyRollingLimitUnits = 5000000, t_HourlyRateLimitCount = 50\<rparr>),
     (KYCTier3, \<lparr>t_Tier = KYCTier3, t_SingleTxnLimitUnits = 10000000,
                 t_DailyRollingLimitUnits = 50000000, t_HourlyRateLimitCount = 200\<rparr>)]"

definition GetTierConfig :: "string \<Rightarrow> KYCTierConfig" where
  "GetTierConfig tier = (case map_of TierConfigs tier of Some cfg \<Rightarrow> cfg | None \<Rightarrow> tier1_config)"

subsection \<open>Velocity\<close>

definition ratesToUSD :: "(string, float64) gomap" where
  "ratesToUSD =
    [(''EUR'', fl (1087 / 1000)), (''GBP'', fl (1282 / 1000)), (''JPY'', fl (64 / 10000)),
     (''CHF'', fl (1121 / 1000)), (''CAD'', fl (735 / 1000)), (''AUD'', fl (655 / 1000)),
     (''SGD'', fl (745 / 1000)), (''INR'', fl (12 / 1000)), (''BHD'', fl (26525 / 10000))]"

definition normalizeToUSDUnits :: "int64 \<Rightarrow> string \<Rightarrow> int64" where
  "normalizeToUSDUnits amount currency =
     (let cur = NormalizeCurrency currency
      in if cur = ''USD'' \<or> cur = [] then amount
         else case map_of ratesToUSD cur of
                None \<Rightarrow> amount
              | Some rate \<Rightarrow> ConvertUnitsScaleBankers amount cur ''USD'' rate)"

definition one_hour :: int where "one_hour = 3600000000000"
definition one_day :: int where "one_day = 24 * one_hour"

definition GetWalletVelocityUsage ::
    "'l2 wallet_env \<Rightarrow> string \<Rightarrow> VelocityRecord list \<Rightarrow> gomsg + (int64 \<times> int32)" where
  "GetWalletVelocityUsage E walletID vs =
     (if \<not> s_mongoClient (e_srv E) then Inr (0, 0)
      else let oneDayAgo = e_now E - one_day; oneHourAgo = e_now E - one_hour
           in case AggregateSums (k_velocity (e_drv E))
                     (\<lambda>v. v_WalletID v = walletID \<and> oneDayAgo \<le> v_CreatedAt v)
                     [v_USDUnits, \<lambda>v. if oneHourAgo \<le> v_CreatedAt v then 1 else 0] vs of
                Inl err \<Rightarrow> Inl (err_msg err)
              | Inr [] \<Rightarrow> Inr (0, 0)
              | Inr (g # _) \<Rightarrow> Inr (g ! 0, g ! 1))"

definition CheckVelocityLimits ::
    "'l2 wallet_env \<Rightarrow> WalletModel \<Rightarrow> int64 \<Rightarrow> string \<Rightarrow> VelocityRecord list \<Rightarrow> gomsg option" where
  "CheckVelocityLimits E wallet amount currency vs =
     (let tier = EffectiveKYCTier wallet;
          cfg = GetTierConfig tier;
          usdAmount = normalizeToUSDUnits amount currency
      in if t_SingleTxnLimitUnits cfg < usdAmount
         then Some (Msg ''transaction amount (%d USD cents) exceeds KYC %s single transaction limit (%d USD cents)''
                      [ArgD usdAmount, ArgS tier, ArgD (t_SingleTxnLimitUnits cfg)])
         else case GetWalletVelocityUsage E (w_ID wallet) vs of
                Inl err \<Rightarrow> None
              | Inr (dailySpent, hourlyCount) \<Rightarrow>
                  if t_HourlyRateLimitCount cfg \<le> hourlyCount
                  then Some (Msg ''wallet %s exceeded KYC %s hourly velocity limit (%d/%d transactions in past hour)''
                               [ArgS (w_ID wallet), ArgS tier, ArgD hourlyCount, ArgD (t_HourlyRateLimitCount cfg)])
                  else if t_DailyRollingLimitUnits cfg < wrap64 (dailySpent + usdAmount)
                  then Some (Msg ''transaction would exceed KYC %s 24-hour rolling limit: spent %d + current %d > max %d USD cents''
                               [ArgS tier, ArgD dailySpent, ArgD usdAmount, ArgD (t_DailyRollingLimitUnits cfg)])
                  else None)"

definition RecordVelocityUsageWithDest ::
    "'l2 wallet_env \<Rightarrow> string \<Rightarrow> string \<Rightarrow> string \<Rightarrow> int64 \<Rightarrow> string \<Rightarrow> string \<Rightarrow> wallet_db
       \<Rightarrow> wallet_db \<times> mongo_error option" where
  "RecordVelocityUsageWithDest E oid walletID destWalletID amount currency txnType db =
     (if \<not> s_mongoClient (e_srv E) then (db, None)
      else case InsertOne (k_velocity (e_drv E))
                  \<lparr>v_ID = oid, v_WalletID = walletID, v_DestWalletID = destWalletID, v_Amount = amount,
                   v_Currency = NormalizeCurrency currency,
                   v_USDUnits = normalizeToUSDUnits amount currency,
                   v_TxnType = txnType, v_CreatedAt = e_now E\<rparr> (d_velocity db) of
             (vs, err) \<Rightarrow> (db\<lparr>d_velocity := vs\<rparr>, err))"

definition RecordVelocityUsage ::
    "'l2 wallet_env \<Rightarrow> string \<Rightarrow> string \<Rightarrow> int64 \<Rightarrow> string \<Rightarrow> string \<Rightarrow> wallet_db
       \<Rightarrow> wallet_db \<times> mongo_error option" where
  "RecordVelocityUsage E oid walletID amount currency txnType db =
     RecordVelocityUsageWithDest E oid walletID [] amount currency txnType db"

subsection \<open>Handlers\<close>

record UpdateWalletKYCResponse =
  uk_Success :: bool
  uk_WalletId :: string
  uk_PreviousTier :: string
  uk_CurrentTier :: string
  uk_Message :: gomsg

definition kyc_refused :: "gomsg \<Rightarrow> UpdateWalletKYCResponse" where
  "kyc_refused m = \<lparr>uk_Success = False, uk_WalletId = [], uk_PreviousTier = [], uk_CurrentTier = [],
                    uk_Message = m\<rparr>"

definition UpdateWalletKYC ::
    "'l2 wallet_env \<Rightarrow> (string \<times> string) option \<Rightarrow> 'l2 wallet_state \<Rightarrow> 'l2 wallet_state \<times> UpdateWalletKYCResponse" where
  "UpdateWalletKYC E req st =
     (case req of
        None \<Rightarrow> (st, kyc_refused (lit ''wallet_id and kyc_tier are required''))
      | Some (walletId, tier) \<Rightarrow>
          if walletId = [] \<or> tier = [] then (st, kyc_refused (lit ''wallet_id and kyc_tier are required''))
          else if map_of TierConfigs tier = None
          then (st, kyc_refused (Msg ''invalid kyc_tier: %s (supported: TIER_1, TIER_2, TIER_3)'' [ArgS tier]))
          else if \<not> s_mongoClient (e_srv E) then (st, kyc_refused (lit ''database unavailable''))
          else case FindOne (k_wallets (e_drv E)) (\<lambda>w. w_ID w = walletId) None (d_wallets (st_db st)) of
                 Inl err \<Rightarrow> (st, kyc_refused (Msg ''wallet %s not found'' [ArgS walletId]))
               | Inr existing \<Rightarrow>
                   (case UpdateOne (k_wallets (e_drv E)) (\<lambda>w. w_ID w = walletId)
                           (\<lambda>w. Some (w\<lparr>w_KYCTier := tier, w_UpdatedAt := unix_second (e_now E)\<rparr>))
                           (d_wallets (st_db st)) of
                      (ws, Inl err) \<Rightarrow>
                        (st\<lparr>st_db := (st_db st)\<lparr>d_wallets := ws\<rparr>\<rparr>,
                         kyc_refused (Msg ''failed to update KYC tier: %v'' [ArgE (err_msg err)]))
                    | (ws, Inr r) \<Rightarrow>
                        (invalidate_cache E [walletId] (st\<lparr>st_db := (st_db st)\<lparr>d_wallets := ws\<rparr>\<rparr>),
                         \<lparr>uk_Success = True, uk_WalletId = walletId,
                          uk_PreviousTier = EffectiveKYCTier existing, uk_CurrentTier = tier,
                          uk_Message = Msg ''KYC tier updated successfully to %s'' [ArgS tier]\<rparr>)))"

record GetWalletLimitsResponse =
  gl_WalletId :: string
  gl_KycTier :: string
  gl_SingleTransactionLimit :: int64
  gl_DailyRollingLimit :: int64
  gl_DailyRollingSpent :: int64
  gl_DailyRollingRemaining :: int64
  gl_HourlyRateLimit :: int32
  gl_HourlyRateSpent :: int32
  gl_HourlyRateRemaining :: int32

definition GetWalletLimits ::
    "'l2 wallet_env \<Rightarrow> metadata \<Rightarrow> string option \<Rightarrow> wallet_db \<Rightarrow> goerr + GetWalletLimitsResponse" where
  "GetWalletLimits E ctx req db =
     (case req of
        None \<Rightarrow> Inl (PlainErr (lit ''wallet_id is required''))
      | Some walletId \<Rightarrow>
          if walletId = [] then Inl (PlainErr (lit ''wallet_id is required''))
          else case verifyWalletAccessByWalletID (e_srv E) (k_wallets (e_drv E)) ctx walletId (d_wallets db) of
                 Some err \<Rightarrow> Inl err
               | None \<Rightarrow>
                   if \<not> s_mongoClient (e_srv E) then Inl (PlainErr (lit ''database unavailable''))
                   else case FindOne (k_wallets (e_drv E)) (\<lambda>w. w_ID w = walletId) None (d_wallets db) of
                          Inl err \<Rightarrow> Inl (PlainErr (Msg ''wallet %s not found'' [ArgS walletId]))
                        | Inr wallet \<Rightarrow>
                            (let tier = EffectiveKYCTier wallet;
                                 cfg = GetTierConfig tier;
                                 (dailySpent, hourlySpent) =
                                   (case GetWalletVelocityUsage E walletId (d_velocity db) of
                                      Inl err \<Rightarrow> (0, 0) | Inr u \<Rightarrow> u);
                                 dailyRemaining = wrap64 (t_DailyRollingLimitUnits cfg - dailySpent);
                                 hourlyRemaining = wrap32 (t_HourlyRateLimitCount cfg - hourlySpent)
                             in Inr \<lparr>gl_WalletId = walletId, gl_KycTier = tier,
                                     gl_SingleTransactionLimit = t_SingleTxnLimitUnits cfg,
                                     gl_DailyRollingLimit = t_DailyRollingLimitUnits cfg,
                                     gl_DailyRollingSpent = dailySpent,
                                     gl_DailyRollingRemaining = (if dailyRemaining < 0 then 0 else dailyRemaining),
                                     gl_HourlyRateLimit = t_HourlyRateLimitCount cfg,
                                     gl_HourlyRateSpent = hourlySpent,
                                     gl_HourlyRateRemaining = (if hourlyRemaining < 0 then 0 else hourlyRemaining)\<rparr>))"

subsection \<open>Rolling windows\<close>

definition daily_spent :: "int \<Rightarrow> string \<Rightarrow> VelocityRecord list \<Rightarrow> int" where
  "daily_spent now i vs =
     sum_list (map v_USDUnits (filter (\<lambda>v. v_WalletID v = i \<and> now - one_day \<le> v_CreatedAt v) vs))"

definition hourly_count :: "int \<Rightarrow> string \<Rightarrow> VelocityRecord list \<Rightarrow> int" where
  "hourly_count now i vs =
     int (length (filter (\<lambda>v. v_WalletID v = i \<and> now - one_hour \<le> v_CreatedAt v) vs))"

definition velocity_conflict :: "VelocityRecord \<Rightarrow> VelocityRecord \<Rightarrow> bool" where
  "velocity_conflict a b \<longleftrightarrow> v_ID a = v_ID b"

lemma sum_indicator:
  "sum_list (map (\<lambda>v. if Q v then 1 else (0::int)) (filter P vs)) = int (length (filter (\<lambda>v. P v \<and> Q v) vs))"
  by (induction vs) auto

lemma usage_is_window:
  assumes "collection (k_velocity (e_drv E)) conflict" and "s_mongoClient (e_srv E)"
    and "GetWalletVelocityUsage E i vs = Inr (d, h)"
  shows "d = daily_spent (e_now E) i vs" and "h = hourly_count (e_now E) i vs"
proof -
  let ?f = "\<lambda>v. v_WalletID v = i \<and> e_now E - one_day \<le> v_CreatedAt v"
  let ?g = "\<lambda>v. if e_now E - one_hour \<le> v_CreatedAt v then 1 else (0::int)"
  have "one_hour \<le> one_day" by (simp add: one_day_def one_hour_def)
  then have win: "(\<lambda>v. ?f v \<and> e_now E - one_hour \<le> v_CreatedAt v)
      = (\<lambda>v. v_WalletID v = i \<and> e_now E - one_hour \<le> v_CreatedAt v)" by auto
  obtain rs where rs: "AggregateSums (k_velocity (e_drv E)) ?f [v_USDUnits, ?g] vs = Inr rs"
    using assms(2,3) by (auto simp: GetWalletVelocityUsage_def Let_def split: sum.splits)
  note law = collection.AggregateSums_Inr [OF assms(1) rs]
  have sums: "d = sum_list (map v_USDUnits (filter ?f vs)) \<and> h = sum_list (map ?g (filter ?f vs))"
  proof (cases "filter ?f vs = []")
    case True
    with law have "rs = []" by simp
    with assms(2,3) rs show ?thesis unfolding True by (simp add: GetWalletVelocityUsage_def Let_def)
  next
    case False
    with law have "rs = [[sum_list (map v_USDUnits (filter ?f vs)), sum_list (map ?g (filter ?f vs))]]"
      by simp
    with assms(2,3) rs show ?thesis by (simp add: GetWalletVelocityUsage_def Let_def)
  qed
  then show "d = daily_spent (e_now E) i vs" by (simp add: daily_spent_def)
  show "h = hourly_count (e_now E) i vs" using sums unfolding sum_indicator win hourly_count_def by simp
qed

lemma daily_spent_snoc:
  "daily_spent now i (vs @ [v]) =
     daily_spent now i vs + (if v_WalletID v = i \<and> now - one_day \<le> v_CreatedAt v then v_USDUnits v else 0)"
  by (simp add: daily_spent_def)

lemma tier_table: "list_all (\<lambda>(t, cfg). 0 < t_SingleTxnLimitUnits cfg
    \<and> t_SingleTxnLimitUnits cfg \<le> t_DailyRollingLimitUnits cfg \<and> t_DailyRollingLimitUnits cfg < 2 ^ 62
    \<and> 0 < t_HourlyRateLimitCount cfg) TierConfigs"
  by code_simp

lemmas TierConfigs_bounds = map_of_list_all [OF tier_table]

lemma GetTierConfig_bounds:
  "0 < t_SingleTxnLimitUnits (GetTierConfig t)"
  "t_SingleTxnLimitUnits (GetTierConfig t) \<le> t_DailyRollingLimitUnits (GetTierConfig t)"
  "t_DailyRollingLimitUnits (GetTierConfig t) < 2 ^ 62"
  using TierConfigs_bounds [of t] by (auto simp: GetTierConfig_def tier1_config_def split: option.splits)

text \<open>What passing the velocity check means, when the usage could be read.\<close>

lemma CheckVelocityLimits_None:
  assumes "collection (k_velocity (e_drv E)) conflict" and "s_mongoClient (e_srv E)"
    and "GetWalletVelocityUsage E (w_ID w) vs = Inr (d, h)"
    and "CheckVelocityLimits E w amount cur vs = None"
  shows "normalizeToUSDUnits amount cur \<le> t_SingleTxnLimitUnits (GetTierConfig (EffectiveKYCTier w))"
    and "hourly_count (e_now E) (w_ID w) vs < t_HourlyRateLimitCount (GetTierConfig (EffectiveKYCTier w))"
    and "wrap64 (daily_spent (e_now E) (w_ID w) vs + normalizeToUSDUnits amount cur)
           \<le> t_DailyRollingLimitUnits (GetTierConfig (EffectiveKYCTier w))"
  using assms(4) usage_is_window [OF assms(1-3)]
  by (auto simp: CheckVelocityLimits_def Let_def assms(3) split: if_splits)

lemma huge_amount: "normalizeToUSDUnits 9000000000000000000 ''EUR'' = - 9223372036854775808"
  by code_simp

text \<open>
  A very large amount escapes the limits: 90,000,000,000,000,000 euros convert to a
  negative number of US cents, which is below every single limit and takes the daily total
  below every daily limit, so only the hourly count can stop the movement.
\<close>

lemma huge_amount_passes_limits:
  assumes "GetWalletVelocityUsage E (w_ID wallet) vs = Inr (d, h)" and "0 \<le> d" and "fits64 d"
    and "h < t_HourlyRateLimitCount (GetTierConfig (EffectiveKYCTier wallet))"
  shows "CheckVelocityLimits E wallet 9000000000000000000 ''EUR'' vs = None"
proof -
  let ?cfg = "GetTierConfig (EffectiveKYCTier wallet)"
  have "0 < t_SingleTxnLimitUnits ?cfg" "0 < t_DailyRollingLimitUnits ?cfg"
    using GetTierConfig_bounds(1,2) [of "EffectiveKYCTier wallet"] by linarith+
  moreover have "wrap64 (d - 9223372036854775808) = d - 9223372036854775808" "d - 9223372036854775808 < 0"
    using assms(2,3) by (simp_all add: fits64_def)
  ultimately show ?thesis
    using assms(1,4) by (simp add: CheckVelocityLimits_def Let_def huge_amount)
qed

definition offline_env :: "MemoryCache wallet_env" where
  "offline_env =
     \<lparr>e_srv = \<lparr>s_mongoClient = False, s_fxClient = None, s_region = [], s_isActive = True, s_targetRole = [],
                s_coordinator = None, s_outbox = False, s_ledgerRelay = None, s_fraudDetector = None\<rparr>,
      e_drv = \<lparr>k_wallets = mem_ops (\<lambda>a b. w_ID a = w_ID b), k_idempotency = mem_ops (\<lambda>a b. i_ID a = i_ID b),
               k_tasks = mem_ops task_conflict, k_velocity = mem_ops velocity_conflict,
               k_outbox = mem_ops (\<lambda>a b. oe_ID a = oe_ID b)\<rparr>,
      e_l2 = memory_ops, e_now = 0, e_oid = (\<lambda>n. []), e_assoc = (\<lambda>n. []), e_session = None,
      e_environment = []\<rparr>"

definition rich_wallet :: WalletModel where
  "rich_wallet =
     \<lparr>w_ID = ''rich_1'', w_OwnerID = [], w_CreatedBy = [], w_Currency = ''EUR'', w_Balance = 9000000000000000000,
      w_Balances = [(''EUR'', 9000000000000000000)], w_Status = [], w_KYCTier = [], w_Region = [], w_UpdatedAt = 0\<rparr>"

end
