(* ===== verification/TransferFlow.thy ===== *)
theory TransferFlow
  imports Compliance
begin

text \<open>
  \<open>TransferFunds\<close> of \<open>cmd/wallet-service/main.go\<close>, from the validation of the request to the
  response: the FX conversion before the transaction, the transaction itself (idempotency
  check, operational checks, debit, credit, audit and velocity records, outbox task,
  idempotency record), and what happens after it commits or aborts. Structured logging is
  not modelled; the audit events that the transaction stores are.
\<close>

subsection \<open>Messages\<close>

datatype resp_status = STATUS_UNSPECIFIED | SUCCESS | FAILED_INSUFFICIENT_FUNDS | REJECTED_DUPLICATE
  | INTERNAL_ERROR | FAILED_VELOCITY_LIMIT_EXCEEDED | INVALID_ARGUMENT

record TransferFundsRequest =
  tf_IdempotencyKey :: string
  tf_SourceWalletId :: string
  tf_DestinationWalletId :: string
  tf_Amount :: "Money option"
  tf_FxQuoteId :: string

record TransferFundsResponse =
  tr_TransactionId :: string
  tr_Status :: resp_status
  tr_ErrorMessage :: gomsg
  tr_HandledByRegion :: string
  tr_FxQuoteId :: string
  tr_ExchangeRate :: float64
  tr_ConvertedAmount :: "Money option"

text \<open>The amount of a request that passed validation.\<close>

definition zero_money :: Money where
  "zero_money = \<lparr>m_Currency = [], m_Units = 0, m_Nanos = 0, m_Scale = 0, m_CurrencyCode = []\<rparr>"

definition amount_of :: "TransferFundsRequest \<Rightarrow> Money" where
  "amount_of req = (case tf_Amount req of Some m \<Rightarrow> m | None \<Rightarrow> zero_money)"

definition zero_task :: LedgerTask where
  "zero_task =
     \<lparr>lt_ID = [], lt_TransactionID = [], lt_IdempotencyKey = [], lt_SourceWalletID = [],
      lt_DestinationWalletID = [], lt_Amount = 0, lt_Currency = [], lt_DestinationAmount = 0,
      lt_DestinationCurrency = [], lt_ExchangeRate = 0, lt_FXQuoteID = [], lt_Region = [],
      lt_Status = [], lt_CreatedAt = 0, lt_ProcessedAt = None, lt_Error = lit [], lt_Retries = 0\<rparr>"

definition zero_wallet :: WalletModel where
  "zero_wallet =
     \<lparr>w_ID = [], w_OwnerID = [], w_CreatedBy = [], w_Currency = [], w_Balance = 0, w_Balances = [],
      w_Status = [], w_KYCTier = [], w_Region = [], w_UpdatedAt = 0\<rparr>"

record transferExecutionState =
  x_finalTxnID :: string
  x_outboxTaskID :: string
  x_outboxTask :: LedgerTask
  x_txnStatus :: resp_status
  x_txnErrMsg :: gomsg
  x_sourceDebited :: bool
  x_destCurrency :: string
  x_destUnits :: int64
  x_exchangeRate :: float64
  x_fxQuoteID :: string
  x_isCrossCurrency :: bool
  x_srcWallet :: WalletModel
  x_dstWallet :: WalletModel

subsection \<open>Currency conversion\<close>

definition fallbackBaselineUSDRates :: "(string, float64) gomap" where
  "fallbackBaselineUSDRates =
    [(''USD'', 1), (''EUR'', fl (92 / 100)), (''GBP'', fl (79 / 100)), (''CAD'', fl (136 / 100)),
     (''AUD'', fl (152 / 100)), (''JPY'', 150), (''CHF'', fl (88 / 100)), (''SGD'', fl (134 / 100)),
     (''INR'', fl (835 / 10)), (''BHD'', fl (376 / 1000))]"

definition rate_or_0 :: "(string, float64) gomap \<Rightarrow> string \<Rightarrow> float64" where
  "rate_or_0 m c = (case map_of m c of Some r \<Rightarrow> r | None \<Rightarrow> 0)"

text \<open>The Go compiler folds the constant \<open>1.0 - 0.0025\<close> exactly, then rounds it.\<close>

definition computeFallbackFX :: "string \<Rightarrow> string \<Rightarrow> int64 \<Rightarrow> int64 \<times> float64 \<times> string" where
  "computeFallbackFX base target sourceUnits =
     (let base = NormalizeCurrency base; target = NormalizeCurrency target
      in if base = target then (sourceUnits, 1, [])
         else let bRate = rate_or_0 fallbackBaselineUSDRates base;
                  tRate = rate_or_0 fallbackBaselineUSDRates target
              in if bRate \<le> 0 \<or> tRate \<le> 0 then (sourceUnits, 1, [])
                 else let midRate = fdiv tRate bRate;
                          effectiveRate = fmul midRate (fl (9975 / 10000))
                      in (ConvertUnitsScaleBankers sourceUnits base target effectiveRate,
                          effectiveRate, ''fxq_local_fallback''))"

definition transfer_fx_request ::
    "TransferFundsRequest \<Rightarrow> transferExecutionState \<Rightarrow> string \<Rightarrow> string \<Rightarrow> ConvertCurrencyRequest" where
  "transfer_fx_request req x srcCurr dstCurr =
     \<lparr>cc_IdempotencyKey = ''wallet_fx_'' @ tf_IdempotencyKey req, cc_QuoteId = x_fxQuoteID x,
      cc_BaseCurrency = srcCurr, cc_TargetCurrency = dstCurr,
      cc_SourceAmount = m_Units (amount_of req), cc_ClientId = walletServiceName,
      cc_ReferenceId = x_finalTxnID x\<rparr>"

definition fallback_conversion ::
    "TransferFundsRequest \<Rightarrow> string \<Rightarrow> string \<Rightarrow> transferExecutionState \<Rightarrow> transferExecutionState" where
  "fallback_conversion req srcCurr dstCurr x =
     (case computeFallbackFX srcCurr dstCurr (m_Units (amount_of req)) of
        (targetUnits, effectiveRate, fallbackQuoteID) \<Rightarrow>
          x\<lparr>x_destUnits := targetUnits, x_exchangeRate := effectiveRate,
            x_fxQuoteID := (if x_fxQuoteID x = [] then fallbackQuoteID else x_fxQuoteID x)\<rparr>)"

definition prepareFXConversion ::
    "'l2 wallet_env \<Rightarrow> TransferFundsRequest \<Rightarrow> wallet_db \<Rightarrow> transferExecutionState
       \<Rightarrow> transferExecutionState \<times> gomsg option" where
  "prepareFXConversion E req db x =
     (let amt = amount_of req;
          srcCurr = NormalizeCurrency (m_Currency amt);
          x = x\<lparr>x_destCurrency := srcCurr, x_destUnits := m_Units amt, x_exchangeRate := 1,
                x_fxQuoteID := TrimSpace (tf_FxQuoteId req)\<rparr>
      in if \<not> s_mongoClient (e_srv E) then (x, None)
         else case FindOne (k_wallets (e_drv E)) (\<lambda>w. w_ID w = tf_DestinationWalletId req) None (d_wallets db) of
                Inl err \<Rightarrow> (x, None)
              | Inr dstWallet \<Rightarrow>
                  (let dstCurr = NormalizeCurrency (w_Currency dstWallet)
                   in if srcCurr = dstCurr \<and> x_fxQuoteID x = [] then (x, None)
                      else case s_fxClient (e_srv E) of
                             None \<Rightarrow> (x, None)
                           | Some ConvertCurrency \<Rightarrow>
                               (let x = x\<lparr>x_isCrossCurrency := (srcCurr \<noteq> dstCurr), x_destCurrency := dstCurr\<rparr>
                                in case ConvertCurrency (transfer_fx_request req x srcCurr dstCurr) of
                                     Inr (Some convResp) \<Rightarrow>
                                       (x\<lparr>x_destUnits := cr_TargetAmount convResp,
                                          x_exchangeRate := cr_EffectiveRate convResp,
                                          x_fxQuoteID := cr_QuoteId convResp\<rparr>, None)
                                   | Inr None \<Rightarrow> (fallback_conversion req srcCurr dstCurr x, None)
                                   | Inl err \<Rightarrow>
                                       if x_fxQuoteID x \<noteq> []
                                       then (x\<lparr>x_txnStatus := INTERNAL_ERROR,
                                               x_txnErrMsg := Msg ''FX quote validation failed: %v'' [ArgE err]\<rparr>,
                                             Some err)
                                       else (fallback_conversion req srcCurr dstCurr x, None))))"

subsection \<open>Validation\<close>

definition refused :: "server \<Rightarrow> gomsg \<Rightarrow> TransferFundsResponse" where
  "refused s m = \<lparr>tr_TransactionId = [], tr_Status = INTERNAL_ERROR, tr_ErrorMessage = m,
                  tr_HandledByRegion = s_region s, tr_FxQuoteId = [], tr_ExchangeRate = 0,
                  tr_ConvertedAmount = None\<rparr>"

definition fraud_signals ::
    "'l2 wallet_env \<Rightarrow> TransferFundsRequest \<Rightarrow> wallet_db \<Rightarrow> FraudSignals" where
  "fraud_signals E req db =
     \<lparr>fs_SourceWalletID = tf_SourceWalletId req,
      fs_DestinationWalletID = tf_DestinationWalletId req,
      fs_AmountUnits = m_Units (amount_of req),
      fs_Currency = m_Currency (amount_of req),
      fs_Region = s_region (e_srv E),
      fs_Timestamp = e_now E,
      fs_RecentTxnCount =
        (case GetWalletVelocityUsage E (tf_SourceWalletId req) (d_velocity db) of
           Inr (_, hourly) \<Rightarrow> hourly | Inl err \<Rightarrow> 0),
      fs_IsNewWalletPair =
        (s_mongoClient (e_srv E)
         \<and> (case CountDocuments (k_velocity (e_drv E))
                   (\<lambda>v. v_WalletID v = tf_SourceWalletId req \<and> v_DestWalletID v = tf_DestinationWalletId req)
                   (d_velocity db) of
              Inr pairCount \<Rightarrow> pairCount = 0 | Inl err \<Rightarrow> False)),
      fs_IsRoundNumber = (m_Units (amount_of req) mod 10000 = 0),
      fs_CrossRegion =
        (s_mongoClient (e_srv E)
         \<and> (case FindOne (k_wallets (e_drv E)) (\<lambda>w. w_ID w = tf_DestinationWalletId req) None (d_wallets db) of
              Inr destWallet \<Rightarrow> w_Region destWallet \<noteq> [] \<and> s_region (e_srv E) \<noteq> []
                                 \<and> w_Region destWallet \<noteq> s_region (e_srv E)
            | Inl err \<Rightarrow> False))\<rparr>"

definition fraud_check ::
    "'l2 wallet_env \<Rightarrow> TransferFundsRequest \<Rightarrow> wallet_db \<Rightarrow> TransferFundsResponse grpc" where
  "fraud_check E req db =
     (case s_fraudDetector (e_srv E) of
        None \<Rightarrow> (None, None)
      | Some Score \<Rightarrow>
          (let decision = Score (fraud_signals E req db)
           in if fd_Decision decision = ''BLOCK''
              then (Some (refused (e_srv E) (Msg ''Transfer blocked: %s'' [ArgS (fd_Reason decision)])),
                    Some (StatusErr PermissionDenied
                            (Msg ''blocked by fraud detection: %s'' [ArgS (fd_Reason decision)])))
              else (None, None)))"

text \<open>A response or an error ends the request; \<open>(None, None)\<close> lets it through.\<close>

definition validateTransferRequest ::
    "'l2 wallet_env \<Rightarrow> TransferFundsRequest option \<Rightarrow> wallet_db \<Rightarrow> TransferFundsResponse grpc" where
  "validateTransferRequest E r db =
     (case r of
        None \<Rightarrow> (None, Some (StatusErr InvalidArgument (lit ''transfer request is required'')))
      | Some req \<Rightarrow>
          if tf_IdempotencyKey req = [] \<or> tf_SourceWalletId req = [] \<or> tf_DestinationWalletId req = []
             \<or> tf_Amount req = None
          then (None, Some (StatusErr InvalidArgument
                 (lit ''idempotency_key, source_wallet_id, destination_wallet_id, and amount are required'')))
          else let amt = amount_of req;
                   cur = (if m_Currency amt = [] then m_CurrencyCode amt else m_Currency amt)
               in case ValidateMoney cur (m_Units amt) (m_Nanos amt) (m_Scale amt) of
                    Some err \<Rightarrow> (None, Some (StatusErr InvalidArgument (Msg ''%v'' [ArgE err])))
                  | None \<Rightarrow>
                      if tf_SourceWalletId req = tf_DestinationWalletId req
                      then (Some (refused (e_srv E) (lit ''source and destination wallets cannot be identical'')),
                            None)
                      else if \<not> isWritable (e_srv E)
                      then (Some (refused (e_srv E) (errStandbyReplicaFmt (e_srv E))),
                            Some (StatusErr FailedPrecondition (errStandbyReplicaFmt (e_srv E))))
                      else fraud_check E req db)"

subsection \<open>The transaction\<close>

definition checkIdempotentTransfer ::
    "'l2 wallet_env \<Rightarrow> TransferFundsRequest \<Rightarrow> wallet_db \<Rightarrow> transferExecutionState
       \<Rightarrow> transferExecutionState \<times> bool" where
  "checkIdempotentTransfer E req db x =
     (case FindOne (k_idempotency (e_drv E)) (\<lambda>i. i_ID i = tf_IdempotencyKey req) None (d_idempotency db) of
        Inr existingIdemp \<Rightarrow>
          (x\<lparr>x_finalTxnID := i_TransactionID existingIdemp, x_txnStatus := REJECTED_DUPLICATE,
             x_txnErrMsg := lit ''Transaction already processed''\<rparr>, True)
      | Inl err \<Rightarrow> (x, False))"

definition fail_with :: "resp_status \<Rightarrow> gomsg \<Rightarrow> transferExecutionState \<Rightarrow> transferExecutionState" where
  "fail_with st m x = x\<lparr>x_txnStatus := st, x_txnErrMsg := m\<rparr>"

definition load_destination ::
    "'l2 wallet_env \<Rightarrow> TransferFundsRequest \<Rightarrow> wallet_db \<Rightarrow> transferExecutionState
       \<Rightarrow> transferExecutionState \<times> txn_error option" where
  "load_destination E req db x =
     (case FindOne (k_wallets (e_drv E)) (\<lambda>w. w_ID w = tf_DestinationWalletId req) None (d_wallets db) of
        Inl ErrNoDocuments \<Rightarrow>
          (fail_with INTERNAL_ERROR (Msg ''Destination wallet %s not found'' [ArgS (tf_DestinationWalletId req)]) x,
           Some (AppErr (lit ''destination wallet not found'')))
      | Inl err \<Rightarrow> (x, Some (DriverErr (err_msg err)))
      | Inr dstWallet \<Rightarrow>
          (let x = x\<lparr>x_dstWallet := dstWallet\<rparr>
           in case checkWalletStatus dstWallet ''destination'' of
                Some (msg, err) \<Rightarrow> (fail_with INTERNAL_ERROR msg x, Some (AppErr err))
              | None \<Rightarrow> (x, None)))"

definition validateWalletsOperational ::
    "'l2 wallet_env \<Rightarrow> TransferFundsRequest \<Rightarrow> wallet_db \<Rightarrow> transferExecutionState
       \<Rightarrow> transferExecutionState \<times> txn_error option" where
  "validateWalletsOperational E req db x =
     (case FindOne (k_wallets (e_drv E)) (\<lambda>w. w_ID w = tf_SourceWalletId req) None (d_wallets db) of
        Inl ErrNoDocuments \<Rightarrow>
          (fail_with FAILED_INSUFFICIENT_FUNDS (Msg ''Source wallet %s not found'' [ArgS (tf_SourceWalletId req)]) x,
           Some (AppErr (lit ''source wallet not found'')))
      | Inl err \<Rightarrow> (x, Some (DriverErr (err_msg err)))
      | Inr srcWallet \<Rightarrow>
          (let x = x\<lparr>x_srcWallet := srcWallet\<rparr>
           in case checkWalletStatus srcWallet ''source'' of
                Some (msg, err) \<Rightarrow> (fail_with INTERNAL_ERROR msg x, Some (AppErr err))
              | None \<Rightarrow>
                  (case CheckVelocityLimits E srcWallet (m_Units (amount_of req)) (m_Currency (amount_of req))
                          (d_velocity db) of
                     Some err \<Rightarrow> (fail_with FAILED_VELOCITY_LIMIT_EXCEEDED err x, Some (AppErr err))
                   | None \<Rightarrow> load_destination E req db x)))"

definition audit_event ::
    "'l2 wallet_env \<Rightarrow> nat \<Rightarrow> Correlation \<Rightarrow> string \<Rightarrow> string \<Rightarrow> string \<Rightarrow> (string \<times> attr_value) list \<Rightarrow> Event" where
  "audit_event E k correlation txnID eventType message attrs =
     \<lparr>ev_SchemaVersion = 1, ev_EventID = e_assoc E k, ev_OccurredAt = e_now E,
      ev_Service = walletServiceName, ev_InstanceID = [], ev_Environment = e_environment E,
      ev_Region = s_region (e_srv E), ev_Level = ''AUDIT'', ev_EventType = eventType,
      ev_Message = message, ev_AssociationID = co_AssociationID correlation,
      ev_TransactionID = txnID, ev_IdempotencyKey = co_IdempotencyKey correlation,
      ev_ParentEventID = [], ev_DurationMS = 0, ev_Success = None,
      ev_Attributes = RedactAttributes attrs\<rparr>"

text \<open>Appending an audit event to the outbox collection, where the outbox is enabled.\<close>

definition append_audit ::
    "'l2 wallet_env \<Rightarrow> nat \<Rightarrow> string \<Rightarrow> Event \<Rightarrow> wallet_db \<Rightarrow> wallet_db \<times> txn_error option" where
  "append_audit E k what event db =
     (if \<not> s_outbox (e_srv E) then (db, None)
      else case Outbox_Append (k_outbox (e_drv E)) (e_oid E k) (e_now E) event (d_outbox db) of
             (es, None) \<Rightarrow> (db\<lparr>d_outbox := es\<rparr>, None)
           | (es, Some err) \<Rightarrow> (db\<lparr>d_outbox := es\<rparr>, Some (DriverErr (Msg what [ArgE (err_msg err)]))))"

definition refetch ::
    "'l2 wallet_env \<Rightarrow> string \<Rightarrow> wallet_db \<Rightarrow> WalletModel \<Rightarrow> WalletModel" where
  "refetch E walletID db w =
     (if w_Currency w = []
      then (case FindOne (k_wallets (e_drv E)) (\<lambda>d. w_ID d = walletID) None (d_wallets db) of
              Inr d \<Rightarrow> d | Inl err \<Rightarrow> w)
      else w)"

definition debit_source ::
    "'l2 wallet_env \<Rightarrow> TransferFundsRequest \<Rightarrow> Correlation \<Rightarrow> wallet_db \<Rightarrow> transferExecutionState
       \<Rightarrow> wallet_db \<times> transferExecutionState \<times> txn_error option" where
  "debit_source E req correlation db x =
     (let units = m_Units (amount_of req);
          srcCurr = NormalizeCurrency (m_Currency (amount_of req))
      in case UpdateOne (k_wallets (e_drv E)) (debit_filter (tf_SourceWalletId req) srcCurr units)
                (inc_wallet [(srcCurr, - units)]
                   (if srcCurr = w_Currency (x_srcWallet x) then Some (- units) else None) (e_now E))
                (d_wallets db) of
           (ws, Inl err) \<Rightarrow> (db\<lparr>d_wallets := ws\<rparr>, x, Some (DriverErr (err_msg err)))
         | (ws, Inr resSource) \<Rightarrow>
             if ModifiedCount resSource = 0
             then (db\<lparr>d_wallets := ws\<rparr>,
                   fail_with FAILED_INSUFFICIENT_FUNDS (lit ''Insufficient funds or source wallet not found'') x,
                   Some (AppErr (lit ''insufficient funds'')))
             else (let x = x\<lparr>x_sourceDebited := True\<rparr>
                   in case append_audit E 2 ''outbox append (source_debited) failed: %w''
                             (audit_event E 0 correlation (x_finalTxnID x)
                                ''wallet.transfer.source_debited'' ''Source wallet debited''
                                [(''source_wallet'', AttrS (tf_SourceWalletId req)), (''debit_amount'', AttrD units),
                                 (''currency'', AttrS (m_Currency (amount_of req)))])
                             (db\<lparr>d_wallets := ws\<rparr>) of
                        (db, err) \<Rightarrow> (db, x, err)))"

definition credit_currency :: "TransferFundsRequest \<Rightarrow> transferExecutionState \<Rightarrow> string" where
  "credit_currency req x =
     (if x_destCurrency x = [] then m_Currency (amount_of req) else x_destCurrency x)"

definition credit_units :: "TransferFundsRequest \<Rightarrow> transferExecutionState \<Rightarrow> int64" where
  "credit_units req x = (if x_destUnits x \<le> 0 then m_Units (amount_of req) else x_destUnits x)"

definition record_transfer_velocity :: "'l2 wallet_env \<Rightarrow> TransferFundsRequest \<Rightarrow> wallet_db \<Rightarrow> wallet_db" where
  "record_transfer_velocity E req db =
     fst (RecordVelocityUsageWithDest E (e_oid E 4) (tf_SourceWalletId req) (tf_DestinationWalletId req)
            (m_Units (amount_of req)) (m_Currency (amount_of req)) ''TRANSFER'' db)"

definition credit_destination ::
    "'l2 wallet_env \<Rightarrow> TransferFundsRequest \<Rightarrow> Correlation \<Rightarrow> wallet_db \<Rightarrow> transferExecutionState
       \<Rightarrow> wallet_db \<times> transferExecutionState \<times> txn_error option" where
  "credit_destination E req correlation db x =
     (let destCurrency = credit_currency req x;
          destUnits = credit_units req x;
          dstCurr = NormalizeCurrency destCurrency
      in if dstCurr \<noteq> w_Currency (x_dstWallet x) \<and> \<not> x_isCrossCurrency x
            \<and> getz (w_Balances (x_dstWallet x)) dstCurr \<le> 0
         then (db, fail_with INTERNAL_ERROR (lit ''Destination wallet not found or currency mismatch'') x,
               Some (AppErr (lit ''currency mismatch'')))
         else case UpdateOne (k_wallets (e_drv E)) (\<lambda>w. w_ID w = tf_DestinationWalletId req)
                     (inc_wallet [(dstCurr, destUnits)]
                        (if dstCurr = w_Currency (x_dstWallet x) then Some destUnits else None) (e_now E))
                     (d_wallets db) of
                (ws, Inl err) \<Rightarrow> (db\<lparr>d_wallets := ws\<rparr>, x, Some (DriverErr (err_msg err)))
              | (ws, Inr resDest) \<Rightarrow>
                  if ModifiedCount resDest = 0
                  then (db\<lparr>d_wallets := ws\<rparr>,
                        fail_with INTERNAL_ERROR (lit ''Destination wallet not found or currency mismatch'') x,
                        Some (AppErr (lit ''destination wallet not found'')))
                  else case append_audit E 3 ''outbox append (destination_credited) failed: %w''
                              (audit_event E 1 correlation (x_finalTxnID x)
                                 ''wallet.transfer.destination_credited'' ''Destination wallet credited''
                                 [(''dest_wallet'', AttrS (tf_DestinationWalletId req)),
                                  (''credit_amount'', AttrD destUnits), (''currency'', AttrS destCurrency),
                                  (''exchange_rate'', AttrF (x_exchangeRate x)),
                                  (''fx_quote_id'', AttrS (x_fxQuoteID x))])
                              (db\<lparr>d_wallets := ws\<rparr>) of
                         (db, Some err) \<Rightarrow> (db, x, Some err)
                       | (db, None) \<Rightarrow> (record_transfer_velocity E req db, x, None))"

definition executeDebitAndCredit ::
    "'l2 wallet_env \<Rightarrow> TransferFundsRequest \<Rightarrow> Correlation \<Rightarrow> wallet_db \<Rightarrow> transferExecutionState
       \<Rightarrow> wallet_db \<times> transferExecutionState \<times> txn_error option" where
  "executeDebitAndCredit E req correlation db x =
     (let x = x\<lparr>x_srcWallet := refetch E (tf_SourceWalletId req) db (x_srcWallet x)\<rparr>;
          x = x\<lparr>x_dstWallet := refetch E (tf_DestinationWalletId req) db (x_dstWallet x)\<rparr>
      in case debit_source E req correlation db x of
           (db, x, Some err) \<Rightarrow> (db, x, Some err)
         | (db, x, None) \<Rightarrow> credit_destination E req correlation db x)"

definition transfer_task ::
    "'l2 wallet_env \<Rightarrow> TransferFundsRequest \<Rightarrow> transferExecutionState \<Rightarrow> LedgerTask" where
  "transfer_task E req x =
     \<lparr>lt_ID = x_outboxTaskID x, lt_TransactionID = x_finalTxnID x,
      lt_IdempotencyKey = tf_IdempotencyKey req, lt_SourceWalletID = tf_SourceWalletId req,
      lt_DestinationWalletID = tf_DestinationWalletId req, lt_Amount = m_Units (amount_of req),
      lt_Currency = m_Currency (amount_of req), lt_DestinationAmount = credit_units req x,
      lt_DestinationCurrency = credit_currency req x, lt_ExchangeRate = x_exchangeRate x,
      lt_FXQuoteID = x_fxQuoteID x, lt_Region = s_region (e_srv E),
      lt_Status = LedgerTaskStatusPending, lt_CreatedAt = e_now E, lt_ProcessedAt = None,
      lt_Error = lit [], lt_Retries = 0\<rparr>"

text \<open>The last two writes of every money-moving transaction: the outbox task and the key.\<close>

definition store_task_and_key ::
    "'l2 wallet_env \<Rightarrow> string \<Rightarrow> LedgerTask \<Rightarrow> string \<Rightarrow> string \<Rightarrow> wallet_db \<Rightarrow> wallet_db \<times> txn_error option" where
  "store_task_and_key E fmt task key txnID db =
     (case AppendLedgerTask (k_tasks (e_drv E)) task (d_tasks db) of
        (ts, Some err) \<Rightarrow> (db\<lparr>d_tasks := ts\<rparr>, Some (DriverErr (Msg fmt [ArgE (err_msg err)])))
      | (ts, None) \<Rightarrow>
          (case InsertOne (k_idempotency (e_drv E))
                  \<lparr>i_ID = key, i_TransactionID = txnID, i_CreatedAt = e_now E\<rparr> (d_idempotency db) of
             (is, Some err) \<Rightarrow> (db\<lparr>d_tasks := ts, d_idempotency := is\<rparr>, Some (DriverErr (err_msg err)))
           | (is, None) \<Rightarrow> (db\<lparr>d_tasks := ts, d_idempotency := is\<rparr>, None)))"

definition executeTransferTransaction ::
    "'l2 wallet_env \<Rightarrow> TransferFundsRequest \<Rightarrow> Correlation \<Rightarrow> (wallet_db, transferExecutionState) txn_body" where
  "executeTransferTransaction E req correlation db x =
     (case checkIdempotentTransfer E req db x of
        (x, True) \<Rightarrow> (db, x, None)
      | (x, False) \<Rightarrow>
          (case validateWalletsOperational E req db x of
             (x, Some err) \<Rightarrow> (db, x, Some err)
           | (x, None) \<Rightarrow>
               (case executeDebitAndCredit E req correlation db x of
                  (db, x, Some err) \<Rightarrow> (db, x, Some err)
                | (db, x, None) \<Rightarrow>
                    (let x = x\<lparr>x_outboxTask := transfer_task E req x\<rparr>
                     in case store_task_and_key E ''failed to append ledger outbox task: %w'' (x_outboxTask x)
                               (tf_IdempotencyKey req) (x_finalTxnID x) db of
                          (db, err) \<Rightarrow> (db, x, err)))))"

subsection \<open>After the transaction\<close>

definition handleTransferFailure ::
    "server \<Rightarrow> transferExecutionState \<Rightarrow> gomsg \<Rightarrow> TransferFundsResponse" where
  "handleTransferFailure s x err =
     (let x = (if x_txnStatus x = SUCCESS then fail_with INTERNAL_ERROR err x else x)
      in \<lparr>tr_TransactionId = x_finalTxnID x, tr_Status = x_txnStatus x, tr_ErrorMessage = x_txnErrMsg x,
          tr_HandledByRegion = s_region s, tr_FxQuoteId = [], tr_ExchangeRate = 0,
          tr_ConvertedAmount = None\<rparr>)"

definition dispatch_now :: "'l2 wallet_env \<Rightarrow> LedgerTask \<Rightarrow> 'l2 wallet_state \<Rightarrow> 'l2 wallet_state" where
  "dispatch_now E task st =
     (case s_ledgerRelay (e_srv E) of
        None \<Rightarrow> st
      | Some client \<Rightarrow>
          st\<lparr>st_db := (st_db st)\<lparr>d_tasks :=
               fst (DispatchImmediate (Some (mongoLedgerTaskStore (Some (k_tasks (e_drv E))))) client
                      (e_now E) task (d_tasks (st_db st)))\<rparr>\<rparr>)"

definition handleTransferSuccess ::
    "'l2 wallet_env \<Rightarrow> TransferFundsRequest \<Rightarrow> transferExecutionState \<Rightarrow> 'l2 wallet_state \<Rightarrow> 'l2 wallet_state" where
  "handleTransferSuccess E req x st =
     (if x_txnStatus x = SUCCESS
      then invalidate_cache E [tf_SourceWalletId req, tf_DestinationWalletId req]
             (dispatch_now E (x_outboxTask x) st)
      else st)"

definition transfer_response :: "server \<Rightarrow> transferExecutionState \<Rightarrow> TransferFundsResponse" where
  "transfer_response s x =
     \<lparr>tr_TransactionId = x_finalTxnID x, tr_Status = x_txnStatus x, tr_ErrorMessage = lit [],
      tr_HandledByRegion = s_region s, tr_FxQuoteId = x_fxQuoteID x, tr_ExchangeRate = x_exchangeRate x,
      tr_ConvertedAmount =
        (if x_destCurrency x \<noteq> [] \<and> 0 < x_destUnits x
         then Some (mk_money (x_destCurrency x) (x_destUnits x)) else None)\<rparr>"

definition initial_state :: "'l2 wallet_env \<Rightarrow> transferExecutionState" where
  "initial_state E =
     \<lparr>x_finalTxnID = e_oid E 0, x_outboxTaskID = e_oid E 1, x_outboxTask = zero_task,
      x_txnStatus = SUCCESS, x_txnErrMsg = lit [], x_sourceDebited = False, x_destCurrency = [],
      x_destUnits = 0, x_exchangeRate = 0, x_fxQuoteID = [], x_isCrossCurrency = False,
      x_srcWallet = zero_wallet, x_dstWallet = zero_wallet\<rparr>"

definition transfer_correlation :: "'l2 wallet_env \<Rightarrow> metadata \<Rightarrow> TransferFundsRequest \<Rightarrow> Correlation" where
  "transfer_correlation E ctx req =
     (let c = FromIncomingContext (e_assoc E 9) ctx
      in if co_IdempotencyKey c = [] then c\<lparr>co_IdempotencyKey := tf_IdempotencyKey req\<rparr> else c)"

text \<open>The part of the handler from \<open>StartSession\<close> on.\<close>

definition run_transfer ::
    "'l2 wallet_env \<Rightarrow> (wallet_db, transferExecutionState) txn_runner \<Rightarrow> metadata \<Rightarrow> TransferFundsRequest
       \<Rightarrow> transferExecutionState \<Rightarrow> 'l2 wallet_state \<Rightarrow> 'l2 wallet_state \<times> TransferFundsResponse grpc" where
  "run_transfer E WT ctx req x st =
     (if \<not> s_mongoClient (e_srv E) then (st, None, Some NilDereference)
      else case e_session E of
             Some err \<Rightarrow> (st, None, Some (StatusErr Internal (Msg ''failed to start mongo session: %v'' [ArgE err])))
           | None \<Rightarrow>
               (case WT (executeTransferTransaction E req (transfer_correlation E ctx req)) (st_db st) x of
                  (db, x, Some err) \<Rightarrow>
                    (st\<lparr>st_db := db\<rparr>, Some (handleTransferFailure (e_srv E) x (txn_msg err)), None)
                | (db, x, None) \<Rightarrow>
                    (handleTransferSuccess E req x (st\<lparr>st_db := db\<rparr>),
                     Some (transfer_response (e_srv E) x), None)))"

definition TransferFunds ::
    "'l2 wallet_env \<Rightarrow> (wallet_db, transferExecutionState) txn_runner \<Rightarrow> metadata \<Rightarrow> TransferFundsRequest option
       \<Rightarrow> 'l2 wallet_state \<Rightarrow> 'l2 wallet_state \<times> TransferFundsResponse grpc" where
  "TransferFunds E WT ctx r st =
     (case (r, validateTransferRequest E r (st_db st)) of
        (Some req, (None, None)) \<Rightarrow>
          (case verifyWalletAccessByWalletID (e_srv E) (k_wallets (e_drv E)) ctx (tf_SourceWalletId req)
                  (d_wallets (st_db st)) of
             Some err \<Rightarrow> (st, None, Some err)
           | None \<Rightarrow>
               (case prepareFXConversion E req (st_db st) (initial_state E) of
                  (x, Some fxErr) \<Rightarrow> (st, Some (handleTransferFailure (e_srv E) x fxErr), None)
                | (x, None) \<Rightarrow> run_transfer E WT ctx req x st))
      | (_, resp) \<Rightarrow> (st, resp))"

subsection \<open>The database of the wallet service\<close>

definition wallet_conflict :: "WalletModel \<Rightarrow> WalletModel \<Rightarrow> bool" where
  "wallet_conflict a b \<longleftrightarrow> w_ID a = w_ID b"

definition idempotency_conflict :: "IdempotencyRecord \<Rightarrow> IdempotencyRecord \<Rightarrow> bool" where
  "idempotency_conflict a b \<longleftrightarrow> i_ID a = i_ID b"

definition outbox_conflict :: "OutboxEntry \<Rightarrow> OutboxEntry \<Rightarrow> bool" where
  "outbox_conflict a b \<longleftrightarrow> oe_ID a = oe_ID b \<or> ev_EventID (oe_Event a) = ev_EventID (oe_Event b)"

definition mem_driver :: wallet_driver where
  "mem_driver =
     \<lparr>k_wallets = mem_ops wallet_conflict, k_idempotency = mem_ops idempotency_conflict,
      k_tasks = mem_ops task_conflict, k_velocity = mem_ops velocity_conflict,
      k_outbox = mem_ops outbox_conflict\<rparr>"

locale wallet_store =
  wallets: collection "k_wallets drv" wallet_conflict +
  keys: collection "k_idempotency drv" idempotency_conflict +
  queue: collection "k_tasks drv" task_conflict +
  velocity: collection "k_velocity drv" velocity_conflict +
  outbox: collection "k_outbox drv" outbox_conflict
  for drv :: wallet_driver

interpretation mem_store: wallet_store mem_driver
  unfolding wallet_store_def mem_driver_def by (simp add: mem.collection_axioms)

subsection \<open>What a committed transfer is\<close>

text \<open>
  \<open>moved\<close> says of two wallet lists that one wallet was debited and another one credited,
  both operational, the debit covered, and nothing else touched.
\<close>

definition operational :: "WalletModel \<Rightarrow> bool" where
  "operational w \<longleftrightarrow> EffectiveStatus w \<noteq> WalletStatusFrozen \<and> EffectiveStatus w \<noteq> WalletStatusClosed"

definition moved ::
    "int \<Rightarrow> string \<Rightarrow> string \<Rightarrow> int64 \<Rightarrow> string \<Rightarrow> string \<Rightarrow> int64 \<Rightarrow> WalletModel list \<Rightarrow> WalletModel list \<Rightarrow> bool" where
  "moved now src scur units dst dcur dunits ws ws' \<longleftrightarrow>
     (\<exists>i j a b. i < length ws \<and> j < length ws \<and> i \<noteq> j
        \<and> w_ID (ws ! i) = src \<and> w_ID (ws ! j) = dst
        \<and> operational (ws ! i) \<and> operational (ws ! j)
        \<and> debit_filter src scur units (ws ! i)
        \<and> inc_wallet [(scur, - units)] (if scur = w_Currency (ws ! i) then Some (- units) else None) now (ws ! i) = Some a
        \<and> inc_wallet [(dcur, dunits)] (if dcur = w_Currency (ws ! j) then Some dunits else None) now (ws ! j) = Some b
        \<and> ws' = ws[i := a, j := b])"

lemma moved_wallets_ok:
  assumes "moved now src scur units dst dcur dunits ws ws'" and "wallets_ok ws"
    and "0 \<le> units" and "0 \<le> dunits"
  shows "wallets_ok ws'"
proof -
  from assms(1) obtain i j a b where m: "i < length ws" "j < length ws" "i \<noteq> j"
    "debit_filter src scur units (ws ! i)"
    "inc_wallet [(scur, - units)] (if scur = w_Currency (ws ! i) then Some (- units) else None) now (ws ! i) = Some a"
    "inc_wallet [(dcur, dunits)] (if dcur = w_Currency (ws ! j) then Some dunits else None) now (ws ! j) = Some b"
    "ws' = ws[i := a, j := b]" by (auto simp: moved_def)
  have ok: "wallet_ok (ws ! i)" "wallet_ok (ws ! j)"
    using assms(2) m by (auto simp: wallets_ok_def list_all_length)
  have nonneg: "0 \<le> getz (w_Balances w) c" if "wallet_ok w" for w c
    using that by (simp add: wallet_ok_iff)
  have "0 \<le> getz (w_Balances (ws ! i)) c + net_inc [(scur, - units)] c" for c
    using debit_filter_covered [OF ok(1) m(4)] nonneg [OF ok(1), of c] by auto
  from inc_wallet_ok [OF ok(1) m(5) _ this] have a: "wallet_ok a" by simp
  have "0 \<le> getz (w_Balances (ws ! j)) c + net_inc [(dcur, dunits)] c" for c
    using nonneg [OF ok(2), of c] assms(4) by auto
  from inc_wallet_ok [OF ok(2) m(6) _ this] have b: "wallet_ok b" by simp
  have "wallets_ok (ws[i := a])"
    using wallets_ok_update [OF assms(2) m(1) a] inc_wallet_Some(3) [OF m(5)] by simp
  then show ?thesis
    using wallets_ok_update [of "ws[i := a]" j b] b m inc_wallet_Some(3) [OF m(6)] by simp
qed

lemma moved_total:
  assumes "moved now src scur units dst dcur dunits ws ws'"
  shows "pot_total c ws' = pot_total c ws - (if c = scur then units else 0) + (if c = dcur then dunits else 0)"
proof -
  from assms obtain i j a b where m: "i < length ws" "j < length ws" "i \<noteq> j"
    "inc_wallet [(scur, - units)] (if scur = w_Currency (ws ! i) then Some (- units) else None) now (ws ! i) = Some a"
    "inc_wallet [(dcur, dunits)] (if dcur = w_Currency (ws ! j) then Some dunits else None) now (ws ! j) = Some b"
    "ws' = ws[i := a, j := b]" by (auto simp: moved_def)
  then have "pot_total c ws' = pot_total c ws - getz (w_Balances (ws ! i)) c + getz (w_Balances a) c
      - getz (w_Balances (ws ! j)) c + getz (w_Balances b) c"
    by (simp add: pot_total_update)
  then show ?thesis
    using inc_wallet_Some(1) [OF m(4), of c] inc_wallet_Some(1) [OF m(5), of c] by auto
qed

text \<open>Nobody but the two parties notices.\<close>

lemma moved_others:
  assumes "moved now src scur units dst dcur dunits ws ws'"
    and "w \<in> set ws" and "w_ID w \<noteq> src" and "w_ID w \<noteq> dst"
  shows "w \<in> set ws'"
proof -
  from assms(1) obtain i j a b where m: "w_ID (ws ! i) = src" "w_ID (ws ! j) = dst" "ws' = ws[i := a, j := b]"
    by (auto simp: moved_def)
  from assms(2) obtain k where "k < length ws" "ws ! k = w" by (auto simp: in_set_conv_nth)
  moreover from this have "k \<noteq> i" "k \<noteq> j" using m assms(3,4) by auto
  ultimately show ?thesis using m(3)
    by (metis length_list_update nth_list_update_neq nth_mem)
qed

end
