(* ===== verification/WalletOps.thy ===== *)
theory WalletOps
  imports TransferFlow
begin

text \<open>
  The remaining handlers of \<open>cmd/wallet-service/main.go\<close>: creating a wallet, reading its
  balance through the cache, exchanging between the pots of one wallet, deposits and
  withdrawals over the payment rails, and the administrative change of a wallet's status.

  The three money-moving handlers run the same transaction with different filters, updates
  and tasks; \<open>wallet_txn\<close> is that transaction.
\<close>

subsection \<open>Messages\<close>

record CreateWalletRequest =
  cw_WalletId :: string
  cw_Currency :: string
  cw_InitialBalance :: int64
  cw_KycTier :: string
  cw_OwnerId :: string
  cw_CreatedBy :: string

record CreateWalletResponse =
  cwr_Success :: bool
  cwr_Message :: gomsg
  cwr_HandledByRegion :: string

record ExchangeCurrencyRequest =
  xc_IdempotencyKey :: string
  xc_WalletId :: string
  xc_FromCurrency :: string
  xc_ToCurrency :: string
  xc_FromAmount :: int64
  xc_FxQuoteId :: string

record ExchangeCurrencyResponse =
  xr_TransactionId :: string
  xr_Status :: resp_status
  xr_ErrorMessage :: gomsg
  xr_HandledByRegion :: string
  xr_FxQuoteId :: string
  xr_ExchangeRate :: float64
  xr_DebitedAmount :: "Money option"
  xr_CreditedAmount :: "Money option"

datatype PaymentRail = PaymentRail_UNSPECIFIED | CARD | ACH | SEPA | WIRE

text \<open>Deposits and withdrawals have the same fields; \<open>fr_Reference\<close> is the reference of a
  deposit and the beneficiary of a withdrawal.\<close>

record FundsRequest =
  fr_IdempotencyKey :: string
  fr_WalletId :: string
  fr_Amount :: "Money option"
  fr_PaymentRail :: PaymentRail
  fr_Reference :: string

record FundsResponse =
  fp_TransactionId :: string
  fp_Status :: resp_status
  fp_ErrorMessage :: gomsg
  fp_HandledByRegion :: string
  fp_Amount :: "Money option"
  fp_PaymentRail :: PaymentRail
  fp_ExternalReference :: string

subsection \<open>Creating and reading\<close>

definition new_wallet_owner :: "callerContext \<Rightarrow> CreateWalletRequest \<Rightarrow> string" where
  "new_wallet_owner caller req =
     (let ownerID = TrimSpace (cw_OwnerId req)
      in if ownerID = []
         then (if c_UserID caller \<noteq> [] then c_UserID caller else extractOwnerFromWalletID (cw_WalletId req))
         else ownerID)"

definition new_wallet_creator :: "callerContext \<Rightarrow> CreateWalletRequest \<Rightarrow> string" where
  "new_wallet_creator caller req =
     (let createdBy = TrimSpace (cw_CreatedBy req)
      in if createdBy = []
         then (if c_UserID caller \<noteq> [] then c_UserID caller else new_wallet_owner caller req)
         else createdBy)"

definition CreateWallet ::
    "'l2 wallet_env \<Rightarrow> metadata \<Rightarrow> CreateWalletRequest option \<Rightarrow> 'l2 wallet_state
       \<Rightarrow> 'l2 wallet_state \<times> CreateWalletResponse grpc" where
  "CreateWallet E ctx r st =
     (case r of
        None \<Rightarrow> (st, None, Some (StatusErr InvalidArgument errWalletIDRequired))
      | Some req \<Rightarrow>
          if TrimSpace (cw_WalletId req) = []
          then (st, None, Some (StatusErr InvalidArgument errWalletIDRequired))
          else if \<not> IsValidCurrency (cw_Currency req)
          then (st, None, Some (StatusErr InvalidArgument
                 (Msg ''invalid or unsupported currency: %s'' [ArgS (cw_Currency req)])))
          else if cw_InitialBalance req < 0
          then (st, None, Some (StatusErr InvalidArgument
                 (Msg ''initial balance cannot be negative: %d'' [ArgD (cw_InitialBalance req)])))
          else if \<not> isWritable (e_srv E)
          then (st, None, Some (StatusErr FailedPrecondition (errStandbyReplicaFmt (e_srv E))))
          else if \<not> s_mongoClient (e_srv E) then (st, None, Some NilDereference)
          else let c0 = NormalizeCurrency (cw_Currency req);
                   cur = (if c0 = [] then ''USD'' else c0);
                   k0 = TrimSpace (cw_KycTier req);
                   kycTier = (if k0 = [] then KYCTier1 else k0);
                   caller = callerFromContext ctx
               in if map_of TierConfigs kycTier = None
                  then (st, None, Some (StatusErr InvalidArgument
                         (Msg ''invalid kyc_tier: %s (must be TIER_1, TIER_2, or TIER_3)'' [ArgS kycTier])))
                  else case InsertOne (k_wallets (e_drv E))
                              \<lparr>w_ID = cw_WalletId req, w_OwnerID = new_wallet_owner caller req,
                               w_CreatedBy = new_wallet_creator caller req, w_Currency = cur,
                               w_Balance = cw_InitialBalance req, w_Balances = [(cur, cw_InitialBalance req)],
                               w_Status = WalletStatusActive, w_KYCTier = kycTier, w_Region = [],
                               w_UpdatedAt = unix_second (e_now E)\<rparr> (d_wallets (st_db st)) of
                         (ws, Some err) \<Rightarrow>
                           (st\<lparr>st_db := (st_db st)\<lparr>d_wallets := ws\<rparr>\<rparr>, None,
                            Some (if IsDuplicateKeyError err
                                  then StatusErr AlreadyExists (Msg ''wallet %s already exists'' [ArgS (cw_WalletId req)])
                                  else StatusErr Internal (Msg ''failed to create wallet: %v'' [ArgE (err_msg err)])))
                       | (ws, None) \<Rightarrow>
                           (invalidate_cache E [cw_WalletId req] (st\<lparr>st_db := (st_db st)\<lparr>d_wallets := ws\<rparr>\<rparr>),
                            Some \<lparr>cwr_Success = True,
                                  cwr_Message = Msg ''Wallet %s created successfully'' [ArgS (cw_WalletId req)],
                                  cwr_HandledByRegion = s_region (e_srv E)\<rparr>, None))"

definition cached_balance ::
    "'l2 wallet_env \<Rightarrow> string \<Rightarrow> 'l2 wallet_state \<Rightarrow> 'l2 wallet_state \<times> GetBalanceResponse option" where
  "cached_balance E walletID st =
     (case st_cache st of
        None \<Rightarrow> (st, None)
      | Some c \<Rightarrow> (case BalanceCache_Get (e_l2 E) (e_now E) walletID c of
                      (c, hit) \<Rightarrow> (st\<lparr>st_cache := Some c\<rparr>, hit)))"

definition GetBalance ::
    "'l2 wallet_env \<Rightarrow> metadata \<Rightarrow> string option \<Rightarrow> 'l2 wallet_state \<Rightarrow> 'l2 wallet_state \<times> GetBalanceResponse grpc" where
  "GetBalance E ctx r st =
     (case r of
        None \<Rightarrow> (st, None, Some (StatusErr InvalidArgument errWalletIDRequired))
      | Some walletId \<Rightarrow>
          let walletID = TrimSpace walletId
          in if walletID = [] then (st, None, Some (StatusErr InvalidArgument errWalletIDRequired))
             else case verifyWalletAccessByWalletID (e_srv E) (k_wallets (e_drv E)) ctx walletID
                         (d_wallets (st_db st)) of
                    Some err \<Rightarrow> (st, None, Some err)
                  | None \<Rightarrow>
                      (case cached_balance E walletID st of
                         (st, Some cached) \<Rightarrow> (st, Some cached, None)
                       | (st, None) \<Rightarrow>
                           if \<not> s_mongoClient (e_srv E) then (st, None, Some NilDereference)
                           else case FindOne (k_wallets (e_drv E)) (\<lambda>w. w_ID w = walletID) None (d_wallets (st_db st)) of
                                  Inl ErrNoDocuments \<Rightarrow>
                                    (st, None, Some (StatusErr NotFound (Msg ''wallet %s not found'' [ArgS walletID])))
                                | Inl err \<Rightarrow>
                                    (st, None, Some (StatusErr Internal (Msg ''db error: %v'' [ArgE (err_msg err)])))
                                | Inr wallet \<Rightarrow>
                                    (let resp = \<lparr>gb_WalletId = walletID, gb_Balances = GetAllBalances wallet,
                                                 gb_HandledByRegion = s_region (e_srv E),
                                                 gb_Status = EffectiveStatus wallet\<rparr>
                                     in (st\<lparr>st_cache := map_option
                                              (BalanceCache_Set (e_l2 E) (e_now E) walletID resp) (st_cache st)\<rparr>,
                                         Some resp, None))))"

subsection \<open>The transaction of an exchange, a deposit or a withdrawal\<close>

definition wallet_txn ::
    "'l2 wallet_env \<Rightarrow> string \<Rightarrow> (WalletModel \<Rightarrow> bool) \<Rightarrow> (WalletModel \<Rightarrow> WalletModel option)
       \<Rightarrow> (UpdateResult \<Rightarrow> gomsg option) \<Rightarrow> LedgerTask \<Rightarrow> (wallet_db \<Rightarrow> wallet_db) \<Rightarrow> (wallet_db, string) txn_body" where
  "wallet_txn E idempKey filt upd refuse task record_usage db finalTxnID =
     (case FindOne (k_idempotency (e_drv E)) (\<lambda>i. i_ID i = idempKey) None (d_idempotency db) of
        Inr existingIdemp \<Rightarrow> (db, i_TransactionID existingIdemp, None)
      | Inl findErr \<Rightarrow>
          (case UpdateOne (k_wallets (e_drv E)) filt upd (d_wallets db) of
             (ws, Inl updateErr) \<Rightarrow> (db\<lparr>d_wallets := ws\<rparr>, finalTxnID, Some (DriverErr (err_msg updateErr)))
           | (ws, Inr res) \<Rightarrow>
               (case refuse res of
                  Some m \<Rightarrow> (db\<lparr>d_wallets := ws\<rparr>, finalTxnID, Some (AppErr m))
                | None \<Rightarrow>
                    (case store_task_and_key E ''failed to append ledger task: %w'' task idempKey finalTxnID
                            (db\<lparr>d_wallets := ws\<rparr>) of
                       (db, Some err) \<Rightarrow> (db, finalTxnID, Some err)
                     | (db, None) \<Rightarrow> (record_usage db, finalTxnID, None)))))"

definition not_modified :: "string \<Rightarrow> UpdateResult \<Rightarrow> gomsg option" where
  "not_modified cur res =
     (if ModifiedCount res = 0 then Some (Msg ''insufficient %s balance'' [ArgS cur]) else None)"

definition not_matched :: "string \<Rightarrow> UpdateResult \<Rightarrow> gomsg option" where
  "not_matched walletID res =
     (if MatchedCount res = 0 then Some (Msg ''wallet %s not found on deposit update'' [ArgS walletID]) else None)"

definition new_task ::
    "'l2 wallet_env \<Rightarrow> string \<Rightarrow> string \<Rightarrow> string \<Rightarrow> string \<Rightarrow> string \<Rightarrow> int64 \<Rightarrow> string \<Rightarrow> LedgerTask" where
  "new_task E oid txnID idempKey source destination amount cur =
     zero_task\<lparr>lt_ID := oid, lt_TransactionID := txnID, lt_IdempotencyKey := idempKey,
       lt_SourceWalletID := source, lt_DestinationWalletID := destination, lt_Amount := amount,
       lt_Currency := cur, lt_Region := s_region (e_srv E), lt_Status := LedgerTaskStatusPending,
       lt_CreatedAt := e_now E\<rparr>"

definition finish_op :: "'l2 wallet_env \<Rightarrow> LedgerTask \<Rightarrow> string \<Rightarrow> 'l2 wallet_state \<Rightarrow> 'l2 wallet_state" where
  "finish_op E task walletID st = invalidate_cache E [walletID] (dispatch_now E task st)"

text \<open>The wallet, if it exists and is operational: otherwise the answer of the handler.\<close>

definition operational_wallet ::
    "'l2 wallet_env \<Rightarrow> string \<Rightarrow> string \<Rightarrow> wallet_db \<Rightarrow> (goerr + resp_status \<times> gomsg) + WalletModel" where
  "operational_wallet E role walletID db =
     (case FindOne (k_wallets (e_drv E)) (\<lambda>w. w_ID w = walletID) None (d_wallets db) of
        Inl ErrNoDocuments \<Rightarrow>
          Inl (Inr (if role = ''deposit'' then INVALID_ARGUMENT else FAILED_INSUFFICIENT_FUNDS,
                    Msg ''wallet %s not found'' [ArgS walletID]))
      | Inl err \<Rightarrow> Inl (Inl (StatusErr Internal (Msg ''failed to fetch wallet: %v'' [ArgE (err_msg err)])))
      | Inr wallet \<Rightarrow>
          (case checkWalletStatus wallet role of
             Some (msg, err) \<Rightarrow> Inl (Inr (INTERNAL_ERROR, msg))
           | None \<Rightarrow> Inr wallet))"

text \<open>The further checks of an exchange or a withdrawal.\<close>

definition debitable_wallet ::
    "'l2 wallet_env \<Rightarrow> string \<Rightarrow> string \<Rightarrow> string \<Rightarrow> int64 \<Rightarrow> wallet_db \<Rightarrow> (goerr + resp_status \<times> gomsg) + WalletModel" where
  "debitable_wallet E role walletID cur amount db =
     (case operational_wallet E role walletID db of
        Inl e \<Rightarrow> Inl e
      | Inr wallet \<Rightarrow>
          if \<not> HasSufficientBalance wallet cur amount
          then Inl (Inr (FAILED_INSUFFICIENT_FUNDS,
                 Msg ''insufficient %s balance in wallet %s (available: %d)''
                   [ArgS cur, ArgS walletID, ArgD (WalletModel_GetBalance wallet cur)]))
          else case CheckVelocityLimits E wallet amount cur (d_velocity db) of
                 Some err \<Rightarrow> Inl (Inr (FAILED_VELOCITY_LIMIT_EXCEEDED, err))
               | None \<Rightarrow> Inr wallet)"

subsection \<open>Exchange\<close>

definition exchange_failed :: "server \<Rightarrow> string \<Rightarrow> resp_status \<Rightarrow> gomsg \<Rightarrow> ExchangeCurrencyResponse" where
  "exchange_failed s txnID st m =
     \<lparr>xr_TransactionId = txnID, xr_Status = st, xr_ErrorMessage = m, xr_HandledByRegion = s_region s,
      xr_FxQuoteId = [], xr_ExchangeRate = 0, xr_DebitedAmount = None, xr_CreditedAmount = None\<rparr>"

definition exchange_rate_for ::
    "'l2 wallet_env \<Rightarrow> string \<Rightarrow> string \<Rightarrow> string \<Rightarrow> int64 \<Rightarrow> string \<Rightarrow> string \<Rightarrow> int64 \<times> float64 \<times> string" where
  "exchange_rate_for E idempKey fromCurr toCurr fromAmount quoteID finalTxnID =
     (let conv = (case s_fxClient (e_srv E) of
                    None \<Rightarrow> None
                  | Some ConvertCurrency \<Rightarrow>
                      (case ConvertCurrency
                              \<lparr>cc_IdempotencyKey = ''wallet_exchange_'' @ idempKey, cc_QuoteId = quoteID,
                               cc_BaseCurrency = fromCurr, cc_TargetCurrency = toCurr,
                               cc_SourceAmount = fromAmount, cc_ClientId = walletServiceName,
                               cc_ReferenceId = finalTxnID\<rparr> of
                         Inr (Some convResp) \<Rightarrow> Some convResp | _ \<Rightarrow> None));
          (targetUnits, effectiveRate, q) =
            (case conv of None \<Rightarrow> (0, 0, quoteID)
             | Some c \<Rightarrow> (cr_TargetAmount c, cr_EffectiveRate c, cr_QuoteId c))
      in if targetUnits \<le> 0 then computeFallbackFX fromCurr toCurr fromAmount
         else (targetUnits, effectiveRate, q))"

definition exchange_increments ::
    "WalletModel \<Rightarrow> string \<Rightarrow> int64 \<Rightarrow> string \<Rightarrow> int64 \<Rightarrow> (string \<times> int64) list \<times> int64 option" where
  "exchange_increments wallet fromCurr fromAmount toCurr targetUnits =
     (let base = (if fromCurr = w_Currency wallet then Some (- fromAmount) else None)
      in ([(fromCurr, - fromAmount), (toCurr, targetUnits)],
          if toCurr = w_Currency wallet
          then (case base of Some b \<Rightarrow> Some (wrap64 (b + targetUnits)) | None \<Rightarrow> Some targetUnits)
          else base))"

definition exchange_task ::
    "'l2 wallet_env \<Rightarrow> string \<Rightarrow> string \<Rightarrow> string \<Rightarrow> int64 \<Rightarrow> string \<Rightarrow> int64 \<Rightarrow> float64 \<Rightarrow> string \<Rightarrow> LedgerTask" where
  "exchange_task E idempKey walletID fromCurr fromAmount toCurr targetUnits effectiveRate quoteID =
     (new_task E (e_oid E 1) (e_oid E 0) idempKey walletID walletID fromAmount fromCurr)
       \<lparr>lt_DestinationAmount := targetUnits, lt_DestinationCurrency := toCurr,
        lt_ExchangeRate := effectiveRate, lt_FXQuoteID := quoteID\<rparr>"

definition run_exchange ::
    "'l2 wallet_env \<Rightarrow> (wallet_db, string) txn_runner \<Rightarrow> string \<Rightarrow> WalletModel \<Rightarrow> string \<Rightarrow> string \<Rightarrow> string \<Rightarrow> int64
       \<Rightarrow> int64 \<Rightarrow> float64 \<Rightarrow> string \<Rightarrow> 'l2 wallet_state \<Rightarrow> 'l2 wallet_state \<times> ExchangeCurrencyResponse grpc" where
  "run_exchange E WT idempKey wallet walletID fromCurr toCurr fromAmount targetUnits effectiveRate quoteID st =
     (case e_session E of
        Some err \<Rightarrow> (st, None, Some (StatusErr Internal (Msg ''failed to start mongo session: %v'' [ArgE err])))
      | None \<Rightarrow>
          (let task = exchange_task E idempKey walletID fromCurr fromAmount toCurr targetUnits effectiveRate quoteID;
               (incs, base) = exchange_increments wallet fromCurr fromAmount toCurr targetUnits
           in case WT (wallet_txn E idempKey (debit_filter walletID fromCurr fromAmount)
                         (inc_wallet incs base (e_now E)) (not_modified fromCurr) task
                         (\<lambda>db. fst (RecordVelocityUsage E (e_oid E 2) walletID fromAmount fromCurr ''EXCHANGE'' db)))
                     (st_db st) (e_oid E 0) of
                (db, finalTxnID, Some err) \<Rightarrow>
                  (st\<lparr>st_db := db\<rparr>,
                   Some (exchange_failed (e_srv E) finalTxnID FAILED_INSUFFICIENT_FUNDS (txn_msg err)), None)
              | (db, finalTxnID, None) \<Rightarrow>
                  (finish_op E task walletID (st\<lparr>st_db := db\<rparr>),
                   Some \<lparr>xr_TransactionId = finalTxnID, xr_Status = SUCCESS, xr_ErrorMessage = lit [],
                         xr_HandledByRegion = s_region (e_srv E), xr_FxQuoteId = quoteID,
                         xr_ExchangeRate = effectiveRate,
                         xr_DebitedAmount = Some (mk_money fromCurr fromAmount),
                         xr_CreditedAmount = Some (mk_money toCurr targetUnits)\<rparr>, None)))"

definition validate_exchange ::
    "'l2 wallet_env \<Rightarrow> metadata \<Rightarrow> ExchangeCurrencyRequest option \<Rightarrow> wallet_db
       \<Rightarrow> goerr + (string \<times> string \<times> string \<times> string \<times> ExchangeCurrencyRequest)" where
  "validate_exchange E ctx r db =
     (case r of
        None \<Rightarrow> Inl (StatusErr InvalidArgument (lit ''request is required''))
      | Some req \<Rightarrow>
          let idempKey = TrimSpace (xc_IdempotencyKey req); walletID = TrimSpace (xc_WalletId req);
              fromCurr = NormalizeCurrency (xc_FromCurrency req); toCurr = NormalizeCurrency (xc_ToCurrency req);
              fromAmount = xc_FromAmount req
          in if idempKey = [] then Inl (StatusErr InvalidArgument (lit ''idempotency_key is required''))
             else if walletID = [] then Inl (StatusErr InvalidArgument errWalletIDRequired)
             else case verifyWalletAccessByWalletID (e_srv E) (k_wallets (e_drv E)) ctx walletID (d_wallets db) of
                    Some err \<Rightarrow> Inl err
                  | None \<Rightarrow>
                      if fromCurr = [] \<or> toCurr = []
                      then Inl (StatusErr InvalidArgument (lit ''from_currency and to_currency are required''))
                      else if fromCurr = toCurr
                      then Inl (StatusErr InvalidArgument (lit ''from_currency and to_currency must be different''))
                      else if fromAmount \<le> 0
                      then Inl (StatusErr InvalidArgument (lit ''from_amount must be strictly positive''))
                      else case ValidateAmount fromAmount fromCurr of
                             Some err \<Rightarrow> Inl (StatusErr InvalidArgument (Msg ''%v'' [ArgE err]))
                           | None \<Rightarrow>
                               if \<not> IsValidCurrency toCurr
                               then Inl (StatusErr InvalidArgument (Msg ''invalid target currency: %s'' [ArgS toCurr]))
                               else Inr (idempKey, walletID, fromCurr, toCurr, req))"

definition ExchangeCurrency ::
    "'l2 wallet_env \<Rightarrow> (wallet_db, string) txn_runner \<Rightarrow> metadata \<Rightarrow> ExchangeCurrencyRequest option
       \<Rightarrow> 'l2 wallet_state \<Rightarrow> 'l2 wallet_state \<times> ExchangeCurrencyResponse grpc" where
  "ExchangeCurrency E WT ctx r st =
     (case validate_exchange E ctx r (st_db st) of
        Inl err \<Rightarrow> (st, None, Some err)
      | Inr (idempKey, walletID, fromCurr, toCurr, req) \<Rightarrow>
          if \<not> isWritable (e_srv E)
          then (st, Some (exchange_failed (e_srv E) [] INVALID_ARGUMENT (errStandbyReplicaFmt (e_srv E))), None)
          else if \<not> s_mongoClient (e_srv E)
          then (st, None, Some (StatusErr Unavailable (lit ''database unavailable'')))
          else case debitable_wallet E ''exchange'' walletID fromCurr (xc_FromAmount req) (st_db st) of
                 Inl (Inl err) \<Rightarrow> (st, None, Some err)
               | Inl (Inr (status, m)) \<Rightarrow> (st, Some (exchange_failed (e_srv E) [] status m), None)
               | Inr wallet \<Rightarrow>
                   (case exchange_rate_for E idempKey fromCurr toCurr (xc_FromAmount req)
                           (TrimSpace (xc_FxQuoteId req)) (e_oid E 0) of
                      (targetUnits, effectiveRate, quoteID) \<Rightarrow>
                        if targetUnits \<le> 0
                        then (st, Some (exchange_failed (e_srv E) [] INVALID_ARGUMENT
                                 (lit ''converted target amount must be strictly positive'')), None)
                        else run_exchange E WT idempKey wallet walletID fromCurr toCurr (xc_FromAmount req)
                               targetUnits effectiveRate quoteID st))"

subsection \<open>Deposits and withdrawals\<close>

fun parsePaymentRail :: "PaymentRail \<Rightarrow> gomsg + string" where
  "parsePaymentRail CARD = Inr ''CARD''"
| "parsePaymentRail ACH = Inr ''ACH''"
| "parsePaymentRail SEPA = Inr ''SEPA''"
| "parsePaymentRail WIRE = Inr ''WIRE''"
| "parsePaymentRail PaymentRail_UNSPECIFIED =
     Inl (lit ''unsupported or missing payment rail (supported: CARD, ACH, SEPA, WIRE)'')"

definition validate_funds ::
    "'l2 wallet_env \<Rightarrow> metadata \<Rightarrow> FundsRequest option \<Rightarrow> wallet_db
       \<Rightarrow> goerr + (string \<times> string \<times> Money \<times> string \<times> string \<times> FundsRequest)" where
  "validate_funds E ctx r db =
     (case r of
        None \<Rightarrow> Inl (StatusErr InvalidArgument (lit ''request is required''))
      | Some req \<Rightarrow>
          let idempKey = TrimSpace (fr_IdempotencyKey req); walletID = TrimSpace (fr_WalletId req)
          in if idempKey = [] then Inl (StatusErr InvalidArgument (lit ''idempotency_key is required''))
             else if walletID = [] then Inl (StatusErr InvalidArgument errWalletIDRequired)
             else case verifyWalletAccessByWalletID (e_srv E) (k_wallets (e_drv E)) ctx walletID (d_wallets db) of
                    Some err \<Rightarrow> Inl err
                  | None \<Rightarrow>
                      (case fr_Amount req of
                         None \<Rightarrow> Inl (StatusErr InvalidArgument (lit ''amount is required''))
                       | Some amt \<Rightarrow>
                           let cur = NormalizeCurrency
                                 (if m_Currency amt = [] then m_CurrencyCode amt else m_Currency amt)
                           in if cur = [] then Inl (StatusErr InvalidArgument (lit ''currency is required''))
                              else case ValidateMoney cur (m_Units amt) (m_Nanos amt) (m_Scale amt) of
                                     Some err \<Rightarrow> Inl (StatusErr InvalidArgument (Msg ''%v'' [ArgE err]))
                                   | None \<Rightarrow>
                                       (case parsePaymentRail (fr_PaymentRail req) of
                                          Inl railErr \<Rightarrow> Inl (StatusErr InvalidArgument (Msg ''%v'' [ArgE railErr]))
                                        | Inr railStr \<Rightarrow> Inr (idempKey, walletID, amt, cur, railStr, req))))"

definition funds_failed :: "server \<Rightarrow> string \<Rightarrow> resp_status \<Rightarrow> gomsg \<Rightarrow> FundsResponse" where
  "funds_failed s txnID st m =
     \<lparr>fp_TransactionId = txnID, fp_Status = st, fp_ErrorMessage = m, fp_HandledByRegion = s_region s,
      fp_Amount = None, fp_PaymentRail = PaymentRail_UNSPECIFIED, fp_ExternalReference = []\<rparr>"

definition funds_done :: "server \<Rightarrow> string \<Rightarrow> Money \<Rightarrow> string \<Rightarrow> FundsRequest \<Rightarrow> FundsResponse" where
  "funds_done s txnID amt cur req =
     \<lparr>fp_TransactionId = txnID, fp_Status = SUCCESS, fp_ErrorMessage = lit [],
      fp_HandledByRegion = s_region s,
      fp_Amount = Some ((mk_money cur (m_Units amt))\<lparr>m_Nanos := m_Nanos amt\<rparr>),
      fp_PaymentRail = fr_PaymentRail req, fp_ExternalReference = fr_Reference req\<rparr>"

definition clearing_account :: "string \<Rightarrow> string \<Rightarrow> string" where
  "clearing_account railStr cur = ''EXTERNAL_CLEARING_'' @ railStr @ ''_'' @ cur"

text \<open>The session, the transaction and the answer, shared by both directions.\<close>

definition run_funds ::
    "'l2 wallet_env \<Rightarrow> (wallet_db, string) txn_runner \<Rightarrow> (wallet_db, string) txn_body \<Rightarrow> resp_status \<Rightarrow> LedgerTask
       \<Rightarrow> string \<Rightarrow> Money \<Rightarrow> string \<Rightarrow> FundsRequest \<Rightarrow> 'l2 wallet_state \<Rightarrow> 'l2 wallet_state \<times> FundsResponse grpc" where
  "run_funds E WT body failure task walletID amt cur req st =
     (case e_session E of
        Some err \<Rightarrow> (st, None, Some (StatusErr Internal (Msg ''failed to start mongo session: %v'' [ArgE err])))
      | None \<Rightarrow>
          (case WT body (st_db st) (e_oid E 0) of
             (db, finalTxnID, Some err) \<Rightarrow>
               (st\<lparr>st_db := db\<rparr>, Some (funds_failed (e_srv E) finalTxnID failure (txn_msg err)), None)
           | (db, finalTxnID, None) \<Rightarrow>
               (finish_op E task walletID (st\<lparr>st_db := db\<rparr>),
                Some (funds_done (e_srv E) finalTxnID amt cur req), None)))"

definition deposit_task ::
    "'l2 wallet_env \<Rightarrow> string \<Rightarrow> string \<Rightarrow> string \<Rightarrow> int64 \<Rightarrow> string \<Rightarrow> LedgerTask" where
  "deposit_task E idempKey railStr walletID units cur =
     new_task E (e_oid E 1) (e_oid E 0) idempKey (clearing_account railStr cur) walletID units cur"

definition deposit_body ::
    "'l2 wallet_env \<Rightarrow> string \<Rightarrow> WalletModel \<Rightarrow> string \<Rightarrow> int64 \<Rightarrow> string \<Rightarrow> LedgerTask \<Rightarrow> (wallet_db, string) txn_body" where
  "deposit_body E idempKey wallet walletID units cur task =
     wallet_txn E idempKey (\<lambda>w. w_ID w = walletID)
       (inc_wallet [(cur, units)] (if cur = w_Currency wallet then Some units else None) (e_now E))
       (not_matched walletID) task (\<lambda>db. db)"

definition DepositFunds ::
    "'l2 wallet_env \<Rightarrow> (wallet_db, string) txn_runner \<Rightarrow> metadata \<Rightarrow> FundsRequest option
       \<Rightarrow> 'l2 wallet_state \<Rightarrow> 'l2 wallet_state \<times> FundsResponse grpc" where
  "DepositFunds E WT ctx r st =
     (case validate_funds E ctx r (st_db st) of
        Inl err \<Rightarrow> (st, None, Some err)
      | Inr (idempKey, walletID, amt, cur, railStr, req) \<Rightarrow>
          if \<not> isWritable (e_srv E)
          then (st, Some (funds_failed (e_srv E) [] INVALID_ARGUMENT (errStandbyReplicaFmt (e_srv E))), None)
          else if \<not> s_mongoClient (e_srv E)
          then (st, None, Some (StatusErr Unavailable (lit ''database unavailable'')))
          else case operational_wallet E ''deposit'' walletID (st_db st) of
                 Inl (Inl err) \<Rightarrow> (st, None, Some err)
               | Inl (Inr (status, m)) \<Rightarrow> (st, Some (funds_failed (e_srv E) [] status m), None)
               | Inr wallet \<Rightarrow>
                   (let task = deposit_task E idempKey railStr walletID (m_Units amt) cur
                    in run_funds E WT (deposit_body E idempKey wallet walletID (m_Units amt) cur task)
                         INTERNAL_ERROR task walletID amt cur req st))"

definition withdraw_task ::
    "'l2 wallet_env \<Rightarrow> string \<Rightarrow> string \<Rightarrow> string \<Rightarrow> int64 \<Rightarrow> string \<Rightarrow> LedgerTask" where
  "withdraw_task E idempKey railStr walletID units cur =
     new_task E (e_oid E 1) (e_oid E 0) idempKey walletID (clearing_account railStr cur) units cur"

definition withdraw_body ::
    "'l2 wallet_env \<Rightarrow> string \<Rightarrow> WalletModel \<Rightarrow> string \<Rightarrow> int64 \<Rightarrow> string \<Rightarrow> string \<Rightarrow> LedgerTask
       \<Rightarrow> (wallet_db, string) txn_body" where
  "withdraw_body E idempKey wallet walletID units cur railStr task =
     wallet_txn E idempKey (debit_filter walletID cur units)
       (inc_wallet [(cur, - units)] (if cur = w_Currency wallet then Some (- units) else None) (e_now E))
       (not_modified cur) task
       (\<lambda>db. fst (RecordVelocityUsage E (e_oid E 2) walletID units cur (''WITHDRAWAL_'' @ railStr) db))"

definition WithdrawFunds ::
    "'l2 wallet_env \<Rightarrow> (wallet_db, string) txn_runner \<Rightarrow> metadata \<Rightarrow> FundsRequest option
       \<Rightarrow> 'l2 wallet_state \<Rightarrow> 'l2 wallet_state \<times> FundsResponse grpc" where
  "WithdrawFunds E WT ctx r st =
     (case validate_funds E ctx r (st_db st) of
        Inl err \<Rightarrow> (st, None, Some err)
      | Inr (idempKey, walletID, amt, cur, railStr, req) \<Rightarrow>
          if \<not> isWritable (e_srv E)
          then (st, Some (funds_failed (e_srv E) [] INVALID_ARGUMENT (errStandbyReplicaFmt (e_srv E))), None)
          else if \<not> s_mongoClient (e_srv E)
          then (st, None, Some (StatusErr Unavailable (lit ''database unavailable'')))
          else case debitable_wallet E ''withdraw'' walletID cur (m_Units amt) (st_db st) of
                 Inl (Inl err) \<Rightarrow> (st, None, Some err)
               | Inl (Inr (status, m)) \<Rightarrow> (st, Some (funds_failed (e_srv E) [] status m), None)
               | Inr wallet \<Rightarrow>
                   (let task = withdraw_task E idempKey railStr walletID (m_Units amt) cur
                    in run_funds E WT (withdraw_body E idempKey wallet walletID (m_Units amt) cur railStr task)
                         FAILED_INSUFFICIENT_FUNDS task walletID amt cur req st))"

subsection \<open>Status administration\<close>

definition UpdateWalletStatus ::
    "'l2 wallet_env \<Rightarrow> string \<Rightarrow> string \<Rightarrow> 'l2 wallet_state \<Rightarrow> 'l2 wallet_state \<times> mongo_error option" where
  "UpdateWalletStatus E walletID newStatus st =
     (if \<not> s_mongoClient (e_srv E) then (st, Some (DriverError (lit ''database unavailable'')))
      else case UpdateOne (k_wallets (e_drv E)) (\<lambda>w. w_ID w = walletID)
                  (\<lambda>w. Some (w\<lparr>w_Status := newStatus, w_UpdatedAt := unix_second (e_now E)\<rparr>))
                  (d_wallets (st_db st)) of
             (ws, Inl err) \<Rightarrow> (st\<lparr>st_db := (st_db st)\<lparr>d_wallets := ws\<rparr>\<rparr>, Some err)
           | (ws, Inr res) \<Rightarrow>
               if MatchedCount res = 0 then (st\<lparr>st_db := (st_db st)\<lparr>d_wallets := ws\<rparr>\<rparr>, Some ErrNoDocuments)
               else (invalidate_cache E [walletID] (st\<lparr>st_db := (st_db st)\<lparr>d_wallets := ws\<rparr>\<rparr>), None))"

record AdminWalletStatusRequest =
  aq_WalletID :: string
  aq_Status :: string
  aq_Reason :: string

record AdminWalletStatusResponse =
  ar_Success :: bool
  ar_WalletID :: string
  ar_Status :: string
  ar_Message :: gomsg

definition admin_answer :: "bool \<Rightarrow> string \<Rightarrow> string \<Rightarrow> gomsg \<Rightarrow> AdminWalletStatusResponse" where
  "admin_answer ok i status m = \<lparr>ar_Success = ok, ar_WalletID = i, ar_Status = status, ar_Message = m\<rparr>"

definition handleAdminWalletStatusGet ::
    "'l2 wallet_env \<Rightarrow> string \<Rightarrow> wallet_db \<Rightarrow> int \<times> AdminWalletStatusResponse" where
  "handleAdminWalletStatusGet E param db =
     (let walletID = TrimSpace param
      in if walletID = [] then (400, admin_answer False [] [] (lit ''wallet_id query parameter is required''))
         else if \<not> s_mongoClient (e_srv E) then (503, admin_answer False [] [] (lit ''database unavailable''))
         else case FindOne (k_wallets (e_drv E)) (\<lambda>w. w_ID w = walletID) None (d_wallets db) of
                Inl ErrNoDocuments \<Rightarrow> (404, admin_answer False walletID [] (lit ''wallet not found''))
              | Inl err \<Rightarrow>
                  (500, admin_answer False walletID [] (Msg ''failed to fetch wallet: %s'' [ArgE (err_msg err)]))
              | Inr wallet \<Rightarrow>
                  (200, admin_answer True (w_ID wallet) (EffectiveStatus wallet) (lit ''wallet status retrieved'')))"

text \<open>The body arrives decoded, or with the error of the JSON decoder.\<close>

definition handleAdminWalletStatusUpdate ::
    "'l2 wallet_env \<Rightarrow> gomsg + AdminWalletStatusRequest \<Rightarrow> 'l2 wallet_state
       \<Rightarrow> 'l2 wallet_state \<times> int \<times> AdminWalletStatusResponse" where
  "handleAdminWalletStatusUpdate E body st =
     (case body of
        Inl err \<Rightarrow> (st, 400, admin_answer False [] [] (Msg ''invalid JSON body: %s'' [ArgE err]))
      | Inr req \<Rightarrow>
          let walletID = TrimSpace (aq_WalletID req); status = ToUpper (TrimSpace (aq_Status req))
          in if walletID = [] then (st, 400, admin_answer False [] [] errWalletIDRequired)
             else if status \<noteq> WalletStatusActive \<and> status \<noteq> WalletStatusFrozen \<and> status \<noteq> WalletStatusClosed
             then (st, 400, admin_answer False [] []
                     (Msg ''invalid status %q: must be ACTIVE, FROZEN, or CLOSED'' [ArgS status]))
             else case UpdateWalletStatus E walletID status st of
                    (st, Some ErrNoDocuments) \<Rightarrow> (st, 404, admin_answer False walletID [] (lit ''wallet not found''))
                  | (st, Some err) \<Rightarrow>
                      (st, 500, admin_answer False walletID []
                         (Msg ''failed to update wallet status: %s'' [ArgE (err_msg err)]))
                  | (st, None) \<Rightarrow>
                      (st, 200, admin_answer True walletID status
                         (Msg ''Wallet %s status updated to %s'' [ArgS walletID, ArgS status])))"

text \<open>The dispatcher on the HTTP method: \<open>None\<close> is the plain-text answer 405.\<close>

definition handleAdminWalletStatus ::
    "'l2 wallet_env \<Rightarrow> string \<Rightarrow> string \<Rightarrow> gomsg + AdminWalletStatusRequest \<Rightarrow> 'l2 wallet_state
       \<Rightarrow> 'l2 wallet_state \<times> (int \<times> AdminWalletStatusResponse) option" where
  "handleAdminWalletStatus E httpMethod param body st =
     (if httpMethod = ''GET'' then (st, Some (handleAdminWalletStatusGet E param (st_db st)))
      else if httpMethod = ''POST'' \<or> httpMethod = ''PUT''
      then (case handleAdminWalletStatusUpdate E body st of (st, r) \<Rightarrow> (st, Some r))
      else (st, None))"

end
