(* ===== verification/TransferProofs.thy ===== *)
theory TransferProofs
  imports TransferFlow
begin

text \<open>
  Correctness of \<open>TransferFunds\<close>: what each stage of the transaction leaves alone, what a
  committed transaction has done, and from there the properties of the handler for every
  database and transaction runner that keep their laws.
\<close>

subsection \<open>Stages that only look\<close>

text \<open>The part of the execution state that the transaction reads and never changes.\<close>

definition xcore ::
    "transferExecutionState \<Rightarrow> string \<times> string \<times> int64 \<times> float64 \<times> string \<times> bool" where
  "xcore x = (x_outboxTaskID x, x_destCurrency x, x_destUnits x, x_exchangeRate x, x_fxQuoteID x, x_isCrossCurrency x)"

lemma xcore_updates [simp]:
  "xcore (fail_with st m x) = xcore x"
  "xcore (x\<lparr>x_srcWallet := w\<rparr>) = xcore x" "xcore (x\<lparr>x_dstWallet := w\<rparr>) = xcore x"
  "xcore (x\<lparr>x_sourceDebited := b\<rparr>) = xcore x" "xcore (x\<lparr>x_outboxTask := t\<rparr>) = xcore x"
  by (simp_all add: xcore_def fail_with_def)

lemma fail_with_simps [simp]:
  "x_txnStatus (fail_with st m x) = st" "x_finalTxnID (fail_with st m x) = x_finalTxnID x"
  by (simp_all add: fail_with_def)

lemma credit_xcore:
  "xcore x' = xcore x \<Longrightarrow> credit_units req x' = credit_units req x"
  "xcore x' = xcore x \<Longrightarrow> credit_currency req x' = credit_currency req x"
  by (simp_all add: credit_units_def credit_currency_def xcore_def)

text \<open>
  \<open>stage x x' r\<close>: a stage keeps the core of the state and the transaction's identifier, and
  changes the status only where it reports an error of the service's own.
\<close>

definition stage :: "transferExecutionState \<Rightarrow> transferExecutionState \<Rightarrow> txn_error option \<Rightarrow> bool" where
  "stage x x' r \<longleftrightarrow> xcore x' = xcore x \<and> x_finalTxnID x' = x_finalTxnID x
     \<and> (retryable r \<longrightarrow> x_txnStatus x' = x_txnStatus x)
     \<and> (x_txnStatus x' = x_txnStatus x \<or> x_txnStatus x' \<notin> {SUCCESS, REJECTED_DUPLICATE})"

lemma stage_refl [simp]: "stage x x r"
  by (simp add: stage_def)

lemma stage_trans: "stage x y None \<Longrightarrow> stage y z r \<Longrightarrow> stage x z r"
  by (auto simp: stage_def)

lemma stage_load_destination: "load_destination E req db x = (x', r) \<Longrightarrow> stage x x' r"
  by (auto simp: load_destination_def stage_def Let_def split: sum.splits mongo_error.splits option.splits)

lemma stage_validate: "validateWalletsOperational E req db x = (x', r) \<Longrightarrow> stage x x' r"
proof -
  have step: "stage (x\<lparr>x_srcWallet := w\<rparr>) x' r \<Longrightarrow> stage x x' r" for w
    by (simp add: stage_def)
  show "validateWalletsOperational E req db x = (x', r) \<Longrightarrow> stage x x' r"
    by (auto simp: validateWalletsOperational_def Let_def stage_def
        split: sum.splits mongo_error.splits option.splits
        dest!: stage_load_destination step)
qed

lemma stage_debit: "debit_source E req corr db x = (db', x', r) \<Longrightarrow> stage x x' r"
  by (auto simp: debit_source_def stage_def Let_def split: prod.splits sum.splits if_splits)

lemma stage_credit: "credit_destination E req corr db x = (db', x', r) \<Longrightarrow> stage x x' r"
  by (auto simp: credit_destination_def stage_def Let_def split: prod.splits sum.splits if_splits option.splits)

lemma stage_execute:
  assumes "executeDebitAndCredit E req corr db x = (db', x', r)"
  shows "stage x x' r"
proof -
  define y where "y = x\<lparr>x_srcWallet := refetch E (tf_SourceWalletId req) db (x_srcWallet x),
      x_dstWallet := refetch E (tf_DestinationWalletId req) db (x_dstWallet x)\<rparr>"
  have y: "stage x y None" by (simp add: stage_def y_def)
  obtain db1 x1 r1 where d: "debit_source E req corr db y = (db1, x1, r1)" by (metis prod_cases3)
  show ?thesis
  proof (cases r1)
    case None
    then have "credit_destination E req corr db1 x1 = (db', x', r)"
      using assms d by (simp add: executeDebitAndCredit_def Let_def y_def)
    then show ?thesis using stage_debit [OF d] stage_credit y None stage_trans by metis
  next
    case (Some e)
    then have "x' = x1" "r = Some e"
      using assms d by (simp_all add: executeDebitAndCredit_def Let_def y_def)
    then show ?thesis using stage_debit [OF d] y Some stage_trans by metis
  qed
qed

subsection \<open>What the stages do\<close>

lemma append_audit_keeps:
  assumes "append_audit E k what ev db = (db', r)"
  shows "d_wallets db' = d_wallets db" "d_idempotency db' = d_idempotency db"
    "d_tasks db' = d_tasks db" "d_velocity db' = d_velocity db"
  using assms by (auto simp: append_audit_def split: if_splits prod.splits option.splits)

lemma velocity_keeps:
  "d_wallets (record_transfer_velocity E req db) = d_wallets db"
  "d_idempotency (record_transfer_velocity E req db) = d_idempotency db"
  "d_tasks (record_transfer_velocity E req db) = d_tasks db"
  by (auto simp: record_transfer_velocity_def RecordVelocityUsageWithDest_def split: prod.splits)

context wallet_store
begin

lemma find_wallet:
  "FindOne (k_wallets drv) f None ws = Inr w \<Longrightarrow> w \<in> set ws \<and> f w"
  by (rule wallets.FindOne_Inr)

lemma validate_ok:
  assumes "validateWalletsOperational E req db x = (x', None)" and "e_drv E = drv"
  obtains s d where "s \<in> set (d_wallets db)" "w_ID s = tf_SourceWalletId req" "operational s"
    "d \<in> set (d_wallets db)" "w_ID d = tf_DestinationWalletId req" "operational d"
    "CheckVelocityLimits E s (m_Units (amount_of req)) (m_Currency (amount_of req)) (d_velocity db) = None"
    "x_srcWallet x' = s" "x_dstWallet x' = d"
proof -
  obtain s where s: "FindOne (k_wallets drv) (\<lambda>w. w_ID w = tf_SourceWalletId req) None (d_wallets db) = Inr s"
    and st: "checkWalletStatus s ''source'' = None"
    and vel: "CheckVelocityLimits E s (m_Units (amount_of req)) (m_Currency (amount_of req)) (d_velocity db) = None"
    and ld: "load_destination E req db (x\<lparr>x_srcWallet := s\<rparr>) = (x', None)"
    using assms by (auto simp: validateWalletsOperational_def Let_def
        split: sum.splits mongo_error.splits option.splits)
  from ld obtain d where d: "FindOne (k_wallets drv) (\<lambda>w. w_ID w = tf_DestinationWalletId req) None (d_wallets db) = Inr d"
    and dt: "checkWalletStatus d ''destination'' = None" and x': "x' = x\<lparr>x_srcWallet := s, x_dstWallet := d\<rparr>"
    using assms(2) by (auto simp: load_destination_def Let_def split: sum.splits mongo_error.splits option.splits)
  show thesis
    using that [of s d] find_wallet [OF s] find_wallet [OF d] st dt vel x'
    by (simp add: checkWalletStatus_None operational_def)
qed

lemma debit_ok:
  assumes "debit_source E req corr db x = (db', x', None)" and "e_drv E = drv"
  obtains i a where "i < length (d_wallets db)"
    "debit_filter (tf_SourceWalletId req) (NormalizeCurrency (m_Currency (amount_of req))) (m_Units (amount_of req))
       (d_wallets db ! i)"
    "inc_wallet [(NormalizeCurrency (m_Currency (amount_of req)), - m_Units (amount_of req))]
       (if NormalizeCurrency (m_Currency (amount_of req)) = w_Currency (x_srcWallet x)
        then Some (- m_Units (amount_of req)) else None) (e_now E) (d_wallets db ! i) = Some a"
    "d_wallets db' = (d_wallets db)[i := a]" "d_idempotency db' = d_idempotency db"
    "d_tasks db' = d_tasks db" "d_velocity db' = d_velocity db" "x' = x\<lparr>x_sourceDebited := True\<rparr>"
proof -
  let ?c = "NormalizeCurrency (m_Currency (amount_of req))" and ?u = "m_Units (amount_of req)"
  show thesis
  proof (cases rule: wallets.UpdateOne_cases [of "debit_filter (tf_SourceWalletId req) ?c ?u"
        "inc_wallet [(?c, - ?u)] (if ?c = w_Currency (x_srcWallet x) then Some (- ?u) else None) (e_now E)"
        "d_wallets db"])
    case (match i a r)
    then have "append_audit E 2 ''outbox append (source_debited) failed: %w''
        (audit_event E 0 corr (x_finalTxnID x) ''wallet.transfer.source_debited'' ''Source wallet debited''
           [(''source_wallet'', AttrS (tf_SourceWalletId req)), (''debit_amount'', AttrD ?u),
            (''currency'', AttrS (m_Currency (amount_of req)))])
        (db\<lparr>d_wallets := (d_wallets db)[i := a]\<rparr>) = (db', None)"
      and x': "x' = x\<lparr>x_sourceDebited := True\<rparr>"
      using assms by (auto simp: debit_source_def Let_def split: if_splits prod.splits)
    from append_audit_keeps [OF this(1)] show thesis using that [of i a] match x' by simp
  qed (use assms in \<open>auto simp: debit_source_def Let_def\<close>)
qed

lemma credit_ok:
  assumes "credit_destination E req corr db x = (db', x', None)" and "e_drv E = drv"
  obtains j b db1 where "j < length (d_wallets db)" "w_ID (d_wallets db ! j) = tf_DestinationWalletId req"
    "inc_wallet [(NormalizeCurrency (credit_currency req x), credit_units req x)]
       (if NormalizeCurrency (credit_currency req x) = w_Currency (x_dstWallet x)
        then Some (credit_units req x) else None) (e_now E) (d_wallets db ! j) = Some b"
    "d_wallets db' = (d_wallets db)[j := b]" "d_idempotency db' = d_idempotency db" "d_tasks db' = d_tasks db"
    "db' = record_transfer_velocity E req db1" "d_velocity db1 = d_velocity db" "x' = x"
proof -
  let ?c = "NormalizeCurrency (credit_currency req x)" and ?u = "credit_units req x"
  have mm: "\<not> (?c \<noteq> w_Currency (x_dstWallet x) \<and> \<not> x_isCrossCurrency x
      \<and> getz (w_Balances (x_dstWallet x)) ?c \<le> 0)"
    using assms(1) by (auto simp: credit_destination_def Let_def)
  show thesis
  proof (cases rule: wallets.UpdateOne_cases [of "\<lambda>w. w_ID w = tf_DestinationWalletId req"
        "inc_wallet [(?c, ?u)] (if ?c = w_Currency (x_dstWallet x) then Some ?u else None) (e_now E)"
        "d_wallets db"])
    case (match j b r)
    then obtain what ev db1 where a: "append_audit E 3 what ev (db\<lparr>d_wallets := (d_wallets db)[j := b]\<rparr>) = (db1, None)"
      and db': "db' = record_transfer_velocity E req db1" and x': "x' = x"
      using assms mm by (auto simp: credit_destination_def Let_def split: if_splits prod.splits option.splits)
    from append_audit_keeps [OF a] show thesis using that [of j b db1] match x' db' by (simp add: velocity_keeps)
  qed (use assms mm in \<open>auto simp: credit_destination_def Let_def\<close>)
qed

text \<open>Debit and credit together, on a sound database.\<close>

lemma execute_ok:
  assumes "executeDebitAndCredit E req corr db x = (db', x', None)" and "e_drv E = drv"
    and "wallets_ok (d_wallets db)" and "tf_SourceWalletId req \<noteq> tf_DestinationWalletId req"
    and "x_srcWallet x \<in> set (d_wallets db)" "w_ID (x_srcWallet x) = tf_SourceWalletId req" "operational (x_srcWallet x)"
    and "x_dstWallet x \<in> set (d_wallets db)" "w_ID (x_dstWallet x) = tf_DestinationWalletId req" "operational (x_dstWallet x)"
  obtains db1 where
    "moved (e_now E) (tf_SourceWalletId req) (NormalizeCurrency (m_Currency (amount_of req))) (m_Units (amount_of req))
       (tf_DestinationWalletId req) (NormalizeCurrency (credit_currency req x)) (credit_units req x)
       (d_wallets db) (d_wallets db')"
    "d_idempotency db' = d_idempotency db" "d_tasks db' = d_tasks db"
    "db' = record_transfer_velocity E req db1" "d_velocity db1 = d_velocity db"
proof -
  let ?ws = "d_wallets db"
  have dist: "distinct (map w_ID ?ws)" using assms(3) by (simp add: wallets_ok_def)
  have cur: "w_Currency w \<noteq> []" if "w \<in> set ?ws" for w
    using assms(3) that by (auto simp: wallets_ok_def list_all_iff wallet_ok_def)
  obtain db1 x1 where d: "debit_source E req corr db x = (db1, x1, None)"
    and c: "credit_destination E req corr db1 x1 = (db', x', None)"
    using assms(1) cur [OF assms(5)] cur [OF assms(8)]
    by (auto simp: executeDebitAndCredit_def Let_def refetch_def split: prod.splits option.splits)
  obtain i a where da: "i < length ?ws"
    "debit_filter (tf_SourceWalletId req) (NormalizeCurrency (m_Currency (amount_of req))) (m_Units (amount_of req)) (?ws ! i)"
    "inc_wallet [(NormalizeCurrency (m_Currency (amount_of req)), - m_Units (amount_of req))]
       (if NormalizeCurrency (m_Currency (amount_of req)) = w_Currency (x_srcWallet x)
        then Some (- m_Units (amount_of req)) else None) (e_now E) (?ws ! i) = Some a"
    "d_wallets db1 = ?ws[i := a]" "d_idempotency db1 = d_idempotency db" "d_tasks db1 = d_tasks db"
    "d_velocity db1 = d_velocity db" "x1 = x\<lparr>x_sourceDebited := True\<rparr>"
    using debit_ok [OF d assms(2)] by metis
  obtain j b db2 where cb: "j < length (d_wallets db1)" "w_ID (d_wallets db1 ! j) = tf_DestinationWalletId req"
    "inc_wallet [(NormalizeCurrency (credit_currency req x1), credit_units req x1)]
       (if NormalizeCurrency (credit_currency req x1) = w_Currency (x_dstWallet x1)
        then Some (credit_units req x1) else None) (e_now E) (d_wallets db1 ! j) = Some b"
    "d_wallets db' = (d_wallets db1)[j := b]" "d_idempotency db' = d_idempotency db1" "d_tasks db' = d_tasks db1"
    "db' = record_transfer_velocity E req db2" "d_velocity db2 = d_velocity db1"
    using credit_ok [OF c assms(2)] by metis
  have x1: "credit_currency req x1 = credit_currency req x" "credit_units req x1 = credit_units req x"
    "x_dstWallet x1 = x_dstWallet x"
    using da(8) by (simp_all add: credit_currency_def credit_units_def)
  have "w_ID (?ws ! i) = tf_SourceWalletId req" using da(2) by (simp add: debit_filter_def)
  then have src: "x_srcWallet x = ?ws ! i"
    using distinct_ids_eq [OF dist assms(5), of "?ws ! i"] da(1) assms(6) by simp
  have "w_ID a = tf_SourceWalletId req" using inc_wallet_Some(3) [OF da(3)] da(2) by (simp add: debit_filter_def)
  then have ij: "i \<noteq> j" using cb(2) da(1,4) assms(4) by auto
  then have j: "d_wallets db1 ! j = ?ws ! j" using da(4) by simp
  have dst: "x_dstWallet x = ?ws ! j"
    using distinct_ids_eq [OF dist assms(8), of "?ws ! j"] cb(1,2) j da(4) assms(9) by simp
  have "moved (e_now E) (tf_SourceWalletId req) (NormalizeCurrency (m_Currency (amount_of req))) (m_Units (amount_of req))
       (tf_DestinationWalletId req) (NormalizeCurrency (credit_currency req x)) (credit_units req x) ?ws (d_wallets db')"
    unfolding moved_def
    using da(1,2,4) da(3) [unfolded src] cb(1,2,4) cb(3) [unfolded x1 j dst] ij j
      assms(6,7,9,10) [unfolded src dst]
    by (intro exI [of _ i] exI [of _ j] exI [of _ a] exI [of _ b]) simp
  then show thesis using that [of db2] da cb by simp
qed

lemma store_task_and_key_ok:
  assumes "store_task_and_key E fmt task key txn db = (db', None)" and "e_drv E = drv"
  shows "db' = db\<lparr>d_tasks := d_tasks db @ [task],
      d_idempotency := d_idempotency db @ [\<lparr>i_ID = key, i_TransactionID = txn, i_CreatedAt = e_now E\<rparr>]\<rparr>"
    and "key \<notin> i_ID ` set (d_idempotency db)" and "lt_ID task \<notin> lt_ID ` set (d_tasks db)"
proof -
  let ?k = "\<lparr>i_ID = key, i_TransactionID = txn, i_CreatedAt = e_now E\<rparr>"
  obtain ts ks where t: "InsertOne (k_tasks drv) task (d_tasks db) = (ts, None)"
    and k: "InsertOne (k_idempotency drv) ?k (d_idempotency db) = (ks, None)"
    and db': "db' = db\<lparr>d_tasks := ts, d_idempotency := ks\<rparr>"
    using assms by (auto simp: store_task_and_key_def AppendLedgerTask_def split: prod.splits option.splits)
  from queue.InsertOne_None [OF t] keys.InsertOne_None [OF k] db'
  show "db' = db\<lparr>d_tasks := d_tasks db @ [task], d_idempotency := d_idempotency db @ [?k]\<rparr>"
    and "key \<notin> i_ID ` set (d_idempotency db)" and "lt_ID task \<notin> lt_ID ` set (d_tasks db)"
    by (auto simp: list_ex_iff idempotency_conflict_def task_conflict_def)
qed

end

definition is_duplicate :: "'l2 wallet_env \<Rightarrow> TransferFundsRequest \<Rightarrow> wallet_db \<Rightarrow> bool" where
  "is_duplicate E req db =
     (case FindOne (k_idempotency (e_drv E)) (\<lambda>i. i_ID i = tf_IdempotencyKey req) None (d_idempotency db) of
        Inr r \<Rightarrow> True | Inl e \<Rightarrow> False)"

lemma check_duplicate:
  "checkIdempotentTransfer E req db x = (x', b) \<Longrightarrow> b = is_duplicate E req db
     \<and> (\<not> b \<longrightarrow> x' = x) \<and> xcore x' = xcore x
     \<and> (b \<longrightarrow> x_txnStatus x' = REJECTED_DUPLICATE)"
  by (auto simp: checkIdempotentTransfer_def is_duplicate_def xcore_def split: sum.splits)

lemma body_duplicate:
  assumes "is_duplicate E req db" and "executeTransferTransaction E req corr db x = (db', x', r)"
  shows "db' = db \<and> r = None \<and> x_txnStatus x' = REJECTED_DUPLICATE \<and> xcore x' = xcore x"
proof -
  obtain y b where c: "checkIdempotentTransfer E req db x = (y, b)" by fastforce
  with assms check_duplicate [OF c] show ?thesis by (auto simp: executeTransferTransaction_def)
qed

lemma body_fresh_cases:
  assumes "\<not> is_duplicate E req db" and "executeTransferTransaction E req corr db x = (db', x', r)"
  obtains (invalid) e where "validateWalletsOperational E req db x = (x', Some e)" "db' = db" "r = Some e"
  | (failed) y e where "validateWalletsOperational E req db x = (y, None)"
      "executeDebitAndCredit E req corr db y = (db', x', Some e)" "r = Some e"
  | (stored) y z db1 where "validateWalletsOperational E req db x = (y, None)"
      "executeDebitAndCredit E req corr db y = (db1, z, None)" "x' = z\<lparr>x_outboxTask := transfer_task E req z\<rparr>"
      "store_task_and_key E ''failed to append ledger outbox task: %w'' (transfer_task E req z)
         (tf_IdempotencyKey req) (x_finalTxnID z) db1 = (db', r)"
proof -
  obtain y0 b where c: "checkIdempotentTransfer E req db x = (y0, b)" by fastforce
  then have c': "checkIdempotentTransfer E req db x = (x, False)" using check_duplicate [OF c] assms(1) by auto
  obtain y r1 where v: "validateWalletsOperational E req db x = (y, r1)" by fastforce
  obtain db1 z r2 where e: "executeDebitAndCredit E req corr db y = (db1, z, r2)" by (metis prod_cases3)
  have eq: "executeTransferTransaction E req corr db x =
     (case r1 of Some err \<Rightarrow> (db, y, Some err)
      | None \<Rightarrow> (case r2 of Some err \<Rightarrow> (db1, z, Some err)
          | None \<Rightarrow> (case store_task_and_key E ''failed to append ledger outbox task: %w'' (transfer_task E req z)
                       (tf_IdempotencyKey req) (x_finalTxnID z) db1 of
                     (db, err) \<Rightarrow> (db, z\<lparr>x_outboxTask := transfer_task E req z\<rparr>, err))))"
    using c' v e by (simp add: executeTransferTransaction_def Let_def split: option.splits)
  show thesis
  proof (cases r1)
    case (Some e1)
    with eq assms(2) v show thesis using invalid by simp
  next
    case r1: None
    show thesis
    proof (cases r2)
      case (Some e2)
      with r1 eq assms(2) v e show thesis using failed by simp
    next
      case None
      obtain db2 r3 where s: "store_task_and_key E ''failed to append ledger outbox task: %w''
          (transfer_task E req z) (tf_IdempotencyKey req) (x_finalTxnID z) db1 = (db2, r3)" by fastforce
      with r1 None eq assms(2) v e show thesis using stored by simp
    qed
  qed
qed

lemma body_stage:
  assumes "\<not> is_duplicate E req db" and "executeTransferTransaction E req corr db x = (db', x', r)"
  shows "stage x x' r"
  using assms
proof (cases rule: body_fresh_cases)
  case (invalid e)
  then show ?thesis using stage_validate by metis
next
  case (failed y e)
  then show ?thesis using stage_validate stage_execute stage_trans by metis
next
  case (stored y z db1)
  then have "stage x z None" using stage_validate stage_execute stage_trans by metis
  then show ?thesis using stored(3) by (simp add: stage_def)
qed

text \<open>What a run of the callback that returns without an error has done.\<close>

definition transferred ::
    "'l2 wallet_env \<Rightarrow> TransferFundsRequest \<Rightarrow> transferExecutionState \<Rightarrow> wallet_db \<Rightarrow> wallet_db \<Rightarrow> bool" where
  "transferred E req x db db' \<longleftrightarrow>
     moved (e_now E) (tf_SourceWalletId req) (NormalizeCurrency (m_Currency (amount_of req))) (m_Units (amount_of req))
       (tf_DestinationWalletId req) (NormalizeCurrency (credit_currency req x)) (credit_units req x)
       (d_wallets db) (d_wallets db')
     \<and> d_idempotency db' = d_idempotency db
         @ [\<lparr>i_ID = tf_IdempotencyKey req, i_TransactionID = x_finalTxnID x, i_CreatedAt = e_now E\<rparr>]
     \<and> tf_IdempotencyKey req \<notin> i_ID ` set (d_idempotency db)
     \<and> d_tasks db' = d_tasks db @ [transfer_task E req x]
     \<and> lt_ID (transfer_task E req x) \<notin> lt_ID ` set (d_tasks db)
     \<and> (\<exists>s \<in> set (d_wallets db). w_ID s = tf_SourceWalletId req
          \<and> CheckVelocityLimits E s (m_Units (amount_of req)) (m_Currency (amount_of req)) (d_velocity db) = None)
     \<and> (\<exists>db1. d_velocity db' = d_velocity (record_transfer_velocity E req db1) \<and> d_velocity db1 = d_velocity db)"

lemma transfer_task_xcore:
  assumes "xcore x' = xcore x" and "x_finalTxnID x' = x_finalTxnID x"
  shows "transfer_task E req x' = transfer_task E req x"
  using assms(2) assms(1) [unfolded xcore_def] credit_xcore [OF assms(1)]
  by (simp add: transfer_task_def)

lemma transferred_xcore:
  "xcore x' = xcore x \<Longrightarrow> x_finalTxnID x' = x_finalTxnID x \<Longrightarrow> transferred E req x' db db' = transferred E req x db db'"
proof -
  assume x: "xcore x' = xcore x" and t: "x_finalTxnID x' = x_finalTxnID x"
  show ?thesis unfolding transferred_def transfer_task_xcore [OF x t] credit_xcore [OF x] t ..
qed

context wallet_store
begin

lemma body_commit:
  assumes "\<not> is_duplicate E req db" and "executeTransferTransaction E req corr db x = (db', x', None)"
    and "e_drv E = drv" and "wallets_ok (d_wallets db)"
    and "tf_SourceWalletId req \<noteq> tf_DestinationWalletId req"
  shows "transferred E req x db db'" and "x_outboxTask x' = transfer_task E req x"
proof -
  obtain y z db1 where b: "validateWalletsOperational E req db x = (y, None)"
      "executeDebitAndCredit E req corr db y = (db1, z, None)" "x' = z\<lparr>x_outboxTask := transfer_task E req z\<rparr>"
      "store_task_and_key E ''failed to append ledger outbox task: %w'' (transfer_task E req z)
         (tf_IdempotencyKey req) (x_finalTxnID z) db1 = (db', None)"
    using assms(1,2) by (cases rule: body_fresh_cases) auto
  have sy: "stage x y None" and sz: "stage x z None"
    using stage_validate [OF b(1)] stage_execute [OF b(2)] stage_trans by blast+
  then have same: "xcore z = xcore x" "x_finalTxnID z = x_finalTxnID x" "xcore y = xcore x"
    by (simp_all add: stage_def)
  obtain s d where sd: "s \<in> set (d_wallets db)" "w_ID s = tf_SourceWalletId req" "operational s"
    "d \<in> set (d_wallets db)" "w_ID d = tf_DestinationWalletId req" "operational d"
    "CheckVelocityLimits E s (m_Units (amount_of req)) (m_Currency (amount_of req)) (d_velocity db) = None"
    "x_srcWallet y = s" "x_dstWallet y = d"
    using validate_ok [OF b(1) assms(3)] by blast
  obtain db2 where m:
    "moved (e_now E) (tf_SourceWalletId req) (NormalizeCurrency (m_Currency (amount_of req))) (m_Units (amount_of req))
       (tf_DestinationWalletId req) (NormalizeCurrency (credit_currency req y)) (credit_units req y)
       (d_wallets db) (d_wallets db1)"
    "d_idempotency db1 = d_idempotency db" "d_tasks db1 = d_tasks db"
    "db1 = record_transfer_velocity E req db2" "d_velocity db2 = d_velocity db"
    using execute_ok [OF b(2) assms(3,4,5)] sd by metis
  note st = store_task_and_key_ok [OF b(4) assms(3)]
  have task: "transfer_task E req z = transfer_task E req x" by (rule transfer_task_xcore [OF same(1,2)])
  show "x_outboxTask x' = transfer_task E req x" using b(3) task by simp
  show "transferred E req x db db'"
    unfolding transferred_def
  proof (intro conjI)
    show "moved (e_now E) (tf_SourceWalletId req) (NormalizeCurrency (m_Currency (amount_of req)))
       (m_Units (amount_of req)) (tf_DestinationWalletId req) (NormalizeCurrency (credit_currency req x))
       (credit_units req x) (d_wallets db) (d_wallets db')"
      using m(1) st(1) by (simp add: credit_xcore [OF same(3)])
    show "\<exists>s \<in> set (d_wallets db). w_ID s = tf_SourceWalletId req \<and>
        CheckVelocityLimits E s (m_Units (amount_of req)) (m_Currency (amount_of req)) (d_velocity db) = None"
      using sd by blast
    show "\<exists>db1. d_velocity db' = d_velocity (record_transfer_velocity E req db1) \<and> d_velocity db1 = d_velocity db"
      using m(4,5) st(1) by (intro exI [of _ db2]) simp
  qed (use st m task same in simp_all)
qed

text \<open>What the whole transaction does, however often it is retried.\<close>

lemma txn_commit:
  assumes "transaction_runner WT" and "e_drv E = drv" and "wallets_ok (d_wallets db)"
    and "tf_SourceWalletId req \<noteq> tf_DestinationWalletId req" and "x_txnStatus x = SUCCESS"
    and "WT (executeTransferTransaction E req corr) db x = (db', x', None)"
  shows "if is_duplicate E req db then db' = db \<and> x_txnStatus x' = REJECTED_DUPLICATE
    else x_txnStatus x' = SUCCESS \<and> x_finalTxnID x' = x_finalTxnID x \<and> xcore x' = xcore x
       \<and> transferred E req x db db' \<and> x_outboxTask x' = transfer_task E req x"
proof -
  let ?body = "executeTransferTransaction E req corr"
  let ?P = "\<lambda>y. xcore y = xcore x
    \<and> (\<not> is_duplicate E req db \<longrightarrow> x_txnStatus y = SUCCESS \<and> x_finalTxnID y = x_finalTxnID x)"
  have keep: "?P y1" if "?P y" "?body db y = (s1, y1, r)" "retryable r" for y s1 y1 r
  proof (cases "is_duplicate E req db")
    case True
    then show ?thesis using body_duplicate [OF True that(2)] that(1) by simp
  next
    case False
    then show ?thesis using body_stage [OF False that(2)] that(1,3) by (simp add: stage_def)
  qed
  have "?P x" using assms(5) by simp
  then have "\<exists>y. ?P y \<and> ?body db y = (db', x', None)"
  proof (rule transaction_runner.commit_is_run [OF assms(1,6), where P = ?P])
    fix y s1 y1 r assume "?P y" "?body db y = (s1, y1, r)" "retryable r"
    then show "?P y1" by (rule keep)
  qed
  then obtain y where y: "?P y" "?body db y = (db', x', None)" by blast
  show ?thesis
  proof (cases "is_duplicate E req db")
    case True
    then show ?thesis using body_duplicate [OF True y(2)] by simp
  next
    case False
    note c = body_commit [OF False y(2) assms(2,3,4)]
    have "stage y x' None" by (rule body_stage [OF False y(2)])
    moreover have "transferred E req x db db'" "x_outboxTask x' = transfer_task E req x"
      using c y(1) False transferred_xcore [of y x E req db db'] transfer_task_xcore [of y x E req] by simp_all
    ultimately show ?thesis using y(1) False by (simp add: stage_def)
  qed
qed

end

subsection \<open>The handler\<close>

lemma prepare_status:
  "prepareFXConversion E req db x = (x', None) \<Longrightarrow> x_txnStatus x' = x_txnStatus x \<and> x_finalTxnID x' = x_finalTxnID x"
  by (auto simp: prepareFXConversion_def fallback_conversion_def Let_def
      split: if_splits sum.splits option.splits prod.splits)

lemma initial_state_simps:
  "x_txnStatus (initial_state E) = SUCCESS" "x_finalTxnID (initial_state E) = e_oid E 0"
  by (simp_all add: initial_state_def)

lemma dispatch_now_keeps:
  "d_wallets (st_db (dispatch_now E task st)) = d_wallets (st_db st)"
  "d_idempotency (st_db (dispatch_now E task st)) = d_idempotency (st_db st)"
  "d_velocity (st_db (dispatch_now E task st)) = d_velocity (st_db st)"
  "d_outbox (st_db (dispatch_now E task st)) = d_outbox (st_db st)"
  "st_cache (dispatch_now E task st) = st_cache st"
  by (simp_all add: dispatch_now_def split: option.splits)

lemma validate_accepts:
  assumes "validateTransferRequest E (Some req) db = (None, None)"
  shows "tf_SourceWalletId req \<noteq> tf_DestinationWalletId req" "isWritable (e_srv E)"
    "0 \<le> m_Units (amount_of req)" "tf_IdempotencyKey req \<noteq> []"
proof -
  let ?amt = "amount_of req"
  have v: "ValidateMoney (if m_Currency ?amt = [] then m_CurrencyCode ?amt else m_Currency ?amt)
      (m_Units ?amt) (m_Nanos ?amt) (m_Scale ?amt) = None"
    using assms by (auto simp: validateTransferRequest_def Let_def split: if_splits option.splits)
  then show "0 \<le> m_Units ?amt" by (auto simp: ValidateMoney_None)
  show "tf_SourceWalletId req \<noteq> tf_DestinationWalletId req" "isWritable (e_srv E)" "tf_IdempotencyKey req \<noteq> []"
    using assms v by (auto simp: validateTransferRequest_def Let_def split: if_splits)
qed

lemma validate_refuses: "fst (validateTransferRequest E r db) = Some q \<Longrightarrow> tr_Status q \<noteq> SUCCESS"
  by (auto simp: validateTransferRequest_def fraud_check_def refused_def Let_def split: option.splits if_splits)

text \<open>The handler either commits a transfer and reports \<open>SUCCESS\<close>, or changes nothing at all.\<close>

definition transfer_committed ::
    "'l2 wallet_env \<Rightarrow> TransferFundsRequest \<Rightarrow> 'l2 wallet_state \<Rightarrow> 'l2 wallet_state
       \<Rightarrow> TransferFundsResponse grpc \<Rightarrow> bool" where
  "transfer_committed E req st st' resp \<longleftrightarrow>
     (\<exists>x db. prepareFXConversion E req (st_db st) (initial_state E) = (x, None)
        \<and> x_finalTxnID x = e_oid E 0 \<and> x_txnStatus x = SUCCESS \<and> transferred E req x (st_db st) db
        \<and> st' = invalidate_cache E [tf_SourceWalletId req, tf_DestinationWalletId req]
                  (dispatch_now E (transfer_task E req x) (st\<lparr>st_db := db\<rparr>))
        \<and> resp = (Some (transfer_response (e_srv E) x), None))"

lemma failure_not_success: "tr_Status (handleTransferFailure s x e) \<noteq> SUCCESS"
  by (simp add: handleTransferFailure_def Let_def)

context wallet_store
begin

lemma run_transfer_result:
  assumes "transaction_runner WT" and "e_drv E = drv" and "wallets_ok (d_wallets (st_db st))"
    and "tf_SourceWalletId req \<noteq> tf_DestinationWalletId req"
    and "prepareFXConversion E req (st_db st) (initial_state E) = (x, None)"
    and "run_transfer E WT ctx req x st = (st', resp)"
  shows "transfer_committed E req st st' resp \<or> (st' = st \<and> (\<forall>r. fst resp = Some r \<longrightarrow> tr_Status r \<noteq> SUCCESS))"
proof (cases "s_mongoClient (e_srv E) \<and> e_session E = None")
  case True
  have x: "x_txnStatus x = SUCCESS" "x_finalTxnID x = e_oid E 0"
    using prepare_status [OF assms(5)] by (simp_all add: initial_state_simps)
  let ?body = "executeTransferTransaction E req (transfer_correlation E ctx req)"
  obtain db x' r where w: "WT ?body (st_db st) x = (db, x', r)" by (metis prod_cases3)
  show ?thesis
  proof (cases r)
    case (Some e)
    then have "db = st_db st" using transaction_runner.error_rolls_back [OF assms(1)] w by blast
    then show ?thesis using True assms(6) w Some failure_not_success by (auto simp: run_transfer_def)
  next
    case None
    note c = txn_commit [OF assms(1-4) x(1) w [unfolded None]]
    have resp: "resp = (Some (transfer_response (e_srv E) x'), None)"
      and st': "st' = handleTransferSuccess E req x' (st\<lparr>st_db := db\<rparr>)"
      using True assms(6) w None by (simp_all add: run_transfer_def)
    show ?thesis
    proof (cases "is_duplicate E req (st_db st)")
      case dup: True
      then show ?thesis using c resp st' by (simp add: transfer_response_def handleTransferSuccess_def)
    next
      case False
      then have f: "x_txnStatus x' = SUCCESS" "x_finalTxnID x' = x_finalTxnID x" "xcore x' = xcore x"
        "transferred E req x (st_db st) db" "x_outboxTask x' = transfer_task E req x" using c by simp_all
      have "transfer_committed E req st st' resp"
        unfolding transfer_committed_def
        using f x assms(5) resp st' f(3) [unfolded xcore_def] by (intro exI [of _ x] exI [of _ db])
          (simp add: transfer_response_def handleTransferSuccess_def)
      then show ?thesis ..
    qed
  qed
qed (use assms(6) in \<open>auto simp: run_transfer_def split: if_splits\<close>)

lemma TransferFunds_result:
  assumes "transaction_runner WT" and "e_drv E = drv" and "wallets_ok (d_wallets (st_db st))"
    and "TransferFunds E WT ctx r st = (st', resp)"
  obtains (committed) req where "r = Some req" "validateTransferRequest E r (st_db st) = (None, None)"
      "transfer_committed E req st st' resp"
  | (unchanged) "st' = st" "\<And>q. fst resp = Some q \<Longrightarrow> tr_Status q \<noteq> SUCCESS"
proof (cases "validateTransferRequest E r (st_db st) = (None, None)")
  case True
  then obtain req where r: "r = Some req" by (cases r) (auto simp: validateTransferRequest_def)
  note acc = validate_accepts [OF True [unfolded r]]
  obtain x e where p: "prepareFXConversion E req (st_db st) (initial_state E) = (x, e)" by fastforce
  show thesis
  proof (cases "verifyWalletAccessByWalletID (e_srv E) (k_wallets (e_drv E)) ctx (tf_SourceWalletId req)
      (d_wallets (st_db st)) = None \<and> e = None")
    case run: True
    then have "run_transfer E WT ctx req x st = (st', resp)"
      using assms(4) True r p by (simp add: TransferFunds_def)
    then show thesis
      using run_transfer_result [OF assms(1-3) acc(1)] p run committed [OF r True] unchanged by blast
  next
    case False
    then have "st' = st \<and> (\<forall>q. fst resp = Some q \<longrightarrow> tr_Status q \<noteq> SUCCESS)"
      using assms(4) True r p failure_not_success
      by (auto simp: TransferFunds_def split: option.splits)
    then show thesis using unchanged by blast
  qed
next
  case False
  obtain a b where v: "validateTransferRequest E r (st_db st) = (a, b)" by fastforce
  with False have "a \<noteq> None \<or> b \<noteq> None" by auto
  with v have eq: "st' = st" "resp = validateTransferRequest E r (st_db st)"
    using assms(4) by (cases r; cases a; cases b; simp add: TransferFunds_def)+
  show thesis by (rule unchanged [OF eq(1)]) (use eq(2) validate_refuses in metis)
qed

end

lemma credit_units_nonneg: "0 \<le> m_Units (amount_of req) \<Longrightarrow> 0 \<le> credit_units req x"
  by (simp add: credit_units_def)

lemma committed_db:
  assumes "transfer_committed E req st st' resp"
  obtains x db where "x_finalTxnID x = e_oid E 0" "transferred E req x (st_db st) db"
    "d_wallets (st_db st') = d_wallets db" "d_idempotency (st_db st') = d_idempotency db"
    "d_velocity (st_db st') = d_velocity db"
    "d_tasks (st_db st') = d_tasks (st_db (dispatch_now E (transfer_task E req x) (st\<lparr>st_db := db\<rparr>)))"
    "fst resp = Some (transfer_response (e_srv E) x)" "x_txnStatus x = SUCCESS"
  using assms unfolding transfer_committed_def
  by (auto simp: invalidate_cache_def dispatch_now_keeps)

text \<open>The task of a transfer is in the queue when the handler returns, delivered or not.\<close>

context wallet_store
begin

lemma dispatched_task:
  assumes "e_drv E = drv" and "d_tasks (st_db st) = ts @ [t]" and "lt_ID t \<notin> lt_ID ` set ts"
  shows "d_tasks (st_db (dispatch_now E t st)) \<in> {ts @ [t], ts @ [set_completed (e_now E) t]}"
proof (cases "\<exists>client. s_ledgerRelay (e_srv E) = Some client
    \<and> dispatch_error ''unknown error'' (client (request_of_task t)) = None")
  case True
  then have eq: "d_tasks (st_db (dispatch_now E t st))
      = fst (mark_by_id (Some (k_tasks drv)) (lt_ID t) (set_completed (e_now E)) (ts @ [t]))"
    using assms(1,2) by (auto simp: dispatch_now_def DispatchImmediate_def mongoLedgerTaskStore_def
        mongo_MarkCompleted_def)
  show ?thesis
  proof (cases rule: queue.UpdateOne_cases [of "\<lambda>x. lt_ID x = lt_ID t" "\<lambda>x. Some (set_completed (e_now E) x)" "ts @ [t]"])
    case (match i d r)
    have "lt_ID (ts ! k) \<noteq> lt_ID t" if "k < length ts" for k
      using assms(3) that by (metis imageI nth_mem)
    then have "i = length ts" using match(2,3) by (auto simp: nth_append split: if_splits)
    then show ?thesis using match eq by (auto simp: mark_by_id_def nth_append)
  qed (simp_all add: eq mark_by_id_def)
next
  case False
  then show ?thesis using assms(2)
    by (auto simp: dispatch_now_def DispatchImmediate_def split: option.splits)
qed

lemma committed_task:
  assumes "transfer_committed E req st st' resp" and "e_drv E = drv"
  obtains x where "x_finalTxnID x = e_oid E 0" "fst resp = Some (transfer_response (e_srv E) x)"
    "x_txnStatus x = SUCCESS"
    "d_tasks (st_db st') \<in> {d_tasks (st_db st) @ [transfer_task E req x],
                            d_tasks (st_db st) @ [set_completed (e_now E) (transfer_task E req x)]}"
    "moved (e_now E) (tf_SourceWalletId req) (NormalizeCurrency (m_Currency (amount_of req))) (m_Units (amount_of req))
       (tf_DestinationWalletId req) (NormalizeCurrency (credit_currency req x)) (credit_units req x)
       (d_wallets (st_db st)) (d_wallets (st_db st'))"
proof -
  obtain x db where c: "x_finalTxnID x = e_oid E 0" "transferred E req x (st_db st) db"
    "d_wallets (st_db st') = d_wallets db"
    "d_tasks (st_db st') = d_tasks (st_db (dispatch_now E (transfer_task E req x) (st\<lparr>st_db := db\<rparr>)))"
    "fst resp = Some (transfer_response (e_srv E) x)" "x_txnStatus x = SUCCESS"
    using committed_db [OF assms(1)] by metis
  show thesis
    using that [of x] c dispatched_task [OF assms(2), of "st\<lparr>st_db := db\<rparr>" "d_tasks (st_db st)" "transfer_task E req x"]
    by (simp add: transferred_def)
qed

end

lemma transfer_wallets_ok:
  assumes "wallet_store drv" and "transaction_runner WT" and "e_drv E = drv"
    and "wallets_ok (d_wallets (st_db st))"
    and "TransferFunds E WT ctx req st = (st', resp)"
  shows "wallets_ok (d_wallets (st_db st'))"
proof (rule wallet_store.TransferFunds_result [OF assms])
  fix q assume q: "req = Some q" "validateTransferRequest E req (st_db st) = (None, None)"
    "transfer_committed E q st st' resp"
  obtain x where "moved (e_now E) (tf_SourceWalletId q) (NormalizeCurrency (m_Currency (amount_of q)))
      (m_Units (amount_of q)) (tf_DestinationWalletId q) (NormalizeCurrency (credit_currency q x))
      (credit_units q x) (d_wallets (st_db st)) (d_wallets (st_db st'))"
    using wallet_store.committed_task [OF assms(1) q(3) assms(3)] by metis
  then show ?thesis
    using moved_wallets_ok assms(4) validate_accepts(3) q(1,2) credit_units_nonneg by metis
qed (use assms(4) in simp)

subsection \<open>A sample database\<close>

definition sample_server :: server where
  "sample_server =
     \<lparr>s_mongoClient = True, s_fxClient = None, s_region = ''us-east'', s_isActive = True,
      s_targetRole = ''PRIMARY'', s_coordinator = Some (Inr ''PRIMARY''), s_outbox = True,
      s_ledgerRelay = Some (flaky_ledger 0), s_fraudDetector = None\<rparr>"

definition sample_env :: "MemoryCache wallet_env" where
  "sample_env =
     \<lparr>e_srv = sample_server, e_drv = mem_driver, e_l2 = memory_ops, e_now = 1750000000000000000,
      e_oid = (\<lambda>n. CHR ''o'' # replicate n (CHR ''x'')), e_assoc = (\<lambda>n. CHR ''a'' # replicate n (CHR ''x'')),
      e_session = None, e_environment = ''test''\<rparr>"

definition sample_wallet :: "string \<Rightarrow> int \<Rightarrow> string \<Rightarrow> WalletModel" where
  "sample_wallet i usd status =
     \<lparr>w_ID = i, w_OwnerID = i, w_CreatedBy = i, w_Currency = ''USD'', w_Balance = usd,
      w_Balances = [(''USD'', usd), (''EUR'', 700)], w_Status = status, w_KYCTier = ''TIER_2'',
      w_Region = ''us-east'', w_UpdatedAt = 0\<rparr>"

definition sample_state :: "string \<Rightarrow> MemoryCache wallet_state" where
  "sample_state status =
     \<lparr>st_db = \<lparr>d_wallets = [sample_wallet ''alice_1'' 100000 [], sample_wallet ''bob_1'' 5000 status],
               d_idempotency = [], d_tasks = [], d_velocity = [], d_outbox = []\<rparr>,
      st_cache = Some (NewBalanceCache 0 0 None True)\<rparr>"

definition sample_transfer :: "string \<Rightarrow> TransferFundsRequest" where
  "sample_transfer cur =
     \<lparr>tf_IdempotencyKey = ''key-1'', tf_SourceWalletId = ''alice_1'', tf_DestinationWalletId = ''bob_1'',
      tf_Amount = Some \<lparr>m_Currency = cur, m_Units = 2500, m_Nanos = 0, m_Scale = 2, m_CurrencyCode = ''USD''\<rparr>,
      tf_FxQuoteId = []\<rparr>"

definition sample_run :: "string \<Rightarrow> string \<Rightarrow> MemoryCache wallet_state \<times> TransferFundsResponse grpc" where
  "sample_run status cur =
     TransferFunds sample_env run_once (Some [(''x-user-id'', [''Alice''])]) (Some (sample_transfer cur)) (sample_state status)"

lemma sample_ok: "wallets_ok (d_wallets (st_db (sample_state status)))"
  by code_simp

lemma sample_env_drv: "e_drv sample_env = mem_driver"
  by (simp add: sample_env_def)

lemmas sample_laws = mem_store.wallet_store_axioms once.transaction_runner_axioms sample_env_drv sample_ok

lemma sample_success: "map_option tr_Status (fst (snd (sample_run [] ''USD''))) = Some SUCCESS"
  by code_simp

lemma sample_succeeds:
  obtains st r err where "sample_run [] ''USD'' = (st, Some r, err)" "tr_Status r = SUCCESS"
  using sample_success by (cases "sample_run [] ''USD''") auto

subsection \<open>Properties\<close>

text \<open>
  C4. Money moves exactly as the ledger task says. When a transfer reports \<open>SUCCESS\<close>, the
  queue has gained one task under the returned transaction id for the requested amount, the
  source held the amount, both wallets were operational, and over all wallets the source
  currency has lost the task's amount and the destination currency gained its destination
  amount: nothing else is created or destroyed in any currency.
\<close>

theorem TransferFunds_moves_money:
  assumes "wallet_store drv" and "transaction_runner WT" and "e_drv E = drv"
    and "wallets_ok (d_wallets (st_db st))"
    and "TransferFunds E WT ctx (Some req) st = (st', Some r, err)" and "tr_Status r = SUCCESS"
  shows "\<exists>t. (d_tasks (st_db st') = d_tasks (st_db st) @ [t]
          \<or> d_tasks (st_db st') = d_tasks (st_db st) @ [set_completed (e_now E) t])
     \<and> lt_TransactionID t = tr_TransactionId r \<and> lt_Amount t = m_Units (amount_of req)
     \<and> lt_Currency t = m_Currency (amount_of req)
     \<and> moved (e_now E) (tf_SourceWalletId req) (NormalizeCurrency (lt_Currency t)) (lt_Amount t)
         (tf_DestinationWalletId req) (NormalizeCurrency (lt_DestinationCurrency t)) (lt_DestinationAmount t)
         (d_wallets (st_db st)) (d_wallets (st_db st'))
     \<and> (\<forall>c. pot_total c (d_wallets (st_db st')) = pot_total c (d_wallets (st_db st))
           - (if c = NormalizeCurrency (lt_Currency t) then lt_Amount t else 0)
           + (if c = NormalizeCurrency (lt_DestinationCurrency t) then lt_DestinationAmount t else 0))"
proof -
  have "transfer_committed E req st st' (Some r, err)"
    by (rule wallet_store.TransferFunds_result [OF assms(1-5)]) (use assms(6) in auto)
  then obtain x where x: "x_finalTxnID x = e_oid E 0" "Some r = Some (transfer_response (e_srv E) x)"
    "d_tasks (st_db st') \<in> {d_tasks (st_db st) @ [transfer_task E req x],
                            d_tasks (st_db st) @ [set_completed (e_now E) (transfer_task E req x)]}"
    and m: "moved (e_now E) (tf_SourceWalletId req) (NormalizeCurrency (m_Currency (amount_of req))) (m_Units (amount_of req))
       (tf_DestinationWalletId req) (NormalizeCurrency (credit_currency req x)) (credit_units req x)
       (d_wallets (st_db st)) (d_wallets (st_db st'))"
    using wallet_store.committed_task [OF assms(1) _ assms(3)] by (metis fst_conv)
  have "tr_TransactionId r = x_finalTxnID x" using x(2) by (simp add: transfer_response_def)
  then show ?thesis
    using x(3) m moved_total [OF m]
    by (intro exI [of _ "transfer_task E req x"]) (auto simp: transfer_task_def)
qed

theorem TransferFunds_moves_money_witness:
  "map_option tr_Status (fst (snd (sample_run [] ''USD''))) = Some SUCCESS
   \<and> (\<exists>t :: LedgerTask. lt_Amount t = 2500 \<and> moved (e_now sample_env) ''alice_1'' ''USD'' 2500 ''bob_1''
         (NormalizeCurrency (lt_DestinationCurrency t)) (lt_DestinationAmount t)
         (d_wallets (st_db (sample_state []))) (d_wallets (st_db (fst (sample_run [] ''USD'')))))"
proof -
  obtain st r err where r: "sample_run [] ''USD'' = (st, Some r, err)" "tr_Status r = SUCCESS"
    by (rule sample_succeeds)
  have v: "m_Units (amount_of (sample_transfer ''USD'')) = 2500" "m_Currency (amount_of (sample_transfer ''USD'')) = ''USD''"
    "NormalizeCurrency ''USD'' = ''USD''" "tf_SourceWalletId (sample_transfer ''USD'') = ''alice_1''"
    "tf_DestinationWalletId (sample_transfer ''USD'') = ''bob_1''" by code_simp+
  obtain t :: LedgerTask where a: "lt_Amount t = m_Units (amount_of (sample_transfer ''USD''))"
    and c: "lt_Currency t = m_Currency (amount_of (sample_transfer ''USD''))"
    and m: "moved (e_now sample_env) (tf_SourceWalletId (sample_transfer ''USD'')) (NormalizeCurrency (lt_Currency t))
        (lt_Amount t) (tf_DestinationWalletId (sample_transfer ''USD'')) (NormalizeCurrency (lt_DestinationCurrency t))
        (lt_DestinationAmount t) (d_wallets (st_db (sample_state []))) (d_wallets (st_db st))"
    using TransferFunds_moves_money [OF sample_laws r(1) [unfolded sample_run_def] r(2)] by blast
  from m have "moved (e_now sample_env) ''alice_1'' ''USD'' 2500 ''bob_1'' (NormalizeCurrency (lt_DestinationCurrency t))
      (lt_DestinationAmount t) (d_wallets (st_db (sample_state []))) (d_wallets (st_db (fst (sample_run [] ''USD''))))"
    unfolding a c v r(1) fst_conv .
  with sample_success a v(1) show ?thesis by (intro conjI exI [of _ t]) simp_all
qed



text \<open>
  Every transfer keeps the wallets sound: distinct wallets, no negative pot, every balance
  within \<open>int64\<close>, and the base balance equal to the pot of the primary currency.
\<close>

lemma TransferFunds_keeps_wallets_ok:
  assumes "wallet_store drv" and "transaction_runner WT" and "e_drv E = drv"
    and "wallets_ok (d_wallets (st_db st))"
    and "TransferFunds E WT ctx req st = (st', resp)"
  shows "wallets_ok (d_wallets (st_db st'))"
  by (rule transfer_wallets_ok [OF assms])





lemma nonoperational_no_transfer:
  assumes "wallet_store drv" and "transaction_runner WT" and "e_drv E = drv"
    and "wallets_ok (d_wallets (st_db st))"
    and "w \<in> set (d_wallets (st_db st))"
    and "w_ID w = tf_SourceWalletId req \<or> w_ID w = tf_DestinationWalletId req"
    and "\<not> operational w"
    and "TransferFunds E WT ctx (Some req) st = (st', resp)"
  shows "st' = st"
proof (rule wallet_store.TransferFunds_result [OF assms(1-4,8)])
  fix q assume "Some req = Some q" "transfer_committed E q st st' resp"
  then obtain x where m: "moved (e_now E) (tf_SourceWalletId req) (NormalizeCurrency (m_Currency (amount_of req)))
      (m_Units (amount_of req)) (tf_DestinationWalletId req) (NormalizeCurrency (credit_currency req x))
      (credit_units req x) (d_wallets (st_db st)) (d_wallets (st_db st'))"
    using wallet_store.committed_task [OF assms(1) _ assms(3)] by blast
  from m obtain i j where "i < length (d_wallets (st_db st))" "j < length (d_wallets (st_db st))"
    "w_ID (d_wallets (st_db st) ! i) = tf_SourceWalletId req"
    "w_ID (d_wallets (st_db st) ! j) = tf_DestinationWalletId req"
    "operational (d_wallets (st_db st) ! i)" "operational (d_wallets (st_db st) ! j)"
    by (auto simp: moved_def)
  moreover have "distinct (map w_ID (d_wallets (st_db st)))" using assms(4) by (simp add: wallets_ok_def)
  ultimately have "operational w" using assms(5,6) distinct_ids_eq by (metis nth_mem)
  then show ?thesis using assms(7) by simp
qed

text \<open>
  A frozen or closed wallet neither sends nor receives: if either party of a transfer is
  not operational, nothing changes.
\<close>

lemma TransferFunds_needs_operational:
  assumes "wallet_store drv" and "transaction_runner WT" and "e_drv E = drv"
    and "wallets_ok (d_wallets (st_db st))"
    and "w \<in> set (d_wallets (st_db st))"
    and "w_ID w = tf_SourceWalletId req \<or> w_ID w = tf_DestinationWalletId req"
    and "EffectiveStatus w = WalletStatusFrozen \<or> EffectiveStatus w = WalletStatusClosed"
    and "TransferFunds E WT ctx (Some req) st = (st', resp)"
  shows "st' = st"
  by (rule nonoperational_no_transfer [OF assms(1-6) _ assms(8)]) (use assms(7) in \<open>auto simp: operational_def\<close>)

text \<open>
  No stale balance is served after a transfer: once a transfer has reported \<open>SUCCESS\<close>, a
  lookup of either wallet in the balance cache misses, so the next read goes to the
  database (for a second level whose invalidation gets through).
\<close>

lemma TransferFunds_evicts_cache:
  assumes "wallet_store drv" and "transaction_runner WT" and "e_drv E = drv"
    and "wallets_ok (d_wallets (st_db st))" and "reliable_store (e_l2 E) stored"
    and "TransferFunds E WT ctx (Some req) st = (st', Some r, err)" and "tr_Status r = SUCCESS"
    and "st_cache st' = Some c" and "i = tf_SourceWalletId req \<or> i = tf_DestinationWalletId req" and "i \<noteq> []"
  shows "snd (BalanceCache_Get (e_l2 E) now i c) = None"
proof -
  have "transfer_committed E req st st' (Some r, err)"
    by (rule wallet_store.TransferFunds_result [OF assms(1-4,6)]) (use assms(7) in auto)
  then obtain c0 where "c = BalanceCache_Invalidate (e_l2 E) [tf_SourceWalletId req, tf_DestinationWalletId req] c0"
    using assms(8) by (auto simp: transfer_committed_def invalidate_cache_def)
  then show ?thesis
    using reliable_store.Get_after_Invalidate_misses [OF assms(5), of i
        "[tf_SourceWalletId req, tf_DestinationWalletId req]"] assms(9,10) by simp
qed

text \<open>
  An amount that names its currency only in the alias \<open>currency_code\<close> passes validation
  but can never be transferred: the transaction reads \<open>currency\<close>, which is empty, and finds
  no such pot. (Deposits and withdrawals honour the alias.)
\<close>

lemma TransferFunds_ignores_currency_code:
  assumes "wallet_store drv" and "transaction_runner WT" and "e_drv E = drv"
    and "wallets_ok (d_wallets (st_db st))"
    and "\<forall>w \<in> set (d_wallets (st_db st)). map_of (w_Balances w) [] = None"
    and "m_Currency (amount_of req) = []"
    and "TransferFunds E WT ctx (Some req) st = (st', resp)"
  shows "st' = st \<and> (\<forall>r. fst resp = Some r \<longrightarrow> tr_Status r \<noteq> SUCCESS)"
proof (rule wallet_store.TransferFunds_result [OF assms(1-4,7)])
  fix q assume "Some req = Some q" "transfer_committed E q st st' resp"
  then obtain x where m: "moved (e_now E) (tf_SourceWalletId req) (NormalizeCurrency (m_Currency (amount_of req)))
      (m_Units (amount_of req)) (tf_DestinationWalletId req) (NormalizeCurrency (credit_currency req x))
      (credit_units req x) (d_wallets (st_db st)) (d_wallets (st_db st'))"
    using wallet_store.committed_task [OF assms(1) _ assms(3)] by blast
  then obtain i where "i < length (d_wallets (st_db st))"
    "debit_filter (tf_SourceWalletId req) [] (m_Units (amount_of req)) (d_wallets (st_db st) ! i)"
    using assms(6) by (auto simp: moved_def)
  then show ?thesis using assms(5) by (auto simp: debit_filter_def split: option.splits)
qed auto

end
