(* ===== verification/WalletOpsProofs.thy ===== *)
theory WalletOpsProofs
  imports WalletOps TransferProofs
begin

text \<open>
  Correctness of the other money-moving handlers, and of the wallet service as a whole: an
  exchange, a deposit or a withdrawal either changes one wallet by exactly the amounts of
  its ledger task, or replays an earlier request, or changes nothing; and every sequence of
  requests keeps the wallets sound and the queue of ledger tasks in step with the
  idempotency records.
\<close>

subsection \<open>One wallet changed\<close>

definition applied :: "int \<Rightarrow> string \<Rightarrow> (string \<times> int64) list \<Rightarrow> WalletModel list \<Rightarrow> WalletModel list \<Rightarrow> bool" where
  "applied now walletID pots ws ws' \<longleftrightarrow>
     (\<exists>i b w. i < length ws \<and> w_ID (ws ! i) = walletID \<and> operational (ws ! i)
        \<and> (\<forall>c. 0 \<le> getz (w_Balances (ws ! i)) c + net_inc pots c)
        \<and> (case b of None \<Rightarrow> 0 | Some n \<Rightarrow> n) = net_inc pots (w_Currency (ws ! i))
        \<and> inc_wallet pots b now (ws ! i) = Some w \<and> ws' = ws[i := w])"

lemma applied_wallets_ok:
  assumes "applied now walletID pots ws ws'" and "wallets_ok ws"
  shows "wallets_ok ws'"
proof -
  from assms(1) obtain i b w where a: "i < length ws" "\<And>c. 0 \<le> getz (w_Balances (ws ! i)) c + net_inc pots c"
    "(case b of None \<Rightarrow> 0 | Some n \<Rightarrow> n) = net_inc pots (w_Currency (ws ! i))"
    "inc_wallet pots b now (ws ! i) = Some w" "ws' = ws[i := w]" by (auto simp: applied_def)
  have "wallet_ok (ws ! i)" using assms(2) a(1) by (auto simp: wallets_ok_def list_all_length)
  from inc_wallet_ok [OF this a(4,3,2)] show ?thesis
    using wallets_ok_update [OF assms(2) a(1)] inc_wallet_Some(3) [OF a(4)] a(5) by simp
qed

lemma applied_total:
  assumes "applied now walletID pots ws ws'"
  shows "pot_total c ws' = pot_total c ws + net_inc pots c"
  using assms inc_wallet_Some(1) by (fastforce simp: applied_def pot_total_update)

text \<open>The transaction of the three handlers, however often it is retried.\<close>

definition op_stored ::
    "'l2 wallet_env \<Rightarrow> string \<Rightarrow> LedgerTask \<Rightarrow> (wallet_db \<Rightarrow> wallet_db) \<Rightarrow> wallet_db \<Rightarrow> wallet_db \<Rightarrow> bool" where
  "op_stored E key task record_usage db db' \<longleftrightarrow>
     key \<notin> i_ID ` set (d_idempotency db) \<and> lt_ID task \<notin> lt_ID ` set (d_tasks db)
     \<and> d_idempotency db' = d_idempotency db @ [\<lparr>i_ID = key, i_TransactionID = e_oid E 0, i_CreatedAt = e_now E\<rparr>]
     \<and> d_tasks db' = d_tasks db @ [task]
     \<and> (\<exists>db1. d_velocity db' = d_velocity (record_usage db1) \<and> d_velocity db1 = d_velocity db)"

definition quiet :: "(wallet_db \<Rightarrow> wallet_db) \<Rightarrow> bool" where
  "quiet f \<longleftrightarrow> (\<forall>db. d_wallets (f db) = d_wallets db \<and> d_idempotency (f db) = d_idempotency db
                     \<and> d_tasks (f db) = d_tasks db)"

lemma quiet_id [simp]: "quiet (\<lambda>db. db)"
  by (simp add: quiet_def)

lemma quiet_velocity [simp]: "quiet (\<lambda>db. fst (RecordVelocityUsage E oid i units cur kind db))"
  by (auto simp: quiet_def RecordVelocityUsage_def RecordVelocityUsageWithDest_def split: prod.splits)

lemma refuse_matched:
  "not_modified cur res = None \<Longrightarrow> ModifiedCount res \<noteq> 0"
  "not_matched walletID res = None \<Longrightarrow> MatchedCount res \<noteq> 0"
  by (auto simp: not_modified_def not_matched_def split: if_splits)

context wallet_store
begin

lemma wallet_txn_run:
  assumes "wallet_txn E key filt upd refuse task usage db txn = (db', txn', None)" and "e_drv E = drv"
    and "quiet usage" and "\<forall>res. refuse res = None \<longrightarrow> MatchedCount res \<noteq> 0 \<or> ModifiedCount res \<noteq> 0"
    and "FindOne (k_idempotency drv) (\<lambda>i. i_ID i = key) None (d_idempotency db) = Inl e" and "txn = e_oid E 0"
  shows "txn' = txn \<and> op_stored E key task usage db db'
    \<and> (\<exists>i w. i < length (d_wallets db) \<and> filt (d_wallets db ! i) \<and> upd (d_wallets db ! i) = Some w
         \<and> d_wallets db' = (d_wallets db)[i := w])"
proof (cases rule: wallets.UpdateOne_cases [of filt upd "d_wallets db"])
  case (match i w r)
  then obtain db1 where s: "store_task_and_key E ''failed to append ledger task: %w'' task key txn
      (db\<lparr>d_wallets := (d_wallets db)[i := w]\<rparr>) = (db1, None)" and db': "db' = usage db1" "txn' = txn"
    using assms(1,2,5) by (auto simp: wallet_txn_def split: option.splits prod.splits)
  note st = store_task_and_key_ok [OF s assms(2)]
  show ?thesis
    using assms(3,6) st db' match(2-4)
    by (auto simp: op_stored_def quiet_def intro!: exI [of _ db1] exI [of _ i] exI [of _ w])
qed (use assms(1,2,4,5) in \<open>auto simp: wallet_txn_def split: option.splits\<close>)

lemma wallet_txn_commit:
  assumes "transaction_runner WT" and "e_drv E = drv" and "quiet usage"
    and "\<forall>res. refuse res = None \<longrightarrow> MatchedCount res \<noteq> 0 \<or> ModifiedCount res \<noteq> 0"
    and "WT (wallet_txn E key filt upd refuse task usage) db (e_oid E 0) = (db', txn', None)"
  obtains (replayed) k where "db' = db" "k \<in> set (d_idempotency db)" "i_ID k = key" "txn' = i_TransactionID k"
  | (fresh) i w where "txn' = e_oid E 0" "op_stored E key task usage db db'" "i < length (d_wallets db)"
      "filt (d_wallets db ! i)" "upd (d_wallets db ! i) = Some w" "d_wallets db' = (d_wallets db)[i := w]"
proof -
  let ?find = "FindOne (k_idempotency drv) (\<lambda>i. i_ID i = key) None (d_idempotency db)"
  let ?body = "wallet_txn E key filt upd refuse task usage"
  let ?P = "\<lambda>y. (\<exists>k. ?find = Inr k) \<or> y = e_oid E 0"
  have "?P y1" if "?P y" "?body db y = (s1, y1, r)" for y s1 y1 r
    using that assms(2) by (auto simp: wallet_txn_def split: sum.splits prod.splits option.splits)
  then obtain y where y: "?P y" "?body db y = (db', txn', None)"
    using transaction_runner.commit_is_run [OF assms(1,5), where P = ?P] by blast
  show thesis
  proof (cases ?find)
    case (Inr k)
    then show thesis using replayed [of k] y(2) assms(2) keys.FindOne_Inr [OF Inr] by (simp add: wallet_txn_def)
  next
    case (Inl e)
    then have y0: "y = e_oid E 0" using y(1) by simp
    from wallet_txn_run [OF y(2) assms(2,3,4) Inl y0] show thesis using fresh y0 by blast
  qed
qed

end

text \<open>The two ways in which one of the three handlers reports \<open>SUCCESS\<close>.\<close>

definition op_committed ::
    "'l2 wallet_env \<Rightarrow> string \<Rightarrow> string \<Rightarrow> (string \<times> int64) list \<Rightarrow> LedgerTask \<Rightarrow> (wallet_db \<Rightarrow> wallet_db)
       \<Rightarrow> 'l2 wallet_state \<Rightarrow> 'l2 wallet_state \<Rightarrow> bool" where
  "op_committed E key walletID pots task record_usage st st' \<longleftrightarrow>
     (\<exists>db. applied (e_now E) walletID pots (d_wallets (st_db st)) (d_wallets db)
        \<and> op_stored E key task record_usage (st_db st) db
        \<and> st' = finish_op E task walletID (st\<lparr>st_db := db\<rparr>))"

definition op_replayed ::
    "'l2 wallet_env \<Rightarrow> string \<Rightarrow> string \<Rightarrow> LedgerTask \<Rightarrow> string \<Rightarrow> 'l2 wallet_state \<Rightarrow> 'l2 wallet_state \<Rightarrow> bool" where
  "op_replayed E key walletID task txnID st st' \<longleftrightarrow>
     (\<exists>k \<in> set (d_idempotency (st_db st)). i_ID k = key \<and> i_TransactionID k = txnID)
     \<and> st' = finish_op E task walletID st"

context wallet_store
begin

lemma op_commit:
  assumes "transaction_runner WT" and "e_drv E = drv" and "wallets_ok (d_wallets (st_db st))" and "quiet usage"
    and "\<forall>res. refuse res = None \<longrightarrow> MatchedCount res \<noteq> 0 \<or> ModifiedCount res \<noteq> 0"
    and "wallet \<in> set (d_wallets (st_db st))" and "w_ID wallet = walletID" and "operational wallet"
    and "\<And>w. filt w \<Longrightarrow> w_ID w = walletID"
    and "\<And>w c. filt w \<Longrightarrow> wallet_ok w \<Longrightarrow> 0 \<le> getz (w_Balances w) c + net_inc pots c"
    and "(case base of None \<Rightarrow> 0 | Some n \<Rightarrow> n) = net_inc pots (w_Currency wallet)"
    and "WT (wallet_txn E key filt (inc_wallet pots base (e_now E)) refuse task usage) (st_db st) (e_oid E 0)
           = (db', txn', None)"
    and "st' = finish_op E task walletID (st\<lparr>st_db := db'\<rparr>)"
  shows "txn' = e_oid E 0 \<and> op_committed E key walletID pots task usage st st'
    \<or> op_replayed E key walletID task txn' st st'"
  using assms(1,2,4,5,12)
proof (cases rule: wallet_txn_commit)
  case (replayed k)
  then show ?thesis using assms(13) by (auto simp: op_replayed_def)
next
  case (fresh i w)
  have "distinct (map w_ID (d_wallets (st_db st)))" using assms(3) by (simp add: wallets_ok_def)
  then have "wallet = d_wallets (st_db st) ! i"
    using distinct_ids_eq [of "d_wallets (st_db st)" wallet "d_wallets (st_db st) ! i"]
      assms(6,7) assms(9) [OF fresh(4)] fresh(3) by simp
  moreover have "wallet_ok wallet" using assms(3,6) by (auto simp: wallets_ok_def list_all_iff)
  ultimately have "applied (e_now E) walletID pots (d_wallets (st_db st)) (d_wallets db')"
    unfolding applied_def using fresh assms(7,8,11) assms(10) [OF fresh(4)]
    by (intro exI [of _ i] exI [of _ base] exI [of _ w]) simp
  then show ?thesis using fresh(1,2) assms(13) by (auto simp: op_committed_def)
qed

lemma operational_wallet_Inr:
  "operational_wallet E role walletID db = Inr w \<Longrightarrow> e_drv E = drv
     \<Longrightarrow> w \<in> set (d_wallets db) \<and> w_ID w = walletID \<and> operational w"
  using find_wallet [of "\<lambda>w. w_ID w = walletID" "d_wallets db"]
  by (auto simp: operational_wallet_def checkWalletStatus_None operational_def
      split: sum.splits mongo_error.splits option.splits)

lemma debitable_wallet_Inr:
  assumes "debitable_wallet E role walletID cur amount db = Inr w" and "e_drv E = drv"
  shows "w \<in> set (d_wallets db)" "w_ID w = walletID" "operational w"
    "CheckVelocityLimits E w amount cur (d_velocity db) = None" "0 < amount"
  using assms operational_wallet_Inr [of E role walletID db]
  by (auto simp: debitable_wallet_def HasSufficientBalance_def split: sum.splits if_splits option.splits)

end

lemma operational_wallet_status:
  "operational_wallet E role walletID db = Inl (Inr (s, m)) \<Longrightarrow> s \<noteq> SUCCESS"
  by (auto simp: operational_wallet_def split: sum.splits mongo_error.splits option.splits if_splits)

lemma debitable_wallet_status:
  "debitable_wallet E role walletID cur amount db = Inl (Inr (s, m)) \<Longrightarrow> s \<noteq> SUCCESS"
  using operational_wallet_status [of E role walletID db]
  by (auto simp: debitable_wallet_def split: sum.splits if_splits option.splits)

lemma base_single:
  "(case if c = cur then Some n else None of None \<Rightarrow> 0 | Some b \<Rightarrow> b) = net_inc [(c, n)] cur"
  by simp

lemma debit_filter_id: "debit_filter walletID cur units w \<Longrightarrow> w_ID w = walletID"
  by (simp add: debit_filter_def)

lemma debit_covered:
  assumes "debit_filter walletID cur units w" and "wallet_ok w"
  shows "0 \<le> getz (w_Balances w) c + net_inc [(cur, - units)] c"
    and "0 \<le> n \<Longrightarrow> cur \<noteq> cur' \<Longrightarrow> 0 \<le> getz (w_Balances w) c + net_inc [(cur, - units), (cur', n)] c"
proof -
  have "0 \<le> getz (w_Balances w) c" using assms(2) by (simp add: wallet_ok_iff)
  then show "0 \<le> getz (w_Balances w) c + net_inc [(cur, - units)] c"
    and "0 \<le> n \<Longrightarrow> cur \<noteq> cur' \<Longrightarrow> 0 \<le> getz (w_Balances w) c + net_inc [(cur, - units), (cur', n)] c"
    using debit_filter_covered [OF assms(2,1)] by auto
qed

subsection \<open>The three handlers\<close>

text \<open>What the handlers take from a request that passed validation.\<close>

definition funds_key :: "FundsRequest \<Rightarrow> string" where
  "funds_key req = TrimSpace (fr_IdempotencyKey req)"

definition funds_wallet :: "FundsRequest \<Rightarrow> string" where
  "funds_wallet req = TrimSpace (fr_WalletId req)"

definition funds_amount :: "FundsRequest \<Rightarrow> Money" where
  "funds_amount req = (case fr_Amount req of Some m \<Rightarrow> m | None \<Rightarrow> zero_money)"

definition funds_currency :: "FundsRequest \<Rightarrow> string" where
  "funds_currency req =
     NormalizeCurrency (if m_Currency (funds_amount req) = [] then m_CurrencyCode (funds_amount req)
                        else m_Currency (funds_amount req))"

definition funds_rail :: "FundsRequest \<Rightarrow> string" where
  "funds_rail req = (case parsePaymentRail (fr_PaymentRail req) of Inr r \<Rightarrow> r | Inl _ \<Rightarrow> [])"

definition exchange_key :: "ExchangeCurrencyRequest \<Rightarrow> string" where
  "exchange_key req = TrimSpace (xc_IdempotencyKey req)"

definition exchange_wallet :: "ExchangeCurrencyRequest \<Rightarrow> string" where
  "exchange_wallet req = TrimSpace (xc_WalletId req)"

lemma validate_funds_Inr:
  assumes "validate_funds E ctx r db = Inr (key, walletID, amt, cur, rail, req)"
  shows "r = Some req" "key = funds_key req" "walletID = funds_wallet req" "amt = funds_amount req"
    "cur = funds_currency req" "rail = funds_rail req" "0 \<le> m_Units (funds_amount req)" "key \<noteq> []"
    "cur \<noteq> []"
    "verifyWalletAccessByWalletID (e_srv E) (k_wallets (e_drv E)) ctx walletID (d_wallets db) = None"
  using assms
  by (auto simp: validate_funds_def Let_def ValidateMoney_None funds_key_def funds_wallet_def funds_amount_def
      funds_currency_def funds_rail_def split: option.splits if_splits sum.splits)

lemma validate_exchange_Inr:
  assumes "validate_exchange E ctx r db = Inr (key, walletID, fromCurr, toCurr, req)"
  shows "r = Some req" "key = exchange_key req" "walletID = exchange_wallet req"
    "fromCurr = NormalizeCurrency (xc_FromCurrency req)" "toCurr = NormalizeCurrency (xc_ToCurrency req)"
    "fromCurr \<noteq> toCurr" "0 < xc_FromAmount req"
    "fromCurr \<noteq> []" "toCurr \<noteq> []"
    "verifyWalletAccessByWalletID (e_srv E) (k_wallets (e_drv E)) ctx walletID (d_wallets db) = None"
  using assms
  by (auto simp: validate_exchange_def Let_def exchange_key_def exchange_wallet_def
      split: option.splits if_splits)

definition funds_task :: "'l2 wallet_env \<Rightarrow> bool \<Rightarrow> FundsRequest \<Rightarrow> LedgerTask" where
  "funds_task E deposit req =
     (if deposit then deposit_task else withdraw_task) E (funds_key req) (funds_rail req) (funds_wallet req)
       (m_Units (funds_amount req)) (funds_currency req)"

definition withdraw_usage :: "'l2 wallet_env \<Rightarrow> FundsRequest \<Rightarrow> wallet_db \<Rightarrow> wallet_db" where
  "withdraw_usage E req =
     (\<lambda>db. fst (RecordVelocityUsage E (e_oid E 2) (funds_wallet req) (m_Units (funds_amount req))
                 (funds_currency req) (''WITHDRAWAL_'' @ funds_rail req) db))"

text \<open>
  The outcome of a handler: a change that is new, the replay of an old one, or nothing. \<open>ok\<close>
  says whether the answer is \<open>SUCCESS\<close> under the transaction id \<open>txnID\<close>.
\<close>

definition op_outcome ::
    "'l2 wallet_env \<Rightarrow> string \<Rightarrow> string \<Rightarrow> (string \<times> int64) list \<Rightarrow> LedgerTask \<Rightarrow> (wallet_db \<Rightarrow> wallet_db)
       \<Rightarrow> 'l2 wallet_state \<Rightarrow> 'l2 wallet_state \<Rightarrow> string option \<Rightarrow> bool" where
  "op_outcome E key walletID pots task record_usage st st' answer \<longleftrightarrow>
     (case answer of
        None \<Rightarrow> st' = st
      | Some txnID \<Rightarrow> (txnID = e_oid E 0 \<and> op_committed E key walletID pots task record_usage st st')
                      \<or> op_replayed E key walletID task txnID st st')"

definition funds_answer :: "FundsResponse grpc \<Rightarrow> string option" where
  "funds_answer resp =
     (case fst resp of Some r \<Rightarrow> if fp_Status r = SUCCESS then Some (fp_TransactionId r) else None | None \<Rightarrow> None)"

definition exchange_answer :: "ExchangeCurrencyResponse grpc \<Rightarrow> string option" where
  "exchange_answer resp =
     (case fst resp of Some r \<Rightarrow> if xr_Status r = SUCCESS then Some (xr_TransactionId r) else None | None \<Rightarrow> None)"

lemma answer_simps [simp]:
  "funds_answer (None, e) = None" "exchange_answer (None, e) = None"
  "funds_answer (Some (funds_done s txn amt cur req), e) = Some txn"
  "funds_answer (Some (funds_failed s txn st m), e) = (if st = SUCCESS then Some txn else None)"
  "exchange_answer (Some (exchange_failed s txn st m), e) = (if st = SUCCESS then Some txn else None)"
  by (simp_all add: funds_answer_def exchange_answer_def funds_done_def funds_failed_def exchange_failed_def)

context wallet_store
begin

lemma run_funds_outcome:
  assumes "transaction_runner WT" and "e_drv E = drv" and "wallets_ok (d_wallets (st_db st))" and "quiet usage"
    and "\<forall>res. refuse res = None \<longrightarrow> MatchedCount res \<noteq> 0 \<or> ModifiedCount res \<noteq> 0"
    and "wallet \<in> set (d_wallets (st_db st)) \<and> w_ID wallet = walletID \<and> operational wallet"
    and "\<And>w. filt w \<Longrightarrow> w_ID w = walletID"
    and "\<And>w c. filt w \<Longrightarrow> wallet_ok w \<Longrightarrow> 0 \<le> getz (w_Balances w) c + net_inc pots c"
    and "(case base of None \<Rightarrow> 0 | Some n \<Rightarrow> n) = net_inc pots (w_Currency wallet)" and "failure \<noteq> SUCCESS"
    and "run_funds E WT (wallet_txn E key filt (inc_wallet pots base (e_now E)) refuse task usage) failure
           task walletID amt cur req st = (st', resp)"
  shows "op_outcome E key walletID pots task usage st st' (funds_answer resp)"
proof (cases "e_session E")
  case None
  let ?body = "wallet_txn E key filt (inc_wallet pots base (e_now E)) refuse task usage"
  obtain db' txn' r where w: "WT ?body (st_db st) (e_oid E 0) = (db', txn', r)" by (metis prod_cases3)
  show ?thesis
  proof (cases r)
    case (Some err)
    then have "db' = st_db st" using transaction_runner.error_rolls_back [OF assms(1)] w by blast
    then show ?thesis using None w Some assms(10,11) by (auto simp: run_funds_def op_outcome_def)
  next
    case r: None
    then have "st' = finish_op E task walletID (st\<lparr>st_db := db'\<rparr>)" "funds_answer resp = Some txn'"
      using None w assms(11) by (auto simp: run_funds_def)
    then show ?thesis
      using op_commit [OF assms(1-5) _ _ _ assms(7-9) w [unfolded r]] assms(6) by (simp add: op_outcome_def)
  qed
qed (use assms(11) in \<open>auto simp: run_funds_def op_outcome_def\<close>)

lemma DepositFunds_outcome:
  assumes "transaction_runner WT" and "e_drv E = drv" and "wallets_ok (d_wallets (st_db st))"
    and "DepositFunds E WT ctx (Some req) st = (st', resp)"
  shows "op_outcome E (funds_key req) (funds_wallet req) [(funds_currency req, m_Units (funds_amount req))]
           (funds_task E True req) (\<lambda>db. db) st st' (funds_answer resp)"
proof (cases "validate_funds E ctx (Some req) (st_db st)")
  case (Inl err)
  then show ?thesis using assms(4) by (auto simp: DepositFunds_def op_outcome_def)
next
  case (Inr p)
  obtain key walletID amt cur rail q where p: "p = (key, walletID, amt, cur, rail, q)" by (metis prod_cases6)
  note v = validate_funds_Inr [OF Inr [unfolded p]]
  note eqs = v(2-6) and q = v(1) [simplified]
  show ?thesis
  proof (cases "isWritable (e_srv E) \<and> s_mongoClient (e_srv E)")
    case rw: True
    show ?thesis
    proof (cases "operational_wallet E ''deposit'' (funds_wallet req) (st_db st)")
      case (Inl e)
      then show ?thesis using assms(4) \<open>validate_funds _ _ _ _ = _\<close> p rw eqs q
        by (auto simp: DepositFunds_def op_outcome_def split: sum.splits dest: operational_wallet_status)
    next
      case w: (Inr wallet)
      let ?c = "funds_currency req" and ?u = "m_Units (funds_amount req)"
      have "run_funds E WT (wallet_txn E (funds_key req) (\<lambda>w. w_ID w = funds_wallet req)
          (inc_wallet [(?c, ?u)] (if ?c = w_Currency wallet then Some ?u else None) (e_now E))
          (not_matched (funds_wallet req)) (funds_task E True req) (\<lambda>db. db))
          INTERNAL_ERROR (funds_task E True req) (funds_wallet req) amt cur req st = (st', resp)"
        using assms(4) Inr p rw w eqs unfolding q
        by (simp add: DepositFunds_def deposit_body_def funds_task_def Let_def split del: if_split)
      from run_funds_outcome [OF assms(1-3) quiet_id _ operational_wallet_Inr [OF w assms(2)] _ _ _ _ this]
      show ?thesis using v(7) q refuse_matched by (auto simp: wallet_ok_iff)
    qed
  qed (use assms(4) Inr p in \<open>auto simp: DepositFunds_def op_outcome_def split: if_splits\<close>)
qed

lemma WithdrawFunds_outcome:
  assumes "transaction_runner WT" and "e_drv E = drv" and "wallets_ok (d_wallets (st_db st))"
    and "WithdrawFunds E WT ctx (Some req) st = (st', resp)"
  shows "op_outcome E (funds_key req) (funds_wallet req) [(funds_currency req, - m_Units (funds_amount req))]
           (funds_task E False req) (withdraw_usage E req) st st' (funds_answer resp)"
proof (cases "validate_funds E ctx (Some req) (st_db st)")
  case (Inl err)
  then show ?thesis using assms(4) by (auto simp: WithdrawFunds_def op_outcome_def)
next
  case (Inr p)
  obtain key walletID amt cur rail q where p: "p = (key, walletID, amt, cur, rail, q)" by (metis prod_cases6)
  note v = validate_funds_Inr [OF Inr [unfolded p]]
  note eqs = v(2-6) and q = v(1) [simplified]
  let ?c = "funds_currency req" and ?u = "m_Units (funds_amount req)" and ?i = "funds_wallet req"
  show ?thesis
  proof (cases "isWritable (e_srv E) \<and> s_mongoClient (e_srv E)")
    case rw: True
    show ?thesis
    proof (cases "debitable_wallet E ''withdraw'' ?i ?c ?u (st_db st)")
      case (Inl e)
      then show ?thesis using assms(4) \<open>validate_funds _ _ _ _ = _\<close> p rw eqs q
        by (auto simp: WithdrawFunds_def op_outcome_def split: sum.splits dest: debitable_wallet_status)
    next
      case w: (Inr wallet)
      have "run_funds E WT (wallet_txn E (funds_key req) (debit_filter ?i ?c ?u)
          (inc_wallet [(?c, - ?u)] (if ?c = w_Currency wallet then Some (- ?u) else None) (e_now E))
          (not_modified ?c) (funds_task E False req) (withdraw_usage E req))
          FAILED_INSUFFICIENT_FUNDS (funds_task E False req) ?i amt cur req st = (st', resp)"
        using assms(4) Inr p rw w eqs unfolding q
        by (simp add: WithdrawFunds_def withdraw_body_def funds_task_def withdraw_usage_def Let_def split del: if_split)
      then show ?thesis
        using debitable_wallet_Inr [OF w assms(2)] refuse_matched(1)
        by (intro run_funds_outcome [OF assms(1-3), where wallet = wallet and usage = "withdraw_usage E req"])
          (auto simp: withdraw_usage_def debit_covered(1) base_single
            split del: if_split simp del: net_inc_simps dest: debit_filter_id)
    qed
  qed (use assms(4) Inr p in \<open>auto simp: WithdrawFunds_def op_outcome_def split: if_splits\<close>)
qed

end

text \<open>The amounts an exchange commits to: the units credited, the rate and the quote.\<close>

definition exchange_terms :: "'l2 wallet_env \<Rightarrow> ExchangeCurrencyRequest \<Rightarrow> int64 \<times> float64 \<times> string" where
  "exchange_terms E req =
     exchange_rate_for E (exchange_key req) (NormalizeCurrency (xc_FromCurrency req))
       (NormalizeCurrency (xc_ToCurrency req)) (xc_FromAmount req) (TrimSpace (xc_FxQuoteId req)) (e_oid E 0)"

definition exchange_pots :: "'l2 wallet_env \<Rightarrow> ExchangeCurrencyRequest \<Rightarrow> (string \<times> int64) list" where
  "exchange_pots E req =
     [(NormalizeCurrency (xc_FromCurrency req), - xc_FromAmount req),
      (NormalizeCurrency (xc_ToCurrency req), fst (exchange_terms E req))]"

definition task_of_exchange :: "'l2 wallet_env \<Rightarrow> ExchangeCurrencyRequest \<Rightarrow> LedgerTask" where
  "task_of_exchange E req =
     exchange_task E (exchange_key req) (exchange_wallet req) (NormalizeCurrency (xc_FromCurrency req))
       (xc_FromAmount req) (NormalizeCurrency (xc_ToCurrency req)) (fst (exchange_terms E req))
       (fst (snd (exchange_terms E req))) (snd (snd (exchange_terms E req)))"

definition exchange_usage :: "'l2 wallet_env \<Rightarrow> ExchangeCurrencyRequest \<Rightarrow> wallet_db \<Rightarrow> wallet_db" where
  "exchange_usage E req =
     (\<lambda>db. fst (RecordVelocityUsage E (e_oid E 2) (exchange_wallet req) (xc_FromAmount req)
                 (NormalizeCurrency (xc_FromCurrency req)) ''EXCHANGE'' db))"

lemma exchange_base:
  assumes "fc \<noteq> tc"
  shows "exchange_increments wallet fc u tc n =
    ([(fc, - u), (tc, n)], snd (exchange_increments wallet fc u tc n))"
    "(case snd (exchange_increments wallet fc u tc n) of None \<Rightarrow> 0 | Some b \<Rightarrow> b)
      = net_inc [(fc, - u), (tc, n)] (w_Currency wallet)"
  using assms by (auto simp: exchange_increments_def Let_def)

context wallet_store
begin

lemma run_exchange_outcome:
  assumes "transaction_runner WT" and "e_drv E = drv" and "wallets_ok (d_wallets (st_db st))"
    and "wallet \<in> set (d_wallets (st_db st))" and "w_ID wallet = exchange_wallet req" and "operational wallet"
    and "exchange_terms E req = (tu, rate, quote)" and "0 < tu"
    and "NormalizeCurrency (xc_FromCurrency req) \<noteq> NormalizeCurrency (xc_ToCurrency req)"
    and "run_exchange E WT (exchange_key req) wallet (exchange_wallet req) (NormalizeCurrency (xc_FromCurrency req))
           (NormalizeCurrency (xc_ToCurrency req)) (xc_FromAmount req) tu rate quote st = (st', resp)"
  shows "op_outcome E (exchange_key req) (exchange_wallet req) (exchange_pots E req) (task_of_exchange E req)
           (exchange_usage E req) st st' (exchange_answer resp)"
proof (cases "e_session E")
  case None
  let ?f = "NormalizeCurrency (xc_FromCurrency req)" and ?t = "NormalizeCurrency (xc_ToCurrency req)"
    and ?u = "xc_FromAmount req" and ?i = "exchange_wallet req"
  let ?base = "snd (exchange_increments wallet ?f ?u ?t tu)" and ?task = "task_of_exchange E req"
  let ?body = "wallet_txn E (exchange_key req) (debit_filter ?i ?f ?u)
      (inc_wallet (exchange_pots E req) ?base (e_now E)) (not_modified ?f) ?task (exchange_usage E req)"
  have pots: "exchange_pots E req = [(?f, - ?u), (?t, tu)]" using assms(7) by (simp add: exchange_pots_def)
  have task: "?task = exchange_task E (exchange_key req) ?i ?f ?u ?t tu rate quote"
    using assms(7) by (simp add: task_of_exchange_def)
  obtain db' txn' r where w: "WT ?body (st_db st) (e_oid E 0) = (db', txn', r)" by (metis prod_cases3)
  have run: "(st', resp) = (case r of
       Some err \<Rightarrow> (st\<lparr>st_db := db'\<rparr>,
          Some (exchange_failed (e_srv E) txn' FAILED_INSUFFICIENT_FUNDS (txn_msg err)), None)
     | None \<Rightarrow> (finish_op E ?task ?i (st\<lparr>st_db := db'\<rparr>),
          Some \<lparr>xr_TransactionId = txn', xr_Status = SUCCESS, xr_ErrorMessage = lit [],
                xr_HandledByRegion = s_region (e_srv E), xr_FxQuoteId = quote, xr_ExchangeRate = rate,
                xr_DebitedAmount = Some (mk_money ?f ?u), xr_CreditedAmount = Some (mk_money ?t tu)\<rparr>, None))"
    using assms(10) w None unfolding run_exchange_def task [symmetric]
    by (subst (asm) exchange_base(1) [OF assms(9)])
      (auto simp: Let_def pots exchange_usage_def split: option.splits)
  show ?thesis
  proof (cases r)
    case (Some err)
    then have "db' = st_db st" using transaction_runner.error_rolls_back [OF assms(1)] w by blast
    then show ?thesis using run Some by (auto simp: op_outcome_def)
  next
    case r: None
    then have "st' = finish_op E ?task ?i (st\<lparr>st_db := db'\<rparr>)" "exchange_answer resp = Some txn'"
      using run by (auto simp: exchange_answer_def)
    moreover have "\<forall>res. not_modified ?f res = None \<longrightarrow> MatchedCount res \<noteq> 0 \<or> ModifiedCount res \<noteq> 0"
      using refuse_matched by blast
    ultimately show ?thesis
      using op_commit [OF assms(1-3) _ _ assms(4-6) _ _ _ w [unfolded r]] debit_covered(2) [OF _ _ _ assms(9)]
        exchange_base(2) [OF assms(9)] assms(8)
      by (simp add: op_outcome_def pots debit_filter_def exchange_usage_def)
  qed
qed (use assms(10) in \<open>auto simp: run_exchange_def op_outcome_def\<close>)

lemma ExchangeCurrency_outcome:
  assumes "transaction_runner WT" and "e_drv E = drv" and "wallets_ok (d_wallets (st_db st))"
    and "ExchangeCurrency E WT ctx (Some req) st = (st', resp)"
  shows "op_outcome E (exchange_key req) (exchange_wallet req) (exchange_pots E req) (task_of_exchange E req)
           (exchange_usage E req) st st' (exchange_answer resp)"
proof (cases "validate_exchange E ctx (Some req) (st_db st)")
  case (Inl err)
  then show ?thesis using assms(4) by (auto simp: ExchangeCurrency_def op_outcome_def)
next
  case (Inr p)
  obtain key walletID fc tc q where p: "p = (key, walletID, fc, tc, q)" by (metis prod_cases5)
  note v = validate_exchange_Inr [OF Inr [unfolded p]]
  note eqs = v(2-5) and q = v(1) [simplified]
  let ?f = "NormalizeCurrency (xc_FromCurrency req)" and ?u = "xc_FromAmount req" and ?i = "exchange_wallet req"
  obtain tu rate quote where t: "exchange_terms E req = (tu, rate, quote)" by (metis prod_cases3)
  show ?thesis
  proof (cases "isWritable (e_srv E) \<and> s_mongoClient (e_srv E)")
    case rw: True
    show ?thesis
    proof (cases "debitable_wallet E ''exchange'' ?i ?f ?u (st_db st)")
      case (Inl e)
      then show ?thesis using assms(4) \<open>validate_exchange _ _ _ _ = _\<close> p rw eqs q
        by (auto simp: ExchangeCurrency_def op_outcome_def split: sum.splits dest: debitable_wallet_status)
    next
      case w: (Inr wallet)
      have run: "if tu \<le> 0 then st' = st \<and> exchange_answer resp = None
        else run_exchange E WT (exchange_key req) wallet ?i ?f (NormalizeCurrency (xc_ToCurrency req)) ?u
               tu rate quote st = (st', resp)"
        using assms(4) Inr p rw w eqs q t by (auto simp: ExchangeCurrency_def exchange_terms_def)
      then show ?thesis
        using run_exchange_outcome [OF assms(1-3) debitable_wallet_Inr(1-3) [OF w assms(2)] t _ _] v(6) eqs q
        by (auto simp: op_outcome_def split: if_splits)
    qed
  qed (use assms(4) Inr p in \<open>auto simp: ExchangeCurrency_def op_outcome_def split: if_splits\<close>)
qed

end

subsection \<open>What an outcome means\<close>

lemma finish_op_keeps:
  "d_wallets (st_db (finish_op E task walletID st)) = d_wallets (st_db st)"
  "d_idempotency (st_db (finish_op E task walletID st)) = d_idempotency (st_db st)"
  "d_velocity (st_db (finish_op E task walletID st)) = d_velocity (st_db st)"
  "d_tasks (st_db (finish_op E task walletID st)) = d_tasks (st_db (dispatch_now E task st))"
  by (simp_all add: finish_op_def invalidate_cache_def dispatch_now_keeps)

text \<open>\<open>booked\<close>: one wallet changed, one key recorded, one ledger task queued.\<close>

definition booked ::
    "'l2 wallet_env \<Rightarrow> string \<Rightarrow> string \<Rightarrow> (string \<times> int64) list \<Rightarrow> LedgerTask \<Rightarrow> wallet_db \<Rightarrow> wallet_db \<Rightarrow> bool" where
  "booked E key walletID pots task db db' \<longleftrightarrow>
     applied (e_now E) walletID pots (d_wallets db) (d_wallets db')
     \<and> d_idempotency db' = d_idempotency db @ [\<lparr>i_ID = key, i_TransactionID = e_oid E 0, i_CreatedAt = e_now E\<rparr>]
     \<and> (d_tasks db' = d_tasks db @ [task] \<or> d_tasks db' = d_tasks db @ [set_completed (e_now E) task])"

definition replayed_only :: "string \<Rightarrow> string \<Rightarrow> wallet_db \<Rightarrow> wallet_db \<Rightarrow> bool" where
  "replayed_only key txnID db db' \<longleftrightarrow>
     (\<exists>k \<in> set (d_idempotency db). i_ID k = key \<and> i_TransactionID k = txnID)
     \<and> d_wallets db' = d_wallets db \<and> d_idempotency db' = d_idempotency db \<and> d_velocity db' = d_velocity db"

context wallet_store
begin

lemma op_outcome_effect:
  assumes "op_outcome E key walletID pots task usage st st' answer" and "e_drv E = drv"
  shows "case answer of
      None \<Rightarrow> st' = st
    | Some txnID \<Rightarrow>
        if key \<in> i_ID ` set (d_idempotency (st_db st)) then replayed_only key txnID (st_db st) (st_db st')
        else txnID = e_oid E 0 \<and> booked E key walletID pots task (st_db st) (st_db st')
          \<and> (\<forall>c. pot_total c (d_wallets (st_db st')) = pot_total c (d_wallets (st_db st)) + net_inc pots c)"
proof (cases answer)
  case None
  then show ?thesis using assms(1) by (simp add: op_outcome_def)
next
  case (Some txn)
  show ?thesis
  proof (cases "op_replayed E key walletID task txn st st'")
    case True
    then show ?thesis using Some by (auto simp: op_replayed_def replayed_only_def finish_op_keeps)
  next
    case False
    then obtain db where c: "txn = e_oid E 0" "applied (e_now E) walletID pots (d_wallets (st_db st)) (d_wallets db)"
      "op_stored E key task usage (st_db st) db" "st' = finish_op E task walletID (st\<lparr>st_db := db\<rparr>)"
      using assms(1) Some by (auto simp: op_outcome_def op_committed_def)
    then have "booked E key walletID pots task (st_db st) (st_db st')"
      using dispatched_task [OF assms(2), of "st\<lparr>st_db := db\<rparr>" "d_tasks (st_db st)" task]
      by (auto simp: booked_def op_stored_def finish_op_keeps)
    moreover have "key \<notin> i_ID ` set (d_idempotency (st_db st))" using c(3) by (simp add: op_stored_def)
    ultimately show ?thesis using Some c(1,2,4) applied_total by (simp add: finish_op_keeps)
  qed
qed

end

lemma net_inc_single: "net_inc [(cur, n)] c = (if c = cur then n else 0)"
  by auto

subsection \<open>Sample requests\<close>

definition sample_funds :: "int \<Rightarrow> FundsRequest" where
  "sample_funds units =
     \<lparr>fr_IdempotencyKey = '' key-7 '', fr_WalletId = ''alice_1'',
      fr_Amount = Some \<lparr>m_Currency = [], m_Units = units, m_Nanos = 0, m_Scale = 0, m_CurrencyCode = ''usd''\<rparr>,
      fr_PaymentRail = CARD, fr_Reference = ''ref''\<rparr>"

definition sample_exchange :: ExchangeCurrencyRequest where
  "sample_exchange =
     \<lparr>xc_IdempotencyKey = ''key-8'', xc_WalletId = ''alice_1'', xc_FromCurrency = ''USD'', xc_ToCurrency = ''EUR'',
      xc_FromAmount = 10000, xc_FxQuoteId = []\<rparr>"

definition sample_deposit :: "MemoryCache wallet_state \<times> FundsResponse grpc" where
  "sample_deposit = DepositFunds sample_env run_once None (Some (sample_funds 4200)) (sample_state [])"

definition sample_withdrawal :: "MemoryCache wallet_state \<times> FundsResponse grpc" where
  "sample_withdrawal = WithdrawFunds sample_env run_once None (Some (sample_funds 4200)) (sample_state [])"

definition sample_conversion :: "MemoryCache wallet_state \<times> ExchangeCurrencyResponse grpc" where
  "sample_conversion = ExchangeCurrency sample_env run_once None (Some sample_exchange) (sample_state [])"

lemma sample_answers:
  "funds_answer (snd sample_deposit) = Some ''o''" "funds_answer (snd sample_withdrawal) = Some ''o''"
  "exchange_answer (snd sample_conversion) = Some ''o''"
  by code_simp+

subsection \<open>Properties\<close>

text \<open>
  A deposit either changes nothing, or replays a recorded request without touching a
  wallet, or credits exactly the amount to exactly one operational wallet, records the
  idempotency key and queues the ledger task from the clearing account of the payment rail.
\<close>

lemma DepositFunds_effect:
  assumes "wallet_store drv" and "transaction_runner WT" and "e_drv E = drv"
    and "wallets_ok (d_wallets (st_db st))"
    and "DepositFunds E WT ctx (Some req) st = (st', resp)"
  shows "case funds_answer resp of
      None \<Rightarrow> st' = st
    | Some txnID \<Rightarrow>
        if funds_key req \<in> i_ID ` set (d_idempotency (st_db st))
        then replayed_only (funds_key req) txnID (st_db st) (st_db st')
        else txnID = e_oid E 0
          \<and> booked E (funds_key req) (funds_wallet req) [(funds_currency req, m_Units (funds_amount req))]
              (funds_task E True req) (st_db st) (st_db st')
          \<and> (\<forall>c. pot_total c (d_wallets (st_db st')) = pot_total c (d_wallets (st_db st))
                + (if c = funds_currency req then m_Units (funds_amount req) else 0))"
  using wallet_store.op_outcome_effect [OF assms(1) wallet_store.DepositFunds_outcome [OF assms] assms(3)]
  by (simp only: net_inc_single)

text \<open>
  C24. A withdrawal either changes nothing, or replays a recorded request without touching a
  wallet, or debits exactly the amount, which the wallet held, from exactly one operational
  wallet, records the key and queues the ledger task to the clearing account.
\<close>

theorem WithdrawFunds_effect:
  assumes "wallet_store drv" and "transaction_runner WT" and "e_drv E = drv"
    and "wallets_ok (d_wallets (st_db st))"
    and "WithdrawFunds E WT ctx (Some req) st = (st', resp)"
  shows "case funds_answer resp of
      None \<Rightarrow> st' = st
    | Some txnID \<Rightarrow>
        if funds_key req \<in> i_ID ` set (d_idempotency (st_db st))
        then replayed_only (funds_key req) txnID (st_db st) (st_db st')
        else txnID = e_oid E 0
          \<and> booked E (funds_key req) (funds_wallet req) [(funds_currency req, - m_Units (funds_amount req))]
              (funds_task E False req) (st_db st) (st_db st')
          \<and> (\<forall>c. pot_total c (d_wallets (st_db st')) = pot_total c (d_wallets (st_db st))
                + (if c = funds_currency req then - m_Units (funds_amount req) else 0))"
  using wallet_store.op_outcome_effect [OF assms(1) wallet_store.WithdrawFunds_outcome [OF assms] assms(3)]
  by (simp only: net_inc_single)

theorem WithdrawFunds_effect_witness:
  "pot_total ''USD'' (d_wallets (st_db (fst sample_withdrawal))) = 100800"
proof -
  have "pot_total ''USD'' (d_wallets (st_db (sample_state []))) = 105000" "funds_currency (sample_funds 4200) = ''USD''"
    "m_Units (funds_amount (sample_funds 4200)) = 4200" "d_idempotency (st_db (sample_state [])) = []"
    by code_simp+
  then show ?thesis
    using WithdrawFunds_effect [OF sample_laws, of None "sample_funds 4200" "[]" "fst sample_withdrawal"
        "snd sample_withdrawal"] sample_answers(2) by (simp add: sample_withdrawal_def)
qed

text \<open>
  C23. An exchange moves money between two pots of one wallet: it changes nothing, or replays
  a recorded request, or takes the requested amount, which the pot held, out of one pot and
  puts the converted amount into the other, with one ledger task that says both.
\<close>

theorem ExchangeCurrency_effect:
  assumes "wallet_store drv" and "transaction_runner WT" and "e_drv E = drv"
    and "wallets_ok (d_wallets (st_db st))"
    and "ExchangeCurrency E WT ctx (Some req) st = (st', resp)"
  shows "case exchange_answer resp of
      None \<Rightarrow> st' = st
    | Some txnID \<Rightarrow>
        if exchange_key req \<in> i_ID ` set (d_idempotency (st_db st))
        then replayed_only (exchange_key req) txnID (st_db st) (st_db st')
        else txnID = e_oid E 0
          \<and> booked E (exchange_key req) (exchange_wallet req)
              [(NormalizeCurrency (xc_FromCurrency req), - xc_FromAmount req),
               (NormalizeCurrency (xc_ToCurrency req), fst (exchange_terms E req))]
              (task_of_exchange E req) (st_db st) (st_db st')
          \<and> (\<forall>c. pot_total c (d_wallets (st_db st')) = pot_total c (d_wallets (st_db st))
                + (if NormalizeCurrency (xc_FromCurrency req) = c then - xc_FromAmount req else 0)
                + (if NormalizeCurrency (xc_ToCurrency req) = c then fst (exchange_terms E req) else 0))"
  using wallet_store.op_outcome_effect [OF assms(1) wallet_store.ExchangeCurrency_outcome [OF assms] assms(3)]
  by (simp only: exchange_pots_def net_inc_simps add_0_right add.assoc)

theorem ExchangeCurrency_effect_witness:
  "pot_total ''USD'' (d_wallets (st_db (fst sample_conversion))) = 95000
   \<and> pot_total ''EUR'' (d_wallets (st_db (fst sample_conversion))) = 1400 + fst (exchange_terms sample_env sample_exchange)"
proof -
  have "pot_total ''USD'' (d_wallets (st_db (sample_state []))) = 105000"
    "pot_total ''EUR'' (d_wallets (st_db (sample_state []))) = 1400"
    "NormalizeCurrency (xc_FromCurrency sample_exchange) = ''USD''"
    "NormalizeCurrency (xc_ToCurrency sample_exchange) = ''EUR''" "xc_FromAmount sample_exchange = 10000"
    "d_idempotency (st_db (sample_state [])) = []"
    by code_simp+
  then show ?thesis
    using ExchangeCurrency_effect [OF sample_laws, of None sample_exchange "[]" "fst sample_conversion"
        "snd sample_conversion"] sample_answers(3) by (simp add: sample_conversion_def)
qed

end
