(* ===== verification/WalletGuards.thy ===== *)
theory WalletGuards
  imports WalletOpsProofs
begin

text \<open>
  What the handlers refuse, whatever else a request says: writes on a standby replica, callers
  who may not touch a wallet, movements on a frozen or closed wallet. And what a client sees
  of a wallet after it was created or its status changed.
\<close>

subsection \<open>Standby\<close>

text \<open>
  C28. A replica that is not writable (its coordinator names another role, or cannot be
  reached) changes nothing, in the database or in its cache, through any handler that creates
  a wallet or moves money.
\<close>

theorem standby_writes_nothing:
  assumes "\<not> isWritable (e_srv E)"
  shows "fst (CreateWallet E ctx rc st) = st \<and> fst (TransferFunds E WT ctx rt st) = st
    \<and> fst (ExchangeCurrency E WT' ctx rx st) = st \<and> fst (DepositFunds E WT' ctx rd st) = st
    \<and> fst (WithdrawFunds E WT' ctx rd st) = st"
proof -
  have "fst (CreateWallet E ctx rc st) = st"
    using assms by (auto simp: CreateWallet_def split: option.splits)
  moreover have "validateTransferRequest E rt (st_db st) \<noteq> (None, None)"
    using assms by (auto simp: validateTransferRequest_def Let_def split: option.splits)
  then have "fst (TransferFunds E WT ctx rt st) = st"
    by (auto simp: TransferFunds_def split: option.splits prod.splits)
  ultimately show ?thesis
    using assms by (auto simp: ExchangeCurrency_def DepositFunds_def WithdrawFunds_def split: sum.splits)
qed

theorem standby_writes_nothing_witness:
  "fst (DepositFunds (sample_env\<lparr>e_srv := sample_server\<lparr>s_coordinator := Some (Inr ''SECONDARY'')\<rparr>\<rparr>) run_once None
      (Some (sample_funds 4200)) (sample_state [])) = sample_state []"
proof -
  have "\<not> isWritable (e_srv (sample_env\<lparr>e_srv := sample_server\<lparr>s_coordinator := Some (Inr ''SECONDARY'')\<rparr>\<rparr>))"
    by code_simp
  from standby_writes_nothing [OF this] show ?thesis by blast
qed

subsection \<open>Access\<close>

text \<open>
  The callers a wallet accepts: internal ones without an identity, administrators, those
  whose name the wallet's identifier carries, and the stored owner.
\<close>

definition may_access :: "metadata \<Rightarrow> string \<Rightarrow> WalletModel list \<Rightarrow> bool" where
  "may_access ctx walletID ws \<longleftrightarrow>
     (let caller = callerFromContext ctx
      in c_UserID caller = [] \<or> IsAdmin caller
         \<or> owns_by_name (ToLower (c_UserID caller)) (ToLower walletID)
         \<or> (\<exists>w \<in> set ws. w_ID w = walletID \<and> w_OwnerID w \<noteq> [] \<and> EqualFold (w_OwnerID w) (c_UserID caller)))"

context wallet_store
begin

lemma access_granted:
  assumes "verifyWalletAccessByWalletID s (k_wallets drv) ctx walletID ws = None"
  shows "may_access ctx walletID ws"
  using assms find_wallet [of "\<lambda>w. w_ID w = walletID" ws]
  by (fastforce simp: verifyWalletAccessByWalletID_def may_access_def Let_def split: if_splits sum.splits)

lemma transfer_access:
  assumes "TransferFunds E WT ctx (Some req) st = (st', Some r, e)" and "tr_Status r = SUCCESS" and "e_drv E = drv"
  shows "may_access ctx (tf_SourceWalletId req) (d_wallets (st_db st))"
proof (cases "validateTransferRequest E (Some req) (st_db st) = (None, None)")
  case True
  then show ?thesis
    using assms by (intro access_granted [of "e_srv E"]) (auto simp: TransferFunds_def split: option.splits)
next
  case False
  then have "fst (validateTransferRequest E (Some req) (st_db st)) = Some r"
    using assms(1) by (auto simp: TransferFunds_def split: prod.splits option.splits)
  then show ?thesis using validate_refuses assms(2) by blast
qed

lemma exchange_access:
  assumes "ExchangeCurrency E WT ctx (Some req) st = (st', Some r, e)" and "e_drv E = drv"
  shows "may_access ctx (exchange_wallet req) (d_wallets (st_db st))"
proof (cases "validate_exchange E ctx (Some req) (st_db st)")
  case (Inl err)
  then show ?thesis using assms(1) by (simp add: ExchangeCurrency_def)
next
  case (Inr p)
  obtain key walletID fc tc q where "p = (key, walletID, fc, tc, q)" by (metis prod_cases5)
  from validate_exchange_Inr [OF Inr [unfolded this]] show ?thesis
    using access_granted [of "e_srv E" ctx] assms(2) by simp
qed

lemma withdraw_access:
  assumes "WithdrawFunds E WT ctx (Some req) st = (st', Some r, e)" and "e_drv E = drv"
  shows "may_access ctx (funds_wallet req) (d_wallets (st_db st))"
proof (cases "validate_funds E ctx (Some req) (st_db st)")
  case (Inl err)
  then show ?thesis using assms(1) by (simp add: WithdrawFunds_def)
next
  case (Inr p)
  obtain key walletID amt cur rail q where "p = (key, walletID, amt, cur, rail, q)" by (metis prod_cases6)
  from validate_funds_Inr [OF Inr [unfolded this]] show ?thesis
    using access_granted [of "e_srv E" ctx] assms(2) by simp
qed

lemma balance_access:
  assumes "GetBalance E ctx (Some i) st = (st', Some r, e)" and "e_drv E = drv"
  shows "may_access ctx (TrimSpace i) (d_wallets (st_db st))"
  using assms
  by (intro access_granted [of "e_srv E"]) (auto simp: GetBalance_def Let_def split: if_splits option.splits)

end

text \<open>
  C27. Money leaves a wallet, and its balance is shown, only for a caller the wallet accepts:
  if a transfer reports \<open>SUCCESS\<close>, an exchange or a withdrawal gets any answer but an error,
  or a balance query returns balances, then the caller may access the (source) wallet.
\<close>

theorem wallet_access_control:
  assumes "wallet_store drv" and "e_drv E = drv"
  shows "(TransferFunds E WT ctx (Some rt) st = (st1, Some r1, e1) \<and> tr_Status r1 = SUCCESS
        \<longrightarrow> may_access ctx (tf_SourceWalletId rt) (d_wallets (st_db st)))
    \<and> (ExchangeCurrency E WT' ctx (Some rx) st = (st2, Some r2, e2)
        \<longrightarrow> may_access ctx (exchange_wallet rx) (d_wallets (st_db st)))
    \<and> (WithdrawFunds E WT' ctx (Some rd) st = (st3, Some r3, e3)
        \<longrightarrow> may_access ctx (funds_wallet rd) (d_wallets (st_db st)))
    \<and> (GetBalance E ctx (Some i) st = (st4, Some r4, e4)
        \<longrightarrow> may_access ctx (TrimSpace i) (d_wallets (st_db st)))"
  using wallet_store.transfer_access [OF assms(1) _ _ assms(2)] wallet_store.exchange_access [OF assms(1) _ assms(2)]
    wallet_store.withdraw_access [OF assms(1) _ assms(2)] wallet_store.balance_access [OF assms(1) _ assms(2)] by auto

definition mallory :: metadata where
  "mallory = Some [(''x-user-id'', [''mallory'']), (''x-user-roles'', [''user''])]"

theorem wallet_access_control_witness:
  "\<not> may_access mallory ''alice_1'' (d_wallets (st_db (sample_state [])))
   \<and> fst (snd (WithdrawFunds sample_env run_once mallory (Some (sample_funds 4200)) (sample_state []))) = None"
proof -
  have no: "\<not> may_access mallory ''alice_1'' (d_wallets (st_db (sample_state [])))"
    "funds_wallet (sample_funds 4200) = ''alice_1''" by code_simp+
  let ?r = "WithdrawFunds sample_env run_once mallory (Some (sample_funds 4200)) (sample_state [])"
  have "fst (snd ?r) = None"
  proof (rule ccontr)
    assume "fst (snd ?r) \<noteq> None"
    then obtain a where "?r = (fst ?r, Some a, snd (snd ?r))" by (metis option.exhaust prod.collapse)
    then show False
      using wallet_access_control [OF mem_store.wallet_store_axioms sample_env_drv, where ctx = mallory
          and WT' = run_once and rd = "sample_funds 4200" and st = "sample_state []" and ?st3.0 = "fst ?r"
          and ?r3.0 = a and ?e3.0 = "snd (snd ?r)"] no by simp
  qed
  with no show ?thesis by simp
qed

subsection \<open>Freezing a wallet\<close>

lemma nonoperational_no_op:
  assumes "op_outcome E key walletID pots task usage st st' answer" and "wallets_ok (d_wallets (st_db st))"
    and "w \<in> set (d_wallets (st_db st))" and "w_ID w = walletID" and "\<not> operational w"
  shows "d_wallets (st_db st') = d_wallets (st_db st)"
proof -
  have "distinct (map w_ID (d_wallets (st_db st)))" using assms(2) by (simp add: wallets_ok_def)
  then have "w = d_wallets (st_db st) ! i"
    if "i < length (d_wallets (st_db st))" "w_ID (d_wallets (st_db st) ! i) = walletID" for i
    using that assms(3,4) distinct_ids_eq nth_mem by metis
  then have "\<not> applied now walletID pots (d_wallets (st_db st)) ws'" for now ws'
    using assms(5) unfolding applied_def by metis
  then show ?thesis using assms(1)
    by (auto simp: op_outcome_def op_committed_def op_replayed_def finish_op_keeps split: option.splits)
qed

text \<open>A change of a wallet's fields outside its balances keeps the wallets sound.\<close>

lemma wallets_ok_fields:
  assumes "wallets_ok ws" and "i < length ws" and "w_ID w' = w_ID (ws ! i)" and "w_Currency w' = w_Currency (ws ! i)"
    and "w_Balance w' = w_Balance (ws ! i)" and "w_Balances w' = w_Balances (ws ! i)"
  shows "wallets_ok (ws[i := w'])" and "pot_total c (ws[i := w']) = pot_total c ws"
proof -
  have "wallet_ok (ws ! i)" using assms(1,2) by (auto simp: wallets_ok_def list_all_length)
  then have "wallet_ok w'" using assms(4-6) by (simp add: wallet_ok_def)
  then show "wallets_ok (ws[i := w'])" using wallets_ok_update [OF assms(1,2)] assms(3) by simp
  show "pot_total c (ws[i := w']) = pot_total c ws" using assms(2,6) by (simp add: pot_total_update)
qed

context wallet_store
begin

lemma UpdateWalletStatus_cases:
  assumes "UpdateWalletStatus E walletID status st = (st', r)" and "e_drv E = drv"
  obtains (unchanged) e where "r = Some e" "st' = st"
  | (changed) i where "r = None" "i < length (d_wallets (st_db st))" "w_ID (d_wallets (st_db st) ! i) = walletID"
      "st' = invalidate_cache E [walletID] (st\<lparr>st_db := (st_db st)\<lparr>d_wallets := (d_wallets (st_db st))
         [i := (d_wallets (st_db st) ! i)\<lparr>w_Status := status, w_UpdatedAt := unix_second (e_now E)\<rparr>]\<rparr>\<rparr>)"
proof (cases "s_mongoClient (e_srv E)")
  case True
  let ?u = "\<lambda>w. Some (w\<lparr>w_Status := status, w_UpdatedAt := unix_second (e_now E)\<rparr>)"
  show thesis
  proof (cases rule: wallets.UpdateOne_cases [of "\<lambda>w. w_ID w = walletID" ?u "d_wallets (st_db st)"])
    case (err e)
    then show thesis using unchanged [of e] assms True by (simp add: UpdateWalletStatus_def)
  next
    case (nomatch q)
    then show thesis using unchanged [of ErrNoDocuments] assms True by (simp add: UpdateWalletStatus_def)
  next
    case (match i d q)
    then show thesis using changed [of i] assms True by (simp add: UpdateWalletStatus_def)
  qed
next
  case False
  then show thesis using unchanged assms(1) by (auto simp: UpdateWalletStatus_def)
qed

lemma status_update_cases:
  assumes "handleAdminWalletStatusUpdate E (Inr req) st = (st', code, a)" and "e_drv E = drv"
  obtains (unchanged) "st' = st" "code \<noteq> 200"
  | (changed) status i where "i < length (d_wallets (st_db st))" "w_ID (d_wallets (st_db st) ! i) = ar_WalletID a"
      "status = ar_Status a" "status \<in> {WalletStatusActive, WalletStatusFrozen, WalletStatusClosed}"
      "st' = invalidate_cache E [ar_WalletID a] (st\<lparr>st_db := (st_db st)\<lparr>d_wallets := (d_wallets (st_db st))
         [i := (d_wallets (st_db st) ! i)\<lparr>w_Status := status, w_UpdatedAt := unix_second (e_now E)\<rparr>]\<rparr>\<rparr>)"
proof -
  let ?i = "TrimSpace (aq_WalletID req)" and ?s = "ToUpper (TrimSpace (aq_Status req))"
  obtain st1 r where u: "UpdateWalletStatus E ?i ?s st = (st1, r)" by fastforce
  show thesis
  proof (cases "?i \<noteq> [] \<and> ?s \<in> {WalletStatusActive, WalletStatusFrozen, WalletStatusClosed}")
    case True
    show thesis
      using u assms(2)
    proof (cases rule: UpdateWalletStatus_cases)
      case (unchanged e)
      then show thesis using that(1) u assms(1) True
        by (auto simp: handleAdminWalletStatusUpdate_def Let_def split: mongo_error.splits)
    next
      case (changed k)
      have "handleAdminWalletStatusUpdate E (Inr req) st
          = (st1, 200, admin_answer True ?i ?s (Msg ''Wallet %s status updated to %s'' [ArgS ?i, ArgS ?s]))"
        using u changed(1) True by (auto simp: handleAdminWalletStatusUpdate_def Let_def)
      then have a: "ar_WalletID a = ?i" "ar_Status a = ?s" "st' = st1"
        using assms(1) by (auto simp: admin_answer_def)
      show thesis
        by (rule that(2) [OF changed(2), of ?s]) (use True changed(3,4) in \<open>simp_all only: a\<close>)
    qed
  next
    case False
    then show thesis using that(1) assms(1)
      by (auto simp: handleAdminWalletStatusUpdate_def Let_def split: if_splits)
  qed
qed

end


definition freeze_request :: AdminWalletStatusRequest where
  "freeze_request = \<lparr>aq_WalletID = ''alice_1'', aq_Status = '' frozen '', aq_Reason = ''fraud''\<rparr>"


subsection \<open>Creating a wallet\<close>

definition create_currency :: "CreateWalletRequest \<Rightarrow> string" where
  "create_currency req = NormalizeCurrency (cw_Currency req)"

lemma valid_currency_nonempty: "IsValidCurrency c \<Longrightarrow> NormalizeCurrency c \<noteq> []"
  by (auto simp: IsValidCurrency_def SupportedCurrencies_def)

context wallet_store
begin

lemma CreateWallet_cases:
  assumes "CreateWallet E ctx (Some req) st = (st', resp)" and "e_drv E = drv"
  obtains (refused) "st' = st" "fst resp = None"
  | (created) w r where "resp = (Some r, None)" "IsValidCurrency (cw_Currency req)" "0 \<le> cw_InitialBalance req"
      "w_ID w = cw_WalletId req" "w_Currency w = create_currency req" "w_Balance w = cw_InitialBalance req"
      "w_Balances w = [(create_currency req, cw_InitialBalance req)]" "w_Status w = WalletStatusActive"
      "\<not> list_ex (wallet_conflict w) (d_wallets (st_db st))"
      "st' = invalidate_cache E [cw_WalletId req]
         (st\<lparr>st_db := (st_db st)\<lparr>d_wallets := d_wallets (st_db st) @ [w]\<rparr>\<rparr>)"
proof -
  let ?k0 = "TrimSpace (cw_KycTier req)" and ?caller = "callerFromContext ctx"
  let ?tier = "if ?k0 = [] then KYCTier1 else ?k0" and ?b = "cw_InitialBalance req"
  define w where "w = \<lparr>w_ID = cw_WalletId req, w_OwnerID = new_wallet_owner ?caller req,
     w_CreatedBy = new_wallet_creator ?caller req, w_Currency = create_currency req, w_Balance = ?b,
     w_Balances = [(create_currency req, ?b)], w_Status = WalletStatusActive, w_KYCTier = ?tier, w_Region = [],
     w_UpdatedAt = unix_second (e_now E)\<rparr>"
  show thesis
  proof (cases "TrimSpace (cw_WalletId req) = [] \<or> \<not> IsValidCurrency (cw_Currency req) \<or> ?b < 0
      \<or> \<not> isWritable (e_srv E) \<or> \<not> s_mongoClient (e_srv E) \<or> map_of TierConfigs ?tier = None")
    case True
    then show thesis using refused assms(1) by (auto simp: CreateWallet_def Let_def split: if_splits)
  next
    case False
    then have cur: "create_currency req \<noteq> []" using valid_currency_nonempty by (simp add: create_currency_def)
    have run: "CreateWallet E ctx (Some req) st =
      (case InsertOne (k_wallets drv) w (d_wallets (st_db st)) of
         (ws, Some err) \<Rightarrow> (st\<lparr>st_db := (st_db st)\<lparr>d_wallets := ws\<rparr>\<rparr>, None,
            Some (if IsDuplicateKeyError err
                  then StatusErr AlreadyExists (Msg ''wallet %s already exists'' [ArgS (cw_WalletId req)])
                  else StatusErr Internal (Msg ''failed to create wallet: %v'' [ArgE (err_msg err)])))
       | (ws, None) \<Rightarrow> (invalidate_cache E [cw_WalletId req] (st\<lparr>st_db := (st_db st)\<lparr>d_wallets := ws\<rparr>\<rparr>),
            Some \<lparr>cwr_Success = True, cwr_Message = Msg ''Wallet %s created successfully'' [ArgS (cw_WalletId req)],
                  cwr_HandledByRegion = s_region (e_srv E)\<rparr>, None))"
      using False cur assms(2) by (auto simp: CreateWallet_def Let_def w_def create_currency_def)
    show thesis
    proof (cases rule: wallets.InsertOne_cases [of w "d_wallets (st_db st)"])
      case ok
      show thesis
        by (rule created [where w = w]) (use ok run assms(1) False in \<open>auto simp: w_def\<close>)
    next
      case (err e)
      then show thesis using refused run assms(1) by auto
    qed
  qed
qed

end

lemma new_wallet_ok:
  assumes "w_Balances w = [(c, b)]" and "w_Currency w = c" and "w_Balance w = b" and "c \<noteq> []"
    and "0 \<le> b" and "fits64 b"
  shows "wallet_ok w"
  using assms by (simp add: wallet_ok_def gomap_ok_def)

lemma wallets_ok_append:
  assumes "wallets_ok ws" and "wallet_ok w" and "\<not> list_ex (wallet_conflict w) ws"
  shows "wallets_ok (ws @ [w])"
  using assms by (auto simp: wallets_ok_def wallet_conflict_def list_ex_iff)

text \<open>
  A new wallet can be read back: the first balance query after a wallet was created, on
  any replica that shares the database and the second cache level, shows the initial balance
  in the wallet's currency and the status \<open>ACTIVE\<close>, provided the identifier has no
  surrounding blanks. (With blanks the wallet is stored under them and never found.)
\<close>

lemma CreateWallet_GetBalance_roundtrip:
  assumes "wallet_store drv" and "e_drv E = drv" and "e_drv E2 = drv" and "wallets_ok (d_wallets (st_db st))"
    and "reliable_store (e_l2 E) stored" and "e_l2 E2 = e_l2 E"
    and "CreateWallet E ctx (Some req) st = (st1, Some r, err)"
    and "TrimSpace (cw_WalletId req) = cw_WalletId req" and "cw_WalletId req \<noteq> []"
    and "GetBalance E2 ctx2 (Some (cw_WalletId req)) st1 = (st2, Some b, err2)"
  shows "b = \<lparr>gb_WalletId = cw_WalletId req,
              gb_Balances = [mk_money (create_currency req) (cw_InitialBalance req)],
              gb_HandledByRegion = s_region (e_srv E2), gb_Status = WalletStatusActive\<rparr>"
proof -
  let ?i = "cw_WalletId req"
  from assms(7,2) obtain w where w: "w_ID w = ?i" "w_Currency w = create_currency req"
      "w_Balances w = [(create_currency req, cw_InitialBalance req)]" "w_Status w = WalletStatusActive"
      "\<not> list_ex (wallet_conflict w) (d_wallets (st_db st))"
      "st1 = invalidate_cache E [?i] (st\<lparr>st_db := (st_db st)\<lparr>d_wallets := d_wallets (st_db st) @ [w]\<rparr>\<rparr>)"
    by (cases rule: wallet_store.CreateWallet_cases [OF assms(1)]) auto
  have miss: "snd (cached_balance E2 ?i st1) = None" "st_db (fst (cached_balance E2 ?i st1)) = st_db st1"
    using reliable_store.Get_after_Invalidate_misses [OF assms(5), of ?i "[?i]" "e_now E2"] assms(6,9) w(6)
    by (auto simp: cached_balance_def invalidate_cache_def split_def split: option.splits)
  have found: "d = w" if "FindOne (k_wallets drv) (\<lambda>w. w_ID w = ?i) None (d_wallets (st_db st1)) = Inr d" for d
    using wallet_store.find_wallet [OF assms(1) that] w(1,5,6)
    by (auto simp: invalidate_cache_def list_ex_iff wallet_conflict_def)
  obtain st3 where c: "cached_balance E2 ?i st1 = (st3, None)" "st_db st3 = st_db st1"
    using miss by (cases "cached_balance E2 ?i st1") auto
  have "b = \<lparr>gb_WalletId = ?i, gb_Balances = GetAllBalances w, gb_HandledByRegion = s_region (e_srv E2),
             gb_Status = EffectiveStatus w\<rparr>"
    using assms(10) c assms(3,8,9) found
    by (auto simp: GetBalance_def Let_def split: if_splits option.splits sum.splits mongo_error.splits)
  then show ?thesis using w(3,4)
    by (simp add: GetAllBalances_def EffectiveStatus_def WalletStatusActive_def)
qed

definition sample_create :: CreateWalletRequest where
  "sample_create = \<lparr>cw_WalletId = ''carol_1'', cw_Currency = ''jpy'', cw_InitialBalance = 900, cw_KycTier = [],
                    cw_OwnerId = [], cw_CreatedBy = []\<rparr>"

end
