(* ===== verification/RelayLease.thy ===== *)
theory RelayLease
  imports LedgerOutbox
begin

text \<open>
  Who relays, and when (\<open>cmd/wallet-service/ledger_outbox.go\<close>): the leadership lease in
  MongoDB, the randomised exponential backoff, and one tick of the relay loop. Several pods
  compete for the lease, so its correctness is a property of all reachable states of a step
  relation over their calls. The pods read one clock.
\<close>

subsection \<open>The lease\<close>

record RelayLeaseDoc =
  rl_ID :: string
  rl_HolderID :: string
  rl_AcquiredAt :: int
  rl_ExpiresAt :: int

record MongoRelayLeaseManager =
  lm_holderID :: string
  lm_ttl :: int
  lm_leaseID :: string
  lm_initialised :: bool

definition DefaultRelayLeaseDocID :: string where
  "DefaultRelayLeaseDocID = ''ledger_outbox_relay''"

definition DefaultLeaseTTL :: int where
  "DefaultLeaseTTL = 10000000000"

text \<open>\<open>resolved\<close> is the instance identifier that stands in for an empty holder.\<close>

definition NewMongoRelayLeaseManager :: "string \<Rightarrow> string \<Rightarrow> int \<Rightarrow> MongoRelayLeaseManager" where
  "NewMongoRelayLeaseManager resolved holderID ttl =
     \<lparr>lm_holderID = (if holderID = [] then resolved else holderID),
      lm_ttl = (if ttl \<le> 0 then DefaultLeaseTTL else ttl),
      lm_leaseID = DefaultRelayLeaseDocID, lm_initialised = False\<rparr>"

definition ensureDocExists ::
    "RelayLeaseDoc collection_ops \<Rightarrow> MongoRelayLeaseManager \<Rightarrow> RelayLeaseDoc list
       \<Rightarrow> RelayLeaseDoc list \<times> mongo_error option" where
  "ensureDocExists col m ds =
     UpsertOne col (\<lambda>d. rl_ID d = lm_leaseID m) (\<lambda>d. Some d)
       \<lparr>rl_ID = lm_leaseID m, rl_HolderID = [], rl_AcquiredAt = 0, rl_ExpiresAt = 0\<rparr> ds"

definition TryAcquireOrRenew ::
    "RelayLeaseDoc collection_ops option \<Rightarrow> int \<Rightarrow> MongoRelayLeaseManager \<Rightarrow> RelayLeaseDoc list
       \<Rightarrow> MongoRelayLeaseManager \<times> RelayLeaseDoc list \<times> (gomsg + bool)" where
  "TryAcquireOrRenew c now m ds =
     (case c of
        None \<Rightarrow> (m, ds, Inr True)
      | Some col \<Rightarrow>
          (let ds = (if lm_initialised m then ds else fst (ensureDocExists col m ds));
               m = m\<lparr>lm_initialised := True\<rparr>;
               expiresAt = now + lm_ttl m
           in case FindOneAndUpdate col
                     (\<lambda>d. rl_ID d = lm_leaseID m
                        \<and> (rl_HolderID d = lm_holderID m \<or> rl_ExpiresAt d < now))
                     (\<lambda>d. Some (d\<lparr>rl_HolderID := lm_holderID m, rl_AcquiredAt := now,
                                  rl_ExpiresAt := expiresAt\<rparr>)) ds of
                (ds, Inl ErrNoDocuments) \<Rightarrow> (m, ds, Inr False)
              | (ds, Inl err) \<Rightarrow> (m, ds, Inl (Msg ''lease election query failed: %w'' [ArgE (err_msg err)]))
              | (ds, Inr result) \<Rightarrow> (m, ds, Inr (rl_HolderID result = lm_holderID m))))"

definition Release ::
    "RelayLeaseDoc collection_ops option \<Rightarrow> MongoRelayLeaseManager \<Rightarrow> RelayLeaseDoc list
       \<Rightarrow> RelayLeaseDoc list \<times> gomsg option" where
  "Release c m ds =
     (case c of
        None \<Rightarrow> (ds, None)
      | Some col \<Rightarrow>
          (case UpdateOne col
                  (\<lambda>d. rl_ID d = lm_leaseID m \<and> rl_HolderID d = lm_holderID m)
                  (\<lambda>d. Some (d\<lparr>rl_HolderID := [], rl_ExpiresAt := 0\<rparr>)) ds of
             (ds, Inl e) \<Rightarrow> (ds, Some (err_msg e))
           | (ds, Inr r) \<Rightarrow> (ds, None)))"

subsection \<open>Backoff\<close>

record LedgerRelay =
  r_pollInterval :: int
  r_maxBackoff :: int
  r_batchSize :: nat
  r_isLeader :: bool
  r_consecutiveFailures :: int

definition NewLedgerRelay :: "int \<Rightarrow> int \<Rightarrow> int option \<Rightarrow> LedgerRelay" where
  "NewLedgerRelay pollInterval batchSize withMaxBackoff =
     \<lparr>r_pollInterval = (if pollInterval \<le> 0 then 1000000000 else pollInterval),
      r_maxBackoff = (case withMaxBackoff of Some d \<Rightarrow> if 0 < d then d else 30000000000
                                           | None \<Rightarrow> 30000000000),
      r_batchSize = nat (if batchSize \<le> 0 then 50 else batchSize),
      r_isLeader = False, r_consecutiveFailures = 0\<rparr>"

text \<open>
  The cap of the exponential, \<open>min(pollInterval * 2^(n-1), maxBackoff)\<close> in floating point;
  \<open>math.Pow\<close> is infinite from \<open>2^1024\<close> on, where the comparison takes the maximum. \<open>rnd m\<close> is
  \<open>rand.Int(rand.Reader, m)\<close>.
\<close>

definition capInterval :: "int \<Rightarrow> int \<Rightarrow> int \<Rightarrow> float64" where
  "capInterval pollInterval maxBackoff consecutiveErrors =
     (if 1024 < consecutiveErrors then float_of_int maxBackoff
      else (let c = fmul (float_of_int pollInterval) (2 ^ nat (consecutiveErrors - 1))
            in if float_of_int maxBackoff < c then float_of_int maxBackoff else c))"

definition CalculateBackoff :: "(int \<Rightarrow> gomsg + int) \<Rightarrow> LedgerRelay \<Rightarrow> int \<Rightarrow> int" where
  "CalculateBackoff rnd r consecutiveErrors =
     (if consecutiveErrors \<le> 0 then r_pollInterval r
      else (let maxBackoff = (if r_maxBackoff r \<le> 0 then 30000000000 else r_maxBackoff r)
            in if maxBackoff \<le> r_pollInterval r then r_pollInterval r
               else (let jitterRange = fsub (capInterval (r_pollInterval r) maxBackoff consecutiveErrors)
                                            (float_of_int (r_pollInterval r))
                     in if jitterRange \<le> 0 then r_pollInterval r
                        else (case rnd (int64_of_float jitterRange) of
                                Inl err \<Rightarrow> r_pollInterval r
                              | Inr n \<Rightarrow> r_pollInterval r + n))))"

subsection \<open>One tick of the relay\<close>

record 'l LeaseManager =
  lmo_TryAcquireOrRenew :: "int \<Rightarrow> 'l \<Rightarrow> 'l \<times> (gomsg + bool)"
  lmo_Release :: "'l \<Rightarrow> 'l \<times> gomsg option"

definition mongo_lease ::
    "RelayLeaseDoc collection_ops option \<Rightarrow> (MongoRelayLeaseManager \<times> RelayLeaseDoc list) LeaseManager" where
  "mongo_lease c =
     \<lparr>lmo_TryAcquireOrRenew = (\<lambda>now (m, ds). case TryAcquireOrRenew c now m ds of (m, ds, r) \<Rightarrow> ((m, ds), r)),
      lmo_Release = (\<lambda>(m, ds). case Release c m ds of (ds, r) \<Rightarrow> ((m, ds), r))\<rparr>"

definition IsLeader :: "'l LeaseManager option \<Rightarrow> LedgerRelay \<Rightarrow> bool" where
  "IsLeader L r = (case L of None \<Rightarrow> True | Some _ \<Rightarrow> r_isLeader r)"

definition lease_check ::
    "'l LeaseManager option \<Rightarrow> int \<Rightarrow> LedgerRelay \<Rightarrow> 'l \<Rightarrow> LedgerRelay \<times> 'l \<times> bool" where
  "lease_check L now r l =
     (case L of
        None \<Rightarrow> (r, l, False)
      | Some lm \<Rightarrow>
          (case lmo_TryAcquireOrRenew lm now l of
             (l, Inl err) \<Rightarrow> (r, l, True)
           | (l, Inr hasLease) \<Rightarrow>
               if \<not> hasLease then ((if IsLeader L r then r\<lparr>r_isLeader := False\<rparr> else r), l, False)
               else ((if \<not> IsLeader L r then r\<lparr>r_isLeader := True\<rparr> else r), l, False)))"

definition relay_tick ::
    "'l LeaseManager option \<Rightarrow> 's LedgerTaskStore option \<Rightarrow> (nat \<Rightarrow> ledger_client)
       \<Rightarrow> (int \<Rightarrow> gomsg + int) \<Rightarrow> int \<Rightarrow> LedgerRelay \<Rightarrow> 'l \<Rightarrow> 's \<Rightarrow> LedgerRelay \<times> 'l \<times> 's \<times> int" where
  "relay_tick L store client rnd now r l s =
     (case lease_check L now r l of
        (r, l, hadError) \<Rightarrow>
          (case (if \<not> hadError \<and> IsLeader L r
                 then (case ProcessBatch store client (r_batchSize r) now s of
                         (s, cnt, err) \<Rightarrow> (s, err \<noteq> None))
                 else (s, hadError)) of
             (s, hadError) \<Rightarrow>
               if hadError
               then (let r = r\<lparr>r_consecutiveFailures := r_consecutiveFailures r + 1\<rparr>
                     in (r, l, s, CalculateBackoff rnd r (r_consecutiveFailures r)))
               else (r\<lparr>r_consecutiveFailures := 0\<rparr>, l, s, r_pollInterval r)))"

definition relay_shutdown :: "'l LeaseManager option \<Rightarrow> LedgerRelay \<Rightarrow> 'l \<Rightarrow> 'l" where
  "relay_shutdown L r l =
     (case L of
        None \<Rightarrow> l
      | Some lm \<Rightarrow> if IsLeader L r then fst (lmo_Release lm l) else l)"

subsection \<open>Reachable states of the lease\<close>

definition lease_conflict :: "RelayLeaseDoc \<Rightarrow> RelayLeaseDoc \<Rightarrow> bool" where
  "lease_conflict a b \<longleftrightarrow> rl_ID a = rl_ID b"

text \<open>
  \<open>until h\<close> is the expiry of the last lease that pod \<open>h\<close> was granted and has not given up.
  An election query that fails tells a pod nothing: its lease runs on until it expires.
\<close>

inductive lease_reach ::
    "RelayLeaseDoc collection_ops \<Rightarrow> string \<Rightarrow> int \<Rightarrow> RelayLeaseDoc list \<Rightarrow> (string \<Rightarrow> int option) \<Rightarrow> bool"
  for M L where
  init: "lease_reach M L 0 [] (\<lambda>_. None)"
| granted: "lease_reach M L t ds u \<Longrightarrow> t \<le> now \<Longrightarrow> lm_leaseID m = L \<Longrightarrow>
    TryAcquireOrRenew (Some M) now m ds = (m', ds', Inr True) \<Longrightarrow>
    lease_reach M L now ds' (u(lm_holderID m := Some (now + lm_ttl m)))"
| refused: "lease_reach M L t ds u \<Longrightarrow> t \<le> now \<Longrightarrow> lm_leaseID m = L \<Longrightarrow>
    TryAcquireOrRenew (Some M) now m ds = (m', ds', Inr False) \<Longrightarrow>
    lease_reach M L now ds' (u(lm_holderID m := None))"
| query_failed: "lease_reach M L t ds u \<Longrightarrow> t \<le> now \<Longrightarrow> lm_leaseID m = L \<Longrightarrow>
    TryAcquireOrRenew (Some M) now m ds = (m', ds', Inl e) \<Longrightarrow>
    lease_reach M L now ds' u"
| released: "lease_reach M L t ds u \<Longrightarrow> t \<le> now \<Longrightarrow> lm_leaseID m = L \<Longrightarrow>
    Release (Some M) m ds = (ds', r) \<Longrightarrow>
    lease_reach M L now ds' (u(lm_holderID m := None))"
| waited: "lease_reach M L t ds u \<Longrightarrow> t \<le> now \<Longrightarrow> lease_reach M L now ds u"

definition lease_ok :: "string \<Rightarrow> int \<Rightarrow> RelayLeaseDoc list \<Rightarrow> (string \<Rightarrow> int option) \<Rightarrow> bool" where
  "lease_ok L t ds u \<longleftrightarrow>
     distinct (map rl_ID ds)
     \<and> (\<forall>h e. u h = Some e \<longrightarrow>
          e < t \<or> (\<exists>d \<in> set ds. rl_ID d = L \<and> rl_HolderID d = h \<and> rl_ExpiresAt d = e))"

lemma lease_ok_later: "lease_ok L t ds u \<Longrightarrow> t \<le> now \<Longrightarrow> lease_ok L now ds u"
  by (fastforce simp: lease_ok_def)

lemma distinct_update_id:
  "distinct (map rl_ID ds) \<Longrightarrow> rl_ID d = rl_ID (ds ! i) \<Longrightarrow> distinct (map rl_ID (ds[i := d]))"
  by (simp add: map_update_same)

lemma in_set_update_other:
  "d \<in> set ds \<Longrightarrow> d \<noteq> ds ! i \<Longrightarrow> d \<in> set (ds[i := d'])"
  by (metis in_set_conv_nth length_list_update nth_list_update_neq)

locale lease_collection = collection M lease_conflict for M :: "RelayLeaseDoc collection_ops"
begin

lemma ensure_keeps:
  assumes "lease_ok (lm_leaseID m) t ds u"
  shows "lease_ok (lm_leaseID m) t (fst (ensureDocExists M m ds)) u"
proof -
  let ?new = "\<lparr>rl_ID = lm_leaseID m, rl_HolderID = [], rl_AcquiredAt = 0, rl_ExpiresAt = 0\<rparr>"
  obtain ds' r where e: "ensureDocExists M m ds = (ds', r)" by fastforce
  show ?thesis
  proof (cases r)
    case None
    with e have "UpsertOne M (\<lambda>d. rl_ID d = lm_leaseID m) (\<lambda>d. Some d) ?new ds = (ds', None)"
      by (simp add: ensureDocExists_def)
    from UpsertOne_None [OF this] show ?thesis
      using assms e by (fastforce simp: lease_ok_def list_ex_iff)
  next
    case (Some x)
    then have "ds' = ds" using e UpsertOne_Some unfolding ensureDocExists_def by blast
    then show ?thesis using e assms by simp
  qed
qed

lemma try_cases:
  assumes "TryAcquireOrRenew (Some M) now m ds = (m', ds', r)"
    and "lease_ok (lm_leaseID m) t ds u"
  obtains ds1 where "lease_ok (lm_leaseID m) t ds1 u" and "ds' = ds1" and "r \<noteq> Inr True"
  | ds1 i where "lease_ok (lm_leaseID m) t ds1 u" and "i < length ds1"
      and "rl_ID (ds1 ! i) = lm_leaseID m"
      and "rl_HolderID (ds1 ! i) = lm_holderID m \<or> rl_ExpiresAt (ds1 ! i) < now"
      and "ds' = ds1[i := (ds1 ! i)\<lparr>rl_HolderID := lm_holderID m, rl_AcquiredAt := now,
                                    rl_ExpiresAt := now + lm_ttl m\<rparr>]"
      and "r = Inr True"
proof -
  let ?f = "\<lambda>d. rl_ID d = lm_leaseID m \<and> (rl_HolderID d = lm_holderID m \<or> rl_ExpiresAt d < now)"
  let ?u = "\<lambda>d. d\<lparr>rl_HolderID := lm_holderID m, rl_AcquiredAt := now, rl_ExpiresAt := now + lm_ttl m\<rparr>"
  define ds1 where "ds1 = (if lm_initialised m then ds else fst (ensureDocExists M m ds))"
  have ok: "lease_ok (lm_leaseID m) t ds1 u" using assms(2) ensure_keeps by (simp add: ds1_def)
  obtain ds2 x where f: "FindOneAndUpdate M ?f (\<lambda>d. Some (?u d)) ds1 = (ds2, x)" by fastforce
  show thesis
  proof (cases x)
    case (Inl e)
    then have "ds2 = ds1" using f FindOneAndUpdate_Inl by blast
    then show thesis using that(1) [OF ok] assms(1) f Inl
      by (cases e) (auto simp: TryAcquireOrRenew_def Let_def ds1_def [symmetric])
  next
    case (Inr d)
    then obtain i where "i < length ds1" "?f (ds1 ! i)" "d = ?u (ds1 ! i)" "ds2 = ds1[i := d]"
      using f FindOneAndUpdate_Inr by fastforce
    then show thesis using that(2) [OF ok, of i] assms(1) f Inr
      by (auto simp: TryAcquireOrRenew_def Let_def ds1_def [symmetric])
  qed
qed

lemma lease_ok_forget: "lease_ok L t ds u \<Longrightarrow> lease_ok L t ds (u(h := None))"
  by (auto simp: lease_ok_def)

lemma lease_ok_try:
  assumes "TryAcquireOrRenew (Some M) now m ds = (m', ds', r)"
    and "lease_ok (lm_leaseID m) t ds u" and "t \<le> now"
  shows "lease_ok (lm_leaseID m) now ds'
    (case r of Inr True \<Rightarrow> u(lm_holderID m := Some (now + lm_ttl m))
             | Inr False \<Rightarrow> u(lm_holderID m := None) | Inl e \<Rightarrow> u)"
  using assms(1,2)
proof (cases rule: try_cases)
  case (1 ds1)
  then have "lease_ok (lm_leaseID m) now ds' u" using lease_ok_later assms(3) by blast
  then show ?thesis using 1(3) lease_ok_forget by (auto split: sum.splits bool.splits)
next
  case (2 ds1 i)
  let ?d = "(ds1 ! i)\<lparr>rl_HolderID := lm_holderID m, rl_AcquiredAt := now, rl_ExpiresAt := now + lm_ttl m\<rparr>"
  have new: "?d \<in> set ds'" using 2 by (simp add: set_update_memI)
  have "distinct (map rl_ID ds1)" using 2(1) by (simp add: lease_ok_def)
  then have dist: "distinct (map rl_ID ds')" unfolding 2(5) by (rule distinct_update_id) simp
  have only: "d = ds1 ! i" if "d \<in> set ds1" "rl_ID d = lm_leaseID m" for d
    using \<open>distinct (map rl_ID ds1)\<close> that 2(2,3) by (auto simp: distinct_map inj_on_def)
  have "e < now" if "u h = Some e" "h \<noteq> lm_holderID m" for h e
    using 2(1,4) that only assms(3) unfolding lease_ok_def by fastforce
  moreover have "\<exists>d \<in> set ds'. rl_ID d = lm_leaseID m \<and> rl_HolderID d = lm_holderID m
      \<and> rl_ExpiresAt d = now + lm_ttl m"
    using 2(3) by (intro bexI [OF _ new]) simp
  ultimately show ?thesis using dist 2(6) by (auto simp: lease_ok_def)
qed

lemma lease_ok_release:
  assumes "Release (Some M) m ds = (ds', r)" and "lease_ok (lm_leaseID m) t ds u"
  shows "lease_ok (lm_leaseID m) t ds' (u(lm_holderID m := None))"
proof (cases rule: UpdateOne_cases [of "\<lambda>d. rl_ID d = lm_leaseID m \<and> rl_HolderID d = lm_holderID m"
      "\<lambda>d. Some (d\<lparr>rl_HolderID := [], rl_ExpiresAt := 0\<rparr>)" ds])
  case (match i d q)
  then have ds': "ds' = ds[i := d]" using assms(1) by (simp add: Release_def)
  have "distinct (map rl_ID ds')"
    unfolding ds' by (rule distinct_update_id) (use assms(2) match(4) in \<open>auto simp: lease_ok_def\<close>)
  moreover have "x \<in> set ds'" if "x \<in> set ds" "rl_HolderID x \<noteq> lm_holderID m" for x
    using in_set_update_other [of x ds i d] that match(3) ds' by auto
  ultimately show ?thesis using assms(2) by (fastforce simp: lease_ok_def)
qed (use assms lease_ok_forget in \<open>auto simp: Release_def\<close>)

lemma reach_lease_ok: "lease_reach M L t ds u \<Longrightarrow> lease_ok L t ds u"
proof (induction rule: lease_reach.induct)
  case (granted t ds u now m m' ds')
  then show ?case using lease_ok_try [of now m ds m' ds' "Inr True" t u] by (simp del: fun_upd_apply)
next
  case (refused t ds u now m m' ds')
  then show ?case using lease_ok_try [of now m ds m' ds' "Inr False" t u] by (simp del: fun_upd_apply)
next
  case (query_failed t ds u now m m' ds' e)
  then show ?case using lease_ok_try [of now m ds m' ds' "Inl e" t u] by simp
next
  case (released t ds u now m ds' r)
  then show ?case using lease_ok_release lease_ok_later by metis
next
  case (waited t ds u now)
  then show ?case using lease_ok_later by blast
qed (simp add: lease_ok_def)

lemma one_holder:
  assumes "lease_reach M L t ds u" and "u h1 = Some e1" and "t \<le> e1" and "u h2 = Some e2" and "t \<le> e2"
  shows "h1 = h2"
proof -
  have ok: "lease_ok L t ds u" by (rule reach_lease_ok [OF assms(1)])
  then obtain d1 d2 where "d1 \<in> set ds" "rl_ID d1 = L" "rl_HolderID d1 = h1"
    and "d2 \<in> set ds" "rl_ID d2 = L" "rl_HolderID d2 = h2"
    using assms(2-5) unfolding lease_ok_def by (metis linorder_not_less)
  moreover have "inj_on rl_ID (set ds)" using ok by (simp add: lease_ok_def distinct_map)
  ultimately show ?thesis by (metis inj_onD)
qed

end

interpretation mem_lease: lease_collection "mem_ops lease_conflict"
  by unfold_locales

subsection \<open>Properties\<close>

text \<open>
  C30. At most one pod holds the relay lease: whatever sequence of acquisitions, refusals,
  failed queries and releases the pods make, two pods whose granted leases have both not
  expired are the same pod.
\<close>

theorem relay_lease_exclusive:
  assumes "lease_collection M" and "lease_reach M L t ds u"
    and "u h1 = Some e1" and "t \<le> e1" and "u h2 = Some e2" and "t \<le> e2"
  shows "h1 = h2"
  using lease_collection.one_holder [OF assms] .

definition pod :: "string \<Rightarrow> MongoRelayLeaseManager" where
  "pod h = NewMongoRelayLeaseManager ''node'' h 0"

text \<open>Pod a takes the lease, pod b is refused, then takes it over after the expiry.\<close>

lemma two_pods_reach:
  "\<exists>ds. lease_reach (mem_ops lease_conflict) DefaultRelayLeaseDocID 10000000006 ds
     [''a'' \<mapsto> 10000000005, ''b'' \<mapsto> 20000000006]"
proof -
  let ?M = "mem_ops lease_conflict" and ?L = DefaultRelayLeaseDocID
  let ?d = "\<lambda>h t. \<lparr>rl_ID = ?L, rl_HolderID = h, rl_AcquiredAt = t, rl_ExpiresAt = t + 10000000000\<rparr>"
  have "TryAcquireOrRenew (Some ?M) 5 (pod ''a'') [] = ((pod ''a'')\<lparr>lm_initialised := True\<rparr>, [?d ''a'' 5], Inr True)"
    by code_simp
  from lease_reach.granted [OF lease_reach.init _ _ this]
  have 1: "lease_reach ?M ?L 5 [?d ''a'' 5] [''a'' \<mapsto> 10000000005]"
    by (simp add: pod_def NewMongoRelayLeaseManager_def DefaultLeaseTTL_def fun_upd_def)
  have "TryAcquireOrRenew (Some ?M) 10000000006 (pod ''b'') [?d ''a'' 5]
      = ((pod ''b'')\<lparr>lm_initialised := True\<rparr>, [?d ''b'' 10000000006], Inr True)"
    by code_simp
  from lease_reach.granted [OF 1 _ _ this]
  have "lease_reach ?M ?L 10000000006 [?d ''b'' 10000000006] [''a'' \<mapsto> 10000000005, ''b'' \<mapsto> 20000000006]"
    by (simp add: pod_def NewMongoRelayLeaseManager_def DefaultLeaseTTL_def fun_upd_def)
  then show ?thesis by blast
qed

theorem relay_lease_exclusive_witness:
  "\<exists>ds. lease_reach (mem_ops lease_conflict) DefaultRelayLeaseDocID 10000000006 ds
      [''a'' \<mapsto> 10000000005, ''b'' \<mapsto> 20000000006]
    \<and> {h. \<exists>e. [''a'' \<mapsto> (10000000005::int), ''b'' \<mapsto> 20000000006] h = Some e \<and> 10000000006 \<le> e} = {''b''}"
proof -
  let ?u = "[''a'' \<mapsto> (10000000005::int), ''b'' \<mapsto> 20000000006]"
  obtain ds where r: "lease_reach (mem_ops lease_conflict) DefaultRelayLeaseDocID 10000000006 ds ?u"
    using two_pods_reach by blast
  have "h = ''b''" if "?u h = Some e" "10000000006 \<le> e" for h e
    by (rule relay_lease_exclusive [OF mem_lease.lease_collection_axioms r that,
          of "''b''" 20000000006]) simp_all
  then have "{h. \<exists>e. ?u h = Some e \<and> 10000000006 \<le> e} \<subseteq> {''b''}" by blast
  moreover have "?u ''b'' = Some 20000000006" and "(10000000006::int) \<le> 20000000006" by simp_all
  ultimately have "{h. \<exists>e. ?u h = Some e \<and> 10000000006 \<le> e} = {''b''}" by blast
  with r show ?thesis by blast
qed

text \<open>
  A tick of the relay changes the task queue only if it has just obtained or renewed the
  lease: a refusal or a failed election query leaves every task as it is, whatever the pod
  believed before.
\<close>

lemma relay_tick_needs_lease:
  assumes "lmo_TryAcquireOrRenew lm now l = (l1, res)" and "res \<noteq> Inr True"
    and "relay_tick (Some lm) store client rnd now r l s = (r', l', s', wait)"
  shows "s' = s \<and> l' = l1"
  using assms
  by (cases res) (auto simp: relay_tick_def lease_check_def IsLeader_def Let_def split: if_splits prod.splits)

text \<open>The cap is an integer between nothing and the maximum, for intervals below \<open>2 ^ 53\<close> ns.\<close>

lemma capInterval_exact:
  assumes "0 < p" and "p < mb" and "mb < 2 ^ 53" and "0 < n"
  shows "\<exists>k. capInterval p mb n = of_int k \<and> p \<le> k \<and> k \<le> mb"
proof (cases "1024 < n")
  case True
  then show ?thesis using assms by (simp add: capInterval_def float_of_int_exact)
next
  case False
  define c where "c = p * 2 ^ nat (n - 1)"
  have "1 \<le> (2::int) ^ nat (n - 1)" by simp
  then have pc: "p \<le> c" using assms(1) mult_left_mono [of 1 "2 ^ nat (n - 1)" p] by (simp add: c_def)
  then have pos: "0 < c" using assms(1) by simp
  have prod: "fmul (float_of_int p) (2 ^ nat (n - 1)) = fl (of_int c)"
    using assms by (simp add: fmul_def float_of_int_exact c_def)
  have mb: "float_of_int mb = of_int mb" using assms by (simp add: float_of_int_exact)
  show ?thesis
  proof (cases "c < 2 ^ 53")
    case True
    then have "fl (of_int c) = of_int c" using pos by (simp add: fl_of_int_exact)
    with False pc assms show ?thesis
      by (auto simp: capInterval_def prod mb Let_def of_int_less_iff)
  next
    case big: False
    have "pow2 (- 1022) \<le> 1" using pow2_mono [of "- 1022" 0] by (simp add: pow2_def)
    also have "1 \<le> (of_int c :: rat)" using pos by simp
    finally have "\<bar>fl (of_int c) - of_int c\<bar> \<le> of_int c * pow2 (- 53)"
      using pos by (intro fl_err) simp_all
    then have "of_int c * (1 - pow2 (- 53)) \<le> fl (of_int c)" by (simp add: algebra_simps)
    moreover have "2 ^ 53 * (1 - pow2 (- 53)) \<le> of_int c * (1 - pow2 (- 53) :: rat)"
      using big by (intro mult_right_mono) (simp_all add: pow2_def)
    ultimately have "(2 ^ 53 - 1 :: rat) \<le> fl (of_int c)" by (simp add: pow2_def)
    moreover have "of_int mb \<le> (2 ^ 53 - 1 :: rat)" using assms(3)
      by (metis (no_types) of_int_1 of_int_diff of_int_le_iff of_int_numeral of_int_power zle_diff1_eq)
    ultimately have "of_int mb \<le> fl (of_int c)" by linarith
    then have "capInterval p mb n = of_int mb"
      using False by (auto simp: capInterval_def prod mb Let_def)
    then show ?thesis using assms by auto
  qed
qed

text \<open>
  The backoff stays between the poll interval and the maximum, however many failures
  came before: for intervals below \<open>2 ^ 53\<close> nanoseconds (104 days) and a random source that
  returns a value below the bound it is given.
\<close>

lemma CalculateBackoff_bounds:
  assumes "0 < r_pollInterval r" and "0 < r_maxBackoff r"
    and "r_pollInterval r < 2 ^ 53" and "r_maxBackoff r < 2 ^ 53"
    and "\<And>m n. rnd m = Inr n \<Longrightarrow> 0 \<le> n \<and> n < m"
  shows "r_pollInterval r \<le> CalculateBackoff rnd r n
    \<and> CalculateBackoff rnd r n \<le> max (r_pollInterval r) (r_maxBackoff r)"
proof -
  let ?p = "r_pollInterval r" and ?mb = "r_maxBackoff r"
  show ?thesis
  proof (cases "0 < n \<and> ?p < ?mb")
    case True
    then obtain k where k: "capInterval ?p ?mb n = of_int k" "?p \<le> k" "k \<le> ?mb"
      using capInterval_exact assms by blast
    have p: "float_of_int ?p = of_int ?p" using assms by (simp add: float_of_int_exact)
    show ?thesis
    proof (cases "?p < k")
      case less: True
      then have "fl (of_int (k - ?p)) = of_int (k - ?p)"
        using k assms by (intro fl_of_int_exact) auto
      then have j: "fsub (capInterval ?p ?mb n) (float_of_int ?p) = of_int (k - ?p)"
        by (simp add: fsub_def k p)
      have "fits64 (k - ?p)" using k assms less by (simp add: fits64_def)
      then have "int64_of_float (of_int (k - ?p)) = k - ?p"
        by (simp add: int64_of_float_of_int del: of_int_diff)
      then show ?thesis using True less j k assms(2) assms(5) [of "k - ?p"]
        by (auto simp: CalculateBackoff_def Let_def simp del: of_int_diff split: sum.splits)
    next
      case False
      then have "k = ?p" using k by simp
      then have "fsub (capInterval ?p ?mb n) (float_of_int ?p) = 0"
        unfolding fsub_def k(1) p by simp
      then show ?thesis using True assms(2) by (simp add: CalculateBackoff_def Let_def)
    qed
  next
    case False
    then show ?thesis using assms(2) by (auto simp: CalculateBackoff_def Let_def)
  qed
qed

definition top_random :: "int \<Rightarrow> gomsg + int" where
  "top_random m = (if 0 < m then Inr (m - 1) else Inl (lit ''bad bound''))"

lemma top_random_below: "top_random m = Inr n \<Longrightarrow> 0 \<le> n \<and> n < m"
  by (auto simp: top_random_def split: if_splits)

end
