(* ===== verification/WalletService.thy ===== *)
theory WalletService
  imports WalletGuards RelayLease
begin

text \<open>
  The wallet service as a state machine: every request to any of its replicas and every
  batch of the ledger relay is a step on the shared database. The invariant of the reachable
  states ties the collections together: sound wallets, one ledger task for each recorded
  idempotency key, and for each currency the wallets holding exactly what they were opened
  with and what the ledger tasks say.
\<close>

subsection \<open>What a ledger task says\<close>

text \<open>
  The change of the wallets' total in a currency that a task records. Deposits and
  withdrawals carry no destination currency; a deposit comes from a clearing account.
\<close>

definition task_flow :: "LedgerTask \<Rightarrow> string \<Rightarrow> int" where
  "task_flow t c =
     (if lt_DestinationCurrency t = []
      then (let n = (if c = lt_Currency t then lt_Amount t else 0)
            in if HasPrefix (lt_SourceWalletID t) ''EXTERNAL_CLEARING_'' then n else - n)
      else (if c = NormalizeCurrency (lt_DestinationCurrency t) then lt_DestinationAmount t else 0)
           - (if c = NormalizeCurrency (lt_Currency t) then lt_Amount t else 0))"

definition task_ref :: "LedgerTask \<Rightarrow> string \<times> string" where
  "task_ref t = (lt_IdempotencyKey t, lt_TransactionID t)"

definition key_ref :: "IdempotencyRecord \<Rightarrow> string \<times> string" where
  "key_ref k = (i_ID k, i_TransactionID k)"

definition named :: "WalletModel \<Rightarrow> bool" where
  "named w \<longleftrightarrow> map_of (w_Balances w) [] = None"

text \<open>\<open>opened c\<close> is what all wallets together were opened with.\<close>

definition sound :: "(string \<Rightarrow> int) \<Rightarrow> wallet_db \<Rightarrow> bool" where
  "sound opened db \<longleftrightarrow>
     wallets_ok (d_wallets db) \<and> list_all named (d_wallets db)
     \<and> distinct (map i_ID (d_idempotency db))
     \<and> distinct_tasks (d_tasks db) \<and> list_all task_ok (d_tasks db)
     \<and> map task_ref (d_tasks db) = map key_ref (d_idempotency db)
     \<and> (\<forall>c. pot_total c (d_wallets db) = opened c + sum_list (map (\<lambda>t. task_flow t c) (d_tasks db)))"

lemma payload_determines:
  assumes "map task_payload ts = map task_payload ts'"
  shows "map task_ref ts = map task_ref ts'" "map (\<lambda>t. task_flow t c) ts = map (\<lambda>t. task_flow t c) ts'"
proof -
  have "task_ref = task_ref \<circ> task_payload" "(\<lambda>t. task_flow t c) = (\<lambda>t. task_flow t c) \<circ> task_payload"
    by (simp_all add: fun_eq_iff task_ref_def task_payload_def task_flow_def)
  then show "map task_ref ts = map task_ref ts'" "map (\<lambda>t. task_flow t c) ts = map (\<lambda>t. task_flow t c) ts'"
    using assms by (metis list.map_comp)+
qed

lemma sound_tasks:
  assumes "sound opened db" and "d_wallets db' = d_wallets db" and "d_idempotency db' = d_idempotency db"
    and "map task_payload (d_tasks db') = map task_payload (d_tasks db)"
    and "distinct_tasks (d_tasks db')" and "list_all task_ok (d_tasks db')"
  shows "sound opened db'"
  using assms payload_determines [OF assms(4)] by (simp add: sound_def)

lemma sound_book:
  assumes "sound opened db" and "wallets_ok (d_wallets db')" and "list_all named (d_wallets db')"
    and "\<And>c. pot_total c (d_wallets db') = pot_total c (d_wallets db) + task_flow task c"
    and "d_idempotency db' = d_idempotency db @ [\<lparr>i_ID = lt_IdempotencyKey task, i_TransactionID = lt_TransactionID task,
                                                   i_CreatedAt = now\<rparr>]"
    and "lt_IdempotencyKey task \<notin> i_ID ` set (d_idempotency db)"
    and "d_tasks db' = d_tasks db @ [task]" and "lt_ID task \<notin> lt_ID ` set (d_tasks db)" and "task_ok task"
  shows "sound opened db'"
  using assms by (simp add: sound_def distinct_tasks_def task_ref_def key_ref_def)

lemma replace_completed:
  assumes "distinct_tasks ts" and "list_all task_ok ts"
  shows "map task_payload (replace_task i (set_completed now) ts) = map task_payload ts"
    "distinct_tasks (replace_task i (set_completed now) ts)" "list_all task_ok (replace_task i (set_completed now) ts)"
proof -
  show "map task_payload (replace_task i (set_completed now) ts) = map task_payload ts"
    by (simp add: replace_task_map)
  show "distinct_tasks (replace_task i (set_completed now) ts)"
    using assms(1) by (simp add: distinct_tasks_def replace_task_map)
  show "list_all task_ok (replace_task i (set_completed now) ts)"
    using assms(2) by (auto simp: list_all_iff replace_task_def task_ok_def set_completed_def task_status_defs)
qed

context wallet_store
begin

lemma task_laws: "task_collection (k_tasks drv)"
  by unfold_locales

lemma sound_dispatch:
  assumes "sound opened (st_db st)" and "e_drv E = drv"
  shows "sound opened (st_db (dispatch_now E task st))"
proof -
  have d: "distinct_tasks (d_tasks (st_db st))" "list_all task_ok (d_tasks (st_db st))"
    using assms(1) by (simp_all add: sound_def)
  obtain ts r where m: "mark_by_id (Some (k_tasks drv)) (lt_ID task) (set_completed (e_now E)) (d_tasks (st_db st)) = (ts, r)"
    by fastforce
  have "d_tasks (st_db (dispatch_now E task st)) \<in> {d_tasks (st_db st), ts}"
    using m assms(2) by (auto simp: dispatch_now_def DispatchImmediate_def mongoLedgerTaskStore_def
        mongo_MarkCompleted_def split: option.splits)
  then have "d_tasks (st_db (dispatch_now E task st)) = d_tasks (st_db st)
      \<or> d_tasks (st_db (dispatch_now E task st)) = replace_task (lt_ID task) (set_completed (e_now E)) (d_tasks (st_db st))"
    using task_collection.mark_by_id_replace [OF task_laws m d(1)] by (auto split: option.splits)
  then show ?thesis
    using sound_tasks [OF assms(1)] replace_completed [OF d] d by (auto simp: dispatch_now_keeps)
qed

lemma sound_batch:
  assumes "sound opened (st_db st)"
    and "ProcessBatch (Some (mongoLedgerTaskStore (Some (k_tasks drv)))) client n now (d_tasks (st_db st)) = (ts, r)"
  shows "sound opened ((st_db st)\<lparr>d_tasks := ts\<rparr>)"
proof -
  obtain cnt e where p: "ProcessBatch (Some (mongoLedgerTaskStore (Some (k_tasks drv)))) client n now (d_tasks (st_db st))
      = (ts, cnt, e)" using assms(2) by (cases r) auto
  have d: "distinct_tasks (d_tasks (st_db st))" "list_all task_ok (d_tasks (st_db st))"
    using assms(1) by (simp_all add: sound_def)
  note laws = task_collection.mongo_store [OF task_laws]
  from p have "list_all task_ok ts \<and> map task_payload ts = map task_payload (d_tasks (st_db st)) \<and> distinct_tasks ts"
  proof (cases rule: ProcessBatch_cases)
    case (query_failed err)
    then show ?thesis using d by simp
  next
    case (batch xs b)
    then show ?thesis
      using task_store.process_tasks_keeps [OF laws batch(2) d(1)] task_store.find_pending [OF laws batch(1) d(1)] d(2)
      by simp
  qed
  then show ?thesis using sound_tasks [OF assms(1), of "(st_db st)\<lparr>d_tasks := ts\<rparr>"] by simp
qed

end

subsection \<open>Requests keep the database sound\<close>

lemma named_inc:
  assumes "inc_wallet pots b now w = Some w'" and "named w" and "[] \<notin> fst ` set pots"
  shows "named w'"
proof -
  have "inc_pots pots m = Some m' \<Longrightarrow> map_of m [] = None \<Longrightarrow> [] \<notin> fst ` set pots \<Longrightarrow> map_of m' [] = None" for m m'
    by (induction pots m rule: inc_pots.induct) (auto simp: update_conv' split: if_splits)
  then show ?thesis using assms by (auto simp: inc_wallet_def named_def split: option.splits if_splits)
qed

lemma list_all_update: "list_all P xs \<Longrightarrow> P y \<Longrightarrow> list_all P (xs[i := y])"
  using set_update_subset_insert [of xs i y] by (auto simp: list_all_iff)

lemma applied_named:
  assumes "applied now walletID pots ws ws'" and "list_all named ws" and "[] \<notin> fst ` set pots"
  shows "list_all named ws'"
proof -
  from assms(1) obtain i b w where "i < length ws" "inc_wallet pots b now (ws ! i) = Some w" "ws' = ws[i := w]"
    by (auto simp: applied_def)
  moreover from this have "named w" using named_inc assms(2,3) by (metis list_all_length)
  ultimately show ?thesis using list_all_update [OF assms(2)] by simp
qed

text \<open>What the task of a new operation must say for the database to stay sound.\<close>

definition task_for :: "'l2 wallet_env \<Rightarrow> string \<Rightarrow> (string \<times> int64) list \<Rightarrow> LedgerTask \<Rightarrow> bool" where
  "task_for E key pots task \<longleftrightarrow>
     lt_IdempotencyKey task = key \<and> lt_TransactionID task = e_oid E 0 \<and> task_ok task
     \<and> [] \<notin> fst ` set pots \<and> (\<forall>c. task_flow task c = net_inc pots c)"

context wallet_store
begin

lemma sound_op:
  assumes "sound opened (st_db st)" and "op_outcome E key walletID pots task usage st st' answer"
    and "e_drv E = drv" and "answer \<noteq> None \<Longrightarrow> task_for E key pots task"
  shows "sound opened (st_db st')"
proof (cases answer)
  case None
  then show ?thesis using assms(1,2) by (simp add: op_outcome_def)
next
  case (Some txn)
  have fin: "sound opened (st_db (finish_op E task walletID s))" if "sound opened (st_db s)" for s
    using sound_dispatch [OF that assms(3)] by (simp add: finish_op_def invalidate_cache_def)
  show ?thesis
  proof (cases "op_replayed E key walletID task txn st st'")
    case True
    then show ?thesis using fin assms(1) by (simp add: op_replayed_def)
  next
    case False
    then obtain db where c: "applied (e_now E) walletID pots (d_wallets (st_db st)) (d_wallets db)"
      "op_stored E key task usage (st_db st) db" "st' = finish_op E task walletID (st\<lparr>st_db := db\<rparr>)"
      using assms(2) Some by (auto simp: op_outcome_def op_committed_def)
    have t: "task_for E key pots task" using assms(4) Some by simp
    have "sound opened db"
      using assms(1) c(1,2) t applied_wallets_ok [OF c(1)] applied_named [OF c(1)] applied_total [OF c(1)]
      by (intro sound_book [OF assms(1), of _ task "e_now E"]) (auto simp: sound_def op_stored_def task_for_def)
    then show ?thesis using fin c(3) by simp
  qed
qed

end

lemma pending_task_ok: "lt_Status t = LedgerTaskStatusPending \<Longrightarrow> lt_Retries t = 0 \<Longrightarrow> task_ok t"
  by (simp add: task_ok_def DefaultMaxLedgerTaskRetries_def)

lemma new_task_ok: "task_ok (new_task E oid txn key s d n c)"
  by (rule pending_task_ok) (simp_all add: new_task_def zero_task_def)

lemma deposit_task_for:
  "funds_currency req \<noteq> [] \<Longrightarrow>
   task_for E (funds_key req) [(funds_currency req, m_Units (funds_amount req))] (funds_task E True req)"
  unfolding task_for_def funds_task_def deposit_task_def
  by (simp add: new_task_ok) (simp add: new_task_def zero_task_def task_flow_def clearing_account_def)

lemma withdraw_task_for:
  "funds_currency req \<noteq> [] \<Longrightarrow> \<not> HasPrefix (funds_wallet req) ''EXTERNAL_CLEARING_'' \<Longrightarrow>
   task_for E (funds_key req) [(funds_currency req, - m_Units (funds_amount req))] (funds_task E False req)"
  unfolding task_for_def funds_task_def withdraw_task_def
  by (simp add: new_task_ok) (simp add: new_task_def zero_task_def task_flow_def)

lemma exchange_task_for:
  assumes "NormalizeCurrency (xc_FromCurrency req) \<noteq> []" and "NormalizeCurrency (xc_ToCurrency req) \<noteq> []"
  shows "task_for E (exchange_key req) (exchange_pots E req) (task_of_exchange E req)"
proof -
  have "task_ok (task_of_exchange E req)"
    by (rule pending_task_ok) (simp_all add: task_of_exchange_def exchange_task_def new_task_def zero_task_def)
  then show ?thesis using assms
    by (auto simp: task_for_def exchange_pots_def task_of_exchange_def exchange_task_def new_task_def zero_task_def
        task_flow_def)
qed

text \<open>A handler that reports success has validated its currencies.\<close>

lemma funds_currency_valid:
  assumes "DepositFunds E WT ctx (Some req) st = (st', resp) \<or> WithdrawFunds E WT ctx (Some req) st = (st', resp)"
    and "funds_answer resp \<noteq> None"
  shows "funds_currency req \<noteq> []"
proof (cases "validate_funds E ctx (Some req) (st_db st)")
  case (Inl err)
  then show ?thesis using assms by (auto simp: DepositFunds_def WithdrawFunds_def)
next
  case (Inr p)
  obtain key walletID amt cur rail q where "p = (key, walletID, amt, cur, rail, q)" by (metis prod_cases6)
  from validate_funds_Inr [OF Inr [unfolded this]] show ?thesis by simp
qed

lemma exchange_currencies_valid:
  assumes "ExchangeCurrency E WT ctx (Some req) st = (st', resp)" and "exchange_answer resp \<noteq> None"
  shows "NormalizeCurrency (xc_FromCurrency req) \<noteq> [] \<and> NormalizeCurrency (xc_ToCurrency req) \<noteq> []"
proof (cases "validate_exchange E ctx (Some req) (st_db st)")
  case (Inl err)
  then show ?thesis using assms by (auto simp: ExchangeCurrency_def)
next
  case (Inr p)
  obtain key walletID fc tc q where "p = (key, walletID, fc, tc, q)" by (metis prod_cases5)
  from validate_exchange_Inr [OF Inr [unfolded this]] show ?thesis by simp
qed

subsection \<open>Transfers\<close>

lemma prepared_currency:
  "prepareFXConversion E req db x = (x', None) \<Longrightarrow> NormalizeCurrency (x_destCurrency x') = x_destCurrency x'"
  by (auto simp: prepareFXConversion_def fallback_conversion_def Let_def
      split: if_splits sum.splits option.splits prod.splits)

lemma moved_named:
  assumes "moved now src scur units dst dcur dunits ws ws'" and "list_all named ws" and "scur \<noteq> []" and "dcur \<noteq> []"
  shows "list_all named ws'"
proof -
  from assms(1) obtain i j a b where m: "i < length ws" "j < length ws" "ws' = ws[i := a, j := b]"
    "inc_wallet [(scur, - units)] (if scur = w_Currency (ws ! i) then Some (- units) else None) now (ws ! i) = Some a"
    "inc_wallet [(dcur, dunits)] (if dcur = w_Currency (ws ! j) then Some dunits else None) now (ws ! j) = Some b"
    by (auto simp: moved_def)
  then have "named a" "named b"
    using assms(2-4) named_inc [OF m(4)] named_inc [OF m(5)] by (simp_all add: list_all_length)
  then show ?thesis using m(3) assms(2) by (simp add: list_all_update)
qed

lemma moved_currency:
  assumes "moved now src scur units dst dcur dunits ws ws'" and "list_all named ws"
  shows "scur \<noteq> []"
  using assms by (auto simp: moved_def list_all_length named_def debit_filter_def split: option.splits)

context wallet_store
begin

lemma sound_transfer:
  assumes "sound opened (st_db st)" and "transaction_runner WT" and "e_drv E = drv"
    and "TransferFunds E WT ctx (Some req) st = (st', resp)"
  shows "sound opened (st_db st')"
proof -
  have ws: "wallets_ok (d_wallets (st_db st))" "list_all named (d_wallets (st_db st))"
    using assms(1) by (simp_all add: sound_def)
  show ?thesis
    using assms(2,3) ws(1) assms(4)
  proof (cases rule: TransferFunds_result)
    case (committed q)
    then have q: "q = req" by simp
    from committed(3) obtain x db where x: "prepareFXConversion E req (st_db st) (initial_state E) = (x, None)"
      "x_finalTxnID x = e_oid E 0" "transferred E req x (st_db st) db"
      "st' = invalidate_cache E [tf_SourceWalletId req, tf_DestinationWalletId req]
               (dispatch_now E (transfer_task E req x) (st\<lparr>st_db := db\<rparr>))"
      unfolding q transfer_committed_def by blast
    let ?t = "transfer_task E req x" and ?s = "NormalizeCurrency (m_Currency (amount_of req))"
      and ?d = "NormalizeCurrency (credit_currency req x)"
    have m: "moved (e_now E) (tf_SourceWalletId req) ?s (m_Units (amount_of req)) (tf_DestinationWalletId req) ?d
        (credit_units req x) (d_wallets (st_db st)) (d_wallets db)" using x(3) by (simp add: transferred_def)
    have s: "?s \<noteq> []" by (rule moved_currency [OF m ws(2)])
    then have d: "?d \<noteq> []" using prepared_currency [OF x(1)] by (auto simp: credit_currency_def)
    have "0 \<le> m_Units (amount_of req)" using validate_accepts(3) [of E req "st_db st"] committed(2) by simp
    then have ok: "wallets_ok (d_wallets db)" "list_all named (d_wallets db)"
      using moved_wallets_ok [OF m ws(1)] credit_units_nonneg moved_named [OF m ws(2) s d] by simp_all
    have "pot_total c (d_wallets db) = pot_total c (d_wallets (st_db st)) + task_flow ?t c" for c
      using moved_total [OF m, of c] d by (auto simp: task_flow_def transfer_task_def)
    moreover have "task_ok ?t" by (rule pending_task_ok) (simp_all add: transfer_task_def)
    ultimately have "sound opened db"
      using x(2,3) by (intro sound_book [OF assms(1) ok, of ?t "e_now E"])
        (auto simp: transferred_def transfer_task_def)
    then show ?thesis
      using sound_dispatch [of opened "st\<lparr>st_db := db\<rparr>" E ?t] assms(3) x(4) by (simp add: invalidate_cache_def)
  qed (use assms(1) in simp)
qed

end

subsection \<open>Administration\<close>

lemma sound_wallet_fields:
  assumes "sound opened db" and "i < length (d_wallets db)" and "w_ID w = w_ID (d_wallets db ! i)"
    and "w_Currency w = w_Currency (d_wallets db ! i)" and "w_Balance w = w_Balance (d_wallets db ! i)"
    and "w_Balances w = w_Balances (d_wallets db ! i)"
  shows "sound opened (db\<lparr>d_wallets := (d_wallets db)[i := w]\<rparr>)"
proof -
  have ws: "wallets_ok (d_wallets db)" "list_all named (d_wallets db)" using assms(1) by (simp_all add: sound_def)
  then have "named w" using assms(2,6) by (simp add: named_def list_all_length)
  then show ?thesis
    using assms(1) wallets_ok_fields [OF ws(1) assms(2-6)] list_all_update [OF ws(2)] by (simp add: sound_def)
qed

definition credited :: "string \<Rightarrow> int \<Rightarrow> (string \<Rightarrow> int) \<Rightarrow> string \<Rightarrow> int" where
  "credited cur n opened c = opened c + (if c = cur then n else 0)"

context wallet_store
begin

lemma sound_create:
  assumes "sound opened (st_db st)" and "e_drv E = drv" and "CreateWallet E ctx (Some req) st = (st', resp)"
    and "fits64 (cw_InitialBalance req)"
  shows "sound (if fst resp = None then opened
                else credited (create_currency req) (cw_InitialBalance req) opened) (st_db st')"
  using assms(3,2)
proof (cases rule: CreateWallet_cases)
  case refused
  then show ?thesis using assms(1) by simp
next
  case (created w r)
  have cur: "create_currency req \<noteq> []"
    using valid_currency_nonempty created(2) by (simp add: create_currency_def)
  have ok: "wallets_ok (d_wallets (st_db st) @ [w])"
    using assms(1,4) created cur
    by (intro wallets_ok_append new_wallet_ok [of w "create_currency req" "cw_InitialBalance req"])
      (simp_all add: sound_def)
  have "named w" using created(7) cur by (simp add: named_def)
  moreover have "pot_total c [w] = (if c = create_currency req then cw_InitialBalance req else 0)" for c
    using created(7) by (simp add: pot_total_def getz_def)
  ultimately show ?thesis
    using assms(1) ok created(1,10) by (simp add: sound_def invalidate_cache_def credited_def)
qed

lemma kyc_cases:
  assumes "e_drv E = drv" and "UpdateWalletKYC E req st = (st', resp)"
  obtains (unchanged) "st_db st' = st_db st"
  | (changed) k tier t where "k < length (d_wallets (st_db st))"
      "st_db st' = (st_db st)\<lparr>d_wallets := (d_wallets (st_db st))[k := (d_wallets (st_db st) ! k)\<lparr>w_KYCTier := tier, w_UpdatedAt := t\<rparr>]\<rparr>"
proof (cases "\<exists>i tier. req = Some (i, tier) \<and> i \<noteq> [] \<and> tier \<noteq> [] \<and> map_of TierConfigs tier \<noteq> None
    \<and> s_mongoClient (e_srv E) \<and> (\<exists>w. FindOne (k_wallets drv) (\<lambda>w. w_ID w = i) None (d_wallets (st_db st)) = Inr w)")
  case True
  then obtain i tier w where t: "req = Some (i, tier)" "i \<noteq> []" "tier \<noteq> []" "map_of TierConfigs tier \<noteq> None"
    "s_mongoClient (e_srv E)" "FindOne (k_wallets drv) (\<lambda>w. w_ID w = i) None (d_wallets (st_db st)) = Inr w" by blast
  show thesis
  proof (cases rule: wallets.UpdateOne_cases [of "\<lambda>w. w_ID w = i"
        "\<lambda>w. Some (w\<lparr>w_KYCTier := tier, w_UpdatedAt := unix_second (e_now E)\<rparr>)" "d_wallets (st_db st)"])
    case (match k d r)
    then show thesis using changed [where k = k and tier = tier and t = "unix_second (e_now E)"] assms t by (auto simp: UpdateWalletKYC_def invalidate_cache_def)
  qed (use unchanged assms t in \<open>auto simp: UpdateWalletKYC_def invalidate_cache_def\<close>)
next
  case False
  then show thesis
    using unchanged assms by (auto simp: UpdateWalletKYC_def split: option.splits prod.splits if_splits sum.splits)
qed

lemma sound_kyc:
  assumes "sound opened (st_db st)" and "e_drv E = drv" and "UpdateWalletKYC E req st = (st', resp)"
  shows "sound opened (st_db st')"
  using assms(2,3)
proof (cases rule: kyc_cases)
  case (changed k tier t)
  then show ?thesis using sound_wallet_fields [OF assms(1) changed(1)] by simp
qed (use assms(1) in simp)

lemma sound_status:
  assumes "sound opened (st_db st)" and "e_drv E = drv"
    and "handleAdminWalletStatusUpdate E (Inr req) st = (st', code, a)"
  shows "sound opened (st_db st')"
  using assms(3,2)
proof (cases rule: status_update_cases)
  case (changed status i)
  then show ?thesis using sound_wallet_fields [OF assms(1) changed(1)] by (simp add: invalidate_cache_def)
qed (use assms(1) in simp)

lemma GetBalance_db: "GetBalance E ctx r st = (st', resp) \<Longrightarrow> st_db st' = st_db st"
  by (auto simp: GetBalance_def cached_balance_def Let_def
      split: option.splits if_splits prod.splits sum.splits mongo_error.splits)

end

subsection \<open>Reachable states\<close>

text \<open>
  A run from an empty database. Each request meets its own replica, clock and identifiers
  (\<open>E\<close>), on the shared database (\<open>drv\<close>); the cache of the replica it meets may hold
  anything. Integers of a request fit their width. A withdrawal names no wallet whose
  identifier looks like a clearing account, so that its task can be told from a deposit's.
\<close>

definition empty_db :: wallet_db where
  "empty_db = \<lparr>d_wallets = [], d_idempotency = [], d_tasks = [], d_velocity = [], d_outbox = []\<rparr>"

inductive service_run :: "wallet_driver \<Rightarrow> (string \<Rightarrow> int) \<Rightarrow> 'l2 wallet_state \<Rightarrow> bool" for drv where
  start: "st_db st = empty_db \<Longrightarrow> service_run drv (\<lambda>c. 0) st"
| other_replica: "service_run drv opened st \<Longrightarrow> service_run drv opened (st\<lparr>st_cache := cache\<rparr>)"
| create: "service_run drv opened st \<Longrightarrow> e_drv E = drv \<Longrightarrow> fits64 (cw_InitialBalance req) \<Longrightarrow>
    CreateWallet E ctx (Some req) st = (st', resp) \<Longrightarrow>
    service_run drv (if fst resp = None then opened
                     else credited (create_currency req) (cw_InitialBalance req) opened) st'"
| balance: "service_run drv opened st \<Longrightarrow> e_drv E = drv \<Longrightarrow> GetBalance E ctx r st = (st', resp) \<Longrightarrow>
    service_run drv opened st'"
| transfer: "service_run drv opened st \<Longrightarrow> e_drv E = drv \<Longrightarrow> transaction_runner WT \<Longrightarrow>
    TransferFunds E WT ctx (Some rt) st = (st', tresp) \<Longrightarrow> service_run drv opened st'"
| exchange: "service_run drv opened st \<Longrightarrow> e_drv E = drv \<Longrightarrow> transaction_runner WT' \<Longrightarrow>
    ExchangeCurrency E WT' ctx (Some rx) st = (st', xresp) \<Longrightarrow> service_run drv opened st'"
| deposit: "service_run drv opened st \<Longrightarrow> e_drv E = drv \<Longrightarrow> transaction_runner WT' \<Longrightarrow>
    DepositFunds E WT' ctx (Some rf) st = (st', fresp) \<Longrightarrow> service_run drv opened st'"
| withdraw: "service_run drv opened st \<Longrightarrow> e_drv E = drv \<Longrightarrow> transaction_runner WT' \<Longrightarrow>
    \<not> HasPrefix (funds_wallet rf) ''EXTERNAL_CLEARING_'' \<Longrightarrow>
    WithdrawFunds E WT' ctx (Some rf) st = (st', fresp) \<Longrightarrow> service_run drv opened st'"
| kyc: "service_run drv opened st \<Longrightarrow> e_drv E = drv \<Longrightarrow> UpdateWalletKYC E rk st = (st', kresp) \<Longrightarrow>
    service_run drv opened st'"
| status: "service_run drv opened st \<Longrightarrow> e_drv E = drv \<Longrightarrow>
    handleAdminWalletStatusUpdate E (Inr ra) st = (st', code, answer) \<Longrightarrow> service_run drv opened st'"
| relay: "service_run drv opened st \<Longrightarrow>
    ProcessBatch (Some (mongoLedgerTaskStore (Some (k_tasks drv)))) client n now (d_tasks (st_db st)) = (ts, bresp) \<Longrightarrow>
    service_run drv opened (st\<lparr>st_db := (st_db st)\<lparr>d_tasks := ts\<rparr>\<rparr>)"

context wallet_store
begin

lemma run_sound: "service_run drv opened st \<Longrightarrow> sound opened (st_db st)"
proof (induction rule: service_run.induct)
  case (start st)
  then show ?case by (simp add: sound_def empty_db_def wallets_ok_def distinct_tasks_def pot_total_def)
next
  case (create opened st E req ctx st' resp)
  then show ?case using sound_create by blast
next
  case (balance opened st E ctx r st' resp)
  then show ?case using GetBalance_db by metis
next
  case (transfer opened st E WT ctx rt st' tresp)
  then show ?case using sound_transfer by blast
next
  case (exchange opened st E WT' ctx rx st' xresp)
  then have "wallets_ok (d_wallets (st_db st))" by (simp add: sound_def)
  from ExchangeCurrency_outcome [OF exchange.hyps(3,2) this exchange.hyps(4)] show ?case
    using sound_op [OF exchange.IH _ exchange.hyps(2)] exchange_task_for exchange_currencies_valid [OF exchange.hyps(4)]
    by blast
next
  case (deposit opened st E WT' ctx rf st' fresp)
  then have "wallets_ok (d_wallets (st_db st))" by (simp add: sound_def)
  from DepositFunds_outcome [OF deposit.hyps(3,2) this deposit.hyps(4)] show ?case
    using sound_op [OF deposit.IH _ deposit.hyps(2)] deposit_task_for funds_currency_valid deposit.hyps(4) by blast
next
  case (withdraw opened st E WT' rf ctx st' fresp)
  then have "wallets_ok (d_wallets (st_db st))" by (simp add: sound_def)
  from WithdrawFunds_outcome [OF withdraw.hyps(3,2) this withdraw.hyps(5)] show ?case
    using sound_op [OF withdraw.IH _ withdraw.hyps(2)] withdraw_task_for [OF _ withdraw.hyps(4)]
      funds_currency_valid withdraw.hyps(5) by blast
next
  case (kyc opened st E rk st' kresp)
  then show ?case using sound_kyc by blast
next
  case (status opened st E ra st' code answer)
  then show ?case using sound_status by blast
next
  case (relay opened st client n now ts bresp)
  then show ?case using sound_batch [OF relay.IH relay.hyps(2)] by simp
qed simp

end

end
