(* ===== verification/LedgerFeed.thy ===== *)
theory LedgerFeed
  imports LedgerChain WalletService
begin

text \<open>
  The wallet service and the ledger service together: the relay delivers the tasks of the
  outbox to the ledger, in any order and any number of times, among other pods that do the
  same. Once every task is on the books, the customer accounts of the ledger have moved
  exactly as the wallets have.
\<close>

subsection \<open>What the postings of a task move\<close>

text \<open>The change of what the platform owes its customers in a currency.\<close>

definition customer_flow :: "string \<Rightarrow> JournalPosting list \<Rightarrow> int" where
  "customer_flow c ps =
     side_sum PostingCredit c (filter (\<lambda>p. p_AccountType p = AccountTypeCustomerLiability) ps)
     - side_sum PostingDebit c (filter (\<lambda>p. p_AccountType p = AccountTypeCustomerLiability) ps)"

definition customer :: "string \<Rightarrow> bool" where
  "customer acc \<longleftrightarrow> DetermineAccountType acc = AccountTypeCustomerLiability"

text \<open>
  A task in the form the handlers give it for ordinary wallets: a deposit from or a withdrawal
  to a clearing account, or a movement between customer wallets whose currencies are named by
  their codes and whose amounts agree when the currencies do.
\<close>

definition task_plain :: "LedgerTask \<Rightarrow> bool" where
  "task_plain t \<longleftrightarrow>
     (if lt_DestinationCurrency t = []
      then (if HasPrefix (lt_SourceWalletID t) ''EXTERNAL_CLEARING_'' then customer (lt_DestinationWalletID t)
            else customer (lt_SourceWalletID t) \<and> HasPrefix (lt_DestinationWalletID t) ''EXTERNAL_CLEARING_'')
      else customer (lt_SourceWalletID t) \<and> customer (lt_DestinationWalletID t)
           \<and> NormalizeCurrency (lt_Currency t) = lt_Currency t
           \<and> NormalizeCurrency (lt_DestinationCurrency t) = lt_DestinationCurrency t
           \<and> 0 < lt_DestinationAmount t
           \<and> (lt_DestinationCurrency t = lt_Currency t \<longrightarrow> lt_DestinationAmount t = lt_Amount t))"

lemma account_types_differ [simp]:
  "AccountTypeSettlementAsset \<noteq> AccountTypeCustomerLiability" "AccountTypeCustomerLiability \<noteq> AccountTypeSettlementAsset"
  by (simp_all add: AccountTypeSettlementAsset_def AccountTypeCustomerLiability_def)

lemma clearing_account_type:
  "HasPrefix acc ''EXTERNAL_CLEARING_'' \<Longrightarrow> DetermineAccountType acc = AccountTypeSettlementAsset"
  by (simp add: DetermineAccountType_def)

text \<open>The books say what the task says.\<close>

lemma postings_follow_task:
  assumes "request_postings (request_of_task t) = Inr ps" and "task_plain t"
  shows "customer_flow c ps = task_flow t c"
proof (cases "lt_DestinationCurrency t = []")
  case True
  then show ?thesis using assms
    by (auto simp: request_postings_def request_of_task_def CreateMultiCurrencyTransferPostings_def CreateTransferPostings_def
        validated_Inr customer_flow_def task_flow_def task_plain_def customer_def clearing_account_type Let_def split: if_splits)
next
  case False
  then show ?thesis using assms
    by (auto simp: request_postings_def request_of_task_def CreateMultiCurrencyTransferPostings_def CreateTransferPostings_def
        validated_Inr customer_flow_def task_flow_def task_plain_def customer_def split: if_splits)
qed

subsection \<open>A ledger fed by the outbox\<close>

definition from_task :: "LedgerTask list \<Rightarrow> LedgerDocument \<Rightarrow> bool" where
  "from_task ts d \<longleftrightarrow> (\<exists>t \<in> set ts. ld_IdempotencyKey d = lt_IdempotencyKey t
     \<and> request_postings (request_of_task t) = Inr (ld_Postings d))"

definition fed_growth :: "LedgerTask list \<Rightarrow> LedgerDocument list \<Rightarrow> LedgerDocument list \<Rightarrow> bool" where
  "fed_growth ts ds ds' \<longleftrightarrow> evolves ds ds' \<and> (\<exists>es. ds' = ds @ es \<and> list_all (from_task ts) es)"

interpretation feed: interference "fed_growth ts" for ts
proof unfold_locales
  fix a b c assume "fed_growth ts a b" "fed_growth ts b c"
  then show "fed_growth ts a c" using evolves_trans by (fastforce simp: fed_growth_def)
qed (auto simp: fed_growth_def)

inductive ledger_run :: "LedgerTask list \<Rightarrow> LedgerDocument list \<Rightarrow> bool" for ts where
  empty: "ledger_run ts []"
| deliver: "\<lbrakk>ledger_run ts ds; t \<in> set ts; \<forall>n. ledger_collection (le_col E n); \<forall>n ds. fed_growth ts ds (le_others E n ds);
    RecordTransaction E ctx (request_of_task t) \<lparr>lb_entries = ds, lb_outbox = es\<rparr> = (st, resp)\<rbrakk>
    \<Longrightarrow> ledger_run ts (lb_entries st)"

lemma spec_growth:
  assumes "ledger_spec (request_of_task t) (bookings a) resp (bookings b)" and "t \<in> set ts" and "evolves a b"
  shows "fed_growth ts a b"
proof -
  from assms(3) obtain es where b: "b = a @ es" by (auto simp: evolves_def)
  from assms(1) have "list_all (from_task ts) es"
  proof (cases rule: ledger_spec.cases)
    case (book i ps)
    then have "bookings es = [(rt_IdempotencyKey (request_of_task t), i, ps)]" using b by (simp add: bookings_def)
    then obtain d where "es = [d]" "booking_of d = (rt_IdempotencyKey (request_of_task t), i, ps)"
      by (auto simp: bookings_def)
    then show ?thesis using book assms(2) by (auto simp: from_task_def booking_of_def request_of_task_def)
  qed (use b in \<open>auto simp: bookings_def\<close>)
  with b assms(3) show ?thesis by (auto simp: fed_growth_def)
qed

lemma ledger_run_fed: "ledger_run ts ds \<Longrightarrow> fed_growth ts [] ds"
proof (induction rule: ledger_run.induct)
  case empty
  show ?case by (rule feed.R_refl)
next
  case (deliver ds t E ctx es st resp)
  then have "feed.runs_among ts E" by (simp add: feed.runs_among_def)
  from feed.RecordTransaction_step [OF this deliver(5)] obtain a b where "fed_growth ts ds a"
    "ledger_spec (request_of_task t) (bookings a) resp (bookings b)" "evolves a b" "fed_growth ts b (lb_entries st)" by auto
  then show ?case using deliver(2,6) spec_growth feed.R_trans by meson
qed

text \<open>Two lists of records with the same distinct keys and equal values at equal keys.\<close>

lemma sum_by_key:
  fixes f :: "'a \<Rightarrow> int" and g :: "'b \<Rightarrow> int"
  assumes "distinct (map k xs)" and "distinct (map k' ys)" and "k ` set xs = k' ` set ys"
    and "\<And>x y. x \<in> set xs \<Longrightarrow> y \<in> set ys \<Longrightarrow> k x = k' y \<Longrightarrow> f x = g y"
  shows "sum_list (map f xs) = sum_list (map g ys)"
proof -
  have inj: "inj_on k (set xs)" "inj_on k' (set ys)" using assms(1,2) by (simp_all add: distinct_map)
  have "\<exists>y \<in> set ys. k' y = k x" if "x \<in> set xs" for x
    using that assms(3) by (metis image_iff)
  then obtain h where h: "\<And>x. x \<in> set xs \<Longrightarrow> h x \<in> set ys" "\<And>x. x \<in> set xs \<Longrightarrow> k' (h x) = k x" by metis
  have "inj_on h (set xs)"
  proof (rule inj_onI)
    fix x y assume x: "x \<in> set xs" and y: "y \<in> set xs" and "h x = h y"
    then have "k x = k y" using h(2) by metis
    then show "x = y" using inj(1) x y by (auto dest: inj_onD)
  qed
  moreover have "y \<in> h ` set xs" if y: "y \<in> set ys" for y
  proof -
    from y assms(3) obtain x where x: "x \<in> set xs" "k x = k' y" by (metis image_iff)
    then have "k' (h x) = k' y" using h(2) by simp
    then have "h x = y" using inj(2) h(1) [OF x(1)] y by (auto dest: inj_onD)
    with x show ?thesis by blast
  qed
  then have "h ` set xs = set ys" using h(1) by auto
  moreover have "g (h x) = f x" if "x \<in> set xs" for x
    using assms(4) [OF that h(1) [OF that]] h(2) [OF that] by simp
  ultimately have "sum g (set ys) = sum f (set xs)"
    by (intro sum.reindex_cong [of h]) auto
  moreover have "distinct xs" "distinct ys" using assms(1,2) by (simp_all add: distinct_map)
  ultimately show ?thesis by (simp add: sum_list_distinct_conv_sum_set)
qed

text \<open>In a sound wallet database no two tasks share an idempotency key.\<close>

lemma sound_task_keys: "sound opened db \<Longrightarrow> distinct (map lt_IdempotencyKey (d_tasks db))"
proof -
  assume s: "sound opened db"
  then have "map task_ref (d_tasks db) = map key_ref (d_idempotency db)" by (simp add: sound_def)
  then have "map (fst \<circ> task_ref) (d_tasks db) = map (fst \<circ> key_ref) (d_idempotency db)"
    by (metis list.map_comp)
  moreover have "fst \<circ> task_ref = lt_IdempotencyKey" "fst \<circ> key_ref = i_ID"
    by (auto simp: task_ref_def key_ref_def)
  ultimately show ?thesis using s by (simp add: sound_def)
qed

lemma ledger_follows_tasks:
  assumes "distinct (map lt_IdempotencyKey ts)" and "ledger_run ts ds" and "int (length ds) < 2 ^ 63"
    and "\<And>t. t \<in> set ts \<Longrightarrow> task_plain t \<and> lt_IdempotencyKey t \<in> ld_IdempotencyKey ` set ds"
  shows "sum_list (map (\<lambda>d. customer_flow c (ld_Postings d)) ds) = sum_list (map (\<lambda>t. task_flow t c) ts)"
proof -
  from ledger_run_fed [OF assms(2)] have g: "evolves [] ds" "list_all (from_task ts) ds" by (auto simp: fed_growth_def)
  have "ledger_ok []" by (simp add: ledger_ok_def)
  with g(1) assms(3) have ok: "distinct (map ld_IdempotencyKey ds)" by (simp add: evolves_def ledger_ok_def)
  show ?thesis
  proof (rule sum_by_key [OF ok assms(1)])
    show "ld_IdempotencyKey ` set ds = lt_IdempotencyKey ` set ts"
      using g(2) assms(4) by (auto simp: list_all_iff from_task_def)
  next
    fix d t assume d: "d \<in> set ds" and t: "t \<in> set ts" and k: "ld_IdempotencyKey d = lt_IdempotencyKey t"
    from g(2) d obtain t' where "t' \<in> set ts" "ld_IdempotencyKey d = lt_IdempotencyKey t'"
      "request_postings (request_of_task t') = Inr (ld_Postings d)" by (auto simp: list_all_iff from_task_def)
    moreover from this k t assms(1) have "t' = t" by (auto simp: distinct_map inj_on_def)
    ultimately show "customer_flow c (ld_Postings d) = task_flow t c" using postings_follow_task assms(4) t by blast
  qed
qed

end
