(* ===== verification/LedgerAudit.thy ===== *)
theory LedgerAudit
  imports LedgerChain
begin

text \<open>
  The audit endpoint of the ledger service (\<open>VerifyAuditChain\<close>, served by
  \<open>startLedgerMetricsServer\<close>) against the chain of \<open>LedgerChain\<close>: what a verdict means, that
  sound ledgers pass, and what a matching head hash says about two ledgers.
\<close>

subsection \<open>The verdict\<close>

lemma VerifyAuditChain_loop:
  assumes "collection M ledger_conflict" and "VerifyAuditChain M stop ds = Inr r"
  obtains ys where "mset ys = mset (filter sequenced ds)" "sorted (map ld_SequenceNumber ys)"
    "verify_loop (cursor_docs stop ys) 1 GenesisHash initial_result = Inl r
     \<or> (\<exists>r'. verify_loop (cursor_docs stop ys) 1 GenesisHash initial_result = Inr r'
          \<and> r = checkTrialBalanceEquilibrium r')"
proof -
  from assms(2) obtain ys where f: "Find M sequenced ld_SequenceNumber 0 None ds = Inr ys"
    by (auto simp: VerifyAuditChain_def split: sum.splits)
  from collection.Find_Inr [OF assms(1) f] have "mset ys = mset (filter sequenced ds)" "sorted (map ld_SequenceNumber ys)"
    by auto
  then show thesis using that assms(2) f by (auto simp: VerifyAuditChain_def split: sum.splits)
qed

lemma cursor_docs_length: "length (cursor_docs stop ys) \<le> length ys"
  by (cases stop) (simp_all add: cursor_docs_def)

text \<open>What a verdict should say about the entries \<open>docs\<close> it was reached on.\<close>

definition audit_verdict :: "LedgerDocument list \<Rightarrow> AuditVerificationResult \<Rightarrow> bool" where
  "audit_verdict docs r \<longleftrightarrow>
     (if linked 1 GenesisHash docs
          then av_Status r = ''VERIFIED'' \<and> av_IsBalanced r \<and> av_TotalEntries r = int (length docs)
             \<and> av_LatestHash r = last_hash [] docs
             \<and> (\<forall>c. getz (av_TotalDebits r) c = getz (av_TotalCredits r) c
                  \<and> getz (av_TotalDebits r) c = wrap64 (side_sum PostingDebit c (all_postings docs)))
          else av_Status r = ''CORRUPTED''
             \<and> (\<exists>i < length docs. linked 1 GenesisHash (take i docs) \<and> \<not> linked 1 GenesisHash (take (Suc i) docs)
                  \<and> av_TamperedEntrySeq r = ld_SequenceNumber (docs ! i)))"

lemma audit_exact:
  assumes "collection M ledger_conflict" and "VerifyAuditChain M stop ds = Inr r" and "int (length ds) + 1 < 2 ^ 63"
  shows "\<exists>ys. mset ys = mset (filter sequenced ds) \<and> sorted (map ld_SequenceNumber ys)
    \<and> audit_verdict (cursor_docs stop ys) r"
proof -
  obtain ys where ys: "mset ys = mset (filter sequenced ds)" "sorted (map ld_SequenceNumber ys)"
    and v: "verify_loop (cursor_docs stop ys) 1 GenesisHash initial_result = Inl r
     \<or> (\<exists>r'. verify_loop (cursor_docs stop ys) 1 GenesisHash initial_result = Inr r'
          \<and> r = checkTrialBalanceEquilibrium r')"
    using VerifyAuditChain_loop [OF assms(1,2)] by blast
  let ?docs = "cursor_docs stop ys"
  have "length ys \<le> length ds" using ys(1) by (metis length_filter_le size_mset)
  then have len: "int (length ?docs) + 1 < 2 ^ 63" using cursor_docs_length [of stop ys] assms(3) by linarith
  then have fits: "fits64 (1 + int (length ?docs))" "fits64 (int (length ?docs))" by (auto simp: fits64_def)
  from v show ?thesis
  proof (elim disjE exE conjE)
    assume "verify_loop ?docs 1 GenesisHash initial_result = Inl r"
    from verify_loop_Inl [OF this fits(1)] have c: "av_Status r = ''CORRUPTED''" "\<exists>i < length ?docs. linked 1 GenesisHash (take i ?docs)
        \<and> \<not> linked 1 GenesisHash (take (Suc i) ?docs) \<and> av_TamperedEntrySeq r = ld_SequenceNumber (?docs ! i)" by auto
    moreover have "\<not> linked 1 GenesisHash ?docs" using c(2) linked_take by blast
    ultimately show ?thesis using ys by (auto simp: audit_verdict_def)
  next
    fix r' assume l: "verify_loop ?docs 1 GenesisHash initial_result = Inr r'" and "r = checkTrialBalanceEquilibrium r'"
    from verify_loop_Inr [OF l initial_result_ok fits(1)] have f: "linked 1 GenesisHash ?docs" "audit_state_ok r'"
      "av_TotalEntries r' = int (length ?docs)" "av_LatestHash r' = last_hash [] ?docs"
      "\<forall>c. getz (av_TotalDebits r') c = wrap64 (side_sum PostingDebit c (all_postings ?docs))"
      using fits(2) by (auto simp: initial_result_def getz_def split: if_splits)
    moreover have "r = r'" using trial_balance_passes f(2) \<open>r = checkTrialBalanceEquilibrium r'\<close> by simp
    ultimately show ?thesis using ys by (auto simp: audit_verdict_def audit_state_ok_def)
  qed
qed

text \<open>A sound ledger passes the audit.\<close>

lemma sound_ledger_verified:
  assumes "collection M ledger_conflict" and "VerifyAuditChain M None ds = Inr r" and "int (length ds) + 1 < 2 ^ 63"
    and "ledger_ok ds"
  shows "av_Status r = ''VERIFIED'' \<and> audit_verdict (filter sequenced ds) r"
proof -
  have l: "linked 1 GenesisHash (filter sequenced ds)" using assms(4) by (simp add: ledger_ok_def)
  from audit_exact [OF assms(1-3)] obtain ys where
    ys: "mset ys = mset (filter sequenced ds)" "sorted (map ld_SequenceNumber ys)" and v: "audit_verdict ys r"
    by (auto simp: cursor_docs_def)
  then have "ys = filter sequenced ds" using sorted_by_seq_unique linked_sorted [OF l] by blast
  with v have "audit_verdict (filter sequenced ds) r" by simp
  moreover from this l have "av_Status r = ''VERIFIED''" by (simp add: audit_verdict_def)
  ultimately show ?thesis by simp
qed

subsection \<open>What the head of the chain seals\<close>

lemma canonical_previous:
  assumes "doc_canonical a = doc_canonical b" and "length (ld_PreviousHash a) = 64" and "length (ld_PreviousHash b) = 64"
  shows "ld_PreviousHash a = ld_PreviousHash b"
proof -
  have "take 64 (doc_canonical d) = ld_PreviousHash d" if "length (ld_PreviousHash d) = 64" for d
    using that by (simp add: doc_canonical_def canonical_def)
  then show ?thesis using assms by metis
qed

lemma last_hash_length: "linked n h ds \<Longrightarrow> length h = 64 \<Longrightarrow> length (last_hash h ds) = 64"
  by (induction n h ds rule: linked.induct) (auto simp: last_hash_def)

text \<open>Two chains of equal length with the same head: same texts throughout, or a collision.\<close>

lemma same_head:
  assumes "linked n h xs" and "linked n h ys" and "length xs = length ys" and "last_hash h xs = last_hash h ys"
    and "length h = 64"
  shows "map doc_canonical xs = map doc_canonical ys
    \<or> (\<exists>i < length xs. doc_canonical (xs ! i) \<noteq> doc_canonical (ys ! i)
         \<and> sha256_hex (doc_canonical (xs ! i)) = sha256_hex (doc_canonical (ys ! i)))"
  using assms
proof (induction xs arbitrary: ys rule: rev_induct)
  case Nil
  then show ?case by simp
next
  case (snoc x xs)
  then obtain zs y where ys: "ys = zs @ [y]" by (metis length_append_singleton length_greater_0_conv rev_exhaust zero_less_Suc list.size(3) nat.simps(3))
  with snoc.prems have lx: "linked n h xs" "ld_EntryHash x = sha256_hex (doc_canonical x)" "ld_PreviousHash x = last_hash h xs"
    and ly: "linked n h zs" "ld_EntryHash y = sha256_hex (doc_canonical y)" "ld_PreviousHash y = last_hash h zs"
    and len: "length xs = length zs" and eq: "sha256_hex (doc_canonical x) = sha256_hex (doc_canonical y)"
    by (auto simp: linked_append last_hash_def)
  show ?case
  proof (cases "doc_canonical x = doc_canonical y")
    case False
    then show ?thesis using eq len ys by (intro disjI2 exI [of _ "length xs"]) (simp add: nth_append)
  next
    case True
    have "length (ld_PreviousHash x) = 64" "length (ld_PreviousHash y) = 64"
      using lx ly last_hash_length snoc.prems(5) by simp_all
    then have "last_hash h xs = last_hash h zs" using canonical_previous [OF True] lx(3) ly(3) by simp
    from snoc.IH [OF lx(1) ly(1) len this snoc.prems(5)] show ?thesis
    proof (elim disjE exE conjE)
      fix i assume "i < length xs" "doc_canonical (xs ! i) \<noteq> doc_canonical (zs ! i)"
        "sha256_hex (doc_canonical (xs ! i)) = sha256_hex (doc_canonical (zs ! i))"
      then show ?thesis using len ys by (intro disjI2 exI [of _ i]) (simp add: nth_append)
    qed (use True ys in simp)
  qed
qed

subsection \<open>Properties\<close>

text \<open>
  C12. The audit is exact on the entries its cursor delivers: it answers VERIFIED when they form
  an unbroken chain of balanced entries from the genesis hash, and then the reported totals of
  debits and credits agree in every currency; otherwise it answers CORRUPTED and names the
  first entry at which the chain breaks. The verdict TRIAL\_BALANCE\_UNBALANCED never occurs.
\<close>

theorem VerifyAuditChain_exact:
  assumes "collection M ledger_conflict" and "VerifyAuditChain M stop ds = Inr r" and "int (length ds) + 1 < 2 ^ 63"
  shows "\<exists>ys. mset ys = mset (filter sequenced ds) \<and> sorted (map ld_SequenceNumber ys)
    \<and> audit_verdict (cursor_docs stop ys) r"
  by (rule audit_exact [OF assms])

definition sample_verdict :: AuditVerificationResult where
  "sample_verdict =
     \<lparr>av_Status = ''VERIFIED'', av_TotalEntries = 1, av_TotalDebits = [(''USD'', 500)], av_TotalCredits = [(''USD'', 500)],
      av_IsBalanced = True, av_GenesisHash = GenesisHash, av_LatestHash = ld_EntryHash sample_entry, av_LastSequence = 1,
      av_TamperedEntrySeq = 0, av_ErrorMessage = lit []\<rparr>"

lemma sample_audit: "VerifyAuditChain (mem_ops ledger_conflict) None [sample_entry] = Inr sample_verdict"
proof -
  have "ValidatePostings sample_postings = None" by code_simp
  then have "verifyDocIntegrity sample_entry 1 GenesisHash = None"
    by (simp add: verifyDocIntegrity_None sample_entry_def)
  moreover have "ld_Postings sample_entry = sample_postings" "sequenced sample_entry" "ld_SequenceNumber sample_entry = 1"
    by (simp_all add: sample_entry_def sequenced_def)
  moreover have "wrap64 1 = 1" "wrap64 500 = 500" "wrap64 2 = 2" by (simp_all add: wrap64_def)
  ultimately show ?thesis
    by (simp add: VerifyAuditChain_def mem_ops_def mem_Find_def cursor_docs_def accumulateDocPostings_def sample_postings_def
        add_posting_def add_total_def getz_def initial_result_def checkTrialBalanceEquilibrium_def sample_verdict_def)
qed

theorem VerifyAuditChain_exact_witness:
  "\<exists>ys. mset ys = mset (filter sequenced [sample_entry]) \<and> sorted (map ld_SequenceNumber ys)
    \<and> audit_verdict (cursor_docs None ys) sample_verdict"
  by (rule VerifyAuditChain_exact [OF _ sample_audit]) (simp_all add: mem.collection_axioms)

text \<open>
  C13. The head of the chain seals the whole ledger: if two ledgers both pass the audit with the
  same number of entries and the same latest hash, then all their entries agree in the sealed
  text (predecessor, sequence number, transaction id, idempotency key, time and postings), or
  two of these texts are an explicit collision of SHA-256.
\<close>

theorem VerifyAuditChain_seals:
  assumes "collection M ledger_conflict" and "int (length ds) + 1 < 2 ^ 63" and "int (length ds') + 1 < 2 ^ 63"
    and "VerifyAuditChain M stop ds = Inr r" and "VerifyAuditChain M stop' ds' = Inr r'"
    and "av_Status r = ''VERIFIED''" and "av_Status r' = ''VERIFIED''"
    and "av_TotalEntries r = av_TotalEntries r'" and "av_LatestHash r = av_LatestHash r'"
  shows "\<exists>ys ys' xs xs'. mset ys = mset (filter sequenced ds) \<and> sorted (map ld_SequenceNumber ys) \<and> xs = cursor_docs stop ys
    \<and> mset ys' = mset (filter sequenced ds') \<and> sorted (map ld_SequenceNumber ys') \<and> xs' = cursor_docs stop' ys'
    \<and> (map doc_canonical xs = map doc_canonical xs'
       \<or> (\<exists>i < length xs. doc_canonical (xs ! i) \<noteq> doc_canonical (xs' ! i)
            \<and> sha256_hex (doc_canonical (xs ! i)) = sha256_hex (doc_canonical (xs' ! i))))"
proof -
  from audit_exact [OF assms(1,4,2)] obtain ys where ys: "mset ys = mset (filter sequenced ds)"
    "sorted (map ld_SequenceNumber ys)" "audit_verdict (cursor_docs stop ys) r" by blast
  from audit_exact [OF assms(1,5,3)] obtain ys' where ys': "mset ys' = mset (filter sequenced ds')"
    "sorted (map ld_SequenceNumber ys')" "audit_verdict (cursor_docs stop' ys') r'" by blast
  let ?x = "cursor_docs stop ys" and ?y = "cursor_docs stop' ys'"
  from ys(3) assms(6) have x: "linked 1 GenesisHash ?x" "av_TotalEntries r = int (length ?x)" "av_LatestHash r = last_hash [] ?x"
    by (auto simp: audit_verdict_def split: if_splits)
  from ys'(3) assms(7) have y: "linked 1 GenesisHash ?y" "av_TotalEntries r' = int (length ?y)" "av_LatestHash r' = last_hash [] ?y"
    by (auto simp: audit_verdict_def split: if_splits)
  have len: "length ?x = length ?y" using x(2) y(2) assms(8) by simp
  have h: "last_hash GenesisHash ?x = last_hash GenesisHash ?y"
    using x(3) y(3) assms(9) len by (auto simp: last_hash_def split: if_splits)
  have "length GenesisHash = 64" by (simp add: GenesisHash_def)
  from same_head [OF x(1) y(1) len h this] show ?thesis using ys(1,2) ys'(1,2) by blast
qed

theorem VerifyAuditChain_seals_witness:
  "\<exists>ys ys' xs xs'. mset ys = mset (filter sequenced [sample_entry]) \<and> sorted (map ld_SequenceNumber ys) \<and> xs = cursor_docs None ys
    \<and> mset ys' = mset (filter sequenced [sample_entry]) \<and> sorted (map ld_SequenceNumber ys') \<and> xs' = cursor_docs None ys'
    \<and> (map doc_canonical xs = map doc_canonical xs'
       \<or> (\<exists>i < length xs. doc_canonical (xs ! i) \<noteq> doc_canonical (xs' ! i)
            \<and> sha256_hex (doc_canonical (xs ! i)) = sha256_hex (doc_canonical (xs' ! i))))"
  by (rule VerifyAuditChain_seals [OF _ _ _ sample_audit sample_audit])
     (simp_all add: mem.collection_axioms sample_verdict_def)

end
