(* ===== verification/LedgerPaging.thy ===== *)
theory LedgerPaging
  imports LedgerService
begin

text \<open>
  Reading the ledger page by page (\<open>GetLedgerEntries\<close>): a client starts with an empty page
  token and follows the tokens of the answers.
\<close>

fun read_pages ::
    "LedgerDocument collection_ops \<Rightarrow> string \<Rightarrow> int32 \<Rightarrow> nat \<Rightarrow> string \<Rightarrow> LedgerDocument list \<Rightarrow> LedgerEntry list" where
  "read_pages col w limit 0 token ds = []"
| "read_pages col w limit (Suc n) token ds =
     (case GetLedgerEntries True col None (Some \<lparr>gl_WalletId = w, gl_Limit = limit, gl_PageToken = token\<rparr>) ds of
        (Some r, None) \<Rightarrow>
          gr_Entries r @ (if gr_NextPageToken r = [] then [] else read_pages col w limit n (gr_NextPageToken r) ds)
      | _ \<Rightarrow> [])"

definition page_size :: "int32 \<Rightarrow> int" where
  "page_size limit = (if limit \<le> 0 \<or> 100 < limit then 20 else limit)"

text \<open>A token names the offset it was made from.\<close>

lemma show_int_nonempty: "0 \<le> i \<Longrightarrow> show_int i \<noteq> []"
  using show_nat_Cons [of "nat i"] by (auto simp: show_int_def)

lemma b64_encode_nonempty: "bs \<noteq> [] \<Longrightarrow> b64_encode bs \<noteq> []"
  by (cases bs rule: b64_encode.cases) auto

lemma token_nonempty: "0 \<le> i \<Longrightarrow> base64_EncodeToString (show_int i) \<noteq> []"
  using show_int_nonempty b64_encode_nonempty by (simp add: base64_EncodeToString_def)

lemma token_roundtrip:
  assumes "0 \<le> i" and "fits64 i"
  shows "parseLedgerPagination \<lparr>gl_WalletId = w, gl_Limit = limit, gl_PageToken = base64_EncodeToString (show_int i)\<rparr>
    = (page_size limit, i)"
  using assms token_nonempty [OF assms(1)] ParseInt_show [OF assms]
  by (simp add: parseLedgerPagination_def page_size_def)

lemma first_page: "parseLedgerPagination \<lparr>gl_WalletId = w, gl_Limit = limit, gl_PageToken = []\<rparr> = (page_size limit, int 0)"
  by (simp add: parseLedgerPagination_def page_size_def)

definition wallet_history :: "string \<Rightarrow> LedgerDocument list \<Rightarrow> LedgerEntry list" where
  "wallet_history w ds = map ledger_entry (sort_key (\<lambda>d. - ld_Timestamp d) (filter (of_wallet w) ds))"

text \<open>One page, from any offset within the history.\<close>

lemma mem_page:
  assumes "TrimSpace w \<noteq> []" and "parseLedgerPagination \<lparr>gl_WalletId = w, gl_Limit = limit, gl_PageToken = token\<rparr> = (page_size limit, int k)"
    and "fits64 (int (length (wallet_history w ds)))" and "k \<le> length (wallet_history w ds)"
  shows "GetLedgerEntries True (mem_ops c) None (Some \<lparr>gl_WalletId = w, gl_Limit = limit, gl_PageToken = token\<rparr>) ds
    = (let H = wallet_history w ds; page = take (nat (page_size limit)) (drop k H)
       in (Some \<lparr>gr_Entries = page,
             gr_NextPageToken = (if k + length page < length H then base64_EncodeToString (show_int (int (k + length page))) else []),
             gr_TotalCount = int (length H)\<rparr>, None))"
proof -
  let ?S = "sort_key (\<lambda>d. - ld_Timestamp d) (filter (of_wallet w) ds)"
  let ?p = "take (nat (page_size limit)) (drop k ?S)"
  have "fits64 (int (k + length ?p))" using assms(3,4) by (auto simp: fits64_def wallet_history_def)
  then have nxt: "wrap64 (int k + int (length ?p)) = int (k + length ?p)" by simp
  have find: "Find (mem_ops c) (of_wallet w) (\<lambda>d. - ld_Timestamp d) k (Some (nat (page_size limit))) ds = Inr ?p"
    "CountDocuments (mem_ops c) (of_wallet w) ds = Inr (int (length ?S))"
    by (simp_all add: mem_ops_def mem_Find_def)
  show ?thesis
    unfolding GetLedgerEntries_def wallet_history_def using assms(1)
    by (simp only: option.case GetLedgerRequest.simps assms(2) prod.case Let_def if_False nat_int find sum.case
        decodeLedgerEntries_def cursor_docs_def length_map nxt take_map drop_map if_True simp_thms of_nat_less_iff)
qed

lemma read_from:
  assumes "TrimSpace w \<noteq> []" and f: "fits64 (int (length (wallet_history w ds)))"
    and "parseLedgerPagination \<lparr>gl_WalletId = w, gl_Limit = limit, gl_PageToken = token\<rparr> = (page_size limit, int k)"
    and "k \<le> length (wallet_history w ds)" and "length (wallet_history w ds) - k < n"
  shows "read_pages (mem_ops c) w limit n token ds = drop k (wallet_history w ds)"
  using assms(3-)
proof (induction n arbitrary: token k)
  case 0
  then show ?case by simp
next
  case (Suc n)
  let ?H = "wallet_history w ds" and ?l = "nat (page_size limit)"
  let ?p = "take ?l (drop k ?H)"
  let ?k = "k + length ?p"
  have l: "0 < ?l" by (simp add: page_size_def)
  note page = mem_page [OF assms(1) Suc.prems(1) f Suc.prems(2), of c, unfolded Let_def]
  show ?case
  proof (cases "?k < length ?H")
    case True
    have "0 < length ?p" using True l by simp
    with Suc.prems(3) True have n: "length ?H - ?k < n" by simp
    have "fits64 (int ?k)" using f True by (auto simp: fits64_def)
    from token_roundtrip [OF _ this] have "parseLedgerPagination \<lparr>gl_WalletId = w, gl_Limit = limit,
        gl_PageToken = base64_EncodeToString (show_int (int ?k))\<rparr> = (page_size limit, int ?k)" by simp
    from Suc.IH [OF this _ n] True
    have "read_pages (mem_ops c) w limit n (base64_EncodeToString (show_int (int ?k))) ds = drop ?k ?H" by simp
    moreover have "?p @ drop ?k ?H = drop k ?H"
    proof -
      have "drop ?k ?H = drop (length ?p) (drop k ?H)" by (simp add: add.commute)
      moreover have "take ?l xs @ drop (length (take ?l xs)) xs = xs" for xs :: "LedgerEntry list" by (simp add: min_def)
      ultimately show ?thesis by metis
    qed
    moreover have "base64_EncodeToString (show_int (int ?k)) \<noteq> []" using token_nonempty by simp
    ultimately show ?thesis using page True by simp
  next
    case False
    then have "?p = drop k ?H" by simp
    then show ?thesis using page False by simp
  qed
qed


definition history_doc :: "string \<Rightarrow> int \<Rightarrow> LedgerDocument" where
  "history_doc i ts =
     \<lparr>ld_ID = i, ld_SequenceNumber = 1, ld_IdempotencyKey = i, ld_SourceWalletID = ''alice'', ld_DestinationWalletID = ''bob'',
      ld_Amount = 5, ld_Currency = ''USD'', ld_DestinationAmount = 0, ld_DestinationCurrency = [], ld_ExchangeRate = 0,
      ld_FXQuoteID = [], ld_Region = [], ld_Timestamp = ts, ld_Postings = [], ld_PreviousHash = [], ld_EntryHash = []\<rparr>"


end
