(* ===== verification/Merkle.thy ===== *)
theory Merkle
  imports Encoding
begin

text \<open>
  Merkle trees over entry hashes (\<open>pkg/merkle/tree.go\<close>): construction level by level with the
  odd node promoted, inclusion proofs by a search for the leaf, and their verification.
  A nil pointer is \<open>NilNode\<close>; reading the hash of one is a panic.
\<close>

subsection \<open>The package\<close>

datatype Node = NilNode | Node (Hash: string) (Left: Node) (Right: Node)

record ProofStep =
  SiblingHash :: string
  IsRight :: bool

record AuditProof =
  LeafHash :: string
  AuditRootHash :: string
  Steps :: "ProofStep list"

record Tree =
  Root :: Node
  Leaves :: "Node list"

definition ErrEmptyTree :: goerr where
  "ErrEmptyTree = PlainErr (lit ''merkle: cannot construct tree with zero leaves'')"

definition ErrLeafNotFound :: goerr where
  "ErrLeafNotFound = PlainErr (lit ''merkle: leaf hash not found in tree'')"

definition pair_text :: "string \<Rightarrow> string \<Rightarrow> string" where
  "pair_text leftHex rightHex = [CHR 0x01] @ leftHex @ rightHex"

definition HashPair :: "string \<Rightarrow> string \<Rightarrow> string" where
  "HashPair leftHex rightHex = sha256_hex (pair_text leftHex rightHex)"

definition HashLeaf :: "string \<Rightarrow> string" where
  "HashLeaf data = sha256_hex ([CHR 0x00] @ data)"

definition clean_hash :: "string \<Rightarrow> string" where
  "clean_hash h = ToLower (TrimSpace h)"

text \<open>One round of the loop: neighbours are paired, an odd last node is promoted.\<close>

fun next_level :: "Node list \<Rightarrow> Node list" where
  "next_level (l # r # rest) = Node (HashPair (Hash l) (Hash r)) l r # next_level rest"
| "next_level level = level"

lemma length_next_level: "length (next_level ns) \<le> length ns \<and> (1 < length ns \<longrightarrow> length (next_level ns) < length ns)"
  by (induction ns rule: next_level.induct) auto

function build_levels :: "Node list \<Rightarrow> Node list" where
  "build_levels currentLevel =
     (if 1 < length currentLevel then build_levels (next_level currentLevel) else currentLevel)"
  by auto
termination by (relation "measure length") (use length_next_level in auto)

declare build_levels.simps [simp del]

definition NewTree :: "string list \<Rightarrow> goerr + Tree" where
  "NewTree leafHashes =
     (if leafHashes = [] then Inl ErrEmptyTree
      else let leaves = map (\<lambda>h. Node (clean_hash h) NilNode NilNode) leafHashes
           in if length leaves = 1 then Inr \<lparr>Root = hd leaves, Leaves = leaves\<rparr>
              else Inr \<lparr>Root = hd (build_levels leaves), Leaves = leaves\<rparr>)"

definition RootHash :: "Tree option \<Rightarrow> string" where
  "RootHash t = (case t of None \<Rightarrow> [] | Some t \<Rightarrow> if Root t = NilNode then [] else Hash (Root t))"

fun findPath :: "Node \<Rightarrow> string \<Rightarrow> ProofStep list \<Rightarrow> goerr + bool \<times> ProofStep list" where
  "findPath NilNode target steps = Inr (False, steps)"
| "findPath (Node h l r) target steps =
     (if l = NilNode \<and> r = NilNode then Inr (h = target, steps)
      else case findPath l target steps of
             Inl e \<Rightarrow> Inl e
           | Inr (True, steps) \<Rightarrow>
               if r = NilNode then Inl NilDereference
               else Inr (True, steps @ [\<lparr>SiblingHash = Hash r, IsRight = True\<rparr>])
           | Inr (False, steps) \<Rightarrow>
               (case findPath r target steps of
                  Inl e \<Rightarrow> Inl e
                | Inr (True, steps) \<Rightarrow>
                    if l = NilNode then Inl NilDereference
                    else Inr (True, steps @ [\<lparr>SiblingHash = Hash l, IsRight = False\<rparr>])
                | Inr (False, steps) \<Rightarrow> Inr (False, steps)))"

definition GetProof :: "Tree option \<Rightarrow> string \<Rightarrow> goerr + AuditProof" where
  "GetProof t leafHash =
     (case t of
        None \<Rightarrow> Inl ErrEmptyTree
      | Some t \<Rightarrow>
          if Root t = NilNode then Inl ErrEmptyTree
          else case findPath (Root t) (clean_hash leafHash) [] of
                 Inl e \<Rightarrow> Inl e
               | Inr (False, steps) \<Rightarrow> Inl ErrLeafNotFound
               | Inr (True, steps) \<Rightarrow>
                   Inr \<lparr>LeafHash = clean_hash leafHash, AuditRootHash = Hash (Root t), Steps = steps\<rparr>)"

definition hop_text :: "ProofStep \<Rightarrow> string \<Rightarrow> string" where
  "hop_text step cur =
     (let sibling = clean_hash (SiblingHash step)
      in if IsRight step then pair_text cur sibling else pair_text sibling cur)"

fun climb :: "ProofStep list \<Rightarrow> string \<Rightarrow> string" where
  "climb [] cur = cur"
| "climb (step # steps) cur = climb steps (sha256_hex (hop_text step cur))"

definition VerifyProof :: "string \<Rightarrow> AuditProof option \<Rightarrow> string \<Rightarrow> bool" where
  "VerifyProof leafHash proof expectedRoot =
     (case proof of
        None \<Rightarrow> False
      | Some proof \<Rightarrow>
          leafHash \<noteq> [] \<and> expectedRoot \<noteq> []
          \<and> climb (Steps proof) (clean_hash leafHash) = clean_hash expectedRoot)"

subsection \<open>Trees\<close>

text \<open>
  A sound tree: a leaf carries a clean hash, an inner node has two children and the hash of
  theirs. \<open>leaves\<close> lists the hashes of the leaves from left to right.
\<close>

fun tree_ok :: "Node \<Rightarrow> bool" where
  "tree_ok NilNode \<longleftrightarrow> False"
| "tree_ok (Node h l r) \<longleftrightarrow>
     (if l = NilNode \<and> r = NilNode then clean_hash h = h
      else h = HashPair (Hash l) (Hash r) \<and> tree_ok l \<and> tree_ok r)"

fun leaves :: "Node \<Rightarrow> string list" where
  "leaves NilNode = []"
| "leaves (Node h l r) = (if l = NilNode \<and> r = NilNode then [h] else leaves l @ leaves r)"

fun node_hashes :: "Node \<Rightarrow> string set" where
  "node_hashes NilNode = {}"
| "node_hashes (Node h l r) = insert h (node_hashes l \<union> node_hashes r)"

lemma lower_table: "list_all (\<lambda>(c, d). is_space c = is_space d \<and> to_lower_char d = d) (zip upper_letters lower_letters)"
  by code_simp

lemma to_lower_char_facts: "is_space (to_lower_char c) = is_space c" "to_lower_char (to_lower_char c) = to_lower_char c"
proof -
  have "is_space (to_lower_char c) = is_space c \<and> to_lower_char (to_lower_char c) = to_lower_char c"
  proof (cases "map_of (zip upper_letters lower_letters) c")
    case None
    then show ?thesis by (simp add: to_lower_char_def)
  next
    case (Some d)
    then have "(c, d) \<in> set (zip upper_letters lower_letters)" by (rule map_of_SomeD)
    with lower_table have "is_space c = is_space d" "to_lower_char d = d" by (auto simp: list_all_iff)
    moreover have "to_lower_char c = d" using Some by (simp add: to_lower_char_def)
    ultimately show ?thesis by simp
  qed
  then show "is_space (to_lower_char c) = is_space c" "to_lower_char (to_lower_char c) = to_lower_char c" by auto
qed

lemma TrimSpace_ToLower: "TrimSpace (ToLower s) = ToLower (TrimSpace s)"
  by (simp add: TrimSpace_def ToLower_def rev_map dropWhile_map comp_def to_lower_char_facts)

lemma clean_hash_idem [simp]: "clean_hash (clean_hash h) = clean_hash h"
  by (simp add: clean_hash_def TrimSpace_ToLower) (simp add: ToLower_def to_lower_char_facts)

lemma clean_sha [simp]: "clean_hash (sha256_hex s) = sha256_hex s"
  by (simp add: clean_hash_def)

lemma clean_HashPair [simp]: "clean_hash (HashPair l r) = HashPair l r"
  by (simp add: HashPair_def)

lemma tree_ok_clean: "tree_ok n \<Longrightarrow> clean_hash (Hash n) = Hash n"
  by (cases n) (auto split: if_splits)

lemma tree_ok_notNil: "tree_ok n \<Longrightarrow> n \<noteq> NilNode"
  by auto

lemma next_level_ok:
  "list_all tree_ok ns \<Longrightarrow> list_all tree_ok (next_level ns) \<and> concat (map leaves (next_level ns)) = concat (map leaves ns)"
proof (induction ns rule: next_level.induct)
  case (1 l r rest)
  then show ?case by (auto dest: tree_ok_notNil)
qed auto

lemma build_levels_ok:
  "list_all tree_ok ns \<Longrightarrow> ns \<noteq> [] \<Longrightarrow>
     \<exists>n. build_levels ns = [n] \<and> tree_ok n \<and> leaves n = concat (map leaves ns)"
proof (induction ns rule: build_levels.induct)
  case (1 ns)
  show ?case
  proof (cases "1 < length ns")
    case True
    then have "next_level ns \<noteq> []" by (cases ns rule: next_level.cases) auto
    with 1 True next_level_ok [OF 1(2)] show ?thesis by (subst build_levels.simps) auto
  next
    case False
    with 1(3) obtain n where "ns = [n]" by (cases ns rule: next_level.cases) auto
    with 1(2) show ?thesis by (subst build_levels.simps) simp
  qed
qed

text \<open>The tree is sound and its leaves are the given hashes, in order.\<close>

lemma NewTree_Inr:
  assumes "NewTree hs = Inr t"
  shows "tree_ok (Root t) \<and> leaves (Root t) = map clean_hash hs"
proof -
  let ?ls = "map (\<lambda>h. Node (clean_hash h) NilNode NilNode) hs"
  have ls: "list_all tree_ok ?ls" "concat (map leaves ?ls) = map clean_hash hs"
    by (simp_all add: list_all_iff comp_def)
  from assms have ne: "hs \<noteq> []" by (auto simp: NewTree_def)
  show ?thesis
  proof (cases "length hs = 1")
    case True
    then obtain h where "hs = [h]" by (cases hs) auto
    with assms show ?thesis by (auto simp: NewTree_def)
  next
    case False
    with assms ne have "Root t = hd (build_levels ?ls)" by (auto simp: NewTree_def Let_def)
    with build_levels_ok [OF ls(1)] ne ls(2) show ?thesis by auto
  qed
qed

lemma NewTree_defined: "hs \<noteq> [] \<Longrightarrow> \<exists>t. NewTree hs = Inr t"
  by (simp add: NewTree_def Let_def)

subsection \<open>Proofs of inclusion\<close>

lemma climb_append: "climb (ss @ [s]) cur = sha256_hex (hop_text s (climb ss cur))"
  by (induction ss cur rule: climb.induct) auto

text \<open>The search succeeds on the leaves and nowhere else, and its path leads to the root.\<close>

lemma findPath_ok:
  assumes "tree_ok n"
  shows "if target \<in> set (leaves n)
    then \<exists>ss. findPath n target steps = Inr (True, steps @ ss) \<and> climb ss target = Hash n
    else findPath n target steps = Inr (False, steps)"
  using assms
proof (induction n target steps rule: findPath.induct)
  case (2 h l r target steps)
  show ?case
  proof (cases "l = NilNode \<and> r = NilNode")
    case True
    then show ?thesis by (auto intro: exI [of _ "[]"])
  next
    case False
    with 2(3) have ok: "tree_ok l" "tree_ok r" "h = HashPair (Hash l) (Hash r)" "l \<noteq> NilNode" "r \<noteq> NilNode"
      by (auto dest: tree_ok_notNil)
    show ?thesis
    proof (cases "target \<in> set (leaves l)")
      case True
      with 2(1) False ok obtain ss where "findPath l target steps = Inr (True, steps @ ss)" "climb ss target = Hash l"
        by auto
      with True False ok show ?thesis
        by (auto simp: climb_append hop_text_def HashPair_def tree_ok_clean intro!: exI [of _ "ss @ [_]"])
    next
      case notl: False
      then have l: "findPath l target steps = Inr (False, steps)" using 2(1) False ok by auto
      show ?thesis
      proof (cases "target \<in> set (leaves r)")
        case True
        with 2(2) [OF False l refl] ok obtain ss where "findPath r target steps = Inr (True, steps @ ss)" "climb ss target = Hash r"
          by auto
        with True False l ok show ?thesis
          by (auto simp: climb_append hop_text_def HashPair_def tree_ok_clean intro!: exI [of _ "ss @ [_]"])
      next
        case False
        then have "findPath r target steps = Inr (False, steps)" using 2(2) [OF \<open>\<not> (l = NilNode \<and> r = NilNode)\<close> l refl] ok by auto
        then show ?thesis using False notl l \<open>\<not> (l = NilNode \<and> r = NilNode)\<close> by auto
      qed
    qed
  qed
qed simp

lemma climb_nonempty: "cur \<noteq> [] \<Longrightarrow> climb ss cur \<noteq> []"
  by (induction ss cur rule: climb.induct) auto

lemma GetProof_leaf:
  assumes "NewTree hs = Inr t" and "clean_hash h \<in> clean_hash ` set hs"
  obtains p where "GetProof (Some t) h = Inr p" "climb (Steps p) (clean_hash h) = Hash (Root t)"
    "LeafHash p = clean_hash h" "AuditRootHash p = Hash (Root t)" "Root t \<noteq> NilNode"
proof -
  from NewTree_Inr [OF assms(1)] have t: "tree_ok (Root t)" "leaves (Root t) = map clean_hash hs" by auto
  with findPath_ok [of "Root t" "clean_hash h" "[]"] assms(2) obtain ss where
    "findPath (Root t) (clean_hash h) [] = Inr (True, ss)" "climb ss (clean_hash h) = Hash (Root t)" by auto
  then show thesis using that tree_ok_notNil [OF t(1)] by (simp add: GetProof_def)
qed

lemma GetProof_absent:
  assumes "NewTree hs = Inr t" and "clean_hash h \<notin> clean_hash ` set hs"
  shows "GetProof (Some t) h = Inl ErrLeafNotFound"
proof -
  from NewTree_Inr [OF assms(1)] have t: "tree_ok (Root t)" "leaves (Root t) = map clean_hash hs" by auto
  with findPath_ok [of "Root t" "clean_hash h" "[]"] assms(2) tree_ok_notNil [OF t(1)] show ?thesis
    by (auto simp: GetProof_def)
qed

lemma RootHash_clean: "NewTree hs = Inr t \<Longrightarrow> RootHash (Some t) = Hash (Root t) \<and> clean_hash (RootHash (Some t)) = RootHash (Some t)"
  using NewTree_Inr [of hs t] tree_ok_clean tree_ok_notNil by (auto simp: RootHash_def)

text \<open>A leaf of the tree has a proof that verifies against its root.\<close>

lemma leaf_verifies:
  assumes "NewTree hs = Inr t" and "clean_hash h \<in> clean_hash ` set hs" and "clean_hash h \<noteq> []"
  shows "\<exists>p. GetProof (Some t) h = Inr p \<and> VerifyProof h (Some p) (RootHash (Some t))"
proof -
  obtain p where p: "GetProof (Some t) h = Inr p" "climb (Steps p) (clean_hash h) = Hash (Root t)"
    using GetProof_leaf [OF assms(1,2)] by blast
  moreover from p(2) have "Hash (Root t) \<noteq> []" using climb_nonempty assms(3) by metis
  moreover have "h \<noteq> []" using assms(3) by (auto simp: clean_hash_def ToLower_def)
  moreover have "RootHash (Some t) = Hash (Root t)" "clean_hash (Hash (Root t)) = Hash (Root t)"
    using RootHash_clean [OF assms(1)] by auto
  ultimately show ?thesis by (simp add: VerifyProof_def)
qed

text \<open>The texts hashed for the inner nodes of a tree, and on the way up a proof.\<close>

fun inner_texts :: "Node \<Rightarrow> string set" where
  "inner_texts NilNode = {}"
| "inner_texts (Node h l r) =
     (if l = NilNode \<and> r = NilNode then {}
      else insert (pair_text (Hash l) (Hash r)) (inner_texts l \<union> inner_texts r))"

fun climb_texts :: "ProofStep list \<Rightarrow> string \<Rightarrow> string set" where
  "climb_texts [] cur = {}"
| "climb_texts (step # steps) cur = insert (hop_text step cur) (climb_texts steps (sha256_hex (hop_text step cur)))"

definition collide :: "string set \<Rightarrow> string set \<Rightarrow> bool" where
  "collide S U \<longleftrightarrow> (\<exists>s \<in> S. \<exists>u \<in> U. s \<noteq> u \<and> sha256_hex s = sha256_hex u)"

lemma collide_mono: "collide S U \<Longrightarrow> S \<subseteq> S' \<Longrightarrow> U \<subseteq> U' \<Longrightarrow> collide S' U'"
  by (auto simp: collide_def)

lemma climb_texts_append: "climb_texts (ss @ [s]) cur = insert (hop_text s (climb ss cur)) (climb_texts ss cur)"
  by (induction ss cur rule: climb_texts.induct) auto

lemma climb_length: "length cur = 64 \<Longrightarrow> length (climb ss cur) = 64"
  by (induction ss cur rule: climb.induct) auto

lemma node_length: "tree_ok n \<Longrightarrow> (\<And>h. h \<in> set (leaves n) \<Longrightarrow> length h = 64) \<Longrightarrow> length (Hash n) = 64"
  by (cases n) (auto simp: HashPair_def split: if_splits)

text \<open>Whatever climbs to a node starts at a node below it, or two hashed texts collide.\<close>

lemma climb_sound:
  assumes "tree_ok n" and "\<And>h. h \<in> set (leaves n) \<Longrightarrow> \<exists>s \<in> S. h = sha256_hex s \<and> (\<forall>r. s \<noteq> CHR 0x01 # r)"
    and "length cur = 64" and "\<And>s. s \<in> set ss \<Longrightarrow> length (clean_hash (SiblingHash s)) = 64" and "climb ss cur = Hash n"
  shows "cur \<in> node_hashes n \<or> collide (S \<union> inner_texts n) (climb_texts ss cur)"
  using assms
proof (induction ss arbitrary: n rule: rev_induct)
  case Nil
  then show ?case by (cases n) auto
next
  case (snoc s ss)
  let ?v = "climb ss cur" and ?t = "hop_text s (climb ss cur)"
  have v: "length ?v = 64" "length (clean_hash (SiblingHash s)) = 64" using climb_length snoc.prems by auto
  have h: "sha256_hex ?t = Hash n" using snoc.prems(5) by (simp add: climb_append)
  obtain hn l r where n: "n = Node hn l r" using tree_ok_notNil [OF snoc.prems(1)] by (cases n) auto
  show ?case
  proof (cases "l = NilNode \<and> r = NilNode")
    case True
    then obtain x where "x \<in> S" "hn = sha256_hex x" "\<forall>y. x \<noteq> CHR 0x01 # y" using snoc.prems(2) [of hn] n by auto
    moreover have "\<exists>y. ?t = CHR 0x01 # y" by (simp add: hop_text_def pair_text_def Let_def)
    ultimately have "collide (S \<union> inner_texts n) (climb_texts (ss @ [s]) cur)"
      using h n unfolding collide_def climb_texts_append by (intro bexI [of _ x] bexI [of _ ?t]) auto
    then show ?thesis by simp
  next
    case False
    with snoc.prems(1) n have ok: "hn = HashPair (Hash l) (Hash r)" "tree_ok l" "tree_ok r" by auto
    show ?thesis
    proof (cases "?t = pair_text (Hash l) (Hash r)")
      case neq: False
      have "pair_text (Hash l) (Hash r) \<in> S \<union> inner_texts n" using n False by auto
      moreover have "sha256_hex (pair_text (Hash l) (Hash r)) = sha256_hex ?t" using h n ok(1) by (simp add: HashPair_def)
      ultimately have "collide (S \<union> inner_texts n) (climb_texts (ss @ [s]) cur)"
        unfolding collide_def climb_texts_append using neq
        by (intro bexI [of _ "pair_text (Hash l) (Hash r)"] bexI [of _ ?t] conjI) auto
      then show ?thesis by simp
    next
      case eq: True
      have child: ?thesis if "m \<in> {l, r}" "?v = Hash m" for m
      proof -
        have "tree_ok m" "set (leaves m) \<subseteq> set (leaves n)" "inner_texts m \<subseteq> inner_texts n" "node_hashes m \<subseteq> node_hashes n"
          using that(1) ok n False by auto
        with snoc.IH [of m] snoc.prems(2-4) that(2) have "cur \<in> node_hashes m \<or> collide (S \<union> inner_texts m) (climb_texts ss cur)"
          by auto
        moreover have "collide (S \<union> inner_texts n) (climb_texts (ss @ [s]) cur)"
          if "collide (S \<union> inner_texts m) (climb_texts ss cur)"
          by (rule collide_mono [OF that]) (use \<open>inner_texts m \<subseteq> inner_texts n\<close> in \<open>auto simp: climb_texts_append\<close>)
        ultimately show ?thesis using \<open>node_hashes m \<subseteq> node_hashes n\<close> by blast
      qed
      have "length h = 64" if "h \<in> set (leaves n)" for h using snoc.prems(2) [OF that] by auto
      then have "length (Hash l) = 64" using node_length [OF ok(2)] n False by auto
      with eq v have "?v = Hash l \<or> ?v = Hash r" by (auto simp: hop_text_def pair_text_def Let_def split: if_splits)
      with child show ?thesis by auto
    qed
  qed
qed

subsection \<open>Properties\<close>

text \<open>
  C16. Inclusion proofs are complete: for every hash a tree was built over, the tree yields a
  proof and the proof verifies against the root; for any other hash there is no proof.
\<close>

theorem GetProof_VerifyProof:
  assumes "NewTree hs = Inr t" and "clean_hash h \<noteq> []"
  shows "if clean_hash h \<in> clean_hash ` set hs
    then \<exists>p. GetProof (Some t) h = Inr p \<and> VerifyProof h (Some p) (RootHash (Some t))
    else GetProof (Some t) h = Inl ErrLeafNotFound"
  using leaf_verifies [OF assms(1) _ assms(2)] GetProof_absent [OF assms(1)] by simp

definition two_leaf_tree :: Tree where
  "two_leaf_tree =
     (let a = Node (sha256_hex ''entry 1'') NilNode NilNode; b = Node (sha256_hex ''entry 2'') NilNode NilNode
      in \<lparr>Root = Node (HashPair (Hash a) (Hash b)) a b, Leaves = [a, b]\<rparr>)"

lemma two_leaf_tree: "NewTree [sha256_hex ''entry 1'', sha256_hex ''entry 2''] = Inr two_leaf_tree"
  by (simp add: NewTree_def two_leaf_tree_def Let_def build_levels.simps)

theorem GetProof_VerifyProof_witness:
  "\<exists>p. GetProof (Some two_leaf_tree) (sha256_hex ''entry 2'') = Inr p
    \<and> VerifyProof (sha256_hex ''entry 2'') (Some p) (RootHash (Some two_leaf_tree))"
  using GetProof_VerifyProof [OF two_leaf_tree, of "sha256_hex ''entry 2''"] by simp



text \<open>
  The lengths matter: verification does not check that the hashes it is given have 64
  digits, so the text of two sibling hashes can be split elsewhere. For a tree over two
  hashes, the first one extended by a piece of the second verifies as a leaf.
\<close>

lemma VerifyProof_accepts_split:
  assumes "NewTree [a, b] = Inr t" and "clean_hash a = a" and "clean_hash b = b" and "b = u @ v"
    and "clean_hash (a @ u) = a @ u" and "clean_hash v = v" and "a \<noteq> []"
  shows "VerifyProof (a @ u) (Some \<lparr>LeafHash = a @ u, AuditRootHash = RootHash (Some t),
      Steps = [\<lparr>SiblingHash = v, IsRight = True\<rparr>]\<rparr>) (RootHash (Some t))"
proof -
  from assms(1-3) have "RootHash (Some t) = HashPair a b"
    by (auto simp: NewTree_def Let_def build_levels.simps RootHash_def)
  then show ?thesis using assms by (simp add: VerifyProof_def hop_text_def HashPair_def pair_text_def)
qed

end
