(* ===== verification/Checkpoints.thy ===== *)
theory Checkpoints
  imports LedgerChain Merkle
begin

text \<open>
  Merkle checkpoints of the ledger (\<open>cmd/ledger-service/merkle.go\<close>): a checkpoint commits to the
  next batch of entries by the root of the tree over their hashes, and serves inclusion proofs
  for them. The collections are the entries and the checkpoints; \<open>stop\<close> is the number of
  documents after which a cursor fails, if it does. A nil database is \<open>False\<close>.
\<close>

record MerkleCheckpoint =
  cp_CheckpointID :: string
  cp_StartSequence :: int64
  cp_EndSequence :: int64
  cp_MerkleRoot :: string
  cp_EntryCount :: int
  cp_CreatedAt :: int
  cp_LeafHashes :: "string list"

record MerkleProofResponse =
  mr_EntryHash :: string
  mr_CheckpointID :: string
  mr_MerkleRoot :: string
  mr_Proof :: AuditProof
  mr_Verified :: bool

fun err_message :: "goerr \<Rightarrow> gomsg" where
  "err_message (StatusErr c m) = m"
| "err_message (PlainErr m) = m"
| "err_message NilDereference = lit ''invalid memory address or nil pointer dereference''"

definition db_nil :: gomsg where
  "db_nil = lit ''database client is nil''"

definition batch_limit :: "int \<Rightarrow> int" where
  "batch_limit batchLimit = (if batchLimit \<le> 0 then 1000 else batchLimit)"

definition last_checkpoint ::
    "MerkleCheckpoint collection_ops \<Rightarrow> MerkleCheckpoint list \<Rightarrow> mongo_error + MerkleCheckpoint" where
  "last_checkpoint cpCol cps = FindOne cpCol (\<lambda>c. True) (Some (\<lambda>c. - cp_EndSequence c)) cps"

definition leaf_of :: "LedgerDocument \<Rightarrow> string" where
  "leaf_of doc = (if ld_EntryHash doc = [] then ld_IdempotencyKey doc else ld_EntryHash doc)"

text \<open>The loop over the batch: the leaf hashes, the first and the last sequence number.\<close>

fun scan_batch :: "LedgerDocument list \<Rightarrow> string list \<times> int64 \<times> int64 \<Rightarrow> string list \<times> int64 \<times> int64" where
  "scan_batch [] acc = acc"
| "scan_batch (doc # docs) (leafHashes, startSeq, endSeq) =
     scan_batch docs (leafHashes @ [leaf_of doc],
       if startSeq = 0 then ld_SequenceNumber doc else startSeq, ld_SequenceNumber doc)"

definition new_checkpoint :: "int \<Rightarrow> string list \<Rightarrow> int64 \<Rightarrow> int64 \<Rightarrow> Tree \<Rightarrow> MerkleCheckpoint" where
  "new_checkpoint now leafHashes startSeq endSeq tree =
     \<lparr>cp_CheckpointID = ''mcp_'' @ show_int (now div Second) @ ''_'' @ show_int startSeq @ ''_'' @ show_int endSeq,
      cp_StartSequence = startSeq, cp_EndSequence = endSeq, cp_MerkleRoot = RootHash (Some tree),
      cp_EntryCount = int (length leafHashes), cp_CreatedAt = now, cp_LeafHashes = leafHashes\<rparr>"

definition store_checkpoint ::
    "MerkleCheckpoint collection_ops \<Rightarrow> MerkleCheckpoint \<Rightarrow> MerkleCheckpoint list
       \<Rightarrow> MerkleCheckpoint list \<times> (gomsg + MerkleCheckpoint option)" where
  "store_checkpoint cpCol cp cps =
     (case InsertOne cpCol cp cps of
        (cps', Some err) \<Rightarrow> (cps', Inl (Msg ''failed to persist merkle checkpoint: %w'' [ArgE (err_msg err)]))
      | (cps', None) \<Rightarrow> (cps', Inr (Some cp)))"

definition GenerateCheckpoint ::
    "bool \<Rightarrow> MerkleCheckpoint collection_ops \<Rightarrow> LedgerDocument collection_ops \<Rightarrow> nat option \<Rightarrow> int \<Rightarrow> int
       \<Rightarrow> LedgerDocument list \<Rightarrow> MerkleCheckpoint list
       \<Rightarrow> MerkleCheckpoint list \<times> (gomsg + MerkleCheckpoint option)" where
  "GenerateCheckpoint dbReady cpCol entriesCol stop now batchLimit ds cps =
     (if \<not> dbReady then (cps, Inl db_nil)
      else
        let batchLimit = batch_limit batchLimit;
            lastSeq = (case last_checkpoint cpCol cps of Inr lastCP \<Rightarrow> cp_EndSequence lastCP | Inl err \<Rightarrow> 0)
        in case Find entriesCol (\<lambda>d. lastSeq < ld_SequenceNumber d) ld_SequenceNumber 0 (Some (nat batchLimit)) ds of
             Inl err \<Rightarrow> (cps, Inl (Msg ''failed to query uncheckpointed ledger entries: %w'' [ArgE (err_msg err)]))
           | Inr docs \<Rightarrow>
               (let (leafHashes, startSeq, endSeq) = scan_batch (cursor_docs stop docs) ([], 0, 0)
                in if leafHashes = [] then (cps, Inr None)
                   else case NewTree leafHashes of
                          Inl err \<Rightarrow> (cps, Inl (Msg ''failed to construct merkle tree: %w'' [ArgE (err_message err)]))
                        | Inr tree \<Rightarrow>
                            store_checkpoint cpCol (new_checkpoint now leafHashes startSeq endSeq tree) cps))"

definition GetLatestCheckpoint ::
    "bool \<Rightarrow> MerkleCheckpoint collection_ops \<Rightarrow> MerkleCheckpoint list \<Rightarrow> gomsg + MerkleCheckpoint" where
  "GetLatestCheckpoint dbReady cpCol cps =
     (if \<not> dbReady then Inl db_nil
      else case last_checkpoint cpCol cps of Inl err \<Rightarrow> Inl (err_msg err) | Inr cp \<Rightarrow> Inr cp)"

definition GetCheckpoints ::
    "bool \<Rightarrow> MerkleCheckpoint collection_ops \<Rightarrow> nat option \<Rightarrow> int \<Rightarrow> MerkleCheckpoint list
       \<Rightarrow> gomsg + MerkleCheckpoint list" where
  "GetCheckpoints dbReady cpCol stop limit cps =
     (if \<not> dbReady then Inl db_nil
      else let limit = (if limit \<le> 0 then 50 else limit)
           in case Find cpCol (\<lambda>c. True) (\<lambda>c. - cp_EndSequence c) 0 (Some (nat limit)) cps of
                Inl err \<Rightarrow> Inl (err_msg err)
              | Inr list \<Rightarrow> Inr (cursor_docs stop list))"

definition choose_checkpoint ::
    "MerkleCheckpoint collection_ops \<Rightarrow> string \<Rightarrow> string \<Rightarrow> MerkleCheckpoint list \<Rightarrow> gomsg + MerkleCheckpoint" where
  "choose_checkpoint cpCol cleanHash checkpointID cps =
     (if checkpointID \<noteq> []
      then (case FindOne cpCol (\<lambda>c. cp_CheckpointID c = checkpointID) None cps of
              Inl err \<Rightarrow> Inl (Msg ''checkpoint %q not found: %w'' [ArgS checkpointID, ArgE (err_msg err)])
            | Inr cp \<Rightarrow> Inr cp)
      else (case FindOne cpCol (\<lambda>c. cleanHash \<in> set (cp_LeafHashes c)) (Some (\<lambda>c. - cp_EndSequence c)) cps of
              Inr cp \<Rightarrow> Inr cp
            | Inl err \<Rightarrow>
                (case GetLatestCheckpoint True cpCol cps of
                   Inl lErr \<Rightarrow> Inl (Msg ''entry hash %s not found in any checkpoint'' [ArgS cleanHash])
                 | Inr latest \<Rightarrow> Inr latest)))"

definition GenerateProofForEntry ::
    "bool \<Rightarrow> MerkleCheckpoint collection_ops \<Rightarrow> string \<Rightarrow> string \<Rightarrow> MerkleCheckpoint list
       \<Rightarrow> gomsg + MerkleProofResponse" where
  "GenerateProofForEntry dbReady cpCol entryHash checkpointID cps =
     (if \<not> dbReady then Inl db_nil
      else
        let cleanHash = clean_hash entryHash
        in if cleanHash = [] then Inl (lit ''entry_hash is required'')
           else case choose_checkpoint cpCol cleanHash checkpointID cps of
                  Inl err \<Rightarrow> Inl err
                | Inr cp \<Rightarrow>
                    (case NewTree (cp_LeafHashes cp) of
                       Inl err \<Rightarrow> Inl (Msg ''failed to reconstruct merkle tree: %w'' [ArgE (err_message err)])
                     | Inr tree \<Rightarrow>
                         (case GetProof (Some tree) cleanHash of
                            Inl err \<Rightarrow> Inl (Msg ''failed to compute audit proof for entry %s: %w''
                                            [ArgS cleanHash, ArgE (err_message err)])
                          | Inr proof \<Rightarrow>
                              Inr \<lparr>mr_EntryHash = cleanHash, mr_CheckpointID = cp_CheckpointID cp,
                                   mr_MerkleRoot = cp_MerkleRoot cp, mr_Proof = proof,
                                   mr_Verified = VerifyProof cleanHash (Some proof) (cp_MerkleRoot cp)\<rparr>)))"

text \<open>A tick of the checkpoint worker: errors are logged, the result is dropped.\<close>

definition merkle_tick ::
    "MerkleCheckpoint collection_ops \<Rightarrow> LedgerDocument collection_ops \<Rightarrow> nat option \<Rightarrow> int \<Rightarrow> int
       \<Rightarrow> LedgerDocument list \<Rightarrow> MerkleCheckpoint list \<Rightarrow> MerkleCheckpoint list" where
  "merkle_tick cpCol entriesCol stop now batchLimit ds cps =
     fst (GenerateCheckpoint True cpCol entriesCol stop now (batch_limit batchLimit) ds cps)"

subsection \<open>Sound checkpoints\<close>

text \<open>
  A checkpoint is sound for a ledger: it covers a gapless range of sequence numbers, lists the
  hashes of exactly those entries in order, and carries the root of the tree over them.
\<close>

definition range_entries :: "int \<Rightarrow> int \<Rightarrow> LedgerDocument list \<Rightarrow> LedgerDocument list" where
  "range_entries a b ds = filter (\<lambda>d. a \<le> ld_SequenceNumber d \<and> ld_SequenceNumber d \<le> b) ds"

definition checkpoint_ok :: "LedgerDocument list \<Rightarrow> MerkleCheckpoint \<Rightarrow> bool" where
  "checkpoint_ok ds cp \<longleftrightarrow>
     1 \<le> cp_StartSequence cp \<and> cp_StartSequence cp \<le> cp_EndSequence cp
     \<and> map ld_SequenceNumber (range_entries (cp_StartSequence cp) (cp_EndSequence cp) ds)
         = [cp_StartSequence cp..cp_EndSequence cp]
     \<and> cp_LeafHashes cp = map ld_EntryHash (range_entries (cp_StartSequence cp) (cp_EndSequence cp) ds)
     \<and> cp_EntryCount cp = int (length (cp_LeafHashes cp))
     \<and> (\<exists>t. NewTree (cp_LeafHashes cp) = Inr t \<and> cp_MerkleRoot cp = RootHash (Some t))"

definition checkpoint_conflict :: "MerkleCheckpoint \<Rightarrow> MerkleCheckpoint \<Rightarrow> bool" where
  "checkpoint_conflict a b \<longleftrightarrow> cp_CheckpointID a = cp_CheckpointID b"

lemma scan_batch_result:
  assumes "\<And>d. d \<in> set docs \<Longrightarrow> ld_SequenceNumber d \<noteq> 0"
  shows "scan_batch docs (ls, s, e) =
    (ls @ map leaf_of docs, if s = 0 \<and> docs \<noteq> [] then ld_SequenceNumber (hd docs) else s,
     if docs = [] then e else ld_SequenceNumber (last docs))"
  using assms
proof (induction docs arbitrary: ls s e)
  case (Cons d docs)
  have "ld_SequenceNumber d \<noteq> 0" "\<And>x. x \<in> set docs \<Longrightarrow> ld_SequenceNumber x \<noteq> 0" using Cons.prems by auto
  with Cons.IH [OF this(2), of "ls @ [leaf_of d]" "if s = 0 then ld_SequenceNumber d else s" "ld_SequenceNumber d"]
  show ?case by simp
qed simp

text \<open>In a chain the entries of a range of numbers stand together.\<close>

lemma linked_range:
  assumes "linked 1 h F" and "l + j \<le> length F" and "\<And>d. d \<in> set F \<Longrightarrow> P d \<longleftrightarrow> int l < ld_SequenceNumber d \<and> ld_SequenceNumber d \<le> int (l + j)"
  shows "filter P F = take j (drop l F)"
proof -
  have nth: "ld_SequenceNumber (F ! i) = 1 + int i" if "i < length F" for i using linked_nth [OF assms(1) that] .
  let ?a = "take l F" and ?b = "take j (drop l F)" and ?c = "drop (l + j) F"
  have F: "F = ?a @ ?b @ ?c" by (metis append_take_drop_id drop_drop add.commute)
  have "\<not> P d" if d: "d \<in> set ?a" for d
  proof -
    from d obtain i where "i < l" "i < length F" "d = F ! i" by (auto simp: in_set_conv_nth)
    then show ?thesis using nth assms(3) [of d] by auto
  qed
  moreover have "P d" if d: "d \<in> set ?b" for d
  proof -
    from d obtain i where "i < j" "l + i < length F" "d = F ! (l + i)" by (auto simp: in_set_conv_nth)
    then show ?thesis using nth assms(3) [of d] by auto
  qed
  moreover have "\<not> P d" if d: "d \<in> set ?c" for d
  proof -
    from d obtain i where "i < length F - (l + j)" "d = F ! (l + j + i)" by (auto simp: in_set_conv_nth)
    then have "l + j + i < length F" "d = F ! (l + j + i)" by linarith+
    then show ?thesis using nth assms(3) [of d] by auto
  qed
  ultimately have "filter P ?a = []" "filter P ?b = ?b" "filter P ?c = []" by (auto simp: filter_empty_conv filter_id_conv)
  then show ?thesis using F by (metis append_Nil append_Nil2 filter_append)
qed

lemma linked_tail:
  assumes "linked 1 h F" and "l \<le> length F"
  shows "filter (\<lambda>d. int l < ld_SequenceNumber d) F = drop l F"
proof -
  have "ld_SequenceNumber d \<le> int (length F)" if d: "d \<in> set F" for d
  proof -
    from d obtain i where "i < length F" "d = F ! i" by (auto simp: in_set_conv_nth)
    then show ?thesis using linked_nth [OF assms(1)] by auto
  qed
  then show ?thesis using linked_range [OF assms(1), of l "length F - l" "\<lambda>d. int l < ld_SequenceNumber d"] assms(2) by auto
qed

lemma map_seq_part:
  assumes "linked 1 h F" and "l + j \<le> length F"
  shows "map ld_SequenceNumber (take j (drop l F)) = [int l + 1..int (l + j)]"
  by (rule nth_equalityI) (use assms linked_nth [OF assms(1)] in auto)

text \<open>What the ledger adds later leaves a sound checkpoint sound.\<close>

lemma range_filter_sequenced:
  "1 \<le> a \<Longrightarrow> range_entries a b ds = filter (\<lambda>d. a \<le> ld_SequenceNumber d \<and> ld_SequenceNumber d \<le> b) (filter sequenced ds)"
  by (auto simp: range_entries_def sequenced_def intro!: filter_cong)

lemma checkpoint_ok_grows:
  assumes "checkpoint_ok ds cp" and "ledger_ok (ds @ es)"
  shows "checkpoint_ok (ds @ es) cp"
proof -
  let ?a = "cp_StartSequence cp" and ?b = "cp_EndSequence cp"
  have "d \<notin> set es" if d: "?a \<le> ld_SequenceNumber d" "ld_SequenceNumber d \<le> ?b" for d
  proof
    assume es: "d \<in> set es"
    have "ld_SequenceNumber d \<in> set (map ld_SequenceNumber (range_entries ?a ?b ds))" using assms(1) d by (simp add: checkpoint_ok_def)
    then obtain d' where d': "d' \<in> set ds" "ld_SequenceNumber d' = ld_SequenceNumber d" by (auto simp: range_entries_def)
    have s: "sequenced d" "sequenced d'" using d d' assms(1) by (auto simp: checkpoint_ok_def sequenced_def)
    have "distinct (map ld_SequenceNumber (filter sequenced ds @ filter sequenced es))"
      using linked_sorted [of 1 GenesisHash "filter sequenced ds @ filter sequenced es"] assms(2) by (simp add: ledger_ok_def)
    then show False using d' es s by (auto simp: image_iff)
  qed
  then have "range_entries ?a ?b es = []" by (auto simp: range_entries_def filter_empty_conv)
  then have "range_entries ?a ?b (ds @ es) = range_entries ?a ?b ds" by (simp add: range_entries_def)
  with assms(1) show ?thesis unfolding checkpoint_ok_def by metis
qed

text \<open>The batch a checkpoint is made of is a stretch of the chain.\<close>

lemma batch_of_chain:
  assumes col: "collection M ledger_conflict" and ok: "ledger_ok ds" and "0 \<le> lastSeq"
    and f: "Find M (\<lambda>d. lastSeq < ld_SequenceNumber d) ld_SequenceNumber 0 (Some n) ds = Inr docs"
  shows "\<exists>l j. cursor_docs stop docs = take j (drop l (filter sequenced ds))
    \<and> (cursor_docs stop docs \<noteq> [] \<longrightarrow> l + j \<le> length (filter sequenced ds) \<and> 0 < j)"
proof -
  let ?F = "filter sequenced ds"
  have F: "linked 1 GenesisHash ?F" using ok by (simp add: ledger_ok_def)
  from collection.Find_Inr [OF col f] obtain ys where ys: "mset ys = mset (filter (\<lambda>d. lastSeq < ld_SequenceNumber d) ds)"
    "sorted (map ld_SequenceNumber ys)" "docs = take n ys" by auto
  have "filter (\<lambda>d. lastSeq < ld_SequenceNumber d) ds = filter (\<lambda>d. lastSeq < ld_SequenceNumber d) ?F"
    using assms(3) by (auto simp: sequenced_def intro!: filter_cong)
  also have "\<dots> = drop (nat lastSeq) ?F"
  proof (cases "nat lastSeq \<le> length ?F")
    case True
    then show ?thesis using linked_tail [OF F True] assms(3) by simp
  next
    case False
    have "\<not> lastSeq < ld_SequenceNumber d" if d: "d \<in> set ?F" for d
    proof -
      from d obtain i where i: "i < length ?F" "d = ?F ! i" by (metis in_set_conv_nth)
      then show ?thesis using linked_nth [OF F i(1)] False by auto
    qed
    with False show ?thesis by (auto simp: filter_empty_conv)
  qed
  finally have e: "mset ys = mset (drop (nat lastSeq) ?F)" using ys(1) by simp
  have "sorted (map ld_SequenceNumber (drop (nat lastSeq) ?F))" "distinct (map ld_SequenceNumber (drop (nat lastSeq) ?F))"
    using linked_sorted [OF F] by (auto simp: drop_map [symmetric] sorted_wrt_drop)
  with sorted_by_seq_unique [OF e ys(2)] have "ys = drop (nat lastSeq) ?F" by blast
  then obtain m where m: "cursor_docs stop docs = take m (drop (nat lastSeq) ?F)"
    using ys(3) by (cases stop) (auto simp: cursor_docs_def)
  let ?j = "min m (length ?F - nat lastSeq)"
  have "take m (drop (nat lastSeq) ?F) = take ?j (drop (nat lastSeq) ?F)" by (simp add: min_def)
  with m show ?thesis by (intro exI [of _ "nat lastSeq"] exI [of _ ?j]) auto
qed

lemma part_of_chain_ok:
  assumes "ledger_ok ds" and "l + j \<le> length (filter sequenced ds)" and "0 < j"
    and "docs = take j (drop l (filter sequenced ds))"
    and cp: "cp_StartSequence cp = ld_SequenceNumber (hd docs)" "cp_EndSequence cp = ld_SequenceNumber (last docs)"
      "cp_LeafHashes cp = map leaf_of docs" "cp_EntryCount cp = int (length (map leaf_of docs))"
      "NewTree (map leaf_of docs) = Inr t" "cp_MerkleRoot cp = RootHash (Some t)"
  shows "checkpoint_ok ds cp"
proof -
  let ?F = "filter sequenced ds"
  have F: "linked 1 GenesisHash ?F" using assms(1) by (simp add: ledger_ok_def)
  have seqs: "map ld_SequenceNumber docs = [int l + 1..int (l + j)]" using map_seq_part [OF F assms(2)] assms(4) by simp
  have len: "length docs = j" using assms(2,4) by simp
  have ne: "docs \<noteq> []" using len assms(3) by auto
  have "hd docs = ?F ! l" "last docs = ?F ! (l + j - 1)"
    using assms(2-4) ne len by (simp_all add: hd_conv_nth last_conv_nth)
  then have ends: "cp_StartSequence cp = int l + 1" "cp_EndSequence cp = int (l + j)"
    using cp(1,2) linked_nth [OF F] assms(2,3) by (simp_all add: of_nat_diff)
  have range: "range_entries (int l + 1) (int (l + j)) ds = docs"
  proof -
    have "1 \<le> int l + 1" by simp
    from range_filter_sequenced [OF this] show ?thesis
      unfolding assms(4) by (metis (mono_tags, lifting) linked_range [OF F assms(2)] zless_imp_add1_zle add1_zle_eq)
  qed
  have "leaf_of d = ld_EntryHash d" if "d \<in> set docs" for d
    using linked_hash_nonempty [OF F] that assms(4) by (auto simp: leaf_of_def dest!: in_set_takeD in_set_dropD)
  then have leaves: "map leaf_of docs = map ld_EntryHash docs" by simp
  moreover have "1 \<le> int l + 1" "int l + 1 \<le> int (l + j)" using assms(3) by simp_all
  ultimately show ?thesis unfolding checkpoint_ok_def ends range using seqs cp(3-6) by auto
qed

lemma GenerateCheckpoint_keeps:
  assumes "collection M ledger_conflict" and "collection C checkpoint_conflict" and ok: "ledger_ok ds"
    and cps: "list_all (checkpoint_ok ds) cps"
    and g: "GenerateCheckpoint b C M stop now lm ds cps = (cps', r)"
  shows "(\<exists>cp. r = Inr (Some cp) \<and> cps' = cps @ [cp] \<and> checkpoint_ok ds cp) \<or> (cps' = cps \<and> (\<nexists>cp. r = Inr (Some cp)))"
proof -
  define lastSeq where "lastSeq = (case last_checkpoint C cps of Inr lastCP \<Rightarrow> cp_EndSequence lastCP | Inl err \<Rightarrow> 0)"
  have "0 \<le> lastSeq"
    using collection.FindOne_Inr [OF assms(2)] cps
    by (fastforce simp: lastSeq_def last_checkpoint_def list_all_iff checkpoint_ok_def split: sum.splits)
  show ?thesis
  proof (cases "b \<and> (\<exists>docs. Find M (\<lambda>d. lastSeq < ld_SequenceNumber d) ld_SequenceNumber 0 (Some (nat (batch_limit lm))) ds = Inr docs
      \<and> cursor_docs stop docs \<noteq> [])")
    case False
    then show ?thesis using g unfolding GenerateCheckpoint_def lastSeq_def
      by (auto simp: Let_def split: if_splits sum.splits)
  next
    case True
    then obtain docs where f: "Find M (\<lambda>d. lastSeq < ld_SequenceNumber d) ld_SequenceNumber 0 (Some (nat (batch_limit lm))) ds = Inr docs"
      and ne: "cursor_docs stop docs \<noteq> []" and b by blast
    let ?d = "cursor_docs stop docs"
    from batch_of_chain [OF assms(1) ok \<open>0 \<le> lastSeq\<close> f, of stop] ne obtain l j where
      d: "?d = take j (drop l (filter sequenced ds))" "l + j \<le> length (filter sequenced ds)" "0 < j" by auto
    have "ld_SequenceNumber x \<noteq> 0" if "x \<in> set ?d" for x
      using that unfolding d(1) by (auto simp: sequenced_def dest!: in_set_takeD in_set_dropD)
    then have scan: "scan_batch ?d ([], 0, 0) = (map leaf_of ?d, ld_SequenceNumber (hd ?d), ld_SequenceNumber (last ?d))"
      using ne by (simp add: scan_batch_result)
    obtain t where t: "NewTree (map leaf_of ?d) = Inr t" using NewTree_defined ne by blast
    define cp where "cp = new_checkpoint now (map leaf_of ?d) (ld_SequenceNumber (hd ?d)) (ld_SequenceNumber (last ?d)) t"
    have cpok: "checkpoint_ok ds cp" by (rule part_of_chain_ok [OF ok d(2,3,1), of _ t]) (simp_all add: cp_def new_checkpoint_def t)
    have r: "store_checkpoint C cp cps = (cps', r)"
      using g f ne \<open>b\<close> scan t unfolding GenerateCheckpoint_def lastSeq_def cp_def by (simp add: Let_def)
    show ?thesis
    proof (cases rule: collection.InsertOne_cases [OF assms(2), of cp cps])
      case 1
      with r cpok show ?thesis by (auto simp: store_checkpoint_def)
    next
      case (2 e)
      with r show ?thesis by (auto simp: store_checkpoint_def)
    qed
  qed
qed

lemma choose_checkpoint_stored:
  assumes "collection C checkpoint_conflict" and "choose_checkpoint C h i cps = Inr cp"
  shows "cp \<in> set cps"
  using assms(2) collection.FindOne_Inr [OF assms(1)]
  by (auto simp: choose_checkpoint_def GetLatestCheckpoint_def last_checkpoint_def split: if_splits sum.splits)

subsection \<open>Properties\<close>

text \<open>
  C14. Checkpoints stay sound: on an unbroken ledger, creating a checkpoint adds at most one, and
  every stored checkpoint covers a gapless range of entries, lists exactly their hashes and
  carries the root of the tree over them. This survives failing lookups and cursors, and
  entries recorded later leave the stored checkpoints sound.
\<close>

theorem GenerateCheckpoint_sound:
  assumes "collection M ledger_conflict" and "collection C checkpoint_conflict" and "ledger_ok ds"
    and "list_all (checkpoint_ok ds) cps" and "GenerateCheckpoint b C M stop now lm ds cps = (cps', r)"
    and "evolves ds ds'" and "int (length ds') < 2 ^ 63"
  shows "list_all (checkpoint_ok ds') cps' \<and> (\<exists>new. cps' = cps @ new \<and> length new \<le> 1)"
proof -
  from GenerateCheckpoint_keeps [OF assms(1-5)] assms(4)
  have c: "list_all (checkpoint_ok ds) cps'" "\<exists>new. cps' = cps @ new \<and> length new \<le> 1" by (auto simp: list_all_iff)
  from assms(3,6,7) obtain es where "ds' = ds @ es" "ledger_ok ds'" by (auto simp: evolves_def)
  with c show ?thesis using checkpoint_ok_grows by (auto simp: list_all_iff)
qed

definition sample_checkpoint :: MerkleCheckpoint where
  "sample_checkpoint =
     \<lparr>cp_CheckpointID = ''mcp_42_1_1'', cp_StartSequence = 1, cp_EndSequence = 1,
      cp_MerkleRoot = ld_EntryHash sample_entry, cp_EntryCount = 1, cp_CreatedAt = 42000000000,
      cp_LeafHashes = [ld_EntryHash sample_entry]\<rparr>"

lemma sample_entry_facts:
  "ld_SequenceNumber sample_entry = 1" "ld_EntryHash sample_entry = sha256_hex (doc_canonical sample_entry)"
  "sequenced sample_entry" "leaf_of sample_entry = ld_EntryHash sample_entry" "ledger_ok [sample_entry]"
proof -
  have "ValidatePostings sample_postings = None" by code_simp
  then show "ld_SequenceNumber sample_entry = 1" "ld_EntryHash sample_entry = sha256_hex (doc_canonical sample_entry)"
    "sequenced sample_entry" "leaf_of sample_entry = ld_EntryHash sample_entry" "ledger_ok [sample_entry]"
    by (simp_all add: sample_entry_def sequenced_def leaf_of_def ledger_ok_def)
qed

lemma sample_generate:
  "GenerateCheckpoint True (mem_ops checkpoint_conflict) (mem_ops ledger_conflict) None 42000000000 0 [sample_entry] []
     = ([sample_checkpoint], Inr (Some sample_checkpoint))"
proof -
  have "''mcp_'' @ show_int (42000000000 div Second) @ ''_'' @ show_int 1 @ ''_'' @ show_int 1 = ''mcp_42_1_1''"
    by (simp add: Second_def show_int_def show_nat.simps)
  moreover have "NewTree [ld_EntryHash sample_entry]
      = Inr \<lparr>Root = Node (ld_EntryHash sample_entry) NilNode NilNode, Leaves = [Node (ld_EntryHash sample_entry) NilNode NilNode]\<rparr>"
    by (simp add: NewTree_def sample_entry_facts)
  ultimately show ?thesis
    by (simp add: GenerateCheckpoint_def batch_limit_def last_checkpoint_def mem_ops_def mem_FindOne_def mem_Find_def
        mem_InsertOne_def cursor_docs_def sample_entry_facts RootHash_def sample_checkpoint_def
        store_checkpoint_def new_checkpoint_def)
qed

theorem GenerateCheckpoint_sound_witness:
  "list_all (checkpoint_ok [sample_entry]) [sample_checkpoint]
    \<and> (\<exists>new. [sample_checkpoint] = [] @ new \<and> length new \<le> 1)"
  by (rule GenerateCheckpoint_sound [OF mem.collection_axioms mem.collection_axioms sample_entry_facts(5) _
        sample_generate]) simp_all

text \<open>
  C15. Every inclusion proof the service hands out verifies: an answer refers to a stored
  checkpoint, its proof leads to the root of that checkpoint, and the hash it was asked for is
  the hash of an entry of the ledger in the range the checkpoint covers.
\<close>

theorem GenerateProofForEntry_verified:
  assumes "collection C checkpoint_conflict" and "list_all (checkpoint_ok ds) cps"
    and "GenerateProofForEntry b C h i cps = Inr resp"
  shows "mr_Verified resp \<and> (\<exists>cp \<in> set cps. mr_CheckpointID resp = cp_CheckpointID cp \<and> mr_MerkleRoot resp = cp_MerkleRoot cp
    \<and> (\<exists>d \<in> set ds. clean_hash (ld_EntryHash d) = clean_hash h
         \<and> cp_StartSequence cp \<le> ld_SequenceNumber d \<and> ld_SequenceNumber d \<le> cp_EndSequence cp))"
proof -
  from assms(3) obtain cp t p where h: "clean_hash h \<noteq> []" and cp: "choose_checkpoint C (clean_hash h) i cps = Inr cp"
    and t: "NewTree (cp_LeafHashes cp) = Inr t" and p: "GetProof (Some t) (clean_hash h) = Inr p"
    and resp: "resp = \<lparr>mr_EntryHash = clean_hash h, mr_CheckpointID = cp_CheckpointID cp, mr_MerkleRoot = cp_MerkleRoot cp,
      mr_Proof = p, mr_Verified = VerifyProof (clean_hash h) (Some p) (cp_MerkleRoot cp)\<rparr>"
    by (auto simp: GenerateProofForEntry_def Let_def split: if_splits sum.splits)
  have stored: "cp \<in> set cps" by (rule choose_checkpoint_stored [OF assms(1) cp])
  with assms(2) have ok: "checkpoint_ok ds cp" by (simp add: list_all_iff)
  with t have root: "cp_MerkleRoot cp = RootHash (Some t)" by (auto simp: checkpoint_ok_def)
  have mem: "clean_hash h \<in> clean_hash ` set (cp_LeafHashes cp)"
    using GetProof_absent [OF t, of "clean_hash h"] p by auto
  then have "VerifyProof (clean_hash h) (Some p) (cp_MerkleRoot cp)"
    using leaf_verifies [OF t, of "clean_hash h"] h p root by auto
  moreover from mem ok have "\<exists>d \<in> set ds. clean_hash (ld_EntryHash d) = clean_hash h
      \<and> cp_StartSequence cp \<le> ld_SequenceNumber d \<and> ld_SequenceNumber d \<le> cp_EndSequence cp"
    by (auto simp: checkpoint_ok_def range_entries_def)
  ultimately show ?thesis using resp stored by auto
qed

theorem GenerateProofForEntry_verified_witness:
  "\<exists>resp. GenerateProofForEntry True (mem_ops checkpoint_conflict) (ld_EntryHash sample_entry) [] [sample_checkpoint] = Inr resp
    \<and> mr_Verified resp"
proof -
  have "checkpoint_ok [sample_entry] sample_checkpoint"
    using GenerateCheckpoint_keeps [OF mem.collection_axioms mem.collection_axioms sample_entry_facts(5) _ sample_generate]
    by simp
  moreover have "\<exists>resp. GenerateProofForEntry True (mem_ops checkpoint_conflict) (ld_EntryHash sample_entry) [] [sample_checkpoint] = Inr resp"
    by (simp add: GenerateProofForEntry_def choose_checkpoint_def sample_checkpoint_def sample_entry_facts mem_ops_def
        mem_FindOne_def NewTree_def GetProof_def Let_def)
  ultimately show ?thesis
    using GenerateProofForEntry_verified [OF mem.collection_axioms, of "[sample_entry]" "[sample_checkpoint]"]
    by auto
qed

end
