(* ===== verification/FxFloat.thy ===== *)
theory FxFloat
  imports Currency
begin

text \<open>
  The \<open>float64\<close> of the FX service with its infinities and NaN. Rates reach the engine
  from callers and from upstream feeds and are divided by each other, so that overflow,
  division by zero and NaN are ordinary cases there; the finite values and their rounding
  are those of \<open>GoFloat\<close>. The sign of a zero is left out: the engine divides only by values
  it has found not to be below zero.
\<close>

datatype gofloat = Fin rat | PInf | NInf | NaN

definition xfl :: "rat \<Rightarrow> gofloat" where
  "xfl x = (let y = fl x
            in if pow2 1024 \<le> y then PInf else if y \<le> - pow2 1024 then NInf else Fin y)"

text \<open>The infinity with the sign of \<open>a\<close>, where a zero counts as positive.\<close>

definition inf_of :: "rat \<Rightarrow> gofloat" where
  "inf_of a = (if 0 \<le> a then PInf else NInf)"

fun xmul :: "gofloat \<Rightarrow> gofloat \<Rightarrow> gofloat" where
  "xmul (Fin a) (Fin b) = xfl (a * b)"
| "xmul NaN y = NaN"
| "xmul x NaN = NaN"
| "xmul PInf PInf = PInf"
| "xmul PInf NInf = NInf"
| "xmul NInf PInf = NInf"
| "xmul NInf NInf = PInf"
| "xmul PInf (Fin b) = (if b = 0 then NaN else inf_of b)"
| "xmul NInf (Fin b) = (if b = 0 then NaN else inf_of (- b))"
| "xmul (Fin a) PInf = (if a = 0 then NaN else inf_of a)"
| "xmul (Fin a) NInf = (if a = 0 then NaN else inf_of (- a))"

fun xdiv :: "gofloat \<Rightarrow> gofloat \<Rightarrow> gofloat" where
  "xdiv (Fin a) (Fin b) = (if b = 0 then (if a = 0 then NaN else inf_of a) else xfl (a / b))"
| "xdiv NaN y = NaN"
| "xdiv x NaN = NaN"
| "xdiv (Fin a) PInf = Fin 0"
| "xdiv (Fin a) NInf = Fin 0"
| "xdiv PInf (Fin b) = inf_of b"
| "xdiv NInf (Fin b) = (if 0 \<le> b then NInf else PInf)"
| "xdiv PInf PInf = NaN"
| "xdiv PInf NInf = NaN"
| "xdiv NInf PInf = NaN"
| "xdiv NInf NInf = NaN"

text \<open>\<open>math.Round\<close>: exact, since a \<open>float64\<close> of magnitude \<open>2 ^ 52\<close> or more is an integer.\<close>

fun xround :: "gofloat \<Rightarrow> gofloat" where
  "xround (Fin x) = Fin (of_int (RoundHalfAway x))"
| "xround x = x"

text \<open>The comparisons with zero; every comparison with NaN is false.\<close>

fun nonpositive :: "gofloat \<Rightarrow> bool" where
  "nonpositive (Fin x) = (x \<le> 0)"
| "nonpositive PInf = False"
| "nonpositive NInf = True"
| "nonpositive NaN = False"

fun positive :: "gofloat \<Rightarrow> bool" where
  "positive (Fin x) = (0 < x)"
| "positive PInf = True"
| "positive NInf = False"
| "positive NaN = False"

definition roundPips :: "gofloat \<Rightarrow> gofloat" where
  "roundPips val = xdiv (xround (xmul val (Fin 1000000))) (Fin 1000000)"

text \<open>
  \<open>db.ConvertUnitsScaleBankers\<close> at a rate that need not be finite: an infinite or undefined
  product is not less than 1, and its conversion to \<open>int64\<close> yields the minimum value.
\<close>

definition ConvertAtRate :: "int64 \<Rightarrow> string \<Rightarrow> string \<Rightarrow> gofloat \<Rightarrow> int64" where
  "ConvertAtRate sourceUnits baseCurrency targetCurrency rate =
     (case rate of
        Fin r \<Rightarrow> ConvertUnitsScaleBankers sourceUnits baseCurrency targetCurrency r
      | _ \<Rightarrow> if sourceUnits \<le> 0 \<or> nonpositive rate then 0 else - (2 ^ 63))"

subsection \<open>Monotonicity\<close>

lemma fl_binade_upper:
  assumes "0 < x" and "x < pow2 k" and "- 1074 < k"
  shows "fl x \<le> pow2 k"
proof -
  define e where "e = max (binexp x - 52) (- 1074)"
  have "pow2 (binexp x) < pow2 k" using binexp_bounds [OF assms(1)] assms(2) by linarith
  then have "binexp x < k" using pow2_mono [of k "binexp x"] by linarith
  then have "e \<le> k" using assms(3) by (simp add: e_def)
  then have k: "pow2 k = of_int (2 ^ nat (k - e)) * pow2 e"
    using pow2_add [of "k - e" e] by (simp add: pow2_def [of "k - e"])
  have "x / pow2 e \<le> of_int (2 ^ nat (k - e))" using assms(2) unfolding k by (simp add: pos_divide_le_eq)
  then have "RoundToEven (x / pow2 e) \<le> 2 ^ nat (k - e)" by (rule RoundToEven_upper)
  then have "of_int (RoundToEven (x / pow2 e)) \<le> (of_int (2 ^ nat (k - e)) :: rat)"
    by (simp only: of_int_le_iff)
  then show ?thesis using assms(1) unfolding k by (simp add: fl_def Let_def flip: e_def)
qed

lemma fl_binade_lower:
  assumes "pow2 k \<le> x" and "- 1074 \<le> k"
  shows "pow2 k \<le> fl x"
proof -
  have x: "0 < x" using assms(1) pow2_pos [of k] by linarith
  define e where "e = max (binexp x - 52) (- 1074)"
  show ?thesis
  proof (cases "e \<le> k")
    case True
    then have k: "pow2 k = of_int (2 ^ nat (k - e)) * pow2 e"
      using pow2_add [of "k - e" e] by (simp add: pow2_def [of "k - e"])
    have "of_int (2 ^ nat (k - e)) \<le> x / pow2 e" using assms(1) unfolding k by (simp add: pos_le_divide_eq)
    then have "2 ^ nat (k - e) \<le> RoundToEven (x / pow2 e)" by (rule RoundToEven_lower)
    then have "(of_int (2 ^ nat (k - e)) :: rat) \<le> of_int (RoundToEven (x / pow2 e))"
      by (simp only: of_int_le_iff)
    then show ?thesis using x unfolding k by (simp add: fl_def Let_def flip: e_def)
  next
    case False
    then have e: "e = binexp x - 52" using assms(2) by (simp add: e_def)
    have "of_int 1 \<le> x / pow2 e"
      using binexp_bounds [OF x] pow2_mono [of e "binexp x"] e by (simp add: pos_le_divide_eq)
    then have "1 \<le> RoundToEven (x / pow2 e)" by (rule RoundToEven_lower)
    then have "pow2 e \<le> fl x" using x by (simp add: fl_def Let_def flip: e_def)
    moreover have "pow2 k \<le> pow2 e" using False by (intro pow2_mono) simp
    ultimately show ?thesis by linarith
  qed
qed

lemma fl_mono_pos:
  assumes "0 < x" and "x \<le> y"
  shows "fl x \<le> fl y"
proof -
  have y: "0 < y" using assms by linarith
  define ex ey where "ex = max (binexp x - 52) (- 1074)" and "ey = max (binexp y - 52) (- 1074)"
  have bx: "pow2 (binexp x) \<le> x" "x < pow2 (binexp x + 1)" using binexp_bounds [OF assms(1)] by auto
  have bY: "pow2 (binexp y) \<le> y" "y < pow2 (binexp y + 1)" using binexp_bounds [OF y] by auto
  have "pow2 (binexp x) < pow2 (binexp y + 1)" using bx bY assms(2) by linarith
  then have le: "binexp x \<le> binexp y" using pow2_mono [of "binexp y + 1" "binexp x"] by linarith
  show ?thesis
  proof (cases "ex = ey")
    case True
    have "RoundToEven (x / pow2 ex) \<le> RoundToEven (y / pow2 ex)"
      using assms(2) by (intro RoundToEven_mono) (simp add: divide_right_mono)
    then show ?thesis using assms(1) y
      by (simp add: fl_def Let_def True flip: ex_def ey_def)
  next
    case False
    then have lt: "binexp x < binexp y" and k: "- 1074 < binexp y"
      using le by (auto simp: ex_def ey_def max_def split: if_splits)
    have "pow2 (binexp x + 1) \<le> pow2 (binexp y)" using lt by (intro pow2_mono) simp
    then have "x < pow2 (binexp y)" using bx by linarith
    then have "fl x \<le> pow2 (binexp y)" using fl_binade_upper assms(1) k by blast
    also have "\<dots> \<le> fl y" using fl_binade_lower bY k by simp
    finally show ?thesis .
  qed
qed

lemma fl_mono_nonneg: "0 \<le> x \<Longrightarrow> x \<le> y \<Longrightarrow> fl x \<le> fl y"
  using fl_mono_pos [of x y] fl_nonneg [of y] by (cases "x = 0") auto

text \<open>What has at most 53 significant bits and is not too fine is a \<open>float64\<close>.\<close>

lemma fl_exact_pos:
  assumes y: "y = of_int n * pow2 e" and n: "0 < n" "n \<le> 2 ^ 53" and e: "- 1074 \<le> e"
  shows "fl y = y"
proof -
  have pos: "0 < y" using y n(1) by simp
  define b e' where "b = binexp y" and "e' = max (b - 52) (- 1074)"
  have b: "pow2 b \<le> y" "y < pow2 (b + 1)" using binexp_bounds [OF pos] by (auto simp: b_def)
  have "(of_int n :: rat) \<le> of_int (2 ^ 53)" using n(2) by (simp only: of_int_le_iff)
  then have "y \<le> pow2 53 * pow2 e" unfolding y by (intro mult_right_mono) (simp_all add: pow2_def)
  then have up: "y \<le> pow2 (53 + e)" by (simp add: pow2_add)
  have "\<exists>k. y / pow2 e' = of_int k"
  proof (cases "e' \<le> e")
    case True
    then have "pow2 e = of_int (2 ^ nat (e - e')) * pow2 e'"
      using pow2_add [of "e - e'" e'] by (simp add: pow2_def [of "e - e'"])
    then have "y / pow2 e' = of_int (n * 2 ^ nat (e - e'))" unfolding y by simp
    then show ?thesis by blast
  next
    case False
    then have e': "e' = b - 52" and lt: "e < b - 52" using e by (auto simp: e'_def)
    have "pow2 (53 + e) \<le> pow2 b" using lt by (intro pow2_mono) simp
    with up b(1) have "y = pow2 b" by linarith
    also have "\<dots> = pow2 52 * pow2 e'" by (simp add: e' flip: pow2_add)
    finally have "y / pow2 e' = of_int (2 ^ 52)" by (simp add: pow2_def [of 52])
    then show ?thesis by blast
  qed
  then obtain k where k: "y / pow2 e' = of_int k" by blast
  have "fl y = of_int (RoundToEven (y / pow2 e')) * pow2 e'"
    using pos by (simp add: fl_def Let_def e'_def b_def)
  also have "\<dots> = y / pow2 e' * pow2 e'" unfolding k by simp
  finally show ?thesis by simp
qed

lemma fl_idem_nonneg: "0 \<le> x \<Longrightarrow> fl (fl x) = fl x"
proof -
  assume "0 \<le> x"
  show ?thesis
  proof (cases "fl x = 0")
    case False
    with \<open>0 \<le> x\<close> have x: "0 < x" by (cases "x = 0") auto
    define e where "e = max (binexp x - 52) (- 1074)"
    define n where "n = RoundToEven (x / pow2 e)"
    have flx: "fl x = of_int n * pow2 e" using x by (simp add: fl_def Let_def e_def n_def)
    have "0 \<le> n" unfolding n_def using x by (intro RoundToEven_lower) simp
    with flx False have n0: "0 < n" by (cases "n = 0") auto
    have "pow2 (binexp x + 1) \<le> pow2 (53 + e)" by (intro pow2_mono) (simp add: e_def)
    then have "x \<le> pow2 53 * pow2 e" using binexp_bounds [OF x] by (simp add: pow2_add)
    then have "x / pow2 e \<le> of_int (2 ^ 53)" by (simp add: pos_divide_le_eq pow2_def [of 53])
    then have "n \<le> 2 ^ 53" unfolding n_def by (rule RoundToEven_upper)
    with flx n0 show ?thesis by (intro fl_exact_pos [of _ n e]) (simp_all add: e_def)
  qed simp
qed

text \<open>Go's \<open>\<le>\<close> on \<open>float64\<close>.\<close>

fun xle :: "gofloat \<Rightarrow> gofloat \<Rightarrow> bool" where
  "xle NaN y = False"
| "xle x NaN = False"
| "xle (Fin a) (Fin b) = (a \<le> b)"
| "xle NInf y = True"
| "xle x PInf = True"
| "xle PInf y = False"
| "xle x NInf = False"

text \<open>The values that a positive price takes: zero, finite or infinite, never NaN.\<close>

fun nonneg :: "gofloat \<Rightarrow> bool" where
  "nonneg (Fin x) = (0 \<le> x)"
| "nonneg PInf = True"
| "nonneg NInf = False"
| "nonneg NaN = False"

lemma positive_nonneg: "positive x \<Longrightarrow> nonneg x"
  by (cases x) auto

lemma positive_iff: "positive x \<longleftrightarrow> nonneg x \<and> x \<noteq> Fin 0"
  by (cases x) auto

lemma not_nonpositive: "nonneg x \<Longrightarrow> nonpositive x \<longleftrightarrow> x = Fin 0"
  by (cases x) auto

lemma xle_refl [simp]: "nonneg x \<Longrightarrow> xle x x"
  by (cases x) auto

lemma xle_PInf [simp]: "nonneg x \<Longrightarrow> xle x PInf"
  by (cases x) auto

lemma xle_trans: "xle x y \<Longrightarrow> xle y z \<Longrightarrow> xle x z"
  by (cases x; cases y; cases z) auto

lemma xfl_nonneg [simp]: "0 \<le> x \<Longrightarrow> nonneg (xfl x)"
  using fl_nonneg [of x] by (auto simp: xfl_def Let_def)

lemma xfl_cases:
  assumes "0 \<le> x"
  obtains "xfl x = PInf" "pow2 1024 \<le> fl x" | "xfl x = Fin (fl x)" "0 \<le> fl x" "fl x < pow2 1024"
proof -
  have "\<not> fl x \<le> - pow2 1024" using fl_nonneg [OF assms] pow2_pos [of 1024] by linarith
  then show thesis using that fl_nonneg [OF assms] unfolding xfl_def Let_def
    by (cases "pow2 1024 \<le> fl x") auto
qed

lemma xfl_mono:
  assumes "0 \<le> x" and "x \<le> y"
  shows "xle (xfl x) (xfl y)"
proof -
  have "0 \<le> y" and le: "fl x \<le> fl y" using assms fl_mono_nonneg by auto
  show ?thesis
  proof (cases rule: xfl_cases [OF assms(1)])
    case 1
    then have "pow2 1024 \<le> fl y" using le by linarith
    then show ?thesis using 1 by (simp add: xfl_def)
  next
    case 2
    then show ?thesis using le by (cases rule: xfl_cases [OF \<open>0 \<le> y\<close>]) simp_all
  qed
qed

lemma RoundHalfAway_mono: "0 \<le> x \<Longrightarrow> x \<le> y \<Longrightarrow> RoundHalfAway x \<le> RoundHalfAway y"
  by (simp add: RoundHalfAway_def floor_mono)

lemma RoundHalfAway_nonneg: "0 \<le> x \<Longrightarrow> 0 \<le> RoundHalfAway x"
  by (simp add: RoundHalfAway_def)

lemma xround_nonneg [simp]: "nonneg x \<Longrightarrow> nonneg (xround x)"
  by (cases x) (simp_all add: RoundHalfAway_nonneg)

lemma xround_mono: "nonneg x \<Longrightarrow> xle x y \<Longrightarrow> xle (xround x) (xround y)"
  by (cases x; cases y) (simp_all add: RoundHalfAway_mono)

lemma scale_nonneg [simp]:
  "0 < c \<Longrightarrow> nonneg x \<Longrightarrow> nonneg (xmul x (Fin c))" "0 < c \<Longrightarrow> nonneg x \<Longrightarrow> nonneg (xdiv x (Fin c))"
  by (cases x; simp add: inf_of_def)+

lemma xmul_mono: "0 < c \<Longrightarrow> nonneg x \<Longrightarrow> xle x y \<Longrightarrow> xle (xmul x (Fin c)) (xmul y (Fin c))"
  by (cases x; cases y) (auto simp: inf_of_def xfl_mono mult_right_mono)

lemma xdiv_mono: "0 < c \<Longrightarrow> nonneg x \<Longrightarrow> xle x y \<Longrightarrow> xle (xdiv x (Fin c)) (xdiv y (Fin c))"
  by (cases x; cases y) (auto simp: inf_of_def xfl_mono divide_right_mono)

lemma roundPips_nonneg [simp]: "nonneg x \<Longrightarrow> nonneg (roundPips x)"
  by (simp add: roundPips_def)

lemma roundPips_mono: "nonneg x \<Longrightarrow> xle x y \<Longrightarrow> xle (roundPips x) (roundPips y)"
  by (simp add: roundPips_def xdiv_mono xround_mono xmul_mono)

lemma roundPips_NaN [simp]: "roundPips NaN = NaN" and roundPips_PInf [simp]: "roundPips PInf = PInf"
  by (simp_all add: roundPips_def inf_of_def)

end
