(* ===== verification/FxProviders.thy ===== *)
theory FxProviders
  imports FxFloat
begin

text \<open>
  The rate feeds of the FX service (\<open>cmd/fx-service/provider.go\<close>): the two HTTP feeds, the
  built-in baseline, and the composite that tries the feeds in order and falls back to the
  last good snapshot or the baseline. What the remote server answers is a parameter: the
  request may fail, or bring a status code and a body that cannot be read, cannot be decoded
  or decodes to maps of rates. Time-outs and log lines are left out.
\<close>

record RateSnapshot =
  sn_BaseCurrency :: string
  sn_Rates :: "(string, gofloat) gomap"
  sn_ProviderName :: string
  sn_FetchedAt :: int
  sn_StaleQuote :: bool

record RateProvider =
  rp_Name :: string
  rp_FetchRates :: "string \<Rightarrow> gomsg + RateSnapshot option"

definition InstitutionalBaselineRates :: "(string, gofloat) gomap" where
  "InstitutionalBaselineRates =
     [(''USD'', Fin 1), (''EUR'', Fin (fl (92 / 100))), (''GBP'', Fin (fl (79 / 100))),
      (''CAD'', Fin (fl (136 / 100))), (''AUD'', Fin (fl (152 / 100))), (''JPY'', Fin 150),
      (''CHF'', Fin (fl (88 / 100))), (''SGD'', Fin (fl (134 / 100))), (''INR'', Fin (fl (835 / 10))),
      (''BHD'', Fin (fl (376 / 1000)))]"

subsection \<open>HTTP feeds\<close>

datatype 'p http_body = ReadFailed gomsg | DecodeFailed gomsg | Decoded 'p

datatype 'p http_result = InvalidURL gomsg | RequestFailed gomsg | Response int "'p http_body"

text \<open>\<open>db.NormalizeCurrency(baseCurrency)\<close> with the default both feeds and the baseline apply.\<close>

definition base_or_USD :: "string \<Rightarrow> string" where
  "base_or_USD baseCurrency =
     (let base = NormalizeCurrency baseCurrency in if base = [] then ''USD'' else base)"

definition positive_rates :: "string \<Rightarrow> (string, gofloat) gomap \<Rightarrow> (string, gofloat) gomap" where
  "positive_rates base raw =
     fold (\<lambda>(k, v) rates. if positive v then AList.update (NormalizeCurrency k) v rates else rates)
       raw [(base, Fin 1)]"

definition Frankfurter_FetchRates ::
    "(string \<Rightarrow> (string, gofloat) gomap http_result) \<Rightarrow> string \<Rightarrow> int \<Rightarrow> string \<Rightarrow> gomsg + RateSnapshot" where
  "Frankfurter_FetchRates http endpoint now baseCurrency =
     (let base = base_or_USD baseCurrency
      in case http (endpoint @ ''?base='' @ base) of
           InvalidURL err \<Rightarrow> Inl err
         | RequestFailed err \<Rightarrow> Inl (Msg ''frankfurter request failed: %w'' [ArgE err])
         | Response code body \<Rightarrow>
             if code \<noteq> 200 then Inl (Msg ''frankfurter returned HTTP %d'' [ArgD code])
             else (case body of
                     ReadFailed err \<Rightarrow> Inl err
                   | DecodeFailed err \<Rightarrow> Inl (Msg ''frankfurter JSON decode failed: %w'' [ArgE err])
                   | Decoded rates \<Rightarrow>
                       if rates = [] then Inl (lit ''frankfurter returned empty rates map'')
                       else Inr \<lparr>sn_BaseCurrency = base, sn_Rates = positive_rates base rates,
                                 sn_ProviderName = ''frankfurter-ecb'', sn_FetchedAt = now,
                                 sn_StaleQuote = False\<rparr>))"

text \<open>The payload of the other feed has two maps of rates, under \<open>rates\<close> and \<open>conversion_rates\<close>.\<close>

definition ExchangeRateAPI_FetchRates ::
    "(string \<Rightarrow> ((string, gofloat) gomap \<times> (string, gofloat) gomap) http_result) \<Rightarrow> string \<Rightarrow> int
       \<Rightarrow> string \<Rightarrow> gomsg + RateSnapshot" where
  "ExchangeRateAPI_FetchRates http baseURL now baseCurrency =
     (let base = base_or_USD baseCurrency
      in case http (baseURL @ ''/'' @ base) of
           InvalidURL err \<Rightarrow> Inl err
         | RequestFailed err \<Rightarrow> Inl (Msg ''exchangerate-api request failed: %w'' [ArgE err])
         | Response code body \<Rightarrow>
             if code \<noteq> 200 then Inl (Msg ''exchangerate-api returned HTTP %d'' [ArgD code])
             else (case body of
                     ReadFailed err \<Rightarrow> Inl err
                   | DecodeFailed err \<Rightarrow> Inl (Msg ''exchangerate-api JSON decode failed: %w'' [ArgE err])
                   | Decoded (rates, conversionRates) \<Rightarrow>
                       (let rawRates = (if rates = [] then conversionRates else rates)
                        in if rawRates = [] then Inl (lit ''exchangerate-api returned empty rates map'')
                           else Inr \<lparr>sn_BaseCurrency = base, sn_Rates = positive_rates base rawRates,
                                     sn_ProviderName = ''open-exchangerate-api'', sn_FetchedAt = now,
                                     sn_StaleQuote = False\<rparr>)))"

subsection \<open>The baseline\<close>

definition baseline_anchor :: "string \<Rightarrow> string \<times> gofloat" where
  "baseline_anchor baseCurrency =
     (let base = base_or_USD baseCurrency
      in case map_of InstitutionalBaselineRates base of
           Some baseToUSD \<Rightarrow> if nonpositive baseToUSD then (''USD'', Fin 1) else (base, baseToUSD)
         | None \<Rightarrow> (''USD'', Fin 1))"

definition Baseline_FetchRates :: "int \<Rightarrow> string \<Rightarrow> RateSnapshot" where
  "Baseline_FetchRates now baseCurrency =
     (let (base, baseToUSD) = baseline_anchor baseCurrency
      in \<lparr>sn_BaseCurrency = base,
          sn_Rates = map (\<lambda>(curr, usdRate). (curr, xdiv usdRate baseToUSD)) InstitutionalBaselineRates,
          sn_ProviderName = ''institutional-baseline'', sn_FetchedAt = now, sn_StaleQuote = False\<rparr>)"

subsection \<open>The composite\<close>

text \<open>The live rates the composite takes over: those of supported currencies, as spelt in the
  snapshot, that are positive.\<close>

definition merge_rates :: "(string, gofloat) gomap \<Rightarrow> (string, gofloat) gomap \<Rightarrow> (string, gofloat) gomap" where
  "merge_rates live merged =
     fold (\<lambda>(curr, rate) merged.
             if IsValidCurrency curr \<and> positive rate then AList.update curr rate merged else merged)
       live merged"

text \<open>The loop over the providers: the first snapshot with rates, and the last error before it.\<close>

fun first_live :: "RateProvider list \<Rightarrow> string \<Rightarrow> gomsg option \<Rightarrow> RateSnapshot option \<times> gomsg option" where
  "first_live [] baseCurrency lastErr = (None, lastErr)"
| "first_live (p # ps) baseCurrency lastErr =
     (case rp_FetchRates p baseCurrency of
        Inl err \<Rightarrow> first_live ps baseCurrency (Some err)
      | Inr None \<Rightarrow> first_live ps baseCurrency lastErr
      | Inr (Some snap) \<Rightarrow>
          if sn_Rates snap \<noteq> [] then (Some snap, lastErr) else first_live ps baseCurrency lastErr)"

text \<open>
  \<open>FetchRates\<close> never fails; it takes and returns the last good snapshot. A snapshot without a
  provider name counts as none at the end, although its rates have been merged.
\<close>

definition Composite_FetchRates ::
    "RateProvider list \<Rightarrow> int \<Rightarrow> string \<Rightarrow> RateSnapshot option \<Rightarrow> RateSnapshot option \<times> RateSnapshot" where
  "Composite_FetchRates providers now baseCurrency lastGoodSnap =
     (let baseSnap = Baseline_FetchRates now baseCurrency;
          found = fst (first_live providers baseCurrency None);
          merged = (case found of None \<Rightarrow> sn_Rates baseSnap
                    | Some snap \<Rightarrow> merge_rates (sn_Rates snap) (sn_Rates baseSnap));
          activeProvider = (case found of None \<Rightarrow> [] | Some snap \<Rightarrow> sn_ProviderName snap);
          fetchedAt = (case found of None \<Rightarrow> 0 | Some snap \<Rightarrow> sn_FetchedAt snap)
      in if activeProvider \<noteq> []
         then (let res = \<lparr>sn_BaseCurrency = sn_BaseCurrency baseSnap, sn_Rates = merged,
                          sn_ProviderName = activeProvider, sn_FetchedAt = fetchedAt,
                          sn_StaleQuote = False\<rparr>
               in (Some res, res))
         else (case lastGoodSnap of
                 Some lastGood \<Rightarrow>
                   (lastGoodSnap,
                    lastGood\<lparr>sn_ProviderName := ''stale-fallback:'' @ sn_ProviderName lastGood,
                             sn_StaleQuote := True\<rparr>)
               | None \<Rightarrow>
                   (None, \<lparr>sn_BaseCurrency = sn_BaseCurrency baseSnap, sn_Rates = merged,
                           sn_ProviderName = sn_ProviderName baseSnap,
                           sn_FetchedAt = sn_FetchedAt baseSnap, sn_StaleQuote = True\<rparr>)))"

text \<open>
  The providers that \<open>NewCompositeRateProviderFromEnv\<close> registers, in order: a custom feed where
  one is configured, and the two public feeds unless the service is offline.
\<close>

datatype provider_config = ExchangeRateAPIProvider string string | FrankfurterProvider string

fun TrimRightSlash :: "string \<Rightarrow> string" where
  "TrimRightSlash s = rev (dropWhile (\<lambda>c. c = CHR ''/'') (rev s))"

definition NewFrankfurterProvider :: "string \<Rightarrow> provider_config" where
  "NewFrankfurterProvider endpoint =
     FrankfurterProvider
       (TrimRightSlash (if endpoint = [] then ''https://api.frankfurter.dev/v1/latest'' else endpoint))"

definition NewExchangeRateAPIProvider :: "string \<Rightarrow> string \<Rightarrow> provider_config" where
  "NewExchangeRateAPIProvider baseURL apiKey =
     (let baseURL =
        (if baseURL = []
         then (if apiKey \<noteq> [] then ''https://v6.exchangerate-api.com/v6/'' @ apiKey @ ''/latest''
               else ''https://open.er-api.com/v6/latest'')
         else baseURL)
      in ExchangeRateAPIProvider (TrimRightSlash baseURL) apiKey)"

definition NewCompositeRateProviderFromEnv :: "(string \<Rightarrow> string) \<Rightarrow> provider_config list" where
  "NewCompositeRateProviderFromEnv Getenv =
     (let customURL = TrimSpace (Getenv ''FX_PROVIDER_URL'')
      in if customURL \<noteq> []
         then [NewExchangeRateAPIProvider customURL (TrimSpace (Getenv ''FX_PROVIDER_API_KEY''))]
         else [])
     @ (if ToLower (Getenv ''FX_OFFLINE_MODE'') \<noteq> ''true''
        then [NewExchangeRateAPIProvider [] (TrimSpace (Getenv ''EXCHANGERATE_API_KEY'')),
              NewFrankfurterProvider []]
        else [])"

subsection \<open>Sound rates\<close>

text \<open>A map of rates that covers the baseline currencies and holds positive rates only.\<close>

definition rates_ok :: "(string, gofloat) gomap \<Rightarrow> bool" where
  "rates_ok rates \<longleftrightarrow> gomap_ok rates \<and> list_all (\<lambda>(c, r). IsValidCurrency c \<and> positive r) rates
     \<and> list_all (\<lambda>(c, r). map_of rates c \<noteq> None) InstitutionalBaselineRates"

lemma set_update_subset: "set (AList.update k v m) \<subseteq> insert (k, v) (set m)"
  by (induction m) auto

lemma in_set_update: "x \<in> set (AList.update k v m) \<Longrightarrow> x = (k, v) \<or> x \<in> set m"
  using set_update_subset by fastforce

lemma rates_ok_update: "rates_ok m \<Longrightarrow> IsValidCurrency c \<Longrightarrow> positive r \<Longrightarrow> rates_ok (AList.update c r m)"
  unfolding rates_ok_def list_all_iff by (auto simp: update_conv' dest: in_set_update)

lemma merge_rates_ok: "rates_ok m \<Longrightarrow> rates_ok (merge_rates live m)"
  unfolding merge_rates_def
  by (induction live arbitrary: m) (auto simp: rates_ok_update)

lemma positive_xfl: "pow2 (- 1022) \<le> x \<Longrightarrow> positive (xfl x)"
proof -
  assume le: "pow2 (- 1022) \<le> x"
  then have x: "0 < x" using pow2_pos [of "- 1022"] by linarith
  then have "0 < fl x" using fl_pos_normal le by blast
  then show ?thesis by (cases rule: xfl_cases [OF less_imp_le [OF x]]) auto
qed

lemma baseline_bounds:
  "list_all (\<lambda>(c, r). IsValidCurrency c \<and> (case r of Fin x \<Rightarrow> 1 / 4 \<le> x \<and> x \<le> 200 | _ \<Rightarrow> False))
     InstitutionalBaselineRates"
  by code_simp

lemma baseline_cross_positive:
  assumes "(c, r) \<in> set InstitutionalBaselineRates" and "(c', r') \<in> set InstitutionalBaselineRates"
  shows "positive (xdiv r r')"
proof -
  obtain x y where r: "r = Fin x" "r' = Fin y" and b: "1 / 4 \<le> x" "1 / 4 \<le> y" "y \<le> 200"
    using assms [THEN bspec [OF baseline_bounds [unfolded list_all_iff]]]
    by (cases r; cases r') auto
  have "pow2 (- 1022) \<le> pow2 (- 10)" by (rule pow2_mono) simp
  also have "\<dots> \<le> (1 / 4) / 200" by (simp add: pow2_def)
  also have "\<dots> \<le> x / y" using b by (intro frac_le) auto
  finally show ?thesis using b(2) by (simp add: r positive_xfl)
qed

lemma map_of_map_snd: "map_of (map (\<lambda>(c, r). (c, f r)) m) k = map_option f (map_of m k)"
  by (induction m) auto

lemma baseline_distinct: "distinct (map fst InstitutionalBaselineRates)"
  by (simp add: InstitutionalBaselineRates_def)

lemma baseline_rates_ok:
  assumes "(base, b) \<in> set InstitutionalBaselineRates"
  shows "rates_ok (map (\<lambda>(curr, usdRate). (curr, xdiv usdRate b)) InstitutionalBaselineRates)"
proof -
  have fst: "fst \<circ> (\<lambda>(curr, usdRate). (curr, xdiv usdRate b)) = fst" by auto
  have "IsValidCurrency c" if "(c, r) \<in> set InstitutionalBaselineRates" for c r
    using that baseline_bounds by (auto simp: list_all_iff)
  moreover have "map_of InstitutionalBaselineRates c \<noteq> None"
    if "(c, r) \<in> set InstitutionalBaselineRates" for c r
    using that baseline_distinct by simp
  ultimately show ?thesis using baseline_distinct baseline_cross_positive [OF _ assms]
    by (auto simp: rates_ok_def gomap_ok_def map_of_map_snd list_all_iff fst)
qed

lemma Baseline_rates_ok: "rates_ok (sn_Rates (Baseline_FetchRates now b))"
proof -
  obtain base r where a: "baseline_anchor b = (base, r)" by (cases "baseline_anchor b")
  have usd: "map_of InstitutionalBaselineRates ''USD'' = Some (Fin 1)"
    by (simp add: InstitutionalBaselineRates_def)
  have "map_of InstitutionalBaselineRates base = Some r"
    using a usd by (auto simp: baseline_anchor_def Let_def split: option.splits if_splits)
  then have "(base, r) \<in> set InstitutionalBaselineRates" by (rule map_of_SomeD)
  then show ?thesis using baseline_rates_ok by (simp add: Baseline_FetchRates_def a)
qed

text \<open>
  The composite feed never fails and never serves a hole or a nonsensical rate:
  whatever the live feeds answer, the snapshot covers every baseline currency and holds
  positive rates of supported currencies only, and what it keeps as the last good snapshot
  is sound again. It is marked stale exactly when no live feed named itself with rates, and
  then it repeats the last good rates where there are any.
\<close>

lemma Composite_FetchRates_sound:
  assumes good: "case lastGood of None \<Rightarrow> True | Some g \<Rightarrow> rates_ok (sn_Rates g)"
    and run: "Composite_FetchRates providers now b lastGood = (lastGood', snap)"
  shows "rates_ok (sn_Rates snap)
    \<and> (case lastGood' of None \<Rightarrow> True | Some g \<Rightarrow> rates_ok (sn_Rates g))
    \<and> (sn_StaleQuote snap \<longleftrightarrow>
         (case fst (first_live providers b None) of None \<Rightarrow> True | Some s \<Rightarrow> sn_ProviderName s = []))
    \<and> (sn_StaleQuote snap \<longrightarrow> lastGood' = lastGood
         \<and> (case lastGood of None \<Rightarrow> True | Some g \<Rightarrow> sn_Rates snap = sn_Rates g))
    \<and> (\<not> sn_StaleQuote snap \<longrightarrow> lastGood' = Some snap)"
proof -
  let ?found = "fst (first_live providers b None)"
  note base = Baseline_rates_ok [of now b]
  show ?thesis
  proof (cases ?found)
    case None
    then show ?thesis using good run base
      by (cases lastGood) (auto simp: Composite_FetchRates_def Let_def)
  next
    case (Some live)
    then show ?thesis using good run base merge_rates_ok [OF base, of "sn_Rates live"]
      by (cases lastGood; cases "sn_ProviderName live = []")
        (auto simp: Composite_FetchRates_def Let_def)
  qed
qed

text \<open>A feed that is down, then one that answers with two rates, one of them negative.\<close>

definition sample_providers :: "RateProvider list" where
  "sample_providers =
     [\<lparr>rp_Name = ''a'', rp_FetchRates = (\<lambda>b. Inl (lit ''down''))\<rparr>,
      \<lparr>rp_Name = ''b'', rp_FetchRates = (\<lambda>b. Inr (Some
         \<lparr>sn_BaseCurrency = ''USD'', sn_Rates = [(''EUR'', Fin (1 / 2)), (''GBP'', Fin (- 1))],
          sn_ProviderName = ''b'', sn_FetchedAt = 7, sn_StaleQuote = False\<rparr>))\<rparr>]"

end
