(* ===== verification/FxEngine.thy ===== *)
theory FxEngine
  imports FxProviders Encoding WalletTypes
begin

text \<open>
  The FX engine (\<open>cmd/fx-service/engine.go\<close>): the rate book, locked quotes and idempotent
  conversions. The state of one pod is the record \<open>FXEngine\<close>; the three collections of
  \<open>fx_db\<close> are shared by all pods.

  Between two accesses of an operation to shared state, other goroutines of the pod and
  other pods may run: \<open>fx_others k\<close> is what they do at point \<open>k\<close>. The \<open>c\<close>-th database call of
  an operation has point \<open>2 c\<close> before it and point \<open>2 c + 1\<close> between it and the following
  update of the memory under the mutex; each call may fail on its own. \<open>fx_now k\<close> is the
  \<open>k\<close>-th reading of the clock, \<open>fx_oid k\<close> the \<open>k\<close>-th new object id. MongoDB stores times in
  milliseconds. The \<open>updated_at\<close> that a consumed quote receives is not a field of \<open>QuoteDoc\<close> and
  is read by nobody.
\<close>

subsection \<open>Data\<close>

definition QuoteStatusActive :: string where "QuoteStatusActive = ''ACTIVE''"
definition QuoteStatusExecuted :: string where "QuoteStatusExecuted = ''EXECUTED''"
definition QuoteStatusExpired :: string where "QuoteStatusExpired = ''EXPIRED''"
definition ConversionStatusCompleted :: string where "ConversionStatusCompleted = ''COMPLETED''"
definition ConversionStatusReplay :: string where "ConversionStatusReplay = ''DUPLICATE_REPLAY''"
definition defaultQuoteTTLSeconds :: int32 where "defaultQuoteTTLSeconds = 60"
definition defaultSpreadBps :: int32 where "defaultSpreadBps = 25"

lemmas fx_status_defs =
  QuoteStatusActive_def QuoteStatusExecuted_def QuoteStatusExpired_def
  ConversionStatusCompleted_def ConversionStatusReplay_def

record ExchangeRateDoc =
  x_BaseCurrency :: string
  x_TargetCurrency :: string
  x_MidRate :: gofloat
  x_BidRate :: gofloat
  x_AskRate :: gofloat
  x_EffectiveRate :: gofloat
  x_InverseRate :: gofloat
  x_SpreadBps :: int32
  x_SourceProvider :: string
  x_UpdatedAt :: int

record QuoteDoc =
  q_QuoteID :: string
  q_BaseCurrency :: string
  q_TargetCurrency :: string
  q_SourceAmount :: int64
  q_TargetAmount :: int64
  q_FeeAmount :: int64
  q_MidRate :: gofloat
  q_EffectiveRate :: gofloat
  q_SpreadBps :: int32
  q_Status :: string
  q_ClientID :: string
  q_SourceProvider :: string
  q_CreatedAt :: int
  q_ExpiresAt :: int

record ConversionDoc =
  v_ConversionID :: string
  v_IdempotencyKey :: string
  v_QuoteID :: string
  v_BaseCurrency :: string
  v_TargetCurrency :: string
  v_SourceAmount :: int64
  v_TargetAmount :: int64
  v_FeeAmount :: int64
  v_MidRate :: gofloat
  v_EffectiveRate :: gofloat
  v_SpreadBps :: int32
  v_ClientID :: string
  v_ReferenceID :: string
  v_SourceProvider :: string
  v_ExecutedAt :: int

record FXEngine =
  fe_usdRates :: "(string, gofloat) gomap"
  fe_pairOverrides :: "(string, ExchangeRateDoc) gomap"
  fe_quotesMem :: "(string, QuoteDoc) gomap"
  fe_conversionsMem :: "(string, ConversionDoc) gomap"
  fe_spreadBps :: int32
  fe_feeBps :: int32
  fe_sourceProvider :: string
  fe_lastSyncedAt :: int
  fe_fxDB :: bool

record fx_db =
  fd_rates :: "ExchangeRateDoc list"
  fd_quotes :: "QuoteDoc list"
  fd_conversions :: "ConversionDoc list"

type_synonym fx_state = "FXEngine \<times> fx_db"

record fx_env =
  fx_rates_col :: "nat \<Rightarrow> ExchangeRateDoc collection_ops"
  fx_quotes_col :: "nat \<Rightarrow> QuoteDoc collection_ops"
  fx_conversions_col :: "nat \<Rightarrow> ConversionDoc collection_ops"
  fx_others :: "nat \<Rightarrow> fx_state \<Rightarrow> fx_state"
  fx_now :: "nat \<Rightarrow> int"
  fx_oid :: "nat \<Rightarrow> string"

text \<open>The messages of \<open>proto/fx\<close>.\<close>

record ExchangeRate =
  er_BaseCurrency :: string
  er_TargetCurrency :: string
  er_MidRate :: gofloat
  er_BidRate :: gofloat
  er_AskRate :: gofloat
  er_EffectiveRate :: gofloat
  er_InverseRate :: gofloat
  er_SpreadBps :: int32
  er_SourceProvider :: string
  er_UpdatedAt :: string
  er_BaseScale :: int32
  er_TargetScale :: int32

record Quote =
  qt_QuoteId :: string
  qt_BaseCurrency :: string
  qt_TargetCurrency :: string
  qt_SourceAmount :: int64
  qt_TargetAmount :: int64
  qt_FeeAmount :: int64
  qt_MidRate :: gofloat
  qt_EffectiveRate :: gofloat
  qt_SpreadBps :: int32
  qt_Status :: string
  qt_ClientId :: string
  qt_SourceProvider :: string
  qt_CreatedAt :: string
  qt_ExpiresAt :: string

record ConversionResponse =
  cv_ConversionId :: string
  cv_QuoteId :: string
  cv_BaseCurrency :: string
  cv_TargetCurrency :: string
  cv_SourceAmount :: int64
  cv_TargetAmount :: int64
  cv_FeeAmount :: int64
  cv_MidRate :: gofloat
  cv_EffectiveRate :: gofloat
  cv_SpreadBps :: int32
  cv_Status :: string
  cv_SourceProvider :: string
  cv_ExecutedAt :: string

text \<open>Documents as the database keeps them.\<close>

definition bson_time :: "int \<Rightarrow> int" where
  "bson_time t = Truncate t Millisecond"

definition bson_quote :: "QuoteDoc \<Rightarrow> QuoteDoc" where
  "bson_quote d = d\<lparr>q_CreatedAt := bson_time (q_CreatedAt d), q_ExpiresAt := bson_time (q_ExpiresAt d)\<rparr>"

definition bson_conversion :: "ConversionDoc \<Rightarrow> ConversionDoc" where
  "bson_conversion d = d\<lparr>v_ExecutedAt := bson_time (v_ExecutedAt d)\<rparr>"

definition bson_rate :: "ExchangeRateDoc \<Rightarrow> ExchangeRateDoc" where
  "bson_rate d = d\<lparr>x_UpdatedAt := bson_time (x_UpdatedAt d)\<rparr>"

subsection \<open>The rate book\<close>

definition NewFXEngine :: "bool \<Rightarrow> int32 \<Rightarrow> int32 \<Rightarrow> int \<Rightarrow> FXEngine" where
  "NewFXEngine fxDB spreadBps feeBps now =
     \<lparr>fe_usdRates = InstitutionalBaselineRates, fe_pairOverrides = [], fe_quotesMem = [],
      fe_conversionsMem = [], fe_spreadBps = (if spreadBps < 0 then defaultSpreadBps else spreadBps),
      fe_feeBps = (if feeBps < 0 then 0 else feeBps), fe_sourceProvider = ''institutional-baseline'',
      fe_lastSyncedAt = now, fe_fxDB = fxDB\<rparr>"

definition computeRateDoc ::
    "string \<Rightarrow> string \<Rightarrow> gofloat \<Rightarrow> int32 \<Rightarrow> string \<Rightarrow> int \<Rightarrow> ExchangeRateDoc" where
  "computeRateDoc base target midRate spreadBps provider ts =
     (if base = target
      then \<lparr>x_BaseCurrency = base, x_TargetCurrency = target, x_MidRate = Fin 1, x_BidRate = Fin 1,
            x_AskRate = Fin 1, x_EffectiveRate = Fin 1, x_InverseRate = Fin 1, x_SpreadBps = 0,
            x_SourceProvider = provider, x_UpdatedAt = ts\<rparr>
      else
        let spreadFraction = fdiv (float_of_int spreadBps) 10000;
            mid = roundPips midRate;
            bid = roundPips (xmul midRate (Fin (fsub 1 (fdiv spreadFraction 2))));
            ask = roundPips (xmul midRate (Fin (fadd 1 (fdiv spreadFraction 2))));
            effective = roundPips (xmul midRate (Fin (fsub 1 spreadFraction)));
            effective = (if nonpositive effective then mid else effective);
            inverse = roundPips (xdiv (Fin 1) effective)
        in \<lparr>x_BaseCurrency = base, x_TargetCurrency = target, x_MidRate = mid, x_BidRate = bid,
            x_AskRate = ask, x_EffectiveRate = effective, x_InverseRate = inverse,
            x_SpreadBps = spreadBps, x_SourceProvider = provider, x_UpdatedAt = ts\<rparr>)"

definition rateDocToProto :: "ExchangeRateDoc \<Rightarrow> ExchangeRate" where
  "rateDocToProto doc =
     \<lparr>er_BaseCurrency = x_BaseCurrency doc, er_TargetCurrency = x_TargetCurrency doc,
      er_MidRate = x_MidRate doc, er_BidRate = x_BidRate doc, er_AskRate = x_AskRate doc,
      er_EffectiveRate = x_EffectiveRate doc, er_InverseRate = x_InverseRate doc,
      er_SpreadBps = x_SpreadBps doc, er_SourceProvider = x_SourceProvider doc,
      er_UpdatedAt = FormatRFC3339 (x_UpdatedAt doc),
      er_BaseScale = (case CurrencyScale (x_BaseCurrency doc) of Inl _ \<Rightarrow> 0 | Inr s \<Rightarrow> s),
      er_TargetScale = (case CurrencyScale (x_TargetCurrency doc) of Inl _ \<Rightarrow> 0 | Inr s \<Rightarrow> s)\<rparr>"

definition unsupported :: "string \<Rightarrow> string \<Rightarrow> gomsg" where
  "unsupported side code = Msg (''invalid or unsupported '' @ side @ '' currency: %s'') [ArgS code]"

definition pair_key :: "string \<Rightarrow> string \<Rightarrow> string" where
  "pair_key base target = base @ '':'' @ target"

definition usd_rate :: "FXEngine \<Rightarrow> string \<Rightarrow> gofloat" where
  "usd_rate e code = (case map_of (fe_usdRates e) code of Some r \<Rightarrow> r | None \<Rightarrow> Fin 0)"

definition GetRate :: "FXEngine \<Rightarrow> string \<Rightarrow> string \<Rightarrow> gomsg + ExchangeRate" where
  "GetRate e base target =
     (let base = NormalizeCurrency base; target = NormalizeCurrency target
      in if \<not> IsValidCurrency base then Inl (unsupported ''base'' base)
         else if \<not> IsValidCurrency target then Inl (unsupported ''target'' target)
         else case map_of (fe_pairOverrides e) (pair_key base target) of
                Some override \<Rightarrow> Inr (rateDocToProto override)
              | None \<Rightarrow>
                  let baseToUSD = usd_rate e base; targetToUSD = usd_rate e target
                  in if nonpositive baseToUSD \<or> nonpositive targetToUSD
                     then Inl (Msg ''exchange rate unavailable for pair %s/%s'' [ArgS base, ArgS target])
                     else Inr (rateDocToProto
                            (computeRateDoc base target (xdiv targetToUSD baseToUSD) (fe_spreadBps e)
                              (fe_sourceProvider e) (fe_lastSyncedAt e))))"

definition ListRates :: "FXEngine \<Rightarrow> string \<Rightarrow> gomsg + ExchangeRate list \<times> string \<times> string" where
  "ListRates e base =
     (let base = NormalizeCurrency base;
          base = (if base = [] then ''USD'' else base)
      in if \<not> IsValidCurrency base then Inl (unsupported ''base'' base)
         else Inr (sort_key er_TargetCurrency
                     (concat (map (\<lambda>info. case GetRate e base (ci_Code info) of Inl err \<Rightarrow> [] | Inr r \<Rightarrow> [r])
                        ListSupportedCurrencies)),
                   fe_sourceProvider e, FormatRFC3339 (fe_lastSyncedAt e)))"

definition rate_filter :: "string \<Rightarrow> string \<Rightarrow> ExchangeRateDoc \<Rightarrow> bool" where
  "rate_filter base target d \<longleftrightarrow> x_BaseCurrency d = base \<and> x_TargetCurrency d = target"

text \<open>\<open>UpdateOne\<close> with \<open>$set\<close> of the whole document and \<open>upsert\<close>; the caller drops the error.\<close>

definition upsert_rate :: "fx_env \<Rightarrow> nat \<Rightarrow> ExchangeRateDoc \<Rightarrow> fx_db \<Rightarrow> fx_db" where
  "upsert_rate E c doc db =
     (let doc = bson_rate doc
      in db\<lparr>fd_rates := fst (UpsertOne (fx_rates_col E c)
              (rate_filter (x_BaseCurrency doc) (x_TargetCurrency doc)) (\<lambda>_. Some doc) doc (fd_rates db))\<rparr>)"

definition rate_proto_doc :: "string \<Rightarrow> string \<Rightarrow> ExchangeRate \<Rightarrow> int \<Rightarrow> ExchangeRateDoc" where
  "rate_proto_doc base target r now =
     \<lparr>x_BaseCurrency = base, x_TargetCurrency = target, x_MidRate = er_MidRate r,
      x_BidRate = er_BidRate r, x_AskRate = er_AskRate r, x_EffectiveRate = er_EffectiveRate r,
      x_InverseRate = er_InverseRate r, x_SpreadBps = er_SpreadBps r,
      x_SourceProvider = er_SourceProvider r, x_UpdatedAt = now\<rparr>"

definition cross_pairs :: "(string \<times> string) list" where
  "cross_pairs =
     filter (\<lambda>(base, target). base \<noteq> target)
       (concat (map (\<lambda>base. map (\<lambda>target. (ci_Code base, ci_Code target)) ListSupportedCurrencies)
          ListSupportedCurrencies))"

fun persist_pairs :: "fx_env \<Rightarrow> nat \<Rightarrow> (string \<times> string) list \<Rightarrow> fx_state \<Rightarrow> fx_state" where
  "persist_pairs E c [] st = st"
| "persist_pairs E c ((base, target) # pairs) st =
     persist_pairs E (c + 1) pairs
       (let (e, db) = fx_others E (2 * c) st
        in if fe_fxDB e
           then (case GetRate e base target of
                   Inl err \<Rightarrow> (e, db)
                 | Inr rateProto \<Rightarrow> (e, upsert_rate E c (rate_proto_doc base target rateProto (fx_now E c)) db))
           else (e, db))"

definition persistAllPairs :: "fx_env \<Rightarrow> fx_state \<Rightarrow> fx_state \<times> int" where
  "persistAllPairs E st = (persist_pairs E 0 cross_pairs st, int (length cross_pairs))"

definition book_rates :: "(string, gofloat) gomap \<Rightarrow> (string, gofloat) gomap \<Rightarrow> (string, gofloat) gomap" where
  "book_rates snapRates usdRates =
     AList.update ''USD'' (Fin 1)
       (fold (\<lambda>(curr, rate) m.
               let code = NormalizeCurrency curr
               in if IsValidCurrency code \<and> positive rate then AList.update code rate m else m)
          snapRates usdRates)"

definition SyncUpstreamRates ::
    "fx_env \<Rightarrow> gomsg + RateSnapshot \<Rightarrow> fx_state \<Rightarrow> fx_state \<times> (gomsg + int \<times> string)" where
  "SyncUpstreamRates E fetched st =
     (case fetched of
        Inl err \<Rightarrow> (st, Inl err)
      | Inr snap \<Rightarrow>
          let (e, db) = st;
              e = e\<lparr>fe_usdRates := book_rates (sn_Rates snap) (fe_usdRates e),
                    fe_sourceProvider := sn_ProviderName snap, fe_lastSyncedAt := sn_FetchedAt snap\<rparr>;
              (st, pairsUpdated) = persistAllPairs E (e, db)
          in (st, Inr (pairsUpdated, sn_ProviderName snap)))"

text \<open>\<open>%f\<close>: six decimals of the exact value, ties to even.\<close>

definition show_f :: "gofloat \<Rightarrow> string" where
  "show_f x =
     (case x of
        Fin r \<Rightarrow> (let n = RoundToEven (\<bar>r\<bar> * 1000000); f = show_int (n mod 1000000)
                  in (if r < 0 then ''-'' else '''') @ show_int (n div 1000000) @ ''.''
                     @ replicate (6 - length f) (CHR ''0'') @ f)
      | PInf \<Rightarrow> ''+Inf'' | NInf \<Rightarrow> ''-Inf'' | NaN \<Rightarrow> ''NaN'')"

definition override_usd :: "string \<Rightarrow> string \<Rightarrow> gofloat \<Rightarrow> (string, gofloat) gomap \<Rightarrow> (string, gofloat) gomap" where
  "override_usd base target midRate usdRates =
     (if base = ''USD'' then AList.update target midRate usdRates
      else if target = ''USD'' \<and> positive midRate then AList.update base (xdiv (Fin 1) midRate) usdRates
      else usdRates)"

definition SetPairRate ::
    "fx_env \<Rightarrow> string \<Rightarrow> string \<Rightarrow> gofloat \<Rightarrow> int32 \<Rightarrow> string \<Rightarrow> fx_state
       \<Rightarrow> fx_state \<times> (gomsg + ExchangeRate)" where
  "SetPairRate E base target midRate spreadBps provider st =
     (let base = NormalizeCurrency base; target = NormalizeCurrency target
      in if \<not> IsValidCurrency base then (st, Inl (unsupported ''base'' base))
         else if \<not> IsValidCurrency target then (st, Inl (unsupported ''target'' target))
         else if nonpositive midRate
         then (st, Inl (Msg ''mid_rate must be strictly positive, got %f'' [ArgS (show_f midRate)]))
         else if spreadBps < 0 \<or> 5000 \<le> spreadBps
         then (st, Inl (Msg ''spread_bps must be between 0 and 4999, got %d'' [ArgD spreadBps]))
         else
           let provider = (if provider = [] then ''manual-override'' else provider);
               doc = computeRateDoc base target midRate spreadBps provider (fx_now E 0);
               (e, db) = st;
               e = e\<lparr>fe_pairOverrides := AList.update (pair_key base target) doc (fe_pairOverrides e),
                     fe_usdRates := override_usd base target midRate (fe_usdRates e),
                     fe_lastSyncedAt := x_UpdatedAt doc\<rparr>;
               st = (if fe_fxDB e then (let (e, db) = fx_others E 0 (e, db) in (e, upsert_rate E 0 doc db))
                     else (e, db))
           in (st, Inr (rateDocToProto doc)))"

definition HealthSummary :: "FXEngine \<Rightarrow> string \<times> int32 \<times> int32 \<times> string" where
  "HealthSummary e =
     (let numCurrencies = wrap32 (int (length SupportedCurrencies))
      in (fe_sourceProvider e, numCurrencies, wrap32 (numCurrencies * (numCurrencies - 1)),
          FormatRFC3339 (fe_lastSyncedAt e)))"

end
