(* ===== verification/FxQuotes.thy ===== *)
theory FxQuotes
  imports FxEngine
begin

text \<open>
  Quotes and conversions of the FX engine (\<open>cmd/fx-service/engine.go\<close>). The database calls of
  \<open>ConvertCurrency\<close> are numbered in the order of the source: 0 looks for the idempotency key,
  1 loads the quote, 2 consumes it, 3 and 4 store and mark the quote of a spot conversion, 5
  stores the conversion, 6 looks for the key again. \<open>CreateQuote\<close> uses call 3, \<open>GetQuote\<close> calls 1
  and 2. Point 14 lies between the lookup of the key and the conversion, point 15 between
  the pricing of a quote and its entry into the memory.

  Quotes and conversions are pointers in Go. The pointers that leave the mutex are copies,
  but for those just read from the database, which nobody changes except through the map.
\<close>

subsection \<open>Quotes\<close>

definition quoteDocToProto :: "QuoteDoc \<Rightarrow> Quote" where
  "quoteDocToProto doc =
     \<lparr>qt_QuoteId = q_QuoteID doc, qt_BaseCurrency = q_BaseCurrency doc,
      qt_TargetCurrency = q_TargetCurrency doc, qt_SourceAmount = q_SourceAmount doc,
      qt_TargetAmount = q_TargetAmount doc, qt_FeeAmount = q_FeeAmount doc, qt_MidRate = q_MidRate doc,
      qt_EffectiveRate = q_EffectiveRate doc, qt_SpreadBps = q_SpreadBps doc, qt_Status = q_Status doc,
      qt_ClientId = q_ClientID doc, qt_SourceProvider = q_SourceProvider doc,
      qt_CreatedAt = FormatRFC3339 (q_CreatedAt doc), qt_ExpiresAt = FormatRFC3339 (q_ExpiresAt doc)\<rparr>"

definition quote_fee :: "int32 \<Rightarrow> string \<Rightarrow> string \<Rightarrow> int64 \<Rightarrow> int64 \<times> int64" where
  "quote_fee feeBps base target sourceAmount =
     (let feeAmount =
        (if 0 < feeBps \<and> base \<noteq> target
         then int64_of_float (of_int (RoundToEven
                (fdiv (fmul (float_of_int sourceAmount) (float_of_int feeBps)) 10000)))
         else 0);
          netSource = wrap64 (sourceAmount - feeAmount)
      in if netSource \<le> 0 then (sourceAmount, 0) else (netSource, feeAmount))"

definition quote_ttl :: "int32 \<Rightarrow> int32" where
  "quote_ttl ttlSeconds =
     (let ttlSeconds = (if ttlSeconds \<le> 0 then defaultQuoteTTLSeconds else ttlSeconds)
      in if 3600 < ttlSeconds then 3600 else ttlSeconds)"

definition quote_id :: "string \<Rightarrow> string" where
  "quote_id oid = ''fxq_'' @ oid"

definition new_quote ::
    "FXEngine \<Rightarrow> string \<Rightarrow> int \<Rightarrow> ExchangeRate \<Rightarrow> string \<Rightarrow> string \<Rightarrow> int64 \<Rightarrow> string \<Rightarrow> int32 \<Rightarrow> QuoteDoc" where
  "new_quote e oid now rate base target sourceAmount clientID ttlSeconds =
     (let (netSource, feeAmount) = quote_fee (fe_feeBps e) base target sourceAmount
      in \<lparr>q_QuoteID = quote_id oid, q_BaseCurrency = base, q_TargetCurrency = target,
          q_SourceAmount = sourceAmount,
          q_TargetAmount = ConvertAtRate netSource base target (er_EffectiveRate rate),
          q_FeeAmount = feeAmount, q_MidRate = er_MidRate rate,
          q_EffectiveRate = er_EffectiveRate rate, q_SpreadBps = er_SpreadBps rate,
          q_Status = QuoteStatusActive,
          q_ClientID = (if TrimSpace clientID = [] then ''anonymous-client'' else clientID),
          q_SourceProvider = er_SourceProvider rate, q_CreatedAt = now,
          q_ExpiresAt = now + quote_ttl ttlSeconds * Second\<rparr>)"

lemma new_quote_id [simp]: "q_QuoteID (new_quote e oid now rate b t a c l) = quote_id oid"
  by (simp add: new_quote_def case_prod_unfold Let_def)

lemma bson_quote_same [simp]:
  "q_QuoteID (bson_quote d) = q_QuoteID d" "q_Status (bson_quote d) = q_Status d"
  by (simp_all add: bson_quote_def)

definition remember_quote :: "string \<Rightarrow> QuoteDoc \<Rightarrow> FXEngine \<Rightarrow> FXEngine" where
  "remember_quote quoteID doc e = e\<lparr>fe_quotesMem := AList.update quoteID doc (fe_quotesMem e)\<rparr>"

definition CreateQuote ::
    "fx_env \<Rightarrow> string \<Rightarrow> string \<Rightarrow> int64 \<Rightarrow> string \<Rightarrow> int32 \<Rightarrow> fx_state \<Rightarrow> fx_state \<times> (gomsg + Quote)" where
  "CreateQuote E base target sourceAmount clientID ttlSeconds st =
     (let base = NormalizeCurrency base; target = NormalizeCurrency target
      in case ValidateAmount sourceAmount base of
           Some err \<Rightarrow> (st, Inl err)
         | None \<Rightarrow>
             if \<not> IsValidCurrency target then (st, Inl (unsupported ''target'' target))
             else (case GetRate (fst st) base target of
                     Inl err \<Rightarrow> (st, Inl err)
                   | Inr rate \<Rightarrow>
                       let (e, db) = fx_others E 15 st;
                           doc = new_quote e (fx_oid E 0) (fx_now E 3) rate base target sourceAmount
                                   clientID ttlSeconds;
                           e = remember_quote (q_QuoteID doc) doc e;
                           st = (if fe_fxDB e
                                 then (let (e, db) = fx_others E 6 (e, db)
                                       in (e, db\<lparr>fd_quotes := fst (InsertOne (fx_quotes_col E 3)
                                                  (bson_quote doc) (fd_quotes db))\<rparr>))
                                 else (e, db))
                       in (st, Inr (quoteDocToProto doc))))"

definition loadQuoteDoc :: "fx_env \<Rightarrow> string \<Rightarrow> fx_state \<Rightarrow> fx_state \<times> (gomsg + QuoteDoc)" where
  "loadQuoteDoc E quoteID st =
     (let notFound = Inl (Msg ''quote %s not found'' [ArgS quoteID])
      in case map_of (fe_quotesMem (fst st)) quoteID of
           Some cached \<Rightarrow> (st, Inr cached)
         | None \<Rightarrow>
             if fe_fxDB (fst st)
             then (let st = fx_others E 2 st
                   in case FindOne (fx_quotes_col E 1) (\<lambda>d. q_QuoteID d = quoteID) None (fd_quotes (snd st)) of
                        Inl err \<Rightarrow> (st, notFound)
                      | Inr doc \<Rightarrow>
                          let (e, db) = fx_others E 3 st in ((remember_quote quoteID doc e, db), Inr doc))
             else (st, notFound))"

definition set_status :: "string \<Rightarrow> QuoteDoc \<Rightarrow> QuoteDoc option" where
  "set_status status d = Some (d\<lparr>q_Status := status\<rparr>)"

definition GetQuote :: "fx_env \<Rightarrow> string \<Rightarrow> fx_state \<Rightarrow> fx_state \<times> (gomsg + Quote)" where
  "GetQuote E quoteID st =
     (let quoteID = TrimSpace quoteID
      in if quoteID = [] then (st, Inl (lit ''quote_id is required''))
         else case loadQuoteDoc E quoteID st of
                (st, Inl err) \<Rightarrow> (st, Inl err)
              | (st, Inr doc) \<Rightarrow>
                  if q_Status doc = QuoteStatusActive \<and> q_ExpiresAt doc < fx_now E 0
                  then (let doc = doc\<lparr>q_Status := QuoteStatusExpired\<rparr>;
                            (e, db) = fx_others E 4 st;
                            e = remember_quote quoteID doc e;
                            st = (if fe_fxDB e
                                  then (let (e, db) = fx_others E 5 (e, db)
                                        in (e, db\<lparr>fd_quotes := fst (UpdateOne (fx_quotes_col E 2)
                                                   (\<lambda>d. q_QuoteID d = quoteID) (set_status QuoteStatusExpired)
                                                   (fd_quotes db))\<rparr>))
                                  else (e, db))
                        in (st, Inr (quoteDocToProto doc)))
                  else (st, Inr (quoteDocToProto doc)))"

subsection \<open>Conversions\<close>

definition conversionDocToProto :: "ConversionDoc \<Rightarrow> string \<Rightarrow> ConversionResponse" where
  "conversionDocToProto doc status =
     \<lparr>cv_ConversionId = v_ConversionID doc, cv_QuoteId = v_QuoteID doc,
      cv_BaseCurrency = v_BaseCurrency doc, cv_TargetCurrency = v_TargetCurrency doc,
      cv_SourceAmount = v_SourceAmount doc, cv_TargetAmount = v_TargetAmount doc,
      cv_FeeAmount = v_FeeAmount doc, cv_MidRate = v_MidRate doc,
      cv_EffectiveRate = v_EffectiveRate doc, cv_SpreadBps = v_SpreadBps doc, cv_Status = status,
      cv_SourceProvider = v_SourceProvider doc, cv_ExecutedAt = FormatRFC3339 (v_ExecutedAt doc)\<rparr>"

definition remember_conversion :: "string \<Rightarrow> ConversionDoc \<Rightarrow> FXEngine \<Rightarrow> FXEngine" where
  "remember_conversion key doc e = e\<lparr>fe_conversionsMem := AList.update key doc (fe_conversionsMem e)\<rparr>"

definition findExistingConversion ::
    "fx_env \<Rightarrow> nat \<Rightarrow> string \<Rightarrow> fx_state \<Rightarrow> fx_state \<times> ConversionDoc option" where
  "findExistingConversion E c key st =
     (case map_of (fe_conversionsMem (fst st)) key of
        Some cached \<Rightarrow> (st, Some cached)
      | None \<Rightarrow>
          if fe_fxDB (fst st)
          then (let st = fx_others E (2 * c) st
                in case FindOne (fx_conversions_col E c) (\<lambda>d. v_IdempotencyKey d = key) None
                          (fd_conversions (snd st)) of
                     Inl err \<Rightarrow> (st, None)
                   | Inr doc \<Rightarrow>
                       let (e, db) = fx_others E (2 * c + 1) st
                       in ((remember_conversion key doc e, db), Some doc))
          else (st, None))"

text \<open>The request checks of the locked-quote path.\<close>

definition already_executed :: "string \<Rightarrow> gomsg" where
  "already_executed quoteID = Msg ''quote %s has already been executed'' [ArgS quoteID]"

definition has_expired :: "string \<Rightarrow> gomsg" where
  "has_expired quoteID = Msg ''quote %s has expired'' [ArgS quoteID]"

definition quote_unusable :: "string \<Rightarrow> int \<Rightarrow> QuoteDoc \<Rightarrow> gomsg option" where
  "quote_unusable quoteID now doc =
     (if q_Status doc = QuoteStatusExecuted then Some (already_executed quoteID)
      else if q_Status doc = QuoteStatusExpired \<or> q_ExpiresAt doc < now then Some (has_expired quoteID)
      else None)"

definition quote_mismatch :: "ConvertCurrencyRequest \<Rightarrow> QuoteDoc \<Rightarrow> gomsg option" where
  "quote_mismatch req doc =
     (if cc_BaseCurrency req \<noteq> [] \<and> NormalizeCurrency (cc_BaseCurrency req) \<noteq> q_BaseCurrency doc
      then Some (Msg ''quote base_currency mismatch: quote=%s request=%s''
                   [ArgS (q_BaseCurrency doc), ArgS (cc_BaseCurrency req)])
      else if cc_TargetCurrency req \<noteq> [] \<and> NormalizeCurrency (cc_TargetCurrency req) \<noteq> q_TargetCurrency doc
      then Some (Msg ''quote target_currency mismatch: quote=%s request=%s''
                   [ArgS (q_TargetCurrency doc), ArgS (cc_TargetCurrency req)])
      else if 0 < cc_SourceAmount req \<and> cc_SourceAmount req \<noteq> q_SourceAmount doc
      then Some (Msg ''quote source_amount mismatch: quote=%d request=%d''
                   [ArgD (q_SourceAmount doc), ArgD (cc_SourceAmount req)])
      else None)"

definition consumable :: "string \<Rightarrow> int \<Rightarrow> QuoteDoc \<Rightarrow> bool" where
  "consumable quoteID now d \<longleftrightarrow>
     q_QuoteID d = quoteID \<and> q_Status d = QuoteStatusActive \<and> bson_time now < q_ExpiresAt d"

text \<open>The compare-and-set in the database, then the one in the memory of the pod.\<close>

definition consume_in_db :: "fx_env \<Rightarrow> string \<Rightarrow> fx_state \<Rightarrow> fx_state \<times> gomsg option" where
  "consume_in_db E quoteID st =
     (if fe_fxDB (fst st)
      then (let (e, db) = fx_others E 4 st
            in case UpdateOne (fx_quotes_col E 2) (consumable quoteID (fx_now E 1))
                      (set_status QuoteStatusExecuted) (fd_quotes db) of
                 (qs, Inl err) \<Rightarrow>
                   ((e, db\<lparr>fd_quotes := qs\<rparr>),
                    Some (Msg ''failed to execute quote %s: %w'' [ArgS quoteID, ArgE (err_msg err)]))
               | (qs, Inr res) \<Rightarrow>
                   ((e, db\<lparr>fd_quotes := qs\<rparr>),
                    if MatchedCount res = 0
                    then Some (Msg ''quote %s is expired or already executed'' [ArgS quoteID])
                    else None))
      else (st, None))"

definition consume_in_memory :: "fx_env \<Rightarrow> string \<Rightarrow> QuoteDoc \<Rightarrow> fx_state \<Rightarrow> fx_state \<times> gomsg option" where
  "consume_in_memory E quoteID qDoc st =
     (let (e, db) = fx_others E 5 st
      in case map_of (fe_quotesMem e) quoteID of
           Some memDoc \<Rightarrow>
             (case quote_unusable quoteID (fx_now E 2) memDoc of
                Some err \<Rightarrow> ((e, db), Some err)
              | None \<Rightarrow> ((remember_quote quoteID (memDoc\<lparr>q_Status := QuoteStatusExecuted\<rparr>) e, db), None))
         | None \<Rightarrow> ((remember_quote quoteID (qDoc\<lparr>q_Status := QuoteStatusExecuted\<rparr>) e, db), None))"

text \<open>What either path hands to the conversion.\<close>

record conversion_terms =
  ct_QuoteID :: string
  ct_Base :: string
  ct_Target :: string
  ct_SourceAmount :: int64
  ct_TargetAmount :: int64
  ct_FeeAmount :: int64
  ct_MidRate :: gofloat
  ct_EffectiveRate :: gofloat
  ct_SpreadBps :: int32
  ct_Provider :: string

definition terms_of_quote :: "string \<Rightarrow> QuoteDoc \<Rightarrow> conversion_terms" where
  "terms_of_quote quoteID d =
     \<lparr>ct_QuoteID = quoteID, ct_Base = q_BaseCurrency d, ct_Target = q_TargetCurrency d,
      ct_SourceAmount = q_SourceAmount d, ct_TargetAmount = q_TargetAmount d,
      ct_FeeAmount = q_FeeAmount d, ct_MidRate = q_MidRate d, ct_EffectiveRate = q_EffectiveRate d,
      ct_SpreadBps = q_SpreadBps d, ct_Provider = q_SourceProvider d\<rparr>"

definition quote_path ::
    "fx_env \<Rightarrow> ConvertCurrencyRequest \<Rightarrow> string \<Rightarrow> fx_state \<Rightarrow> fx_state \<times> (gomsg + conversion_terms)" where
  "quote_path E req quoteID st =
     (case loadQuoteDoc E quoteID st of
        (st, Inl err) \<Rightarrow> (st, Inl err)
      | (st, Inr qDoc) \<Rightarrow>
          (case quote_unusable quoteID (fx_now E 0) qDoc of
             Some err \<Rightarrow> (st, Inl err)
           | None \<Rightarrow>
               (case quote_mismatch req qDoc of
                  Some err \<Rightarrow> (st, Inl err)
                | None \<Rightarrow>
                    (case consume_in_db E quoteID st of
                       (st, Some err) \<Rightarrow> (st, Inl err)
                     | (st, None) \<Rightarrow>
                         (case consume_in_memory E quoteID qDoc st of
                            (st, Some err) \<Rightarrow> (st, Inl err)
                          | (st, None) \<Rightarrow> (st, Inr (terms_of_quote quoteID qDoc)))))))"

definition terms_of_proto :: "Quote \<Rightarrow> conversion_terms" where
  "terms_of_proto q =
     \<lparr>ct_QuoteID = qt_QuoteId q, ct_Base = qt_BaseCurrency q, ct_Target = qt_TargetCurrency q,
      ct_SourceAmount = qt_SourceAmount q, ct_TargetAmount = qt_TargetAmount q,
      ct_FeeAmount = qt_FeeAmount q, ct_MidRate = qt_MidRate q, ct_EffectiveRate = qt_EffectiveRate q,
      ct_SpreadBps = qt_SpreadBps q, ct_Provider = qt_SourceProvider q\<rparr>"

definition mark_executed :: "fx_env \<Rightarrow> string \<Rightarrow> fx_state \<Rightarrow> fx_state" where
  "mark_executed E quoteID st =
     (let (e, db) = fx_others E 7 st;
          e = (case map_of (fe_quotesMem e) quoteID of
                 Some qDoc \<Rightarrow> remember_quote quoteID (qDoc\<lparr>q_Status := QuoteStatusExecuted\<rparr>) e
               | None \<Rightarrow> e)
      in if fe_fxDB e
         then (let (e, db) = fx_others E 8 (e, db)
               in (e, db\<lparr>fd_quotes := fst (UpdateOne (fx_quotes_col E 4) (\<lambda>d. q_QuoteID d = quoteID)
                          (set_status QuoteStatusExecuted) (fd_quotes db))\<rparr>))
         else (e, db))"

definition spot_path ::
    "fx_env \<Rightarrow> ConvertCurrencyRequest \<Rightarrow> string \<Rightarrow> fx_state \<Rightarrow> fx_state \<times> (gomsg + conversion_terms)" where
  "spot_path E req clientID st =
     (let base = NormalizeCurrency (cc_BaseCurrency req); target = NormalizeCurrency (cc_TargetCurrency req)
      in case ValidateAmount (cc_SourceAmount req) base of
           Some err \<Rightarrow> (st, Inl err)
         | None \<Rightarrow>
             if \<not> IsValidCurrency target then (st, Inl (unsupported ''target'' target))
             else (case CreateQuote E base target (cc_SourceAmount req) clientID defaultQuoteTTLSeconds st of
                     (st, Inl err) \<Rightarrow> (st, Inl err)
                   | (st, Inr quote) \<Rightarrow>
                       (mark_executed E (qt_QuoteId quote) st, Inr (terms_of_proto quote))))"

definition conversion_doc ::
    "fx_env \<Rightarrow> ConvertCurrencyRequest \<Rightarrow> string \<Rightarrow> string \<Rightarrow> conversion_terms \<Rightarrow> ConversionDoc" where
  "conversion_doc E req idempKey clientID t =
     \<lparr>v_ConversionID = ''fxc_'' @ fx_oid E 1, v_IdempotencyKey = idempKey, v_QuoteID = ct_QuoteID t,
      v_BaseCurrency = ct_Base t, v_TargetCurrency = ct_Target t, v_SourceAmount = ct_SourceAmount t,
      v_TargetAmount = ct_TargetAmount t, v_FeeAmount = ct_FeeAmount t, v_MidRate = ct_MidRate t,
      v_EffectiveRate = ct_EffectiveRate t, v_SpreadBps = ct_SpreadBps t, v_ClientID = clientID,
      v_ReferenceID = cc_ReferenceId req, v_SourceProvider = ct_Provider t, v_ExecutedAt = fx_now E 4\<rparr>"

definition record_conversion ::
    "fx_env \<Rightarrow> string \<Rightarrow> ConversionDoc \<Rightarrow> fx_state \<Rightarrow> fx_state \<times> ConversionResponse" where
  "record_conversion E idempKey convDoc st =
     (let (e, db) = fx_others E 9 st;
          e = remember_conversion idempKey convDoc e;
          completed = conversionDocToProto convDoc ConversionStatusCompleted
      in if fe_fxDB e
         then (let (e, db) = fx_others E 10 (e, db)
               in case InsertOne (fx_conversions_col E 5) (bson_conversion convDoc) (fd_conversions db) of
                    (cs, None) \<Rightarrow> ((e, db\<lparr>fd_conversions := cs\<rparr>), completed)
                  | (cs, Some err) \<Rightarrow>
                      if IsDuplicateKeyError err
                      then (case findExistingConversion E 6 idempKey (e, db\<lparr>fd_conversions := cs\<rparr>) of
                              (st, Some existing) \<Rightarrow> (st, conversionDocToProto existing ConversionStatusReplay)
                            | (st, None) \<Rightarrow> (st, completed))
                      else ((e, db\<lparr>fd_conversions := cs\<rparr>), completed))
         else ((e, db), completed))"

definition conversion_client :: "ConvertCurrencyRequest \<Rightarrow> string" where
  "conversion_client req =
     (let clientID = TrimSpace (cc_ClientId req)
      in if clientID = [] then ''global-wallet-service'' else clientID)"

definition ConvertCurrency ::
    "fx_env \<Rightarrow> ConvertCurrencyRequest option \<Rightarrow> fx_state \<Rightarrow> fx_state \<times> (gomsg + ConversionResponse)" where
  "ConvertCurrency E request st =
     (case request of
        None \<Rightarrow> (st, Inl (lit ''conversion request is required''))
      | Some req \<Rightarrow>
          let idempKey = TrimSpace (cc_IdempotencyKey req)
          in if idempKey = [] then (st, Inl (lit ''idempotency_key is required''))
             else (case findExistingConversion E 0 idempKey st of
                     (st, Some existing) \<Rightarrow>
                       (st, Inr (conversionDocToProto existing ConversionStatusReplay))
                   | (st, None) \<Rightarrow>
                       let quoteID = TrimSpace (cc_QuoteId req); clientID = conversion_client req;
                           st = fx_others E 14 st
                       in case (if quoteID \<noteq> [] then quote_path E req quoteID st
                                else spot_path E req clientID st) of
                            (st, Inl err) \<Rightarrow> (st, Inl err)
                          | (st, Inr t) \<Rightarrow>
                              (case record_conversion E idempKey (conversion_doc E req idempKey clientID t) st of
                                 (st, resp) \<Rightarrow> (st, Inr resp))))"

end
