(* ===== verification/FxSafety.thy ===== *)
theory FxSafety
  imports FxQuotes
begin

text \<open>
  What the FX engine promises while other goroutines and other pods run in between: a quote
  that has been executed or has expired is never executed again. The promise is stated as a
  rely: whatever runs at the interference points keeps a spent quote spent. Every operation
  of the engine gives this guarantee itself, so pods that run the engine's own operations
  may interfere with each other.
\<close>

subsection \<open>Calls\<close>

text \<open>One call to the engine, with the conversion it answers with, if any.\<close>

datatype fx_call =
    CallCreateQuote string string int64 string int32
  | CallGetQuote string
  | CallConvert "ConvertCurrencyRequest option"
  | CallSetPairRate string string gofloat int32 string
  | CallSync "gomsg + RateSnapshot"

fun run_call :: "fx_env \<Rightarrow> fx_call \<Rightarrow> fx_state \<Rightarrow> fx_state \<times> ConversionResponse option" where
  "run_call E (CallCreateQuote base target amount client ttl) st =
     (fst (CreateQuote E base target amount client ttl st), None)"
| "run_call E (CallGetQuote quoteID) st = (fst (GetQuote E quoteID st), None)"
| "run_call E (CallConvert req) st =
     (case ConvertCurrency E req st of (st, Inl err) \<Rightarrow> (st, None) | (st, Inr resp) \<Rightarrow> (st, Some resp))"
| "run_call E (CallSetPairRate base target mid spread provider) st =
     (fst (SetPairRate E base target mid spread provider st), None)"
| "run_call E (CallSync fetched) st = (fst (SyncUpstreamRates E fetched st), None)"

text \<open>Calls served one after the other by pods that share the database.\<close>

fun run_calls ::
    "(nat \<times> fx_env \<times> fx_call) list \<Rightarrow> (nat \<Rightarrow> FXEngine) \<times> fx_db
       \<Rightarrow> ((nat \<Rightarrow> FXEngine) \<times> fx_db) \<times> ConversionResponse list" where
  "run_calls [] (pods, db) = ((pods, db), [])"
| "run_calls ((i, E, call) # calls) (pods, db) =
     (case run_call E call (pods i, db) of
        ((e, db), r) \<Rightarrow>
          (case run_calls calls (pods(i := e), db) of
             (st, rs) \<Rightarrow> (st, (case r of None \<Rightarrow> [] | Some resp \<Rightarrow> [resp]) @ rs)))"

text \<open>A pod on its own, while nothing else runs.\<close>

definition run_alone :: "(fx_env \<times> fx_call) list \<Rightarrow> fx_state \<Rightarrow> fx_state" where
  "run_alone calls st = fold (\<lambda>(E, call) st. fst (run_call E call st)) calls st"

subsection \<open>Spent quotes\<close>

definition active_quote :: "string \<Rightarrow> QuoteDoc \<Rightarrow> bool" where
  "active_quote q d \<longleftrightarrow> q_QuoteID d = q \<and> q_Status d = QuoteStatusActive"

definition spent :: "string \<Rightarrow> fx_state \<Rightarrow> bool" where
  "spent q st \<longleftrightarrow>
     (if fe_fxDB (fst st) then \<not> list_ex (active_quote q) (fd_quotes (snd st))
      else (case map_of (fe_quotesMem (fst st)) q of
              Some d \<Rightarrow> q_Status d = QuoteStatusExecuted \<or> q_Status d = QuoteStatusExpired
            | None \<Rightarrow> False))"

definition ids_ok :: "fx_state \<Rightarrow> bool" where
  "ids_ok st \<longleftrightarrow> distinct (map q_QuoteID (fd_quotes (snd st)))"

definition quote_conflict :: "QuoteDoc \<Rightarrow> QuoteDoc \<Rightarrow> bool" where
  "quote_conflict d d' \<longleftrightarrow> q_QuoteID d = q_QuoteID d'"

definition conversion_conflict :: "ConversionDoc \<Rightarrow> ConversionDoc \<Rightarrow> bool" where
  "conversion_conflict c c' \<longleftrightarrow>
     v_ConversionID c = v_ConversionID c' \<or> v_IdempotencyKey c = v_IdempotencyKey c'"

locale fx_collections =
  fixes E :: fx_env
  assumes quotes_col: "collection (fx_quotes_col E n) quote_conflict"
    and conversions_col: "collection (fx_conversions_col E n) conversion_conflict"

locale quote_rely = fx_collections +
  fixes q :: string
  assumes same_mode: "fe_fxDB (fst (fx_others E n st)) = fe_fxDB (fst st)"
    and stays_spent: "spent q st \<Longrightarrow> spent q (fx_others E n st)"
    and stays_distinct: "ids_ok st \<Longrightarrow> ids_ok (fx_others E n st)"
    and fresh_id: "quote_id (fx_oid E 0) \<noteq> q"
begin

lemmas rely_simps [simp] = same_mode stays_spent stays_distinct fresh_id

end

text \<open>Updates of the stored quotes that activate nothing.\<close>

lemma list_ex_list_update:
  "list_ex P (xs[i := y]) \<Longrightarrow> \<not> list_ex P xs \<Longrightarrow> P y"
  using set_update_subset_insert [of xs i y] by (auto simp: list_ex_iff)

lemma UpdateOne_keeps_inactive:
  assumes col: "collection M quote_conflict" and none: "\<not> list_ex (active_quote q) qs"
    and status: "status \<noteq> QuoteStatusActive"
  shows "\<not> list_ex (active_quote q) (fst (UpdateOne M f (set_status status) qs))"
  using collection.UpdateOne_cases [OF col, of f "set_status status" qs]
proof cases
  case (3 i d r)
  then have "\<not> active_quote q d" using status by (auto simp: set_status_def active_quote_def)
  then show ?thesis using 3 none list_ex_list_update [of "active_quote q" qs i d] by auto
qed (use none in auto)

lemma InsertOne_keeps_inactive:
  assumes col: "collection M quote_conflict" and none: "\<not> list_ex (active_quote q) qs"
    and other: "q_QuoteID d \<noteq> q"
  shows "\<not> list_ex (active_quote q) (fst (InsertOne M d qs))"
  using collection.InsertOne_cases [OF col, of d qs]
  by cases (use none other in \<open>auto simp: active_quote_def\<close>)

lemma spent_rates [simp]: "spent q (e, db\<lparr>fd_rates := r\<rparr>) = spent q (e, db)"
  and spent_conversions [simp]: "spent q (e, db\<lparr>fd_conversions := c\<rparr>) = spent q (e, db)"
  and spent_remember_conversion [simp]: "spent q (remember_conversion k v e, db) = spent q (e, db)"
  by (simp_all add: spent_def remember_conversion_def)

lemma ids_ok_rates [simp]: "ids_ok (e, db\<lparr>fd_rates := r\<rparr>) = ids_ok (e, db)"
  and ids_ok_conversions [simp]: "ids_ok (e, db\<lparr>fd_conversions := c\<rparr>) = ids_ok (e, db)"
  and ids_ok_memory: "ids_ok (e, db) \<Longrightarrow> ids_ok (e', db)"
  by (simp_all add: ids_ok_def)

lemma ids_ok_fst [simp]: "ids_ok st \<Longrightarrow> ids_ok (e, snd st)"
  by (simp add: ids_ok_def)

lemma UpdateOne_ids:
  assumes col: "collection M quote_conflict"
  shows "map q_QuoteID (fst (UpdateOne M f (set_status s) qs)) = map q_QuoteID qs"
  using collection.UpdateOne_cases [OF col, of f "set_status s" qs]
  by cases (auto simp: set_status_def map_update_same)

lemma InsertOne_ids:
  assumes col: "collection M quote_conflict" and "distinct (map q_QuoteID qs)"
  shows "distinct (map q_QuoteID (fst (InsertOne M d qs)))"
  using collection.InsertOne_cases [OF col, of d qs]
  by cases (use assms(2) in \<open>auto simp: quote_conflict_def list_ex_iff\<close>)

lemma mode_remember [simp]:
  "fe_fxDB (remember_quote k d e) = fe_fxDB e" "fe_fxDB (remember_conversion k c e) = fe_fxDB e"
  by (simp_all add: remember_quote_def remember_conversion_def)

lemma spent_remember_quote:
  assumes "spent q (e, db)"
    and "fe_fxDB e \<or> k \<noteq> q \<or> q_Status d = QuoteStatusExecuted \<or> q_Status d = QuoteStatusExpired"
  shows "spent q (remember_quote k d e, db)"
  using assms by (auto simp: spent_def remember_quote_def update_conv')

lemma spent_set_quotes:
  assumes "spent q (e, db)" and "\<not> list_ex (active_quote q) (fd_quotes db) \<Longrightarrow> \<not> list_ex (active_quote q) qs"
  shows "spent q (e, db\<lparr>fd_quotes := qs\<rparr>)"
  using assms by (simp add: spent_def split: if_splits)

lemma executed_inactive [simp]:
  "QuoteStatusExecuted \<noteq> QuoteStatusActive" "QuoteStatusExpired \<noteq> QuoteStatusActive"
  "QuoteStatusActive \<noteq> QuoteStatusExecuted" "QuoteStatusActive \<noteq> QuoteStatusExpired"
  by (simp_all add: fx_status_defs)

text \<open>
  An operation that keeps a spent quote spent, the identifiers of the stored quotes distinct
  and the mode of the pod as it is.
\<close>

definition keeps :: "string \<Rightarrow> fx_state \<Rightarrow> fx_state \<Rightarrow> bool" where
  "keeps q st st' \<longleftrightarrow> fe_fxDB (fst st') = fe_fxDB (fst st) \<and> (spent q st \<longrightarrow> spent q st')
     \<and> (ids_ok st \<longrightarrow> ids_ok st')"

lemma record_conversion_completed:
  assumes "record_conversion E k d st = (st', resp)" and "cv_Status resp = ConversionStatusCompleted"
  shows "resp = conversionDocToProto d ConversionStatusCompleted"
  using assms
  by (auto simp: record_conversion_def Let_def conversionDocToProto_def fx_status_defs case_prod_unfold
      split: option.splits if_splits prod.splits)

subsection \<open>The guarantee\<close>

context quote_rely
begin

lemma spent_update [simp]:
  "spent q (e, db) \<Longrightarrow> status \<noteq> QuoteStatusActive \<Longrightarrow>
     spent q (e, db\<lparr>fd_quotes := fst (UpdateOne (fx_quotes_col E n) f (set_status status) (fd_quotes db))\<rparr>)"
  by (rule spent_set_quotes) (simp_all add: UpdateOne_keeps_inactive [OF quotes_col])

lemma spent_insert [simp]:
  "spent q (e, db) \<Longrightarrow> q_QuoteID d \<noteq> q \<Longrightarrow>
     spent q (e, db\<lparr>fd_quotes := fst (InsertOne (fx_quotes_col E n) d (fd_quotes db))\<rparr>)"
  by (rule spent_set_quotes) (simp_all add: InsertOne_keeps_inactive [OF quotes_col])

lemma ids_ok_update [simp]:
  "ids_ok (e, db) \<Longrightarrow>
     ids_ok (e, db\<lparr>fd_quotes := fst (UpdateOne (fx_quotes_col E n) f (set_status s) (fd_quotes db))\<rparr>)"
  by (simp add: ids_ok_def UpdateOne_ids [OF quotes_col])

lemma ids_ok_insert [simp]:
  "ids_ok (e, db) \<Longrightarrow> ids_ok (e, db\<lparr>fd_quotes := fst (InsertOne (fx_quotes_col E n) d (fd_quotes db))\<rparr>)"
  by (simp add: ids_ok_def InsertOne_ids [OF quotes_col])

lemma keeps_refl [simp]: "keeps q st st"
  by (simp add: keeps_def)

lemma keeps_trans: "keeps q st st1 \<Longrightarrow> keeps q st1 st2 \<Longrightarrow> keeps q st st2"
  by (simp add: keeps_def)

lemma keeps_others [simp]: "keeps q st (fx_others E n st)"
  by (simp add: keeps_def)

lemma loadQuoteDoc_keeps: "keeps q st (fst (loadQuoteDoc E k st))"
  by (auto simp: keeps_def loadQuoteDoc_def Let_def case_prod_unfold spent_remember_quote
      split: option.splits sum.splits)

lemma CreateQuote_keeps: "keeps q st (fst (CreateQuote E b t a c l st))"
  by (auto simp: keeps_def CreateQuote_def Let_def case_prod_unfold spent_remember_quote
      split: option.splits sum.splits)

lemma GetQuote_keeps: "keeps q st (fst (GetQuote E k st))"
proof -
  obtain st1 r where l: "loadQuoteDoc E (TrimSpace k) st = (st1, r)" by (rule prod.exhaust)
  have "keeps q st st1" using loadQuoteDoc_keeps [of st "TrimSpace k"] by (simp add: l)
  moreover have "keeps q st1 (fst (GetQuote E k st))" if "TrimSpace k \<noteq> []"
    using that by (auto simp: keeps_def GetQuote_def Let_def l case_prod_unfold spent_remember_quote
        split: sum.splits)
  ultimately show ?thesis using keeps_trans by (cases "TrimSpace k = []") (auto simp: GetQuote_def)
qed

lemma findExistingConversion_keeps: "keeps q st (fst (findExistingConversion E c k st))"
  by (auto simp: keeps_def findExistingConversion_def Let_def case_prod_unfold
      split: option.splits sum.splits)

lemma record_conversion_keeps: "keeps q st (fst (record_conversion E k d st))"
proof -
  define s1 where "s1 = fx_others E 9 st"
  define s2 where "s2 = fx_others E 10 (remember_conversion k d (fst s1), snd s1)"
  define s3 where "s3 = (\<lambda>cs. (fst s2, snd s2\<lparr>fd_conversions := cs\<rparr>))"
  have s1: "keeps q st (remember_conversion k d (fst s1), snd s1)"
    using keeps_others [of st 9] by (simp add: s1_def keeps_def)
  then have "keeps q st s2" unfolding s2_def by (rule keeps_trans) simp
  then have s3: "keeps q st (s3 cs)" for cs by (simp add: keeps_def s3_def)
  have s4: "keeps q st (fst (findExistingConversion E 6 k (s3 cs)))" for cs
    using keeps_trans s3 findExistingConversion_keeps by blast
  have "fst (record_conversion E k d st) \<in>
      insert (remember_conversion k d (fst s1), snd s1)
        (range s3 \<union> range (\<lambda>cs. fst (findExistingConversion E 6 k (s3 cs))))"
    by (auto simp: record_conversion_def Let_def case_prod_unfold s3_def simp flip: s1_def s2_def
        split: option.splits)
  then show ?thesis using s1 s3 s4 by auto
qed

lemma consume_in_db_keeps: "keeps q st (fst (consume_in_db E k st))"
proof -
  have "(spent q (e, db) \<longrightarrow> spent q (e, db\<lparr>fd_quotes := qs\<rparr>))
      \<and> (ids_ok (e, db) \<longrightarrow> ids_ok (e, db\<lparr>fd_quotes := qs\<rparr>))"
    if "UpdateOne (fx_quotes_col E 2) f (set_status QuoteStatusExecuted) (fd_quotes db) = (qs, r)"
    for e db f qs r
    using that spent_update [of e db QuoteStatusExecuted 2 f] ids_ok_update [of e db 2 f QuoteStatusExecuted]
    by simp
  then show ?thesis
    by (auto simp: keeps_def consume_in_db_def Let_def case_prod_unfold split: prod.splits sum.splits)
qed

lemma consume_in_memory_keeps: "keeps q st (fst (consume_in_memory E k d st))"
  by (auto simp: keeps_def consume_in_memory_def Let_def case_prod_unfold spent_remember_quote
      split: option.splits)

lemma quote_path_keeps: "keeps q st (fst (quote_path E req k st))"
proof -
  obtain st1 r where l: "loadQuoteDoc E k st = (st1, r)" by (rule prod.exhaust)
  have k1: "keeps q st st1" using loadQuoteDoc_keeps [of st k] by (simp add: l)
  show ?thesis
  proof (cases r)
    case (Inr d)
    obtain st2 r2 where c: "consume_in_db E k st1 = (st2, r2)" by (rule prod.exhaust)
    obtain st3 r3 where m: "consume_in_memory E k d st2 = (st3, r3)" by (rule prod.exhaust)
    have "keeps q st1 st2" "keeps q st2 st3"
      using consume_in_db_keeps [of st1 k] consume_in_memory_keeps [of st2 k d] by (simp_all add: c m)
    then have "keeps q st st2" "keeps q st st3" using k1 keeps_trans by blast+
    with k1 show ?thesis by (auto simp: quote_path_def l Inr c m split: option.splits)
  qed (simp add: quote_path_def l k1)
qed

lemma mark_executed_keeps: "keeps q st (mark_executed E k st)"
  by (auto simp: keeps_def mark_executed_def Let_def case_prod_unfold spent_remember_quote
      split: option.splits)

lemma spot_path_keeps: "keeps q st (fst (spot_path E req c st))"
proof -
  let ?b = "NormalizeCurrency (cc_BaseCurrency req)" and ?t = "NormalizeCurrency (cc_TargetCurrency req)"
  obtain st1 r where l: "CreateQuote E ?b ?t (cc_SourceAmount req) c defaultQuoteTTLSeconds st = (st1, r)"
    by (rule prod.exhaust)
  have "keeps q st st1"
    using CreateQuote_keeps [of st ?b ?t "cc_SourceAmount req" c defaultQuoteTTLSeconds] by (simp add: l)
  moreover have "keeps q st (mark_executed E k st1)" for k
    using \<open>keeps q st st1\<close> mark_executed_keeps keeps_trans by blast
  ultimately show ?thesis by (auto simp: spot_path_def Let_def l split: sum.splits option.splits)
qed

lemma ConvertCurrency_keeps: "keeps q st (fst (ConvertCurrency E request st))"
proof (cases request)
  case (Some req)
  let ?k = "TrimSpace (cc_IdempotencyKey req)" and ?q = "TrimSpace (cc_QuoteId req)"
  obtain st1 r where f: "findExistingConversion E 0 ?k st = (st1, r)" by (rule prod.exhaust)
  define st2 where "st2 = fx_others E 14 st1"
  obtain st3 r3 where p: "(if ?q \<noteq> [] then quote_path E req ?q st2
      else spot_path E req (conversion_client req) st2) = (st3, r3)" by (rule prod.exhaust)
  have k1: "keeps q st st1" using findExistingConversion_keeps [of st 0 ?k] by (simp add: f)
  then have "keeps q st st2" unfolding st2_def by (rule keeps_trans) simp
  moreover have "keeps q st2 st3"
    using quote_path_keeps [of st2 req ?q] spot_path_keeps [of st2 req "conversion_client req"] p
    by (auto split: if_splits)
  ultimately have k3: "keeps q st st3" by (rule keeps_trans)
  then have k4: "keeps q st (fst (record_conversion E ?k d st3))" for d
    using record_conversion_keeps keeps_trans by blast
  show ?thesis
  proof (cases r)
    case None
    show ?thesis using k1 k3 k4 p
      by (auto simp: ConvertCurrency_def Some Let_def f None case_prod_unfold simp flip: st2_def
          split: sum.splits)
  qed (simp add: ConvertCurrency_def Some Let_def f k1)
qed (simp add: ConvertCurrency_def)

lemma persist_pairs_keeps: "keeps q st (persist_pairs E c pairs st)"
proof (induction pairs arbitrary: c st)
  case (Cons p pairs)
  obtain b t where p: "p = (b, t)" by (cases p)
  have "keeps q st (let (e, db) = fx_others E (2 * c) st
        in if fe_fxDB e
           then (case GetRate e b t of
                   Inl err \<Rightarrow> (e, db)
                 | Inr rateProto \<Rightarrow> (e, upsert_rate E c (rate_proto_doc b t rateProto (fx_now E c)) db))
           else (e, db))"
    by (auto simp: keeps_def Let_def case_prod_unfold upsert_rate_def split: sum.splits)
  then show ?case unfolding p persist_pairs.simps using Cons.IH keeps_trans by blast
qed simp

lemma keeps_book:
  "keeps q (e, db) (e\<lparr>fe_pairOverrides := os, fe_usdRates := us, fe_lastSyncedAt := t\<rparr>, db)"
  "keeps q (e, db) (e\<lparr>fe_usdRates := us, fe_sourceProvider := p, fe_lastSyncedAt := t\<rparr>, db)"
  by (simp_all add: keeps_def spent_def ids_ok_def)

lemma SyncUpstreamRates_keeps: "keeps q st (fst (SyncUpstreamRates E fetched st))"
proof (cases fetched)
  case (Inr snap)
  then show ?thesis
    by (cases st)
      (auto simp: SyncUpstreamRates_def Let_def persistAllPairs_def
        intro: keeps_trans [OF keeps_book(2) persist_pairs_keeps])
qed (simp add: SyncUpstreamRates_def)

lemma upsert_rate_keeps: "keeps q st (e, db) \<Longrightarrow> keeps q st (e, upsert_rate E n doc db)"
  by (simp add: keeps_def upsert_rate_def Let_def)

lemma SetPairRate_keeps: "keeps q st (fst (SetPairRate E b t mid sp prov st))"
proof -
  obtain e db where st: "st = (e, db)" by (cases st)
  have "keeps q st (fst (fx_others E 0 st'), upsert_rate E 0 doc (snd (fx_others E 0 st')))"
    if "keeps q st st'" for st' doc
    using that keeps_trans [OF that keeps_others [of st' 0]] by (auto intro: upsert_rate_keeps)
  then show ?thesis
    by (auto simp: SetPairRate_def Let_def case_prod_unfold st keeps_book)
qed

lemma run_call_keeps: "keeps q st (fst (run_call E call st))"
proof (cases call)
  case (CallConvert req)
  then show ?thesis using ConvertCurrency_keeps [of st req] by (auto split: prod.splits sum.splits)
qed (simp_all add: CreateQuote_keeps GetQuote_keeps SetPairRate_keeps SyncUpstreamRates_keeps)

subsection \<open>Executing a quote\<close>

lemma consume_in_db_spent:
  assumes "fe_fxDB (fst st)" and "spent q st"
  shows "snd (consume_in_db E q st) \<noteq> None"
proof -
  let ?s = "fx_others E 4 st"
  have none: "\<not> list_ex (active_quote q) (fd_quotes (snd ?s))"
    using stays_spent [OF assms(2), of 4] same_mode [of 4 st] assms(1) by (simp add: spent_def)
  have "\<not> list_ex (consumable q now) (fd_quotes (snd ?s))" for now
    using none by (auto simp: list_ex_iff active_quote_def consumable_def)
  then have no: "\<not> list_ex (consumable q (fx_now E 1)) (fd_quotes (snd ?s))" .
  show ?thesis
    using collection.UpdateOne_cases [OF quotes_col, of 2 "consumable q (fx_now E 1)"
        "set_status QuoteStatusExecuted" "fd_quotes (snd ?s)"]
  proof cases
    case (3 i d r)
    then show ?thesis using no by (auto simp: list_ex_length)
  qed (use assms(1) in \<open>auto simp: consume_in_db_def Let_def case_prod_unfold\<close>)
qed

lemma quote_path_spent:
  assumes "spent q st" and "snd (quote_path E req q st) = Inr t"
  shows False
proof -
  obtain st1 r where l: "loadQuoteDoc E q st = (st1, r)" by (rule prod.exhaust)
  have k: "keeps q st st1" using loadQuoteDoc_keeps [of st q] by (simp add: l)
  with assms(1) have s1: "spent q st1" by (simp add: keeps_def)
  obtain d where r: "r = Inr d" using assms(2) l by (cases r) (auto simp: quote_path_def)
  show False
  proof (cases "fe_fxDB (fst st)")
    case True
    then have "snd (consume_in_db E q st1) \<noteq> None" using consume_in_db_spent s1 k by (simp add: keeps_def)
    then show False using assms(2)
      by (auto simp: quote_path_def l r split: option.splits prod.splits)
  next
    case False
    then obtain d' where "map_of (fe_quotesMem (fst st)) q = Some d'"
      and d': "q_Status d' = QuoteStatusExecuted \<or> q_Status d' = QuoteStatusExpired"
      using assms(1) by (auto simp: spent_def split: option.splits)
    then have "d = d'" using l r by (simp add: loadQuoteDoc_def)
    with d' have "quote_unusable q (fx_now E 0) d \<noteq> None" by (auto simp: quote_unusable_def)
    then show False using assms(2) by (auto simp: quote_path_def l r split: option.splits)
  qed
qed

lemma consume_in_db_spends:
  assumes "fe_fxDB (fst st)" and "ids_ok st" and "consume_in_db E q st = (st', None)"
  shows "spent q st'
    \<and> (\<exists>d \<in> set (fd_quotes (snd (fx_others E 4 st))). consumable q (fx_now E 1) d)"
proof -
  let ?s = "fx_others E 4 st" and ?f = "consumable q (fx_now E 1)"
  let ?qs = "fd_quotes (snd ?s)"
  have ids: "distinct (map q_QuoteID ?qs)" using stays_distinct [OF assms(2), of 4] by (simp add: ids_ok_def)
  show ?thesis
    using collection.UpdateOne_cases [OF quotes_col, of 2 ?f "set_status QuoteStatusExecuted" ?qs]
  proof cases
    case (3 i d r)
    then have st': "st' = (fst ?s, snd ?s\<lparr>fd_quotes := ?qs[i := d]\<rparr>)"
      using assms(1,3) by (auto simp: consume_in_db_def Let_def case_prod_unfold)
    have "\<not> active_quote q ((?qs[i := d]) ! j)" if "j < length ?qs" for j
    proof (cases "j = i")
      case True
      then show ?thesis using 3 by (auto simp: set_status_def active_quote_def)
    next
      case False
      then have "q_QuoteID (?qs ! j) \<noteq> q_QuoteID (?qs ! i)"
        using ids that 3(2) by (simp add: distinct_conv_nth)
      then show ?thesis using False 3(3) by (simp add: active_quote_def consumable_def)
    qed
    then have "\<not> list_ex (active_quote q) (?qs[i := d])"
      unfolding list_ex_iff by (metis in_set_conv_nth length_list_update)
    then show ?thesis using 3 st' assms(1) by (auto simp: spent_def)
  qed (use assms in \<open>auto simp: consume_in_db_def Let_def case_prod_unfold\<close>)
qed

lemma consume_in_memory_spends:
  assumes "\<not> fe_fxDB (fst st)" and "consume_in_memory E q d st = (st', None)"
  shows "spent q st'"
  using assms same_mode [of 5 st]
  by (auto simp: consume_in_memory_def Let_def case_prod_unfold spent_def remember_quote_def update_conv'
      split: option.splits)

text \<open>A quote is executed only while it can be, with the terms that were loaded, and is spent then.\<close>

lemma quote_path_executes:
  assumes ids: "ids_ok st" and run: "quote_path E req q st = (st', Inr t)"
  shows "spent q st'"
    and "\<exists>st1 d. loadQuoteDoc E q st = (st1, Inr d) \<and> t = terms_of_quote q d
          \<and> quote_unusable q (fx_now E 0) d = None \<and> quote_mismatch req d = None
          \<and> (fe_fxDB (fst st) \<longrightarrow>
               (\<exists>d' \<in> set (fd_quotes (snd (fx_others E 4 st1))). consumable q (fx_now E 1) d'))"
proof -
  obtain st1 r where l: "loadQuoteDoc E q st = (st1, r)" by (rule prod.exhaust)
  have k1: "keeps q st st1" using loadQuoteDoc_keeps [of st q] by (simp add: l)
  obtain d where r: "r = Inr d" using run l by (cases r) (auto simp: quote_path_def)
  obtain st2 r2 where c: "consume_in_db E q st1 = (st2, r2)" by (rule prod.exhaust)
  obtain st3 r3 where m: "consume_in_memory E q d st2 = (st3, r3)" by (rule prod.exhaust)
  have ok: "quote_unusable q (fx_now E 0) d = None" "quote_mismatch req d = None" "r2 = None"
    "r3 = None" "st' = st3" "t = terms_of_quote q d"
    using run by (auto simp: quote_path_def l r c m split: option.splits)
  have k2: "keeps q st1 st2" using consume_in_db_keeps [of st1 q] by (simp add: c)
  have k3: "keeps q st2 st3" using consume_in_memory_keeps [of st2 q d] by (simp add: m)
  have mode: "fe_fxDB (fst st1) = fe_fxDB (fst st)" "fe_fxDB (fst st2) = fe_fxDB (fst st)"
    using k1 k2 by (simp_all add: keeps_def)
  have ids1: "ids_ok st1" using ids k1 by (simp add: keeps_def)
  show "spent q st'"
  proof (cases "fe_fxDB (fst st)")
    case True
    then have "spent q st2" using consume_in_db_spends [of st1 st2] mode ids1 c ok(3) by simp
    then show ?thesis using k3 ok(5) by (simp add: keeps_def)
  next
    case False
    then show ?thesis using consume_in_memory_spends [of st2 d st3] mode m ok(4,5) by simp
  qed
  have "fe_fxDB (fst st) \<longrightarrow> (\<exists>d' \<in> set (fd_quotes (snd (fx_others E 4 st1))). consumable q (fx_now E 1) d')"
    using consume_in_db_spends [of st1 st2] mode ids1 c ok(3) by simp
  then show "\<exists>st1 d. loadQuoteDoc E q st = (st1, Inr d) \<and> t = terms_of_quote q d
          \<and> quote_unusable q (fx_now E 0) d = None \<and> quote_mismatch req d = None
          \<and> (fe_fxDB (fst st) \<longrightarrow>
               (\<exists>d' \<in> set (fd_quotes (snd (fx_others E 4 st1))). consumable q (fx_now E 1) d'))"
    using l r ok by blast
qed

lemma spot_path_quote:
  assumes "spot_path E req c st = (st', Inr t)"
  shows "ct_QuoteID t = quote_id (fx_oid E 0)"
  using assms
  by (auto simp: spot_path_def CreateQuote_def Let_def case_prod_unfold terms_of_proto_def
      quoteDocToProto_def split: option.splits sum.splits if_splits)

text \<open>A request that answers COMPLETED for the quote has executed it.\<close>

lemma ConvertCurrency_completed:
  assumes run: "ConvertCurrency E (Some req) st = (st', Inr resp)"
    and compl: "cv_Status resp = ConversionStatusCompleted" "cv_QuoteId resp = q"
  shows "\<exists>st1 st2 t. keeps q st st1 \<and> TrimSpace (cc_QuoteId req) = q \<and> quote_path E req q st1 = (st2, Inr t)
    \<and> keeps q st2 st'
    \<and> resp = conversionDocToProto (conversion_doc E req (TrimSpace (cc_IdempotencyKey req))
               (conversion_client req) t) ConversionStatusCompleted"
proof -
  let ?k = "TrimSpace (cc_IdempotencyKey req)" and ?q = "TrimSpace (cc_QuoteId req)"
  obtain s1 r where f: "findExistingConversion E 0 ?k st = (s1, r)" by (rule prod.exhaust)
  have r: "r = None" and k: "?k \<noteq> []"
    using run compl(1)
    by (auto simp: ConvertCurrency_def Let_def f conversionDocToProto_def fx_status_defs
        split: option.splits if_splits)
  define s2 where "s2 = fx_others E 14 s1"
  have k2: "keeps q st s2"
    using findExistingConversion_keeps [of st 0 ?k] keeps_trans [OF _ keeps_others [of s1 14]]
    by (simp add: f s2_def)
  obtain s3 r3 where p: "(if ?q \<noteq> [] then quote_path E req ?q s2
      else spot_path E req (conversion_client req) s2) = (s3, r3)" by (rule prod.exhaust)
  obtain t where t: "r3 = Inr t"
    using run p unfolding s2_def by (cases r3) (auto simp: ConvertCurrency_def Let_def f r k)
  let ?d = "conversion_doc E req ?k (conversion_client req) t"
  have rec: "record_conversion E ?k ?d s3 = (st', resp)"
    using run p t unfolding s2_def by (auto simp: ConvertCurrency_def Let_def f r k split: prod.splits)
  have resp: "resp = conversionDocToProto ?d ConversionStatusCompleted"
    using record_conversion_completed rec compl(1) by blast
  then have "ct_QuoteID t = q" using compl(2) by (simp add: conversionDocToProto_def conversion_doc_def)
  then have "?q \<noteq> []" using p t spot_path_quote fresh_id by (auto split: if_splits)
  with p t have qp: "quote_path E req ?q s2 = (s3, Inr t)" by simp
  then have "ct_QuoteID t = ?q"
    by (auto simp: quote_path_def terms_of_quote_def split: prod.splits sum.splits option.splits)
  then have "?q = q" using \<open>ct_QuoteID t = q\<close> by simp
  moreover have "keeps q s3 st'" using record_conversion_keeps [of s3 ?k ?d] rec by simp
  ultimately show ?thesis using k2 qp resp by blast
qed

lemma run_call_completed:
  assumes "run_call E call st = (st', Some resp)" and "ids_ok st"
    and "cv_Status resp = ConversionStatusCompleted" "cv_QuoteId resp = q"
  shows "\<not> spent q st \<and> spent q st'"
proof -
  obtain request where "ConvertCurrency E request st = (st', Inr resp)"
    using assms(1) by (cases call) (auto split: prod.splits sum.splits)
  moreover obtain req where "request = Some req"
    using calculation by (cases request) (auto simp: ConvertCurrency_def)
  ultimately obtain s1 s2 t where s: "keeps q st s1" "quote_path E req q s1 = (s2, Inr t)" "keeps q s2 st'"
    using ConvertCurrency_completed [of req st st' resp] assms(3,4) by blast
  have "ids_ok s1" using s(1) assms(2) by (simp add: keeps_def)
  then have "spent q s2" using quote_path_executes(1) s(2) by blast
  moreover have "\<not> spent q s1" using quote_path_spent [of s1 req t] s(2) by auto
  ultimately show ?thesis using s(1,3) by (auto simp: keeps_def)
qed

end

end
