(* ===== verification/FxOnce.thy ===== *)
theory FxOnce
  imports FxSafety
begin

text \<open>
  At most once: a quote is executed by at most one of any number of pods, and a request
  that was answered is answered the same way again. The rely of \<open>FxSafety\<close> is discharged for
  pods that run the engine's own operations at every interference point.
\<close>

subsection \<open>Pods among pods\<close>

definition quiet_env :: "string \<Rightarrow> fx_env" where
  "quiet_env oid =
     \<lparr>fx_rates_col = (\<lambda>_. mem_ops (\<lambda>_ _. False)), fx_quotes_col = (\<lambda>_. mem_ops quote_conflict),
      fx_conversions_col = (\<lambda>_. mem_ops conversion_conflict), fx_others = (\<lambda>_ st. st),
      fx_now = (\<lambda>k. 1000000000 * int k), fx_oid = (\<lambda>k. (if k = 0 then ''q'' else ''c'') @ oid)\<rparr>"

text \<open>At every point the calls in the list are served, by the pod or by another one.\<close>

definition busy_env :: "string \<Rightarrow> fx_call list \<Rightarrow> fx_env" where
  "busy_env oid calls =
     quiet_env oid\<lparr>fx_others := (\<lambda>_ st. fold (\<lambda>call st. fst (run_call (quiet_env (oid @ ''b'')) call st)) calls st)\<rparr>"

lemma quote_id_longer: "length q \<le> length oid \<Longrightarrow> quote_id oid \<noteq> q"
  by (auto simp: quote_id_def)

lemma quiet_rely: "length q \<le> length oid \<Longrightarrow> quote_rely (quiet_env oid) q"
  by (intro quote_rely.intro fx_collections.intro quote_rely_axioms.intro)
    (simp_all add: quiet_env_def mem.collection_axioms quote_id_longer)

lemma busy_keeps:
  assumes "quote_rely E q"
  shows "keeps q st (fold (\<lambda>call st. fst (run_call E call st)) calls st)"
proof (induction calls arbitrary: st)
  case (Cons call calls)
  show ?case using quote_rely.run_call_keeps [OF assms, of st call] Cons [of "fst (run_call E call st)"]
    by (auto simp: keeps_def)
qed (simp add: keeps_def)

lemma busy_rely:
  assumes "length q \<le> length oid"
  shows "quote_rely (busy_env oid calls) q"
proof -
  have "quote_rely (quiet_env (oid @ ''b'')) q" using assms by (intro quiet_rely) simp
  then have k: "keeps q st (fx_others (busy_env oid calls) n st)" for n st
    using busy_keeps by (simp add: busy_env_def)
  show ?thesis
  proof (intro quote_rely.intro fx_collections.intro quote_rely_axioms.intro)
    show "collection (fx_quotes_col (busy_env oid calls) n) quote_conflict"
      "collection (fx_conversions_col (busy_env oid calls) n) conversion_conflict" for n
      by (simp_all add: busy_env_def quiet_env_def mem.collection_axioms)
    show "quote_id (fx_oid (busy_env oid calls) 0) \<noteq> q"
      using assms by (simp add: busy_env_def quiet_env_def quote_id_longer)
  qed (use k in \<open>auto simp: keeps_def\<close>)
qed

interpretation busy: quote_rely "busy_env oid calls" "take (length oid) q" for oid calls q
  by (rule busy_rely) simp

subsection \<open>At most one execution\<close>

lemma run_calls_once:
  assumes "\<And>i E call. (i, E, call) \<in> set calls \<Longrightarrow> quote_rely E q" and "\<And>i. fe_fxDB (pods i)"
    and "distinct (map q_QuoteID (fd_quotes db))" and "run_calls calls (pods, db) = (st, rs)"
  shows "length (filter (\<lambda>r. cv_Status r = ConversionStatusCompleted \<and> cv_QuoteId r = q) rs)
    \<le> (if list_ex (active_quote q) (fd_quotes db) then 1 else 0)"
  using assms
proof (induction calls arbitrary: pods db rs st)
  case (Cons c calls)
  obtain i E call where c: "c = (i, E, call)" by (cases c)
  have rely: "quote_rely E q" using Cons.prems(1) c by auto
  obtain e1 db1 r where run: "run_call E call (pods i, db) = ((e1, db1), r)" by (metis prod.exhaust)
  let ?pods = "pods(i := e1)"
  obtain st2 rs2 where rest: "run_calls calls (?pods, db1) = (st2, rs2)" by (rule prod.exhaust)
  have rs: "rs = (case r of None \<Rightarrow> [] | Some resp \<Rightarrow> [resp]) @ rs2"
    using Cons.prems(4) by (simp add: c run rest)
  have k: "keeps q (pods i, db) (e1, db1)"
    using quote_rely.run_call_keeps [OF rely, of "(pods i, db)" call] by (simp add: run)
  have e1: "fe_fxDB e1" using k Cons.prems(2) by (simp add: keeps_def)
  have ids: "distinct (map q_QuoteID (fd_quotes db1))" using k Cons.prems(3) by (simp add: keeps_def ids_ok_def)
  have inactive: "\<not> list_ex (active_quote q) (fd_quotes db1)" if "\<not> list_ex (active_quote q) (fd_quotes db)"
    using k that Cons.prems(2) e1 by (simp add: keeps_def spent_def)
  have ih: "length (filter (\<lambda>r. cv_Status r = ConversionStatusCompleted \<and> cv_QuoteId r = q) rs2)
      \<le> (if list_ex (active_quote q) (fd_quotes db1) then 1 else 0)"
    by (rule Cons.IH [OF _ _ ids rest]) (use Cons.prems(1,2) e1 in auto)
  show ?case
  proof (cases "\<exists>resp. r = Some resp \<and> cv_Status resp = ConversionStatusCompleted \<and> cv_QuoteId resp = q")
    case True
    then obtain resp where "r = Some resp" "cv_Status resp = ConversionStatusCompleted" "cv_QuoteId resp = q"
      by blast
    then have "\<not> spent q (pods i, db) \<and> spent q (e1, db1)"
      using quote_rely.run_call_completed [OF rely] run Cons.prems(3) by (simp add: ids_ok_def)
    then have "list_ex (active_quote q) (fd_quotes db)" "\<not> list_ex (active_quote q) (fd_quotes db1)"
      using e1 Cons.prems(2) by (simp_all add: spent_def)
    then show ?thesis using ih rs by (simp split: option.splits)
  next
    case False
    then show ?thesis using ih rs inactive by (auto split: option.splits if_splits)
  qed
qed simp


text \<open>A quote of ten dollars in euros, stored in the database and asked for by three requests.\<close>

definition sample_quote :: QuoteDoc where
  "sample_quote =
     \<lparr>q_QuoteID = ''fxq_1'', q_BaseCurrency = ''USD'', q_TargetCurrency = ''EUR'', q_SourceAmount = 1000,
      q_TargetAmount = 918, q_FeeAmount = 0, q_MidRate = Fin (23 / 25), q_EffectiveRate = Fin (9177 / 10000),
      q_SpreadBps = 25, q_Status = QuoteStatusActive, q_ClientID = ''c'', q_SourceProvider = ''p'',
      q_CreatedAt = 0, q_ExpiresAt = 60000000000\<rparr>"

definition sample_convert :: "string \<Rightarrow> ConvertCurrencyRequest" where
  "sample_convert key =
     \<lparr>cc_IdempotencyKey = key, cc_QuoteId = ''fxq_1'', cc_BaseCurrency = [], cc_TargetCurrency = [],
      cc_SourceAmount = 0, cc_ClientId = [], cc_ReferenceId = []\<rparr>"

definition sample_calls :: "(nat \<times> fx_env \<times> fx_call) list" where
  "sample_calls =
     [(0, quiet_env ''23456789'', CallConvert (Some (sample_convert ''a''))),
      (1, quiet_env ''34567890'', CallConvert (Some (sample_convert ''b''))),
      (0, quiet_env ''45678901'', CallConvert (Some (sample_convert ''c'')))]"

definition sample_pods :: "nat \<Rightarrow> FXEngine" where
  "sample_pods i = NewFXEngine True 25 0 0"

definition sample_db :: fx_db where
  "sample_db = \<lparr>fd_rates = [], fd_quotes = [sample_quote], fd_conversions = []\<rparr>"

lemma sample_completed:
  "map (\<lambda>r. (cv_Status r, cv_QuoteId r, cv_TargetAmount r)) (snd (run_calls sample_calls (sample_pods, sample_db)))
     = [(''COMPLETED'', ''fxq_1'', 918)]"
  by code_simp


subsection \<open>What an executed quote delivers\<close>

text \<open>
  A conversion that completes on a quote delivers exactly the quoted amounts, fee and
  rates, within the lifetime of the quote, for a request that does not contradict it, and
  leaves the quote spent. On a pod with a database the quote was still active and unexpired
  in the database at the moment it was consumed.
\<close>

lemma ConvertCurrency_executes_quote:
  assumes "quote_rely E q" and "ids_ok st" and "ConvertCurrency E (Some req) st = (st', Inr resp)"
    and "cv_Status resp = ConversionStatusCompleted" and "cv_QuoteId resp = q"
  shows "spent q st' \<and> TrimSpace (cc_QuoteId req) = q
    \<and> (\<exists>st1 st2 d. loadQuoteDoc E q st1 = (st2, Inr d) \<and> quote_mismatch req d = None
          \<and> q_Status d \<noteq> QuoteStatusExecuted \<and> q_Status d \<noteq> QuoteStatusExpired \<and> fx_now E 0 \<le> q_ExpiresAt d
          \<and> cv_BaseCurrency resp = q_BaseCurrency d \<and> cv_TargetCurrency resp = q_TargetCurrency d
          \<and> cv_SourceAmount resp = q_SourceAmount d \<and> cv_TargetAmount resp = q_TargetAmount d
          \<and> cv_FeeAmount resp = q_FeeAmount d \<and> cv_EffectiveRate resp = q_EffectiveRate d
          \<and> (fe_fxDB (fst st) \<longrightarrow>
               (\<exists>d' \<in> set (fd_quotes (snd (fx_others E 4 st2))). consumable q (fx_now E 1) d')))"
proof -
  obtain st1 st2 t where s: "keeps q st st1" "TrimSpace (cc_QuoteId req) = q"
    "quote_path E req q st1 = (st2, Inr t)" "keeps q st2 st'"
    and resp: "resp = conversionDocToProto (conversion_doc E req (TrimSpace (cc_IdempotencyKey req))
               (conversion_client req) t) ConversionStatusCompleted"
    using quote_rely.ConvertCurrency_completed [OF assms(1,3-5)] by blast
  have ids: "ids_ok st1" and mode: "fe_fxDB (fst st1) = fe_fxDB (fst st)"
    using s(1) assms(2) by (simp_all add: keeps_def)
  have "spent q st'" using quote_rely.quote_path_executes(1) [OF assms(1) ids s(3)] s(4) by (simp add: keeps_def)
  moreover obtain st3 d where "loadQuoteDoc E q st1 = (st3, Inr d)" "t = terms_of_quote q d"
    "quote_unusable q (fx_now E 0) d = None" "quote_mismatch req d = None"
    "fe_fxDB (fst st) \<longrightarrow> (\<exists>d' \<in> set (fd_quotes (snd (fx_others E 4 st3))). consumable q (fx_now E 1) d')"
    using quote_rely.quote_path_executes(2) [OF assms(1) ids s(3)] mode by auto
  ultimately show ?thesis using s(2)
    by (intro conjI exI [of _ st1] exI [of _ st3] exI [of _ d])
      (auto simp: resp conversionDocToProto_def conversion_doc_def terms_of_quote_def quote_unusable_def
        split: if_splits)
qed

end
