(* ===== verification/FxReplay.thy ===== *)
theory FxReplay
  imports FxOnce
begin

text \<open>
  Idempotent replay of conversions: what the engine remembers under an idempotency key it
  answers with for ever, unless a request with the same key was already under way.
\<close>

definition remembered :: "string \<Rightarrow> ConversionDoc \<Rightarrow> fx_state \<Rightarrow> bool" where
  "remembered k c st \<longleftrightarrow> map_of (fe_conversionsMem (fst st)) k = Some c"

locale replay_rely =
  fixes E :: fx_env and k :: string and c :: ConversionDoc
  assumes stays_remembered [simp]: "remembered k c st \<Longrightarrow> remembered k c (fx_others E n st)"
begin

definition holds :: "fx_state \<Rightarrow> fx_state \<Rightarrow> bool" where
  "holds st st' \<longleftrightarrow> (remembered k c st \<longrightarrow> remembered k c st')"

lemma remembered_simps [simp]:
  "remembered k c (e, db) \<Longrightarrow> remembered k c (e, db')"
  "remembered k c (remember_quote q d e, db) = remembered k c (e, db)"
  "k' \<noteq> k \<Longrightarrow> remembered k c (remember_conversion k' v e, db) = remembered k c (e, db)"
  "remembered k c st \<Longrightarrow> remembered k c (fst st, db)"
  by (simp_all add: remembered_def remember_quote_def remember_conversion_def update_conv')

lemma loadQuoteDoc_holds: "holds st (fst (loadQuoteDoc E q st))"
  by (auto simp: holds_def loadQuoteDoc_def Let_def case_prod_unfold split: option.splits sum.splits)

lemma CreateQuote_holds: "holds st (fst (CreateQuote E b t a cl l st))"
  by (auto simp: holds_def CreateQuote_def Let_def case_prod_unfold split: option.splits sum.splits)

lemma holds_trans: "holds st st1 \<Longrightarrow> holds st1 st2 \<Longrightarrow> holds st st2"
  by (simp add: holds_def)

lemma GetQuote_holds: "holds st (fst (GetQuote E q st))"
proof -
  obtain st1 r where l: "loadQuoteDoc E (TrimSpace q) st = (st1, r)" by (rule prod.exhaust)
  have "holds st st1" using loadQuoteDoc_holds [of st "TrimSpace q"] by (simp add: l)
  moreover have "holds st1 (fst (GetQuote E q st))" if "TrimSpace q \<noteq> []"
    using that by (auto simp: holds_def GetQuote_def Let_def l case_prod_unfold split: sum.splits)
  ultimately show ?thesis using holds_trans
    by (cases "TrimSpace q = []") (auto simp: GetQuote_def holds_def)
qed

lemma findExistingConversion_holds: "holds st (fst (findExistingConversion E n k' st))"
proof (cases "k' = k")
  case True
  then show ?thesis by (auto simp: holds_def findExistingConversion_def remembered_def)
next
  case False
  then show ?thesis
    by (auto simp: holds_def findExistingConversion_def Let_def case_prod_unfold
        split: option.splits sum.splits)
qed

lemma record_conversion_holds: "k' \<noteq> k \<Longrightarrow> holds st (fst (record_conversion E k' d st))"
proof -
  assume k': "k' \<noteq> k"
  define s1 where "s1 = fx_others E 9 st"
  define s2 where "s2 = fx_others E 10 (remember_conversion k' d (fst s1), snd s1)"
  define s3 where "s3 = (\<lambda>cs. (fst s2, snd s2\<lparr>fd_conversions := cs\<rparr>))"
  have s1: "holds st (remember_conversion k' d (fst s1), snd s1)" using k' by (simp add: s1_def holds_def)
  then have "holds st s2" by (simp add: s2_def holds_def)
  then have s3: "holds st (s3 cs)" for cs by (simp add: holds_def s3_def)
  have s4: "holds st (fst (findExistingConversion E 6 k' (s3 cs)))" for cs
    using holds_trans s3 findExistingConversion_holds by blast
  have "fst (record_conversion E k' d st) \<in>
      insert (remember_conversion k' d (fst s1), snd s1)
        (range s3 \<union> range (\<lambda>cs. fst (findExistingConversion E 6 k' (s3 cs))))"
    by (auto simp: record_conversion_def Let_def case_prod_unfold s3_def simp flip: s1_def s2_def
        split: option.splits)
  then show ?thesis using s1 s3 s4 by auto
qed

lemma consume_holds:
  "holds st (fst (consume_in_db E q st))" "holds st (fst (consume_in_memory E q d st))"
  by (auto simp: holds_def consume_in_db_def consume_in_memory_def Let_def case_prod_unfold
      split: option.splits sum.splits)

lemma quote_path_holds: "holds st (fst (quote_path E req q st))"
proof -
  obtain st1 r where l: "loadQuoteDoc E q st = (st1, r)" by (rule prod.exhaust)
  have k1: "holds st st1" using loadQuoteDoc_holds [of st q] by (simp add: l)
  show ?thesis
  proof (cases r)
    case (Inr d)
    obtain st2 r2 where cd: "consume_in_db E q st1 = (st2, r2)" by (rule prod.exhaust)
    obtain st3 r3 where m: "consume_in_memory E q d st2 = (st3, r3)" by (rule prod.exhaust)
    have "holds st1 st2" "holds st2 st3"
      using consume_holds(1) [of st1 q] consume_holds(2) [of st2 q d] by (simp_all add: cd m)
    then have "holds st st2" "holds st st3" using k1 holds_trans by blast+
    with k1 show ?thesis by (auto simp: quote_path_def l Inr cd m split: option.splits)
  qed (simp add: quote_path_def l k1)
qed

lemma spot_path_holds: "holds st (fst (spot_path E req cl st))"
proof -
  let ?b = "NormalizeCurrency (cc_BaseCurrency req)" and ?t = "NormalizeCurrency (cc_TargetCurrency req)"
  obtain st1 r where l: "CreateQuote E ?b ?t (cc_SourceAmount req) cl defaultQuoteTTLSeconds st = (st1, r)"
    by (rule prod.exhaust)
  have s1: "holds st st1"
    using CreateQuote_holds [of st ?b ?t "cc_SourceAmount req" cl defaultQuoteTTLSeconds] by (simp add: l)
  have "holds st1 (mark_executed E q st1)" for q
    by (auto simp: holds_def mark_executed_def Let_def case_prod_unfold split: option.splits)
  then have "holds st (mark_executed E q st1)" for q using s1 holds_trans by blast
  with s1 show ?thesis by (auto simp: spot_path_def Let_def l holds_def split: sum.splits option.splits)
qed

text \<open>The request that repeats the key is answered from memory and changes nothing.\<close>

lemma ConvertCurrency_replay:
  assumes "remembered k c st" and "TrimSpace (cc_IdempotencyKey req) = k" and "k \<noteq> []"
  shows "ConvertCurrency E (Some req) st = (st, Inr (conversionDocToProto c ConversionStatusReplay))"
  using assms by (simp add: ConvertCurrency_def findExistingConversion_def remembered_def)

lemma ConvertCurrency_holds: "holds st (fst (ConvertCurrency E request st))"
proof (cases request)
  case (Some req)
  let ?k = "TrimSpace (cc_IdempotencyKey req)" and ?q = "TrimSpace (cc_QuoteId req)"
  show ?thesis
  proof (cases "?k = [] \<or> ?k = k")
    case True
    then show ?thesis
    proof (cases "?k = []")
      case False
      with True show ?thesis using ConvertCurrency_replay [of st req] by (auto simp: holds_def Some)
    qed (simp add: ConvertCurrency_def Some holds_def)
  next
    case False
    obtain st1 r where f: "findExistingConversion E 0 ?k st = (st1, r)" by (rule prod.exhaust)
    have k1: "holds st st1" using findExistingConversion_holds [of st 0 ?k] by (simp add: f)
    define st2 where "st2 = fx_others E 14 st1"
    have k2: "holds st st2" using k1 by (simp add: holds_def st2_def)
    obtain st3 r3 where p: "(if ?q \<noteq> [] then quote_path E req ?q st2
        else spot_path E req (conversion_client req) st2) = (st3, r3)" by (rule prod.exhaust)
    have "holds st2 st3"
      using quote_path_holds [of st2 req ?q] spot_path_holds [of st2 req "conversion_client req"] p
      by (auto split: if_splits)
    with k2 have k3: "holds st st3" by (rule holds_trans)
    then have k4: "holds st (fst (record_conversion E ?k d st3))" for d
      using False record_conversion_holds [of ?k st3 d] holds_trans by blast
    show ?thesis
    proof (cases r)
      case None
      show ?thesis using k1 k3 k4 p False
        by (auto simp: ConvertCurrency_def Some Let_def f None case_prod_unfold simp flip: st2_def
            split: sum.splits)
    qed (use k1 False in \<open>simp add: ConvertCurrency_def Some Let_def f\<close>)
  qed
qed (simp add: ConvertCurrency_def holds_def)

lemma persist_pairs_holds: "holds st (persist_pairs E n pairs st)"
proof (induction pairs arbitrary: n st)
  case (Cons p pairs)
  obtain b t where p: "p = (b, t)" by (cases p)
  have "holds st (let (e, db) = fx_others E (2 * n) st
        in if fe_fxDB e
           then (case GetRate e b t of
                   Inl err \<Rightarrow> (e, db)
                 | Inr rateProto \<Rightarrow> (e, upsert_rate E n (rate_proto_doc b t rateProto (fx_now E n)) db))
           else (e, db))"
    by (auto simp: holds_def Let_def case_prod_unfold split: sum.splits)
  then show ?case unfolding p persist_pairs.simps using Cons.IH holds_trans by blast
qed (simp add: holds_def)

lemma run_call_holds: "holds st (fst (run_call E call st))"
proof (cases call)
  case (CallConvert req)
  then show ?thesis using ConvertCurrency_holds [of st req] by (auto split: prod.splits sum.splits)
next
  case (CallSync fetched)
  have "holds (e, db) (e\<lparr>fe_usdRates := us, fe_sourceProvider := p, fe_lastSyncedAt := t\<rparr>, db)" for e db us p t
    by (simp add: holds_def remembered_def)
  from holds_trans [OF this persist_pairs_holds] CallSync show ?thesis
    by (cases st) (auto simp: SyncUpstreamRates_def Let_def persistAllPairs_def holds_def split: sum.splits)
next
  case (CallSetPairRate b t mid sp prov)
  have "remembered k c (fx_others E 0 (e\<lparr>fe_pairOverrides := os, fe_usdRates := us, fe_lastSyncedAt := t\<rparr>, db))"
    if "remembered k c (e, db)" for e db os us t
    using that by (intro stays_remembered) (simp add: remembered_def)
  with CallSetPairRate show ?thesis
    by (cases st) (auto simp: SetPairRate_def Let_def case_prod_unfold holds_def, auto simp: remembered_def)
qed (simp_all add: CreateQuote_holds GetQuote_holds)

end

subsection \<open>The answer that is remembered\<close>

lemma findExistingConversion_remembers:
  "findExistingConversion E n k st = (st', Some c) \<Longrightarrow> remembered k c st'"
  by (auto simp: findExistingConversion_def remembered_def remember_conversion_def Let_def case_prod_unfold
      update_conv' split: option.splits sum.splits if_splits)

lemma record_conversion_remembers:
  assumes "replay_rely E k d" and "record_conversion E k d st = (st', resp)"
  shows "remembered k d st' \<and> resp = conversionDocToProto d (cv_Status resp)"
proof -
  define s1 where "s1 = (remember_conversion k d (fst (fx_others E 9 st)), snd (fx_others E 9 st))"
  define s2 where "s2 = fx_others E 10 s1"
  have r1: "remembered k d s1" by (simp add: s1_def remembered_def remember_conversion_def update_conv')
  then have "remembered k d s2" unfolding s2_def using assms(1) by (rule replay_rely.stays_remembered [rotated])
  then have r2: "map_of (fe_conversionsMem (fst s2)) k = Some d" by (simp add: remembered_def)
  have find: "findExistingConversion E 6 k (fst s2, db) = ((fst s2, db), Some d)" for db
    using r2 by (simp add: findExistingConversion_def)
  have mode: "fe_fxDB (fst s1) = fe_fxDB (fst (fx_others E 9 st))" by (simp add: s1_def)
  show ?thesis
  proof (cases "fe_fxDB (fst s1)")
    case True
    then have "record_conversion E k d st =
        (case InsertOne (fx_conversions_col E 5) (bson_conversion d) (fd_conversions (snd s2)) of
           (cs, None) \<Rightarrow> ((fst s2, snd s2\<lparr>fd_conversions := cs\<rparr>), conversionDocToProto d ConversionStatusCompleted)
         | (cs, Some err) \<Rightarrow>
             if IsDuplicateKeyError err
             then ((fst s2, snd s2\<lparr>fd_conversions := cs\<rparr>), conversionDocToProto d ConversionStatusReplay)
             else ((fst s2, snd s2\<lparr>fd_conversions := cs\<rparr>), conversionDocToProto d ConversionStatusCompleted))"
      using mode by (auto simp: record_conversion_def Let_def case_prod_unfold find simp flip: s1_def s2_def
          split: prod.splits option.splits)
    then show ?thesis using assms(2) r2
      by (auto simp: remembered_def conversionDocToProto_def split: prod.splits option.splits if_splits)
  next
    case False
    then show ?thesis using assms(2) mode r1
      by (auto simp: record_conversion_def Let_def case_prod_unfold conversionDocToProto_def simp flip: s1_def)
  qed
qed

lemma ConvertCurrency_remembers:
  assumes rely: "\<And>c. replay_rely E k c" and run: "ConvertCurrency E (Some req) st = (st', Inr resp)"
    and k: "TrimSpace (cc_IdempotencyKey req) = k"
  shows "\<exists>c. remembered k c st' \<and> resp = conversionDocToProto c (cv_Status resp) \<and> k \<noteq> []"
proof -
  obtain st1 r where f: "findExistingConversion E 0 k st = (st1, r)" by (rule prod.exhaust)
  have k0: "k \<noteq> []" using run by (auto simp: ConvertCurrency_def k)
  show ?thesis
  proof (cases r)
    case (Some c)
    then show ?thesis using run f k0 findExistingConversion_remembers [of E 0 k st st1 c]
      by (auto simp: ConvertCurrency_def k Let_def conversionDocToProto_def)
  next
    case None
    let ?q = "TrimSpace (cc_QuoteId req)" and ?cl = "conversion_client req" and ?st2 = "fx_others E 14 st1"
    obtain st3 r3 where p: "(if ?q \<noteq> [] then quote_path E req ?q ?st2 else spot_path E req ?cl ?st2) = (st3, r3)"
      by (rule prod.exhaust)
    obtain t where t: "r3 = Inr t"
      using run p by (cases r3) (auto simp: ConvertCurrency_def Let_def k f None k0)
    have "record_conversion E k (conversion_doc E req k ?cl t) st3 = (st', resp)"
      using run p t by (auto simp: ConvertCurrency_def Let_def k f None k0 split: prod.splits)
    then show ?thesis using record_conversion_remembers [OF rely] k0 by blast
  qed
qed

lemma run_alone_remembers:
  assumes "\<And>E call. (E, call) \<in> set calls \<Longrightarrow> replay_rely E k c" and "remembered k c st"
  shows "remembered k c (run_alone calls st)"
  using assms
proof (induction calls arbitrary: st)
  case (Cons p calls)
  obtain E call where p: "p = (E, call)" by (cases p)
  have "replay_rely E k c" using Cons.prems(1) p by auto
  then have "replay_rely.holds k c st (fst (run_call E call st))" by (rule replay_rely.run_call_holds)
  then have "remembered k c (fst (run_call E call st))"
    using Cons.prems(2) replay_rely.holds_def [OF \<open>replay_rely E k c\<close>] by simp
  then have "remembered k c (run_alone calls (fst (run_call E call st)))"
    by (rule Cons.IH [rotated]) (use Cons.prems(1) in auto)
  then show ?case by (simp add: run_alone_def p)
qed (simp add: run_alone_def)

text \<open>The engine's own operations at the interference points keep what is remembered.\<close>

lemma quiet_replay: "replay_rely (quiet_env oid) k c"
  by (rule replay_rely.intro) (simp add: quiet_env_def)

interpretation busy_replay: replay_rely "busy_env oid calls" k c for oid calls k c
proof
  fix st n
  assume "remembered k c st"
  then have "remembered k c (run_alone (map (\<lambda>call. (quiet_env (oid @ ''b''), call)) calls) st)"
    by (rule run_alone_remembers [rotated]) (auto simp: quiet_replay)
  then show "remembered k c (fx_others (busy_env oid calls) n st)"
    by (simp add: busy_env_def run_alone_def fold_map comp_def case_prod_unfold)
qed



subsection \<open>Two requests with one key\<close>

text \<open>The lookup of the key and the entry of the conversion are not one step. While the first
  request is between them, the second one runs.\<close>

definition second_quote :: QuoteDoc where
  "second_quote = sample_quote\<lparr>q_QuoteID := ''fxq_2''\<rparr>"

definition race_pod :: fx_state where
  "race_pod =
     ((NewFXEngine False 25 0 0)\<lparr>fe_quotesMem := [(''fxq_1'', sample_quote), (''fxq_2'', second_quote)]\<rparr>,
      \<lparr>fd_rates = [], fd_quotes = [], fd_conversions = []\<rparr>)"

definition race_second :: "fx_state \<Rightarrow> fx_state \<times> (gomsg + ConversionResponse)" where
  "race_second = ConvertCurrency (quiet_env ''2'') (Some (sample_convert ''k''\<lparr>cc_QuoteId := ''fxq_2''\<rparr>))"

definition race_first :: "fx_state \<Rightarrow> fx_state \<times> (gomsg + ConversionResponse)" where
  "race_first =
     ConvertCurrency (quiet_env ''1''\<lparr>fx_others := (\<lambda>n st. if n = 14 then fst (race_second st) else st)\<rparr>)
       (Some (sample_convert ''k''))"

definition completed_with :: "string \<Rightarrow> gomsg + ConversionResponse \<Rightarrow> bool" where
  "completed_with q r =
     (case r of Inl _ \<Rightarrow> False | Inr resp \<Rightarrow> cv_Status resp = ConversionStatusCompleted \<and> cv_QuoteId resp = q)"

text \<open>
  Idempotency does not hold between concurrent requests of a pod without a database: two
  requests with the same key, the second running while the first is between its lookup of
  the key and its conversion, both complete, each on its own quote.
\<close>

lemma ConvertCurrency_key_race:
  "completed_with ''fxq_1'' (snd (race_first race_pod))
   \<and> completed_with ''fxq_2'' (snd (race_second race_pod))"
  by code_simp

text \<open>
  With a database the second insert is refused, but the request answers with its own
  conversion, not with the stored one: the memory was overwritten before the insert.
\<close>

lemma duplicate_answers_own_conversion:
  assumes "replay_rely E k d" and "record_conversion E k d st = (st', resp)"
  shows "cv_ConversionId resp = v_ConversionID d"
proof -
  have "resp = conversionDocToProto d (cv_Status resp)" using record_conversion_remembers [OF assms] by simp
  then have "cv_ConversionId resp = cv_ConversionId (conversionDocToProto d (cv_Status resp))" by simp
  then show ?thesis by (simp add: conversionDocToProto_def)
qed

end
