(* ===== verification/FxSound.thy ===== *)
theory FxSound
  imports FxReplay
begin

text \<open>
  The invariant of the FX engine: the rate book holds finite rates of supported currencies
  anchored at one dollar per dollar, every override is an ordered price, and every quote and
  conversion, in memory and in the database, is priced by its own terms.
\<close>

subsection \<open>Prices\<close>

definition rate_ordered :: "gofloat \<Rightarrow> gofloat \<Rightarrow> gofloat \<Rightarrow> gofloat \<Rightarrow> bool" where
  "rate_ordered mid bid ask effective \<longleftrightarrow>
     xle bid mid \<and> xle mid ask \<and> nonneg effective \<and> (xle effective bid \<or> effective = mid)"

definition doc_ordered :: "ExchangeRateDoc \<Rightarrow> bool" where
  "doc_ordered d \<longleftrightarrow> rate_ordered (x_MidRate d) (x_BidRate d) (x_AskRate d) (x_EffectiveRate d)"

text \<open>What a \<open>float64\<close> that is neither negative nor NaN can be.\<close>

definition price :: "gofloat \<Rightarrow> bool" where
  "price r \<longleftrightarrow> (case r of Fin x \<Rightarrow> 0 \<le> x \<and> fl x = x \<and> x < pow2 1024 | PInf \<Rightarrow> True | _ \<Rightarrow> False)"

lemma price_nonneg: "price r \<Longrightarrow> nonneg r"
  by (cases r) (auto simp: price_def)

lemma xfl_price: "0 \<le> x \<Longrightarrow> price (xfl x)"
  by (cases rule: xfl_cases [of x]) (auto simp: price_def fl_idem_nonneg)

lemma fl_1 [simp]: "fl 1 = 1"
  using fl_of_int_exact [of 1] by simp

lemma fl_half: "fl (1 / 2) = 1 / 2"
  by code_simp

lemma xmul_1: "price r \<Longrightarrow> xmul r (Fin 1) = r"
  using pow2_pos [of 1024] by (cases r) (auto simp: price_def inf_of_def xfl_def)

lemma xmul_factor_mono: "price r \<Longrightarrow> 0 < f \<Longrightarrow> f \<le> g \<Longrightarrow> xle (xmul r (Fin f)) (xmul r (Fin g))"
  by (cases r) (auto simp: price_def inf_of_def xfl_mono mult_left_mono)

lemma spread_factors:
  assumes "0 \<le> sp" and "sp < 5000"
  defines "s \<equiv> fdiv (float_of_int sp) 10000"
  shows "0 < fsub 1 s" "fsub 1 s \<le> fsub 1 (fdiv s 2)" "fsub 1 (fdiv s 2) \<le> 1" "1 \<le> fadd 1 (fdiv s 2)"
proof -
  have sp: "float_of_int sp = of_int sp" using assms by (intro float_of_int_exact) auto
  have "(of_int sp :: rat) / 10000 \<le> 1 / 2"
  proof -
    have "(of_int sp :: rat) \<le> of_int 5000" using assms(2) by (simp only: of_int_le_iff)
    then show ?thesis by simp
  qed
  then have s: "0 \<le> s" "s \<le> 1 / 2" "fl s = s"
    using assms(1) fl_nonneg [of "of_int sp / 10000"] fl_mono_nonneg [of "of_int sp / 10000" "1 / 2"]
    by (auto simp: s_def sp fdiv_def fl_half fl_idem_nonneg)
  have h: "0 \<le> fdiv s 2" "fdiv s 2 \<le> s"
    using s fl_nonneg [of "s / 2"] fl_mono_nonneg [of "s / 2" s] by (auto simp: fdiv_def)
  show "0 < fsub 1 s" using s fl_mono_nonneg [of "1 / 2" "1 - s"] fl_half by (simp add: fsub_def)
  show "fsub 1 s \<le> fsub 1 (fdiv s 2)" using s h by (simp add: fsub_def fl_mono_nonneg)
  show "fsub 1 (fdiv s 2) \<le> 1" using s h fl_mono_nonneg [of "1 - fdiv s 2" 1] by (simp add: fsub_def)
  show "1 \<le> fadd 1 (fdiv s 2)" using h fl_mono_nonneg [of 1 "1 + fdiv s 2"] by (simp add: fadd_def)
qed

lemma computeRateDoc_ordered:
  assumes "price midRate" and "0 \<le> sp" and "sp < 5000"
  shows "doc_ordered (computeRateDoc b t midRate sp prov ts)"
proof (cases "b = t")
  case False
  let ?s = "fdiv (float_of_int sp) 10000"
  let ?at = "\<lambda>f. xmul midRate (Fin f)"
  note f = spread_factors [OF assms(2,3)]
  have pos: "0 < fsub 1 (fdiv ?s 2)" using f by linarith
  have nn: "nonneg (?at (fsub 1 ?s))" "nonneg (?at (fsub 1 (fdiv ?s 2)))"
    using f pos price_nonneg [OF assms(1)] by simp_all
  have "xle (?at (fsub 1 ?s)) (?at (fsub 1 (fdiv ?s 2)))" "xle (?at (fsub 1 (fdiv ?s 2))) midRate"
    "xle midRate (?at (fadd 1 (fdiv ?s 2)))"
    using xmul_factor_mono [OF assms(1) f(1,2)] xmul_factor_mono [OF assms(1) pos f(3)]
      xmul_factor_mono [OF assms(1) _ f(4)] xmul_1 [OF assms(1)] by simp_all
  then show ?thesis using False nn price_nonneg [OF assms(1)]
    by (auto simp: computeRateDoc_def Let_def doc_ordered_def rate_ordered_def intro: roundPips_mono)
qed (simp add: computeRateDoc_def doc_ordered_def rate_ordered_def)

subsection \<open>The rate book\<close>

definition book_rate :: "string \<times> gofloat \<Rightarrow> bool" where
  "book_rate p \<longleftrightarrow> (case snd p of Fin x \<Rightarrow> 0 < x | _ \<Rightarrow> False)"

definition book_ok :: "FXEngine \<Rightarrow> bool" where
  "book_ok e \<longleftrightarrow> list_all book_rate (fe_usdRates e) \<and> usd_rate e ''USD'' = Fin 1
     \<and> list_all (\<lambda>(k, d). doc_ordered d) (fe_pairOverrides e) \<and> 0 \<le> fe_spreadBps e \<and> fe_spreadBps e < 5000"

lemma book_rate_price:
  assumes "book_ok e" and "\<not> nonpositive (usd_rate e b)"
  shows "\<exists>x. usd_rate e b = Fin x \<and> 0 < x"
proof (cases "map_of (fe_usdRates e) b")
  case (Some r)
  then have "book_rate (b, r)" using assms(1) map_of_SomeD by (fastforce simp: book_ok_def list_all_iff)
  then show ?thesis by (cases r) (auto simp: book_rate_def usd_rate_def Some)
qed (use assms(2) in \<open>simp add: usd_rate_def\<close>)

lemma GetRate_doc_ordered:
  assumes "book_ok e" and "GetRate e b t = Inr r"
  shows "rate_ordered (er_MidRate r) (er_BidRate r) (er_AskRate r) (er_EffectiveRate r)"
proof -
  let ?b = "NormalizeCurrency b" and ?t = "NormalizeCurrency t"
  have proto: "doc_ordered d \<Longrightarrow> rate_ordered (er_MidRate (rateDocToProto d)) (er_BidRate (rateDocToProto d))
      (er_AskRate (rateDocToProto d)) (er_EffectiveRate (rateDocToProto d))" for d
    by (simp add: rateDocToProto_def doc_ordered_def)
  show ?thesis
  proof (cases "map_of (fe_pairOverrides e) (pair_key ?b ?t)")
    case (Some d)
    then have "doc_ordered d" using assms(1) map_of_SomeD by (fastforce simp: book_ok_def list_all_iff)
    then show ?thesis using assms(2) proto Some by (auto simp: GetRate_def Let_def split: if_splits)
  next
    case None
    then have g: "\<not> nonpositive (usd_rate e ?b)" "\<not> nonpositive (usd_rate e ?t)"
      and r: "r = rateDocToProto (computeRateDoc ?b ?t (xdiv (usd_rate e ?t) (usd_rate e ?b))
        (fe_spreadBps e) (fe_sourceProvider e) (fe_lastSyncedAt e))"
      using assms(2) by (auto simp: GetRate_def Let_def split: if_splits)
    obtain x y where xy: "usd_rate e ?b = Fin x" "0 < x" "usd_rate e ?t = Fin y" "0 < y"
      using book_rate_price [OF assms(1) g(1)] book_rate_price [OF assms(1) g(2)] by blast
    then have "price (xdiv (usd_rate e ?t) (usd_rate e ?b))" by (simp add: xfl_price)
    then show ?thesis unfolding r
      using proto computeRateDoc_ordered assms(1) by (simp add: book_ok_def)
  qed
qed

lemma list_all_AList_update: "list_all P m \<Longrightarrow> P (k, v) \<Longrightarrow> list_all P (AList.update k v m)"
  using in_set_update [of _ k v m] unfolding list_all_iff by blast

lemma book_rates_fold:
  assumes "list_all book_rate m" and "list_all (\<lambda>(c, r). positive r \<longrightarrow> book_rate (c, r)) snap"
  shows "list_all book_rate (fold (\<lambda>(curr, rate) m.
           let code = NormalizeCurrency curr
           in if IsValidCurrency code \<and> positive rate then AList.update code rate m else m) snap m)"
  using assms
proof (induction snap arbitrary: m)
  case (Cons p snap)
  obtain c r where p: "p = (c, r)" by (cases p)
  have "book_rate (c', r)" if "positive r" for c' using Cons.prems(2) that by (simp add: p book_rate_def)
  then show ?case using Cons by (auto simp: p Let_def list_all_AList_update)
qed simp

text \<open>A snapshot with finite rates where they are positive, as decoded JSON numbers are.\<close>

definition snapshot_typed :: "RateSnapshot \<Rightarrow> bool" where
  "snapshot_typed snap \<longleftrightarrow> list_all (\<lambda>(c, r). positive r \<longrightarrow> book_rate (c, r)) (sn_Rates snap)"

lemma book_rates_ok:
  assumes "book_ok e" and "snapshot_typed snap"
  shows "book_ok (e\<lparr>fe_usdRates := book_rates (sn_Rates snap) (fe_usdRates e), fe_sourceProvider := p,
           fe_lastSyncedAt := t\<rparr>)"
  using assms book_rates_fold [of "fe_usdRates e" "sn_Rates snap"]
  by (auto simp: book_ok_def snapshot_typed_def book_rates_def usd_rate_def update_conv' book_rate_def
      intro!: list_all_AList_update)

text \<open>An override by a finite rate that is not absurdly small, of a proper pair.\<close>

definition override_typed :: "string \<Rightarrow> string \<Rightarrow> gofloat \<Rightarrow> bool" where
  "override_typed base target mid \<longleftrightarrow>
     \<not> (NormalizeCurrency base = ''USD'' \<and> NormalizeCurrency target = ''USD'')
     \<and> (case mid of Fin m \<Rightarrow> fl m = m \<and> (0 < m \<longrightarrow> pow2 (- 1000) \<le> m) \<and> m < pow2 1000 | _ \<Rightarrow> False)"

lemma inverse_book_rate:
  assumes "pow2 (- 1000) \<le> m" and "m < pow2 1000"
  shows "book_rate (c, xdiv (Fin 1) (Fin m))"
proof -
  have m: "0 < m" using assms(1) pow2_pos [of "- 1000"] by linarith
  have inv: "1 / pow2 k = pow2 (- k)" for k using pow2_add [of k "- k"] by (simp add: pow2_def [of 0] field_simps)
  have "1 / m \<le> 1 / pow2 (- 1000)" using assms(1) by (intro divide_left_mono) (simp_all add: m)
  then have up: "1 / m \<le> pow2 1000" by (simp add: inv)
  have "1 / pow2 1000 \<le> 1 / m" using assms(2) m by (intro divide_left_mono) auto
  then have lo: "pow2 (- 1000) \<le> 1 / m" by (simp add: inv)
  have "pow2 1000 < pow2 1001" using pow2_add [of 1000 1] pow2_pos [of 1000] by (simp add: pow2_def [of 1])
  then have "fl (1 / m) \<le> pow2 1001" using m up by (intro fl_binade_upper) auto
  also have "\<dots> < pow2 1024" by (simp add: pow2_def)
  finally have fin: "fl (1 / m) < pow2 1024" .
  have "pow2 (- 1022) \<le> 1 / m" using lo pow2_mono [of "- 1022" "- 1000"] by linarith
  then have "0 < fl (1 / m)" using fl_pos_normal m by simp
  moreover have nn: "0 \<le> 1 / m" using m by simp
  ultimately show ?thesis using m fin by (cases rule: xfl_cases [OF nn]) (auto simp: book_rate_def)
qed

lemma override_book_ok:
  assumes "book_ok e" and "override_typed b t mid" and "\<not> nonpositive mid" and "0 \<le> sp" and "sp < 5000"
  shows "book_ok (e\<lparr>fe_pairOverrides := AList.update k (computeRateDoc (NormalizeCurrency b) (NormalizeCurrency t)
             mid sp prov now) (fe_pairOverrides e),
           fe_usdRates := override_usd (NormalizeCurrency b) (NormalizeCurrency t) mid (fe_usdRates e),
           fe_lastSyncedAt := ts\<rparr>)"
proof -
  obtain m where m: "mid = Fin m" "fl m = m" "0 < m" "pow2 (- 1000) \<le> m" "m < pow2 1000"
    using assms(2,3) by (cases mid) (auto simp: override_typed_def)
  have "pow2 1000 \<le> pow2 1024" by (rule pow2_mono) simp
  then have "price mid" using m by (simp add: price_def)
  then have d: "doc_ordered (computeRateDoc (NormalizeCurrency b) (NormalizeCurrency t) mid sp prov now)"
    using computeRateDoc_ordered assms(4,5) by blast
  have u: "list_all book_rate (override_usd (NormalizeCurrency b) (NormalizeCurrency t) mid (fe_usdRates e))"
    using assms(1) inverse_book_rate [OF m(4,5)] m(1,3)
    by (auto simp: override_usd_def book_ok_def book_rate_def intro!: list_all_AList_update)
  have "map_of (override_usd (NormalizeCurrency b) (NormalizeCurrency t) mid (fe_usdRates e)) ''USD''
      = map_of (fe_usdRates e) ''USD''"
    using assms(2) by (auto simp: override_usd_def override_typed_def update_conv')
  then show ?thesis using assms(1) d u
    by (auto simp: book_ok_def usd_rate_def list_all_AList_update)
qed

subsection \<open>Quotes and conversions\<close>

definition priced :: "string \<Rightarrow> string \<Rightarrow> int64 \<Rightarrow> int64 \<Rightarrow> int64 \<Rightarrow> gofloat \<Rightarrow> bool" where
  "priced base target source dest fee rate \<longleftrightarrow>
     IsValidCurrency base \<and> IsValidCurrency target \<and> 0 \<le> fee \<and> fee < source \<and> nonneg rate
     \<and> dest = ConvertAtRate (source - fee) base target rate"

definition quote_ok :: "QuoteDoc \<Rightarrow> bool" where
  "quote_ok d \<longleftrightarrow>
     priced (q_BaseCurrency d) (q_TargetCurrency d) (q_SourceAmount d) (q_TargetAmount d) (q_FeeAmount d)
       (q_EffectiveRate d)
     \<and> q_Status d \<in> {QuoteStatusActive, QuoteStatusExecuted, QuoteStatusExpired}
     \<and> q_CreatedAt d + Second \<le> q_ExpiresAt d \<and> q_ExpiresAt d \<le> q_CreatedAt d + 3600 * Second"

definition conversion_ok :: "ConversionDoc \<Rightarrow> bool" where
  "conversion_ok v \<longleftrightarrow>
     priced (v_BaseCurrency v) (v_TargetCurrency v) (v_SourceAmount v) (v_TargetAmount v) (v_FeeAmount v)
       (v_EffectiveRate v)"

definition fx_ok :: "fx_state \<Rightarrow> bool" where
  "fx_ok st \<longleftrightarrow> book_ok (fst st)
     \<and> list_all (\<lambda>(k, d). quote_ok d) (fe_quotesMem (fst st)) \<and> list_all quote_ok (fd_quotes (snd st))
     \<and> list_all (\<lambda>(k, v). conversion_ok v) (fe_conversionsMem (fst st))
     \<and> list_all conversion_ok (fd_conversions (snd st))"

lemma quote_fee_bounds:
  assumes "0 < a" and "fits64 a" and "quote_fee f b t a = (net, fee)"
  shows "0 \<le> fee \<and> fee < a \<and> net = a - fee"
proof -
  let ?R = "RoundToEven (fdiv (fmul (float_of_int a) (float_of_int f)) 10000)"
  let ?n = "if 0 < f \<and> b \<noteq> t then int64_of_float (of_int ?R) else 0"
  have R: "0 \<le> ?R" if "0 < f"
    unfolding fdiv_def fmul_def
    by (rule RoundToEven_lower) (use that assms(1) float_of_int_pos [of a] float_of_int_pos [of f]
      in \<open>auto intro!: fl_nonneg divide_nonneg_nonneg\<close>)
  have "(0 \<le> ?n \<and> fits64 ?n) \<or> ?n = - (2 ^ 63)"
    using R by (auto simp: int64_of_float_of_int)
  then show ?thesis
  proof
    assume n: "0 \<le> ?n \<and> fits64 ?n"
    then have "wrap64 (a - ?n) = a - ?n" using assms(1,2) by (intro wrap64_id) (auto simp: fits64_def)
    then show ?thesis using assms(1,3) n by (auto simp: quote_fee_def Let_def split: if_splits)
  next
    assume n: "?n = - (2 ^ 63)"
    have "wrap64 (a - ?n) = a - 2 ^ 63" unfolding n wrap64_def using assms(1,2) by (simp add: fits64_def)
    then have "wrap64 (a - ?n) \<le> 0" using assms(2) by (simp add: fits64_def)
    then have "quote_fee f b t a = (a, 0)" unfolding quote_fee_def Let_def by (rule if_P)
    then show ?thesis using assms by simp
  qed
qed

lemma quote_ttl_bounds: "1 \<le> quote_ttl l \<and> quote_ttl l \<le> 3600"
  by (auto simp: quote_ttl_def Let_def defaultQuoteTTLSeconds_def)

lemma new_quote_ok:
  assumes "IsValidCurrency b" and "IsValidCurrency t" and "0 < a" and "fits64 a" and "nonneg (er_EffectiveRate r)"
  shows "quote_ok (new_quote e oid now r b t a c l)"
proof -
  obtain net fee where f: "quote_fee (fe_feeBps e) b t a = (net, fee)" by (rule prod.exhaust)
  have "1 * Second \<le> quote_ttl l * Second" "quote_ttl l * Second \<le> 3600 * Second"
    using quote_ttl_bounds [of l] by (auto simp: Second_def)
  then show ?thesis using quote_fee_bounds [OF assms(3,4) f] assms
    by (auto simp: new_quote_def f quote_ok_def priced_def)
qed

lemma bson_time_mono: "s \<le> t \<Longrightarrow> bson_time s \<le> bson_time t"
proof -
  assume "s \<le> t"
  then have "s div 1000000 \<le> t div 1000000" by (rule zdiv_mono1) simp
  moreover have "x - x mod 1000000 = x div 1000000 * 1000000" for x :: int
    by (simp add: minus_mod_eq_div_mult)
  ultimately show ?thesis by (simp add: bson_time_def Truncate_def Millisecond_def)
qed

lemma bson_time_shift: "bson_time (t + k * Second) = bson_time t + k * Second"
proof -
  have "(t + k * Second) mod 1000000 = (t + (k * 1000) * 1000000) mod 1000000" by (simp add: Second_def mult.commute)
  also have "\<dots> = t mod 1000000" by (rule mod_mult_self1)
  finally show ?thesis by (simp add: bson_time_def Truncate_def Millisecond_def)
qed

lemma bson_quote_ok [simp]: "quote_ok d \<Longrightarrow> quote_ok (bson_quote d)"
  using bson_time_mono [of "q_CreatedAt d + 1 * Second" "q_ExpiresAt d"]
    bson_time_mono [of "q_ExpiresAt d" "q_CreatedAt d + 3600 * Second"]
  by (simp add: quote_ok_def bson_quote_def bson_time_shift bson_time_shift [of _ 1, simplified])

definition terms_ok :: "conversion_terms \<Rightarrow> bool" where
  "terms_ok t \<longleftrightarrow>
     priced (ct_Base t) (ct_Target t) (ct_SourceAmount t) (ct_TargetAmount t) (ct_FeeAmount t) (ct_EffectiveRate t)"

lemma terms_ok_simps [simp]:
  "quote_ok d \<Longrightarrow> terms_ok (terms_of_proto (quoteDocToProto d))"
  "quote_ok d \<Longrightarrow> terms_ok (terms_of_quote k d)"
  "conversion_ok (conversion_doc E req k c t) = terms_ok t"
  by (simp_all add: terms_ok_def quote_ok_def conversion_ok_def terms_of_proto_def quoteDocToProto_def
      terms_of_quote_def conversion_doc_def)

lemma bson_conversion_ok [simp]: "conversion_ok (bson_conversion v) = conversion_ok v"
  by (simp add: conversion_ok_def bson_conversion_def)

lemma status_quote_ok [simp]:
  "quote_ok d \<Longrightarrow> quote_ok (d\<lparr>q_Status := QuoteStatusExecuted\<rparr>)"
  "quote_ok d \<Longrightarrow> quote_ok (d\<lparr>q_Status := QuoteStatusExpired\<rparr>)"
  by (simp_all add: quote_ok_def)

lemma UpdateOne_quotes_ok:
  assumes col: "collection M quote_conflict" and "list_all quote_ok qs"
    and "s = QuoteStatusExecuted \<or> s = QuoteStatusExpired"
  shows "list_all quote_ok (fst (UpdateOne M f (set_status s) qs))"
  using collection.UpdateOne_cases [OF col, of f "set_status s" qs]
proof cases
  case (3 i d r)
  then have "quote_ok d" using assms(2,3) by (auto simp: set_status_def list_all_length)
  then show ?thesis using 3 assms(2) set_update_subset_insert [of qs i d] by (auto simp: list_all_iff)
qed (use assms in auto)

lemma InsertOne_all:
  assumes col: "collection M conflict" and "list_all P qs" and "P d"
  shows "list_all P (fst (InsertOne M d qs))"
  using collection.InsertOne_cases [OF col, of d qs] by cases (use assms in auto)

lemma fx_ok_pair:
  "fx_ok (e, db) \<longleftrightarrow> book_ok e
     \<and> list_all (\<lambda>(k, d). quote_ok d) (fe_quotesMem e) \<and> list_all quote_ok (fd_quotes db)
     \<and> list_all (\<lambda>(k, v). conversion_ok v) (fe_conversionsMem e)
     \<and> list_all conversion_ok (fd_conversions db)"
  by (simp add: fx_ok_def)

lemma book_ok_remember [simp]:
  "book_ok (remember_quote k d e) = book_ok e" "book_ok (remember_conversion k v e) = book_ok e"
  by (simp_all add: book_ok_def remember_quote_def remember_conversion_def usd_rate_def)

lemma fx_ok_remember_quote [simp]: "fx_ok (e, db) \<Longrightarrow> quote_ok d \<Longrightarrow> fx_ok (remember_quote k d e, db)"
  by (simp add: fx_ok_pair) (simp add: remember_quote_def list_all_AList_update)

lemma fx_ok_remember_conversion [simp]:
  "fx_ok (e, db) \<Longrightarrow> conversion_ok v \<Longrightarrow> fx_ok (remember_conversion k v e, db)"
  by (simp add: fx_ok_pair) (simp add: remember_conversion_def list_all_AList_update)

lemma fx_ok_quotes: "fx_ok (e, db) \<Longrightarrow> list_all quote_ok qs \<Longrightarrow> fx_ok (e, db\<lparr>fd_quotes := qs\<rparr>)"
  and fx_ok_conversions: "fx_ok (e, db) \<Longrightarrow> list_all conversion_ok vs \<Longrightarrow> fx_ok (e, db\<lparr>fd_conversions := vs\<rparr>)"
  and fx_ok_rates [simp]: "fx_ok (e, db\<lparr>fd_rates := rs\<rparr>) = fx_ok (e, db)"
  by (simp_all add: fx_ok_pair)

lemma fx_ok_parts:
  "fx_ok st \<Longrightarrow> book_ok (fst st)"
  "fx_ok st \<Longrightarrow> map_of (fe_quotesMem (fst st)) k = Some d \<Longrightarrow> quote_ok d"
  "fx_ok st \<Longrightarrow> d \<in> set (fd_quotes (snd st)) \<Longrightarrow> quote_ok d"
  "fx_ok st \<Longrightarrow> map_of (fe_conversionsMem (fst st)) k = Some v \<Longrightarrow> conversion_ok v"
  "fx_ok st \<Longrightarrow> v \<in> set (fd_conversions (snd st)) \<Longrightarrow> conversion_ok v"
  by (auto simp: fx_ok_def list_all_iff dest: map_of_SomeD)

locale sound_rely = fx_collections +
  assumes others_ok [simp]: "fx_ok st \<Longrightarrow> fx_ok (fx_others E n st)"
begin

lemma update_ok [simp]:
  "fx_ok (e, db) \<Longrightarrow> s = QuoteStatusExecuted \<or> s = QuoteStatusExpired \<Longrightarrow>
     fx_ok (e, db\<lparr>fd_quotes := fst (UpdateOne (fx_quotes_col E n) f (set_status s) (fd_quotes db))\<rparr>)"
  by (rule fx_ok_quotes) (auto simp: fx_ok_pair intro: UpdateOne_quotes_ok [OF quotes_col])

lemma insert_quote_ok [simp]:
  "fx_ok (e, db) \<Longrightarrow> quote_ok d \<Longrightarrow>
     fx_ok (e, db\<lparr>fd_quotes := fst (InsertOne (fx_quotes_col E n) d (fd_quotes db))\<rparr>)"
  by (rule fx_ok_quotes) (auto simp: fx_ok_pair intro: InsertOne_all [OF quotes_col])

lemma insert_conversion_ok [simp]:
  "fx_ok (e, db) \<Longrightarrow> conversion_ok v \<Longrightarrow>
     fx_ok (e, db\<lparr>fd_conversions := fst (InsertOne (fx_conversions_col E n) v (fd_conversions db))\<rparr>)"
  by (rule fx_ok_conversions) (auto simp: fx_ok_pair intro: InsertOne_all [OF conversions_col])

lemma loadQuoteDoc_ok:
  assumes "fx_ok st" and "loadQuoteDoc E k st = (st', r)"
  shows "fx_ok st' \<and> (case r of Inl _ \<Rightarrow> True | Inr d \<Rightarrow> quote_ok d)"
proof -
  let ?s = "fx_others E 2 st"
  have "quote_ok d" if "FindOne (fx_quotes_col E 1) (\<lambda>d. q_QuoteID d = k) None (fd_quotes (snd ?s)) = Inr d" for d
    using collection.FindOne_Inr [OF quotes_col that] fx_ok_parts(3) [of ?s] assms(1) by simp
  then show ?thesis using assms fx_ok_parts(2) [OF assms(1)]
    by (auto simp: loadQuoteDoc_def Let_def case_prod_unfold split: option.splits sum.splits if_splits)
qed

lemma CreateQuote_ok:
  assumes "fx_ok st" and "fits64 a" and "CreateQuote E b t a c l st = (st', r)"
  shows "fx_ok st' \<and> (case r of Inl _ \<Rightarrow> True | Inr q \<Rightarrow> terms_ok (terms_of_proto q))"
proof -
  let ?b = "NormalizeCurrency b" and ?t = "NormalizeCurrency t"
  have ok: "quote_ok (new_quote e oid now rate ?b ?t a c l)"
    if "ValidateAmount a ?b = None" "IsValidCurrency ?t" "GetRate (fst st) ?b ?t = Inr rate" for e oid now rate
    using that GetRate_doc_ordered [OF fx_ok_parts(1) [OF assms(1)] that(3)] assms(2)
    by (intro new_quote_ok) (auto simp: ValidateAmount_None rate_ordered_def)
  show ?thesis
  proof (cases "ValidateAmount a ?b = None \<and> IsValidCurrency ?t \<and> (\<exists>rate. GetRate (fst st) ?b ?t = Inr rate)")
    case True
    then obtain rate where rate: "GetRate (fst st) ?b ?t = Inr rate" by blast
    then show ?thesis using True assms(1,3) ok [OF _ _ rate]
      by (auto simp: CreateQuote_def Let_def case_prod_unfold)
  next
    case False
    then show ?thesis using assms(1,3)
      by (auto simp: CreateQuote_def Let_def split: option.splits sum.splits if_splits)
  qed
qed

lemma GetQuote_ok: "fx_ok st \<Longrightarrow> fx_ok (fst (GetQuote E k st))"
proof -
  assume ok: "fx_ok st"
  obtain st1 r where l: "loadQuoteDoc E (TrimSpace k) st = (st1, r)" by (rule prod.exhaust)
  show ?thesis using loadQuoteDoc_ok [OF ok l] ok
    by (cases r) (auto simp: GetQuote_def Let_def l case_prod_unfold)
qed

lemma findExistingConversion_ok:
  assumes "fx_ok st" and "findExistingConversion E n k st = (st', r)"
  shows "fx_ok st'"
proof -
  let ?s = "fx_others E (2 * n) st"
  have "conversion_ok v"
    if "FindOne (fx_conversions_col E n) (\<lambda>d. v_IdempotencyKey d = k) None (fd_conversions (snd ?s)) = Inr v" for v
    using collection.FindOne_Inr [OF conversions_col that] fx_ok_parts(5) [of ?s] assms(1) by simp
  then show ?thesis using assms
    by (auto simp: findExistingConversion_def Let_def case_prod_unfold split: option.splits sum.splits if_splits)
qed

lemma record_conversion_ok:
  assumes "fx_ok st" and "conversion_ok v"
  shows "fx_ok (fst (record_conversion E k v st))"
proof -
  define s1 where "s1 = (remember_conversion k v (fst (fx_others E 9 st)), snd (fx_others E 9 st))"
  define s2 where "s2 = fx_others E 10 s1"
  define s3 where "s3 = (fst s2, snd s2\<lparr>fd_conversions := fst (InsertOne (fx_conversions_col E 5)
    (bson_conversion v) (fd_conversions (snd s2)))\<rparr>)"
  have s1: "fx_ok s1" using assms by (simp add: s1_def)
  then have s2: "fx_ok s2" by (simp add: s2_def)
  then have s3: "fx_ok s3" unfolding s3_def using assms(2) by (intro insert_conversion_ok) simp_all
  have s4: "fx_ok (fst (findExistingConversion E 6 k s3))"
    using findExistingConversion_ok [OF s3, of 6 k] by (metis prod.collapse)
  have "fst (record_conversion E k v st) \<in> {s1, s3, fst (findExistingConversion E 6 k s3)}"
    by (auto simp: record_conversion_def Let_def case_prod_unfold s3_def simp flip: s1_def s2_def
        split: option.splits)
  then show ?thesis using s1 s3 s4 by auto
qed

lemma consume_ok:
  "fx_ok st \<Longrightarrow> fx_ok (fst (consume_in_db E k st))"
  "fx_ok st \<Longrightarrow> quote_ok d \<Longrightarrow> fx_ok (fst (consume_in_memory E k d st))"
proof -
  assume ok: "fx_ok st"
  let ?s = "fx_others E 4 st" and ?f = "consumable k (fx_now E 1)"
  have "fx_ok (fst ?s, snd ?s\<lparr>fd_quotes := qs\<rparr>)"
    if "UpdateOne (fx_quotes_col E 2) ?f (set_status QuoteStatusExecuted) (fd_quotes (snd ?s)) = (qs, r)" for qs r
  proof -
    have "fx_ok (fst ?s, snd ?s\<lparr>fd_quotes := fst (UpdateOne (fx_quotes_col E 2) ?f (set_status QuoteStatusExecuted)
        (fd_quotes (snd ?s)))\<rparr>)" using ok by (intro update_ok) simp_all
    then show ?thesis unfolding that by simp
  qed
  then show "fx_ok (fst (consume_in_db E k st))" using ok
    by (auto simp: consume_in_db_def Let_def case_prod_unfold split: prod.splits sum.splits)
next
  assume "fx_ok st" and "quote_ok d"
  then have "fx_ok (fx_others E 5 st)" by simp
  then show "fx_ok (fst (consume_in_memory E k d st))" using \<open>quote_ok d\<close> fx_ok_parts(2) [of "fx_others E 5 st" k]
    by (auto simp: consume_in_memory_def Let_def case_prod_unfold split: option.splits)
qed

lemma quote_path_ok:
  assumes "fx_ok st" and "quote_path E req k st = (st', r)"
  shows "fx_ok st' \<and> (case r of Inl _ \<Rightarrow> True | Inr t \<Rightarrow> terms_ok t)"
proof -
  obtain st1 r1 where l: "loadQuoteDoc E k st = (st1, r1)" by (rule prod.exhaust)
  note l1 = loadQuoteDoc_ok [OF assms(1) l]
  show ?thesis
  proof (cases r1)
    case (Inr d)
    then have d: "quote_ok d" "fx_ok st1" using l1 by auto
    obtain st2 r2 where cd: "consume_in_db E k st1 = (st2, r2)" by (rule prod.exhaust)
    have s2: "fx_ok st2" using consume_ok(1) [OF d(2), of k] by (simp add: cd)
    obtain st3 r3 where m: "consume_in_memory E k d st2 = (st3, r3)" by (rule prod.exhaust)
    have "fx_ok st3" using consume_ok(2) [OF s2 d(1), of k] by (simp add: m)
    then show ?thesis using assms(2) d s2 by (auto simp: quote_path_def l Inr cd m split: option.splits)
  qed (use assms(2) l1 in \<open>auto simp: quote_path_def l\<close>)
qed

lemma mark_executed_ok: "fx_ok st \<Longrightarrow> fx_ok (mark_executed E k st)"
  using fx_ok_parts(2) [of "fx_others E 7 st" k]
  by (auto simp: mark_executed_def Let_def case_prod_unfold split: option.splits)

lemma spot_path_ok:
  assumes "fx_ok st" and "fits64 (cc_SourceAmount req)" and "spot_path E req c st = (st', r)"
  shows "fx_ok st' \<and> (case r of Inl _ \<Rightarrow> True | Inr t \<Rightarrow> terms_ok t)"
proof -
  obtain st1 r1 where q: "CreateQuote E (NormalizeCurrency (cc_BaseCurrency req))
      (NormalizeCurrency (cc_TargetCurrency req)) (cc_SourceAmount req) c defaultQuoteTTLSeconds st = (st1, r1)"
    by (rule prod.exhaust)
  show ?thesis using CreateQuote_ok [OF assms(1,2) q] assms(1,3) mark_executed_ok [of st1]
    by (auto simp: spot_path_def Let_def q split: option.splits sum.splits if_splits)
qed

lemma ConvertCurrency_ok:
  assumes "fx_ok st" and "case request of None \<Rightarrow> True | Some req \<Rightarrow> fits64 (cc_SourceAmount req)"
  shows "fx_ok (fst (ConvertCurrency E request st))"
proof (cases request)
  case (Some req)
  let ?k = "TrimSpace (cc_IdempotencyKey req)" and ?q = "TrimSpace (cc_QuoteId req)" and ?c = "conversion_client req"
  obtain st1 r where f: "findExistingConversion E 0 ?k st = (st1, r)" by (rule prod.exhaust)
  have s1: "fx_ok st1" by (rule findExistingConversion_ok [OF assms(1) f])
  let ?st2 = "fx_others E 14 st1"
  obtain st3 r3 where p: "(if ?q \<noteq> [] then quote_path E req ?q ?st2 else spot_path E req ?c ?st2) = (st3, r3)"
    by (rule prod.exhaust)
  have "fx_ok st3 \<and> (case r3 of Inl _ \<Rightarrow> True | Inr t \<Rightarrow> terms_ok t)"
    using quote_path_ok [of ?st2 req ?q st3 r3] spot_path_ok [of ?st2 req ?c st3 r3] p s1 assms(2) Some
    by (auto split: if_splits)
  then show ?thesis using s1 p assms(1) record_conversion_ok [of st3]
    by (auto simp: ConvertCurrency_def Some Let_def f case_prod_unfold split: option.splits sum.splits)
qed (simp add: ConvertCurrency_def assms(1))

lemma upsert_ok [simp]: "fx_ok (e, upsert_rate E n d db) = fx_ok (e, db)"
  by (simp add: upsert_rate_def Let_def)

lemma persist_pairs_ok: "fx_ok st \<Longrightarrow> fx_ok (persist_pairs E n pairs st)"
proof (induction pairs arbitrary: n st)
  case (Cons p pairs)
  obtain b t where p: "p = (b, t)" by (cases p)
  have "fx_ok (let (e, db) = fx_others E (2 * n) st
        in if fe_fxDB e
           then (case GetRate e b t of
                   Inl err \<Rightarrow> (e, db)
                 | Inr rateProto \<Rightarrow> (e, upsert_rate E n (rate_proto_doc b t rateProto (fx_now E n)) db))
           else (e, db))"
    using Cons.prems by (auto simp: Let_def case_prod_unfold split: sum.splits)
  then show ?case unfolding p persist_pairs.simps by (rule Cons.IH)
qed simp

lemma fx_ok_book: "fx_ok (e, db) \<Longrightarrow> book_ok e' \<Longrightarrow> fe_quotesMem e' = fe_quotesMem e \<Longrightarrow>
    fe_conversionsMem e' = fe_conversionsMem e \<Longrightarrow> fx_ok (e', db)"
  by (simp add: fx_ok_pair)

lemma SyncUpstreamRates_ok:
  assumes "fx_ok st" and "case fetched of Inl _ \<Rightarrow> True | Inr snap \<Rightarrow> snapshot_typed snap"
  shows "fx_ok (fst (SyncUpstreamRates E fetched st))"
proof (cases fetched)
  case (Inr snap)
  obtain e db where st: "st = (e, db)" by (cases st)
  let ?e = "e\<lparr>fe_usdRates := book_rates (sn_Rates snap) (fe_usdRates e), fe_sourceProvider := sn_ProviderName snap,
    fe_lastSyncedAt := sn_FetchedAt snap\<rparr>"
  have "book_ok ?e" using assms Inr by (intro book_rates_ok) (auto simp: st fx_ok_pair)
  then have "fx_ok (?e, db)" using assms(1) fx_ok_book [of e db ?e] by (simp add: st)
  then show ?thesis using persist_pairs_ok
    by (simp add: SyncUpstreamRates_def Inr st Let_def persistAllPairs_def)
qed (simp add: SyncUpstreamRates_def assms(1))

lemma SetPairRate_ok:
  assumes "fx_ok st" and "override_typed b t mid"
  shows "fx_ok (fst (SetPairRate E b t mid sp prov st))"
proof -
  obtain e db where st: "st = (e, db)" by (cases st)
  let ?d = "computeRateDoc (NormalizeCurrency b) (NormalizeCurrency t) mid sp
    (if prov = [] then ''manual-override'' else prov) (fx_now E 0)"
  let ?e = "e\<lparr>fe_pairOverrides := AList.update (pair_key (NormalizeCurrency b) (NormalizeCurrency t)) ?d (fe_pairOverrides e),
    fe_usdRates := override_usd (NormalizeCurrency b) (NormalizeCurrency t) mid (fe_usdRates e),
    fe_lastSyncedAt := x_UpdatedAt ?d\<rparr>"
  have "fx_ok (?e, db)" if "\<not> nonpositive mid" "0 \<le> sp" "sp < 5000"
    using assms that by (intro fx_ok_book [of e db ?e] override_book_ok) (auto simp: st fx_ok_pair)
  then show ?thesis using assms(1)
    by (auto simp: SetPairRate_def Let_def case_prod_unfold st)
qed

end

text \<open>
  The well-typed calls: amounts are \<open>int64\<close> values, snapshots and overrides carry finite
  rates, and no override sets the price of a dollar in dollars.
\<close>

fun call_typed :: "fx_call \<Rightarrow> bool" where
  "call_typed (CallCreateQuote b t a c l) = fits64 a"
| "call_typed (CallGetQuote k) = True"
| "call_typed (CallConvert request) = (case request of None \<Rightarrow> True | Some req \<Rightarrow> fits64 (cc_SourceAmount req))"
| "call_typed (CallSetPairRate b t mid sp prov) = override_typed b t mid"
| "call_typed (CallSync fetched) = (case fetched of Inl _ \<Rightarrow> True | Inr snap \<Rightarrow> snapshot_typed snap)"

lemma run_call_ok:
  assumes "sound_rely E" and "call_typed call" and "fx_ok st"
  shows "fx_ok (fst (run_call E call st))"
proof (cases call)
  case (CallCreateQuote b t a c l)
  then show ?thesis using sound_rely.CreateQuote_ok [OF assms(1,3), of a b t c l] assms(2)
    by (metis call_typed.simps(1) fst_conv prod.collapse run_call.simps(1))
next
  case (CallConvert request)
  then show ?thesis using sound_rely.ConvertCurrency_ok [OF assms(1,3)] assms(2)
    by (auto split: prod.splits sum.splits) (metis fst_conv)+
qed (use assms in \<open>auto simp: sound_rely.GetQuote_ok sound_rely.SetPairRate_ok sound_rely.SyncUpstreamRates_ok\<close>)

lemma run_alone_ok:
  assumes "list_all (\<lambda>(E, call). sound_rely E \<and> call_typed call) calls" and "fx_ok st"
  shows "fx_ok (run_alone calls st)"
  using assms
proof (induction calls arbitrary: st)
  case (Cons p calls)
  obtain E call where p: "p = (E, call)" by (cases p)
  have "fx_ok (fst (run_call E call st))" using Cons.prems by (intro run_call_ok) (auto simp: p)
  then have "fx_ok (run_alone calls (fst (run_call E call st)))" using Cons by simp
  then show ?case by (simp add: run_alone_def p)
qed (simp add: run_alone_def)

text \<open>Pods that serve well-typed calls at every interference point keep the invariant.\<close>

lemma quiet_sound: "sound_rely (quiet_env oid)"
  by (intro sound_rely.intro fx_collections.intro sound_rely_axioms.intro)
    (simp_all add: quiet_env_def mem.collection_axioms)

interpretation busy_sound: sound_rely "busy_env oid (filter call_typed calls)" for oid calls
proof (intro sound_rely.intro fx_collections.intro sound_rely_axioms.intro)
  fix st n
  assume "fx_ok st"
  then have "fx_ok (run_alone (map (\<lambda>call. (quiet_env (oid @ ''b''), call)) (filter call_typed calls)) st)"
    by (rule run_alone_ok [rotated]) (auto simp: list_all_iff quiet_sound)
  then show "fx_ok (fx_others (busy_env oid (filter call_typed calls)) n st)"
    by (simp add: busy_env_def run_alone_def fold_map comp_def case_prod_unfold)
qed (simp_all add: busy_env_def quiet_env_def mem.collection_axioms)

definition empty_fx_db :: fx_db where
  "empty_fx_db = \<lparr>fd_rates = [], fd_quotes = [], fd_conversions = []\<rparr>"

lemma NewFXEngine_ok: "spreadBps < 5000 \<Longrightarrow> fx_ok (NewFXEngine fxDB spreadBps feeBps now, empty_fx_db)"
proof -
  assume "spreadBps < 5000"
  moreover have "list_all book_rate InstitutionalBaselineRates"
    unfolding list_all_iff
  proof
    fix p assume "p \<in> set InstitutionalBaselineRates"
    then have "case p of (c, r) \<Rightarrow> IsValidCurrency c \<and> (case r of Fin x \<Rightarrow> 1 / 4 \<le> x \<and> x \<le> 200 | _ \<Rightarrow> False)"
      using baseline_bounds by (simp add: list_all_iff)
    then show "book_rate p" by (auto simp: book_rate_def split: prod.splits gofloat.splits)
  qed
  moreover have "map_of InstitutionalBaselineRates ''USD'' = Some (Fin 1)"
    by (simp add: InstitutionalBaselineRates_def)
  ultimately show ?thesis
    by (simp add: fx_ok_def book_ok_def NewFXEngine_def usd_rate_def empty_fx_db_def defaultSpreadBps_def)
qed

subsection \<open>Properties\<close>



text \<open>
  Every rate the engine quotes is an ordered price: the customer's effective rate is at
  most the bid (or the mid rate itself, where the spread rounds the effective rate down to
  zero), the bid at most the mid rate and the mid rate at most the ask, after all rounding
  to pips, whether the pair is overridden or triangulated through the dollar.
\<close>

lemma GetRate_ordered:
  assumes "fx_ok st" and "GetRate (fst st) base target = Inr r"
  shows "xle (er_BidRate r) (er_MidRate r) \<and> xle (er_MidRate r) (er_AskRate r) \<and> nonneg (er_EffectiveRate r)
    \<and> (xle (er_EffectiveRate r) (er_BidRate r) \<or> er_EffectiveRate r = er_MidRate r)"
  using GetRate_doc_ordered [OF fx_ok_parts(1) [OF assms(1)] assms(2)] by (simp add: rate_ordered_def)

lemma sample_rate:
  "GetRate (NewFXEngine False 25 0 0) ''usd'' ''JPY''
     = Inr (rateDocToProto (computeRateDoc ''USD'' ''JPY'' (xdiv (Fin 150) (Fin 1)) 25 ''institutional-baseline'' 0))"
proof -
  have "NormalizeCurrency ''usd'' = ''USD''" "NormalizeCurrency ''JPY'' = ''JPY''"
    "IsValidCurrency ''USD''" "IsValidCurrency ''JPY''" by code_simp+
  then show ?thesis
    by (simp add: GetRate_def NewFXEngine_def usd_rate_def InstitutionalBaselineRates_def del: xdiv.simps)
qed

text \<open>
  An override of the pair dollar to dollar is accepted and answered with a rate of one,
  but moves the anchor of the rate book: afterwards a dollar counts as \<open>mid\<close> dollars in every
  triangulated rate, until the next synchronisation.
\<close>

lemma SetPairRate_moves_anchor:
  assumes "positive mid" and "0 \<le> sp" and "sp < 5000" and "\<not> fe_fxDB e"
    and "map_of (fe_pairOverrides e) ''EUR:USD'' = None" and "positive (usd_rate e ''EUR'')"
  shows "(case SetPairRate E ''USD'' ''USD'' mid sp prov (e, db) of
      (st, Inl err) \<Rightarrow> False
    | (st, Inr answer) \<Rightarrow> er_MidRate answer = Fin 1 \<and> usd_rate (fst st) ''USD'' = mid
        \<and> (case GetRate (fst st) ''EUR'' ''USD'' of
             Inl err \<Rightarrow> False
           | Inr r \<Rightarrow> er_MidRate r = roundPips (xdiv mid (usd_rate e ''EUR''))))"
proof -
  have n: "NormalizeCurrency ''USD'' = ''USD''" "NormalizeCurrency ''EUR'' = ''EUR''"
    "IsValidCurrency ''USD''" "IsValidCurrency ''EUR''" by code_simp+
  have pos: "\<not> nonpositive mid" "\<not> nonpositive (usd_rate e ''EUR'')"
    using assms(1,6) by (cases mid; cases "usd_rate e ''EUR''"; simp)+
  let ?d = "computeRateDoc ''USD'' ''USD'' mid sp (if prov = [] then ''manual-override'' else prov) (fx_now E 0)"
  let ?e = "e\<lparr>fe_pairOverrides := AList.update (pair_key ''USD'' ''USD'') ?d (fe_pairOverrides e),
    fe_usdRates := override_usd ''USD'' ''USD'' mid (fe_usdRates e), fe_lastSyncedAt := x_UpdatedAt ?d\<rparr>"
  have run: "SetPairRate E ''USD'' ''USD'' mid sp prov (e, db) = ((?e, db), Inr (rateDocToProto ?d))"
    using assms(2-4) pos(1) by (simp add: SetPairRate_def n Let_def)
  have u: "usd_rate ?e ''USD'' = mid" "usd_rate ?e ''EUR'' = usd_rate e ''EUR''"
    by (simp_all add: usd_rate_def override_usd_def update_conv')
  have o: "map_of (fe_pairOverrides ?e) (pair_key ''EUR'' ''USD'') = None"
    using assms(5) by (simp add: update_conv' pair_key_def)
  have g: "GetRate ?e ''EUR'' ''USD'' = Inr (rateDocToProto (computeRateDoc ''EUR'' ''USD''
      (xdiv mid (usd_rate e ''EUR'')) (fe_spreadBps ?e) (fe_sourceProvider ?e) (fe_lastSyncedAt ?e)))"
    unfolding GetRate_def Let_def n o u using pos n by simp
  show ?thesis unfolding run prod.case sum.case fst_conv g
    using u by (simp add: rateDocToProto_def computeRateDoc_def Let_def)
qed

text \<open>
  A rate that is not a number passes the check of \<open>mid_rate\<close>, since no comparison with it holds,
  and every quote at that rate offers the least \<open>int64\<close>.
\<close>

lemma SetPairRate_accepts_NaN:
  "0 \<le> sp \<Longrightarrow> sp < 5000 \<Longrightarrow> \<exists>st r. SetPairRate E ''EUR'' ''GBP'' NaN sp prov (e, db) = (st, Inr r)
     \<and> er_EffectiveRate r = NaN"
proof -
  have n: "NormalizeCurrency ''EUR'' = ''EUR''" "NormalizeCurrency ''GBP'' = ''GBP''"
    "IsValidCurrency ''EUR''" "IsValidCurrency ''GBP''" by code_simp+
  assume "0 \<le> sp" "sp < 5000"
  then show ?thesis by (simp add: SetPairRate_def n Let_def rateDocToProto_def computeRateDoc_def)
qed

lemma NaN_quote: "0 < u \<Longrightarrow> ConvertAtRate u b t NaN = - (2 ^ 63)"
  by (simp add: ConvertAtRate_def)

end
