(* ===== verification/FxServer.thy ===== *)
theory FxServer
  imports FxSound
begin

text \<open>
  The front ends of the FX service: the gRPC handlers of \<open>cmd/fx-service/main.go\<close> and the REST
  interface for partners of \<open>cmd/fx-service/http_server.go\<close>. Log events and response headers are
  left out. The body of an HTTP request is given as JSON decoding leaves it; the router
  matches paths exactly.
\<close>

subsection \<open>gRPC\<close>

definition status_error :: "gocode \<Rightarrow> gomsg \<Rightarrow> goerr" where
  "status_error code err = StatusErr code (Msg ''%v'' [ArgE err])"

definition GetExchangeRate :: "FXEngine \<Rightarrow> (string \<times> string) option \<Rightarrow> ExchangeRate grpc" where
  "GetExchangeRate e req =
     (let missing = (None, Some (StatusErr InvalidArgument (lit ''base_currency and target_currency are required'')))
      in case req of
           None \<Rightarrow> missing
         | Some (base, target) \<Rightarrow>
             if TrimSpace base = [] \<or> TrimSpace target = [] then missing
             else (case GetRate e base target of
                     Inl err \<Rightarrow> (None, Some (status_error InvalidArgument err))
                   | Inr rate \<Rightarrow> (Some rate, None)))"

record ListExchangeRatesResponse =
  lr_BaseCurrency :: string
  lr_Rates :: "ExchangeRate list"
  lr_SourceProvider :: string
  lr_UpdatedAt :: string

definition ListExchangeRates :: "FXEngine \<Rightarrow> string option \<Rightarrow> ListExchangeRatesResponse grpc" where
  "ListExchangeRates e req =
     (let base = (case req of Some b \<Rightarrow> if TrimSpace b \<noteq> [] then b else ''USD'' | None \<Rightarrow> ''USD'')
      in case ListRates e base of
           Inl err \<Rightarrow> (None, Some (status_error InvalidArgument err))
         | Inr (rates, prov, ts) \<Rightarrow>
             (Some \<lparr>lr_BaseCurrency = NormalizeCurrency base, lr_Rates = rates, lr_SourceProvider = prov,
                    lr_UpdatedAt = ts\<rparr>, None))"

record CreateQuoteRequest =
  cq_BaseCurrency :: string
  cq_TargetCurrency :: string
  cq_SourceAmount :: int64
  cq_ClientId :: string
  cq_TtlSeconds :: int32

definition fxServer_CreateQuote ::
    "fx_env \<Rightarrow> CreateQuoteRequest option \<Rightarrow> fx_state \<Rightarrow> fx_state \<times> Quote grpc" where
  "fxServer_CreateQuote E req st =
     (case req of
        None \<Rightarrow> (st, None, Some (StatusErr InvalidArgument (lit ''create quote request is required'')))
      | Some r \<Rightarrow>
          (case CreateQuote E (cq_BaseCurrency r) (cq_TargetCurrency r) (cq_SourceAmount r) (cq_ClientId r)
                  (cq_TtlSeconds r) st of
             (st, Inl err) \<Rightarrow> (st, None, Some (status_error InvalidArgument err))
           | (st, Inr quote) \<Rightarrow> (st, Some quote, None)))"

definition fxServer_GetQuote :: "fx_env \<Rightarrow> string option \<Rightarrow> fx_state \<Rightarrow> fx_state \<times> Quote grpc" where
  "fxServer_GetQuote E req st =
     (let missing = (st, None, Some (StatusErr InvalidArgument (lit ''quote_id is required'')))
      in case req of
           None \<Rightarrow> missing
         | Some quoteID \<Rightarrow>
             if TrimSpace quoteID = [] then missing
             else (case GetQuote E quoteID st of
                     (st, Inl err) \<Rightarrow> (st, None, Some (status_error NotFound err))
                   | (st, Inr quote) \<Rightarrow> (st, Some quote, None)))"

definition fxServer_ConvertCurrency ::
    "fx_env \<Rightarrow> ConvertCurrencyRequest option \<Rightarrow> fx_state \<Rightarrow> fx_state \<times> ConversionResponse grpc" where
  "fxServer_ConvertCurrency E req st =
     (case req of
        None \<Rightarrow> (st, None, Some (StatusErr InvalidArgument (lit ''convert currency request is required'')))
      | Some r \<Rightarrow>
          (case ConvertCurrency E (Some r) st of
             (st, Inl err) \<Rightarrow> (st, None, Some (status_error InvalidArgument err))
           | (st, Inr resp) \<Rightarrow> (st, Some resp, None)))"

record UpdateExchangeRateRequest =
  ue_BaseCurrency :: string
  ue_TargetCurrency :: string
  ue_MidRate :: gofloat
  ue_SpreadBps :: int32
  ue_TriggerUpstreamSync :: bool
  ue_SourceProvider :: string

record UpdateExchangeRateResponse =
  ur_Success :: bool
  ur_Message :: gomsg
  ur_PairsUpdated :: int32
  ur_SourceProvider :: string
  ur_UpdatedAt :: string

text \<open>\<open>fetched\<close> is what the rate provider answers if it is asked; clock reading 200 follows those of
  the synchronisation.\<close>

definition UpdateExchangeRate ::
    "fx_env \<Rightarrow> gomsg + RateSnapshot \<Rightarrow> UpdateExchangeRateRequest option \<Rightarrow> fx_state
       \<Rightarrow> fx_state \<times> UpdateExchangeRateResponse grpc" where
  "UpdateExchangeRate E fetched req st =
     (case req of
        None \<Rightarrow> (st, None, Some (StatusErr InvalidArgument (lit ''update request is required'')))
      | Some r \<Rightarrow>
          if ue_TriggerUpstreamSync r
          then (case SyncUpstreamRates E fetched st of
                  (st, Inl err) \<Rightarrow>
                    (st, None, Some (StatusErr Internal
                       (Msg ''upstream 3rd-party rate sync failed: %v'' [ArgE err])))
                | (st, Inr (pairs, prov)) \<Rightarrow>
                    (st, Some \<lparr>ur_Success = True,
                               ur_Message = Msg ''Synced %d FX pairs from %s'' [ArgD pairs, ArgS prov],
                               ur_PairsUpdated = wrap32 pairs, ur_SourceProvider = prov,
                               ur_UpdatedAt = FormatRFC3339 (fx_now E 200)\<rparr>, None))
          else (case SetPairRate E (ue_BaseCurrency r) (ue_TargetCurrency r) (ue_MidRate r) (ue_SpreadBps r)
                       (ue_SourceProvider r) st of
                  (st, Inl err) \<Rightarrow> (st, None, Some (status_error InvalidArgument err))
                | (st, Inr rate) \<Rightarrow>
                    (st, Some \<lparr>ur_Success = True,
                               ur_Message = Msg ''Updated FX pair %s/%s (mid=%.6f, effective=%.6f)''
                                 [ArgS (er_BaseCurrency rate), ArgS (er_TargetCurrency rate),
                                  ArgS (show_f (er_MidRate rate)), ArgS (show_f (er_EffectiveRate rate))],
                               ur_PairsUpdated = 1, ur_SourceProvider = er_SourceProvider rate,
                               ur_UpdatedAt = er_UpdatedAt rate\<rparr>, None)))"

record FXHealthResponse =
  fh_Status :: string
  fh_SourceProvider :: string
  fh_SupportedCurrencies :: int32
  fh_ActivePairs :: int32
  fh_LastSyncedAt :: string

definition fxServer_HealthCheck :: "FXEngine \<Rightarrow> FXHealthResponse" where
  "fxServer_HealthCheck e =
     (let (prov, curCount, pairCount, syncedAt) = HealthSummary e
      in \<lparr>fh_Status = ''SERVING'', fh_SourceProvider = prov, fh_SupportedCurrencies = curCount,
          fh_ActivePairs = pairCount, fh_LastSyncedAt = syncedAt\<rparr>)"

subsection \<open>HTTP\<close>

record quote_body =
  qb_BaseCurrency :: string
  qb_TargetCurrency :: string
  qb_SourceAmount :: int64
  qb_Amount :: int64
  qb_ClientID :: string
  qb_TTLSeconds :: int32

record convert_body =
  cb_IdempotencyKey :: string
  cb_QuoteID :: string
  cb_BaseCurrency :: string
  cb_TargetCurrency :: string
  cb_SourceAmount :: int64
  cb_Amount :: int64
  cb_ClientID :: string
  cb_ReferenceID :: string

record fx_http_request =
  hr_Method :: string
  hr_Path :: string
  hr_Query :: "string \<Rightarrow> string"
  hr_Header :: "string \<Rightarrow> string"
  hr_QuoteBody :: "gomsg + quote_body"
  hr_ConvertBody :: "gomsg + convert_body"
  hr_RefreshBody :: UpdateExchangeRateRequest

datatype fx_payload =
    NoPayload
  | PayloadError gomsg
  | PayloadGrpcError goerr
  | PayloadStatus string
  | PayloadHealth FXHealthResponse
  | PayloadCurrencies "CurrencyInfo list"
  | PayloadRate ExchangeRate
  | PayloadRates ListExchangeRatesResponse
  | PayloadQuote Quote
  | PayloadConversion ConversionResponse
  | PayloadUpdate UpdateExchangeRateResponse

type_synonym fx_http_response = "int \<times> fx_payload"

definition method_not_allowed :: fx_http_response where
  "method_not_allowed = (405, PayloadError (lit ''Method not allowed''))"

text \<open>The first of two query parameters that is not blank.\<close>

definition query_either :: "fx_http_request \<Rightarrow> string \<Rightarrow> string \<Rightarrow> string" where
  "query_either r a b = (let v = TrimSpace (hr_Query r a) in if v = [] then TrimSpace (hr_Query r b) else v)"

text \<open>\<open>err.Error()\<close> and the payload of a gRPC answer, with the codes of the two outcomes.\<close>

definition http_answer :: "int \<Rightarrow> int \<Rightarrow> ('r \<Rightarrow> fx_payload) \<Rightarrow> 'r grpc \<Rightarrow> fx_http_response" where
  "http_answer good bad f g =
     (case g of
        (r, Some err) \<Rightarrow> (bad, PayloadGrpcError err)
      | (Some r, None) \<Rightarrow> (good, f r)
      | (None, None) \<Rightarrow> (good, NoPayload))"

definition handleHTTPRates :: "FXEngine \<Rightarrow> fx_http_request \<Rightarrow> fx_http_response" where
  "handleHTTPRates e r =
     (if hr_Method r \<noteq> ''GET'' then method_not_allowed
      else let base = query_either r ''base'' ''base_currency'';
               base = (if base = [] then ''USD'' else base);
               target = query_either r ''target'' ''target_currency''
           in if target \<noteq> [] then http_answer 200 400 PayloadRate (GetExchangeRate e (Some (base, target)))
              else http_answer 200 400 PayloadRates (ListExchangeRates e (Some base)))"

definition handleHTTPQuotes :: "fx_env \<Rightarrow> fx_http_request \<Rightarrow> fx_state \<Rightarrow> fx_state \<times> fx_http_response" where
  "handleHTTPQuotes E r st =
     (if hr_Method r = ''GET''
      then (case fxServer_GetQuote E (Some (query_either r ''quote_id'' ''id'')) st of
              (st, g) \<Rightarrow> (st, http_answer 200 404 PayloadQuote g))
      else if hr_Method r = ''POST''
      then (case hr_QuoteBody r of
              Inl err \<Rightarrow> (st, 400, PayloadError (Msg ''invalid JSON body: %v'' [ArgE err]))
            | Inr body \<Rightarrow>
                let amt = (if qb_SourceAmount body \<le> 0 then qb_Amount body else qb_SourceAmount body);
                    clientID = TrimSpace (qb_ClientID body);
                    clientID = (if clientID = [] then TrimSpace (hr_Header r ''X-Client-ID'') else clientID)
                in case fxServer_CreateQuote E (Some
                          \<lparr>cq_BaseCurrency = qb_BaseCurrency body, cq_TargetCurrency = qb_TargetCurrency body,
                           cq_SourceAmount = amt, cq_ClientId = clientID, cq_TtlSeconds = qb_TTLSeconds body\<rparr>) st of
                     (st, g) \<Rightarrow> (st, http_answer 201 400 PayloadQuote g))
      else (st, method_not_allowed))"

definition handleHTTPConvert :: "fx_env \<Rightarrow> fx_http_request \<Rightarrow> fx_state \<Rightarrow> fx_state \<times> fx_http_response" where
  "handleHTTPConvert E r st =
     (if hr_Method r \<noteq> ''POST'' then (st, method_not_allowed)
      else case hr_ConvertBody r of
             Inl err \<Rightarrow> (st, 400, PayloadError (Msg ''invalid JSON body: %v'' [ArgE err]))
           | Inr body \<Rightarrow>
               let amt = (if cb_SourceAmount body \<le> 0 then cb_Amount body else cb_SourceAmount body);
                   clientID = TrimSpace (cb_ClientID body);
                   clientID = (if clientID = [] then TrimSpace (hr_Header r ''X-Client-ID'') else clientID);
                   clientID = (if clientID = [] then ''3rd-party-http-client'' else clientID)
               in case fxServer_ConvertCurrency E (Some
                         \<lparr>cc_IdempotencyKey = cb_IdempotencyKey body, cc_QuoteId = cb_QuoteID body,
                          cc_BaseCurrency = cb_BaseCurrency body, cc_TargetCurrency = cb_TargetCurrency body,
                          cc_SourceAmount = amt, cc_ClientId = clientID, cc_ReferenceId = cb_ReferenceID body\<rparr>) st of
                    (st, g) \<Rightarrow> (st, http_answer 200 400 PayloadConversion g))"

definition handleHTTPRefreshRates ::
    "fx_env \<Rightarrow> gomsg + RateSnapshot \<Rightarrow> fx_http_request \<Rightarrow> fx_state \<Rightarrow> fx_state \<times> fx_http_response" where
  "handleHTTPRefreshRates E fetched r st =
     (if hr_Method r \<noteq> ''POST'' then (st, method_not_allowed)
      else let body = hr_RefreshBody r;
               body = (if ue_BaseCurrency body = [] \<and> ue_TargetCurrency body = [] \<and> ue_MidRate body = Fin 0
                       then body\<lparr>ue_TriggerUpstreamSync := True\<rparr> else body)
           in case UpdateExchangeRate E fetched (Some body) st of
                (st, g) \<Rightarrow> (st, http_answer 200 400 PayloadUpdate g))"

definition partner_keys :: "string \<Rightarrow> string list" where
  "partner_keys apiKey =
     (let apiKey = TrimSpace apiKey
      in if apiKey = [] then [] else filter (\<lambda>k. k \<noteq> []) (map TrimSpace (Split (CHR '','') apiKey)))"

definition bearer_of :: "string \<Rightarrow> string" where
  "bearer_of authorization =
     (let authHeader = TrimSpace authorization
      in if HasPrefix (ToLower authHeader) ''bearer '' then TrimSpace (drop 7 authHeader) else authHeader)"

definition fxPartnerAuthMiddleware :: "string \<Rightarrow> fx_http_request \<Rightarrow> bool" where
  "fxPartnerAuthMiddleware apiKey r \<longleftrightarrow>
     partner_keys apiKey = [] \<or> \<not> HasPrefix (hr_Path r) ''/api/v1/''
     \<or> TrimSpace (hr_Header r ''X-API-Key'') \<in> set (partner_keys apiKey)
     \<or> bearer_of (hr_Header r ''Authorization'') \<in> set (partner_keys apiKey)"

definition fx_mux ::
    "fx_env \<Rightarrow> gomsg + RateSnapshot \<Rightarrow> fx_http_request \<Rightarrow> fx_state \<Rightarrow> fx_state \<times> fx_http_response" where
  "fx_mux E fetched r st =
     (let health = fxServer_HealthCheck (fst st); path = hr_Path r
      in if path = ''/healthz'' then (st, 200, PayloadHealth health)
         else if path = ''/readyz''
         then (if fh_ActivePairs health = 0 then (st, 503, PayloadStatus ''NOT_READY'')
               else (st, 200, PayloadHealth (health\<lparr>fh_Status := ''READY''\<rparr>)))
         else if path = ''/api/v1/fx/currencies''
         then (if hr_Method r \<noteq> ''GET'' then (st, method_not_allowed)
               else (st, 200, PayloadCurrencies ListSupportedCurrencies))
         else if path = ''/api/v1/fx/rates'' then (st, handleHTTPRates (fst st) r)
         else if path = ''/api/v1/fx/quotes'' then handleHTTPQuotes E r st
         else if path = ''/api/v1/fx/convert'' then handleHTTPConvert E r st
         else if path = ''/api/v1/fx/rates/refresh'' then handleHTTPRefreshRates E fetched r st
         else (st, 404, PayloadError (lit ''404 page not found'')))"

definition buildFXHTTPHandler ::
    "fx_env \<Rightarrow> gomsg + RateSnapshot \<Rightarrow> string \<Rightarrow> fx_http_request \<Rightarrow> fx_state \<Rightarrow> fx_state \<times> fx_http_response" where
  "buildFXHTTPHandler E fetched apiKey r st =
     (if hr_Method r = ''OPTIONS'' then (st, 204, NoPayload)
      else if fxPartnerAuthMiddleware apiKey r then fx_mux E fetched r st
      else (st, 401, PayloadError
             (lit ''Unauthorized: valid X-API-Key or Authorization Bearer token required for 3rd-party FX access'')))"

subsection \<open>Access of partners\<close>

lemma partner_keys_nonempty: "[] \<notin> set (partner_keys apiKey)"
  by (auto simp: partner_keys_def Let_def)

text \<open>
  Where partner keys are configured, a request that presents none of them changes
  nothing, and every path of the interface under \<open>/api/v1/\<close> refuses it with 401 (a preflight
  request is answered with 204). A blank key is never accepted.
\<close>

lemma fx_http_guarded:
  assumes "partner_keys apiKey \<noteq> []"
    and "TrimSpace (hr_Header r ''X-API-Key'') \<notin> set (partner_keys apiKey)"
    and "bearer_of (hr_Header r ''Authorization'') \<notin> set (partner_keys apiKey)"
    and "buildFXHTTPHandler E fetched apiKey r st = (st', code, payload)"
  shows "st' = st \<and> (HasPrefix (hr_Path r) ''/api/v1/'' \<longrightarrow>
      code = (if hr_Method r = ''OPTIONS'' then 204 else 401)) \<and> [] \<notin> set (partner_keys apiKey)"
proof -
  have no: "\<not> HasPrefix (hr_Path r) ''/api/v1/'' \<Longrightarrow> fst (fx_mux E fetched r st) = st"
    by (auto simp: fx_mux_def Let_def)
  show ?thesis using assms no partner_keys_nonempty [of apiKey]
    by (auto simp: buildFXHTTPHandler_def fxPartnerAuthMiddleware_def split: if_splits)
qed

definition sample_http :: "string \<Rightarrow> fx_http_request" where
  "sample_http key =
     \<lparr>hr_Method = ''POST'', hr_Path = ''/api/v1/fx/rates/refresh'', hr_Query = (\<lambda>_. []),
      hr_Header = (\<lambda>h. if h = ''X-API-Key'' then key else []), hr_QuoteBody = Inl (lit ''EOF''),
      hr_ConvertBody = Inl (lit ''EOF''),
      hr_RefreshBody = \<lparr>ue_BaseCurrency = ''USD'', ue_TargetCurrency = ''EUR'', ue_MidRate = Fin 2, ue_SpreadBps = 0,
        ue_TriggerUpstreamSync = False, ue_SourceProvider = []\<rparr>\<rparr>"

end
