(* ===== verification/WalletFx.thy ===== *)
theory WalletFx
  imports FxServer WalletOpsProofs
begin

text \<open>
  The wallet service with the FX service behind its client. What the wallet service pays out
  in an exchange is what the FX service has recorded.
\<close>

text \<open>
  The client of \<open>proto/fx\<close> as the wallet service holds it, served by an FX pod in state \<open>fs\<close>: the
  response carries the amount, the rate and the quote of the conversion. The rate of a
  conversion that is not finite is not read, since its amount is below zero.
\<close>

definition fx_client_of :: "fx_env \<Rightarrow> fx_state \<Rightarrow> fx_client" where
  "fx_client_of F fs req =
     (case snd (fxServer_ConvertCurrency F (Some req) fs) of
        (resp, Some err) \<Rightarrow> Inl (Msg ''rpc error'' [])
      | (None, None) \<Rightarrow> Inr None
      | (Some resp, None) \<Rightarrow>
          Inr (Some \<lparr>cr_TargetAmount = cv_TargetAmount resp,
                     cr_EffectiveRate = (case cv_EffectiveRate resp of Fin r \<Rightarrow> r | _ \<Rightarrow> 0),
                     cr_QuoteId = cv_QuoteId resp\<rparr>))"

definition exchange_fx_request :: "'l2 wallet_env \<Rightarrow> ExchangeCurrencyRequest \<Rightarrow> ConvertCurrencyRequest" where
  "exchange_fx_request E req =
     \<lparr>cc_IdempotencyKey = ''wallet_exchange_'' @ exchange_key req, cc_QuoteId = TrimSpace (xc_FxQuoteId req),
      cc_BaseCurrency = NormalizeCurrency (xc_FromCurrency req),
      cc_TargetCurrency = NormalizeCurrency (xc_ToCurrency req), cc_SourceAmount = xc_FromAmount req,
      cc_ClientId = walletServiceName, cc_ReferenceId = e_oid E 0\<rparr>"

lemma fx_client_answer:
  assumes "ConvertCurrency F (Some creq) fs = (fs', Inr resp)"
  shows "fx_client_of F fs creq = Inr (Some \<lparr>cr_TargetAmount = cv_TargetAmount resp,
    cr_EffectiveRate = (case cv_EffectiveRate resp of Fin r \<Rightarrow> r | _ \<Rightarrow> 0), cr_QuoteId = cv_QuoteId resp\<rparr>)"
  using assms by (simp add: fx_client_of_def fxServer_ConvertCurrency_def)

lemma exchange_terms_fx:
  assumes "s_fxClient (e_srv E) = Some (fx_client_of F fs)"
    and "ConvertCurrency F (Some (exchange_fx_request E req)) fs = (fs', Inr resp)"
    and "0 < cv_TargetAmount resp"
  shows "exchange_terms E req = (cv_TargetAmount resp,
    (case cv_EffectiveRate resp of Fin r \<Rightarrow> r | _ \<Rightarrow> 0), cv_QuoteId resp)"
  using assms fx_client_answer [OF assms(2)]
  by (simp add: exchange_terms_def exchange_rate_for_def exchange_fx_request_def)

text \<open>What a completed conversion says of the request.\<close>

lemma CreateQuote_terms:
  "CreateQuote F b t a c l st = (st', Inr q) \<Longrightarrow>
     qt_BaseCurrency q = NormalizeCurrency b \<and> qt_TargetCurrency q = NormalizeCurrency t \<and> qt_SourceAmount q = a"
  by (auto simp: CreateQuote_def Let_def case_prod_unfold quoteDocToProto_def new_quote_def
      split: option.splits sum.splits if_splits)

lemma path_terms:
  assumes "(if q \<noteq> [] then quote_path F r q st else spot_path F r c st) = (st', Inr t)"
    and "0 < cc_SourceAmount r" and "cc_BaseCurrency r \<noteq> []" and "cc_TargetCurrency r \<noteq> []"
  shows "ct_SourceAmount t = cc_SourceAmount r \<and> ct_Base t = NormalizeCurrency (cc_BaseCurrency r)
    \<and> ct_Target t = NormalizeCurrency (cc_TargetCurrency r)"
proof (cases "q = []")
  case True
  then obtain s1 p where "CreateQuote F (NormalizeCurrency (cc_BaseCurrency r)) (NormalizeCurrency (cc_TargetCurrency r))
      (cc_SourceAmount r) c defaultQuoteTTLSeconds st = (s1, Inr p)" "t = terms_of_proto p"
    using assms(1) by (auto simp: spot_path_def Let_def split: option.splits sum.splits prod.splits if_splits)
  then show ?thesis using CreateQuote_terms by (fastforce simp: terms_of_proto_def)
next
  case False
  then obtain s1 d where "loadQuoteDoc F q st = (s1, Inr d)" "quote_mismatch r d = None" "t = terms_of_quote q d"
    using assms(1) by (auto simp: quote_path_def split: prod.splits sum.splits option.splits)
  then show ?thesis using assms(2-4) by (auto simp: terms_of_quote_def quote_mismatch_def split: if_splits)
qed

lemma completed_matches_request:
  assumes "ConvertCurrency F (Some r) st = (st', Inr resp)" and "cv_Status resp = ConversionStatusCompleted"
    and "0 < cc_SourceAmount r" and "cc_BaseCurrency r \<noteq> []" and "cc_TargetCurrency r \<noteq> []"
  shows "cv_SourceAmount resp = cc_SourceAmount r \<and> cv_BaseCurrency resp = NormalizeCurrency (cc_BaseCurrency r)
    \<and> cv_TargetCurrency resp = NormalizeCurrency (cc_TargetCurrency r)"
proof -
  let ?k = "TrimSpace (cc_IdempotencyKey r)" and ?q = "TrimSpace (cc_QuoteId r)" and ?c = "conversion_client r"
  obtain s1 x where f: "findExistingConversion F 0 ?k st = (s1, x)" by (rule prod.exhaust)
  have x: "x = None" and k: "?k \<noteq> []"
    using assms(1,2)
    by (auto simp: ConvertCurrency_def Let_def f conversionDocToProto_def fx_status_defs
        split: option.splits if_splits)
  let ?s2 = "fx_others F 14 s1"
  obtain s3 r3 where p: "(if ?q \<noteq> [] then quote_path F r ?q ?s2 else spot_path F r ?c ?s2) = (s3, r3)"
    by (rule prod.exhaust)
  obtain t where t: "r3 = Inr t"
    using assms(1) p by (cases r3) (auto simp: ConvertCurrency_def Let_def f x k)
  have "record_conversion F ?k (conversion_doc F r ?k ?c t) s3 = (st', resp)"
    using assms(1) p t by (auto simp: ConvertCurrency_def Let_def f x k split: prod.splits)
  then have "resp = conversionDocToProto (conversion_doc F r ?k ?c t) ConversionStatusCompleted"
    using record_conversion_completed assms(2) by blast
  then show ?thesis using path_terms [OF p [unfolded t] assms(3-5)]
    by (simp add: conversionDocToProto_def conversion_doc_def)
qed


text \<open>An FX pod that converted a hundred dollars under the key of an exchange.\<close>

definition earlier_conversion :: ConversionDoc where
  "earlier_conversion =
     \<lparr>v_ConversionID = ''fxc_1'', v_IdempotencyKey = ''wallet_exchange_key-8'', v_QuoteID = ''fxq_1'',
      v_BaseCurrency = ''USD'', v_TargetCurrency = ''EUR'', v_SourceAmount = 10000, v_TargetAmount = 5000,
      v_FeeAmount = 0, v_MidRate = Fin (1 / 2), v_EffectiveRate = Fin (1 / 2), v_SpreadBps = 0,
      v_ClientID = ''wallet-service'', v_ReferenceID = ''o'', v_SourceProvider = ''p'', v_ExecutedAt = 0\<rparr>"

definition fx_pod :: fx_state where
  "fx_pod =
     (\<lparr>fe_usdRates = [(''USD'', Fin 1), (''EUR'', Fin (1 / 2))], fe_pairOverrides = [], fe_quotesMem = [],
       fe_conversionsMem = [(''wallet_exchange_key-8'', earlier_conversion)], fe_spreadBps = 0, fe_feeBps = 0,
       fe_sourceProvider = ''p'', fe_lastSyncedAt = 0, fe_fxDB = False\<rparr>, empty_fx_db)"

definition pod_client :: fx_client where
  "pod_client = fx_client_of (quiet_env []) fx_pod"

definition exchange_env :: "MemoryCache wallet_env" where
  "exchange_env = sample_env\<lparr>e_srv := sample_server\<lparr>s_fxClient := Some pod_client\<rparr>\<rparr>"

definition small_exchange :: ExchangeCurrencyRequest where
  "small_exchange = sample_exchange\<lparr>xc_FromAmount := 1\<rparr>"

definition small_run :: "MemoryCache wallet_state \<times> ExchangeCurrencyResponse grpc" where
  "small_run = ExchangeCurrency exchange_env run_once None (Some small_exchange) (sample_state [])"

lemma earlier_conversion_ok: "conversion_ok earlier_conversion"
  by code_simp

lemma fx_pod_ok: "fx_ok fx_pod"
  by (simp add: fx_pod_def fx_ok_def book_ok_def book_rate_def usd_rate_def empty_fx_db_def earlier_conversion_ok)

lemma fx_pod_remembers: "remembered ''wallet_exchange_key-8'' earlier_conversion fx_pod"
  by (simp add: fx_pod_def remembered_def)

text \<open>What the client answers for that key, as an equation to compute with.\<close>

lemma pod_client_code [code]:
  "pod_client req =
     (if TrimSpace (cc_IdempotencyKey req) = ''wallet_exchange_key-8''
      then Inr (Some \<lparr>cr_TargetAmount = 5000, cr_EffectiveRate = 1 / 2, cr_QuoteId = ''fxq_1''\<rparr>)
      else fx_client_of (quiet_env []) fx_pod req)"
  using fx_pod_remembers
  by (simp add: pod_client_def fx_client_of_def fxServer_ConvertCurrency_def ConvertCurrency_def
      findExistingConversion_def remembered_def conversionDocToProto_def earlier_conversion_def)

lemma small_exchange_key:
  "exchange_key small_exchange = ''key-8''" "TrimSpace ''wallet_exchange_key-8'' = ''wallet_exchange_key-8''"
  "NormalizeCurrency (xc_FromCurrency small_exchange) = ''USD''"
  "NormalizeCurrency (xc_ToCurrency small_exchange) = ''EUR''" "xc_FromAmount small_exchange = 1"
  by code_simp+


text \<open>
  C32. The amount of a replayed conversion is paid whatever is taken: when the FX service has
  already converted under the key of an exchange that the wallet service did not commit, a
  later exchange with that key debits the amount it names and credits the amount of the
  earlier conversion, even if the two have nothing to do with each other.
\<close>

theorem exchange_replay_pays_other_amount:
  assumes "wallet_store drv" and "transaction_runner WT" and "e_drv E = drv"
    and "wallets_ok (d_wallets (st_db st))"
    and "ExchangeCurrency E WT ctx (Some req) st = (st', resp)"
    and "exchange_answer resp = Some txnID"
    and "exchange_key req \<notin> i_ID ` set (d_idempotency (st_db st))"
    and "s_fxClient (e_srv E) = Some (fx_client_of F fs)"
    and "remembered (''wallet_exchange_'' @ exchange_key req) c fs" and "0 < v_TargetAmount c"
    and "TrimSpace (''wallet_exchange_'' @ exchange_key req) = ''wallet_exchange_'' @ exchange_key req"
    and "NormalizeCurrency (xc_FromCurrency req) \<noteq> NormalizeCurrency (xc_ToCurrency req)"
  shows "pot_total (NormalizeCurrency (xc_FromCurrency req)) (d_wallets (st_db st'))
      = pot_total (NormalizeCurrency (xc_FromCurrency req)) (d_wallets (st_db st)) - xc_FromAmount req
    \<and> pot_total (NormalizeCurrency (xc_ToCurrency req)) (d_wallets (st_db st'))
      = pot_total (NormalizeCurrency (xc_ToCurrency req)) (d_wallets (st_db st)) + v_TargetAmount c"
proof -
  have "ConvertCurrency F (Some (exchange_fx_request E req)) fs
      = (fs, Inr (conversionDocToProto c ConversionStatusReplay))"
    using assms(9,11) by (simp add: ConvertCurrency_def findExistingConversion_def remembered_def exchange_fx_request_def)
  then have t: "fst (exchange_terms E req) = v_TargetAmount c"
    using exchange_terms_fx [OF assms(8)] assms(10) by (simp add: conversionDocToProto_def)
  show ?thesis
    using wallet_store.op_outcome_effect [OF assms(1) wallet_store.ExchangeCurrency_outcome [OF assms(1-5)] assms(3)]
      assms(6,7,12) t
    by (simp add: exchange_pots_def)
qed

theorem exchange_replay_pays_other_amount_witness:
  "pot_total ''USD'' (d_wallets (st_db (fst small_run))) = 104999
   \<and> pot_total ''EUR'' (d_wallets (st_db (fst small_run))) = 6400"
proof -
  have "exchange_answer (snd small_run) = Some ''o''" "pot_total ''USD'' (d_wallets (st_db (sample_state []))) = 105000"
    "pot_total ''EUR'' (d_wallets (st_db (sample_state []))) = 1400" "d_idempotency (st_db (sample_state [])) = []"
    by code_simp+
  moreover have "v_TargetAmount earlier_conversion = 5000" by (simp add: earlier_conversion_def)
  ultimately show ?thesis
    using exchange_replay_pays_other_amount [OF sample_laws(1,2), of exchange_env "sample_state []" None small_exchange
        "fst small_run" "snd small_run" "''o''" "quiet_env []" fx_pod earlier_conversion]
      sample_laws(3,4) fx_pod_remembers
    by (auto simp: small_exchange_key small_run_def exchange_env_def pod_client_def)
qed

end
