(* ===== verification/Tokens.thy ===== *)
theory Tokens
  imports WalletTypes Encoding
begin

text \<open>
  Claims and bearer tokens (\<open>pkg/auth/jwt.go\<close>), with HMAC-SHA256 (\<open>crypto/hmac\<close>, RFC 2104) and
  unpadded URL-safe base64 of Go's standard library.
\<close>

subsection \<open>HMAC and base64\<close>

definition hmac_pad :: "int \<Rightarrow> string \<Rightarrow> string" where
  "hmac_pad b key =
     (let k = (if 64 < length key then Sum256 key else map of_char key)
      in map (\<lambda>x. char_of (xor x b)) (k @ replicate (64 - length k) 0))"

definition hmac_sha256 :: "string \<Rightarrow> string \<Rightarrow> int list" where
  "hmac_sha256 key msg = Sum256 (hmac_pad 92 key @ map char_of (Sum256 (hmac_pad 54 key @ msg)))"

text \<open>\<open>base64.RawURLEncoding\<close>\<close>

definition url_char :: "char \<Rightarrow> char" where
  "url_char c = (if c = CHR ''+'' then CHR ''-'' else if c = CHR ''/'' then CHR ''_'' else c)"

definition RawURL_EncodeToString :: "int list \<Rightarrow> string" where
  "RawURL_EncodeToString bs = map url_char (filter (\<lambda>c. c \<noteq> CHR ''='') (b64_encode bs))"

subsection \<open>Claims\<close>

record Claims =
  cl_Subject :: string
  cl_Roles :: "string list"
  cl_Scopes :: "string list"
  cl_Issuer :: string
  cl_Audience :: string
  cl_IssuedAt :: int64
  cl_ExpiresAt :: int64

definition RoleUser :: string where "RoleUser = ''user''"
definition RoleAdmin :: string where "RoleAdmin = ''admin''"
definition ScopeWalletRead :: string where "ScopeWalletRead = ''wallet:read''"
definition ScopeWalletTransfer :: string where "ScopeWalletTransfer = ''wallet:transfer''"
definition ScopeClusterAdmin :: string where "ScopeClusterAdmin = ''cluster:admin''"
definition ScopeLedgerAudit :: string where "ScopeLedgerAudit = ''ledger:audit''"

definition ErrMissingAuthHeader :: gomsg where "ErrMissingAuthHeader = lit ''authorization header required''"
definition ErrInvalidAuthFormat :: gomsg where
  "ErrInvalidAuthFormat = lit ''authorization format must be Bearer <token>''"
definition ErrInsufficientPerms :: gomsg where
  "ErrInsufficientPerms = lit ''insufficient permissions for resource''"
definition ErrIDORViolation :: gomsg where
  "ErrIDORViolation = lit ''subject is not authorized to act on this wallet''"

definition Claims_HasRole :: "Claims \<Rightarrow> string \<Rightarrow> bool" where
  "Claims_HasRole c role = list_ex (\<lambda>r. EqualFold r role) (cl_Roles c)"

definition Claims_HasScope :: "Claims \<Rightarrow> string \<Rightarrow> bool" where
  "Claims_HasScope c scope =
     (if Claims_HasRole c RoleAdmin then True else list_ex (\<lambda>s. EqualFold s scope) (cl_Scopes c))"

text \<open>\<open>strings.SplitN(s, sep, 2)\<close> for a one-byte separator.\<close>

definition SplitN2 :: "char \<Rightarrow> string \<Rightarrow> string list" where
  "SplitN2 sep s =
     (if sep \<in> set s then [takeWhile (\<lambda>c. c \<noteq> sep) s, tl (dropWhile (\<lambda>c. c \<noteq> sep) s)] else [s])"

definition ExtractBearerToken :: "string \<Rightarrow> gomsg + string" where
  "ExtractBearerToken authHeader =
     (if authHeader = [] then Inl ErrMissingAuthHeader
      else case SplitN2 (CHR '' '') authHeader of
             [scheme, rest] \<Rightarrow>
               if \<not> EqualFold scheme ''Bearer'' then Inl ErrInvalidAuthFormat
               else let token = TrimSpace rest
                    in if token = [] then Inl ErrInvalidAuthFormat else Inr token
           | _ \<Rightarrow> Inl ErrInvalidAuthFormat)"

lemma ExtractBearerToken_nonempty: "ExtractBearerToken h = Inr t \<Longrightarrow> t \<noteq> [] \<and> TrimSpace t = t"
  by (auto simp: ExtractBearerToken_def Let_def split: if_splits list.splits)

lemma HasRole_iff: "HasRole rs role \<longleftrightarrow> list_ex (\<lambda>r. EqualFold r role) rs"
  by (induction rs) auto

end
