(* ===== verification/GoNet.thy ===== *)
theory GoNet
  imports Encoding
begin

text \<open>
  Addresses in Go's \<open>net\<close> package, as far as the gateway and the webhooks use them: reading an
  IPv4 or IPv6 address, the address ranges that must not be reached from outside, networks in
  CIDR notation, and splitting a port from a host. An address is the list of its 16 bytes;
  an IPv4 address is kept in its IPv6-mapped form.
\<close>

type_synonym IP = "int list"

subsection \<open>Reading an address\<close>

definition v4_prefix :: "int list" where
  "v4_prefix = [0, 0, 0, 0, 0, 0, 0, 0, 0, 0, 255, 255]"

text \<open>One field of a dotted address: decimal without a leading zero, at most 255.\<close>

definition v4_field :: "string \<Rightarrow> int option" where
  "v4_field s =
     (if s = [] \<or> (2 \<le> length s \<and> hd s = CHR ''0'') then None
      else case parse_digits 0 s of None \<Rightarrow> None | Some n \<Rightarrow> if n \<le> 255 then Some n else None)"

fun all_fields :: "('a \<Rightarrow> 'b option) \<Rightarrow> 'a list \<Rightarrow> 'b list option" where
  "all_fields f [] = Some []"
| "all_fields f (x # xs) =
     (case (f x, all_fields f xs) of (Some y, Some ys) \<Rightarrow> Some (y # ys) | _ \<Rightarrow> None)"

definition parseIPv4 :: "string \<Rightarrow> int list option" where
  "parseIPv4 s = (let parts = Split (CHR ''.'') s in if length parts = 4 then all_fields v4_field parts else None)"

definition hex_nibble :: "char \<Rightarrow> int option" where
  "hex_nibble c =
     map_of (zip ''0123456789abcdefABCDEF''
       [0, 1, 2, 3, 4, 5, 6, 7, 8, 9, 10, 11, 12, 13, 14, 15, 10, 11, 12, 13, 14, 15]) c"

fun hex_number :: "int \<Rightarrow> string \<Rightarrow> int" where
  "hex_number acc [] = acc"
| "hex_number acc (c # cs) = (case hex_nibble c of None \<Rightarrow> acc | Some d \<Rightarrow> hex_number (16 * acc + d) cs)"

definition hex_digits_of :: "string \<Rightarrow> string" where
  "hex_digits_of s = takeWhile (\<lambda>c. hex_nibble c \<noteq> None) s"

text \<open>
  The loop over the fields of an IPv6 address. \<open>bytes\<close> are those read so far and \<open>ellipsis\<close> where
  \<open>::\<close> was seen among them; the result is what is left of both when the text is used up.
\<close>

function (sequential) v6_fields ::
    "int list \<Rightarrow> nat option \<Rightarrow> string \<Rightarrow> (int list \<times> nat option) option" where
  "v6_fields bytes ellipsis s =
     (if 16 \<le> length bytes then (if s = [] then Some (bytes, ellipsis) else None)
      else
        let digits = hex_digits_of s; rest = drop (length digits) s
        in if digits = [] \<or> 4 < length digits then None
           else if rest \<noteq> [] \<and> hd rest = CHR ''.''
           then (if (ellipsis = None \<and> length bytes \<noteq> 12) \<or> 12 < length bytes then None
                 else case parseIPv4 s of None \<Rightarrow> None | Some ip \<Rightarrow> Some (bytes @ ip, ellipsis))
           else
             let bytes = bytes @ [hex_number 0 digits div 256, hex_number 0 digits mod 256]
             in case rest of
                  [] \<Rightarrow> Some (bytes, ellipsis)
                | c # more \<Rightarrow>
                    if c \<noteq> CHR '':'' \<or> more = [] then None
                    else if hd more = CHR '':''
                    then (if ellipsis \<noteq> None then None
                          else if tl more = [] then Some (bytes, Some (length bytes))
                          else v6_fields bytes (Some (length bytes)) (tl more))
                    else v6_fields bytes ellipsis more)"
  by pat_completeness auto
termination
  by (relation "measure (\<lambda>(bytes, e, s). 16 - length bytes)") auto

definition v6_expand :: "int list \<Rightarrow> nat option \<Rightarrow> IP option" where
  "v6_expand bytes ellipsis =
     (case ellipsis of
        None \<Rightarrow> if length bytes = 16 then Some bytes else None
      | Some e \<Rightarrow> if 16 \<le> length bytes then None
                  else Some (take e bytes @ replicate (16 - length bytes) 0 @ drop e bytes))"

definition parseIPv6 :: "string \<Rightarrow> IP option" where
  "parseIPv6 s =
     (if CHR ''%'' \<in> set s then None
      else if HasPrefix s ''::''
      then (if drop 2 s = [] then Some (replicate 16 0)
            else case v6_fields [] (Some 0) (drop 2 s) of None \<Rightarrow> None | Some (bytes, e) \<Rightarrow> v6_expand bytes e)
      else case v6_fields [] None s of None \<Rightarrow> None | Some (bytes, e) \<Rightarrow> v6_expand bytes e)"

text \<open>\<open>net.ParseIP\<close>: the first dot or colon decides; an address with a zone is refused.\<close>

definition ParseIP :: "string \<Rightarrow> IP option" where
  "ParseIP s =
     (case find (\<lambda>c. c = CHR ''.'' \<or> c = CHR '':'' \<or> c = CHR ''%'') s of
        None \<Rightarrow> None
      | Some c \<Rightarrow>
          if c = CHR ''.'' then map_option (\<lambda>ip. v4_prefix @ ip) (parseIPv4 s)
          else if c = CHR '':'' then parseIPv6 s
          else None)"

subsection \<open>Address ranges\<close>

definition To4 :: "IP \<Rightarrow> int list option" where
  "To4 ip = (if length ip = 4 then Some ip
             else if length ip = 16 \<and> take 12 ip = v4_prefix then Some (drop 12 ip) else None)"

definition IsLoopback :: "IP \<Rightarrow> bool" where
  "IsLoopback ip = (case To4 ip of Some ip4 \<Rightarrow> ip4 ! 0 = 127 | None \<Rightarrow> ip = replicate 15 0 @ [1])"

definition IsPrivate :: "IP \<Rightarrow> bool" where
  "IsPrivate ip =
     (case To4 ip of
        Some ip4 \<Rightarrow> ip4 ! 0 = 10 \<or> (ip4 ! 0 = 172 \<and> ip4 ! 1 div 16 = 1) \<or> (ip4 ! 0 = 192 \<and> ip4 ! 1 = 168)
      | None \<Rightarrow> length ip = 16 \<and> ip ! 0 div 2 = 126)"

definition IsLinkLocalUnicast :: "IP \<Rightarrow> bool" where
  "IsLinkLocalUnicast ip =
     (case To4 ip of
        Some ip4 \<Rightarrow> ip4 ! 0 = 169 \<and> ip4 ! 1 = 254
      | None \<Rightarrow> length ip = 16 \<and> ip ! 0 = 254 \<and> ip ! 1 div 64 = 2)"

definition IsLinkLocalMulticast :: "IP \<Rightarrow> bool" where
  "IsLinkLocalMulticast ip =
     (case To4 ip of
        Some ip4 \<Rightarrow> ip4 ! 0 = 224 \<and> ip4 ! 1 = 0 \<and> ip4 ! 2 = 0
      | None \<Rightarrow> length ip = 16 \<and> ip ! 0 = 255 \<and> ip ! 1 mod 16 = 2)"

definition IsUnspecified :: "IP \<Rightarrow> bool" where
  "IsUnspecified ip \<longleftrightarrow> To4 ip = Some [0, 0, 0, 0] \<or> ip = replicate 16 0"

subsection \<open>Networks\<close>

text \<open>The leading bits of an address as one number.\<close>

definition leading_bits :: "nat \<Rightarrow> int list \<Rightarrow> int" where
  "leading_bits n ip = foldl (\<lambda>acc b. 256 * acc + b) 0 ip div 2 ^ (8 * length ip - n)"

definition split_at :: "char \<Rightarrow> string \<Rightarrow> (string \<times> string) option" where
  "split_at c s = (if c \<in> set s then Some (takeWhile (\<lambda>x. x \<noteq> c) s, tl (dropWhile (\<lambda>x. x \<noteq> c) s)) else None)"

text \<open>\<open>net.ParseCIDR\<close>: the network as its address, with the bits the text gave it, and the
  length of its prefix.\<close>

definition ParseCIDR :: "string \<Rightarrow> (IP \<times> nat \<times> nat) option" where
  "ParseCIDR s =
     (case split_at (CHR ''/'') s of
        None \<Rightarrow> None
      | Some (addr, prefix) \<Rightarrow>
          (case (ParseIP addr, parse_digits 0 prefix) of
             (Some ip, Some n) \<Rightarrow>
               let bits = (if find (\<lambda>c. c = CHR ''.'' \<or> c = CHR '':'') addr = Some (CHR ''.'') then 32 else 128)
               in if prefix = [] \<or> int bits < n then None else Some (ip, nat n, bits)
           | _ \<Rightarrow> None))"

text \<open>\<open>ipNet.Contains(ip)\<close>: both sides in four bytes where they are IPv4; a 128-bit mask over an
  IPv4 network loses its first 96 bits.\<close>

definition Contains :: "IP \<times> nat \<times> nat \<Rightarrow> IP \<Rightarrow> bool" where
  "Contains net ip =
     (case net of (netIP, n, bits) \<Rightarrow>
        let nn = (if bits = 32 then Some (drop 12 netIP)
                  else if 96 \<le> n then To4 netIP else None)
        in case (nn, To4 ip) of
             (Some net4, Some ip4) \<Rightarrow>
               (let m = (if bits = 32 then n else n - 96) in leading_bits m net4 = leading_bits m ip4)
           | (None, None) \<Rightarrow> length ip = 16 \<and> leading_bits n netIP = leading_bits n ip
           | _ \<Rightarrow> False)"

subsection \<open>Host and port\<close>

text \<open>\<open>net.SplitHostPort\<close>; the text of its errors is not used.\<close>

definition before_last :: "char \<Rightarrow> string \<Rightarrow> (string \<times> string) option" where
  "before_last c s = (if c \<in> set s
     then Some (rev (tl (dropWhile (\<lambda>x. x \<noteq> c) (rev s))), rev (takeWhile (\<lambda>x. x \<noteq> c) (rev s))) else None)"

definition SplitHostPort :: "string \<Rightarrow> (string \<times> string) option" where
  "SplitHostPort hostport =
     (case before_last (CHR '':'') hostport of
        None \<Rightarrow> None
      | Some (front, port) \<Rightarrow>
          if hd hostport = CHR ''[''
          then (case split_at (CHR '']'') hostport of
                  None \<Rightarrow> None
                | Some (opened, after) \<Rightarrow>
                    let host = tl opened
                    in if front \<noteq> opened @ '']'' then None
                       else if CHR ''['' \<in> set (tl hostport) \<or> CHR '']'' \<in> set after then None
                       else Some (host, port))
          else if CHR '':'' \<in> set front \<or> CHR ''['' \<in> set hostport \<or> CHR '']'' \<in> set hostport then None
          else Some (front, port))"

lemma GoNet_tests:
  "map ParseIP [''127.0.0.1'', ''01.2.3.4'', ''1.2.3'', ''256.1.1.1'', ''::1'', ''fe80::1%eth0'', '':1'', ''1::2::3'', ''localhost'']
     = [Some (v4_prefix @ [127, 0, 0, 1]), None, None, None, Some (replicate 15 0 @ [1]), None, None, None, None]"
  "ParseIP ''2001:db8::ff00:42:8329'' = Some [32, 1, 13, 184, 0, 0, 0, 0, 0, 0, 255, 0, 0, 66, 131, 41]"
  "ParseIP ''::ffff:10.1.2.3'' = Some (v4_prefix @ [10, 1, 2, 3])"
  "ParseIP ''1:2:3:4:5:6:7:8'' = Some [0, 1, 0, 2, 0, 3, 0, 4, 0, 5, 0, 6, 0, 7, 0, 8]"
  "ParseIP ''1:2:3:4:5:6:7::'' = Some [0, 1, 0, 2, 0, 3, 0, 4, 0, 5, 0, 6, 0, 7, 0, 0]"
  "ParseIP ''1:2:3:4:5:6:7:8::'' = None"
  "map (\<lambda>s. map_option IsPrivate (ParseIP s)) [''10.0.0.1'', ''172.31.0.1'', ''172.32.0.1'', ''192.168.7.7'', ''fd00::1'', ''8.8.8.8'']
     = [Some True, Some True, Some False, Some True, Some True, Some False]"
  "map (\<lambda>s. map_option IsLinkLocalUnicast (ParseIP s)) [''169.254.169.254'', ''fe80::1'', ''fec0::1''] = [Some True, Some True, Some False]"
  "map_option (\<lambda>n. map (\<lambda>s. map_option (Contains n) (ParseIP s)) [''10.1.255.1'', ''10.2.0.1'', ''::1'']) (ParseCIDR ''10.1.2.3/16'')
     = Some [Some True, Some False, Some False]"
  "map_option (\<lambda>n. map (\<lambda>s. map_option (Contains n) (ParseIP s)) [''2001:db8::1'', ''2001:db9::1'', ''1.2.3.4'']) (ParseCIDR ''2001:db8::/32'')
     = Some [Some True, Some False, Some False]"
  "map SplitHostPort [''1.2.3.4:80'', ''[::1]:8080'', ''::1:80'', ''host'', ''[::1]'', ''[::1]x:80'']
     = [Some (''1.2.3.4'', ''80''), Some (''::1'', ''8080''), None, None, None, None]"
  by code_simp+

end
