(* ===== verification/GoURL.thy ===== *)
theory GoURL
  imports GoNet
begin

text \<open>
  Go's \<open>net/url\<close>, as far as the webhooks use it: whether \<open>url.Parse\<close> accepts a text, its scheme
  and the host without the port. Queries are not checked by the parser.
\<close>

definition is_letter :: "char \<Rightarrow> bool" where
  "is_letter c \<longleftrightarrow> c \<in> set upper_letters \<or> c \<in> set lower_letters"

definition is_decimal :: "char \<Rightarrow> bool" where
  "is_decimal c \<longleftrightarrow> digit_value c \<noteq> None"

definition is_ctl :: "char \<Rightarrow> bool" where
  "is_ctl c \<longleftrightarrow> (of_char c :: nat) < 32 \<or> c = CHR 0x7F"

text \<open>\<open>getScheme\<close>: \<open>None\<close> for the error, otherwise the scheme (empty if there is none) and the rest.\<close>

fun getScheme :: "string \<Rightarrow> string \<Rightarrow> (string \<times> string) option" where
  "getScheme seen [] = Some ([], rev seen)"
| "getScheme seen (c # cs) =
     (if is_letter c \<or> (seen \<noteq> [] \<and> (is_decimal c \<or> c \<in> set ''+-.'')) then getScheme (c # seen) cs
      else if c = CHR '':'' then (if seen = [] then None else Some (rev seen, cs))
      else Some ([], rev seen @ c # cs))"

datatype url_part = InPath | InHost | InZone

definition host_plain :: "char \<Rightarrow> bool" where
  "host_plain c \<longleftrightarrow> is_letter c \<or> is_decimal c \<or> c \<in> set ''!$&()*+,;=:[]<>-_.~'' \<or> c = CHR 0x27 \<or> c = CHR 0x22"

text \<open>\<open>unescape\<close> in the modes of the path, the host and the zone of an address.\<close>

fun unescape :: "url_part \<Rightarrow> string \<Rightarrow> string option" where
  "unescape mode [] = Some []"
| "unescape mode (c # cs) =
     (if c = CHR ''%''
      then (case cs of
              a # b # rest \<Rightarrow>
                (case (hex_nibble a, hex_nibble b) of
                   (Some x, Some y) \<Rightarrow>
                     let v = char_of (16 * x + y); escaped_percent = (a = CHR ''2'' \<and> b = CHR ''5'')
                     in if (mode = InHost \<and> x < 8 \<and> \<not> escaped_percent)
                           \<or> (mode = InZone \<and> \<not> escaped_percent \<and> v \<noteq> CHR '' '' \<and> \<not> host_plain v) then None
                        else map_option (\<lambda>t. v # t) (unescape mode rest)
                 | _ \<Rightarrow> None)
            | _ \<Rightarrow> None)
      else if mode \<noteq> InPath \<and> (of_char c :: nat) < 128 \<and> \<not> host_plain c then None
      else map_option (\<lambda>t. c # t) (unescape mode cs))"

definition validOptionalPort :: "string \<Rightarrow> bool" where
  "validOptionalPort p \<longleftrightarrow> p = [] \<or> (hd p = CHR '':'' \<and> list_all is_decimal (tl p))"

text \<open>The text from the first occurrence of \<open>pat\<close> on, with what comes before it.\<close>

fun cut_at :: "string \<Rightarrow> string \<Rightarrow> (string \<times> string) option" where
  "cut_at pat [] = (if pat = [] then Some ([], []) else None)"
| "cut_at pat (c # cs) =
     (if HasPrefix (c # cs) pat then Some ([], c # cs)
      else map_option (\<lambda>(a, b). (c # a, b)) (cut_at pat cs))"

definition is_v6_literal :: "string \<Rightarrow> bool" where
  "is_v6_literal s =
     (let addr = takeWhile (\<lambda>c. c \<noteq> CHR ''%'') s; zone = drop (length addr + 1) s
      in find (\<lambda>c. c = CHR ''.'' \<or> c = CHR '':'') addr = Some (CHR '':'') \<and> parseIPv6 addr \<noteq> None
         \<and> (CHR ''%'' \<in> set s \<longrightarrow> zone \<noteq> []))"

definition parseHost :: "string \<Rightarrow> string option" where
  "parseHost host =
     (if host \<noteq> [] \<and> hd host = CHR ''[''
      then (case before_last (CHR '']'') host of
              None \<Rightarrow> None
            | Some (opened, colonPort) \<Rightarrow>
                if CHR ''['' \<in> set (tl host) \<or> \<not> validOptionalPort colonPort then None
                else let hostname = tl opened;
                         plain = (case cut_at ''%25'' hostname of
                                    None \<Rightarrow> unescape InHost hostname
                                  | Some (a, z) \<Rightarrow>
                                      (case (unescape InHost a, unescape InZone z) of
                                         (Some a, Some z) \<Rightarrow> Some (a @ z) | _ \<Rightarrow> None))
                     in case plain of
                          None \<Rightarrow> None
                        | Some h \<Rightarrow> if is_v6_literal h then Some (''['' @ h @ '']'' @ colonPort) else None)
      else if CHR ''['' \<in> set host then None
      else case before_last (CHR '':'') host of
             None \<Rightarrow> unescape InHost host
           | Some (name, port) \<Rightarrow>
               if CHR '':'' \<in> set name \<or> \<not> list_all is_decimal port then None else unescape InHost host)"

definition userinfo_char :: "char \<Rightarrow> bool" where
  "userinfo_char c \<longleftrightarrow> is_letter c \<or> is_decimal c \<or> c \<in> set ''-._:~!$&()*+,;=%@'' \<or> c = CHR 0x27"

definition parseAuthority :: "string \<Rightarrow> string option" where
  "parseAuthority authority =
     (case before_last (CHR ''@'') authority of
        None \<Rightarrow> parseHost authority
      | Some (userinfo, host) \<Rightarrow>
          if list_all userinfo_char userinfo \<and> unescape InPath userinfo \<noteq> None then parseHost host else None)"

definition before_first :: "char \<Rightarrow> string \<Rightarrow> string" where
  "before_first c s = takeWhile (\<lambda>x. x \<noteq> c) s"

text \<open>\<open>url.Parse\<close>: scheme and host of the URL.\<close>

definition url_Parse :: "string \<Rightarrow> (string \<times> string) option" where
  "url_Parse rawURL =
     (let u = before_first (CHR ''#'') rawURL; fragment = drop (length u + 1) rawURL
      in if list_ex is_ctl u \<or> unescape InPath fragment = None then None
         else case getScheme [] u of
                None \<Rightarrow> None
              | Some (scheme, rest) \<Rightarrow>
                  let rest = before_first (CHR ''?'') rest; scheme = ToLower scheme
                  in if \<not> HasPrefix rest ''/''
                     then (if scheme \<noteq> [] then Some (scheme, [])
                           else if CHR '':'' \<in> set (before_first (CHR ''/'') rest) \<or> unescape InPath rest = None then None
                           else Some ([], []))
                     else if HasPrefix rest ''//'' \<and> (scheme \<noteq> [] \<or> \<not> HasPrefix rest ''///'')
                     then (let authority = before_first (CHR ''/'') (drop 2 rest);
                               path = drop (length authority + 2) rest
                           in case parseAuthority authority of
                                None \<Rightarrow> None
                              | Some host \<Rightarrow> if unescape InPath path = None then None else Some (scheme, host))
                     else if unescape InPath rest = None then None
                     else Some (scheme, []))"

definition url_Hostname :: "string \<Rightarrow> string" where
  "url_Hostname hostPort =
     (let host = (case before_last (CHR '':'') hostPort of
                    Some (h, port) \<Rightarrow> if list_all is_decimal port then h else hostPort
                  | None \<Rightarrow> hostPort)
      in if host \<noteq> [] \<and> hd host = CHR ''['' \<and> last host = CHR '']'' then butlast (tl host) else host)"

lemma GoURL_tests:
  "map (\<lambda>u. map_option (\<lambda>(s, h). (s, url_Hostname h)) (url_Parse u))
     [''https://example.com/hook?x=1#f'', ''HTTP://user:pw@example.com:8080/'', ''http://[::1]:80/'', ''http://[fe80::1%25en0]/'']
   = [Some (''https'', ''example.com''), Some (''http'', ''example.com''), Some (''http'', ''::1''), Some (''http'', ''fe80::1%en0'')]"
  "map (\<lambda>u. map_option (\<lambda>(s, h). (s, url_Hostname h)) (url_Parse u))
     [''http://::1/'', ''http://a:80:80/'', ''http://[1.2.3.4]/'', ''http://a b/'', ''http://%41.com'', ''://x'', ''http://x:8a'', ''http:opaque'', ''/p'']
   = [None, None, None, None, None, None, None, Some (''http'', []), Some ([], [])]"
  by code_simp+

end
