(* ===== verification/Webhook.thy ===== *)
theory Webhook
  imports Tokens GoURL Mongo
begin

text \<open>
  Partner webhooks (\<open>pkg/webhook\<close>): the signature of a payload (\<open>signature.go\<close>), subscriptions and
  deliveries (\<open>models.go\<close>), and the dispatcher with its retries (\<open>dispatcher.go\<close>). A call reads the
  clock once. The HTTP client is a function of the request that is posted; every request that
  leaves is recorded with its answer. The goroutines of one dispatch are run one after the other.
\<close>

subsection \<open>Signatures\<close>

definition TrimPrefix :: "string \<Rightarrow> string \<Rightarrow> string" where
  "TrimPrefix s p = (if HasPrefix s p then drop (length p) s else s)"

definition GenerateSecret :: "gomsg + int list \<Rightarrow> gomsg + string" where
  "GenerateSecret random =
     (case random of
        Inl err \<Rightarrow> Inl (Msg ''failed to generate secure random secret: %w'' [ArgE err])
      | Inr bytes \<Rightarrow> Inr (''whsec_'' @ hex_EncodeToString bytes))"

definition ComputeSignature :: "string \<Rightarrow> int64 \<Rightarrow> string \<Rightarrow> string" where
  "ComputeSignature secret timestamp payload =
     hex_EncodeToString (hmac_sha256 (TrimPrefix secret ''whsec_'') (show_int timestamp @ ''.'' @ payload))"

definition FormatSignatureHeader :: "int64 \<Rightarrow> string \<Rightarrow> string" where
  "FormatSignatureHeader timestamp signatureHex = ''t='' @ show_int timestamp @ '',v1='' @ signatureHex"

definition SignPayload :: "string \<Rightarrow> int64 \<Rightarrow> string \<Rightarrow> string" where
  "SignPayload secret timestamp payload =
     FormatSignatureHeader timestamp (ComputeSignature secret timestamp payload)"

text \<open>The loop over the parts of the header; \<open>None\<close> for a timestamp that is no number.\<close>

fun signature_parts :: "string list \<Rightarrow> int64 \<times> string \<Rightarrow> (int64 \<times> string) option" where
  "signature_parts [] acc = Some acc"
| "signature_parts (part # parts) acc =
     (case SplitN2 (CHR ''='') (TrimSpace part) of
        [k, v] \<Rightarrow>
          if k = ''t''
          then (case ParseInt v of None \<Rightarrow> None | Some ts \<Rightarrow> signature_parts parts (ts, snd acc))
          else if k = ''v1'' then signature_parts parts (fst acc, v)
          else signature_parts parts acc
      | _ \<Rightarrow> signature_parts parts acc)"

definition ParseSignatureHeader :: "string \<Rightarrow> gomsg + int64 \<times> string" where
  "ParseSignatureHeader header =
     (if header = [] then Inl (lit ''missing signature header'')
      else case signature_parts (Split (CHR '','') header) (0, []) of
             None \<Rightarrow> Inl (lit ''invalid timestamp format'')
           | Some (timestamp, signature) \<Rightarrow>
               if timestamp = 0 \<or> signature = []
               then Inl (lit ''incomplete signature header (requires t= and v1=)'')
               else Inr (timestamp, signature))"

definition abs64 :: "int64 \<Rightarrow> int64" where
  "abs64 d = (if d < 0 then wrap64 (- d) else d)"

definition VerifySignature :: "int \<Rightarrow> string \<Rightarrow> string \<Rightarrow> string \<Rightarrow> int64 \<Rightarrow> bool" where
  "VerifySignature now secret header payload tolerance =
     (case ParseSignatureHeader header of
        Inl err \<Rightarrow> False
      | Inr (timestamp, receivedSig) \<Rightarrow>
          if 0 < tolerance \<and> tolerance < wrap64 (abs64 (wrap64 (now div 1000000000 - timestamp)) * 1000000000) then False
          else receivedSig = ComputeSignature secret timestamp payload)"

definition DefaultSignatureTolerance :: int64 where
  "DefaultSignatureTolerance = 300 * 1000000000"

subsection \<open>Destinations\<close>

definition restricted_ip :: "IP \<Rightarrow> bool" where
  "restricted_ip ip \<longleftrightarrow> IsLoopback ip \<or> IsPrivate ip \<or> IsLinkLocalUnicast ip \<or> IsLinkLocalMulticast ip \<or> IsUnspecified ip"

definition restricted_msg :: gomsg where
  "restricted_msg = lit ''webhook destination targets restricted private/loopback IP''"

text \<open>\<open>allowLocal\<close> is the environment variable \<open>ALLOW_LOCAL_WEBHOOKS\<close>, \<open>lookup\<close> the resolver.\<close>

definition ValidateWebhookURL :: "string \<Rightarrow> (string \<Rightarrow> gomsg + IP list) \<Rightarrow> string \<Rightarrow> gomsg option" where
  "ValidateWebhookURL allowLocal lookup targetURL =
     (let trimmed = TrimSpace targetURL
      in if trimmed = [] then Some (lit ''webhook url is required'')
         else case url_Parse trimmed of
                None \<Rightarrow> Some (lit ''valid webhook url (http/https) is required'')
              | Some (scheme, hostPort) \<Rightarrow>
                  if scheme \<noteq> ''https'' \<and> scheme \<noteq> ''http''
                  then Some (lit ''valid webhook url (http/https) is required'')
                  else let host = url_Hostname hostPort
                       in if host = [] then Some (lit ''invalid webhook host'')
                          else if allowLocal = ''true'' then None
                          else if EqualFold host ''localhost'' then Some restricted_msg
                          else (case ParseIP host of
                                  Some ip \<Rightarrow> if restricted_ip ip then Some restricted_msg else None
                                | None \<Rightarrow>
                                    (case lookup host of
                                       Inl err \<Rightarrow> Some (Msg ''failed to resolve webhook host %q: %w'' [ArgS host, ArgE err])
                                     | Inr ips \<Rightarrow>
                                         if ips = [] then Some (Msg ''no IP addresses found for webhook host %q'' [ArgS host])
                                         else if list_ex restricted_ip ips then Some restricted_msg else None)))"

subsection \<open>Subscriptions\<close>

record WebhookSubscription =
  ws_ID :: string
  ws_URL :: string
  ws_Secret :: string
  ws_Events :: "string list"
  ws_IsActive :: bool
  ws_OwnerID :: string
  ws_CreatedAt :: int
  ws_UpdatedAt :: int

definition MatchesEvent :: "WebhookSubscription \<Rightarrow> string \<Rightarrow> bool" where
  "MatchesEvent s event \<longleftrightarrow> ws_IsActive s \<and> list_ex (\<lambda>e. e = ''*'' \<or> e = event) (ws_Events s)"

datatype DeliveryStatus = DeliveryPending | DeliveryDelivered | DeliveryFailed | DeliveryRetrying

record WebhookDelivery =
  wd_ID :: string
  wd_SubscriptionID :: string
  wd_URL :: string
  wd_Event :: string
  wd_Payload :: string
  wd_Status :: DeliveryStatus
  wd_Attempts :: int
  wd_MaxAttempts :: int
  wd_LastStatusCode :: int
  wd_LastError :: gomsg
  wd_NextRetryAt :: int
  wd_DeliveredAt :: "int option"
  wd_CreatedAt :: int
  wd_UpdatedAt :: int

text \<open>A posted request: the URL, the headers that matter, and the body.\<close>

record http_post =
  hp_URL :: string
  hp_Signature :: string
  hp_Event :: string
  hp_Delivery :: string
  hp_Timestamp :: string
  hp_Body :: string

text \<open>
  The environment of a call: the collections of the database (\<open>None\<close> without a database), clock,
  fresh object identifiers, random numbers, the resolver, and how the partners answer.
  \<open>ds_subs\<close> is the collection of subscriptions or, without a database, the map in memory.
\<close>

record webhook_env =
  we_subs :: "WebhookSubscription collection_ops option"
  we_deliveries :: "WebhookDelivery collection_ops option"
  we_now :: int
  we_oid :: "nat \<Rightarrow> string"
  we_eventID :: string
  we_secret :: "gomsg + int list"
  we_rand :: "int \<Rightarrow> int"
  we_allowLocal :: string
  we_lookup :: "string \<Rightarrow> gomsg + IP list"
  we_http :: "http_post \<Rightarrow> gomsg + int"

record Dispatcher =
  ds_maxAttempts :: int
  ds_subs :: "WebhookSubscription list"
  ds_deliveries :: "WebhookDelivery list"
  ds_sent :: "(http_post \<times> (gomsg + int)) list"

definition DefaultMaxAttempts :: int where "DefaultMaxAttempts = 5"

definition NewDispatcher :: "WebhookSubscription list \<Rightarrow> WebhookDelivery list \<Rightarrow> Dispatcher" where
  "NewDispatcher subs deliveries =
     \<lparr>ds_maxAttempts = DefaultMaxAttempts, ds_subs = subs, ds_deliveries = deliveries, ds_sent = []\<rparr>"

definition zero_oid :: string where "zero_oid = replicate 24 (CHR ''0'')"

definition prepare_subscription :: "webhook_env \<Rightarrow> WebhookSubscription \<Rightarrow> gomsg + WebhookSubscription" where
  "prepare_subscription E sub =
     (let u = TrimSpace (ws_URL sub)
      in case ValidateWebhookURL (we_allowLocal E) (we_lookup E) u of
           Some err \<Rightarrow> Inl err
         | None \<Rightarrow>
             if ws_Events sub = [] then Inl (lit ''at least one event must be subscribed to'')
             else (case (if ws_Secret sub = [] then GenerateSecret (we_secret E) else Inr (ws_Secret sub)) of
                     Inl err \<Rightarrow> Inl err
                   | Inr sec \<Rightarrow>
                       Inr (sub\<lparr>ws_URL := u, ws_Secret := sec, ws_IsActive := True, ws_CreatedAt := we_now E,
                                ws_UpdatedAt := we_now E\<rparr>)))"

definition put_subscription :: "WebhookSubscription \<Rightarrow> WebhookSubscription list \<Rightarrow> WebhookSubscription list" where
  "put_subscription sub subs =
     (if list_ex (\<lambda>x. ws_ID x = ws_ID sub) subs then map (\<lambda>x. if ws_ID x = ws_ID sub then sub else x) subs
      else subs @ [sub])"

text \<open>The subscription as the caller finds it afterwards, or the error.\<close>

definition RegisterSubscription ::
    "webhook_env \<Rightarrow> WebhookSubscription option \<Rightarrow> Dispatcher \<Rightarrow> Dispatcher \<times> (gomsg + WebhookSubscription)" where
  "RegisterSubscription E s d =
     (case s of
        None \<Rightarrow> (d, Inl (lit ''subscription is required''))
      | Some sub \<Rightarrow>
          (case prepare_subscription E sub of
             Inl err \<Rightarrow> (d, Inl err)
           | Inr sub \<Rightarrow>
               let sub' = (if ws_ID sub = zero_oid then sub\<lparr>ws_ID := we_oid E 0\<rparr> else sub)
               in case we_subs E of
                    None \<Rightarrow>
                      (d\<lparr>ds_subs := put_subscription sub' (ds_subs d)\<rparr>, Inr sub')
                  | Some col \<Rightarrow>
                      (case InsertOne col sub' (ds_subs d) of
                         (subs, Some err) \<Rightarrow>
                           (d\<lparr>ds_subs := subs\<rparr>, Inl (Msg ''failed to save webhook subscription: %w'' [ArgE (err_msg err)]))
                       | (subs, None) \<Rightarrow> (d\<lparr>ds_subs := subs\<rparr>, Inr sub'))))"

definition listed :: "string \<Rightarrow> WebhookSubscription \<Rightarrow> bool" where
  "listed ownerID s \<longleftrightarrow> ws_IsActive s \<and> (ownerID \<noteq> [] \<longrightarrow> ws_OwnerID s = ownerID)"

definition ListSubscriptions :: "webhook_env \<Rightarrow> string \<Rightarrow> Dispatcher \<Rightarrow> gomsg + WebhookSubscription list" where
  "ListSubscriptions E ownerID d =
     (case we_subs E of
        None \<Rightarrow> Inr (filter (listed ownerID) (ds_subs d))
      | Some col \<Rightarrow>
          (case Find col (listed ownerID) (\<lambda>s. 0) 0 None (ds_subs d) of
             Inl err \<Rightarrow> Inl (err_msg err) | Inr subs \<Rightarrow> Inr subs))"

definition deactivate :: "int \<Rightarrow> WebhookSubscription \<Rightarrow> WebhookSubscription" where
  "deactivate now s = s\<lparr>ws_IsActive := False, ws_UpdatedAt := now\<rparr>"

definition DeleteSubscription :: "webhook_env \<Rightarrow> string \<Rightarrow> Dispatcher \<Rightarrow> Dispatcher \<times> mongo_error option" where
  "DeleteSubscription E i d =
     (case we_subs E of
        None \<Rightarrow>
          if list_ex (\<lambda>s. ws_ID s = i) (ds_subs d)
          then (d\<lparr>ds_subs := map (\<lambda>s. if ws_ID s = i then s\<lparr>ws_IsActive := False\<rparr> else s) (ds_subs d)\<rparr>, None)
          else (d, Some ErrNoDocuments)
      | Some col \<Rightarrow>
          (case UpdateOne col (\<lambda>s. ws_ID s = i) (\<lambda>s. Some (deactivate (we_now E) s)) (ds_subs d) of
             (subs, Inl err) \<Rightarrow> (d\<lparr>ds_subs := subs\<rparr>, Some err)
           | (subs, Inr res) \<Rightarrow>
               (d\<lparr>ds_subs := subs\<rparr>, if MatchedCount res = 0 then Some ErrNoDocuments else None)))"

subsection \<open>Deliveries\<close>

text \<open>\<open>rnd n\<close> is a random number below \<open>n\<close>; \<open>1 << attempt\<close> wraps.\<close>

definition computeBackoff :: "(int \<Rightarrow> int) \<Rightarrow> int \<Rightarrow> int" where
  "computeBackoff rnd attempt =
     (let baseSeconds = wrap64 (2 ^ nat attempt); baseSeconds = (if 60 < baseSeconds then 60 else baseSeconds)
      in (baseSeconds + rnd (baseSeconds + 1)) * 1000000000)"

definition payload_text :: "string \<Rightarrow> string \<Rightarrow> int \<Rightarrow> string \<Rightarrow> string" where
  "payload_text eventID event now dataJSON =
     [CHR 0x7B] @ json_string ''id'' @ '':'' @ json_string eventID @ '','' @ json_string ''event'' @ '':'' @ json_string event
     @ '','' @ json_string ''timestamp'' @ '':'' @ json_string (FormatRFC3339 now) @ '','' @ json_string ''data'' @ '':''
     @ dataJSON @ [CHR 0x7D]"

definition webhook_post :: "webhook_env \<Rightarrow> string \<Rightarrow> string \<Rightarrow> string \<Rightarrow> string \<Rightarrow> string \<Rightarrow> http_post" where
  "webhook_post E targetURL secret event deliveryID payload =
     (let ts = we_now E div 1000000000
      in \<lparr>hp_URL = targetURL, hp_Signature = SignPayload secret ts payload, hp_Event = event,
          hp_Delivery = deliveryID, hp_Timestamp = show_int ts, hp_Body = payload\<rparr>)"

definition sendHTTP ::
    "webhook_env \<Rightarrow> string \<Rightarrow> string \<Rightarrow> string \<Rightarrow> string \<Rightarrow> string \<Rightarrow> Dispatcher \<Rightarrow> Dispatcher \<times> (gomsg + int)" where
  "sendHTTP E targetURL secret event deliveryID payload d =
     (case url_Parse targetURL of
        None \<Rightarrow> (d, Inl (lit ''parse error''))
      | Some u \<Rightarrow>
          let req = webhook_post E targetURL secret event deliveryID payload; answer = we_http E req
          in (d\<lparr>ds_sent := ds_sent d @ [(req, answer)]\<rparr>, answer))"

definition accepted :: "gomsg + int \<Rightarrow> bool" where
  "accepted r = (case r of Inr code \<Rightarrow> 200 \<le> code \<and> code < 300 | Inl err \<Rightarrow> False)"

definition status_code :: "gomsg + int \<Rightarrow> int" where
  "status_code r = (case r of Inr code \<Rightarrow> code | Inl err \<Rightarrow> 0)"

definition send_error :: "gomsg + int \<Rightarrow> gomsg" where
  "send_error r = (case r of Inl err \<Rightarrow> err | Inr code \<Rightarrow> Msg ''HTTP status %d'' [ArgD code])"

text \<open>What an attempt makes of a delivery whose attempts are already counted.\<close>

definition settle_attempt :: "webhook_env \<Rightarrow> gomsg + int \<Rightarrow> WebhookDelivery \<Rightarrow> WebhookDelivery" where
  "settle_attempt E r del =
     (let del = del\<lparr>wd_LastStatusCode := status_code r\<rparr>
      in if accepted r then del\<lparr>wd_Status := DeliveryDelivered, wd_DeliveredAt := Some (we_now E)\<rparr>
         else let del = del\<lparr>wd_LastError := send_error r\<rparr>
              in if wd_MaxAttempts del \<le> wd_Attempts del then del\<lparr>wd_Status := DeliveryFailed\<rparr>
                 else del\<lparr>wd_Status := DeliveryRetrying,
                          wd_NextRetryAt := we_now E + computeBackoff (we_rand E) (wd_Attempts del)\<rparr>)"

definition new_delivery :: "webhook_env \<Rightarrow> string \<Rightarrow> WebhookSubscription \<Rightarrow> string \<Rightarrow> string \<Rightarrow> int \<Rightarrow> WebhookDelivery" where
  "new_delivery E deliveryID sub event payload maxAttempts =
     \<lparr>wd_ID = deliveryID, wd_SubscriptionID = ws_ID sub, wd_URL = ws_URL sub, wd_Event = event, wd_Payload = payload,
      wd_Status = DeliveryPending, wd_Attempts = 1, wd_MaxAttempts = maxAttempts, wd_LastStatusCode = 0,
      wd_LastError = lit [], wd_NextRetryAt = - 62135596800000000000, wd_DeliveredAt = None,
      wd_CreatedAt = we_now E, wd_UpdatedAt = we_now E\<rparr>"

definition dispatchSingle :: "webhook_env \<Rightarrow> string \<Rightarrow> WebhookSubscription \<Rightarrow> string \<Rightarrow> string \<Rightarrow> Dispatcher \<Rightarrow> Dispatcher" where
  "dispatchSingle E deliveryID sub event payload d =
     (let delivery = new_delivery E deliveryID sub event payload (ds_maxAttempts d);
          (d, r) = sendHTTP E (ws_URL sub) (ws_Secret sub) event deliveryID payload d;
          delivery = settle_attempt E r delivery
      in case we_deliveries E of
           None \<Rightarrow> d
         | Some col \<Rightarrow> d\<lparr>ds_deliveries := fst (InsertOne col delivery (ds_deliveries d))\<rparr>)"

fun dispatch_each :: "webhook_env \<Rightarrow> nat \<Rightarrow> WebhookSubscription list \<Rightarrow> string \<Rightarrow> string \<Rightarrow> Dispatcher \<Rightarrow> Dispatcher" where
  "dispatch_each E n [] event payload d = d"
| "dispatch_each E n (sub # subs) event payload d =
     (if MatchesEvent sub event
      then dispatch_each E (Suc n) subs event payload (dispatchSingle E (we_oid E n) sub event payload d)
      else dispatch_each E n subs event payload d)"

text \<open>\<open>dataJSON\<close> is what \<open>json.Marshal\<close> makes of the event's data.\<close>

definition Dispatch :: "webhook_env \<Rightarrow> string \<Rightarrow> gomsg + string \<Rightarrow> Dispatcher \<Rightarrow> Dispatcher \<times> gomsg option" where
  "Dispatch E event dataJSON d =
     (case ListSubscriptions E [] d of
        Inl err \<Rightarrow> (d, Some (Msg ''failed to fetch active subscriptions: %w'' [ArgE err]))
      | Inr subs \<Rightarrow>
          (case dataJSON of
             Inl err \<Rightarrow> (d, Some (Msg ''failed to serialize webhook payload: %w'' [ArgE err]))
           | Inr data \<Rightarrow> (dispatch_each E 0 subs event (payload_text (we_eventID E) event (we_now E) data) d, None)))"

subsection \<open>Retries\<close>

definition retry_due :: "int \<Rightarrow> WebhookDelivery \<Rightarrow> bool" where
  "retry_due now del \<longleftrightarrow> wd_Status del = DeliveryRetrying \<and> wd_NextRetryAt del \<le> now"

definition subscription_gone :: "webhook_env \<Rightarrow> WebhookDelivery \<Rightarrow> WebhookDelivery" where
  "subscription_gone E doc =
     doc\<lparr>wd_Status := DeliveryFailed, wd_LastError := lit ''subscription no longer exists'', wd_UpdatedAt := we_now E\<rparr>"

text \<open>The update of a stored delivery; \<open>del\<close> is the copy the worker holds.\<close>

definition retry_update :: "webhook_env \<Rightarrow> WebhookDelivery \<Rightarrow> gomsg + int \<Rightarrow> WebhookDelivery \<Rightarrow> WebhookDelivery" where
  "retry_update E del r doc =
     (let doc = doc\<lparr>wd_LastStatusCode := status_code r, wd_Attempts := wd_Attempts del, wd_UpdatedAt := we_now E\<rparr>
      in if accepted r
         then doc\<lparr>wd_Status := DeliveryDelivered, wd_DeliveredAt := Some (we_now E), wd_LastError := lit []\<rparr>
         else if wd_MaxAttempts del \<le> wd_Attempts del
         then doc\<lparr>wd_LastError := send_error r, wd_Status := DeliveryFailed\<rparr>
         else doc\<lparr>wd_LastError := send_error r, wd_Status := DeliveryRetrying,
                  wd_NextRetryAt := we_now E + computeBackoff (we_rand E) (wd_Attempts del)\<rparr>)"

definition retry_one ::
    "webhook_env \<Rightarrow> WebhookSubscription collection_ops \<Rightarrow> WebhookDelivery collection_ops \<Rightarrow> WebhookDelivery
       \<Rightarrow> Dispatcher \<Rightarrow> Dispatcher \<times> int" where
  "retry_one E subsCol col del d =
     (case FindOne subsCol (\<lambda>s. ws_ID s = wd_SubscriptionID del) None (ds_subs d) of
        Inl err \<Rightarrow>
          (d\<lparr>ds_deliveries := fst (UpdateOne col (\<lambda>x. wd_ID x = wd_ID del)
               (\<lambda>doc. Some (subscription_gone E doc)) (ds_deliveries d))\<rparr>, 0)
      | Inr sub \<Rightarrow>
          let del = del\<lparr>wd_Attempts := wd_Attempts del + 1\<rparr>;
              (d, r) = sendHTTP E (ws_URL sub) (ws_Secret sub) (wd_Event del) (wd_ID del) (wd_Payload del) d
          in (d\<lparr>ds_deliveries := fst (UpdateOne col (\<lambda>x. wd_ID x = wd_ID del)
                  (\<lambda>doc. Some (retry_update E del r doc)) (ds_deliveries d))\<rparr>, 1))"

fun retry_each ::
    "webhook_env \<Rightarrow> WebhookSubscription collection_ops \<Rightarrow> WebhookDelivery collection_ops \<Rightarrow> WebhookDelivery list
       \<Rightarrow> int \<Rightarrow> Dispatcher \<Rightarrow> Dispatcher \<times> int" where
  "retry_each E subsCol col [] processed d = (d, processed)"
| "retry_each E subsCol col (del # dels) processed d =
     (case retry_one E subsCol col del d of (d, n) \<Rightarrow> retry_each E subsCol col dels (processed + n) d)"

definition ProcessPendingRetries :: "webhook_env \<Rightarrow> Dispatcher \<Rightarrow> Dispatcher \<times> (gomsg + int)" where
  "ProcessPendingRetries E d =
     (case (we_deliveries E, we_subs E) of
        (Some col, Some subsCol) \<Rightarrow>
          (case Find col (retry_due (we_now E)) (\<lambda>x. 0) 0 (Some 50) (ds_deliveries d) of
             Inl err \<Rightarrow> (d, Inl (err_msg err))
           | Inr deliveries \<Rightarrow>
               (case retry_each E subsCol col deliveries 0 d of (d, processed) \<Rightarrow> (d, Inr processed)))
      | _ \<Rightarrow> (d, Inr 0))"

definition ping_payload :: "webhook_env \<Rightarrow> string" where
  "ping_payload E =
     payload_text (we_eventID E) ''webhook.test'' (we_now E)
       ([CHR 0x7B] @ json_string ''message'' @ '':'' @ json_string ''Global Wallet Microservices Webhook Ping''
        @ '','' @ json_string ''status'' @ '':'' @ json_string ''TEST_OK'' @ [CHR 0x7D])"

definition TestEndpoint :: "webhook_env \<Rightarrow> string \<Rightarrow> string \<Rightarrow> Dispatcher \<Rightarrow> Dispatcher \<times> (gomsg + int)" where
  "TestEndpoint E targetURL secret d =
     (case ValidateWebhookURL (we_allowLocal E) (we_lookup E) targetURL of
        Some err \<Rightarrow> (d, Inl err)
      | None \<Rightarrow> sendHTTP E targetURL secret ''webhook.test'' ''test_ping'' (ping_payload E) d)"

end
