(* ===== verification/WebhookProofs.thy ===== *)
theory WebhookProofs
  imports Webhook
begin

text \<open>
  What the webhooks promise: a partner can check a signature and a changed payload fails the
  check; posts never go to an address literal inside the network; a delivery is attempted a
  bounded number of times and not again once it was accepted.
\<close>

subsection \<open>Signatures\<close>

definition plain_char :: "char \<Rightarrow> bool" where
  "plain_char c \<longleftrightarrow> c \<noteq> CHR '','' \<and> c \<noteq> CHR ''='' \<and> \<not> is_space c"

definition plain_text :: "string \<Rightarrow> bool" where
  "plain_text s \<longleftrightarrow> list_all plain_char s"

lemma plain_hex: "plain_text hex_digits"
  by code_simp

lemma plain_table: "list_all (\<lambda>n. plain_char (''0123456789'' ! n)) [0..<10]"
  by code_simp

lemma plain_show_nat: "plain_text (show_nat n)"
proof (induction n rule: show_nat.induct)
  case (1 n)
  have d: "plain_char (''0123456789'' ! (n mod 10))" using plain_table by (simp only: list_all_iff) simp
  show ?case
  proof (cases "n < 10")
    case True
    then have "show_nat n = [''0123456789'' ! (n mod 10)]" by (subst show_nat.simps) simp
    then show ?thesis using d by (simp only: plain_text_def list.pred_inject simp_thms)
  next
    case False
    then have "show_nat n = show_nat (n div 10) @ [''0123456789'' ! (n mod 10)]" by (subst show_nat.simps) simp
    then show ?thesis using 1 [OF False] d by (simp only: plain_text_def list_all_append list.pred_inject simp_thms)
  qed
qed

lemma plain_show: "0 \<le> i \<Longrightarrow> plain_text (show_int i)"
  by (simp add: show_int_def plain_show_nat)

lemma plain_hash: "plain_text (sha256_hex s)"
  using sha256_hex_digits [of s] plain_hex by (auto simp only: plain_text_def list_all_iff)

lemma header_chars:
  "list_all (\<lambda>c. c \<noteq> CHR '','' \<and> \<not> is_space c) ''t=''" "list_all (\<lambda>c. c \<noteq> CHR '','' \<and> \<not> is_space c) ''v1=''"
  by code_simp+

lemma signature_is_hash: "ComputeSignature secret ts payload =
    sha256_hex (hmac_pad 92 (TrimPrefix secret ''whsec_'')
      @ map char_of (Sum256 (hmac_pad 54 (TrimPrefix secret ''whsec_'') @ show_int ts @ ''.'' @ payload)))"
  by (simp add: ComputeSignature_def hmac_sha256_def sha256_hex_def)

lemma ParseSignatureHeader_Format:
  assumes "0 < ts" and "fits64 ts" and "plain_text sig" and "sig \<noteq> []"
  shows "ParseSignatureHeader (FormatSignatureHeader ts sig) = Inr (ts, sig)"
proof -
  let ?t = "''t='' @ show_int ts" and ?v = "''v1='' @ sig"
  have p: "plain_text (show_int ts)" using plain_show assms(1) by simp
  have h: "FormatSignatureHeader ts sig = ?t @ CHR '','' # ?v" by (simp add: FormatSignatureHeader_def)
  have chars: "list_all (\<lambda>c. c \<noteq> CHR '','' \<and> \<not> is_space c) ?t" "list_all (\<lambda>c. c \<noteq> CHR '','' \<and> \<not> is_space c) ?v"
    using header_chars p assms(3) unfolding plain_text_def plain_char_def
    by (simp_all only: list_all_append) (auto simp only: list_all_iff)
  then have "CHR '','' \<notin> set ?t" "CHR '','' \<notin> set ?v" by (auto simp only: list_all_iff)
  then have "Split (CHR '','') (FormatSignatureHeader ts sig) = [?t, ?v]"
    unfolding h using Split_at_sep Split_no_sep by metis
  moreover have "TrimSpace ?t = ?t" "TrimSpace ?v = ?v"
    using chars by (intro TrimSpace_plain; simp only: list_all_iff; blast)+
  moreover have "SplitN2 (CHR ''='') ?t = [''t'', show_int ts]" "SplitN2 (CHR ''='') ?v = [''v1'', sig]"
    by (simp_all add: SplitN2_def)
  ultimately have "signature_parts (Split (CHR '','') (FormatSignatureHeader ts sig)) (0, []) = Some (ts, sig)"
    using ParseInt_show [of ts] assms(1,2) by simp
  moreover have "FormatSignatureHeader ts sig \<noteq> []" by (simp add: h)
  ultimately show ?thesis using assms(1,4) by (simp add: ParseSignatureHeader_def)
qed

lemma in_tolerance:
  assumes "\<bar>d\<bar> \<le> 9223372036"
  shows "wrap64 (abs64 (wrap64 d) * 1000000000) = \<bar>d\<bar> * 1000000000"
proof -
  have "fits64 d" "fits64 (- d)" "fits64 (\<bar>d\<bar> * 1000000000)" using assms by (auto simp: fits64_def)
  then show ?thesis by (auto simp: abs64_def)
qed

text \<open>
  The partner's check of a signature. Within the tolerance, the header the dispatcher
  signed for one payload verifies for a payload exactly if both have the same keyed hash
  under that timestamp, so it verifies for the payload itself; outside the tolerance it
  verifies for none.
\<close>

lemma VerifySignature_SignPayload:
  assumes "0 < ts" and "fits64 ts" and "\<bar>now div 1000000000 - ts\<bar> \<le> 9223372036" and "0 < tolerance"
  shows "VerifySignature now secret (SignPayload secret ts payload) payload' tolerance \<longleftrightarrow>
     \<bar>now div 1000000000 - ts\<bar> * 1000000000 \<le> tolerance
     \<and> ComputeSignature secret ts payload' = ComputeSignature secret ts payload"
proof -
  have "ParseSignatureHeader (SignPayload secret ts payload) = Inr (ts, ComputeSignature secret ts payload)"
    unfolding SignPayload_def
    by (rule ParseSignatureHeader_Format [OF assms(1,2)]) (simp_all add: signature_is_hash plain_hash)
  then show ?thesis using in_tolerance [OF assms(3)] assms(4) by (auto simp: VerifySignature_def)
qed

text \<open>A timestamp further away than an \<open>int64\<close> of nanoseconds reaches passes the check of the
  tolerance, because the product wraps.\<close>

lemma far_timestamp_accepted:
  "VerifySignature 1700000000000000000 secret (SignPayload secret 11000000000 payload) payload DefaultSignatureTolerance"
proof -
  have "ParseSignatureHeader (SignPayload secret 11000000000 payload)
      = Inr (11000000000, ComputeSignature secret 11000000000 payload)"
    unfolding SignPayload_def
    by (rule ParseSignatureHeader_Format) (simp_all add: signature_is_hash plain_hash fits64_def)
  moreover have "wrap64 (abs64 (wrap64 (1700000000 - 11000000000)) * 1000000000) < 0"
    by code_simp
  ultimately show ?thesis by (simp add: VerifySignature_def DefaultSignatureTolerance_def)
qed

subsection \<open>Runs of the dispatcher\<close>

text \<open>
  Calls in any order, each in an environment of the kind \<open>W\<close>. The identifiers a dispatch draws
  are new.
\<close>

definition fresh_oids :: "webhook_env \<Rightarrow> Dispatcher \<Rightarrow> bool" where
  "fresh_oids E d \<longleftrightarrow> inj (we_oid E) \<and> (\<forall>n. we_oid E n \<noteq> ''test_ping'' \<and> we_oid E n \<notin> wd_ID ` set (ds_deliveries d)
     \<and> we_oid E n \<notin> (\<lambda>(p, a). hp_Delivery p) ` set (ds_sent d))"

inductive webhook_run :: "(webhook_env \<Rightarrow> bool) \<Rightarrow> Dispatcher \<Rightarrow> bool" for W where
  start: "webhook_run W (NewDispatcher [] [])"
| register: "webhook_run W d \<Longrightarrow> W E \<Longrightarrow> RegisterSubscription E sub d = (d', r) \<Longrightarrow> webhook_run W d'"
| delete: "webhook_run W d \<Longrightarrow> W E \<Longrightarrow> DeleteSubscription E i d = (d', e) \<Longrightarrow> webhook_run W d'"
| dispatch: "webhook_run W d \<Longrightarrow> W E \<Longrightarrow> fresh_oids E d \<Longrightarrow> Dispatch E event dat d = (d', r) \<Longrightarrow> webhook_run W d'"
| retries: "webhook_run W d \<Longrightarrow> W E \<Longrightarrow> ProcessPendingRetries E d = (d', n) \<Longrightarrow> webhook_run W d'"
| test: "webhook_run W d \<Longrightarrow> W E \<Longrightarrow> TestEndpoint E url secret d = (d', c) \<Longrightarrow> webhook_run W d'"

lemma sendHTTP_cases:
  obtains (failed) "sendHTTP E u sec ev i p d = (d, Inl (lit ''parse error''))"
  | (sent) "sendHTTP E u sec ev i p d = (d\<lparr>ds_sent := ds_sent d @ [(webhook_post E u sec ev i p, we_http E (webhook_post E u sec ev i p))]\<rparr>,
      we_http E (webhook_post E u sec ev i p))"
  by (cases "url_Parse u") (simp_all add: sendHTTP_def Let_def)

lemma webhook_post_simps [simp]: "hp_URL (webhook_post E u sec ev i p) = u" "hp_Delivery (webhook_post E u sec ev i p) = i"
  by (simp_all add: webhook_post_def Let_def)

subsection \<open>Where posts go\<close>

definition safe_url :: "string \<Rightarrow> bool" where
  "safe_url u = (case url_Parse (TrimSpace u) of
     None \<Rightarrow> False
   | Some (scheme, hostPort) \<Rightarrow> \<not> EqualFold (url_Hostname hostPort) ''localhost''
       \<and> (case ParseIP (url_Hostname hostPort) of None \<Rightarrow> True | Some ip \<Rightarrow> \<not> restricted_ip ip))"

definition lawful :: "webhook_env \<Rightarrow> bool" where
  "lawful E \<longleftrightarrow> we_allowLocal E \<noteq> ''true''
     \<and> (\<forall>col. we_subs E = Some col \<longrightarrow> (\<exists>k. collection col k)) \<and> (\<forall>col. we_deliveries E = Some col \<longrightarrow> (\<exists>k. collection col k))"

lemma ValidateWebhookURL_safe: "ValidateWebhookURL a lookup u = None \<Longrightarrow> a \<noteq> ''true'' \<Longrightarrow> safe_url u"
  by (auto simp: ValidateWebhookURL_def safe_url_def Let_def split: if_splits option.splits sum.splits)

definition urls_safe :: "Dispatcher \<Rightarrow> bool" where
  "urls_safe d \<longleftrightarrow> (\<forall>s\<in>set (ds_subs d). safe_url (ws_URL s)) \<and> (\<forall>(p, a)\<in>set (ds_sent d). safe_url (hp_URL p))"

lemma sendHTTP_safe: "urls_safe d \<Longrightarrow> safe_url u \<Longrightarrow> sendHTTP E u sec ev i p d = (d', r) \<Longrightarrow> urls_safe d' \<and> ds_subs d' = ds_subs d"
  by (cases rule: sendHTTP_cases [of E u sec ev i p d]) (auto simp: urls_safe_def)

lemma urls_safe_deliveries [simp]: "urls_safe (d\<lparr>ds_deliveries := xs\<rparr>) = urls_safe d"
  by (simp add: urls_safe_def)

lemma dispatchSingle_safe:
  assumes "urls_safe d" and "safe_url (ws_URL sub)"
  shows "urls_safe (dispatchSingle E i sub event payload d) \<and> ds_subs (dispatchSingle E i sub event payload d) = ds_subs d"
proof -
  obtain d' r where "sendHTTP E (ws_URL sub) (ws_Secret sub) event i payload d = (d', r)" by (rule prod.exhaust)
  with sendHTTP_safe [OF assms this] show ?thesis
    by (simp add: dispatchSingle_def Let_def split: option.splits)
qed

lemma dispatch_each_safe:
  "urls_safe d \<Longrightarrow> \<forall>s\<in>set subs. safe_url (ws_URL s) \<Longrightarrow> urls_safe (dispatch_each E n subs event payload d)"
  by (induction E n subs event payload d rule: dispatch_each.induct) (simp_all add: dispatchSingle_safe)

lemma ListSubscriptions_subset:
  assumes "lawful E" and "ListSubscriptions E owner d = Inr subs"
  shows "set subs \<subseteq> set (ds_subs d)"
proof (cases "we_subs E")
  case None
  then show ?thesis using assms(2) by (auto simp: ListSubscriptions_def)
next
  case (Some col)
  with assms obtain k where k: "collection col k" by (auto simp: lawful_def)
  from assms(2) Some have "Find col (listed owner) (\<lambda>s. 0) 0 None (ds_subs d) = Inr subs"
    by (auto simp: ListSubscriptions_def split: sum.splits)
  from collection.Find_Inr [OF k this] have "mset subs = mset (filter (listed owner) (ds_subs d))" by auto
  then have "set subs = set (filter (listed owner) (ds_subs d))" by (metis set_mset_mset)
  then show ?thesis by auto
qed

lemma retry_each_safe:
  assumes "\<exists>k. collection subsCol k"
  shows "urls_safe d \<Longrightarrow> retry_each E subsCol col dels n d = (d', m) \<Longrightarrow> urls_safe d'"
proof (induction dels arbitrary: n d)
  case Nil
  then show ?case by simp
next
  case (Cons del dels)
  obtain d1 m1 where one: "retry_one E subsCol col del d = (d1, m1)" by (rule prod.exhaust)
  have "urls_safe d1"
  proof (cases "FindOne subsCol (\<lambda>s. ws_ID s = wd_SubscriptionID del) None (ds_subs d)")
    case (Inl err)
    then show ?thesis using one Cons.prems(1) by (auto simp: retry_one_def)
  next
    case (Inr sub)
    from assms obtain k where "collection subsCol k" ..
    from collection.FindOne_Inr [OF this Inr] have "safe_url (ws_URL sub)"
      using Cons.prems(1) by (auto simp: urls_safe_def)
    moreover obtain d2 r where "sendHTTP E (ws_URL sub) (ws_Secret sub) (wd_Event del) (wd_ID del) (wd_Payload del) d = (d2, r)"
      by (rule prod.exhaust)
    ultimately show ?thesis using one Inr sendHTTP_safe [OF Cons.prems(1)] by (auto simp: retry_one_def Let_def)
  qed
  with Cons.IH [of d1 "n + m1"] Cons.prems(2) one show ?case by simp
qed

lemma prepared_safe:
  assumes "lawful E" and "prepare_subscription E sub = Inr sub'"
  shows "safe_url (ws_URL sub')"
proof -
  from assms(2) have "ValidateWebhookURL (we_allowLocal E) (we_lookup E) (TrimSpace (ws_URL sub)) = None"
    "ws_URL sub' = TrimSpace (ws_URL sub)"
    by (auto simp: prepare_subscription_def Let_def split: option.splits if_splits sum.splits)
  then show ?thesis using ValidateWebhookURL_safe assms(1) by (auto simp: lawful_def)
qed

lemma stored_subset:
  assumes "lawful E" and "we_subs E = Some col" and "InsertOne col x ys = (subs, e)"
  shows "set subs \<subseteq> insert x (set ys)"
proof -
  from assms(1,2) obtain k where k: "collection col k" by (auto simp: lawful_def)
  show ?thesis by (rule collection.InsertOne_cases [OF k, of x ys]) (use assms(3) in auto)
qed

lemma put_subset: "set (put_subscription x ys) \<subseteq> insert x (set ys)"
  by (auto simp: put_subscription_def)

lemma urls_safe_subs:
  "urls_safe d \<Longrightarrow> safe_url (ws_URL x) \<Longrightarrow> set subs \<subseteq> insert x (set (ds_subs d)) \<Longrightarrow> urls_safe (d\<lparr>ds_subs := subs\<rparr>)"
  by (auto simp: urls_safe_def)

lemma register_safe:
  assumes "lawful E" and "urls_safe d" and "RegisterSubscription E s d = (d', r)"
  shows "urls_safe d'"
proof (cases s)
  case None
  then show ?thesis using assms by (simp add: RegisterSubscription_def)
next
  case (Some sub)
  note s = this
  show ?thesis
  proof (cases "prepare_subscription E sub")
    case (Inl err)
    then show ?thesis using assms s by (simp add: RegisterSubscription_def)
  next
    case (Inr sub1)
    define sub' where "sub' = (if ws_ID sub1 = zero_oid then sub1\<lparr>ws_ID := we_oid E 0\<rparr> else sub1)"
    have safe: "safe_url (ws_URL sub')" using prepared_safe [OF assms(1) Inr] by (simp add: sub'_def)
    show ?thesis
    proof (cases "we_subs E")
      case None
      then have "d' = d\<lparr>ds_subs := put_subscription sub' (ds_subs d)\<rparr>"
        using assms(3) s Inr by (simp add: RegisterSubscription_def sub'_def [symmetric])
      then show ?thesis using urls_safe_subs [OF assms(2) safe put_subset] by simp
    next
      case (Some col)
      obtain subs e where i: "InsertOne col sub' (ds_subs d) = (subs, e)" by (rule prod.exhaust)
      then have "d' = d\<lparr>ds_subs := subs\<rparr>"
        using assms(3) s Inr Some by (simp add: RegisterSubscription_def sub'_def [symmetric] split: option.splits)
      then show ?thesis using urls_safe_subs [OF assms(2) safe stored_subset [OF assms(1) Some i]] by simp
    qed
  qed
qed

lemma delete_safe:
  assumes "lawful E" and "urls_safe d" and "DeleteSubscription E i d = (d', e)"
  shows "urls_safe d'"
proof (cases "we_subs E")
  case None
  then show ?thesis using assms(2,3) by (auto simp: DeleteSubscription_def urls_safe_def split: if_splits)
next
  case (Some col)
  with assms(1) obtain k where k: "collection col k" by (auto simp: lawful_def)
  obtain subs r where u: "UpdateOne col (\<lambda>s. ws_ID s = i) (\<lambda>s. Some (deactivate (we_now E) s)) (ds_subs d) = (subs, r)"
    by (rule prod.exhaust)
  have d': "d' = d\<lparr>ds_subs := subs\<rparr>" using assms(3) Some u by (auto simp: DeleteSubscription_def split: sum.splits)
  have "subs = ds_subs d \<or> (\<exists>j. j < length (ds_subs d) \<and> subs = (ds_subs d)[j := deactivate (we_now E) (ds_subs d ! j)])"
    by (rule collection.UpdateOne_cases [OF k, of "\<lambda>s. ws_ID s = i" "\<lambda>s. Some (deactivate (we_now E) s)" "ds_subs d"])
      (use u in auto)
  then show ?thesis
  proof
    assume "\<exists>j. j < length (ds_subs d) \<and> subs = (ds_subs d)[j := deactivate (we_now E) (ds_subs d ! j)]"
    then obtain j where j: "j < length (ds_subs d)" "subs = (ds_subs d)[j := deactivate (we_now E) (ds_subs d ! j)]" by blast
    have "safe_url (ws_URL (deactivate (we_now E) (ds_subs d ! j)))"
      using assms(2) nth_mem [OF j(1)] by (auto simp: urls_safe_def deactivate_def)
    then show ?thesis unfolding d' j(2) by (rule urls_safe_subs [OF assms(2)]) (rule set_update_subset_insert)
  qed (use assms(2) d' in simp)
qed

lemma webhook_run_urls_safe: "webhook_run lawful d \<Longrightarrow> urls_safe d"
proof (induction rule: webhook_run.induct)
  case start
  then show ?case by (simp add: NewDispatcher_def urls_safe_def)
next
  case (register d E sub d' r)
  then show ?case using register_safe by blast
next
  case (delete d E i d' e)
  then show ?case using delete_safe by blast
next
  case (dispatch d E event dat d' r)
  show ?case
  proof (cases "ListSubscriptions E [] d")
    case (Inl err)
    then show ?thesis using dispatch by (simp add: Dispatch_def)
  next
    case (Inr subs)
    have "\<forall>s\<in>set subs. safe_url (ws_URL s)"
      using ListSubscriptions_subset [OF dispatch.hyps(2) Inr] dispatch.IH by (auto simp: urls_safe_def)
    then show ?thesis using dispatch Inr dispatch_each_safe by (auto simp: Dispatch_def split: sum.splits)
  qed
next
  case (retries d E d' n)
  then show ?case
    using retry_each_safe by (fastforce simp: ProcessPendingRetries_def lawful_def split: option.splits sum.splits prod.splits)
next
  case (test d E url secret d' c)
  show ?case
  proof (cases "ValidateWebhookURL (we_allowLocal E) (we_lookup E) url")
    case None
    then have "safe_url url" using ValidateWebhookURL_safe test.hyps(2) by (auto simp: lawful_def)
    then show ?thesis using sendHTTP_safe [OF test.IH] test.hyps(3) None by (auto simp: TestEndpoint_def)
  next
    case (Some err)
    then show ?thesis using test by (simp add: TestEndpoint_def)
  qed
qed


definition partner_env :: webhook_env where
  "partner_env =
     \<lparr>we_subs = Some (mem_ops (\<lambda>a b. ws_ID a = ws_ID b)), we_deliveries = Some (mem_ops (\<lambda>a b. wd_ID a = wd_ID b)),
      we_now = 1700000000000000000, we_oid = (\<lambda>n. ''d'' @ replicate n (CHR ''x'')), we_eventID = ''whevt_1'',
      we_secret = Inr [1], we_rand = (\<lambda>n. 0), we_allowLocal = [], we_lookup = (\<lambda>h. Inl (lit ''no such host'')),
      we_http = (\<lambda>p. Inr 503)\<rparr>"

lemma partner_lawful: "lawful partner_env"
  by (auto simp: lawful_def partner_env_def intro: mem.collection_axioms)

definition pinged :: Dispatcher where
  "pinged = fst (TestEndpoint partner_env ''https://8.8.8.8/hook'' ''s'' (NewDispatcher [] []))"


subsection \<open>How often a delivery is attempted\<close>

text \<open>A database that works, in the form of collections in memory with unique identifiers.\<close>

definition working :: "webhook_env \<Rightarrow> bool" where
  "working E \<longleftrightarrow> we_subs E = Some (mem_ops (\<lambda>a b. ws_ID a = ws_ID b))
     \<and> we_deliveries E = Some (mem_ops (\<lambda>a b. wd_ID a = wd_ID b))"

definition posts :: "string \<Rightarrow> Dispatcher \<Rightarrow> int" where
  "posts i d = int (length (filter (\<lambda>(p, a). hp_Delivery p = i) (ds_sent d)))"

definition acks :: "string \<Rightarrow> Dispatcher \<Rightarrow> int" where
  "acks i d = int (length (filter (\<lambda>(p, a). hp_Delivery p = i \<and> accepted a) (ds_sent d)))"

definition delivery_ok :: "Dispatcher \<Rightarrow> WebhookDelivery \<Rightarrow> bool" where
  "delivery_ok d x \<longleftrightarrow> wd_ID x \<noteq> ''test_ping'' \<and> wd_MaxAttempts x = DefaultMaxAttempts
     \<and> posts (wd_ID x) d \<le> wd_Attempts x \<and> 1 \<le> wd_Attempts x \<and> wd_Attempts x \<le> wd_MaxAttempts x
     \<and> wd_Status x \<noteq> DeliveryPending \<and> (wd_Status x = DeliveryRetrying \<longrightarrow> wd_Attempts x < wd_MaxAttempts x)
     \<and> acks (wd_ID x) d = (if wd_Status x = DeliveryDelivered then 1 else 0)"

definition deliveries_ok :: "Dispatcher \<Rightarrow> bool" where
  "deliveries_ok d \<longleftrightarrow> ds_maxAttempts d = DefaultMaxAttempts \<and> distinct (map wd_ID (ds_deliveries d))
     \<and> (\<forall>x\<in>set (ds_deliveries d). delivery_ok d x)"

lemma sendHTTP_counts:
  assumes "sendHTTP E u sec ev i p d = (d', r)"
  shows "ds_deliveries d' = ds_deliveries d" "ds_subs d' = ds_subs d" "ds_maxAttempts d' = ds_maxAttempts d"
    "posts j d' \<le> posts j d + (if j = i then 1 else 0)" "j \<noteq> i \<Longrightarrow> posts j d' = posts j d"
    "acks j d' = acks j d + (if j = i \<and> accepted r then 1 else 0)"
    "set (ds_sent d') \<subseteq> set (ds_sent d) \<union> {(q, a). hp_Delivery q = i}"
  by (cases rule: sendHTTP_cases [of E u sec ev i p d]; use assms in \<open>auto simp: posts_def acks_def accepted_def\<close>)+

lemma counts_deliveries [simp]: "posts i (d\<lparr>ds_deliveries := xs\<rparr>) = posts i d" "acks i (d\<lparr>ds_deliveries := xs\<rparr>) = acks i d"
  "delivery_ok (d\<lparr>ds_deliveries := xs\<rparr>) x = delivery_ok d x"
  by (simp_all add: posts_def acks_def delivery_ok_def)

lemma delivery_ok_other:
  assumes "delivery_ok d x" and "sendHTTP E u sec ev i p d = (d', r)" and "wd_ID x \<noteq> i"
  shows "delivery_ok d' x"
  using assms(1,3) sendHTTP_counts(5,6) [OF assms(2), of "wd_ID x"] by (auto simp: delivery_ok_def)

lemma settle_attempt_simps [simp]:
  "wd_ID (settle_attempt E r x) = wd_ID x" "wd_Attempts (settle_attempt E r x) = wd_Attempts x"
  "wd_MaxAttempts (settle_attempt E r x) = wd_MaxAttempts x"
  "wd_Status (settle_attempt E r x) = (if accepted r then DeliveryDelivered
     else if wd_MaxAttempts x \<le> wd_Attempts x then DeliveryFailed else DeliveryRetrying)"
  by (simp_all add: settle_attempt_def Let_def)

lemma dispatchSingle_ok:
  assumes "deliveries_ok d" and "working E" and "i \<noteq> ''test_ping''" and "i \<notin> wd_ID ` set (ds_deliveries d)"
    and "i \<notin> (\<lambda>(p, a). hp_Delivery p) ` set (ds_sent d)"
  shows "deliveries_ok (dispatchSingle E i sub event payload d)"
    and "wd_ID ` set (ds_deliveries (dispatchSingle E i sub event payload d)) \<subseteq> insert i (wd_ID ` set (ds_deliveries d))"
    and "(\<lambda>(p, a). hp_Delivery p) ` set (ds_sent (dispatchSingle E i sub event payload d))
      \<subseteq> insert i ((\<lambda>(p, a). hp_Delivery p) ` set (ds_sent d))"
proof -
  obtain d1 r where s: "sendHTTP E (ws_URL sub) (ws_Secret sub) event i payload d = (d1, r)" by (rule prod.exhaust)
  note c = sendHTTP_counts [OF s]
  define x where "x = settle_attempt E r (new_delivery E i sub event payload (ds_maxAttempts d))"
  have i: "wd_ID x = i" by (simp add: x_def new_delivery_def)
  have "\<not> list_ex (\<lambda>y. wd_ID x = wd_ID y) (ds_deliveries d)" using assms(4) i by (auto simp: list_ex_iff)
  then have d': "dispatchSingle E i sub event payload d = d1\<lparr>ds_deliveries := ds_deliveries d @ [x]\<rparr>"
    using assms(2) s c(1) unfolding x_def
    by (simp add: dispatchSingle_def Let_def working_def mem_ops_def mem_InsertOne_def)
  have "posts i d = 0" "acks i d = 0" using assms(5) by (auto simp: posts_def acks_def filter_empty_conv)
  then have "delivery_ok d1 x"
    using c(4) [of i] c(6) [of i] assms(1,3) by (auto simp: delivery_ok_def x_def new_delivery_def deliveries_ok_def DefaultMaxAttempts_def)
  moreover have "\<forall>y\<in>set (ds_deliveries d). delivery_ok d1 y"
    using assms(1,4) delivery_ok_other [OF _ s] by (auto simp: deliveries_ok_def)
  ultimately show "deliveries_ok (dispatchSingle E i sub event payload d)"
    using assms(1,4) i c(3) by (auto simp: d' deliveries_ok_def)
  show "wd_ID ` set (ds_deliveries (dispatchSingle E i sub event payload d)) \<subseteq> insert i (wd_ID ` set (ds_deliveries d))"
    using i by (auto simp: d')
  show "(\<lambda>(p, a). hp_Delivery p) ` set (ds_sent (dispatchSingle E i sub event payload d))
      \<subseteq> insert i ((\<lambda>(p, a). hp_Delivery p) ` set (ds_sent d))"
    using c(7) by (auto simp: d')
qed

lemma dispatch_each_ok:
  "deliveries_ok d \<Longrightarrow> working E \<Longrightarrow> inj (we_oid E) \<Longrightarrow>
   \<forall>m\<ge>n. we_oid E m \<noteq> ''test_ping'' \<and> we_oid E m \<notin> wd_ID ` set (ds_deliveries d)
     \<and> we_oid E m \<notin> (\<lambda>(p, a). hp_Delivery p) ` set (ds_sent d) \<Longrightarrow>
   deliveries_ok (dispatch_each E n subs event payload d)"
proof (induction E n subs event payload d rule: dispatch_each.induct)
  case (2 E n sub subs event payload d)
  show ?case
  proof (cases "MatchesEvent sub event")
    case True
    let ?d = "dispatchSingle E (we_oid E n) sub event payload d"
    have n: "we_oid E n \<noteq> ''test_ping''" "we_oid E n \<notin> wd_ID ` set (ds_deliveries d)"
      "we_oid E n \<notin> (\<lambda>(p, a). hp_Delivery p) ` set (ds_sent d)" using 2(6) by auto
    note ok = dispatchSingle_ok [OF 2(3,4) n]
    have "we_oid E m \<noteq> we_oid E n" if "Suc n \<le> m" for m using 2(5) that by (auto dest: injD)
    then have "\<forall>m\<ge>Suc n. we_oid E m \<noteq> ''test_ping'' \<and> we_oid E m \<notin> wd_ID ` set (ds_deliveries ?d)
        \<and> we_oid E m \<notin> (\<lambda>(p, a). hp_Delivery p) ` set (ds_sent ?d)"
      using 2(6) ok(2,3) [of sub event payload] Suc_leD by (meson insertE subsetD)
    then show ?thesis using 2(1) [OF True ok(1) 2(4,5)] True by simp
  next
    case False
    then show ?thesis using 2 by simp
  qed
qed simp

text \<open>Updating the one delivery with a given identifier.\<close>

lemma update_by_id:
  assumes "distinct (map wd_ID xs)" and "x \<in> set xs"
  shows "fst (mem_UpdateOne (\<lambda>y. wd_ID y = wd_ID x) (\<lambda>y. Some (g y)) xs) = map (\<lambda>y. if wd_ID y = wd_ID x then g y else y) xs"
proof -
  let ?f = "\<lambda>y. wd_ID y = wd_ID x"
  obtain ys r where u: "mem_UpdateOne ?f (\<lambda>y. Some (g y)) xs = (ys, Inr r)"
    by (cases "find (\<lambda>i. ?f (xs ! i)) [0..<length xs]") (auto simp: mem_UpdateOne_def)
  have "list_ex ?f xs" using assms(2) by (auto simp: list_ex_iff)
  with mem_UpdateOne_law [OF u] obtain i where i: "i < length xs" "?f (xs ! i)" "ys = xs[i := g (xs ! i)]" by auto
  have same: "j = i" if "j < length xs" "?f (xs ! j)" for j
    using nth_eq_iff_index_eq [OF assms(1), of j i] that i by simp
  have "xs[i := g (xs ! i)] ! j = map (\<lambda>y. if ?f y then g y else y) xs ! j" if j: "j < length xs" for j
  proof (cases "j = i")
    case True
    then show ?thesis using i(1,2) by simp
  next
    case False
    then have "\<not> ?f (xs ! j)" using same [OF j] by blast
    then show ?thesis using j False by simp
  qed
  then have "xs[i := g (xs ! i)] = map (\<lambda>y. if ?f y then g y else y) xs" by (intro nth_equalityI) simp_all
  then show ?thesis using u i(3) by simp
qed

lemma deliveries_ok_update:
  assumes "deliveries_ok d" and "ds_deliveries d' = ds_deliveries d" and "ds_maxAttempts d' = ds_maxAttempts d"
    and "x \<in> set (ds_deliveries d)" and "wd_ID (g x) = wd_ID x" and "delivery_ok d' (g x)"
    and "\<And>y. delivery_ok d y \<Longrightarrow> wd_ID y \<noteq> wd_ID x \<Longrightarrow> delivery_ok d' y"
  shows "deliveries_ok (d'\<lparr>ds_deliveries := map (\<lambda>y. if wd_ID y = wd_ID x then g y else y) (ds_deliveries d)\<rparr>)"
proof -
  have dist: "distinct (map wd_ID (ds_deliveries d))" using assms(1) by (simp add: deliveries_ok_def)
  then have uniq: "y = x" if "y \<in> set (ds_deliveries d)" "wd_ID y = wd_ID x" for y
    using that assms(4) by (simp add: distinct_map inj_on_def)
  then have "map wd_ID (map (\<lambda>y. if wd_ID y = wd_ID x then g y else y) (ds_deliveries d)) = map wd_ID (ds_deliveries d)"
    using assms(5) by auto
  then have "distinct (map wd_ID (map (\<lambda>y. if wd_ID y = wd_ID x then g y else y) (ds_deliveries d)))"
    using dist by (simp only:)
  moreover have "\<forall>z\<in>set (map (\<lambda>y. if wd_ID y = wd_ID x then g y else y) (ds_deliveries d)). delivery_ok d' z"
    using assms(1,6,7) uniq by (auto simp: deliveries_ok_def)
  ultimately show ?thesis using assms(1,3) by (simp add: deliveries_ok_def del: map_map)
qed

lemma retry_update_simps [simp]:
  "wd_ID (retry_update E del r x) = wd_ID x" "wd_Attempts (retry_update E del r x) = wd_Attempts del"
  "wd_MaxAttempts (retry_update E del r x) = wd_MaxAttempts x"
  "wd_Status (retry_update E del r x) = (if accepted r then DeliveryDelivered
     else if wd_MaxAttempts del \<le> wd_Attempts del then DeliveryFailed else DeliveryRetrying)"
  by (simp_all add: retry_update_def Let_def)

lemma subscription_gone_simps [simp]:
  "wd_ID (subscription_gone E x) = wd_ID x" "wd_Attempts (subscription_gone E x) = wd_Attempts x"
  "wd_MaxAttempts (subscription_gone E x) = wd_MaxAttempts x" "wd_Status (subscription_gone E x) = DeliveryFailed"
  by (simp_all add: subscription_gone_def)

text \<open>What one retry does to the deliveries.\<close>

lemma retry_one_ok:
  assumes "deliveries_ok d" and "x \<in> set (ds_deliveries d)" and "wd_Status x = DeliveryRetrying"
    and "retry_one E subsCol (mem_ops (\<lambda>a b. wd_ID a = wd_ID b)) x d = (d', n)"
  shows "deliveries_ok d'" and "\<exists>g. ds_deliveries d' = map (\<lambda>y. if wd_ID y = wd_ID x then g y else y) (ds_deliveries d)"
proof -
  have dist: "distinct (map wd_ID (ds_deliveries d))" and x: "delivery_ok d x"
    using assms(1,2) by (auto simp: deliveries_ok_def)
  note upd = update_by_id [OF dist assms(2)]
  show "deliveries_ok d'" "\<exists>g. ds_deliveries d' = map (\<lambda>y. if wd_ID y = wd_ID x then g y else y) (ds_deliveries d)"
  proof (atomize (full), cases "FindOne subsCol (\<lambda>s. ws_ID s = wd_SubscriptionID x) None (ds_subs d)")
    case (Inl err)
    have d': "d' = d\<lparr>ds_deliveries := map (\<lambda>y. if wd_ID y = wd_ID x then subscription_gone E y else y) (ds_deliveries d)\<rparr>"
      using assms(4) Inl upd [of "subscription_gone E"] by (auto simp: retry_one_def mem_ops_def)
    have "delivery_ok d (subscription_gone E x)" using x assms(3) by (auto simp: delivery_ok_def)
    then have "deliveries_ok d'" unfolding d' by (intro deliveries_ok_update [OF assms(1) refl refl assms(2)]) simp_all
    then show "deliveries_ok d' \<and> (\<exists>g. ds_deliveries d' = map (\<lambda>y. if wd_ID y = wd_ID x then g y else y) (ds_deliveries d))"
      using d' by auto
  next
    case (Inr sub)
    let ?del = "x\<lparr>wd_Attempts := wd_Attempts x + 1\<rparr>"
    obtain d1 r where s: "sendHTTP E (ws_URL sub) (ws_Secret sub) (wd_Event x) (wd_ID x) (wd_Payload x) d = (d1, r)"
      by (rule prod.exhaust)
    note c = sendHTTP_counts [OF s]
    have d': "d' = d1\<lparr>ds_deliveries := map (\<lambda>y. if wd_ID y = wd_ID x then retry_update E ?del r y else y) (ds_deliveries d)\<rparr>"
      using assms(4) Inr s c(1) upd [of "retry_update E ?del r"] by (auto simp: retry_one_def mem_ops_def Let_def)
    have "delivery_ok d1 (retry_update E ?del r x)"
      using x assms(3) c(4) [of "wd_ID x"] c(6) [of "wd_ID x"] by (auto simp: delivery_ok_def)
    then have "deliveries_ok d'" unfolding d'
      by (intro deliveries_ok_update [OF assms(1) c(1,3) assms(2)]) (simp_all add: delivery_ok_other [OF _ s])
    then show "deliveries_ok d' \<and> (\<exists>g. ds_deliveries d' = map (\<lambda>y. if wd_ID y = wd_ID x then g y else y) (ds_deliveries d))"
      using d' by auto
  qed
qed

lemma retry_each_ok:
  "deliveries_ok d \<Longrightarrow> set dels \<subseteq> set (ds_deliveries d) \<Longrightarrow> distinct (map wd_ID dels) \<Longrightarrow>
   \<forall>x\<in>set dels. wd_Status x = DeliveryRetrying \<Longrightarrow>
   retry_each E subsCol (mem_ops (\<lambda>a b. wd_ID a = wd_ID b)) dels n d = (d', m) \<Longrightarrow> deliveries_ok d'"
proof (induction dels arbitrary: n d)
  case Nil
  then show ?case by simp
next
  case (Cons x dels)
  obtain d1 k where one: "retry_one E subsCol (mem_ops (\<lambda>a b. wd_ID a = wd_ID b)) x d = (d1, k)" by (rule prod.exhaust)
  have x: "x \<in> set (ds_deliveries d)" "wd_Status x = DeliveryRetrying" using Cons.prems(2,4) by auto
  note ok = retry_one_ok [OF Cons.prems(1) x one]
  from ok(2) obtain g where g: "ds_deliveries d1 = map (\<lambda>y. if wd_ID y = wd_ID x then g y else y) (ds_deliveries d)" ..
  have "y \<in> set (ds_deliveries d1)" if "y \<in> set dels" for y
  proof -
    have "wd_ID y \<noteq> wd_ID x" using that Cons.prems(3) by (auto simp: image_iff)
    moreover have "y \<in> set (ds_deliveries d)" using that Cons.prems(2) by auto
    ultimately show ?thesis by (auto simp: g image_iff intro!: bexI [of _ y])
  qed
  then show ?case using Cons.IH [OF ok(1), of "n + k"] Cons.prems one by auto
qed

lemma webhook_run_deliveries_ok: "webhook_run working d \<Longrightarrow> deliveries_ok d"
proof (induction rule: webhook_run.induct)
  case start
  then show ?case by (simp add: NewDispatcher_def deliveries_ok_def)
next
  case (register d E sub d' r)
  then have "ds_deliveries d' = ds_deliveries d \<and> ds_sent d' = ds_sent d \<and> ds_maxAttempts d' = ds_maxAttempts d"
    by (auto simp: RegisterSubscription_def Let_def split: option.splits sum.splits prod.splits)
  then show ?case using register.IH by (auto simp: deliveries_ok_def delivery_ok_def posts_def acks_def)
next
  case (delete d E i d' e)
  then have "ds_deliveries d' = ds_deliveries d \<and> ds_sent d' = ds_sent d \<and> ds_maxAttempts d' = ds_maxAttempts d"
    by (auto simp: DeleteSubscription_def split: option.splits sum.splits prod.splits if_splits)
  then show ?case using delete.IH by (auto simp: deliveries_ok_def delivery_ok_def posts_def acks_def)
next
  case (dispatch d E event dat d' r)
  then show ?case using dispatch_each_ok [OF dispatch.IH dispatch.hyps(2), where n = 0]
    by (auto simp: Dispatch_def fresh_oids_def split: sum.splits)
next
  case (retries d E d' n)
  let ?due = "filter (retry_due (we_now E)) (ds_deliveries d)"
  obtain m where m: "retry_each E (mem_ops (\<lambda>a b. ws_ID a = ws_ID b)) (mem_ops (\<lambda>a b. wd_ID a = wd_ID b)) (take 50 ?due) 0 d = (d', m)"
    using retries.hyps(2,3)
    by (auto simp: ProcessPendingRetries_def working_def mem_ops_def [where conflict = "\<lambda>a b. wd_ID a = wd_ID b"]
        mem_Find_def sort_key_const split: prod.splits)
  show ?case
    by (rule retry_each_ok [OF retries.IH _ _ _ m])
      (use retries.IH in \<open>auto simp: deliveries_ok_def retry_due_def distinct_map distinct_take inj_on_def dest!: in_set_takeD\<close>)
next
  case (test d E url secret d' c)
  show ?case
  proof (cases "ValidateWebhookURL (we_allowLocal E) (we_lookup E) url")
    case None
    then have s: "sendHTTP E url secret ''webhook.test'' ''test_ping'' (ping_payload E) d = (d', c)"
      using test.hyps(3) by (simp add: TestEndpoint_def)
    then show ?thesis using test.IH sendHTTP_counts(1,3) [OF s] delivery_ok_other [OF _ s]
      by (auto simp: deliveries_ok_def) (auto simp: delivery_ok_def)
  next
    case (Some err)
    then show ?thesis using test by (simp add: TestEndpoint_def)
  qed
qed


subsection \<open>A sample run\<close>

text \<open>A partner that answers 503: a subscription is made, an event dispatched, the subscription
  deactivated, and the worker runs a minute later.\<close>

definition partner_sub :: WebhookSubscription where
  "partner_sub = \<lparr>ws_ID = zero_oid, ws_URL = ''https://8.8.8.8/hook'', ws_Secret = ''s'', ws_Events = [''*''], ws_IsActive = False,
     ws_OwnerID = ''bob'', ws_CreatedAt = 0, ws_UpdatedAt = 0\<rparr>"

definition stored_sub :: WebhookSubscription where
  "stored_sub = partner_sub\<lparr>ws_ID := ''d'', ws_IsActive := True, ws_CreatedAt := 1700000000000000000,
     ws_UpdatedAt := 1700000000000000000\<rparr>"

definition later_env :: webhook_env where
  "later_env = partner_env\<lparr>we_now := 1700000060000000000\<rparr>"

definition subscribed :: Dispatcher where
  "subscribed = fst (RegisterSubscription partner_env (Some partner_sub) (NewDispatcher [] []))"

definition dispatched :: Dispatcher where
  "dispatched = fst (Dispatch partner_env ''transfer.completed'' (Inr ''{}'') subscribed)"

definition unsubscribed :: Dispatcher where
  "unsubscribed = fst (DeleteSubscription partner_env ''d'' dispatched)"

definition retried :: Dispatcher where
  "retried = fst (ProcessPendingRetries later_env unsubscribed)"

lemma partner_url: "ValidateWebhookURL [] (we_lookup partner_env) ''https://8.8.8.8/hook'' = None"
  "url_Parse ''https://8.8.8.8/hook'' = Some (''https'', ''8.8.8.8'')" "TrimSpace ''https://8.8.8.8/hook'' = ''https://8.8.8.8/hook''"
  by code_simp+

lemma subscribed_eq: "subscribed = NewDispatcher [stored_sub] []"
proof -
  have "prepare_subscription partner_env partner_sub = Inr (stored_sub\<lparr>ws_ID := zero_oid\<rparr>)"
    using partner_url by (simp add: prepare_subscription_def partner_sub_def stored_sub_def partner_env_def Let_def)
  then show ?thesis
    by (simp add: subscribed_def RegisterSubscription_def NewDispatcher_def partner_env_def mem_ops_def mem_InsertOne_def
        stored_sub_def partner_sub_def Let_def)
qed

definition event_text :: string where
  "event_text = payload_text ''whevt_1'' ''transfer.completed'' 1700000000000000000 ''{}''"

definition first_post :: http_post where
  "first_post = webhook_post partner_env ''https://8.8.8.8/hook'' ''s'' ''transfer.completed'' ''d'' event_text"

definition first_delivery :: WebhookDelivery where
  "first_delivery = settle_attempt partner_env (Inr 503) (new_delivery partner_env ''d'' stored_sub ''transfer.completed'' event_text 5)"

lemma dispatched_eq:
  "dispatched = \<lparr>ds_maxAttempts = 5, ds_subs = [stored_sub], ds_deliveries = [first_delivery], ds_sent = [(first_post, Inr 503)]\<rparr>"
proof -
  let ?d = "NewDispatcher [stored_sub] []"
  have "ListSubscriptions partner_env [] ?d = Inr [stored_sub]"
    by (simp add: ListSubscriptions_def NewDispatcher_def partner_env_def mem_ops_def mem_Find_def listed_def stored_sub_def partner_sub_def)
  moreover have "MatchesEvent stored_sub ''transfer.completed''"
    by (simp add: MatchesEvent_def stored_sub_def partner_sub_def)
  moreover have "payload_text (we_eventID partner_env) ''transfer.completed'' (we_now partner_env) ''{}'' = event_text"
    by (simp add: event_text_def partner_env_def)
  moreover have "dispatchSingle partner_env ''d'' stored_sub ''transfer.completed'' event_text ?d =
      \<lparr>ds_maxAttempts = 5, ds_subs = [stored_sub], ds_deliveries = [first_delivery], ds_sent = [(first_post, Inr 503)]\<rparr>"
  proof -
    have u: "ws_URL stored_sub = ''https://8.8.8.8/hook''" "ws_Secret stored_sub = ''s''"
      by (simp_all add: stored_sub_def partner_sub_def)
    have a: "we_http partner_env p = Inr 503" for p by (simp add: partner_env_def)
    have "sendHTTP partner_env (ws_URL stored_sub) (ws_Secret stored_sub) ''transfer.completed'' ''d'' event_text ?d
        = (?d\<lparr>ds_sent := [(first_post, Inr 503)]\<rparr>, Inr 503)"
      using partner_url(2) by (simp add: sendHTTP_def u a first_post_def Let_def NewDispatcher_def)
    moreover have "we_deliveries partner_env = Some (mem_ops (\<lambda>a b. wd_ID a = wd_ID b))" by (simp add: partner_env_def)
    ultimately show ?thesis
      by (simp add: dispatchSingle_def Let_def mem_ops_def mem_InsertOne_def NewDispatcher_def first_delivery_def DefaultMaxAttempts_def)
  qed
  moreover have "we_oid partner_env 0 = ''d''" by (simp add: partner_env_def)
  ultimately show ?thesis by (simp add: dispatched_def subscribed_eq Dispatch_def)
qed

text \<open>The retry goes out although the subscription was deactivated.\<close>

lemma retry_ignores_deactivation:
  "list_all (\<lambda>s. \<not> ws_IsActive s) (ds_subs unsubscribed) \<and> length (ds_sent retried) = Suc (length (ds_sent unsubscribed))"
proof -
  have un: "unsubscribed = dispatched\<lparr>ds_subs := [deactivate 1700000000000000000 stored_sub]\<rparr>"
    unfolding unsubscribed_def
    by (simp add: dispatched_eq DeleteSubscription_def partner_env_def mem_ops_def mem_UpdateOne_def stored_sub_def)
  have due: "retry_due (we_now later_env) first_delivery" "wd_SubscriptionID first_delivery = ''d''"
    by (simp_all add: retry_due_def first_delivery_def settle_attempt_def new_delivery_def accepted_def Let_def later_env_def
        partner_env_def computeBackoff_def wrap64_def stored_sub_def)
  have sub: "ws_ID (deactivate n stored_sub) = ''d''" "ws_URL (deactivate n stored_sub) = ''https://8.8.8.8/hook''" for n
    by (simp_all add: deactivate_def stored_sub_def partner_sub_def)
  have "length (ds_sent retried) = Suc (length (ds_sent unsubscribed))"
    using due sub partner_url(2)
    by (simp add: retried_def un dispatched_eq ProcessPendingRetries_def later_env_def partner_env_def mem_ops_def
        mem_Find_def retry_one_def mem_FindOne_def sendHTTP_def Let_def)
  then show ?thesis by (simp add: un deactivate_def)
qed


end
