(* ===== verification/GatewayAccess.thy ===== *)
theory GatewayAccess
  imports Tokens GoNet FxServer LedgerService
begin

text \<open>
  What stands before the handlers of the API gateway (\<open>cmd/api-gateway/middleware.go\<close>): the cache
  of validated claims, the rate limiter, the trusted proxies, bearer authentication against the
  auth service, and the ownership rules for wallets with their cache. A request reads the
  clock once. Response headers are left out.
\<close>

subsection \<open>Requests and answers\<close>

text \<open>
  \<open>r_Fresh\<close> is the random identifier that stands in for a missing association header. The body
  is given as JSON decoding leaves it, see \<open>GoJson\<close>; here only its presence matters.
\<close>

datatype gw_value = VS string | VM gomsg | VD int | VB bool | VF float64 | VMoney "Money option"
  | VList "gw_value list" | VObj "(string \<times> gw_value) list"

text \<open>\<open>FxBody\<close> and \<open>LedgerBody\<close> are messages of those services written as JSON, \<open>Proxied\<close> a body copied
  from another server.\<close>

datatype gw_payload = NoBody | TextBody gomsg | JsonBody gw_value | FxBody fx_payload
  | LedgerBody string GetLedgerResponse | Proxied string

type_synonym gw_response = "int \<times> gw_payload"

text \<open>\<open>http.Error\<close>, \<open>writeJSON\<close> and \<open>writeAuthError\<close>\<close>

definition http_Error :: "gomsg \<Rightarrow> int \<Rightarrow> gw_response" where
  "http_Error msg code = (code, TextBody msg)"

definition writeJSON :: "int \<Rightarrow> (string \<times> gw_value) list \<Rightarrow> gw_response" where
  "writeJSON code kvs = (code, JsonBody (VObj kvs))"

definition writeAuthError :: "int \<Rightarrow> gomsg \<Rightarrow> gw_response" where
  "writeAuthError code msg = writeJSON code [(''error'', VM msg)]"

definition Second_ns :: int where "Second_ns = 1000000000"

subsection \<open>The cache of validated claims\<close>

record claimsCacheEntry =
  ca_claims :: Claims
  ca_expiresAt :: int

record claimsCache =
  cc_entries :: "(string, claimsCacheEntry) gomap"
  cc_secret :: string

definition newClaimsCache :: "string \<Rightarrow> claimsCache" where
  "newClaimsCache fingerprintSecret = \<lparr>cc_entries = [], cc_secret = fingerprintSecret\<rparr>"

definition claimsCache_tick :: "int \<Rightarrow> claimsCache \<Rightarrow> claimsCache" where
  "claimsCache_tick now c = c\<lparr>cc_entries := filter (\<lambda>(k, v). \<not> ca_expiresAt v < now) (cc_entries c)\<rparr>"

definition claimsCache_key :: "claimsCache \<Rightarrow> string \<Rightarrow> string" where
  "claimsCache_key c token = RawURL_EncodeToString (hmac_sha256 (cc_secret c) token)"

definition claimsCache_get :: "int \<Rightarrow> string \<Rightarrow> claimsCache \<Rightarrow> Claims option" where
  "claimsCache_get now token c =
     (case map_of (cc_entries c) (claimsCache_key c token) of
        None \<Rightarrow> None
      | Some entry \<Rightarrow> if ca_expiresAt entry < now then None else Some (ca_claims entry))"

definition claims_ttl :: "int \<Rightarrow> Claims \<Rightarrow> int" where
  "claims_ttl now claims =
     (let ttl = 30 * Second_ns; tokenExpiry = cl_ExpiresAt claims * Second_ns
      in if 0 < cl_ExpiresAt claims \<and> tokenExpiry < now + ttl then tokenExpiry - now else ttl)"

definition claimsCache_set :: "int \<Rightarrow> string \<Rightarrow> Claims \<Rightarrow> claimsCache \<Rightarrow> claimsCache" where
  "claimsCache_set now token claims c =
     (if claims_ttl now claims \<le> 0 then c
      else c\<lparr>cc_entries := AList.update (claimsCache_key c token)
                \<lparr>ca_claims = claims, ca_expiresAt = now + claims_ttl now claims\<rparr> (cc_entries c)\<rparr>)"

definition claimsCache_invalidate :: "string \<Rightarrow> claimsCache \<Rightarrow> claimsCache" where
  "claimsCache_invalidate token c = c\<lparr>cc_entries := AList.delete (claimsCache_key c token) (cc_entries c)\<rparr>"

subsection \<open>The rate limiter\<close>

record clientBucket =
  cb_tokens :: float64
  cb_lastSeen :: int

record RateLimiter =
  rl_rate :: float64
  rl_burst :: float64
  rl_clients :: "(string, clientBucket) gomap"

definition NewRateLimiter :: "float64 \<Rightarrow> int \<Rightarrow> RateLimiter" where
  "NewRateLimiter rate burst = \<lparr>rl_rate = rate, rl_burst = float_of_int burst, rl_clients = []\<rparr>"

definition RateLimiter_tick :: "int \<Rightarrow> RateLimiter \<Rightarrow> RateLimiter" where
  "RateLimiter_tick now rl =
     rl\<lparr>rl_clients := filter (\<lambda>(ip, b). \<not> cb_lastSeen b < now - 300 * Second_ns) (rl_clients rl)\<rparr>"

text \<open>\<open>Duration.Seconds()\<close> of a duration that is not negative\<close>

definition Seconds :: "int \<Rightarrow> float64" where
  "Seconds d = fadd (float_of_int (d div Second_ns)) (fdiv (float_of_int (d mod Second_ns)) (float_of_int Second_ns))"

definition refill :: "RateLimiter \<Rightarrow> int \<Rightarrow> clientBucket \<Rightarrow> float64" where
  "refill rl now b =
     (let tokens = fadd (cb_tokens b) (fmul (Seconds (now - cb_lastSeen b)) (rl_rate rl))
      in if rl_burst rl < tokens then rl_burst rl else tokens)"

definition Allow :: "int \<Rightarrow> string \<Rightarrow> RateLimiter \<Rightarrow> RateLimiter \<times> bool" where
  "Allow now clientIP rl =
     (case map_of (rl_clients rl) clientIP of
        None \<Rightarrow>
          (rl\<lparr>rl_clients := AList.update clientIP \<lparr>cb_tokens = fsub (rl_burst rl) 1, cb_lastSeen = now\<rparr> (rl_clients rl)\<rparr>,
           True)
      | Some b \<Rightarrow>
          let tokens = refill rl now b
          in if 1 \<le> tokens
             then (rl\<lparr>rl_clients := AList.update clientIP \<lparr>cb_tokens = fsub tokens 1, cb_lastSeen = now\<rparr> (rl_clients rl)\<rparr>, True)
             else (rl\<lparr>rl_clients := AList.update clientIP \<lparr>cb_tokens = tokens, cb_lastSeen = now\<rparr> (rl_clients rl)\<rparr>, False))"

subsection \<open>Who is calling\<close>

text \<open>The two environment variables the gateway reads for this.\<close>

record proxy_config =
  px_TrustProxy :: string
  px_TrustedProxies :: string

definition trusted_item :: "string \<Rightarrow> string \<Rightarrow> bool" where
  "trusted_item remoteIP item =
     (case ParseCIDR item of
        Some net \<Rightarrow> (case ParseIP remoteIP of Some parsed \<Rightarrow> Contains net parsed | None \<Rightarrow> False)
      | None \<Rightarrow> item = remoteIP)"

definition isTrustedProxy :: "proxy_config \<Rightarrow> string \<Rightarrow> bool" where
  "isTrustedProxy px remoteIP =
     (if px_TrustProxy px = ''true'' then True
      else if px_TrustedProxies px \<noteq> []
      then list_ex (trusted_item remoteIP)
             (filter (\<lambda>item. item \<noteq> []) (map TrimSpace (Split (CHR '','') (px_TrustedProxies px))))
      else case ParseIP remoteIP of None \<Rightarrow> False | Some ip \<Rightarrow> IsLoopback ip)"

definition extractClientIP :: "proxy_config \<Rightarrow> string \<Rightarrow> string \<Rightarrow> string" where
  "extractClientIP px remoteAddr xff =
     (let remoteIP = (case SplitHostPort remoteAddr of Some (host, port) \<Rightarrow> host | None \<Rightarrow> remoteAddr)
      in if isTrustedProxy px remoteIP \<and> xff \<noteq> []
         then (let clientIP = TrimSpace (hd (Split (CHR '','') xff))
               in if ParseIP clientIP \<noteq> None then clientIP else remoteIP)
         else remoteIP)"

subsection \<open>The ownership cache\<close>

record walletOwnershipEntry =
  wo_ownerID :: string
  wo_expiresAt :: int

record WalletOwnershipCache =
  oc_entries :: "(string, walletOwnershipEntry) gomap"
  oc_ttl :: int

definition NewWalletOwnershipCache :: "int \<Rightarrow> WalletOwnershipCache" where
  "NewWalletOwnershipCache ttl = \<lparr>oc_entries = [], oc_ttl = (if ttl \<le> 0 then 300 * Second_ns else ttl)\<rparr>"

definition Ownership_tick :: "int \<Rightarrow> WalletOwnershipCache \<Rightarrow> WalletOwnershipCache" where
  "Ownership_tick now c = c\<lparr>oc_entries := filter (\<lambda>(k, v). \<not> wo_expiresAt v < now) (oc_entries c)\<rparr>"

definition fold_id :: "string \<Rightarrow> string" where
  "fold_id s = ToLower (TrimSpace s)"

definition Ownership_Get :: "int \<Rightarrow> string \<Rightarrow> WalletOwnershipCache \<Rightarrow> string option" where
  "Ownership_Get now walletID c =
     (case map_of (oc_entries c) (fold_id walletID) of
        None \<Rightarrow> None
      | Some entry \<Rightarrow> if wo_expiresAt entry < now then None else Some (wo_ownerID entry))"

definition Ownership_Set :: "int \<Rightarrow> string \<Rightarrow> string \<Rightarrow> WalletOwnershipCache \<Rightarrow> WalletOwnershipCache" where
  "Ownership_Set now walletID ownerID c =
     (if fold_id walletID = [] \<or> fold_id ownerID = [] then c
      else c\<lparr>oc_entries := AList.update (fold_id walletID)
                \<lparr>wo_ownerID = fold_id ownerID, wo_expiresAt = now + oc_ttl c\<rparr> (oc_entries c)\<rparr>)"

definition Ownership_Invalidate :: "string \<Rightarrow> WalletOwnershipCache \<Rightarrow> WalletOwnershipCache" where
  "Ownership_Invalidate walletID c = c\<lparr>oc_entries := AList.delete (fold_id walletID) (oc_entries c)\<rparr>"

subsection \<open>Ownership\<close>

definition isOpaqueID :: "string \<Rightarrow> bool" where
  "isOpaqueID i \<longleftrightarrow> length i = 36 \<and> i ! 8 = CHR ''-'' \<and> i ! 13 = CHR ''-'' \<and> i ! 18 = CHR ''-'' \<and> i ! 23 = CHR ''-''"

definition isOpaqueOrSystemID :: "string \<Rightarrow> bool" where
  "isOpaqueOrSystemID i =
     (let i = fold_id i
      in HasPrefix i ''wal_'' \<or> HasPrefix i ''wal-'' \<or> HasPrefix i ''acc_'' \<or> HasPrefix i ''acc-'' \<or> isOpaqueID i)"

definition ValidateWalletOwnership ::
    "int \<Rightarrow> WalletOwnershipCache \<Rightarrow> Claims option \<Rightarrow> string \<Rightarrow> gomsg option" where
  "ValidateWalletOwnership now cache claims walletID =
     (case claims of
        None \<Rightarrow> Some ErrInsufficientPerms
      | Some c \<Rightarrow>
          if Claims_HasRole c RoleAdmin then None
          else let sub = fold_id (cl_Subject c); target = fold_id walletID
               in if sub = [] \<or> target = [] then Some ErrIDORViolation
                  else if owns_by_name sub target then None
                  else (case Ownership_Get now target cache of
                          Some owner \<Rightarrow> if owner = sub then None else Some ErrIDORViolation
                        | None \<Rightarrow> Some ErrIDORViolation))"

definition ValidateWalletCreationOwnership :: "Claims option \<Rightarrow> string \<Rightarrow> string \<Rightarrow> gomsg option" where
  "ValidateWalletCreationOwnership claims walletID ownerID =
     (case claims of
        None \<Rightarrow> Some ErrInsufficientPerms
      | Some c \<Rightarrow>
          if Claims_HasRole c RoleAdmin then None
          else let sub = fold_id (cl_Subject c); owner = fold_id ownerID; target = fold_id walletID
               in if sub = [] \<or> target = [] then Some ErrIDORViolation
                  else if owner \<noteq> [] \<and> owner \<noteq> sub then Some ErrIDORViolation
                  else if owns_by_name sub target then None
                  else if owner = sub \<and> (HasPrefix target ''wal_'' \<or> HasPrefix target ''acc_'' \<or> isOpaqueID target)
                  then None
                  else Some ErrIDORViolation)"

subsection \<open>Authentication\<close>

datatype TokenErrorCode = TOKEN_OK | TOKEN_EXPIRED | TOKEN_INVALID_SIG | TOKEN_REVOKED | TOKEN_MALFORMED

record ValidateTokenResponse =
  vt_Valid :: bool
  vt_Subject :: string
  vt_Roles :: "string list"
  vt_Scopes :: "string list"
  vt_ExpiresAt :: int64
  vt_Error :: TokenErrorCode

text \<open>What the client of a gRPC service sees of a call: a status error or a response.\<close>

type_synonym ('b, 'r) rpc = "'b \<Rightarrow> 'b \<times> (goerr + 'r)"

definition tokenErrorMessage :: "TokenErrorCode \<Rightarrow> string" where
  "tokenErrorMessage code =
     (case code of
        TOKEN_EXPIRED \<Rightarrow> ''token has expired''
      | TOKEN_REVOKED \<Rightarrow> ''token has been revoked''
      | TOKEN_INVALID_SIG \<Rightarrow> ''token signature is invalid''
      | _ \<Rightarrow> ''malformed token'')"

definition claims_of_response :: "ValidateTokenResponse \<Rightarrow> Claims" where
  "claims_of_response resp =
     \<lparr>cl_Subject = vt_Subject resp, cl_Roles = vt_Roles resp, cl_Scopes = vt_Scopes resp, cl_Issuer = [],
      cl_Audience = [], cl_IssuedAt = 0, cl_ExpiresAt = vt_ExpiresAt resp\<rparr>"

definition public_prefix :: "string \<Rightarrow> bool" where
  "public_prefix path \<longleftrightarrow> HasPrefix path ''/swagger'' \<or> HasPrefix path ''/docs'' \<or> HasPrefix path ''/api-docs''"

text \<open>The answer that ends the request, or the claims the next handler finds in its context.\<close>

definition AuthMiddleware ::
    "(string \<Rightarrow> ('b, ValidateTokenResponse) rpc) \<Rightarrow> (string \<Rightarrow> bool) \<Rightarrow> int \<Rightarrow> string \<Rightarrow> string
       \<Rightarrow> claimsCache \<times> 'b \<Rightarrow> (claimsCache \<times> 'b) \<times> (gw_response + Claims option)" where
  "AuthMiddleware validate publicPaths now path authHeader st =
     (case st of (cache, back) \<Rightarrow>
        if publicPaths path \<or> public_prefix path then (st, Inr None)
        else (case ExtractBearerToken authHeader of
                Inl err \<Rightarrow> (st, Inl (writeAuthError 401 (Msg ''Authentication required: %v'' [ArgE err])))
              | Inr tokenStr \<Rightarrow>
                  (case claimsCache_get now tokenStr cache of
                     Some cached \<Rightarrow> (st, Inr (Some cached))
                   | None \<Rightarrow>
                       (case validate tokenStr back of
                          (back, Inl err) \<Rightarrow>
                            ((cache, back), Inl (writeAuthError 401 (lit ''Authentication service unavailable'')))
                        | (back, Inr resp) \<Rightarrow>
                            if \<not> vt_Valid resp
                            then ((cache, back), Inl (writeAuthError 401
                                    (Msg ''Invalid token: %s'' [ArgS (tokenErrorMessage (vt_Error resp))])))
                            else let claims = claims_of_response resp
                                 in ((claimsCache_set now tokenStr claims cache, back), Inr (Some claims))))))"

definition RateLimitMiddleware ::
    "proxy_config \<Rightarrow> int \<Rightarrow> string \<Rightarrow> string \<Rightarrow> RateLimiter \<Rightarrow> RateLimiter \<times> gw_response option" where
  "RateLimitMiddleware px now remoteAddr xff limiter =
     (case Allow now (extractClientIP px remoteAddr xff) limiter of
        (limiter, True) \<Rightarrow> (limiter, None)
      | (limiter, False) \<Rightarrow>
          (limiter, Some (writeJSON 429 [(''error'', VS ''Too many requests. Rate limit exceeded.'')])))"

definition RequireRole :: "string \<Rightarrow> Claims option \<Rightarrow> gw_response option" where
  "RequireRole role claims =
     (case claims of
        Some c \<Rightarrow> if Claims_HasRole c role then None
                  else Some (writeAuthError 403 (Msg ''Access forbidden: requires %s role'' [ArgS role]))
      | None \<Rightarrow> Some (writeAuthError 403 (Msg ''Access forbidden: requires %s role'' [ArgS role])))"

definition RequireScope :: "string \<Rightarrow> Claims option \<Rightarrow> gw_response option" where
  "RequireScope scope claims =
     (case claims of
        Some c \<Rightarrow> if Claims_HasScope c scope then None
                  else Some (writeAuthError 403 (Msg ''Access forbidden: requires %s permission'' [ArgS scope]))
      | None \<Rightarrow> Some (writeAuthError 403 (Msg ''Access forbidden: requires %s permission'' [ArgS scope])))"

subsection \<open>What the claims cache remembers\<close>

text \<open>
  \<open>log\<close> lists what the auth service has answered: when, for which token, with which claims. Every
  entry of the cache comes from an answer for a token with its key, and dies 30 seconds after
  it and with the token.
\<close>

definition cache_backed :: "(int \<times> string \<times> Claims) list \<Rightarrow> claimsCache \<Rightarrow> bool" where
  "cache_backed vlog c \<longleftrightarrow> (\<forall>k e. map_of (cc_entries c) k = Some e \<longrightarrow>
     (\<exists>t token. (t, token, ca_claims e) \<in> set vlog \<and> claimsCache_key c token = k
        \<and> ca_expiresAt e \<le> t + 30 * Second_ns
        \<and> (0 < cl_ExpiresAt (ca_claims e) \<longrightarrow> ca_expiresAt e \<le> cl_ExpiresAt (ca_claims e) * Second_ns)))"

lemma cache_backed_mono: "cache_backed vlog c \<Longrightarrow> set vlog \<subseteq> set vlog' \<Longrightarrow> cache_backed vlog' c"
  by (fastforce simp: cache_backed_def)

lemma cache_backed_new: "cache_backed vlog (newClaimsCache secret)"
  by (simp add: cache_backed_def newClaimsCache_def)

lemma key_of_update [simp]: "claimsCache_key (c\<lparr>cc_entries := es\<rparr>) token = claimsCache_key c token"
  by (simp add: claimsCache_key_def)

lemma claimsCache_set_stores:
  "\<not> claims_ttl now claims \<le> 0 \<Longrightarrow>
     map_of (cc_entries (claimsCache_set now token claims c)) =
       (map_of (cc_entries c))(claimsCache_key c token \<mapsto> \<lparr>ca_claims = claims, ca_expiresAt = now + claims_ttl now claims\<rparr>)"
  by (simp add: claimsCache_set_def update_conv')

lemma key_of_set [simp]: "claimsCache_key (claimsCache_set now token claims c) t = claimsCache_key c t"
  by (simp add: claimsCache_set_def)

lemma cache_backed_set:
  assumes "cache_backed vlog c"
  shows "cache_backed ((now, token, claims) # vlog) (claimsCache_set now token claims c)"
proof (cases "claims_ttl now claims \<le> 0")
  case True
  then show ?thesis using cache_backed_mono [OF assms, of "(now, token, claims) # vlog"]
    by (auto simp: claimsCache_set_def)
next
  case False
  have ttl: "claims_ttl now claims \<le> 30 * Second_ns"
    "0 < cl_ExpiresAt claims \<Longrightarrow> now + claims_ttl now claims \<le> cl_ExpiresAt claims * Second_ns"
    by (auto simp: claims_ttl_def Let_def)
  show ?thesis
    unfolding cache_backed_def
  proof (intro allI impI)
    fix k e assume "map_of (cc_entries (claimsCache_set now token claims c)) k = Some e"
    with claimsCache_set_stores [OF False, of token c]
    consider "k = claimsCache_key c token" "e = \<lparr>ca_claims = claims, ca_expiresAt = now + claims_ttl now claims\<rparr>"
      | "map_of (cc_entries c) k = Some e"
      by (cases "k = claimsCache_key c token") simp_all
    then show "\<exists>t tok. (t, tok, ca_claims e) \<in> set ((now, token, claims) # vlog)
        \<and> claimsCache_key (claimsCache_set now token claims c) tok = k \<and> ca_expiresAt e \<le> t + 30 * Second_ns
        \<and> (0 < cl_ExpiresAt (ca_claims e) \<longrightarrow> ca_expiresAt e \<le> cl_ExpiresAt (ca_claims e) * Second_ns)"
    proof cases
      case 1
      then show ?thesis using ttl by (intro exI [of _ now] exI [of _ token]) simp
    next
      case 2
      then show ?thesis using assms unfolding cache_backed_def by (simp, blast)
    qed
  qed
qed

lemma cache_backed_tick: "gomap_ok (cc_entries c) \<Longrightarrow> cache_backed vlog c \<Longrightarrow> cache_backed vlog (claimsCache_tick now c)"
proof -
  assume ok: "gomap_ok (cc_entries c)" and c: "cache_backed vlog c"
  have "map_of (cc_entries c) k = Some e" if "map_of (cc_entries (claimsCache_tick now c)) k = Some e" for k e
    using that ok map_of_SomeD [OF that] by (auto simp: claimsCache_tick_def gomap_ok_def)
  then show ?thesis using c by (fastforce simp: cache_backed_def claimsCache_tick_def)
qed

lemma cache_backed_invalidate: "cache_backed vlog c \<Longrightarrow> cache_backed vlog (claimsCache_invalidate token c)"
  by (fastforce simp: cache_backed_def claimsCache_invalidate_def delete_conv' split: if_splits)

lemma claimsCache_hit:
  assumes "cache_backed vlog c" and "claimsCache_get now token c = Some claims"
  shows "\<exists>t token'. (t, token', claims) \<in> set vlog \<and> claimsCache_key c token' = claimsCache_key c token
    \<and> now \<le> t + 30 * Second_ns \<and> (0 < cl_ExpiresAt claims \<longrightarrow> now \<le> cl_ExpiresAt claims * Second_ns)"
  using assms by (fastforce simp: cache_backed_def claimsCache_get_def split: option.splits if_splits)

text \<open>The gateway over time: requests in any order, the background cleanup, and evictions.\<close>

inductive guard_run :: "string \<Rightarrow> int \<Rightarrow> (int \<times> string \<times> Claims) list \<Rightarrow> claimsCache \<Rightarrow> bool" for secret where
  start: "guard_run secret now [] (newClaimsCache secret)"
| later: "guard_run secret t vlog c \<Longrightarrow> t \<le> now \<Longrightarrow> guard_run secret now vlog c"
| validated: "guard_run secret now vlog c \<Longrightarrow> guard_run secret now ((now, token, claims) # vlog) (claimsCache_set now token claims c)"
| cleanup: "guard_run secret now vlog c \<Longrightarrow> guard_run secret now vlog (claimsCache_tick now c)"
| evicted: "guard_run secret now vlog c \<Longrightarrow> guard_run secret now vlog (claimsCache_invalidate token c)"

lemma gomap_ok_claims: "gomap_ok (cc_entries c) \<Longrightarrow> gomap_ok (cc_entries (claimsCache_set now token claims c))"
  "gomap_ok (cc_entries c) \<Longrightarrow> gomap_ok (cc_entries (claimsCache_tick now c))"
  "gomap_ok (cc_entries c) \<Longrightarrow> gomap_ok (cc_entries (claimsCache_invalidate token c))"
  by (simp_all add: claimsCache_set_def claimsCache_tick_def claimsCache_invalidate_def gomap_ok_def
      distinct_map_filter distinct_update distinct_delete)

lemma guard_run_backed: "guard_run secret now vlog c \<Longrightarrow> cache_backed vlog c \<and> gomap_ok (cc_entries c)"
proof (induction rule: guard_run.induct)
  case (start now)
  then show ?case using cache_backed_new [of "[]" secret] by (simp add: newClaimsCache_def gomap_ok_def)
next
  case (validated now vlog c token claims)
  then show ?case using cache_backed_set gomap_ok_claims(1) by blast
next
  case (cleanup now vlog c)
  then show ?case using cache_backed_tick gomap_ok_claims(2) by blast
next
  case (evicted now vlog c token)
  then show ?case using cache_backed_invalidate gomap_ok_claims(3) by blast
qed simp

text \<open>A request only ever adds what the auth service has just confirmed.\<close>

lemma AuthMiddleware_steps:
  assumes "guard_run secret now vlog cache"
    and "AuthMiddleware validate pub now path hdr (cache, back) = ((cache', back'), r)"
  shows "\<exists>vlog'. guard_run secret now vlog' cache'"
proof -
  have "cache' = cache \<or> (\<exists>token claims. cache' = claimsCache_set now token claims cache)"
    using assms(2) by (auto simp: AuthMiddleware_def Let_def split: if_splits sum.splits option.splits prod.splits)
  then show ?thesis using assms(1) guard_run.validated by blast
qed

lemma AuthMiddleware_accepts:
  assumes "AuthMiddleware validate pub now path hdr (cache, back) = (st', Inr c)"
    and "\<not> pub path" and "\<not> public_prefix path"
  obtains (hit) token claims where "c = Some claims" "ExtractBearerToken hdr = Inr token"
      "claimsCache_get now token cache = Some claims" "st' = (cache, back)"
  | (checked) token back' resp where "c = Some (claims_of_response resp)" "ExtractBearerToken hdr = Inr token"
      "validate token back = (back', Inr resp)" "vt_Valid resp" "snd st' = back'"
  using assms
  by (auto simp: AuthMiddleware_def Let_def split: if_splits sum.splits option.splits prod.splits) metis


definition alice_claims :: Claims where
  "alice_claims = \<lparr>cl_Subject = ''alice'', cl_Roles = [''user''], cl_Scopes = [''wallet:transfer''], cl_Issuer = [],
     cl_Audience = [], cl_IssuedAt = 0, cl_ExpiresAt = 900\<rparr>"

text \<open>The auth service has revoked the token that it confirmed 20 seconds ago.\<close>

definition revoking :: "string \<Rightarrow> (unit, ValidateTokenResponse) rpc" where
  "revoking token back = (back, Inr \<lparr>vt_Valid = False, vt_Subject = [], vt_Roles = [], vt_Scopes = [],
     vt_ExpiresAt = 0, vt_Error = TOKEN_REVOKED\<rparr>)"

definition alice_cache :: claimsCache where
  "alice_cache = claimsCache_set (100 * Second_ns) ''t1'' alice_claims (newClaimsCache ''k'')"

lemma alice_hit: "claimsCache_get (120 * Second_ns) ''t1'' alice_cache = Some alice_claims"
  by (simp add: claimsCache_get_def alice_cache_def claimsCache_set_def newClaimsCache_def claims_ttl_def
      alice_claims_def Second_ns_def claimsCache_key_def)


subsection \<open>What the rate limiter admits\<close>

fun Allow_all :: "int list \<Rightarrow> string \<Rightarrow> RateLimiter \<Rightarrow> bool list" where
  "Allow_all [] ip rl = []"
| "Allow_all (now # ts) ip rl = (case Allow now ip rl of (rl, ok) \<Rightarrow> ok # Allow_all ts ip rl)"

lemma map_of_filter_distinct:
  "distinct (map fst m) \<Longrightarrow>
     map_of (filter P m) k = (case map_of m k of None \<Rightarrow> None | Some v \<Rightarrow> if P (k, v) then Some v else None)"
  by (induction m) (auto simp: map_of_eq_None_iff image_iff split: option.splits)

lemma Seconds_0 [simp]: "Seconds 0 = 0"
  by (simp add: Seconds_def fadd_def fdiv_def float_of_int_def)

lemma fl_of_nat: "0 \<le> n \<Longrightarrow> n < 2 ^ 53 \<Longrightarrow> fl (of_int n) = of_int n"
  by (cases "n = 0") (simp_all add: fl_of_int_exact)

lemma refill_same_instant:
  assumes "0 \<le> n" and "n \<le> b" and "b < 2 ^ 53" and "rl_burst rl = of_int b"
  shows "refill rl now \<lparr>cb_tokens = of_int n, cb_lastSeen = now\<rparr> = of_int n"
  using assms fl_of_nat [of n] by (simp add: refill_def fadd_def fmul_def Let_def)

lemma Allow_same_instant:
  assumes "0 \<le> n" and "n \<le> b" and "b < 2 ^ 53" and "rl_burst rl = of_int b"
    and "map_of (rl_clients rl) ip = Some \<lparr>cb_tokens = of_int n, cb_lastSeen = now\<rparr>"
  shows "Allow_all (replicate k now) ip rl = replicate (min k (nat n)) True @ replicate (k - nat n) False"
  using assms
proof (induction k arbitrary: n rl)
  case 0
  then show ?case by simp
next
  case (Suc k)
  note r = refill_same_instant [OF Suc.prems(1-4)]
  show ?case
  proof (cases "n = 0")
    case True
    define rl' where "rl' = rl\<lparr>rl_clients := AList.update ip \<lparr>cb_tokens = of_int n, cb_lastSeen = now\<rparr> (rl_clients rl)\<rparr>"
    have "Allow now ip rl = (rl', False)" using Suc.prems(5) r True by (simp add: Allow_def rl'_def)
    moreover have "Allow_all (replicate k now) ip rl' = replicate (min k (nat n)) True @ replicate (k - nat n) False"
      by (rule Suc.IH [OF Suc.prems(1-3)]) (use Suc.prems(4) in \<open>simp_all add: rl'_def update_conv'\<close>)
    ultimately show ?thesis using True by simp
  next
    case False
    define rl' where "rl' = rl\<lparr>rl_clients := AList.update ip \<lparr>cb_tokens = of_int (n - 1), cb_lastSeen = now\<rparr> (rl_clients rl)\<rparr>"
    have "fsub (of_int n) 1 = of_int (n - 1)" using fl_of_nat [of "n - 1"] Suc.prems(1-3) False by (simp add: fsub_def)
    then have "Allow now ip rl = (rl', True)"
      using Suc.prems(1,5) r False by (simp add: Allow_def rl'_def)
    moreover have "Allow_all (replicate k now) ip rl' = replicate (min k (nat (n - 1))) True @ replicate (k - nat (n - 1)) False"
      by (rule Suc.IH) (use Suc.prems False in \<open>simp_all add: rl'_def update_conv'\<close>)
    moreover have "nat n = Suc (nat (n - 1))" using Suc.prems(1) False by simp
    ultimately show ?thesis by simp
  qed
qed

lemma Seconds_ge:
  assumes "300 * Second_ns \<le> d"
  shows "300 \<le> Seconds d"
proof -
  have "300 \<le> d div Second_ns" using assms by (simp add: Second_ns_def)
  then have "(of_int 300 :: rat) \<le> of_int (d div Second_ns)" by (simp only: of_int_le_iff)
  then have a: "300 \<le> float_of_int (d div Second_ns)"
    using fl_mono_nonneg [of 300 "of_int (d div Second_ns)"] fl_of_nat [of 300] by (simp add: float_of_int_def)
  have "0 \<le> d mod Second_ns" by (simp add: Second_ns_def)
  then have "0 \<le> fdiv (float_of_int (d mod Second_ns)) (float_of_int Second_ns)"
    by (simp add: fdiv_def float_of_int_def fl_nonneg Second_ns_def)
  with a show ?thesis
    using fl_mono_nonneg [of 300 "float_of_int (d div Second_ns) + fdiv (float_of_int (d mod Second_ns)) (float_of_int Second_ns)"]
      fl_of_nat [of 300] by (simp add: Seconds_def fadd_def)
qed

lemma refill_idle:
  assumes "0 \<le> b" and "b < 2 ^ 53" and "rl_burst rl = of_int b" and "of_int b \<le> 300 * rl_rate rl"
    and "0 \<le> cb_tokens c" and "300 * Second_ns \<le> now - cb_lastSeen c"
  shows "refill rl now c = rl_burst rl"
proof -
  have "0 \<le> (of_int b :: rat)" using assms(1) by simp
  with assms(4) have rate: "0 \<le> rl_rate rl" by linarith
  have "300 * rl_rate rl \<le> Seconds (now - cb_lastSeen c) * rl_rate rl"
    using Seconds_ge [OF assms(6)] rate by (rule mult_right_mono)
  with assms(4) have "of_int b \<le> Seconds (now - cb_lastSeen c) * rl_rate rl" by linarith
  then have p: "of_int b \<le> fmul (Seconds (now - cb_lastSeen c)) (rl_rate rl)"
    using fl_mono_nonneg [of "of_int b"] fl_of_nat [OF assms(1,2)] assms(1) by (simp add: fmul_def)
  then have "of_int b \<le> fadd (cb_tokens c) (fmul (Seconds (now - cb_lastSeen c)) (rl_rate rl))"
    using fl_mono_nonneg [of "of_int b" "cb_tokens c + fmul (Seconds (now - cb_lastSeen c)) (rl_rate rl)"]
      fl_of_nat [OF assms(1,2)] assms(1,5) by (simp add: fadd_def)
  then show ?thesis using assms(3) by (simp add: refill_def Let_def)
qed

lemma burst_of_new_client:
  assumes burst: "rl_burst rl = of_int 100" and new: "map_of (rl_clients rl) ip = None"
  shows "Allow_all (replicate k now) ip rl = replicate (min k 100) True @ replicate (k - 100) False"
proof -
  define rl' where "rl' = rl\<lparr>rl_clients := AList.update ip \<lparr>cb_tokens = of_int 99, cb_lastSeen = now\<rparr> (rl_clients rl)\<rparr>"
  have "fsub (rl_burst rl) 1 = of_int 99" using burst fl_of_nat [of 99] by (simp add: fsub_def)
  then have first: "Allow now ip rl = (rl', True)" using new by (simp add: Allow_def rl'_def)
  have rest: "Allow_all (replicate j now) ip rl' = replicate (min j (nat 99)) True @ replicate (j - nat 99) False" for j
    by (rule Allow_same_instant [of 99 100]) (use burst in \<open>simp_all add: rl'_def update_conv'\<close>)
  show ?thesis
  proof (cases k)
    case (Suc j)
    then have "min k 100 = Suc (min j 99)" "k - 100 = j - 99" by auto
    then show ?thesis using Suc first rest [of j] by simp
  qed simp
qed

lemma cleanup_unobserved:
  assumes lim: "rl_burst rl = of_int 100" "rl_rate rl = 60"
    and ok: "gomap_ok (rl_clients rl) \<and> list_all (\<lambda>(i, b). 0 \<le> cb_tokens b) (rl_clients rl) \<and> t \<le> now"
  shows "snd (Allow now ip (RateLimiter_tick t rl)) = snd (Allow now ip rl)
    \<and> map_of (rl_clients (fst (Allow now ip (RateLimiter_tick t rl)))) ip = map_of (rl_clients (fst (Allow now ip rl))) ip"
proof (cases "map_of (rl_clients (RateLimiter_tick t rl)) ip = map_of (rl_clients rl) ip")
  case True
  then show ?thesis
    by (auto simp: Allow_def RateLimiter_tick_def refill_def Let_def update_conv' split: option.splits)
next
  case False
  then obtain c where c: "map_of (rl_clients rl) ip = Some c" "cb_lastSeen c < t - 300 * Second_ns"
    and gone: "map_of (rl_clients (RateLimiter_tick t rl)) ip = None"
    using ok by (auto simp: RateLimiter_tick_def gomap_ok_def map_of_filter_distinct split: if_splits option.splits)
  have "0 \<le> cb_tokens c" using ok map_of_SomeD [OF c(1)] by (auto simp: list_all_iff)
  from refill_idle [of 100 rl c now] this c(2) ok lim have "refill rl now c = of_int 100" by simp
  then show ?thesis using c(1) gone lim
    by (simp add: Allow_def Let_def update_conv' RateLimiter_tick_def)
qed

text \<open>
  The rate limiter with its constants, 60 per second and 100 at once: of any number of
  requests that a new client sends at one instant exactly the first 100 are admitted; and the
  cleanup of idle clients is not observable, because a client that was idle for five minutes
  has its full allowance again.
\<close>

lemma RateLimiter_burst:
  assumes "rl_burst rl = rl_burst (NewRateLimiter 60 100)" and "rl_rate rl = rl_rate (NewRateLimiter 60 100)"
  shows "(map_of (rl_clients rl) ip = None \<longrightarrow>
        Allow_all (replicate k now) ip rl = replicate (min k 100) True @ replicate (k - 100) False)
    \<and> (gomap_ok (rl_clients rl) \<and> list_all (\<lambda>(i, b). 0 \<le> cb_tokens b) (rl_clients rl) \<and> t \<le> now \<longrightarrow>
        snd (Allow now ip (RateLimiter_tick t rl)) = snd (Allow now ip rl)
        \<and> map_of (rl_clients (fst (Allow now ip (RateLimiter_tick t rl)))) ip = map_of (rl_clients (fst (Allow now ip rl))) ip)"
proof (intro conjI impI)
  have "rl_burst (NewRateLimiter 60 100) = of_int 100"
    using float_of_int_exact [of 100] by (simp add: NewRateLimiter_def)
  then have burst: "rl_burst rl = of_int 100" using assms(1) by simp
  assume new: "map_of (rl_clients rl) ip = None"
  show "Allow_all (replicate k now) ip rl = replicate (min k 100) True @ replicate (k - 100) False"
    by (rule burst_of_new_client [OF burst new])
next
  have "rl_burst (NewRateLimiter 60 100) = of_int 100"
    using float_of_int_exact [of 100] by (simp add: NewRateLimiter_def)
  then have lim: "rl_burst rl = of_int 100" "rl_rate rl = 60" using assms by (simp_all add: NewRateLimiter_def)
  assume "gomap_ok (rl_clients rl) \<and> list_all (\<lambda>(i, b). 0 \<le> cb_tokens b) (rl_clients rl) \<and> t \<le> now"
  then show "snd (Allow now ip (RateLimiter_tick t rl)) = snd (Allow now ip rl)"
    and "map_of (rl_clients (fst (Allow now ip (RateLimiter_tick t rl)))) ip = map_of (rl_clients (fst (Allow now ip rl))) ip"
    using cleanup_unobserved [OF lim] by blast+
qed

definition tired_limiter :: RateLimiter where
  "tired_limiter = (NewRateLimiter 60 100)\<lparr>rl_clients := [(''10.0.0.7'', \<lparr>cb_tokens = 0, cb_lastSeen = 0\<rparr>)]\<rparr>"

end
