(* ===== verification/GoJson.thy ===== *)
theory GoJson
  imports Encoding
begin

text \<open>
  Decoding JSON into Go structs (\<open>encoding/json\<close>). A JSON text is the value it denotes: numbers
  keep their literal, objects their keys in the order of the text, repeated keys included. The
  tokens of the text are not modelled. A key sets the field whose name it equals up to case, a
  later one again; \<open>null\<close> leaves a field alone; a value of another kind makes the decoding fail.
\<close>

datatype json = JNull | JBool bool | JNum string | JStr string | JArr "json list" | JObj "(string \<times> json) list"

text \<open>A decoder takes the value and what the variable held; the flag says that it fits.\<close>

type_synonym 'a decoder = "json \<Rightarrow> 'a \<Rightarrow> 'a \<times> bool"

definition into_string :: "string decoder" where
  "into_string v old = (case v of JStr s \<Rightarrow> (s, True) | JNull \<Rightarrow> (old, True) | _ \<Rightarrow> (old, False))"

definition into_int64 :: "int64 decoder" where
  "into_int64 v old =
     (case v of
        JNum literal \<Rightarrow> (case ParseInt literal of Some n \<Rightarrow> (n, True) | None \<Rightarrow> (old, False))
      | JNull \<Rightarrow> (old, True)
      | _ \<Rightarrow> (old, False))"

definition into_int32 :: "int32 decoder" where
  "into_int32 v old =
     (case v of
        JNum literal \<Rightarrow> (case ParseInt literal of Some n \<Rightarrow> if fits32 n then (n, True) else (old, False) | None \<Rightarrow> (old, False))
      | JNull \<Rightarrow> (old, True)
      | _ \<Rightarrow> (old, False))"

definition into_bool :: "bool decoder" where
  "into_bool v old = (case v of JBool b \<Rightarrow> (b, True) | JNull \<Rightarrow> (old, True) | _ \<Rightarrow> (old, False))"

definition into_strings :: "string list decoder" where
  "into_strings v old =
     (case v of
        JArr vs \<Rightarrow> (map (\<lambda>w. fst (into_string w [])) vs, list_all (\<lambda>w. snd (into_string w [])) vs)
      | JNull \<Rightarrow> ([], True)
      | _ \<Rightarrow> (old, False))"

text \<open>\<open>json.RawMessage\<close> keeps the value itself, also \<open>null\<close>; \<open>None\<close> is the empty message.\<close>

definition into_raw :: "json option decoder" where
  "into_raw v old = (Some v, True)"

text \<open>What a struct's field holds after decoding, and whether every value for it fitted.\<close>

definition field :: "'a decoder \<Rightarrow> 'a \<Rightarrow> string \<Rightarrow> (string \<times> json) list \<Rightarrow> 'a \<times> bool" where
  "field into zero name kvs =
     fold (\<lambda>(k, v) (old, ok). if EqualFold k name then (case into v old of (new, fits) \<Rightarrow> (new, ok \<and> fits)) else (old, ok))
       kvs (zero, True)"

definition field_value :: "'a decoder \<Rightarrow> 'a \<Rightarrow> string \<Rightarrow> (string \<times> json) list \<Rightarrow> 'a" where
  "field_value into zero name kvs = fst (field into zero name kvs)"

definition field_fits :: "'a decoder \<Rightarrow> 'a \<Rightarrow> string \<Rightarrow> (string \<times> json) list \<Rightarrow> bool" where
  "field_fits into zero name kvs = snd (field into zero name kvs)"

abbreviation str_field :: "string \<Rightarrow> (string \<times> json) list \<Rightarrow> string" where
  "str_field \<equiv> field_value into_string []"

abbreviation int_field :: "string \<Rightarrow> (string \<times> json) list \<Rightarrow> int64" where
  "int_field \<equiv> field_value into_int64 0"

abbreviation int32_field :: "string \<Rightarrow> (string \<times> json) list \<Rightarrow> int32" where
  "int32_field \<equiv> field_value into_int32 0"

text \<open>
  The members of the object that is decoded into a struct, or the error. \<open>null\<close> leaves the
  struct at its zero values, which is what no members give. \<open>strs\<close>, \<open>ints\<close> and so on name the
  struct's fields by their types.
\<close>

definition unmarshal_error :: gomsg where "unmarshal_error = lit ''json: cannot unmarshal''"

definition members ::
    "string list \<Rightarrow> string list \<Rightarrow> string list \<Rightarrow> string list \<Rightarrow> json \<Rightarrow> gomsg + (string \<times> json) list" where
  "members strs ints int32s slices v =
     (case v of
        JNull \<Rightarrow> Inr []
      | JObj kvs \<Rightarrow>
          if list_all (\<lambda>n. field_fits into_string [] n kvs) strs \<and> list_all (\<lambda>n. field_fits into_int64 0 n kvs) ints
             \<and> list_all (\<lambda>n. field_fits into_int32 0 n kvs) int32s \<and> list_all (\<lambda>n. field_fits into_strings [] n kvs) slices
          then Inr kvs else Inl unmarshal_error
      | _ \<Rightarrow> Inl unmarshal_error)"

lemma GoJson_tests:
  "str_field ''a'' [(''A'', JStr ''x''), (''b'', JStr ''z''), (''a'', JNull)] = ''x''"
  "int_field ''n'' [(''n'', JNum ''5''), (''n'', JNum ''-7'')] = - 7"
  "members [''a''] [''n''] [] [] (JObj [(''a'', JNum ''1'')]) = Inl unmarshal_error"
  "members [''a''] [''n''] [] [] (JObj [(''n'', JNum ''1.0'')]) = Inl unmarshal_error"
  "members [''a''] [''n''] [] [] JNull = Inr []"
  by code_simp+

lemma into_int64_show: "0 \<le> i \<Longrightarrow> fits64 i \<Longrightarrow> into_int64 (JNum (show_int i)) old = (i, True)"
  by (simp add: into_int64_def ParseInt_show)

lemma into_string_str: "into_string (JStr s) old = (s, True)"
  by (simp add: into_string_def)

end
