(* ===== verification/Coordinator.thy ===== *)
theory Coordinator
  imports WalletTypes
begin

text \<open>
  The failover coordinator (\<open>pkg/coordinator/coordinator.go\<close>): which of the two regions takes the
  traffic. The coordinator in memory and the one over a MongoDB document with a short-lived
  cache implement one interface, the locale \<open>failover_coordinator\<close>. What the cache may
  delay is bounded: once the stored target has been settled for longer than the time to live
  of the caches, no two regions accept writes.

  A call reads the clock at the numbered moments of its environment; before each of its
  database calls the other pods may have changed the collection.
\<close>

definition TargetPrimary :: string where "TargetPrimary = ''PRIMARY''"
definition TargetStandby :: string where "TargetStandby = ''STANDBY''"

definition ErrInvalidTarget :: "string \<Rightarrow> gomsg" where
  "ErrInvalidTarget target =
     Msg ''%w: %s'' [ArgE (lit ''invalid target: must be PRIMARY or STANDBY''), ArgS target]"

subsection \<open>In memory\<close>

record MemoryFailoverCoordinator =
  mf_target :: string

definition NewMemoryFailoverCoordinator :: "string \<Rightarrow> MemoryFailoverCoordinator" where
  "NewMemoryFailoverCoordinator initialTarget =
     \<lparr>mf_target = (if initialTarget = [] then TargetPrimary else initialTarget)\<rparr>"

definition Memory_GetActiveTarget ::
    "MemoryFailoverCoordinator \<Rightarrow> MemoryFailoverCoordinator \<times> (gomsg + string)" where
  "Memory_GetActiveTarget m = (m, Inr (mf_target m))"

definition Memory_SetActiveTarget ::
    "string \<Rightarrow> MemoryFailoverCoordinator \<Rightarrow> MemoryFailoverCoordinator \<times> gomsg option" where
  "Memory_SetActiveTarget target m =
     (if target \<noteq> TargetPrimary \<and> target \<noteq> TargetStandby then (m, Some (ErrInvalidTarget target))
      else (m\<lparr>mf_target := target\<rparr>, None))"

subsection \<open>In MongoDB\<close>

record clusterRoutingDoc =
  cd_ID :: string
  cd_Target :: string
  cd_UpdatedAt :: int

record MongoFailoverCoordinator =
  mc_cacheTTL :: int
  mc_cachedVal :: string
  mc_cacheUntil :: int

text \<open>Nanoseconds from the zero \<open>time.Time\<close>, the start of the year 1, to the epoch.\<close>

definition zero_time :: int where "zero_time = - 62135596800000000000"

definition NewMongoFailoverCoordinator :: "int \<Rightarrow> MongoFailoverCoordinator" where
  "NewMongoFailoverCoordinator cacheTTL =
     \<lparr>mc_cacheTTL = (if cacheTTL \<le> 0 then 1000000000 else cacheTTL), mc_cachedVal = [],
      mc_cacheUntil = zero_time\<rparr>"

record coord_env =
  ce_col :: "clusterRoutingDoc collection_ops"
  ce_now :: "nat \<Rightarrow> int"
  ce_others :: "nat \<Rightarrow> clusterRoutingDoc list \<Rightarrow> clusterRoutingDoc list"

definition is_routing :: "clusterRoutingDoc \<Rightarrow> bool" where
  "is_routing d \<longleftrightarrow> cd_ID d = ''cluster_routing''"

definition updateCache :: "int \<Rightarrow> string \<Rightarrow> MongoFailoverCoordinator \<Rightarrow> MongoFailoverCoordinator" where
  "updateCache now target m = m\<lparr>mc_cachedVal := target, mc_cacheUntil := now + mc_cacheTTL m\<rparr>"

definition GetActiveTarget ::
    "coord_env \<Rightarrow> MongoFailoverCoordinator \<times> clusterRoutingDoc list
       \<Rightarrow> (MongoFailoverCoordinator \<times> clusterRoutingDoc list) \<times> (gomsg + string)" where
  "GetActiveTarget E st =
     (case st of (m, ds) \<Rightarrow>
        if ce_now E 0 < mc_cacheUntil m \<and> mc_cachedVal m \<noteq> [] then ((m, ds), Inr (mc_cachedVal m))
        else let ds = ce_others E 0 ds
             in case FindOne (ce_col E) is_routing None ds of
                  Inr doc \<Rightarrow> ((updateCache (ce_now E 2) (cd_Target doc) m, ds), Inr (cd_Target doc))
                | Inl ErrNoDocuments \<Rightarrow>
                    let initDoc = \<lparr>cd_ID = ''cluster_routing'', cd_Target = TargetPrimary, cd_UpdatedAt = ce_now E 1\<rparr>;
                        ds = fst (UpsertOne (ce_col E) is_routing (\<lambda>d. Some d) initDoc (ce_others E 1 ds))
                    in ((updateCache (ce_now E 2) TargetPrimary m, ds), Inr TargetPrimary)
                | Inl err \<Rightarrow>
                    ((m, ds), Inl (Msg ''failed to fetch cluster routing target: %w'' [ArgE (err_msg err)])))"

definition SetActiveTarget ::
    "coord_env \<Rightarrow> string \<Rightarrow> MongoFailoverCoordinator \<times> clusterRoutingDoc list
       \<Rightarrow> (MongoFailoverCoordinator \<times> clusterRoutingDoc list) \<times> gomsg option" where
  "SetActiveTarget E target st =
     (case st of (m, ds) \<Rightarrow>
        if target \<noteq> TargetPrimary \<and> target \<noteq> TargetStandby then ((m, ds), Some (ErrInvalidTarget target))
        else (case UpsertOne (ce_col E) is_routing
                     (\<lambda>d. Some (d\<lparr>cd_Target := target, cd_UpdatedAt := ce_now E 0\<rparr>))
                     \<lparr>cd_ID = ''cluster_routing'', cd_Target = target, cd_UpdatedAt = ce_now E 0\<rparr>
                     (ce_others E 0 ds) of
                (ds, Some err) \<Rightarrow>
                  ((m, ds), Some (Msg ''failed to update cluster routing state in MongoDB: %w'' [ArgE (err_msg err)]))
              | (ds, None) \<Rightarrow> ((updateCache (ce_now E 2) target m, ds), None)))"

subsection \<open>The interface\<close>

text \<open>
  What clients of a coordinator rely on: its answers are one of the two targets, a target
  that was set is the one answered next (unless the lookup fails), and a refused call changes
  nothing. \<open>calm\<close> is what the coordinator keeps of its state.
\<close>

definition is_target :: "string \<Rightarrow> bool" where
  "is_target t \<longleftrightarrow> t = TargetPrimary \<or> t = TargetStandby"

locale failover_coordinator =
  fixes get :: "'s \<Rightarrow> 's \<times> (gomsg + string)" and set_target :: "string \<Rightarrow> 's \<Rightarrow> 's \<times> gomsg option"
    and calm :: "'s \<Rightarrow> bool"
  assumes get_calm: "calm s \<Longrightarrow> get s = (s', r) \<Longrightarrow> calm s' \<and> (\<forall>t. r = Inr t \<longrightarrow> is_target t)"
    and set_calm: "calm s \<Longrightarrow> set_target t s = (s', e) \<Longrightarrow> calm s'"
    and set_get: "calm s \<Longrightarrow> set_target t s = (s1, None) \<Longrightarrow> get s1 = (s2, Inr t') \<Longrightarrow> t' = t"
    and set_refused: "calm s \<Longrightarrow> \<not> is_target t \<Longrightarrow> set_target t s = (s, Some (ErrInvalidTarget t))"
begin

text \<open>Only the two targets are ever set.\<close>

lemma set_is_target: "calm s \<Longrightarrow> set_target t s = (s', None) \<Longrightarrow> is_target t"
  using set_refused [of s t] by auto

end

interpretation memory_coord: failover_coordinator Memory_GetActiveTarget Memory_SetActiveTarget
  "\<lambda>m. is_target (mf_target m)"
  by unfold_locales (auto simp: Memory_GetActiveTarget_def Memory_SetActiveTarget_def is_target_def split: if_splits)

text \<open>A pod on its own: nobody else writes while it works, and its clock goes forward.\<close>

definition lone_env :: "coord_env \<Rightarrow> bool" where
  "lone_env E \<longleftrightarrow> (\<forall>i ds. ce_others E i ds = ds) \<and> (\<forall>i. ce_now E 0 \<le> ce_now E i)"

definition routing_ok :: "MongoFailoverCoordinator \<times> clusterRoutingDoc list \<Rightarrow> bool" where
  "routing_ok st \<longleftrightarrow> 0 < mc_cacheTTL (fst st)
     \<and> (mc_cachedVal (fst st) \<noteq> [] \<longrightarrow> is_target (mc_cachedVal (fst st)))
     \<and> (\<forall>d\<in>set (snd st). is_routing d \<longrightarrow> is_target (cd_Target d))"

lemma is_target_simps [simp]: "is_target TargetPrimary" "is_target TargetStandby"
  "is_target t \<Longrightarrow> t \<noteq> []" "TargetPrimary \<noteq> []" "TargetStandby \<noteq> []" "TargetPrimary \<noteq> TargetStandby"
  by (auto simp: is_target_def TargetPrimary_def TargetStandby_def)

lemma updateCache_simps [simp]: "mc_cachedVal (updateCache now t m) = t"
  "mc_cacheUntil (updateCache now t m) = now + mc_cacheTTL m" "mc_cacheTTL (updateCache now t m) = mc_cacheTTL m"
  by (simp_all add: updateCache_def)

lemma routing_targets_upsert:
  assumes "collection M conflict" and "UpsertOne M is_routing u new ds = (ds', r)"
    and "\<forall>d\<in>set ds. is_routing d \<longrightarrow> is_target (cd_Target d)" and "is_target (cd_Target new)"
    and "\<And>d e. u d = Some e \<Longrightarrow> is_target (cd_Target d) \<Longrightarrow> is_target (cd_Target e)"
  shows "\<forall>d\<in>set ds'. is_routing d \<longrightarrow> is_target (cd_Target d)"
proof (cases r)
  case None
  from collection.UpsertOne_None [OF assms(1), of is_routing u new ds ds'] assms(2) None
  consider "ds' = ds @ [new]" | i d where "i < length ds" "is_routing (ds ! i)" "u (ds ! i) = Some d" "ds' = ds[i := d]"
    by auto
  then show ?thesis
  proof cases
    case 2
    then have "is_target (cd_Target d)" using assms(3) assms(5) [of "ds ! i" d] by simp
    then show ?thesis using 2 assms(3) set_update_subset_insert [of ds i d] by auto
  qed (use assms(3,4) in auto)
next
  case (Some e)
  then show ?thesis using collection.UpsertOne_Some [OF assms(1)] assms(2,3) by blast
qed

locale lone_pod =
  fixes E :: coord_env and conflict :: "clusterRoutingDoc \<Rightarrow> clusterRoutingDoc \<Rightarrow> bool"
  assumes col: "collection (ce_col E) conflict" and lone: "lone_env E"
begin

lemma others_id [simp]: "ce_others E i ds = ds" using lone by (simp add: lone_env_def)

lemma get_ok: "routing_ok s \<Longrightarrow> GetActiveTarget E s = (s', r) \<Longrightarrow>
    routing_ok s' \<and> (\<forall>t. r = Inr t \<longrightarrow> is_target t)"
proof -
  assume ok: "routing_ok s" and g: "GetActiveTarget E s = (s', r)"
  obtain m ds where s: "s = (m, ds)" by (cases s)
  show ?thesis
  proof (cases "ce_now E 0 < mc_cacheUntil m \<and> mc_cachedVal m \<noteq> []")
    case True
    then show ?thesis using ok g s by (auto simp: GetActiveTarget_def routing_ok_def)
  next
    case False
    note miss = False
    show ?thesis
    proof (cases "FindOne (ce_col E) is_routing None ds")
      case (Inr doc)
      have "is_target (cd_Target doc)"
        using collection.FindOne_Inr [OF col Inr] ok s by (auto simp: routing_ok_def)
      then show ?thesis using ok g s Inr miss by (auto simp: GetActiveTarget_def routing_ok_def)
    next
      case (Inl err)
      define u where "u = UpsertOne (ce_col E) is_routing (\<lambda>d. Some d)
          \<lparr>cd_ID = ''cluster_routing'', cd_Target = TargetPrimary, cd_UpdatedAt = ce_now E 1\<rparr> ds"
      have "\<forall>d\<in>set (fst u). is_routing d \<longrightarrow> is_target (cd_Target d)"
        by (rule routing_targets_upsert [OF col, where r = "snd u"])
          (use ok s in \<open>auto simp: u_def routing_ok_def\<close>)
      then show ?thesis using ok g s Inl miss
        by (cases err) (auto simp: GetActiveTarget_def routing_ok_def Let_def u_def)
    qed
  qed
qed

lemma set_cases:
  assumes "SetActiveTarget E t (m, ds) = (s', e)" and "is_target t"
  obtains (failed) msg where "s' = (m, ds)" "e = Some msg"
  | (stored) ds' u new where "UpsertOne (ce_col E) is_routing u new ds = (ds', None)" "cd_Target new = t"
      "\<And>d d'. u d = Some d' \<Longrightarrow> cd_Target d' = t" "s' = (updateCache (ce_now E 2) t m, ds')" "e = None"
proof -
  let ?u = "\<lambda>d. Some (d\<lparr>cd_Target := t, cd_UpdatedAt := ce_now E 0\<rparr>)"
  let ?n = "\<lparr>cd_ID = ''cluster_routing'', cd_Target = t, cd_UpdatedAt = ce_now E 0\<rparr>"
  show thesis
  proof (cases "snd (UpsertOne (ce_col E) is_routing ?u ?n ds)")
    case None
    then show thesis using assms stored [of ?u ?n "fst (UpsertOne (ce_col E) is_routing ?u ?n ds)"]
      by (auto simp: SetActiveTarget_def is_target_def split: prod.splits)
  next
    case (Some err)
    then have "UpsertOne (ce_col E) is_routing ?u ?n ds = (ds, Some err)"
      using collection.UpsertOne_Some [OF col, of is_routing ?u ?n ds] by (metis prod.collapse)
    then show thesis using assms failed by (auto simp: SetActiveTarget_def is_target_def)
  qed
qed

lemma set_ok: "routing_ok s \<Longrightarrow> SetActiveTarget E t s = (s', e) \<Longrightarrow> routing_ok s'"
proof -
  assume ok: "routing_ok s" and g: "SetActiveTarget E t s = (s', e)"
  obtain m ds where s: "s = (m, ds)" by (cases s)
  show ?thesis
  proof (cases "is_target t")
    case True
    from g s have "SetActiveTarget E t (m, ds) = (s', e)" by simp
    from this True show ?thesis
    proof (cases rule: set_cases)
      case failed then show ?thesis using ok s by simp
    next
      case (stored ds' u new)
      have "\<forall>d\<in>set ds'. is_routing d \<longrightarrow> is_target (cd_Target d)"
        by (rule routing_targets_upsert [OF col stored(1)]) (use ok s stored True in \<open>auto simp: routing_ok_def\<close>)
      then show ?thesis using ok s stored True by (auto simp: routing_ok_def)
    qed
  next
    case False
    then show ?thesis using ok g s by (auto simp: SetActiveTarget_def is_target_def)
  qed
qed

lemma set_then_get:
  assumes "routing_ok s" and "SetActiveTarget E t s = (s1, None)" and "GetActiveTarget E s1 = (s2, Inr t')"
  shows "t' = t"
proof -
  obtain m ds where s: "s = (m, ds)" by (cases s)
  have t: "is_target t" using assms(2) by (auto simp: SetActiveTarget_def is_target_def s split: if_splits)
  from assms(2) s have "SetActiveTarget E t (m, ds) = (s1, None)" by simp
  from this t show ?thesis
  proof (cases rule: set_cases)
    case (stored ds' u new)
    have "0 < mc_cacheTTL m" using assms(1) s by (simp add: routing_ok_def)
    moreover have "ce_now E 0 \<le> ce_now E 2" using lone by (simp add: lone_env_def)
    ultimately show ?thesis using assms(3) stored t by (auto simp: GetActiveTarget_def)
  qed simp
qed

end

sublocale lone_pod \<subseteq> failover_coordinator "GetActiveTarget E" "SetActiveTarget E" routing_ok
proof (intro failover_coordinator.intro)
  fix s s' r assume "routing_ok s" and "GetActiveTarget E s = (s', r)"
  then show "routing_ok s' \<and> (\<forall>t. r = Inr t \<longrightarrow> is_target t)" by (rule get_ok)
next
  fix s t s' e assume "routing_ok s" and "SetActiveTarget E t s = (s', e)"
  then show "routing_ok s'" by (rule set_ok)
next
  fix s t s1 s2 t' assume "routing_ok s" and "SetActiveTarget E t s = (s1, None)" and "GetActiveTarget E s1 = (s2, Inr t')"
  then show "t' = t" by (rule set_then_get)
next
  fix s t assume "\<not> is_target t"
  then show "SetActiveTarget E t s = (s, Some (ErrInvalidTarget t))"
    by (cases s) (simp add: SetActiveTarget_def is_target_def)
qed

definition lone_sample :: coord_env where
  "lone_sample = \<lparr>ce_col = mem_ops (\<lambda>d e. cd_ID d = cd_ID e), ce_now = (\<lambda>i. 1000 + int i), ce_others = (\<lambda>i ds. ds)\<rparr>"

interpretation lone: lone_pod lone_sample "\<lambda>d e. cd_ID d = cd_ID e"
  by (intro lone_pod.intro) (auto simp: lone_sample_def lone_env_def mem.collection_axioms)

subsection \<open>How stale an answer can be\<close>

text \<open>
  \<open>H t\<close> is the target the database held at time \<open>t\<close>. A call sees the collection as it was at
  some moment of the call, and lasts at most \<open>D\<close>.
\<close>

definition routes_to :: "string \<Rightarrow> clusterRoutingDoc list \<Rightarrow> bool" where
  "routes_to v ds \<longleftrightarrow> (\<forall>d\<in>set ds. is_routing d \<longrightarrow> cd_Target d = v)
     \<and> ((\<forall>d\<in>set ds. \<not> is_routing d) \<longrightarrow> v = TargetPrimary)"

locale routing_view =
  fixes E :: coord_env and conflict :: "clusterRoutingDoc \<Rightarrow> clusterRoutingDoc \<Rightarrow> bool"
    and H :: "int \<Rightarrow> string" and D :: int
  assumes col: "collection (ce_col E) conflict"
    and clock: "ce_now E 0 \<le> ce_now E 2" "ce_now E 2 \<le> ce_now E 0 + D"
    and view: "\<exists>t. ce_now E 0 \<le> t \<and> t \<le> ce_now E 2 \<and> routes_to (H t) (ce_others E 0 ds)"

text \<open>\<open>fresh\<close>: the cached target was stored at a moment no more than \<open>D\<close> before it was cached.\<close>

definition fresh :: "(int \<Rightarrow> string) \<Rightarrow> int \<Rightarrow> int \<Rightarrow> MongoFailoverCoordinator \<Rightarrow> bool" where
  "fresh H D c m \<longleftrightarrow> 0 < mc_cacheTTL m
     \<and> (mc_cachedVal m \<noteq> [] \<longrightarrow> mc_cacheUntil m \<le> c + mc_cacheTTL m
        \<and> (\<exists>t. mc_cacheUntil m - mc_cacheTTL m - D \<le> t \<and> t \<le> c \<and> H t = mc_cachedVal m))"

lemma fresh_mono: "fresh H D c m \<Longrightarrow> c \<le> c' \<Longrightarrow> fresh H D c' m"
  by (force simp: fresh_def)

lemma fresh_updateCache:
  assumes "fresh H D c m" and "H t = v" and "now0 \<le> t" and "t \<le> now2" and "now2 \<le> now0 + D"
  shows "fresh H D now2 (updateCache now2 v m)"
  using assms by (auto simp: fresh_def intro!: exI [of _ t])

context routing_view
begin

lemma GetActiveTarget_fresh:
  assumes "fresh H D c m" and "c \<le> ce_now E 0" and get: "GetActiveTarget E (m, ds) = ((m', ds'), r)"
  shows "fresh H D (ce_now E 2) m'"
    and "r = Inr v \<Longrightarrow> \<exists>t. ce_now E 0 - mc_cacheTTL m - D < t \<and> t \<le> ce_now E 2 \<and> H t = v"
proof -
  have now: "fresh H D (ce_now E 2) m" by (rule fresh_mono [OF assms(1)]) (use assms(2) clock in simp)
  obtain t where t: "ce_now E 0 \<le> t" "t \<le> ce_now E 2" "routes_to (H t) (ce_others E 0 ds)"
    using view by blast
  note cached = fresh_updateCache [OF assms(1) _ t(1,2) clock(2)]
  have "fresh H D (ce_now E 2) m' \<and> (\<forall>v. r = Inr v \<longrightarrow>
      (\<exists>t. ce_now E 0 - mc_cacheTTL m - D < t \<and> t \<le> ce_now E 2 \<and> H t = v))"
  proof (cases "ce_now E 0 < mc_cacheUntil m \<and> mc_cachedVal m \<noteq> []")
    case True
    then have "m' = m" "r = Inr (mc_cachedVal m)" using get by (auto simp: GetActiveTarget_def)
    moreover from True obtain t where "mc_cacheUntil m - mc_cacheTTL m - D \<le> t" "t \<le> c" "H t = mc_cachedVal m"
      using assms(1) by (auto simp: fresh_def)
    ultimately show ?thesis using now True assms(2) clock by (auto intro!: exI [of _ t])
  next
    case False
    note miss = this
    have ttl: "ce_now E 0 - mc_cacheTTL m - D < t" using t clock assms(1) by (simp add: fresh_def)
    show ?thesis
    proof (cases "FindOne (ce_col E) is_routing None (ce_others E 0 ds)")
      case (Inr doc)
      then have "H t = cd_Target doc"
        using collection.FindOne_Inr [OF col Inr] t(3) by (auto simp: routes_to_def)
      then show ?thesis using get miss Inr cached t ttl by (auto simp: GetActiveTarget_def intro!: exI [of _ t])
    next
      case (Inl err)
      show ?thesis
      proof (cases "err = ErrNoDocuments")
        case True
        then have "H t = TargetPrimary"
          using collection.FindOne_none [OF col] Inl t(3) by (auto simp: routes_to_def)
        then show ?thesis using get miss Inl True cached t ttl
          by (auto simp: GetActiveTarget_def Let_def intro!: exI [of _ t])
      next
        case False
        then show ?thesis using get miss Inl now by (cases err) (auto simp: GetActiveTarget_def)
      qed
    qed
  qed
  then show "fresh H D (ce_now E 2) m'"
    and "r = Inr v \<Longrightarrow> \<exists>t. ce_now E 0 - mc_cacheTTL m - D < t \<and> t \<le> ce_now E 2 \<and> H t = v" by auto
qed

lemma SetActiveTarget_fresh:
  assumes "fresh H D c m" and "c \<le> ce_now E 0" and set: "SetActiveTarget E v (m, ds) = ((m', ds'), e)"
    and "e = None \<Longrightarrow> \<exists>w. ce_now E 0 \<le> w \<and> w \<le> ce_now E 2 \<and> H w = v"
  shows "fresh H D (ce_now E 2) m'"
proof (cases e)
  case None
  then obtain w where "ce_now E 0 \<le> w" "w \<le> ce_now E 2" "H w = v" using assms(4) by blast
  with fresh_updateCache [OF assms(1) this(3,1,2) clock(2)] show ?thesis
    using set None by (auto simp: SetActiveTarget_def split: if_splits prod.splits option.splits)
next
  case (Some msg)
  then have "m' = m" using set by (auto simp: SetActiveTarget_def split: if_splits prod.splits option.splits)
  then show ?thesis using fresh_mono [OF assms(1)] assms(2) clock by simp
qed

end

text \<open>A pod from its start, up to time \<open>c\<close>: lookups and updates of any number, each of them
  sharing the database with the other pods.\<close>

inductive pod_run :: "(int \<Rightarrow> string) \<Rightarrow> int \<Rightarrow> int \<Rightarrow> MongoFailoverCoordinator \<Rightarrow> bool" for H D where
  start: "pod_run H D c (NewMongoFailoverCoordinator ttl)"
| get: "pod_run H D c m \<Longrightarrow> routing_view E k H D \<Longrightarrow> c \<le> ce_now E 0 \<Longrightarrow>
    GetActiveTarget E (m, ds) = ((m', ds'), r) \<Longrightarrow> pod_run H D (ce_now E 2) m'"
| set: "pod_run H D c m \<Longrightarrow> routing_view E k H D \<Longrightarrow> c \<le> ce_now E 0 \<Longrightarrow>
    SetActiveTarget E v (m, ds) = ((m', ds'), e) \<Longrightarrow>
    (e = None \<Longrightarrow> \<exists>w. ce_now E 0 \<le> w \<and> w \<le> ce_now E 2 \<and> H w = v) \<Longrightarrow> pod_run H D (ce_now E 2) m'"

lemma pod_run_fresh: "pod_run H D c m \<Longrightarrow> fresh H D c m"
proof (induction rule: pod_run.induct)
  case (start c ttl)
  then show ?case by (simp add: fresh_def NewMongoFailoverCoordinator_def)
next
  case (get c m E k ds m' ds' r)
  then show ?case using routing_view.GetActiveTarget_fresh(1) by blast
next
  case (set c m E k v ds m' ds' e)
  show ?case by (rule routing_view.SetActiveTarget_fresh [OF set.hyps(2) set.IH set.hyps(3,4,5)])
qed

text \<open>
  A database shared by several pods: \<open>W\<close> lists the times at which a target was set, in their
  order. The collection at time \<open>t\<close> is what the coordinator's own updates up to then have made
  of it.
\<close>

definition set_at :: "int \<Rightarrow> coord_env" where
  "set_at t = \<lparr>ce_col = mem_ops (\<lambda>d e. cd_ID d = cd_ID e), ce_now = (\<lambda>i. t), ce_others = (\<lambda>i ds. ds)\<rparr>"

definition docs_at :: "(int \<times> string) list \<Rightarrow> int \<Rightarrow> clusterRoutingDoc list" where
  "docs_at W t = fold (\<lambda>(w, v) ds. snd (fst (SetActiveTarget (set_at w) v (NewMongoFailoverCoordinator 0, ds))))
     (filter (\<lambda>(w, v). w \<le> t) W) []"

definition target_at :: "(int \<times> string) list \<Rightarrow> int \<Rightarrow> string" where
  "target_at W t = last (TargetPrimary # map snd (filter (\<lambda>(w, v). w \<le> t \<and> is_target v) W))"

definition log_env :: "(int \<times> string) list \<Rightarrow> int \<Rightarrow> coord_env" where
  "log_env W now = \<lparr>ce_col = mem_ops (\<lambda>d e. cd_ID d = cd_ID e), ce_now = (\<lambda>i. now + int i),
     ce_others = (\<lambda>i ds. docs_at W now)\<rparr>"

lemma set_at_routes:
  assumes "length ds \<le> 1" and "\<forall>d\<in>set ds. is_routing d" and "is_target v"
  shows "\<exists>d. is_routing d \<and> cd_Target d = v
     \<and> snd (fst (SetActiveTarget (set_at w) v (NewMongoFailoverCoordinator 0, ds))) = [d]"
proof (cases ds)
  case Nil
  then show ?thesis using assms(3)
    by (auto simp: SetActiveTarget_def is_target_def set_at_def mem_ops_def mem_UpsertOne_def
        mem_InsertOne_def is_routing_def)
next
  case (Cons d rest)
  then have "ds = [d]" "is_routing d" using assms by auto
  then show ?thesis using assms(3)
    by (auto simp: SetActiveTarget_def is_target_def set_at_def mem_ops_def mem_UpsertOne_def
        mem_UpdateOne_def is_routing_def)
qed

lemma docs_routes_aux:
  "routes_to v ds \<Longrightarrow> length ds \<le> 1 \<Longrightarrow> \<forall>d\<in>set ds. is_routing d \<Longrightarrow>
   routes_to (last (v # map snd (filter (\<lambda>(w, v). is_target v) ws)))
     (fold (\<lambda>(w, v) ds. snd (fst (SetActiveTarget (set_at w) v (NewMongoFailoverCoordinator 0, ds)))) ws ds)"
proof (induction ws arbitrary: v ds)
  case Nil
  then show ?case by simp
next
  case (Cons x ws)
  obtain w u where x: "x = (w, u)" by (cases x)
  show ?case
  proof (cases "is_target u")
    case True
    from set_at_routes [OF Cons.prems(2,3) True, of w] obtain d where
      d: "is_routing d" "cd_Target d = u"
        "snd (fst (SetActiveTarget (set_at w) u (NewMongoFailoverCoordinator 0, ds))) = [d]" by blast
    from Cons.IH [of u "[d]"] d show ?thesis using True x by (simp add: routes_to_def)
  next
    case False
    then have "snd (fst (SetActiveTarget (set_at w) u (NewMongoFailoverCoordinator 0, ds))) = ds"
      by (auto simp: SetActiveTarget_def is_target_def)
    with Cons.IH [OF Cons.prems] False x show ?thesis by simp
  qed
qed

lemma docs_at_routes: "routes_to (target_at W t) (docs_at W t)"
proof -
  have "filter (\<lambda>(w, v). w \<le> t \<and> is_target v) W = filter (\<lambda>(w, v). is_target v) (filter (\<lambda>(w, v). w \<le> t) W)"
    by (simp add: case_prod_unfold conj_commute)
  then show ?thesis
    using docs_routes_aux [of TargetPrimary "[]" "filter (\<lambda>(w, v). w \<le> t) W"]
    by (simp add: target_at_def docs_at_def routes_to_def)
qed

interpretation logged: routing_view "log_env W now" "\<lambda>d e. cd_ID d = cd_ID e" "target_at W" 2
  for W now
proof (intro routing_view.intro)
  show "\<exists>t. ce_now (log_env W now) 0 \<le> t \<and> t \<le> ce_now (log_env W now) 2
      \<and> routes_to (target_at W t) (ce_others (log_env W now) 0 ds)" for ds
    by (rule exI [of _ now]) (simp add: log_env_def docs_at_routes)
qed (auto simp: log_env_def mem.collection_axioms)

text \<open>
  C37. Whatever pods have looked up and set before: once the stored target has been \<open>v\<close> for
  longer than a pod's cache lives and a call lasts, a request finds the pod writable exactly
  if its lookup did not fail and its region is \<open>v\<close>. So at most one region accepts writes, and
  a pod that cannot reach the database accepts none.
\<close>

theorem writable_regions_settle:
  assumes "pod_run H D c m" and "routing_view E k H D" and "c \<le> ce_now E 0"
    and "GetActiveTarget E (m, ds) = (st, answer)"
    and "\<And>t. T < t \<Longrightarrow> H t = v" and "T + mc_cacheTTL m + D \<le> ce_now E 0"
    and "s_coordinator s = Some answer" and "s_targetRole s \<noteq> []"
  shows "isWritable s \<longleftrightarrow> (\<exists>t. answer = Inr t) \<and> s_targetRole s = v"
proof (cases answer)
  case (Inl err)
  then show ?thesis using assms(7) by (simp add: isWritable_def)
next
  case (Inr u)
  obtain m' ds' where "st = (m', ds')" by (cases st)
  with assms(4) have "GetActiveTarget E (m, ds) = ((m', ds'), answer)" by simp
  from routing_view.GetActiveTarget_fresh(2) [OF assms(2) pod_run_fresh [OF assms(1)] assms(3) this Inr]
  obtain t where "ce_now E 0 - mc_cacheTTL m - D < t" "H t = u" by blast
  then have "u = v" using assms(5) [of t] assms(6) by simp
  then show ?thesis using assms(7,8) Inr by (auto simp: isWritable_def)
qed

text \<open>The region fails over after one second; half a second later the old region, whose cache is
  still valid, and the new region both accept writes; after two seconds only the new one does.\<close>

definition failover_log :: "(int \<times> string) list" where
  "failover_log = [(1000000000, TargetStandby)]"

definition region :: "string \<Rightarrow> gomsg + string \<Rightarrow> server" where
  "region role answer =
     \<lparr>s_mongoClient = True, s_fxClient = None, s_region = [], s_isActive = True, s_targetRole = role,
      s_coordinator = Some answer, s_outbox = True, s_ledgerRelay = None, s_fraudDetector = None\<rparr>"

definition warm_pod :: MongoFailoverCoordinator where
  "warm_pod = fst (fst (GetActiveTarget (log_env failover_log 900000000) (NewMongoFailoverCoordinator 0, [])))"

definition lookup_at :: "int \<Rightarrow> MongoFailoverCoordinator \<Rightarrow> gomsg + string" where
  "lookup_at now m = snd (GetActiveTarget (log_env failover_log now) (m, []))"

lemma regions_overlap_within_ttl:
  "isWritable (region TargetPrimary (lookup_at 1500000000 warm_pod))
   \<and> isWritable (region TargetStandby (lookup_at 1500000000 (NewMongoFailoverCoordinator 0)))"
  by code_simp

theorem writable_regions_settle_witness:
  "isWritable (region TargetPrimary (lookup_at 3000000000 warm_pod)) = False"
proof -
  let ?H = "target_at failover_log"
  let ?g = "GetActiveTarget (log_env failover_log 900000000) (NewMongoFailoverCoordinator 0, [])"
  have "pod_run ?H 2 900000000 (NewMongoFailoverCoordinator 0)" by (rule pod_run.start)
  then have warm: "pod_run ?H 2 (ce_now (log_env failover_log 900000000) 2) warm_pod"
    unfolding warm_pod_def
    by (rule pod_run.get [where ds = "[]" and ds' = "snd (fst ?g)" and r = "snd ?g"])
      (rule logged.routing_view_axioms, simp_all add: log_env_def)
  have settled: "?H t = TargetStandby" if "1000000000 < t" for t
    using that by (simp add: target_at_def failover_log_def)
  have "mc_cacheTTL warm_pod = 1000000000" by code_simp
  then have late: "1000000000 + mc_cacheTTL warm_pod + 2 \<le> ce_now (log_env failover_log 3000000000) 0"
    by (simp add: log_env_def)
  have "isWritable (region TargetPrimary (lookup_at 3000000000 warm_pod)) \<longleftrightarrow>
      (\<exists>t. lookup_at 3000000000 warm_pod = Inr t)
      \<and> s_targetRole (region TargetPrimary (lookup_at 3000000000 warm_pod)) = TargetStandby"
    by (rule writable_regions_settle [OF warm logged.routing_view_axioms _ _ settled late, where ds = "[]"
        and st = "fst (GetActiveTarget (log_env failover_log 3000000000) (warm_pod, []))"])
      (simp_all add: log_env_def lookup_at_def region_def)
  then show ?thesis by (simp add: region_def)
qed

end
