(* ===== verification/Gateway.thy ===== *)
theory Gateway
  imports GatewayAccess GoJson WalletOps Coordinator Webhook
begin

text \<open>
  The handlers of the API gateway for wallets (\<open>cmd/api-gateway/main.go\<close>). The gateway holds clients
  of the other services; a client is a function on the state of all backends, so that the
  modelled services can be put in its place. A handler gets the request, the claims that
  authentication left in its context, and the state, and returns the state and the answer.
  Log lines and audit events are left out; time-outs are errors of the call. A webhook is
  handed over as an event, which a goroutine dispatches later.
\<close>

subsection \<open>The gateway and its clients\<close>

record 'b wallet_client =
  wc_CreateWallet :: "metadata \<Rightarrow> CreateWalletRequest \<Rightarrow> ('b, CreateWalletResponse) rpc"
  wc_GetBalance :: "metadata \<Rightarrow> string \<Rightarrow> ('b, GetBalanceResponse) rpc"
  wc_TransferFunds :: "metadata \<Rightarrow> TransferFundsRequest \<Rightarrow> ('b, TransferFundsResponse) rpc"
  wc_ExchangeCurrency :: "metadata \<Rightarrow> ExchangeCurrencyRequest \<Rightarrow> ('b, ExchangeCurrencyResponse) rpc"
  wc_DepositFunds :: "metadata \<Rightarrow> FundsRequest \<Rightarrow> ('b, FundsResponse) rpc"
  wc_WithdrawFunds :: "metadata \<Rightarrow> FundsRequest \<Rightarrow> ('b, FundsResponse) rpc"
  wc_UpdateWalletKYC :: "metadata \<Rightarrow> string \<times> string \<Rightarrow> ('b, UpdateWalletKYCResponse) rpc"
  wc_GetWalletLimits :: "metadata \<Rightarrow> string \<Rightarrow> ('b, GetWalletLimitsResponse) rpc"
  wc_HealthCheck :: "metadata \<Rightarrow> ('b, string \<times> string \<times> bool) rpc"

record IssueTokenResponse =
  it_AccessToken :: string
  it_RefreshToken :: string
  it_TokenType :: string
  it_ExpiresIn :: int64
  it_GrantedScopes :: "string list"
  it_Subject :: string

record 'b auth_client =
  ac_ValidateToken :: "string \<Rightarrow> ('b, ValidateTokenResponse) rpc"
  ac_IssueToken :: "string \<times> string \<times> string list \<Rightarrow> ('b, IssueTokenResponse) rpc"
  ac_RefreshToken :: "string \<Rightarrow> ('b, IssueTokenResponse) rpc"
  ac_RevokeToken :: "string \<times> string \<Rightarrow> ('b, bool) rpc"

record 'b fx_rpcs =
  fc_GetExchangeRate :: "string \<times> string \<Rightarrow> ('b, ExchangeRate) rpc"
  fc_ListExchangeRates :: "string \<Rightarrow> ('b, ListExchangeRatesResponse) rpc"
  fc_CreateQuote :: "CreateQuoteRequest \<Rightarrow> ('b, Quote) rpc"
  fc_GetQuote :: "string \<Rightarrow> ('b, Quote) rpc"
  fc_ConvertCurrency :: "ConvertCurrencyRequest \<Rightarrow> ('b, ConversionResponse) rpc"
  fc_UpdateExchangeRate :: "UpdateExchangeRateRequest \<Rightarrow> ('b, UpdateExchangeRateResponse) rpc"

text \<open>\<open>g_coordinator\<close> is the pair of \<open>GetActiveTarget\<close> and \<open>SetActiveTarget\<close>; \<open>g_getenv\<close> reads the
  environment variables; \<open>g_http\<close> is the client for the management interface of the ledger, by
  method and URL; \<open>g_webhooks\<close> is the environment of the webhook dispatcher. A request of the
  ledger is the wallet, the limit and the page token.\<close>

record 'b Gateway =
  g_coordinator :: "(('b \<Rightarrow> 'b \<times> (gomsg + string)) \<times> (string \<Rightarrow> 'b \<Rightarrow> 'b \<times> gomsg option)) option"
  g_primaryClient :: "'b wallet_client"
  g_standbyClient :: "'b wallet_client"
  g_ledgerClient :: "metadata \<Rightarrow> string \<times> int32 \<times> string \<Rightarrow> ('b, GetLedgerResponse) rpc"
  g_authClient :: "'b auth_client"
  g_fxClient :: "'b fx_rpcs option"
  g_ledgerMgmtURL :: string
  g_http :: "string \<times> string \<Rightarrow> 'b \<Rightarrow> 'b \<times> (gomsg + int \<times> string)"
  g_webhooks :: webhook_env
  g_getenv :: "string \<Rightarrow> string"
  g_now :: int

record 'b gw_state =
  gs_activeTarget :: string
  gs_claims :: claimsCache
  gs_limiter :: RateLimiter
  gs_owners :: WalletOwnershipCache
  gs_dispatcher :: "Dispatcher option"
  gs_events :: "(string \<times> (string \<times> gw_value) list) list"
  gs_back :: 'b

record gw_request =
  r_Method :: string
  r_Path :: string
  r_Query :: "string \<Rightarrow> string"
  r_RawQuery :: string
  r_Header :: "string \<Rightarrow> string"
  r_RemoteAddr :: string
  r_Body :: "gomsg + json"
  r_Fresh :: string

definition errMethodNotAllowed :: gomsg where "errMethodNotAllowed = lit ''Method not allowed''"

definition not_allowed :: gw_response where "not_allowed = http_Error errMethodNotAllowed 405"

text \<open>A call of a backend from a handler.\<close>

definition call :: "('b, 'r) rpc \<Rightarrow> 'b gw_state \<Rightarrow> 'b gw_state \<times> (goerr + 'r)" where
  "call f st = (case f (gs_back st) of (b, r) \<Rightarrow> (st\<lparr>gs_back := b\<rparr>, r))"

definition err_text :: "goerr \<Rightarrow> gomsg" where
  "err_text e = (case e of
     StatusErr c m \<Rightarrow> Msg ''rpc error: %v'' [ArgE m] | PlainErr m \<Rightarrow> m | NilDereference \<Rightarrow> lit ''nil pointer dereference'')"

subsection \<open>Correlation and identity\<close>

definition FromHTTPRequest :: "gw_request \<Rightarrow> Correlation" where
  "FromHTTPRequest r =
     (let a = r_Header r ''X-Association-ID''
      in \<lparr>co_AssociationID = (if a = [] then r_Fresh r else a), co_TransactionID = r_Header r ''X-Transaction-ID'',
          co_IdempotencyKey = r_Header r ''X-Idempotency-Key''\<rparr>)"

definition WithOutgoingMetadata :: "Correlation \<Rightarrow> (string, string list) gomap" where
  "WithOutgoingMetadata c =
     [(''x-association-id'', [co_AssociationID c])]
     @ (if co_TransactionID c \<noteq> [] then [(''x-transaction-id'', [co_TransactionID c])] else [])
     @ (if co_IdempotencyKey c \<noteq> [] then [(''x-idempotency-key'', [co_IdempotencyKey c])] else [])"

definition withOutgoingAuthContext :: "Claims option \<Rightarrow> (string, string list) gomap \<Rightarrow> metadata" where
  "withOutgoingAuthContext claims md =
     (case claims of
        Some c \<Rightarrow>
          Some (md @ [(''x-user-id'', [cl_Subject c])]
                @ (if cl_Roles c \<noteq> [] then [(''x-user-roles'', [Join (cl_Roles c) '','']) ] else []))
      | None \<Rightarrow> if md = [] then None else Some md)"

definition outgoing :: "Claims option \<Rightarrow> Correlation \<Rightarrow> metadata" where
  "outgoing claims c = withOutgoingAuthContext claims (WithOutgoingMetadata c)"

subsection \<open>Routing to a region\<close>

definition coordinator_target :: "'b Gateway \<Rightarrow> 'b gw_state \<Rightarrow> 'b gw_state \<times> string option" where
  "coordinator_target G st =
     (case g_coordinator G of
        None \<Rightarrow> (st, None)
      | Some (get, set_target) \<Rightarrow>
          (case get (gs_back st) of
             (b, Inr t) \<Rightarrow> (st\<lparr>gs_back := b\<rparr>, if t \<noteq> [] then Some t else None)
           | (b, Inl err) \<Rightarrow> (st\<lparr>gs_back := b\<rparr>, None)))"

definition getActiveWalletClient :: "'b Gateway \<Rightarrow> 'b gw_state \<Rightarrow> 'b gw_state \<times> 'b wallet_client \<times> string" where
  "getActiveWalletClient G st =
     (let (st, answer) = coordinator_target G st;
          target = (case answer of
                      Some t \<Rightarrow> t
                    | None \<Rightarrow> if Option.is_none (g_coordinator G) \<and> gs_activeTarget st \<noteq> [] then gs_activeTarget st else TargetPrimary)
      in (st, if target = TargetStandby then (g_standbyClient G, TargetStandby) else (g_primaryClient G, TargetPrimary)))"

subsection \<open>Access to a wallet\<close>

definition SetWalletOwner :: "'b Gateway \<Rightarrow> string \<Rightarrow> string \<Rightarrow> 'b gw_state \<Rightarrow> 'b gw_state" where
  "SetWalletOwner G walletID ownerID st = st\<lparr>gs_owners := Ownership_Set (g_now G) walletID ownerID (gs_owners st)\<rparr>"

definition gateway_admin :: "Claims \<Rightarrow> bool" where
  "gateway_admin c \<longleftrightarrow> Claims_HasRole c RoleAdmin \<or> Claims_HasScope c ''cluster:admin'' \<or> Claims_HasScope c ''wallet:admin''"

definition verifyWalletAccess :: "'b Gateway \<Rightarrow> Claims option \<Rightarrow> string \<Rightarrow> 'b gw_state \<Rightarrow> 'b gw_state \<times> gomsg option" where
  "verifyWalletAccess G claims walletID st =
     (case claims of
        None \<Rightarrow> (st, Some ErrInsufficientPerms)
      | Some c \<Rightarrow>
          if gateway_admin c then (st, None)
          else if ValidateWalletOwnership (g_now G) (gs_owners st) claims walletID = None then (st, None)
          else if \<not> isOpaqueOrSystemID (fold_id walletID) then (st, Some ErrIDORViolation)
          else let (st, client, target) = getActiveWalletClient G st;
                   (st, answer) = call (wc_GetBalance client (withOutgoingAuthContext claims []) walletID) st
               in case answer of
                    Inr resp \<Rightarrow> (SetWalletOwner G walletID (cl_Subject c) st, None)
                  | Inl err \<Rightarrow> (st, Some ErrIDORViolation))"

text \<open>The check of a handler: a request without claims passes.\<close>

definition check_access :: "'b Gateway \<Rightarrow> Claims option \<Rightarrow> string \<Rightarrow> 'b gw_state \<Rightarrow> 'b gw_state \<times> gw_response option" where
  "check_access G claims walletID st =
     (case claims of
        None \<Rightarrow> (st, None)
      | Some c \<Rightarrow>
          (case verifyWalletAccess G claims walletID st of
             (st, None) \<Rightarrow> (st, None)
           | (st, Some err) \<Rightarrow> (st, Some (writeAuthError 403 (Msg ''Forbidden: %v'' [ArgE err])))))"

definition handleWalletGRPCError :: "goerr \<Rightarrow> string \<Rightarrow> gw_response" where
  "handleWalletGRPCError err action =
     (let other = http_Error (Msg ''Error %s: %v'' [ArgS action, ArgE (err_text err)]) 500
      in case err of
           StatusErr code msg \<Rightarrow>
             if code = AlreadyExists then http_Error msg 409
             else if code = InvalidArgument then http_Error msg 400
             else if code = PermissionDenied then writeAuthError 403 msg
             else if code = NotFound then http_Error msg 404
             else other
         | _ \<Rightarrow> other)"

subsection \<open>Creating and reading\<close>

text \<open>The first component of an error says that it starts with "forbidden:".\<close>

definition parseCreateWalletRequest :: "gw_request \<Rightarrow> Claims option \<Rightarrow> (bool \<times> gomsg) + CreateWalletRequest" where
  "parseCreateWalletRequest r claims =
     (case r_Body r of
        Inl err \<Rightarrow> Inl (False, err)
      | Inr body \<Rightarrow>
          (case members [''wallet_id'', ''owner_id'', ''currency'', ''kyc_tier''] [''initial_balance''] [] [] body of
             Inl err \<Rightarrow> Inl (False, err)
           | Inr kvs \<Rightarrow>
               let cur = str_field ''currency'' kvs; balance = int_field ''initial_balance'' kvs;
                   walletID = str_field ''wallet_id'' kvs; ownerID = TrimSpace (str_field ''owner_id'' kvs)
               in if \<not> IsValidCurrency cur
                  then Inl (False, Msg ''invalid or unsupported currency: %s'' [ArgS cur])
                  else if balance < 0 then Inl (False, lit ''initial balance cannot be negative'')
                  else let createdBy = (case claims of Some c \<Rightarrow> cl_Subject c | None \<Rightarrow> []);
                           ownerID = (case claims of Some c \<Rightarrow> if ownerID = [] then cl_Subject c else ownerID | None \<Rightarrow> ownerID);
                           denial = (if claims = None then None else ValidateWalletCreationOwnership claims walletID ownerID)
                       in case denial of
                            Some err \<Rightarrow> Inl (True, Msg ''forbidden: %w'' [ArgE err])
                          | None \<Rightarrow>
                              Inr \<lparr>cw_WalletId = walletID, cw_Currency = cur, cw_InitialBalance = balance,
                                   cw_KycTier = str_field ''kyc_tier'' kvs, cw_OwnerId = ownerID, cw_CreatedBy = createdBy\<rparr>))"

definition handleCreateWallet :: "'b Gateway \<Rightarrow> gw_request \<Rightarrow> Claims option \<Rightarrow> 'b gw_state \<Rightarrow> 'b gw_state \<times> gw_response" where
  "handleCreateWallet G r claims st =
     (if r_Method r \<noteq> ''POST'' then (st, not_allowed)
      else case parseCreateWalletRequest r claims of
             Inl (True, err) \<Rightarrow> (st, writeAuthError 403 (Msg ''Forbidden: %v'' [ArgE err]))
           | Inl (False, err) \<Rightarrow> (st, http_Error err 400)
           | Inr req \<Rightarrow>
               let (st, client, target) = getActiveWalletClient G st;
                   (st, answer) = call (wc_CreateWallet client (outgoing claims (FromHTTPRequest r)) req) st
               in case answer of
                    Inl err \<Rightarrow> (st, handleWalletGRPCError err ''creating wallet'')
                  | Inr resp \<Rightarrow>
                      let ownerID = (if cw_OwnerId req = [] then cw_CreatedBy req else cw_OwnerId req);
                          st = (if ownerID \<noteq> [] then SetWalletOwner G (cw_WalletId req) ownerID st else st)
                      in (st, writeJSON 200
                            [(''success'', VB (cwr_Success resp)), (''message'', VM (cwr_Message resp)),
                             (''wallet_id'', VS (cw_WalletId req)), (''owner_id'', VS (cw_OwnerId req)),
                             (''created_by'', VS (cw_CreatedBy req)), (''routed_gateway'', VS target),
                             (''handled_region'', VS (cwr_HandledByRegion resp))]))"

definition handleGetBalance :: "'b Gateway \<Rightarrow> gw_request \<Rightarrow> Claims option \<Rightarrow> 'b gw_state \<Rightarrow> 'b gw_state \<times> gw_response" where
  "handleGetBalance G r claims st =
     (if r_Method r \<noteq> ''GET'' then (st, not_allowed)
      else let walletID = r_Query r ''id''
           in if walletID = [] then (st, http_Error (lit ''Missing 'id' query parameter'') 400)
              else case check_access G claims walletID st of
                     (st, Some denial) \<Rightarrow> (st, denial)
                   | (st, None) \<Rightarrow>
                       let (st, client, target) = getActiveWalletClient G st;
                           (st, answer) = call (wc_GetBalance client (outgoing claims (FromHTTPRequest r)) walletID) st
                       in case answer of
                            Inl (StatusErr PermissionDenied msg) \<Rightarrow> (st, writeAuthError 403 msg)
                          | Inl err \<Rightarrow> (st, http_Error (Msg ''Error retrieving balance: %v'' [ArgE (err_text err)]) 500)
                          | Inr resp \<Rightarrow>
                              let st = (case claims of Some c \<Rightarrow> SetWalletOwner G walletID (cl_Subject c) st | None \<Rightarrow> st)
                              in (st, writeJSON 200
                                    [(''wallet_id'', VS (gb_WalletId resp)),
                                     (''balances'', VList (map (\<lambda>m. VMoney (Some m)) (gb_Balances resp))),
                                     (''status'', VS (gb_Status resp)), (''routed_gateway'', VS target),
                                     (''handled_region'', VS (gb_HandledByRegion resp))]))"

subsection \<open>Amounts\<close>

definition money_in :: "string \<Rightarrow> int64 \<Rightarrow> Money" where
  "money_in fallbackCurrency units =
     (let fbCurr = NormalizeCurrency fallbackCurrency
      in \<lparr>m_Currency = fbCurr, m_Units = units, m_Nanos = 0, m_Scale = scale_or_0 fbCurr, m_CurrencyCode = fbCurr\<rparr>)"

definition parseMoney :: "json option \<Rightarrow> string \<Rightarrow> gomsg + Money" where
  "parseMoney raw fallbackCurrency =
     (case raw of
        None \<Rightarrow> Inr (money_in fallbackCurrency 0)
      | Some v \<Rightarrow>
          (case into_int64 v 0 of
             (units, True) \<Rightarrow> Inr (money_in fallbackCurrency units)
           | (old, False) \<Rightarrow>
               (case members [''currency'', ''currency_code''] [''units'', ''amount''] [''nanos'', ''scale''] [] v of
                  Inr kvs \<Rightarrow>
                    let curr = TrimSpace (str_field ''currency'' kvs);
                        curr = (if curr = [] then TrimSpace (str_field ''currency_code'' kvs) else curr);
                        curr = (if curr = [] then fallbackCurrency else curr);
                        curr = NormalizeCurrency curr;
                        u = (if int_field ''units'' kvs = 0 \<and> int_field ''amount'' kvs \<noteq> 0 then int_field ''amount'' kvs
                             else int_field ''units'' kvs);
                        s = (if int32_field ''scale'' kvs = 0 \<and> curr \<noteq> [] then scale_or_0 curr else int32_field ''scale'' kvs)
                    in Inr \<lparr>m_Currency = curr, m_Units = u, m_Nanos = int32_field ''nanos'' kvs, m_Scale = s, m_CurrencyCode = curr\<rparr>
                | Inl err \<Rightarrow> Inl (lit ''invalid amount format: expected integer or money object''))))"

definition parseProtoPaymentRail :: "string \<Rightarrow> PaymentRail" where
  "parseProtoPaymentRail railStr =
     (let s = ToUpper (TrimSpace railStr)
      in if s = ''CARD'' then PaymentRail.CARD else if s = ''ACH'' then ACH else if s = ''SEPA'' then SEPA
         else if s = ''WIRE'' then WIRE else PaymentRail_UNSPECIFIED)"

definition rail_String :: "PaymentRail \<Rightarrow> string" where
  "rail_String r = (case r of PaymentRail_UNSPECIFIED \<Rightarrow> ''PAYMENT_RAIL_UNSPECIFIED'' | PaymentRail.CARD \<Rightarrow> ''CARD'' | ACH \<Rightarrow> ''ACH''
     | SEPA \<Rightarrow> ''SEPA'' | WIRE \<Rightarrow> ''WIRE'')"

definition status_String :: "resp_status \<Rightarrow> string" where
  "status_String s = (case s of STATUS_UNSPECIFIED \<Rightarrow> ''STATUS_UNSPECIFIED'' | SUCCESS \<Rightarrow> ''SUCCESS''
     | FAILED_INSUFFICIENT_FUNDS \<Rightarrow> ''FAILED_INSUFFICIENT_FUNDS'' | REJECTED_DUPLICATE \<Rightarrow> ''REJECTED_DUPLICATE''
     | INTERNAL_ERROR \<Rightarrow> ''INTERNAL_ERROR'' | FAILED_VELOCITY_LIMIT_EXCEEDED \<Rightarrow> ''FAILED_VELOCITY_LIMIT_EXCEEDED''
     | INVALID_ARGUMENT \<Rightarrow> ''INVALID_ARGUMENT'')"

definition money_units :: "Money option \<Rightarrow> int64" where
  "money_units m = (case m of None \<Rightarrow> 0 | Some x \<Rightarrow> m_Units x)"

definition money_currency :: "Money option \<Rightarrow> string" where
  "money_currency m = (case m of None \<Rightarrow> [] | Some x \<Rightarrow> m_Currency x)"

definition first_nonempty :: "string list \<Rightarrow> string" where
  "first_nonempty ss = (case filter (\<lambda>s. s \<noteq> []) (map TrimSpace ss) of [] \<Rightarrow> [] | s # _ \<Rightarrow> s)"

text \<open>The idempotency key of a request: the client's, or one made from the association
  identifier unless the client has to send one.\<close>

definition idempotency_key :: "'b Gateway \<Rightarrow> gw_request \<Rightarrow> string \<Rightarrow> string \<Rightarrow> gomsg + string" where
  "idempotency_key G r key keyPrefix =
     (let idempKey = first_nonempty [key, r_Header r ''Idempotency-Key'']
      in if idempKey \<noteq> [] then Inr idempKey
         else if g_getenv G ''ENFORCE_CLIENT_IDEMPOTENCY'' = ''true'' \<or> r_Header r ''X-Enforce-Idempotency'' = ''true''
         then Inl (lit ''Idempotency-Key is required for financial mutations'')
         else Inr (keyPrefix @ co_AssociationID (FromHTTPRequest r)))"

definition dispatch_event :: "string \<Rightarrow> (string \<times> gw_value) list \<Rightarrow> 'b gw_state \<Rightarrow> 'b gw_state" where
  "dispatch_event event attrs st =
     (if Option.is_none (gs_dispatcher st) then st else st\<lparr>gs_events := gs_events st @ [(event, attrs)]\<rparr>)"

subsection \<open>Transfers\<close>

definition parse_transfer :: "'b Gateway \<Rightarrow> gw_request \<Rightarrow> gw_response + TransferFundsRequest" where
  "parse_transfer G r =
     (let names = [''idempotency_key'', ''source_wallet_id'', ''source_wallet'', ''destination_wallet_id'', ''dest_wallet'',
                   ''currency'', ''fx_quote_id'']
      in case r_Body r of
           Inl err \<Rightarrow> Inl (http_Error err 400)
         | Inr body \<Rightarrow>
             (case members names [] [] [] body of
                Inl err \<Rightarrow> Inl (http_Error err 400)
              | Inr kvs \<Rightarrow>
                  let sourceWallet = first_nonempty [str_field ''source_wallet_id'' kvs, str_field ''source_wallet'' kvs];
                      destWallet = first_nonempty [str_field ''destination_wallet_id'' kvs, str_field ''dest_wallet'' kvs]
                  in if sourceWallet = [] \<or> destWallet = []
                     then Inl (http_Error (lit ''source_wallet_id and destination_wallet_id are required'') 400)
                     else case parseMoney (field_value into_raw None ''amount'' kvs) (str_field ''currency'' kvs) of
                            Inl err \<Rightarrow> Inl (http_Error (Msg ''invalid amount format: %v'' [ArgE err]) 400)
                          | Inr moneyObj \<Rightarrow>
                              let transferCurrency = NormalizeCurrency (m_Currency moneyObj)
                              in if transferCurrency = [] then Inl (http_Error (lit ''currency is required'') 400)
                                 else case idempotency_key G r (str_field ''idempotency_key'' kvs) ''idemp_tx_'' of
                                        Inl err \<Rightarrow> Inl (http_Error err 400)
                                      | Inr idempKey \<Rightarrow>
                                          (case ValidateMoney transferCurrency (m_Units moneyObj) (m_Nanos moneyObj) (m_Scale moneyObj) of
                                             Some err \<Rightarrow> Inl (http_Error err 400)
                                           | None \<Rightarrow>
                                               Inr \<lparr>tf_IdempotencyKey = idempKey, tf_SourceWalletId = sourceWallet,
                                                    tf_DestinationWalletId = destWallet, tf_Amount = Some moneyObj,
                                                    tf_FxQuoteId = TrimSpace (str_field ''fx_quote_id'' kvs)\<rparr>)))"

definition transfer_event :: "TransferFundsRequest \<Rightarrow> TransferFundsResponse \<Rightarrow> (string \<times> gw_value) list" where
  "transfer_event req resp =
     [(''transaction_id'', VS (tr_TransactionId resp)), (''source_wallet_id'', VS (tf_SourceWalletId req)),
      (''destination_wallet_id'', VS (tf_DestinationWalletId req)), (''amount'', VD (money_units (tf_Amount req))),
      (''currency'', VS (money_currency (tf_Amount req))), (''fx_quote_id'', VS (tr_FxQuoteId resp)),
      (''handled_region'', VS (tr_HandledByRegion resp))]"

definition handleTransfer :: "'b Gateway \<Rightarrow> gw_request \<Rightarrow> Claims option \<Rightarrow> 'b gw_state \<Rightarrow> 'b gw_state \<times> gw_response" where
  "handleTransfer G r claims st =
     (if r_Method r \<noteq> ''POST'' then (st, not_allowed)
      else case parse_transfer G r of
             Inl answer \<Rightarrow> (st, answer)
           | Inr req \<Rightarrow>
               (case check_access G claims (tf_SourceWalletId req) st of
                  (st, Some denial) \<Rightarrow> (st, denial)
                | (st, None) \<Rightarrow>
                    let correlation = (FromHTTPRequest r)\<lparr>co_IdempotencyKey := tf_IdempotencyKey req\<rparr>;
                        (st, client, target) = getActiveWalletClient G st;
                        (st, answer) = call (wc_TransferFunds client (outgoing claims correlation) req) st
                    in case answer of
                         Inl (StatusErr PermissionDenied msg) \<Rightarrow> (st, writeJSON 403 [(''error'', VM msg)])
                       | Inl (StatusErr InvalidArgument msg) \<Rightarrow> (st, writeJSON 400 [(''error'', VM msg)])
                       | Inl err \<Rightarrow> (st, http_Error (Msg ''Transfer gRPC failure: %v'' [ArgE (err_text err)]) 500)
                       | Inr resp \<Rightarrow>
                           let st = (if tr_Status resp = SUCCESS
                                     then dispatch_event ''transfer.completed'' (transfer_event req resp) st else st)
                           in (st, writeJSON 200
                                 ([(''transaction_id'', VS (tr_TransactionId resp)), (''status'', VS (status_String (tr_Status resp))),
                                   (''error_message'', VM (tr_ErrorMessage resp)), (''routed_gateway'', VS target),
                                   (''handled_region'', VS (tr_HandledByRegion resp))]
                                  @ (if tr_FxQuoteId resp \<noteq> [] then [(''fx_quote_id'', VS (tr_FxQuoteId resp))] else [])
                                  @ (if 0 < tr_ExchangeRate resp then [(''exchange_rate'', VF (tr_ExchangeRate resp))] else [])
                                  @ (if tr_ConvertedAmount resp \<noteq> None
                                     then [(''converted_amount'', VMoney (tr_ConvertedAmount resp))] else [])))))"

subsection \<open>Exchange\<close>

definition parse_exchange :: "gw_request \<Rightarrow> gw_response + ExchangeCurrencyRequest" where
  "parse_exchange r =
     (case r_Body r of
        Inl err \<Rightarrow> Inl (http_Error err 400)
      | Inr body \<Rightarrow>
          (case members [''idempotency_key'', ''wallet_id'', ''from_currency'', ''to_currency'', ''fx_quote_id'']
                  [''from_amount'', ''amount''] [] [] body of
             Inl err \<Rightarrow> Inl (http_Error err 400)
           | Inr kvs \<Rightarrow>
               let walletID = TrimSpace (str_field ''wallet_id'' kvs);
                   fromAmount = (if int_field ''from_amount'' kvs \<le> 0 then int_field ''amount'' kvs else int_field ''from_amount'' kvs);
                   fromCurr = NormalizeCurrency (str_field ''from_currency'' kvs);
                   toCurr = NormalizeCurrency (str_field ''to_currency'' kvs)
               in if walletID = [] then Inl (http_Error (lit ''wallet_id is required'') 400)
                  else if fromCurr = [] \<or> toCurr = []
                  then Inl (http_Error (lit ''from_currency and to_currency are required'') 400)
                  else if fromCurr = toCurr
                  then Inl (http_Error (lit ''from_currency and to_currency must be different'') 400)
                  else case ValidateAmount fromAmount fromCurr of
                         Some err \<Rightarrow> Inl (http_Error err 400)
                       | None \<Rightarrow>
                           let idempKey = TrimSpace (str_field ''idempotency_key'' kvs);
                               idempKey = (if idempKey = [] then r_Header r ''Idempotency-Key'' else idempKey);
                               idempKey = (if idempKey = [] then ''idemp_exch_'' @ co_AssociationID (FromHTTPRequest r) else idempKey)
                           in Inr \<lparr>xc_IdempotencyKey = idempKey, xc_WalletId = walletID, xc_FromCurrency = fromCurr,
                                   xc_ToCurrency = toCurr, xc_FromAmount = fromAmount,
                                   xc_FxQuoteId = TrimSpace (str_field ''fx_quote_id'' kvs)\<rparr>))"

definition handleWalletExchange :: "'b Gateway \<Rightarrow> gw_request \<Rightarrow> Claims option \<Rightarrow> 'b gw_state \<Rightarrow> 'b gw_state \<times> gw_response" where
  "handleWalletExchange G r claims st =
     (if r_Method r \<noteq> ''POST'' then (st, not_allowed)
      else case parse_exchange r of
             Inl answer \<Rightarrow> (st, answer)
           | Inr req \<Rightarrow>
               (case check_access G claims (xc_WalletId req) st of
                  (st, Some denial) \<Rightarrow> (st, denial)
                | (st, None) \<Rightarrow>
                    let correlation = (FromHTTPRequest r)\<lparr>co_IdempotencyKey := xc_IdempotencyKey req\<rparr>;
                        (st, client, target) = getActiveWalletClient G st;
                        (st, answer) = call (wc_ExchangeCurrency client (outgoing claims correlation) req) st
                    in case answer of
                         Inl err \<Rightarrow> (st, handleWalletGRPCError err ''exchanging currency'')
                       | Inr resp \<Rightarrow>
                           if xr_Status resp \<noteq> SUCCESS
                           then (st, writeJSON (if xr_Status resp = FAILED_INSUFFICIENT_FUNDS then 422 else 400)
                                   [(''status'', VS (status_String (xr_Status resp))), (''error_message'', VM (xr_ErrorMessage resp)),
                                    (''transaction_id'', VS (xr_TransactionId resp)), (''routed_gateway'', VS target),
                                    (''handled_region'', VS (xr_HandledByRegion resp))])
                           else (st, writeJSON 200
                                   [(''status'', VS (status_String (xr_Status resp))), (''transaction_id'', VS (xr_TransactionId resp)),
                                    (''wallet_id'', VS (xc_WalletId req)), (''from_currency'', VS (xc_FromCurrency req)),
                                    (''debited_amount'', VD (money_units (xr_DebitedAmount resp))),
                                    (''to_currency'', VS (xc_ToCurrency req)),
                                    (''credited_amount'', VD (money_units (xr_CreditedAmount resp))),
                                    (''exchange_rate'', VF (xr_ExchangeRate resp)), (''fx_quote_id'', VS (xr_FxQuoteId resp)),
                                    (''routed_gateway'', VS target), (''handled_region'', VS (xr_HandledByRegion resp))])))"

subsection \<open>Deposits and withdrawals\<close>

text \<open>Both handlers read the same request up to the name of the last field and the prefix of a
  generated key.\<close>

definition parse_funds :: "'b Gateway \<Rightarrow> gw_request \<Rightarrow> string \<Rightarrow> string \<Rightarrow> string \<Rightarrow> gw_response + FundsRequest" where
  "parse_funds G r pathWalletID details keyPrefix =
     (case r_Body r of
        Inl err \<Rightarrow> Inl (http_Error err 400)
      | Inr body \<Rightarrow>
          (case members [''idempotency_key'', ''wallet_id'', ''currency'', ''payment_rail'', ''rail'', details] [] [] [] body of
             Inl err \<Rightarrow> Inl (http_Error err 400)
           | Inr kvs \<Rightarrow>
               (case parseMoney (field_value into_raw None ''amount'' kvs) (str_field ''currency'' kvs) of
                  Inl err \<Rightarrow> Inl (http_Error (Msg ''invalid amount format: %v'' [ArgE err]) 400)
                | Inr moneyObj \<Rightarrow>
                    let paymentRail = first_nonempty [str_field ''payment_rail'' kvs, str_field ''rail'' kvs];
                        walletID = first_nonempty [pathWalletID, str_field ''wallet_id'' kvs, r_Query r ''id'', r_Query r ''wallet_id''];
                        curr = NormalizeCurrency (m_Currency moneyObj)
                    in if walletID = [] then Inl (http_Error (lit ''wallet_id is required'') 400)
                       else if curr = [] then Inl (http_Error (lit ''currency is required'') 400)
                       else case ValidateMoney curr (m_Units moneyObj) (m_Nanos moneyObj) (m_Scale moneyObj) of
                              Some err \<Rightarrow> Inl (http_Error err 400)
                            | None \<Rightarrow>
                                if parseProtoPaymentRail paymentRail = PaymentRail_UNSPECIFIED
                                then Inl (http_Error (lit ''payment_rail must be one of CARD, ACH, SEPA, WIRE'') 400)
                                else (case idempotency_key G r (str_field ''idempotency_key'' kvs) keyPrefix of
                                        Inl err \<Rightarrow> Inl (http_Error err 400)
                                      | Inr idempKey \<Rightarrow>
                                          Inr \<lparr>fr_IdempotencyKey = idempKey, fr_WalletId = walletID, fr_Amount = Some moneyObj,
                                               fr_PaymentRail = parseProtoPaymentRail paymentRail,
                                               fr_Reference = str_field details kvs\<rparr>))))"

definition gw_funds_failed :: "int \<Rightarrow> string \<Rightarrow> FundsResponse \<Rightarrow> gw_response" where
  "gw_funds_failed code target resp =
     writeJSON code
       [(''status'', VS (status_String (fp_Status resp))), (''error_message'', VM (fp_ErrorMessage resp)),
        (''transaction_id'', VS (fp_TransactionId resp)), (''routed_gateway'', VS target),
        (''handled_region'', VS (fp_HandledByRegion resp))]"

definition funds_fields :: "FundsRequest \<Rightarrow> FundsResponse \<Rightarrow> (string \<times> gw_value) list" where
  "funds_fields req resp =
     [(''transaction_id'', VS (fp_TransactionId resp)), (''wallet_id'', VS (fr_WalletId req)),
      (''amount'', VD (money_units (fp_Amount resp))), (''currency'', VS (money_currency (fp_Amount resp))),
      (''payment_rail'', VS (rail_String (fp_PaymentRail resp))), (''external_reference'', VS (fp_ExternalReference resp))]"

definition gw_funds_answer :: "string \<Rightarrow> FundsRequest \<Rightarrow> FundsResponse \<Rightarrow> gw_response" where
  "gw_funds_answer target req resp =
     writeJSON 200 ([(''status'', VS (status_String (fp_Status resp)))] @ funds_fields req resp
       @ [(''routed_gateway'', VS target), (''handled_region'', VS (fp_HandledByRegion resp))])"

definition executeDeposit ::
    "'b Gateway \<Rightarrow> gw_request \<Rightarrow> string \<Rightarrow> Claims option \<Rightarrow> 'b gw_state \<Rightarrow> 'b gw_state \<times> gw_response" where
  "executeDeposit G r pathWalletID claims st =
     (if r_Method r \<noteq> ''POST'' then (st, not_allowed)
      else case parse_funds G r pathWalletID ''reference'' ''idemp_dep_'' of
             Inl answer \<Rightarrow> (st, answer)
           | Inr req \<Rightarrow>
               (case check_access G claims (fr_WalletId req) st of
                  (st, Some denial) \<Rightarrow> (st, denial)
                | (st, None) \<Rightarrow>
                    let correlation = (FromHTTPRequest r)\<lparr>co_IdempotencyKey := fr_IdempotencyKey req\<rparr>;
                        (st, client, target) = getActiveWalletClient G st;
                        (st, answer) = call (wc_DepositFunds client (outgoing claims correlation) req) st
                    in case answer of
                         Inl err \<Rightarrow> (st, handleWalletGRPCError err ''depositing funds'')
                       | Inr resp \<Rightarrow>
                           if fp_Status resp \<noteq> SUCCESS then (st, gw_funds_failed 400 target resp)
                           else (dispatch_event ''deposit.completed''
                                   (funds_fields req resp @ [(''handled_region'', VS (fp_HandledByRegion resp))]) st,
                                 gw_funds_answer target req resp)))"

definition executeWithdraw ::
    "'b Gateway \<Rightarrow> gw_request \<Rightarrow> string \<Rightarrow> Claims option \<Rightarrow> 'b gw_state \<Rightarrow> 'b gw_state \<times> gw_response" where
  "executeWithdraw G r pathWalletID claims st =
     (if r_Method r \<noteq> ''POST'' then (st, not_allowed)
      else case parse_funds G r pathWalletID ''beneficiary_details'' ''idemp_wth_'' of
             Inl answer \<Rightarrow> (st, answer)
           | Inr req \<Rightarrow>
               (case check_access G claims (fr_WalletId req) st of
                  (st, Some denial) \<Rightarrow> (st, denial)
                | (st, None) \<Rightarrow>
                    let correlation = (FromHTTPRequest r)\<lparr>co_IdempotencyKey := fr_IdempotencyKey req\<rparr>;
                        (st, client, target) = getActiveWalletClient G st;
                        (st, answer) = call (wc_WithdrawFunds client (outgoing claims correlation) req) st
                    in case answer of
                         Inl err \<Rightarrow> (st, handleWalletGRPCError err ''withdrawing funds'')
                       | Inr resp \<Rightarrow>
                           if fp_Status resp \<noteq> SUCCESS
                           then (st, gw_funds_failed (if fp_Status resp = FAILED_INSUFFICIENT_FUNDS then 422
                                                   else if fp_Status resp = FAILED_VELOCITY_LIMIT_EXCEEDED then 429 else 400)
                                       target resp)
                           else (dispatch_event ''withdrawal.completed''
                                   (funds_fields req resp @ [(''beneficiary_details'', VS (fr_Reference req)),
                                      (''handled_region'', VS (fp_HandledByRegion resp))]) st,
                                 gw_funds_answer target req resp)))"

subsection \<open>Tiers and limits\<close>

definition handleUpdateWalletKYC :: "'b Gateway \<Rightarrow> gw_request \<Rightarrow> Claims option \<Rightarrow> 'b gw_state \<Rightarrow> 'b gw_state \<times> gw_response" where
  "handleUpdateWalletKYC G r claims st =
     (if r_Method r \<noteq> ''PUT'' \<and> r_Method r \<noteq> ''POST'' then (st, not_allowed)
      else case r_Body r of
             Inl err \<Rightarrow> (st, http_Error err 400)
           | Inr body \<Rightarrow>
               (case members [''wallet_id'', ''kyc_tier''] [] [] [] body of
                  Inl err \<Rightarrow> (st, http_Error (lit ''invalid request body'') 400)
                | Inr kvs \<Rightarrow>
                    let walletID = TrimSpace (str_field ''wallet_id'' kvs); tier = ToUpper (TrimSpace (str_field ''kyc_tier'' kvs))
                    in if walletID = [] then (st, http_Error (lit ''wallet_id is required'') 400)
                       else if tier = [] then (st, http_Error (lit ''kyc_tier is required (TIER_1, TIER_2, TIER_3)'') 400)
                       else if (case claims of Some c \<Rightarrow> \<not> Claims_HasRole c RoleAdmin \<and> \<not> Claims_HasScope c ''wallet:kyc:admin'' | None \<Rightarrow> False)
                       then (st, writeAuthError 403
                               (lit ''Forbidden: KYC tier modification requires admin privileges or wallet:kyc:admin scope''))
                       else let (st, client, target) = getActiveWalletClient G st;
                                (st, answer) = call (wc_UpdateWalletKYC client (outgoing claims (FromHTTPRequest r)) (walletID, tier)) st
                            in case answer of
                                 Inl err \<Rightarrow> (st, http_Error (Msg ''Failed to update wallet KYC: %v'' [ArgE (err_text err)]) 500)
                               | Inr resp \<Rightarrow>
                                   if \<not> uk_Success resp
                                   then (st, writeJSON 400 [(''success'', VB False), (''message'', VM (uk_Message resp))])
                                   else (st, writeJSON 200
                                           [(''success'', VB (uk_Success resp)), (''status'', VS ''SUCCESS''),
                                            (''wallet_id'', VS (uk_WalletId resp)), (''previous_tier'', VS (uk_PreviousTier resp)),
                                            (''current_tier'', VS (uk_CurrentTier resp)), (''kyc_tier'', VS (uk_CurrentTier resp)),
                                            (''message'', VM (uk_Message resp)), (''routed_gateway'', VS target)])))"

definition handleGetWalletLimits :: "'b Gateway \<Rightarrow> gw_request \<Rightarrow> Claims option \<Rightarrow> 'b gw_state \<Rightarrow> 'b gw_state \<times> gw_response" where
  "handleGetWalletLimits G r claims st =
     (if r_Method r \<noteq> ''GET'' then (st, not_allowed)
      else let walletID = first_nonempty [r_Query r ''wallet_id'', r_Query r ''id'']
           in if walletID = [] then (st, http_Error (lit ''Missing 'wallet_id' or 'id' query parameter'') 400)
              else case check_access G claims walletID st of
                     (st, Some denial) \<Rightarrow> (st, denial)
                   | (st, None) \<Rightarrow>
                       let (st, client, target) = getActiveWalletClient G st;
                           (st, answer) = call (wc_GetWalletLimits client (outgoing claims (FromHTTPRequest r)) walletID) st
                       in case answer of
                            Inl (StatusErr PermissionDenied msg) \<Rightarrow> (st, writeAuthError 403 msg)
                          | Inl err \<Rightarrow> (st, http_Error (Msg ''Failed to get wallet limits: %v'' [ArgE (err_text err)]) 500)
                          | Inr resp \<Rightarrow>
                              (st, writeJSON 200
                                 [(''wallet_id'', VS (GetWalletLimitsResponse.gl_WalletId resp)), (''kyc_tier'', VS (GetWalletLimitsResponse.gl_KycTier resp)),
                                  (''single_transaction_limit'', VD (GetWalletLimitsResponse.gl_SingleTransactionLimit resp)),
                                  (''daily_rolling_limit'', VD (GetWalletLimitsResponse.gl_DailyRollingLimit resp)),
                                  (''daily_rolling_spent'', VD (GetWalletLimitsResponse.gl_DailyRollingSpent resp)),
                                  (''daily_rolling_remaining'', VD (GetWalletLimitsResponse.gl_DailyRollingRemaining resp)),
                                  (''hourly_rate_limit'', VD (GetWalletLimitsResponse.gl_HourlyRateLimit resp)),
                                  (''hourly_rate_spent'', VD (GetWalletLimitsResponse.gl_HourlyRateSpent resp)),
                                  (''hourly_rate_remaining'', VD (GetWalletLimitsResponse.gl_HourlyRateRemaining resp)), (''routed_gateway'', VS target)]))"

subsection \<open>Routes below a wallet\<close>

text \<open>\<open>strings.Trim(path, "/")\<close>\<close>

definition trim_slashes :: "string \<Rightarrow> string" where
  "trim_slashes s = rev (dropWhile (\<lambda>c. c = CHR ''/'') (rev (dropWhile (\<lambda>c. c = CHR ''/'') s)))"

definition with_id :: "string \<Rightarrow> gw_request \<Rightarrow> gw_request" where
  "with_id walletID r = r\<lparr>r_Query := (r_Query r)(''id'' := walletID)\<rparr>"

definition handleWalletSubroutes :: "'b Gateway \<Rightarrow> gw_request \<Rightarrow> Claims option \<Rightarrow> 'b gw_state \<Rightarrow> 'b gw_state \<times> gw_response" where
  "handleWalletSubroutes G r claims st =
     (let missing = (st, http_Error (lit ''Not Found'') 404)
      in case Split (CHR ''/'') (trim_slashes (r_Path r)) of
           a # v # w # walletID # rest \<Rightarrow>
             if a = ''api'' \<and> v = ''v1'' \<and> w = ''wallets''
             then (case rest of
                     [] \<Rightarrow> if r_Method r = ''GET'' then handleGetBalance G (with_id walletID r) claims st else missing
                   | action # _ \<Rightarrow>
                       if action = ''deposit'' then executeDeposit G r walletID claims st
                       else if action = ''withdraw'' then executeWithdraw G r walletID claims st
                       else if action = ''balance'' then handleGetBalance G (with_id walletID r) claims st
                       else missing)
             else missing
         | _ \<Rightarrow> missing)"

definition handleWallets :: "'b Gateway \<Rightarrow> gw_request \<Rightarrow> Claims option \<Rightarrow> 'b gw_state \<Rightarrow> 'b gw_state \<times> gw_response" where
  "handleWallets G r claims st =
     (if r_Method r = ''POST'' then handleCreateWallet G r claims st
      else if r_Method r = ''GET'' then handleGetBalance G r claims st
      else (st, not_allowed))"

end
