(* ===== verification/GatewayOps.thy ===== *)
theory GatewayOps
  imports Gateway
begin

text \<open>
  The other handlers of the API gateway (\<open>cmd/api-gateway/main.go\<close>): webhooks, the ledger and its
  Merkle proofs, failover, sessions, and the FX service.
\<close>

subsection \<open>Webhooks\<close>

definition sub_view :: "WebhookSubscription \<Rightarrow> gw_value" where
  "sub_view s =
     (let masked = (if 10 < length (ws_Secret s)
                    then take 6 (ws_Secret s) @ ''...'' @ drop (length (ws_Secret s) - 4) (ws_Secret s) else ''whsec_****'')
      in VObj [(''id'', VS (ws_ID s)), (''url'', VS (ws_URL s)), (''events'', VList (map VS (ws_Events s))),
               (''secret_mask'', VS masked), (''is_active'', VB (ws_IsActive s)), (''created_at'', VD (ws_CreatedAt s))])"

definition webhook_unavailable :: gw_response where
  "webhook_unavailable = http_Error (lit ''Webhook subsystem unavailable'') 503"

text \<open>The URL of a webhook request, after both of its names, and its validation.\<close>

definition webhook_target :: "webhook_env \<Rightarrow> (string \<times> json) list \<Rightarrow> gw_response + string" where
  "webhook_target E kvs =
     (let targetURL = (if str_field ''url'' kvs = [] then str_field ''target_url'' kvs else str_field ''url'' kvs)
      in if targetURL = [] then Inl (http_Error (lit ''url is required'') 400)
         else case ValidateWebhookURL (we_allowLocal E) (we_lookup E) targetURL of
                Some err \<Rightarrow> Inl (http_Error (Msg ''invalid webhook url: %v'' [ArgE err]) 400)
              | None \<Rightarrow> Inr targetURL)"

definition webhook_create :: "webhook_env \<Rightarrow> gw_request \<Rightarrow> Claims option \<Rightarrow> Dispatcher \<Rightarrow> Dispatcher \<times> gw_response" where
  "webhook_create E r claims d =
     (let invalid = (d, http_Error (lit ''invalid request body'') 400)
      in case r_Body r of
           Inl err \<Rightarrow> invalid
         | Inr body \<Rightarrow>
             (case members [''url'', ''target_url'', ''secret''] [] [] [''events''] body of
                Inl err \<Rightarrow> invalid
              | Inr kvs \<Rightarrow>
                  (case webhook_target E kvs of
                     Inl answer \<Rightarrow> (d, answer)
                   | Inr targetURL \<Rightarrow>
                       let events = field_value into_strings [] ''events'' kvs;
                           events = (if events = [] then [''*''] else events);
                           ownerID = (case claims of Some c \<Rightarrow> cl_Subject c | None \<Rightarrow> []);
                           sub = \<lparr>ws_ID = zero_oid, ws_URL = targetURL, ws_Secret = str_field ''secret'' kvs, ws_Events = events,
                                  ws_IsActive = False, ws_OwnerID = ownerID, ws_CreatedAt = - 62135596800000000000,
                                  ws_UpdatedAt = - 62135596800000000000\<rparr>
                       in case RegisterSubscription E (Some sub) d of
                            (d, Inl err) \<Rightarrow> (d, http_Error (Msg ''failed to register webhook: %v'' [ArgE err]) 400)
                          | (d, Inr sub) \<Rightarrow>
                              (d, writeJSON 201
                                 [(''id'', VS (ws_ID sub)), (''subscription_id'', VS (ws_ID sub)), (''url'', VS (ws_URL sub)),
                                  (''target_url'', VS (ws_URL sub)), (''events'', VList (map VS (ws_Events sub))),
                                  (''secret'', VS (ws_Secret sub)), (''is_active'', VB (ws_IsActive sub)),
                                  (''status'', VS (if ws_IsActive sub then ''ACTIVE'' else ''INACTIVE'')),
                                  (''created_at'', VS (FormatRFC3339 (ws_CreatedAt sub)))]))))"

definition webhook_list :: "webhook_env \<Rightarrow> Claims option \<Rightarrow> Dispatcher \<Rightarrow> gw_response" where
  "webhook_list E claims d =
     (let ownerID = (case claims of Some c \<Rightarrow> if Claims_HasRole c RoleAdmin then [] else cl_Subject c | None \<Rightarrow> [])
      in case ListSubscriptions E ownerID d of
           Inl err \<Rightarrow> http_Error (Msg ''failed to list webhooks: %v'' [ArgE err]) 500
         | Inr subs \<Rightarrow> writeJSON 200 [(''count'', VD (int (length subs))), (''subscriptions'', VList (map sub_view subs))])"

definition webhook_delete :: "webhook_env \<Rightarrow> gw_request \<Rightarrow> Dispatcher \<Rightarrow> Dispatcher \<times> gw_response" where
  "webhook_delete E r d =
     (let idStr = TrimSpace (r_Query r ''id'')
      in if idStr = [] then (d, http_Error (lit ''missing 'id' query parameter'') 400)
         else case ObjectIDFromHex idStr of
                None \<Rightarrow> (d, http_Error (lit ''invalid subscription id'') 400)
              | Some oid \<Rightarrow>
                  (case DeleteSubscription E oid d of
                     (d, Some ErrNoDocuments) \<Rightarrow> (d, http_Error (lit ''subscription not found'') 404)
                   | (d, Some err) \<Rightarrow> (d, http_Error (Msg ''failed to delete subscription: %v'' [ArgE (err_msg err)]) 500)
                   | (d, None) \<Rightarrow> (d, writeJSON 200 [(''message'', VS ''subscription deactivated successfully'')])))"

definition handleWebhookSubscriptions ::
    "'b Gateway \<Rightarrow> gw_request \<Rightarrow> Claims option \<Rightarrow> 'b gw_state \<Rightarrow> 'b gw_state \<times> gw_response" where
  "handleWebhookSubscriptions G r claims st =
     (case gs_dispatcher st of
        None \<Rightarrow> (st, webhook_unavailable)
      | Some d \<Rightarrow>
          if r_Method r = ''POST''
          then (case webhook_create (g_webhooks G) r claims d of (d, answer) \<Rightarrow> (st\<lparr>gs_dispatcher := Some d\<rparr>, answer))
          else if r_Method r = ''GET'' then (st, webhook_list (g_webhooks G) claims d)
          else if r_Method r = ''DELETE''
          then (case webhook_delete (g_webhooks G) r d of (d, answer) \<Rightarrow> (st\<lparr>gs_dispatcher := Some d\<rparr>, answer))
          else (st, not_allowed))"

text \<open>The latency of a test is not modelled: the call reads the clock once.\<close>

definition handleWebhookTest :: "'b Gateway \<Rightarrow> gw_request \<Rightarrow> 'b gw_state \<Rightarrow> 'b gw_state \<times> gw_response" where
  "handleWebhookTest G r st =
     (if r_Method r \<noteq> ''POST'' then (st, not_allowed)
      else case gs_dispatcher st of
             None \<Rightarrow> (st, webhook_unavailable)
           | Some d \<Rightarrow>
               (let invalid = (st, http_Error (lit ''invalid request body'') 400)
                in case r_Body r of
                     Inl err \<Rightarrow> invalid
                   | Inr body \<Rightarrow>
                       (case members [''url'', ''target_url'', ''secret''] [] [] [] body of
                          Inl err \<Rightarrow> invalid
                        | Inr kvs \<Rightarrow>
                            (case webhook_target (g_webhooks G) kvs of
                               Inl answer \<Rightarrow> (st, answer)
                             | Inr targetURL \<Rightarrow>
                                 let secret = (if str_field ''secret'' kvs = [] then ''whsec_test_secret_for_ping'' else str_field ''secret'' kvs)
                                 in case TestEndpoint (g_webhooks G) targetURL secret d of
                                      (d, Inl err) \<Rightarrow>
                                        (st\<lparr>gs_dispatcher := Some d\<rparr>,
                                         writeJSON 502 [(''success'', VB False), (''url'', VS targetURL), (''error'', VM err)])
                                    | (d, Inr code) \<Rightarrow>
                                        (st\<lparr>gs_dispatcher := Some d\<rparr>,
                                         writeJSON 200 [(''success'', VB (200 \<le> code \<and> code < 300)), (''url'', VS targetURL),
                                                        (''status_code'', VD code)])))))"

subsection \<open>The ledger\<close>

definition ledger_limit :: "string \<Rightarrow> int32" where
  "ledger_limit limitStr =
     (case ParseInt limitStr of Some n \<Rightarrow> if fits32 n \<and> 0 < n then n else 20 | None \<Rightarrow> 20)"

definition handleLedger :: "'b Gateway \<Rightarrow> gw_request \<Rightarrow> Claims option \<Rightarrow> 'b gw_state \<Rightarrow> 'b gw_state \<times> gw_response" where
  "handleLedger G r claims st =
     (if r_Method r \<noteq> ''GET'' then (st, not_allowed)
      else let walletID = TrimSpace (r_Query r ''wallet_id'')
           in if walletID = [] then (st, http_Error (lit ''wallet_id query parameter is required'') 400)
              else case check_access G claims walletID st of
                     (st, Some denial) \<Rightarrow> (st, denial)
                   | (st, None) \<Rightarrow>
                       (case call (g_ledgerClient G (outgoing claims (FromHTTPRequest r))
                                     (walletID, ledger_limit (r_Query r ''limit''), r_Query r ''page_token'')) st of
                          (st, Inl err) \<Rightarrow> (st, http_Error (Msg ''Ledger query failure: %v'' [ArgE (err_text err)]) 500)
                        | (st, Inr resp) \<Rightarrow> (st, 200, LedgerBody walletID resp)))"

text \<open>\<open>fallback\<close> is what \<open>resolveLedgerMgmtURL\<close> finds.\<close>

definition TrimRightSlashes :: "string \<Rightarrow> string" where
  "TrimRightSlashes s = rev (dropWhile (\<lambda>c. c = CHR ''/'') (rev s))"

definition allowedAuditSubpaths :: "string list" where
  "allowedAuditSubpaths = [''/latest'', ''/checkpoints'', ''/proof'', ''/checkpoint'']"

definition handleLedgerMerkle :: "'b Gateway \<Rightarrow> string \<Rightarrow> gw_request \<Rightarrow> 'b gw_state \<Rightarrow> 'b gw_state \<times> gw_response" where
  "handleLedgerMerkle G fallback r st =
     (let mgmtURL = TrimRightSlashes (if g_ledgerMgmtURL G = [] then fallback else g_ledgerMgmtURL G);
          subPath = TrimPrefix (r_Path r) ''/api/v1/ledger/merkle'';
          subPath = (if subPath = [] \<or> subPath = ''/'' then ''/latest'' else subPath)
      in if subPath \<notin> set allowedAuditSubpaths then (st, http_Error (lit ''Invalid audit merkle subpath'') 400)
         else let targetURL = mgmtURL @ ''/audit/merkle'' @ subPath @ (if r_RawQuery r \<noteq> [] then ''?'' @ r_RawQuery r else [])
              in if url_Parse targetURL = None then (st, http_Error (lit ''Failed to build proxy request: %v'') 500)
                 else case g_http G (r_Method r, targetURL) (gs_back st) of
                        (b, Inl err) \<Rightarrow> (st\<lparr>gs_back := b\<rparr>, http_Error (Msg ''Ledger service unavailable: %v'' [ArgE err]) 502)
                      | (b, Inr (code, text)) \<Rightarrow> (st\<lparr>gs_back := b\<rparr>, code, Proxied text))"

subsection \<open>Failover\<close>

definition resolveCurrentTarget :: "'b Gateway \<Rightarrow> 'b gw_state \<Rightarrow> 'b gw_state \<times> string" where
  "resolveCurrentTarget G st =
     (let (st, answer) = coordinator_target G st
      in (st, case answer of Some t \<Rightarrow> t | None \<Rightarrow> if gs_activeTarget st \<noteq> [] then gs_activeTarget st else TargetPrimary))"

definition updateFailoverTarget :: "'b Gateway \<Rightarrow> string \<Rightarrow> 'b gw_state \<Rightarrow> 'b gw_state \<times> gomsg option" where
  "updateFailoverTarget G newTarget st =
     (case g_coordinator G of
        None \<Rightarrow> (st\<lparr>gs_activeTarget := newTarget\<rparr>, None)
      | Some (get, set_target) \<Rightarrow>
          (case set_target newTarget (gs_back st) of
             (b, Some err) \<Rightarrow> (st\<lparr>gs_back := b\<rparr>, Some err)
           | (b, None) \<Rightarrow> (st\<lparr>gs_back := b, gs_activeTarget := newTarget\<rparr>, None)))"

text \<open>The error of decoding is dropped: the target is then empty unless the field was set.\<close>

definition failover_wish :: "gw_request \<Rightarrow> string" where
  "failover_wish r =
     (case r_Body r of Inr (JObj kvs) \<Rightarrow> ToUpper (TrimSpace (str_field ''target'' kvs)) | _ \<Rightarrow> [])"

definition handleFailover :: "'b Gateway \<Rightarrow> gw_request \<Rightarrow> Claims option \<Rightarrow> 'b gw_state \<Rightarrow> 'b gw_state \<times> gw_response" where
  "handleFailover G r claims st =
     (if r_Method r \<noteq> ''POST'' then (st, not_allowed)
      else if (case claims of Some c \<Rightarrow> \<not> Claims_HasRole c RoleAdmin \<and> \<not> Claims_HasScope c ScopeClusterAdmin | None \<Rightarrow> False)
      then (st, writeAuthError 403 (lit ''Forbidden: cluster failover requires admin privileges''))
      else let (st, currentTarget) = resolveCurrentTarget G st;
               wish = failover_wish r;
               newTarget = (if wish = ''PRIMARY'' then TargetPrimary
                            else if wish = ''STANDBY'' then TargetStandby
                            else if currentTarget = TargetStandby then TargetPrimary else TargetStandby)
           in case updateFailoverTarget G newTarget st of
                (st, Some err) \<Rightarrow> (st, writeJSON 500 [(''error'', VS ''failed to persist failover target'')])
              | (st, None) \<Rightarrow>
                  (st, writeJSON 200
                     [(''message'', VS ''Failover routing triggered''), (''active_routed_target'', VS newTarget),
                      (''active_target'', VS newTarget)]))"

definition health_value :: "goerr + string \<times> string \<times> bool \<Rightarrow> gw_value" where
  "health_value h = (case h of Inl err \<Rightarrow> VObj [] | Inr (status, reg, active) \<Rightarrow>
     VObj [(''status'', VS status), (''region'', VS reg), (''is_active'', VB active)])"

text \<open>The addresses of the regions are left out of the answer.\<close>

definition handleClusterStatus :: "'b Gateway \<Rightarrow> gw_request \<Rightarrow> Claims option \<Rightarrow> 'b gw_state \<Rightarrow> 'b gw_state \<times> gw_response" where
  "handleClusterStatus G r claims st =
     (let md = outgoing claims (FromHTTPRequest r);
          (st, pHealth) = call (wc_HealthCheck (g_primaryClient G) md) st;
          (st, sHealth) = call (wc_HealthCheck (g_standbyClient G) md) st;
          (st, answer) = coordinator_target G st;
          currentActive = (case answer of
                             Some t \<Rightarrow> t
                           | None \<Rightarrow> if Option.is_none (g_coordinator G) \<and> gs_activeTarget st \<noteq> [] then gs_activeTarget st else TargetPrimary)
      in (st, writeJSON 200
            [(''current_routed_target'', VS currentActive), (''active_target'', VS currentActive), (''region'', VS ''global-core''),
             (''primary_region'', VObj [(''status'', health_value pHealth)]),
             (''standby_region'', VObj [(''status'', health_value sHealth)])]))"

definition handleReadyz :: "'b Gateway \<Rightarrow> 'b gw_state \<Rightarrow> 'b gw_state \<times> gw_response" where
  "handleReadyz G st =
     (let (st, client, activeTarget) = getActiveWalletClient G st
      in case call (wc_HealthCheck client None) st of
           (st, Inl err) \<Rightarrow>
             (st, writeJSON 503 [(''status'', VS ''DEGRADED''), (''active_target'', VS activeTarget),
                (''error'', VM (Msg ''active wallet health check failed: %v'' [ArgE (err_text err)]))])
         | (st, Inr (status, reg, active)) \<Rightarrow>
             (st, writeJSON 200 [(''status'', VS ''READY''), (''active_target'', VS activeTarget), (''wallet_status'', VS status)]))"

end
