(* ===== verification/GoJsonText.thy ===== *)
theory GoJsonText
  imports GoJson
begin

text \<open>
  The text of JSON values as \<open>json.Unmarshal\<close> reads it: white space, literals, numbers by their
  grammar, strings with their escapes, arrays and objects; data after the value is an error.
  Bytes above 127 are copied. The fuel of a parser bounds its nesting and the number of elements;
  each of them takes at least one byte of the text, so twice its length is enough; for printed
  values this is \<open>json_Parse_text\<close>.
\<close>

subsection \<open>Tokens\<close>

definition json_space :: "char \<Rightarrow> bool" where
  "json_space c \<longleftrightarrow> c = CHR '' '' \<or> c = CHR 0x09 \<or> c = CHR 0x0A \<or> c = CHR 0x0D"

definition skip_space :: "string \<Rightarrow> string" where
  "skip_space s = dropWhile json_space s"

definition is_digit :: "char \<Rightarrow> bool" where
  "is_digit c \<longleftrightarrow> digit_value c \<noteq> None"

definition hex_value :: "char \<Rightarrow> int option" where
  "hex_value c = map_of (zip ''0123456789abcdefABCDEF'' [0, 1, 2, 3, 4, 5, 6, 7, 8, 9, 10, 11, 12, 13, 14, 15, 10, 11, 12, 13, 14, 15]) c"

definition hex4 :: "char \<Rightarrow> char \<Rightarrow> char \<Rightarrow> char \<Rightarrow> int option" where
  "hex4 a b c d =
     (case (hex_value a, hex_value b, hex_value c, hex_value d) of
        (Some w, Some x, Some y, Some z) \<Rightarrow> Some (((w * 16 + x) * 16 + y) * 16 + z)
      | _ \<Rightarrow> None)"

definition utf8 :: "int \<Rightarrow> string" where
  "utf8 n =
     map char_of
       (if n < 128 then [n]
        else if n < 2048 then [192 + n div 64, 128 + n mod 64]
        else if n < 65536 then [224 + n div 4096, 128 + n div 64 mod 64, 128 + n mod 64]
        else [240 + n div 262144, 128 + n div 4096 mod 64, 128 + n div 64 mod 64, 128 + n mod 64])"

definition surrogate :: "int \<Rightarrow> bool" where
  "surrogate n \<longleftrightarrow> 55296 \<le> n \<and> n < 57344"

text \<open>The character of an escape \<open>\u....\<close>: a pair of surrogates is one character and takes the
  second escape as well; a lone surrogate is the replacement character.\<close>

definition unicode_escape :: "string \<Rightarrow> (string \<times> nat) option" where
  "unicode_escape s =
     (case s of
        a # b # c # d # rest \<Rightarrow>
          (case hex4 a b c d of
             None \<Rightarrow> None
           | Some n \<Rightarrow>
               if \<not> surrogate n then Some (utf8 n, 4)
               else (case rest of
                       bs # u # e # f # g # h # rest' \<Rightarrow>
                         if bs = CHR 0x5C \<and> u = CHR ''u'' \<and> n < 56320
                         then (case hex4 e f g h of
                                 Some m \<Rightarrow> if 56320 \<le> m \<and> m < 57344
                                           then Some (utf8 (65536 + (n - 55296) * 1024 + (m - 56320)), 10) else Some (utf8 65533, 4)
                               | None \<Rightarrow> Some (utf8 65533, 4))
                         else Some (utf8 65533, 4)
                     | _ \<Rightarrow> Some (utf8 65533, 4)))
      | _ \<Rightarrow> None)"

definition short_escape :: "char \<Rightarrow> char option" where
  "short_escape c =
     map_of [(CHR 0x22, CHR 0x22), (CHR 0x5C, CHR 0x5C), (CHR ''/'', CHR ''/''), (CHR ''b'', CHR 0x08), (CHR ''f'', CHR 0x0C),
             (CHR ''n'', CHR 0x0A), (CHR ''r'', CHR 0x0D), (CHR ''t'', CHR 0x09)] c"

text \<open>The rest of a string after its opening quote.\<close>

function parse_chars :: "string \<Rightarrow> (string \<times> string) option" where
  "parse_chars [] = None"
| "parse_chars (c # s) =
     (if c = CHR 0x22 then Some ([], s)
      else if (of_char c :: int) < 32 then None
      else if c \<noteq> CHR 0x5C then map_option (apfst ((#) c)) (parse_chars s)
      else (case s of
              [] \<Rightarrow> None
            | e # t \<Rightarrow>
                if e = CHR ''u''
                then (case unicode_escape t of
                        None \<Rightarrow> None
                      | Some (cs, n) \<Rightarrow> map_option (apfst ((@) cs)) (parse_chars (drop n t)))
                else (case short_escape e of
                        None \<Rightarrow> None
                      | Some d \<Rightarrow> map_option (apfst ((#) d)) (parse_chars t))))"
  by pat_completeness auto
termination
  by (relation "measure length") auto

definition digits_of :: "string \<Rightarrow> string \<times> string" where
  "digits_of s = (takeWhile is_digit s, dropWhile is_digit s)"

text \<open>The literal of a number and what follows it.\<close>

definition parse_fraction :: "string \<Rightarrow> (string \<times> string) option" where
  "parse_fraction s =
     (case s of
        c # t \<Rightarrow> if c = CHR ''.'' then (case digits_of t of (ds, r) \<Rightarrow> if ds = [] then None else Some (c # ds, r)) else Some ([], s)
      | [] \<Rightarrow> Some ([], s))"

definition parse_exponent :: "string \<Rightarrow> (string \<times> string) option" where
  "parse_exponent s =
     (case s of
        c # t \<Rightarrow>
          if c = CHR ''e'' \<or> c = CHR ''E''
          then let sign = (case t of d # r \<Rightarrow> if d = CHR ''+'' \<or> d = CHR ''-'' then [d] else [] | [] \<Rightarrow> [])
               in (case digits_of (drop (length sign) t) of (ds, r) \<Rightarrow> if ds = [] then None else Some (c # sign @ ds, r))
          else Some ([], s)
      | [] \<Rightarrow> Some ([], s))"

definition parse_number :: "string \<Rightarrow> (string \<times> string) option" where
  "parse_number s =
     (let sign = (case s of c # t \<Rightarrow> if c = CHR ''-'' then [c] else [] | [] \<Rightarrow> [])
      in case digits_of (drop (length sign) s) of
           (ds, r) \<Rightarrow>
             if ds = [] then None
             else let (ds, r) = (if hd ds = CHR ''0'' then ([CHR ''0''], tl ds @ r) else (ds, r))
                  in case parse_fraction r of
                       None \<Rightarrow> None
                     | Some (fr, r) \<Rightarrow>
                         (case parse_exponent r of
                            None \<Rightarrow> None
                          | Some (ex, r) \<Rightarrow> Some (sign @ ds @ fr @ ex, r)))"

subsection \<open>Values\<close>

definition json_words :: "(string \<times> json) list" where
  "json_words = [(''null'', JNull), (''true'', JBool True), (''false'', JBool False)]"

definition parse_word :: "string \<Rightarrow> (json \<times> string) option" where
  "parse_word s =
     map_option (\<lambda>(w, v). (v, drop (length w) s)) (List.find (\<lambda>(w, v). HasPrefix s w) json_words)"

fun parse_value :: "nat \<Rightarrow> string \<Rightarrow> (json \<times> string) option"
  and parse_elements :: "nat \<Rightarrow> string \<Rightarrow> (json list \<times> string) option"
  and parse_members :: "nat \<Rightarrow> string \<Rightarrow> ((string \<times> json) list \<times> string) option" where
  "parse_value 0 s = None"
| "parse_value (Suc n) s =
     (case skip_space s of
        [] \<Rightarrow> None
      | c # t \<Rightarrow>
          if c = CHR 0x22 then map_option (apfst JStr) (parse_chars t)
          else if c = CHR 0x5B
          then (case skip_space t of
                  d # u \<Rightarrow> if d = CHR 0x5D then Some (JArr [], u) else map_option (apfst JArr) (parse_elements n t)
                | [] \<Rightarrow> None)
          else if c = CHR 0x7B
          then (case skip_space t of
                  d # u \<Rightarrow> if d = CHR 0x7D then Some (JObj [], u) else map_option (apfst JObj) (parse_members n t)
                | [] \<Rightarrow> None)
          else if c = CHR ''-'' \<or> is_digit c then map_option (apfst JNum) (parse_number (c # t))
          else parse_word (c # t))"
| "parse_elements 0 s = None"
| "parse_elements (Suc n) s =
     (case parse_value n s of
        None \<Rightarrow> None
      | Some (v, r) \<Rightarrow>
          (case skip_space r of
             c # t \<Rightarrow> if c = CHR 0x5D then Some ([v], t)
                      else if c = CHR '','' then map_option (apfst ((#) v)) (parse_elements n t) else None
           | [] \<Rightarrow> None))"
| "parse_members 0 s = None"
| "parse_members (Suc n) s =
     (case skip_space s of
        q # s' \<Rightarrow>
          if q \<noteq> CHR 0x22 then None
          else (case parse_chars s' of
                  None \<Rightarrow> None
                | Some (k, r) \<Rightarrow>
                    (case skip_space r of
                       colon # r' \<Rightarrow>
                         if colon \<noteq> CHR '':'' then None
                         else (case parse_value n r' of
                                 None \<Rightarrow> None
                               | Some (v, r'') \<Rightarrow>
                                   (case skip_space r'' of
                                      c # t \<Rightarrow> if c = CHR 0x7D then Some ([(k, v)], t)
                                               else if c = CHR '','' then map_option (apfst ((#) (k, v))) (parse_members n t) else None
                                    | [] \<Rightarrow> None))
                     | [] \<Rightarrow> None))
      | [] \<Rightarrow> None)"

definition json_Parse :: "string \<Rightarrow> json option" where
  "json_Parse s =
     (case parse_value (2 * length s + 1) s of Some (v, r) \<Rightarrow> if skip_space r = [] then Some v else None | None \<Rightarrow> None)"

lemma json_Parse_tests:
  "json_Parse (''{'' @ [CHR 0x22] @ ''a'' @ [CHR 0x22] @ '': [1, -2.5e+3 , true,null, {}, []] } '')
     = Some (JObj [(''a'', JArr [JNum ''1'', JNum ''-2.5e+3'', JBool True, JNull, JObj [], JArr []])])"
  "json_Parse ''[1,]'' = None" "json_Parse ''01'' = None" "json_Parse ''1 2'' = None" "json_Parse '' '' = None"
  "json_Parse ([CHR 0x22] @ ''x'' @ [CHR 0x5C] @ ''u00e9'' @ [CHR 0x22]) = Some (JStr [CHR ''x'', CHR 0xC3, CHR 0xA9])"
  by code_simp+

subsection \<open>Printed values\<close>

text \<open>The compact text of a value, as \<open>json.Marshal\<close> prints it.\<close>

fun json_text :: "json \<Rightarrow> string" where
  "json_text JNull = ''null''"
| "json_text (JBool b) = (if b then ''true'' else ''false'')"
| "json_text (JNum l) = l"
| "json_text (JStr s) = json_string s"
| "json_text (JArr vs) = CHR 0x5B # Join (map json_text vs) '','' @ [CHR 0x5D]"
| "json_text (JObj kvs) =
     CHR 0x7B # Join (map (\<lambda>(k, v). json_string k @ CHR '':'' # json_text v) kvs) '','' @ [CHR 0x7D]"

definition closes :: "string \<Rightarrow> bool" where
  "closes rest \<longleftrightarrow> rest = [] \<or> hd rest = CHR '','' \<or> hd rest = CHR 0x5D \<or> hd rest = CHR 0x7D"

definition starts :: "string \<Rightarrow> bool" where
  "starts s \<longleftrightarrow> s \<noteq> [] \<and> \<not> json_space (hd s) \<and> hd s \<noteq> CHR 0x5D \<and> hd s \<noteq> CHR 0x7D"

definition number_ok :: "string \<Rightarrow> bool" where
  "number_ok l \<longleftrightarrow> l \<noteq> [] \<and> (hd l = CHR ''-'' \<or> is_digit (hd l))
     \<and> (\<forall>rest. closes rest \<longrightarrow> parse_number (l @ rest) = Some (l, rest))"

fun json_ok :: "json \<Rightarrow> bool" where
  "json_ok (JNum l) = number_ok l"
| "json_ok (JArr vs) = (\<forall>v\<in>set vs. json_ok v)"
| "json_ok (JObj kvs) = (\<forall>kv\<in>set kvs. json_ok (snd kv))"
| "json_ok _ = True"

subsubsection \<open>Strings\<close>

lemma hex_table: "list_all (\<lambda>n. hex_value (hex_digits ! n) = Some (int n)) [0..<16]"
  by code_simp

lemma hex_value_digit: "0 \<le> i \<Longrightarrow> i < 16 \<Longrightarrow> hex_value (hex_digits ! nat i) = Some i"
  using hex_table by (auto simp: list_all_iff)

lemma hex4_byte:
  assumes "0 \<le> b" and "b < 256" and "hex_byte b = [x, y]"
  shows "hex4 (CHR ''0'') (CHR ''0'') x y = Some b"
proof -
  have "hex_value x = Some (b div 16)" "hex_value y = Some (b mod 16)"
    using assms hex_value_digit [of "b div 16"] hex_value_digit [of "b mod 16"] by (auto simp: hex_byte_def)
  moreover have "hex_value (CHR ''0'') = Some 0" by code_simp
  ultimately show ?thesis by (simp add: hex4_def)
qed

lemma unicode_escape_byte:
  assumes "0 \<le> b" and "b < 128"
  shows "unicode_escape (''00'' @ hex_byte b @ rest) = Some ([char_of b], 4)"
proof -
  obtain x y where xy: "hex_byte b = [x, y]" by (simp add: hex_byte_def)
  from hex4_byte [OF _ _ xy] assms show ?thesis by (simp add: unicode_escape_def xy surrogate_def utf8_def)
qed

lemma short_escapes:
  "short_escape (CHR 0x22) = Some (CHR 0x22)" "short_escape (CHR 0x5C) = Some (CHR 0x5C)" "short_escape (CHR ''b'') = Some (CHR 0x08)"
  "short_escape (CHR ''f'') = Some (CHR 0x0C)" "short_escape (CHR ''n'') = Some (CHR 0x0A)"
  "short_escape (CHR ''r'') = Some (CHR 0x0D)" "short_escape (CHR ''t'') = Some (CHR 0x09)"
  by code_simp+

lemma of_char_bounds: "0 \<le> (of_char c :: int)" "(of_char c :: int) < 256"
  using pos_mod_bound [of 256 "of_char c :: int"] pos_mod_sign [of 256 "of_char c :: int"]
  by (simp_all only: of_char_mod_256 zero_less_numeral)

declare parse_chars.simps [simp del]

lemma parse_chars_plain:
  "c \<noteq> CHR 0x22 \<Longrightarrow> c \<noteq> CHR 0x5C \<Longrightarrow> \<not> (of_char c :: int) < 32 \<Longrightarrow>
     parse_chars (c # t) = map_option (apfst ((#) c)) (parse_chars t)"
  by (simp add: parse_chars.simps)

lemma parse_chars_short:
  "short_escape e = Some d \<Longrightarrow> e \<noteq> CHR ''u'' \<Longrightarrow>
     parse_chars (CHR 0x5C # e # t) = map_option (apfst ((#) d)) (parse_chars t)"
  by (simp add: parse_chars.simps(2) [of "CHR 0x5C"])

lemma parse_chars_unicode:
  assumes "0 \<le> b" and "b < 128"
  shows "parse_chars (CHR 0x5C # CHR ''u'' # ''00'' @ hex_byte b @ t) = map_option (apfst ((#) (char_of b))) (parse_chars t)"
proof -
  have "drop 4 (''00'' @ hex_byte b @ t) = t" by (simp add: hex_byte_def)
  moreover have "(@) [char_of b] = (#) (char_of b)" by auto
  ultimately show ?thesis
    using unicode_escape_byte [OF assms, of t] by (simp add: parse_chars.simps(2) [of "CHR 0x5C"])
qed

lemma html_small: "list_all (\<lambda>c. (of_char c :: int) < 128) ''<>&''"
  by code_simp

lemma parse_json_char: "parse_chars (json_char c @ t) = map_option (apfst ((#) c)) (parse_chars t)"
proof (cases "c \<in> {CHR 0x22, CHR 0x5C, CHR 0x08, CHR 0x0C, CHR 0x0A, CHR 0x0D, CHR 0x09}")
  case True
  then show ?thesis
    by (elim insertE emptyE; simp only: ; simp add: json_char_def short_escapes [THEN parse_chars_short])
next
  case False
  then have c: "c \<noteq> CHR 0x22" "c \<noteq> CHR 0x5C" "c \<noteq> CHR 0x08" "c \<noteq> CHR 0x0C" "c \<noteq> CHR 0x0A" "c \<noteq> CHR 0x0D" "c \<noteq> CHR 0x09"
    by (simp_all only: insert_iff empty_iff de_Morgan_disj simp_thms)
  show ?thesis
  proof (cases "c \<in> set ''<>&'' \<or> (of_char c :: int) < 32")
    case True
    then have small: "(of_char c :: int) < 128" using html_small unfolding list_all_iff by (elim disjE) (blast, linarith)
    have "json_char c @ t = CHR 0x5C # CHR ''u'' # ''00'' @ hex_byte (of_char c) @ t"
      unfolding json_char_def Let_def by (simp only: c True if_False if_True append_Cons append_Nil append_assoc)
    then show ?thesis using parse_chars_unicode [OF of_char_bounds(1) small, of t] by simp
  next
    case False
    then have "json_char c = [c]" unfolding json_char_def Let_def by (simp only: c if_False)
    then show ?thesis using c False by (simp add: parse_chars_plain)
  qed
qed

lemma parse_chars_text: "parse_chars (concat (map json_char s) @ CHR 0x22 # rest) = Some (s, rest)"
  by (induction s) (simp_all add: parse_json_char parse_chars.simps)

lemma json_string_Cons: "json_string s @ rest = CHR 0x22 # concat (map json_char s) @ CHR 0x22 # rest"
  by (simp add: json_string_def)

subsubsection \<open>Numbers\<close>

lemma is_digit_table: "list_all (\<lambda>n. is_digit (''0123456789'' ! n)) [0..<10]"
  "\<not> is_digit (CHR ''-'')" "\<not> is_digit (CHR '','')" "\<not> is_digit (CHR 0x5D)" "\<not> is_digit (CHR 0x7D)" "\<not> is_digit (CHR 0x22)"
  "\<not> is_digit (CHR 0x5B)" "\<not> is_digit (CHR 0x7B)"
  by code_simp+

lemma digits_then: "list_all is_digit ds \<Longrightarrow> closes rest \<Longrightarrow> digits_of (ds @ rest) = (ds, rest)"
  using is_digit_table by (cases rest) (auto simp: digits_of_def closes_def list_all_iff takeWhile_append dropWhile_append)

lemma parse_number_digits:
  assumes "list_all is_digit ds" and "ds \<noteq> []" and "hd ds = CHR ''0'' \<longrightarrow> tl ds = []" and "closes rest"
  shows "parse_number (ds @ rest) = Some (ds, rest)"
proof -
  obtain c cs where ds: "ds = c # cs" using assms(2) by (cases ds) auto
  have "c \<noteq> CHR ''-''" using assms(1) ds is_digit_table(2) by auto
  then have sign: "(case ds @ rest of x # t \<Rightarrow> if x = CHR ''-'' then [x] else [] | [] \<Rightarrow> []) = []" by (simp add: ds)
  have "parse_fraction rest = Some ([], rest)" "parse_exponent rest = Some ([], rest)"
    using assms(4) by (auto simp: parse_fraction_def parse_exponent_def closes_def split: list.splits)
  moreover have "(if hd ds = CHR ''0'' then ([CHR ''0''], tl ds @ rest) else (ds, rest)) = (ds, rest)"
    using assms(3) by (auto simp: ds)
  ultimately show ?thesis
    unfolding parse_number_def Let_def sign using digits_then [OF assms(1,4)] assms(2) by simp
qed

lemma show_nat_digits: "list_all is_digit (show_nat n) \<and> show_nat n \<noteq> [] \<and> (0 < n \<longrightarrow> hd (show_nat n) \<noteq> CHR ''0'')"
proof (induction n rule: show_nat.induct)
  case (1 n)
  have d: "is_digit (''0123456789'' ! m)" if "m < 10" for m using that is_digit_table(1) by (auto simp: list_all_iff)
  have z: "list_all (\<lambda>m. (''0123456789'' ! m) \<noteq> CHR ''0'') [1..<10]" by code_simp
  show ?case
  proof (cases "n < 10")
    case True
    then show ?thesis using d [of n] z by (subst (1 2 3) show_nat.simps) (auto simp: list_all_iff)
  next
    case False
    then have "0 < n div 10" by presburger
    then show ?thesis using 1 False d [of "n mod 10"] by (subst (1 2 3) show_nat.simps) simp
  qed
qed

lemma number_ok_show [simp]: "0 \<le> i \<Longrightarrow> number_ok (show_int i)"
proof -
  assume "0 \<le> i"
  note d = show_nat_digits [of "nat i"]
  have "hd (show_nat (nat i)) = CHR ''0'' \<longrightarrow> tl (show_nat (nat i)) = []"
  proof
    assume "hd (show_nat (nat i)) = CHR ''0''"
    with d have "nat i = 0" by auto
    then show "tl (show_nat (nat i)) = []" by (simp only: show_nat.simps [of 0]) simp
  qed
  then have "parse_number (show_nat (nat i) @ rest) = Some (show_nat (nat i), rest)" if "closes rest" for rest
    using parse_number_digits d that by blast
  moreover have "is_digit (hd (show_nat (nat i)))" using d by (cases "show_nat (nat i)") auto
  ultimately show ?thesis using d \<open>0 \<le> i\<close> by (simp add: number_ok_def show_int_def)
qed

subsubsection \<open>Values\<close>

lemma skip_space_starts: "starts s \<Longrightarrow> skip_space (s @ t) = s @ t"
  by (cases s) (simp_all add: skip_space_def starts_def)

lemma skip_space_Cons: "\<not> json_space c \<Longrightarrow> skip_space (c # s) = c # s"
  by (simp add: skip_space_def)

lemma not_space [simp]:
  "\<not> json_space (CHR 0x22)" "\<not> json_space (CHR 0x5B)" "\<not> json_space (CHR 0x5D)" "\<not> json_space (CHR 0x7B)" "\<not> json_space (CHR 0x7D)"
  "\<not> json_space (CHR '','')" "\<not> json_space (CHR '':'')" "\<not> json_space (CHR ''-'')"
  by (simp_all add: json_space_def)

lemma digit_starts: "is_digit c \<Longrightarrow> \<not> json_space c \<and> c \<noteq> CHR 0x5D \<and> c \<noteq> CHR 0x7D \<and> c \<noteq> CHR 0x22 \<and> c \<noteq> CHR 0x5B \<and> c \<noteq> CHR 0x7B"
proof -
  have "\<not> is_digit (CHR '' '')" "\<not> is_digit (CHR 0x09)" "\<not> is_digit (CHR 0x0A)" "\<not> is_digit (CHR 0x0D)" by code_simp+
  then show "is_digit c \<Longrightarrow> ?thesis" using is_digit_table(2-) unfolding json_space_def by metis
qed

lemma starts_Cons: "\<not> json_space c \<Longrightarrow> c \<noteq> CHR 0x5D \<Longrightarrow> c \<noteq> CHR 0x7D \<Longrightarrow> starts (c # s)"
  by (simp add: starts_def)

lemma starts_text: "json_ok v \<Longrightarrow> starts (json_text v)"
proof (cases v)
  case (JNum l)
  then show "json_ok v \<Longrightarrow> ?thesis"
    using digit_starts [of "hd l"] by (auto simp: number_ok_def starts_def)
qed (auto simp: json_string_def json_space_def starts_def)

lemma starts_string: "starts (json_string s)"
  by (simp add: json_string_def starts_def)

lemma closes_Cons [simp]: "closes []" "closes (CHR '','' # s)" "closes (CHR 0x5D # s)" "closes (CHR 0x7D # s)"
  by (simp_all add: closes_def)

text \<open>What the induction carries: enough fuel for the length of the text.\<close>

definition reads :: "json \<Rightarrow> bool" where
  "reads v \<longleftrightarrow> (\<forall>n rest. 2 * length (json_text v) \<le> n \<longrightarrow> closes rest \<longrightarrow> parse_value n (json_text v @ rest) = Some (v, rest))"

lemma readsD: "reads v \<Longrightarrow> 2 * length (json_text v) \<le> n \<Longrightarrow> closes rest \<Longrightarrow> parse_value n (json_text v @ rest) = Some (v, rest)"
  by (simp add: reads_def)

lemma parse_elements_text:
  "\<forall>v\<in>set vs. reads v \<Longrightarrow> vs \<noteq> [] \<Longrightarrow> 2 * length (Join (map json_text vs) '','') + 2 \<le> n \<Longrightarrow>
     parse_elements n (Join (map json_text vs) '','' @ CHR 0x5D # rest) = Some (vs, rest)"
proof (induction vs arbitrary: n)
  case (Cons v vs)
  then obtain k where n: "n = Suc k" by (cases n) auto
  show ?case
  proof (cases vs)
    case Nil
    then have "parse_value k (json_text v @ CHR 0x5D # rest) = Some (v, CHR 0x5D # rest)"
      using Cons.prems n by (intro readsD) auto
    then show ?thesis using Nil by (simp add: n skip_space_Cons)
  next
    case (Cons w ws)
    let ?r = "CHR '','' # Join (map json_text vs) '','' @ CHR 0x5D # rest"
    have "parse_value k (json_text v @ ?r) = Some (v, ?r)"
      using Cons.prems n Cons by (intro readsD) auto
    moreover have "parse_elements k (Join (map json_text vs) '','' @ CHR 0x5D # rest) = Some (vs, rest)"
      by (rule Cons.IH) (use Cons.prems n Cons in auto)
    ultimately show ?thesis using Cons by (simp add: n skip_space_Cons)
  qed
qed simp

abbreviation member_text :: "string \<times> json \<Rightarrow> string" where
  "member_text kv \<equiv> (case kv of (k, v) \<Rightarrow> json_string k @ CHR '':'' # json_text v)"

lemma parse_members_text:
  "\<forall>kv\<in>set kvs. reads (snd kv) \<Longrightarrow> kvs \<noteq> [] \<Longrightarrow> 2 * length (Join (map member_text kvs) '','') + 2 \<le> n \<Longrightarrow>
     parse_members n (Join (map member_text kvs) '','' @ CHR 0x7D # rest) = Some (kvs, rest)"
proof (induction kvs arbitrary: n)
  case (Cons kv kvs)
  obtain k v where kv: "kv = (k, v)" by (cases kv)
  from Cons.prems obtain j where n: "n = Suc j" by (cases n) auto
  have v: "parse_value j (json_text v @ r) = Some (v, r)" if "closes r" for r
    using Cons.prems n kv that by (intro readsD) (cases kvs; auto)+
  have key: "parse_members n (json_string k @ CHR '':'' # json_text v @ r) =
      (case skip_space r of
         c # t \<Rightarrow> if c = CHR 0x7D then Some ([(k, v)], t)
                  else if c = CHR '','' then map_option (apfst ((#) (k, v))) (parse_members j t) else None
       | [] \<Rightarrow> None)" if "closes r" for r
    unfolding n json_string_Cons using v [OF that] by (simp add: skip_space_Cons parse_chars_text)
  show ?case
  proof (cases kvs)
    case Nil
    then show ?thesis using key [of "CHR 0x7D # rest"] by (simp add: kv skip_space_Cons)
  next
    case (Cons kv' kvs')
    have "parse_members j (Join (map member_text kvs) '','' @ CHR 0x7D # rest) = Some (kvs, rest)"
      by (rule Cons.IH) (use Cons.prems n Cons kv in auto)
    then show ?thesis
      using Cons key [of "CHR '','' # Join (map member_text kvs) '','' @ CHR 0x7D # rest"] by (simp add: kv skip_space_Cons)
  qed
qed simp

lemma parse_words:
  "parse_word (CHR ''n'' # CHR ''u'' # CHR ''l'' # CHR ''l'' # r) = Some (JNull, r)"
  "parse_word (CHR ''t'' # CHR ''r'' # CHR ''u'' # CHR ''e'' # r) = Some (JBool True, r)"
  "parse_word (CHR ''f'' # CHR ''a'' # CHR ''l'' # CHR ''s'' # CHR ''e'' # r) = Some (JBool False, r)"
  by (simp_all add: parse_word_def json_words_def)

lemma word_starts: "\<not> is_digit (CHR ''n'')" "\<not> is_digit (CHR ''t'')" "\<not> is_digit (CHR ''f'')"
  by code_simp+

lemma reads_leaf:
  assumes "\<And>k rest. closes rest \<Longrightarrow> parse_value (Suc k) (json_text v @ rest) = Some (v, rest)" and "json_text v \<noteq> []"
  shows "reads v"
  unfolding reads_def
proof (intro allI impI)
  fix n rest assume "2 * length (json_text v) \<le> n" "closes rest"
  then show "parse_value n (json_text v @ rest) = Some (v, rest)" using assms by (cases n) auto
qed

lemma reads_text: "json_ok v \<Longrightarrow> reads v"
proof (induction v)
  case (JNum l)
  then obtain c cs where l: "l = c # cs" by (cases l) (auto simp: number_ok_def)
  have c: "c = CHR ''-'' \<or> is_digit c" using JNum l by (simp add: number_ok_def)
  then have "\<not> json_space c" "c \<noteq> CHR 0x22" "c \<noteq> CHR 0x5B" "c \<noteq> CHR 0x7B" using digit_starts [of c] by auto
  then have "parse_value (Suc k) (l @ rest) = map_option (apfst JNum) (parse_number (l @ rest))" for k rest
    using c l by (simp add: skip_space_Cons)
  then show ?case
    using JNum by (intro reads_leaf) (simp_all add: number_ok_def del: parse_value.simps)
next
  case (JStr s)
  have "parse_value (Suc k) (json_string s @ rest) = Some (JStr s, rest)" for k rest
    unfolding json_string_Cons by (simp add: skip_space_Cons parse_chars_text)
  moreover have "json_string s \<noteq> []" by (simp add: json_string_def)
  ultimately show ?case by (intro reads_leaf) simp_all
next
  case (JArr vs)
  show ?case unfolding reads_def
  proof (intro allI impI)
    fix n rest assume "2 * length (json_text (JArr vs)) \<le> n" "closes rest"
    then obtain k where k: "n = Suc k" "2 * length (Join (map json_text vs) '','') + 2 \<le> k" by (cases n) auto
    show "parse_value n (json_text (JArr vs) @ rest) = Some (JArr vs, rest)"
    proof (cases vs)
      case Nil
      then show ?thesis by (simp add: k skip_space_Cons)
    next
      case (Cons w ws)
      let ?t = "Join (map json_text vs) '','' @ CHR 0x5D # rest"
      have w: "starts (json_text w)" using JArr.prems Cons starts_text by simp
      then obtain d u where d: "?t = d # u" "\<not> json_space d" "d \<noteq> CHR 0x5D"
        using Cons by (cases ws; cases "json_text w") (auto simp: starts_def)
      have "parse_elements k ?t = Some (vs, rest)"
        by (rule parse_elements_text) (use JArr Cons k in auto)
      then show ?thesis using d by (simp add: k skip_space_Cons)
    qed
  qed
next
  case (JObj kvs)
  show ?case unfolding reads_def
  proof (intro allI impI)
    fix n rest assume "2 * length (json_text (JObj kvs)) \<le> n" "closes rest"
    then obtain k where k: "n = Suc k" "2 * length (Join (map member_text kvs) '','') + 2 \<le> k" by (cases n) auto
    show "parse_value n (json_text (JObj kvs) @ rest) = Some (JObj kvs, rest)"
    proof (cases kvs)
      case Nil
      then show ?thesis by (simp add: k skip_space_Cons)
    next
      case (Cons w ws)
      let ?t = "Join (map member_text kvs) '','' @ CHR 0x7D # rest"
      obtain u where d: "?t = CHR 0x22 # u"
        using Cons by (cases w; cases ws) (auto simp: json_string_def)
      have "\<forall>kv\<in>set kvs. reads (snd kv)" using JObj by (auto simp: snds.simps)
      then have "parse_members k ?t = Some (kvs, rest)"
        by (rule parse_members_text) (use Cons k in auto)
      then show ?thesis using d by (simp add: k skip_space_Cons)
    qed
  qed
qed ((rule reads_leaf, auto simp: parse_words word_starts json_space_def skip_space_def)+)

lemma json_Parse_text: "json_ok v \<Longrightarrow> json_Parse (json_text v) = Some v"
  using readsD [OF reads_text, of v "2 * length (json_text v) + 1" "[]"] by (simp add: json_Parse_def skip_space_def)

end
