(* ===== verification/Jwt.thy ===== *)
theory Jwt
  imports Tokens GoJsonText
begin

text \<open>
  Signed tokens (\<open>pkg/auth/jwt.go\<close>, \<open>GenerateToken\<close> and \<open>ValidateToken\<close>): claims as JSON, unpadded URL-safe
  base64, HMAC-SHA256. A token that was made with a secret validates with it and gives its
  claims back; what validates carries the HMAC of its first two parts and has not expired.
\<close>

subsection \<open>Base64 without padding\<close>

definition std_char :: "char \<Rightarrow> char" where
  "std_char c = (if c = CHR ''-'' then CHR ''+'' else if c = CHR ''_'' then CHR ''/'' else c)"

definition b64_pad :: "string \<Rightarrow> string" where
  "b64_pad s = (if length s mod 4 = 2 then ''=='' else if length s mod 4 = 3 then ''='' else [])"

definition RawURL_DecodeString :: "string \<Rightarrow> int list option" where
  "RawURL_DecodeString s =
     (let t = filter (\<lambda>c. c \<noteq> CHR 0x0A \<and> c \<noteq> CHR 0x0D) s
      in if CHR ''='' \<in> set t \<or> CHR ''+'' \<in> set t \<or> CHR ''/'' \<in> set t then None
         else b64_decode (map std_char t @ b64_pad t))"

subsection \<open>Tokens\<close>

definition ErrInvalidToken :: gomsg where "ErrInvalidToken = lit ''invalid token format''"
definition ErrInvalidSignature :: gomsg where "ErrInvalidSignature = lit ''invalid token signature''"
definition ErrTokenExpired :: gomsg where "ErrTokenExpired = lit ''token has expired''"
definition ErrInvalidHeader :: gomsg where "ErrInvalidHeader = lit ''invalid token header''"
definition ErrInvalidClaims :: gomsg where "ErrInvalidClaims = lit ''invalid token claims''"
definition DefaultIssuer :: string where "DefaultIssuer = ''wallet-system''"
definition DefaultAudience :: string where "DefaultAudience = ''wallet-api''"

definition header_json :: json where
  "header_json = JObj [(''alg'', JStr ''HS256''), (''typ'', JStr ''JWT'')]"

definition claims_json :: "Claims \<Rightarrow> json" where
  "claims_json c =
     JObj ([(''sub'', JStr (cl_Subject c))]
           @ (if cl_Roles c \<noteq> [] then [(''roles'', JArr (map JStr (cl_Roles c)))] else [])
           @ (if cl_Scopes c \<noteq> [] then [(''scopes'', JArr (map JStr (cl_Scopes c)))] else [])
           @ (if cl_Issuer c \<noteq> [] then [(''iss'', JStr (cl_Issuer c))] else [])
           @ (if cl_Audience c \<noteq> [] then [(''aud'', JStr (cl_Audience c))] else [])
           @ [(''iat'', JNum (show_int (cl_IssuedAt c))), (''exp'', JNum (show_int (cl_ExpiresAt c)))])"

text \<open>What a new token's claims get when they leave it out; \<open>life\<close> is the default validity.\<close>

definition stamp_claims :: "int \<Rightarrow> int \<Rightarrow> Claims \<Rightarrow> Claims" where
  "stamp_claims life now c =
     c\<lparr>cl_IssuedAt := (if cl_IssuedAt c = 0 then now div Second else cl_IssuedAt c),
       cl_ExpiresAt := (if cl_ExpiresAt c = 0 then (now + life) div Second else cl_ExpiresAt c),
       cl_Issuer := (if cl_Issuer c = [] then DefaultIssuer else cl_Issuer c),
       cl_Audience := (if cl_Audience c = [] then DefaultAudience else cl_Audience c)\<rparr>"

definition encode_part :: "json \<Rightarrow> string" where
  "encode_part v = RawURL_EncodeToString (map of_char (json_text v))"

definition GenerateToken :: "int \<Rightarrow> Claims \<Rightarrow> string \<Rightarrow> gomsg + string" where
  "GenerateToken now claims secret =
     (if secret = [] then Inl (lit ''secret cannot be empty'')
      else let claims = stamp_claims (3600 * Second) now claims;
               signingInput = encode_part header_json @ ''.'' @ encode_part (claims_json claims)
           in Inr (signingInput @ ''.'' @ RawURL_EncodeToString (hmac_sha256 secret signingInput)))"

definition decode_part :: "string \<Rightarrow> json option" where
  "decode_part s = Option.bind (RawURL_DecodeString s) (\<lambda>bs. json_Parse (map char_of bs))"

definition claims_of_json :: "json \<Rightarrow> gomsg + Claims" where
  "claims_of_json v =
     (case members [''sub'', ''iss'', ''aud''] [''iat'', ''exp''] [] [''roles'', ''scopes''] v of
        Inl err \<Rightarrow> Inl err
      | Inr kvs \<Rightarrow>
          Inr \<lparr>cl_Subject = str_field ''sub'' kvs, cl_Roles = field_value into_strings [] ''roles'' kvs,
               cl_Scopes = field_value into_strings [] ''scopes'' kvs, cl_Issuer = str_field ''iss'' kvs,
               cl_Audience = str_field ''aud'' kvs, cl_IssuedAt = int_field ''iat'' kvs, cl_ExpiresAt = int_field ''exp'' kvs\<rparr>)"

definition header_ok :: "string \<Rightarrow> bool" where
  "header_ok hB64 =
     (case decode_part hB64 of
        None \<Rightarrow> False
      | Some v \<Rightarrow>
          (case members [''alg'', ''typ''] [] [] [] v of
             Inl err \<Rightarrow> False
           | Inr kvs \<Rightarrow> str_field ''alg'' kvs = ''HS256'' \<and> str_field ''typ'' kvs = ''JWT''))"

definition decode_claims :: "string \<Rightarrow> gomsg + Claims" where
  "decode_claims cB64 = (case decode_part cB64 of None \<Rightarrow> Inl ErrInvalidClaims | Some v \<Rightarrow> claims_of_json v)"

definition ValidateToken :: "int \<Rightarrow> string \<Rightarrow> string \<Rightarrow> gomsg + Claims" where
  "ValidateToken now tokenStr secret =
     (if secret = [] then Inl (lit ''secret cannot be empty'')
      else case Split (CHR ''.'') tokenStr of
             [hB64, cB64, sigB64] \<Rightarrow>
               if RawURL_DecodeString sigB64 \<noteq> Some (hmac_sha256 secret (hB64 @ ''.'' @ cB64)) then Inl ErrInvalidSignature
               else if \<not> header_ok hB64 then Inl ErrInvalidHeader
               else (case decode_claims cB64 of
                       Inl err \<Rightarrow> Inl ErrInvalidClaims
                     | Inr claims \<Rightarrow> if cl_ExpiresAt claims < now div Second then Inl ErrTokenExpired else Inr claims)
           | _ \<Rightarrow> Inl ErrInvalidToken)"

subsection \<open>The round trip of the encoding\<close>

lemma b64_chars:
  "list_all (\<lambda>n. let d = b64_digit (int n) in std_char (url_char d) = d \<and> url_char d \<noteq> CHR ''='' \<and> url_char d \<noteq> CHR ''+''
     \<and> url_char d \<noteq> CHR ''/'' \<and> url_char d \<noteq> CHR 0x0A \<and> url_char d \<noteq> CHR 0x0D \<and> url_char d \<noteq> CHR ''.'') [0..<64]"
  by code_simp

definition raw_char :: "char \<Rightarrow> bool" where
  "raw_char c \<longleftrightarrow> c \<noteq> CHR ''='' \<and> c \<noteq> CHR ''+'' \<and> c \<noteq> CHR ''/'' \<and> c \<noteq> CHR 0x0A \<and> c \<noteq> CHR 0x0D \<and> c \<noteq> CHR ''.''"

lemma raw_digit: "digit_ok n \<Longrightarrow> std_char (url_char (b64_digit n)) = b64_digit n \<and> raw_char (url_char (b64_digit n))"
proof -
  assume "digit_ok n"
  then have "nat n \<in> set [0..<64]" "int (nat n) = n" by (auto simp: digit_ok_def)
  with b64_chars show ?thesis unfolding list_all_iff raw_char_def Let_def by metis
qed

lemma RawURL_simps:
  "RawURL_EncodeToString [] = []"
  "byte a \<Longrightarrow> RawURL_EncodeToString [a] = map url_char [b64_digit (a div 4), b64_digit (a mod 4 * 16)]"
  "byte a \<Longrightarrow> byte b \<Longrightarrow> RawURL_EncodeToString [a, b] =
     map url_char [b64_digit (a div 4), b64_digit (a mod 4 * 16 + b div 16), b64_digit (b mod 16 * 4)]"
  "byte a \<Longrightarrow> byte b \<Longrightarrow> byte c \<Longrightarrow> RawURL_EncodeToString (a # b # c # rest) =
     map url_char [b64_digit (a div 4), b64_digit (a mod 4 * 16 + b div 16), b64_digit (b mod 16 * 4 + c div 64), b64_digit (c mod 64)]
     @ RawURL_EncodeToString rest"
  by (simp_all add: RawURL_EncodeToString_def digit_rules b64_parts b64_joined)

lemma raw_encode:
  "list_all byte bs \<Longrightarrow> list_all raw_char (RawURL_EncodeToString bs)
     \<and> map std_char (RawURL_EncodeToString bs) @ b64_pad (RawURL_EncodeToString bs) = b64_encode bs"
  by (induction bs rule: b64_encode.induct)
     (simp_all add: RawURL_simps raw_digit b64_parts b64_joined b64_pad_def split: if_splits)

lemma RawURL_roundtrip: "list_all byte bs \<Longrightarrow> RawURL_DecodeString (RawURL_EncodeToString bs) = Some bs"
proof -
  assume bs: "list_all byte bs"
  let ?s = "RawURL_EncodeToString bs"
  have raw: "list_all raw_char ?s" and eq: "map std_char ?s @ b64_pad ?s = b64_encode bs" using raw_encode [OF bs] by simp_all
  have "filter (\<lambda>c. c \<noteq> CHR 0x0A \<and> c \<noteq> CHR 0x0D) ?s = ?s"
    by (rule filter_True) (use raw in \<open>auto simp: list_all_iff raw_char_def\<close>)
  moreover have "CHR ''='' \<notin> set ?s" "CHR ''+'' \<notin> set ?s" "CHR ''/'' \<notin> set ?s"
    using raw by (auto simp: list_all_iff raw_char_def)
  ultimately show ?thesis using b64_roundtrip [OF bs] by (simp add: RawURL_DecodeString_def eq)
qed

lemma bytes_of_string: "list_all byte (map of_char s)"
  using of_char_bounds by (simp add: list_all_iff byte_def)

lemma bytes_of_hmac: "list_all byte (hmac_sha256 key msg)"
  using byte_Sum256 by (fastforce simp: hmac_sha256_def list_all_iff byte_def)

lemma encode_no_dot: "list_all byte bs \<Longrightarrow> CHR ''.'' \<notin> set (RawURL_EncodeToString bs)"
  using raw_encode [of bs] by (auto simp: list_all_iff raw_char_def)

lemma decode_encode_part: "json_ok v \<Longrightarrow> decode_part (encode_part v) = Some v"
  by (simp add: decode_part_def encode_part_def RawURL_roundtrip bytes_of_string json_Parse_text comp_def)

definition claim_keys :: "string list" where
  "claim_keys = [''sub'', ''roles'', ''scopes'', ''iss'', ''aud'', ''iat'', ''exp'', ''alg'', ''typ'']"

lemma claim_keys_fold: "list_all (\<lambda>k. list_all (\<lambda>n. EqualFold k n \<longleftrightarrow> k = n) claim_keys) claim_keys"
  by code_simp

lemmas key_fold = claim_keys_fold [unfolded claim_keys_def list.pred_inject]

lemma into_strings_map: "into_strings (JArr (map JStr ss)) old = (ss, True)"
  by (simp add: into_strings_def into_string_def comp_def list_all_iff map_idI)

lemmas into_rules = into_strings_map into_int64_show into_string_str

lemma claims_json_fields:
  assumes "claims_json c = JObj kvs" and "0 \<le> cl_IssuedAt c" and "fits64 (cl_IssuedAt c)" and "0 \<le> cl_ExpiresAt c" and "fits64 (cl_ExpiresAt c)"
  shows "field into_string [] ''sub'' kvs = (cl_Subject c, True)" "field into_string [] ''iss'' kvs = (cl_Issuer c, True)"
    "field into_string [] ''aud'' kvs = (cl_Audience c, True)" "field into_strings [] ''roles'' kvs = (cl_Roles c, True)"
    "field into_strings [] ''scopes'' kvs = (cl_Scopes c, True)" "field into_int64 0 ''iat'' kvs = (cl_IssuedAt c, True)"
    "field into_int64 0 ''exp'' kvs = (cl_ExpiresAt c, True)"
  using assms(1) by (auto simp: claims_json_def field_def key_fold into_rules assms(2-5))

lemma claims_of_claims_json:
  assumes "0 \<le> cl_IssuedAt c" and "fits64 (cl_IssuedAt c)" and "0 \<le> cl_ExpiresAt c" and "fits64 (cl_ExpiresAt c)"
  shows "claims_of_json (claims_json c) = Inr c"
proof -
  obtain kvs where kvs: "claims_json c = JObj kvs" by (simp add: claims_json_def)
  show ?thesis
    using claims_json_fields [OF kvs assms] by (simp add: claims_of_json_def members_def kvs field_value_def field_fits_def)
qed

lemma json_ok_claims: "0 \<le> cl_IssuedAt c \<Longrightarrow> 0 \<le> cl_ExpiresAt c \<Longrightarrow> json_ok (claims_json c)"
  by (auto simp: claims_json_def)

lemma header_ok_encoded: "header_ok (encode_part header_json)"
proof -
  have "json_ok header_json" by (simp add: header_json_def)
  moreover have "members [''alg'', ''typ''] [] [] [] header_json = Inr [(''alg'', JStr ''HS256''), (''typ'', JStr ''JWT'')]"
    "str_field ''alg'' [(''alg'', JStr ''HS256''), (''typ'', JStr ''JWT'')] = ''HS256''"
    "str_field ''typ'' [(''alg'', JStr ''HS256''), (''typ'', JStr ''JWT'')] = ''JWT''" by code_simp+
  ultimately show ?thesis by (simp add: header_ok_def decode_encode_part)
qed

text \<open>A token has three parts, none of which contains a dot.\<close>

lemma Split_token:
  "list_all byte a \<Longrightarrow> list_all byte b \<Longrightarrow> list_all byte c \<Longrightarrow>
     Split (CHR ''.'') ((RawURL_EncodeToString a @ ''.'' @ RawURL_EncodeToString b) @ ''.'' @ RawURL_EncodeToString c)
       = [RawURL_EncodeToString a, RawURL_EncodeToString b, RawURL_EncodeToString c]"
  by (simp add: Split_at_sep Split_no_sep encode_no_dot)

lemma ValidateToken_made:
  assumes "secret \<noteq> []" and "json_ok h" and "header_ok (encode_part h)"
    and c: "0 \<le> cl_IssuedAt c" "fits64 (cl_IssuedAt c)" "0 \<le> cl_ExpiresAt c" "fits64 (cl_ExpiresAt c)"
    and made: "input = encode_part h @ ''.'' @ encode_part (claims_json c)"
  shows "ValidateToken now (input @ ''.'' @ RawURL_EncodeToString (hmac_sha256 secret input)) secret =
     (if cl_ExpiresAt c < now div Second then Inl ErrTokenExpired else Inr c)"
proof -
  have "Split (CHR ''.'') (input @ ''.'' @ RawURL_EncodeToString (hmac_sha256 secret input)) =
      [encode_part h, encode_part (claims_json c), RawURL_EncodeToString (hmac_sha256 secret input)]"
    unfolding made encode_part_def by (rule Split_token) (simp_all add: bytes_of_string bytes_of_hmac)
  moreover have "decode_claims (encode_part (claims_json c)) = Inr c"
    using decode_encode_part [OF json_ok_claims [OF c(1,3)]] claims_of_claims_json [OF c] by (simp add: decode_claims_def)
  ultimately show ?thesis
    using assms(1,3) by (simp add: ValidateToken_def made RawURL_roundtrip bytes_of_hmac)
qed

subsection \<open>Tokens and their claims\<close>

lemma Split_three: "Split sep s = [a, b, c] \<Longrightarrow> s = a @ sep # b @ sep # c"
proof -
  have join: "s = concat (butlast (map (\<lambda>p. p @ [sep]) (Split sep s))) @ last (Split sep s)" for s
  proof (induction s)
    case (Cons x xs)
    obtain p ps where "Split sep xs = p # ps" by (cases "Split sep xs") auto
    with Cons show ?case by (cases "x = sep"; cases ps) auto
  qed simp
  show "Split sep s = [a, b, c] \<Longrightarrow> ?thesis" using join [of s] by simp
qed

lemma ValidateToken_cases:
  assumes "ValidateToken now token secret = Inr c"
  shows "\<exists>h p s. token = h @ ''.'' @ p @ ''.'' @ s \<and> RawURL_DecodeString s = Some (hmac_sha256 secret (h @ ''.'' @ p))
    \<and> header_ok h \<and> decode_claims p = Inr c \<and> secret \<noteq> [] \<and> now div Second \<le> cl_ExpiresAt c"
proof -
  obtain h p s where parts: "Split (CHR ''.'') token = [h, p, s]"
    using assms by (auto simp: ValidateToken_def split: if_splits list.splits)
  then show ?thesis using Split_three [OF parts] assms
    by (intro exI [of _ h] exI [of _ p] exI [of _ s]) (auto simp: ValidateToken_def split: if_splits sum.splits)
qed

definition ascii :: "string \<Rightarrow> bool" where
  "ascii s = list_all (\<lambda>c. (of_char c :: int) < 128) s"

definition ascii_claims :: "Claims \<Rightarrow> bool" where
  "ascii_claims c \<longleftrightarrow> ascii (cl_Subject c) \<and> list_all ascii (cl_Roles c) \<and> list_all ascii (cl_Scopes c)
     \<and> ascii (cl_Issuer c) \<and> ascii (cl_Audience c)"

text \<open>
  C34. A token signed at time \<open>t\<close> with a secret validates with that secret until it expires, and
  gives back exactly its claims with the defaults filled in: quotes, control characters and
  the characters that JSON escapes survive. Conversely, whatever validates consists of three
  parts, of which the third is the HMAC of the other two under the secret and the second
  holds the claims; an empty secret validates nothing.
\<close>

theorem signed_token_roundtrip:
  assumes "ascii_claims c" and "0 \<le> t" and "0 \<le> cl_IssuedAt c" and "0 \<le> cl_ExpiresAt c"
    and "fits64 (cl_IssuedAt c)" and "fits64 (cl_ExpiresAt c)" and "fits64 (t div Second + 3600)" and "secret \<noteq> []"
  shows "(\<exists>token. GenerateToken t c secret = Inr token
      \<and> (\<forall>now. ValidateToken now token secret =
           (if cl_ExpiresAt (stamp_claims (3600 * Second) t c) < now div Second then Inl ErrTokenExpired
            else Inr (stamp_claims (3600 * Second) t c))))
    \<and> (\<forall>now token c'. ValidateToken now token secret = Inr c' \<longrightarrow>
         (\<exists>h p s. token = h @ ''.'' @ p @ ''.'' @ s \<and> RawURL_DecodeString s = Some (hmac_sha256 secret (h @ ''.'' @ p))
            \<and> header_ok h \<and> decode_claims p = Inr c' \<and> now div Second \<le> cl_ExpiresAt c'))"
proof -
  let ?c = "stamp_claims (3600 * Second) t c"
  have "(t + 3600 * Second) div Second = t div Second + 3600" by (simp add: Second_def)
  moreover have "0 \<le> t div Second" using assms(2) by (simp add: Second_def)
  moreover have "fits64 (t div Second)" using assms(7) calculation(2) by (simp add: fits64_def)
  ultimately have c: "0 \<le> cl_IssuedAt ?c" "fits64 (cl_IssuedAt ?c)" "0 \<le> cl_ExpiresAt ?c" "fits64 (cl_ExpiresAt ?c)"
    using assms by (simp_all add: stamp_claims_def)
  have "json_ok header_json" by (simp add: header_json_def)
  note v = ValidateToken_made [OF assms(8) this header_ok_encoded c refl]
  have "GenerateToken t c secret = Inr ((encode_part header_json @ ''.'' @ encode_part (claims_json ?c)) @ ''.''
      @ RawURL_EncodeToString (hmac_sha256 secret (encode_part header_json @ ''.'' @ encode_part (claims_json ?c))))"
    using assms(8) by (simp add: GenerateToken_def Let_def)
  with v show ?thesis using ValidateToken_cases by blast
qed

definition bob_claims :: Claims where
  "bob_claims = \<lparr>cl_Subject = ''bob'', cl_Roles = [''user''], cl_Scopes = [], cl_Issuer = [], cl_Audience = [],
     cl_IssuedAt = 0, cl_ExpiresAt = 0\<rparr>"

theorem signed_token_roundtrip_witness:
  "\<exists>token. GenerateToken (5 * Second) bob_claims ''k'' = Inr token \<and> ValidateToken (3605 * Second) token ''k''
     = Inr \<lparr>cl_Subject = ''bob'', cl_Roles = [''user''], cl_Scopes = [], cl_Issuer = ''wallet-system'',
            cl_Audience = ''wallet-api'', cl_IssuedAt = 5, cl_ExpiresAt = 3605\<rparr>
     \<and> ValidateToken (3606 * Second) token ''k'' = Inl ErrTokenExpired"
proof -
  have a: "ascii_claims bob_claims" by code_simp
  have s: "stamp_claims (3600 * Second) (5 * Second) bob_claims = \<lparr>cl_Subject = ''bob'', cl_Roles = [''user''], cl_Scopes = [],
      cl_Issuer = ''wallet-system'', cl_Audience = ''wallet-api'', cl_IssuedAt = 5, cl_ExpiresAt = 3605\<rparr>"
    by (simp add: stamp_claims_def bob_claims_def Second_def DefaultIssuer_def DefaultAudience_def)
  show ?thesis
    using signed_token_roundtrip [OF a, of "5 * Second" "''k''"]
    unfolding s by (auto simp: bob_claims_def Second_def fits64_def)
qed

end
