(* ===== verification/GoJsonFloat.thy ===== *)
theory GoJsonFloat
  imports GoJsonText FxFloat
begin

text \<open>
  Numbers of JSON texts as floating-point values (\<open>strconv.ParseFloat\<close>): the literal's exact value,
  rounded to the nearest \<open>float64\<close>.
\<close>

text \<open>The value of a number literal, and decoding into a \<open>float64\<close>: a number out of range does not fit.\<close>

definition literal_value :: "string \<Rightarrow> rat option" where
  "literal_value l =
     (let neg = HasPrefix l ''-''; (ds, r) = digits_of (if neg then tl l else l)
      in case parse_fraction r of
           None \<Rightarrow> None
         | Some (fr, r) \<Rightarrow>
             (case (parse_exponent r, parse_digits 0 (ds @ tl fr)) of
                (Some (ex, r), Some n) \<Rightarrow>
                  let e = tl ex; back = HasPrefix e ''-'';
                      x = (case parse_digits 0 (if back \<or> HasPrefix e ''+'' then tl e else e) of Some k \<Rightarrow> k | None \<Rightarrow> 0);
                      v = of_int n / 10 ^ length (tl fr) * (if back then 1 / 10 ^ nat x else 10 ^ nat x)
                  in Some (if neg then - v else v)
              | _ \<Rightarrow> None))"

definition into_float64 :: "gofloat decoder" where
  "into_float64 v old =
     (case v of
        JNum l \<Rightarrow> (case map_option xfl (literal_value l) of Some (Fin x) \<Rightarrow> (Fin x, True) | _ \<Rightarrow> (old, False))
      | JNull \<Rightarrow> (old, True)
      | _ \<Rightarrow> (old, False))"

lemma literal_value_tests:
  "literal_value ''-12.50e-1'' = Some (- 5 / 4)" "literal_value ''3E2'' = Some 300"
  by code_simp+

end
