(* ===== verification/GatewaySessions.thy ===== *)
theory GatewaySessions
  imports GatewayOps Jwt GoJsonFloat
begin

text \<open>
  Sessions and exchange rates at the API gateway (\<open>cmd/api-gateway/main.go\<close>): login, refresh, logout
  and the token endpoint of development set-ups, and the endpoints of the FX service.
\<close>

definition decoded ::
    "string list \<Rightarrow> string list \<Rightarrow> string list \<Rightarrow> string list \<Rightarrow> gw_request \<Rightarrow> gomsg + (string \<times> json) list" where
  "decoded strs ints int32s slices r =
     (case r_Body r of Inl err \<Rightarrow> Inl err | Inr body \<Rightarrow> members strs ints int32s slices body)"

subsection \<open>Sessions\<close>

definition isUnauthenticated :: "goerr \<Rightarrow> bool" where
  "isUnauthenticated err = (case err of StatusErr code msg \<Rightarrow> code = Unauthenticated | _ \<Rightarrow> False)"

definition session_answer :: "string \<Rightarrow> string \<Rightarrow> goerr + IssueTokenResponse \<Rightarrow> gw_response" where
  "session_answer denial failure answer =
     (case answer of
        Inl err \<Rightarrow> if isUnauthenticated err then writeAuthError 401 (lit denial)
                   else http_Error (Msg failure [ArgE (err_text err)]) 500
      | Inr resp \<Rightarrow>
          writeJSON 200
            [(''access_token'', VS (it_AccessToken resp)), (''refresh_token'', VS (it_RefreshToken resp)),
             (''token_type'', VS (it_TokenType resp)), (''expires_in'', VD (it_ExpiresIn resp)),
             (''scopes'', VList (map VS (it_GrantedScopes resp))), (''subject'', VS (it_Subject resp))])"

definition handleLogin :: "'b Gateway \<Rightarrow> gw_request \<Rightarrow> 'b gw_state \<Rightarrow> 'b gw_state \<times> gw_response" where
  "handleLogin G r st =
     (if r_Method r \<noteq> ''POST'' then (st, not_allowed)
      else let missing = (st, http_Error (lit ''username and password are required'') 400)
           in case decoded [''username'', ''password''] [] [] [''scopes''] r of
                Inl err \<Rightarrow> missing
              | Inr kvs \<Rightarrow>
                  if str_field ''username'' kvs = [] then missing
                  else let (st, answer) = call (ac_IssueToken (g_authClient G)
                             (str_field ''username'' kvs, str_field ''password'' kvs, field_value into_strings [] ''scopes'' kvs)) st
                       in (st, session_answer ''Invalid credentials'' ''Login failed: %v'' answer))"

definition handleRefresh :: "'b Gateway \<Rightarrow> gw_request \<Rightarrow> 'b gw_state \<Rightarrow> 'b gw_state \<times> gw_response" where
  "handleRefresh G r st =
     (if r_Method r \<noteq> ''POST'' then (st, not_allowed)
      else let missing = (st, http_Error (lit ''refresh_token is required'') 400)
           in case decoded [''refresh_token''] [] [] [] r of
                Inl err \<Rightarrow> missing
              | Inr kvs \<Rightarrow>
                  if str_field ''refresh_token'' kvs = [] then missing
                  else let (st, answer) = call (ac_RefreshToken (g_authClient G) (str_field ''refresh_token'' kvs)) st
                       in (st, session_answer ''Invalid or expired refresh token'' ''Token refresh failed: %v'' answer))"

definition handleLogout :: "'b Gateway \<Rightarrow> gw_request \<Rightarrow> 'b gw_state \<Rightarrow> 'b gw_state \<times> gw_response" where
  "handleLogout G r st =
     (if r_Method r \<noteq> ''POST'' then (st, not_allowed)
      else case ExtractBearerToken (r_Header r ''Authorization'') of
             Inl err \<Rightarrow> (st, writeAuthError 401 (lit ''Bearer token required for logout''))
           | Inr tokenStr \<Rightarrow>
               let (st, ignored) = call (ac_RevokeToken (g_authClient G) (tokenStr, ''logout'')) st
               in (st, writeJSON 200 [(''message'', VS ''logged out successfully'')]))"

definition parseAuthTokenParams :: "gw_request \<Rightarrow> string \<times> string \<times> string" where
  "parseAuthTokenParams r =
     (let sub = r_Query r ''sub''; role = r_Query r ''role''; scope = r_Query r ''scope'';
          (sub, role, scope) =
            (if r_Method r = ''POST''
             then (case decoded [''subject''] [] [] [''roles'', ''scopes''] r of
                     Inl err \<Rightarrow> (sub, role, scope)
                   | Inr kvs \<Rightarrow>
                       let roles = field_value into_strings [] ''roles'' kvs; scopes = field_value into_strings [] ''scopes'' kvs
                       in (if str_field ''subject'' kvs \<noteq> [] then str_field ''subject'' kvs else sub,
                           if roles \<noteq> [] then hd roles else role,
                           if scopes \<noteq> [] then Join scopes '','' else scope))
             else (sub, role, scope))
      in (if sub = [] then ''alice'' else sub, if role = [] then RoleUser else role, scope))"

definition buildAuthTokenClaims :: "string \<Rightarrow> string \<Rightarrow> string \<Rightarrow> Claims \<times> string list \<times> string list" where
  "buildAuthTokenClaims sub role scope =
     (let roles = (if role \<noteq> [] then [role] else []);
          scopes = (if scope \<noteq> [] then Split (CHR '','') scope
                    else if role = RoleAdmin then [ScopeClusterAdmin, ScopeLedgerAudit, ScopeWalletTransfer, ScopeWalletRead]
                    else [ScopeWalletTransfer, ScopeWalletRead])
      in (\<lparr>cl_Subject = sub, cl_Roles = roles, cl_Scopes = scopes, cl_Issuer = [], cl_Audience = [], cl_IssuedAt = 0,
           cl_ExpiresAt = 0\<rparr>, roles, scopes))"

definition defaultJWTSecret :: string where
  "defaultJWTSecret = ''development-wallet-insecure-secret-key-change-in-prod''"

definition handleAuthToken :: "'b Gateway \<Rightarrow> gw_request \<Rightarrow> gw_response" where
  "handleAuthToken G r =
     (if r_Method r \<noteq> ''POST'' \<and> r_Method r \<noteq> ''GET'' then not_allowed
      else if g_getenv G ''ENABLE_DEV_TOKEN_ENDPOINT'' \<noteq> ''true''
      then writeAuthError 403 (lit ''Token minting endpoint /api/v1/auth/token is disabled. Set ENABLE_DEV_TOKEN_ENDPOINT=true in development or use /api/v1/auth/login.'')
      else let (sub, role, scope) = parseAuthTokenParams r;
               (claims, roles, scopes) = buildAuthTokenClaims sub role scope;
               secret = g_getenv G ''JWT_SECRET''
           in case GenerateToken (g_now G) claims (if secret = [] then defaultJWTSecret else secret) of
                Inl err \<Rightarrow> http_Error (Msg ''Failed to generate token: %v'' [ArgE err]) 500
              | Inr token \<Rightarrow>
                  writeJSON 200
                    [(''token'', VS token), (''access_token'', VS token), (''token_type'', VS ''Bearer''), (''subject'', VS sub),
                     (''roles'', VList (map VS roles)), (''scopes'', VList (map VS scopes)), (''expires_in'', VD 3600)])"

subsection \<open>Exchange rates\<close>

definition fx_unavailable :: gw_response where
  "fx_unavailable = http_Error (lit ''FX service unavailable'') 503"

definition handleFXCurrencies :: "gw_request \<Rightarrow> gw_response" where
  "handleFXCurrencies r =
     (if r_Method r \<noteq> ''GET'' then not_allowed else (200, FxBody (PayloadCurrencies ListSupportedCurrencies)))"

definition first_query :: "gw_request \<Rightarrow> string \<Rightarrow> string \<Rightarrow> string" where
  "first_query r a b = (let v = TrimSpace (r_Query r a) in if v = [] then TrimSpace (r_Query r b) else v)"

text \<open>The answer to a call of the FX service: its message as JSON, or the error.\<close>

definition fx_answer :: "string \<Rightarrow> int \<Rightarrow> ('r \<Rightarrow> fx_payload) \<Rightarrow> goerr + 'r \<Rightarrow> gw_response" where
  "fx_answer failure code payload answer =
     (case answer of Inl err \<Rightarrow> http_Error (Msg failure [ArgE (err_text err)]) code | Inr resp \<Rightarrow> (200, FxBody (payload resp)))"

definition handleFXRates :: "'b Gateway \<Rightarrow> gw_request \<Rightarrow> 'b gw_state \<Rightarrow> 'b gw_state \<times> gw_response" where
  "handleFXRates G r st =
     (if r_Method r \<noteq> ''GET'' then (st, not_allowed)
      else case g_fxClient G of
             None \<Rightarrow> (st, fx_unavailable)
           | Some fx \<Rightarrow>
               let base = first_query r ''base'' ''base_currency''; base = (if base = [] then ''USD'' else base);
                   target = first_query r ''target'' ''target_currency''
               in if target \<noteq> []
                  then apsnd (fx_answer ''FX rate lookup failed: %v'' 400 PayloadRate) (call (fc_GetExchangeRate fx (base, target)) st)
                  else apsnd (fx_answer ''FX rate list failed: %v'' 400 PayloadRates) (call (fc_ListExchangeRates fx base) st))"

text \<open>An active quote is shown as locked.\<close>

definition quote_payload :: "Quote \<Rightarrow> fx_payload" where
  "quote_payload q = PayloadQuote (q\<lparr>qt_Status := (if qt_Status q = ''ACTIVE'' then ''LOCKED'' else qt_Status q)\<rparr>)"

definition client_id :: "Claims option \<Rightarrow> string \<Rightarrow> string" where
  "client_id claims clientID = (if clientID = [] then (case claims of Some c \<Rightarrow> cl_Subject c | None \<Rightarrow> []) else clientID)"

definition handleFXQuotes :: "'b Gateway \<Rightarrow> gw_request \<Rightarrow> Claims option \<Rightarrow> 'b gw_state \<Rightarrow> 'b gw_state \<times> gw_response" where
  "handleFXQuotes G r claims st =
     (case g_fxClient G of
        None \<Rightarrow> (st, fx_unavailable)
      | Some fx \<Rightarrow>
          if r_Method r = ''GET''
          then apsnd (fx_answer ''FX quote lookup failed: %v'' 404 quote_payload)
                 (call (fc_GetQuote fx (first_query r ''quote_id'' ''id'')) st)
          else if r_Method r = ''POST''
          then (case decoded [''base_currency'', ''source_currency'', ''target_currency'', ''client_id'']
                       [''source_amount'', ''source_units'', ''amount''] [''ttl_seconds''] [] r of
                  Inl err \<Rightarrow> (st, http_Error (lit ''Invalid JSON body'') 400)
                | Inr kvs \<Rightarrow>
                    let base = (if str_field ''base_currency'' kvs = [] then str_field ''source_currency'' kvs else str_field ''base_currency'' kvs);
                        amt = int_field ''source_amount'' kvs;
                        amt = (if amt \<le> 0 then int_field ''source_units'' kvs else amt);
                        amt = (if amt \<le> 0 then int_field ''amount'' kvs else amt)
                    in apsnd (fx_answer ''FX quote creation failed: %v'' 400 quote_payload)
                         (call (fc_CreateQuote fx
                            \<lparr>cq_BaseCurrency = base, cq_TargetCurrency = str_field ''target_currency'' kvs, cq_SourceAmount = amt,
                             cq_ClientId = client_id claims (str_field ''client_id'' kvs), cq_TtlSeconds = int32_field ''ttl_seconds'' kvs\<rparr>) st))
          else (st, not_allowed))"

definition handleFXConvert :: "'b Gateway \<Rightarrow> gw_request \<Rightarrow> Claims option \<Rightarrow> 'b gw_state \<Rightarrow> 'b gw_state \<times> gw_response" where
  "handleFXConvert G r claims st =
     (if r_Method r \<noteq> ''POST'' then (st, not_allowed)
      else case g_fxClient G of
             None \<Rightarrow> (st, fx_unavailable)
           | Some fx \<Rightarrow>
               (case decoded [''idempotency_key'', ''quote_id'', ''base_currency'', ''target_currency'', ''client_id'', ''reference_id'']
                       [''source_amount'', ''amount''] [] [] r of
                  Inl err \<Rightarrow> (st, http_Error (lit ''Invalid JSON body'') 400)
                | Inr kvs \<Rightarrow>
                    let key = TrimSpace (str_field ''idempotency_key'' kvs);
                        key = (if key = [] then TrimSpace (r_Header r ''Idempotency-Key'') else key);
                        amt = int_field ''source_amount'' kvs; amt = (if amt \<le> 0 then int_field ''amount'' kvs else amt)
                    in apsnd (fx_answer ''FX conversion failed: %v'' 400 PayloadConversion)
                         (call (fc_ConvertCurrency fx
                            \<lparr>cc_IdempotencyKey = key, cc_QuoteId = str_field ''quote_id'' kvs, cc_BaseCurrency = str_field ''base_currency'' kvs,
                             cc_TargetCurrency = str_field ''target_currency'' kvs, cc_SourceAmount = amt,
                             cc_ClientId = client_id claims (str_field ''client_id'' kvs), cc_ReferenceId = str_field ''reference_id'' kvs\<rparr>) st)))"

text \<open>The error of decoding is dropped: a field that did not fit keeps its zero value.\<close>

definition refresh_request :: "gw_request \<Rightarrow> UpdateExchangeRateRequest" where
  "refresh_request r =
     (let kvs = (case r_Body r of Inr (JObj kvs) \<Rightarrow> kvs | _ \<Rightarrow> []);
          base = str_field ''base_currency'' kvs; target = str_field ''target_currency'' kvs;
          rate = field_value into_float64 (Fin 0) ''mid_rate'' kvs
      in \<lparr>ue_BaseCurrency = base, ue_TargetCurrency = target, ue_MidRate = rate, ue_SpreadBps = int32_field ''spread_bps'' kvs,
          ue_TriggerUpstreamSync = (if base = [] \<and> target = [] \<and> rate = Fin 0 then True
                                    else field_value into_bool False ''trigger_upstream_sync'' kvs),
          ue_SourceProvider = str_field ''source_provider'' kvs\<rparr>)"

definition cluster_admin :: "Claims option \<Rightarrow> bool" where
  "cluster_admin claims =
     (case claims of Some c \<Rightarrow> Claims_HasRole c RoleAdmin \<or> Claims_HasScope c ScopeClusterAdmin | None \<Rightarrow> True)"

definition handleFXRatesRefresh :: "'b Gateway \<Rightarrow> gw_request \<Rightarrow> Claims option \<Rightarrow> 'b gw_state \<Rightarrow> 'b gw_state \<times> gw_response" where
  "handleFXRatesRefresh G r claims st =
     (if r_Method r \<noteq> ''POST'' then (st, not_allowed)
      else if \<not> cluster_admin claims
      then (st, writeAuthError 403 (lit ''Forbidden: FX rate refresh/override requires admin privileges''))
      else case g_fxClient G of
             None \<Rightarrow> (st, fx_unavailable)
           | Some fx \<Rightarrow>
               apsnd (fx_answer ''FX rate update failed: %v'' 400 PayloadUpdate) (call (fc_UpdateExchangeRate fx (refresh_request r)) st))"

end
