(* ===== verification/GatewayRouter.thy ===== *)
theory GatewayRouter
  imports GatewaySessions
begin

text \<open>
  The request path of the API gateway (\<open>cmd/api-gateway/main.go\<close>, \<open>registerGatewayRoutes\<close> and
  \<open>wrapGatewayMiddleware\<close>): authentication, then rate limiting, then CORS, then the multiplexer of
  \<open>net/http\<close>. Paths have no percent escapes. The limit on the size of a body is part of what
  \<open>r_Body\<close> holds.
\<close>

subsection \<open>The multiplexer\<close>

text \<open>\<open>path.Clean\<close> on a rooted path, and \<open>cleanPath\<close> of \<open>net/http\<close>, which keeps a trailing slash.\<close>

fun clean_segments :: "string list \<Rightarrow> string list \<Rightarrow> string list" where
  "clean_segments done_rev [] = rev done_rev"
| "clean_segments done_rev (s # ss) =
     (if s = [] \<or> s = ''.'' then clean_segments done_rev ss
      else if s = ''..'' then clean_segments (tl done_rev) ss
      else clean_segments (s # done_rev) ss)"

definition path_Clean :: "string \<Rightarrow> string" where
  "path_Clean p = CHR ''/'' # Join (clean_segments [] (Split (CHR ''/'') p)) ''/''"

definition cleanPath :: "string \<Rightarrow> string" where
  "cleanPath p =
     (if p = [] then ''/''
      else let np = path_Clean p in if last p = CHR ''/'' \<and> np \<noteq> ''/'' then np @ ''/'' else np)"

text \<open>A pattern matches itself; one that ends in a slash matches every path below it, and the
  longest such pattern wins.\<close>

definition subtree :: "string \<Rightarrow> string \<times> 'h \<Rightarrow> bool" where
  "subtree path e \<longleftrightarrow> last (fst e) = CHR ''/'' \<and> HasPrefix path (fst e)"

definition mux_match :: "(string \<times> 'h) list \<Rightarrow> string \<Rightarrow> 'h option" where
  "mux_match routes path =
     (case map_of routes path of
        Some h \<Rightarrow> Some h
      | None \<Rightarrow>
          (case filter (subtree path) routes of
             [] \<Rightarrow> None
           | e # es \<Rightarrow> Some (snd (fold (\<lambda>x best. if length (fst best) < length (fst x) then x else best) es e))))"

type_synonym 'b gw_handler = "gw_request \<Rightarrow> Claims option \<Rightarrow> 'b gw_state \<Rightarrow> 'b gw_state \<times> gw_response"

definition ServeMux :: "(string \<times> 'b gw_handler) list \<Rightarrow> 'b gw_handler" where
  "ServeMux routes r claims st =
     (let path = (if r_Method r = ''CONNECT'' then r_Path r else cleanPath (r_Path r))
      in if path \<noteq> r_Path r then (st, 301, Proxied path)
         else case mux_match routes path of
                Some h \<Rightarrow> h r claims st
              | None \<Rightarrow> (st, http_Error (lit ''404 page not found'') 404))"

subsection \<open>The routes\<close>

definition handleOpenAPISpec :: "gw_request \<Rightarrow> gw_response" where
  "handleOpenAPISpec r =
     (if r_Method r \<noteq> ''GET'' \<and> r_Method r \<noteq> ''HEAD'' then http_Error (lit ''Method Not Allowed'') 405
      else (200, if r_Method r = ''GET'' then Proxied ''openapi.json'' else NoBody))"

definition handleSwaggerUI :: "gw_request \<Rightarrow> gw_response" where
  "handleSwaggerUI r =
     (if r_Method r \<noteq> ''GET'' \<and> r_Method r \<noteq> ''HEAD'' then http_Error (lit ''Method Not Allowed'') 405
      else (200, if r_Method r = ''GET'' then Proxied ''swagger-ui.html'' else NoBody))"

definition handleSwaggerRedirect :: gw_response where
  "handleSwaggerRedirect = (301, Proxied ''/swagger/'')"

text \<open>Handlers that do not touch the gateway, as handlers; the metrics page is not modelled further.\<close>

definition fixed :: "(gw_request \<Rightarrow> gw_response) \<Rightarrow> 'b gw_handler" where
  "fixed f r claims st = (st, f r)"

text \<open>\<open>resolves\<close> says whether a host name has an address.\<close>

definition resolveServiceAddress :: "'b Gateway \<Rightarrow> (string \<Rightarrow> bool) \<Rightarrow> string \<Rightarrow> string \<Rightarrow> string \<Rightarrow> string" where
  "resolveServiceAddress G resolves envVar hostName defaultPort =
     (if g_getenv G envVar \<noteq> [] then g_getenv G envVar
      else if resolves hostName then hostName @ '':'' @ defaultPort else ''127.0.0.1:'' @ defaultPort)"

definition resolveLedgerMgmtURL :: "'b Gateway \<Rightarrow> (string \<Rightarrow> bool) \<Rightarrow> string" where
  "resolveLedgerMgmtURL G resolves =
     (let u = g_getenv G ''LEDGER_MGMT_URL''
      in if u \<noteq> [] then (if \<not> HasPrefix u ''http://'' \<and> \<not> HasPrefix u ''https://'' then ''http://'' @ u else u)
         else ''http://'' @ resolveServiceAddress G resolves ''LEDGER_MGMT_ADDR'' ''ledger-service'' ''9092'')"

definition wallet_routes :: "'b Gateway \<Rightarrow> (string \<times> 'b gw_handler) list" where
  "wallet_routes G =
     [(''/api/v1/wallets'', handleWallets G), (''/api/v1/wallets/'', handleWalletSubroutes G),
      (''/api/v1/wallets/deposit'', \<lambda>r. executeDeposit G r []), (''/api/v1/wallets/withdraw'', \<lambda>r. executeWithdraw G r []),
      (''/api/v1/wallets/exchange'', handleWalletExchange G), (''/api/v1/wallets/kyc'', handleUpdateWalletKYC G),
      (''/api/v1/wallets/limits'', handleGetWalletLimits G), (''/api/v1/transfers'', handleTransfer G)]"

definition account_routes :: "'b Gateway \<Rightarrow> (string \<times> 'b gw_handler) list" where
  "account_routes G =
     [(''/api/v1/webhooks/subscriptions'', handleWebhookSubscriptions G), (''/api/v1/webhooks/test'', \<lambda>r claims. handleWebhookTest G r),
      (''/api/v1/ledger'', handleLedger G), (''/api/v1/fx/quotes'', handleFXQuotes G), (''/api/v1/fx/convert'', handleFXConvert G),
      (''/api/v1/fx/rates/refresh'', handleFXRatesRefresh G), (''/api/v1/cluster/failover'', handleFailover G),
      (''/api/v1/auth/logout'', \<lambda>r claims. handleLogout G r), (''/api/v1/auth/token'', fixed (handleAuthToken G))]"

definition open_routes :: "'b Gateway \<Rightarrow> (string \<Rightarrow> bool) \<Rightarrow> (string \<times> 'b gw_handler) list" where
  "open_routes G resolves =
     [(''/api/v1/ledger/merkle'', \<lambda>r claims. handleLedgerMerkle G (resolveLedgerMgmtURL G resolves) r),
      (''/api/v1/ledger/merkle/'', \<lambda>r claims. handleLedgerMerkle G (resolveLedgerMgmtURL G resolves) r),
      (''/api/v1/fx/currencies'', fixed handleFXCurrencies), (''/api/v1/fx/rates'', \<lambda>r claims. handleFXRates G r),
      (''/api/v1/cluster/status'', handleClusterStatus G), (''/api/v1/auth/login'', \<lambda>r claims. handleLogin G r),
      (''/api/v1/auth/refresh'', \<lambda>r claims. handleRefresh G r),
      (''/healthz'', fixed (\<lambda>r. writeJSON 200 [(''status'', VS ''UP'')])), (''/readyz'', \<lambda>r claims. handleReadyz G),
      (''/metrics'', fixed (\<lambda>r. (200, NoBody))), (''/swagger'', fixed (\<lambda>r. handleSwaggerRedirect)),
      (''/swagger/'', fixed handleSwaggerUI), (''/docs'', fixed (\<lambda>r. handleSwaggerRedirect)), (''/docs/'', fixed handleSwaggerUI),
      (''/api-docs/openapi.json'', fixed handleOpenAPISpec)]"

definition registerGatewayRoutes :: "'b Gateway \<Rightarrow> (string \<Rightarrow> bool) \<Rightarrow> (string \<times> 'b gw_handler) list" where
  "registerGatewayRoutes G resolves = wallet_routes G @ account_routes G @ open_routes G resolves"

definition publicPaths :: "'b Gateway \<Rightarrow> string list" where
  "publicPaths G =
     [''/healthz'', ''/readyz'', ''/metrics'', ''/swagger'', ''/swagger/'', ''/docs'', ''/docs/'', ''/api-docs/openapi.json'',
      ''/api/v1/auth/login'', ''/api/v1/auth/refresh'', ''/api/v1/cluster/status'', ''/api/v1/ledger/merkle'',
      ''/api/v1/ledger/merkle/latest'', ''/api/v1/ledger/merkle/checkpoints'', ''/api/v1/ledger/merkle/proof'',
      ''/api/v1/fx/currencies'', ''/api/v1/fx/rates'']
     @ (if g_getenv G ''ENABLE_DEV_TOKEN_ENDPOINT'' = ''true'' then [''/api/v1/auth/token''] else [])"

definition is_public :: "'b Gateway \<Rightarrow> string \<Rightarrow> bool" where
  "is_public G path \<longleftrightarrow> path \<in> set (publicPaths G)"

subsection \<open>The middleware\<close>

definition CORSMiddleware :: "'b gw_handler \<Rightarrow> 'b gw_handler" where
  "CORSMiddleware inner r claims st = (if r_Method r = ''OPTIONS'' then (st, 204, NoBody) else inner r claims st)"

definition limited :: "proxy_config \<Rightarrow> 'b Gateway \<Rightarrow> 'b gw_handler \<Rightarrow> 'b gw_handler" where
  "limited px G inner r claims st =
     (case RateLimitMiddleware px (g_now G) (r_RemoteAddr r) (r_Header r ''X-Forwarded-For'') (gs_limiter st) of
        (limiter, Some answer) \<Rightarrow> (st\<lparr>gs_limiter := limiter\<rparr>, answer)
      | (limiter, None) \<Rightarrow> inner r claims (st\<lparr>gs_limiter := limiter\<rparr>))"

definition authenticated ::
    "'b Gateway \<Rightarrow> 'b gw_handler \<Rightarrow> gw_request \<Rightarrow> 'b gw_state \<Rightarrow> 'b gw_state \<times> gw_response" where
  "authenticated G inner r st =
     (case AuthMiddleware (ac_ValidateToken (g_authClient G)) (is_public G) (g_now G) (r_Path r) (r_Header r ''Authorization'')
             (gs_claims st, gs_back st) of
        ((cache, back), Inl answer) \<Rightarrow> (st\<lparr>gs_claims := cache, gs_back := back\<rparr>, answer)
      | ((cache, back), Inr claims) \<Rightarrow> inner r claims (st\<lparr>gs_claims := cache, gs_back := back\<rparr>))"

definition buildGatewayRouter ::
    "proxy_config \<Rightarrow> (string \<Rightarrow> bool) \<Rightarrow> 'b Gateway \<Rightarrow> gw_request \<Rightarrow> 'b gw_state \<Rightarrow> 'b gw_state \<times> gw_response" where
  "buildGatewayRouter px resolves G =
     authenticated G (limited px G (CORSMiddleware (ServeMux (registerGatewayRoutes G resolves))))"

subsection \<open>Which handlers run without claims\<close>

lemma path_tests:
  "cleanPath ''/docs/../api/v1/transfers'' = ''/api/v1/transfers''" "cleanPath ''//api/./v1//transfers/'' = ''/api/v1/transfers/''"
  "cleanPath [] = ''/''" "cleanPath ''/..'' = ''/''" "cleanPath ''/api/v1/transfers'' = ''/api/v1/transfers''"
  by code_simp+

end
