(* ===== verification/GatewayParts.thy ===== *)
theory GatewayParts
  imports GatewayRouter
begin

text \<open>
  What a request through the API gateway can do to the other services. The interface
  \<open>gateway_parts\<close> names the steps the clients make: \<open>quiet\<close> ones, by every client but the wallet
  service's, and \<open>acts c\<close>, by calls of the wallet service that carry the identity of the claims
  \<open>c\<close>. Every request then is a sequence of quiet steps and of steps under the claims that
  authentication accepted.
\<close>

subsection \<open>Public paths\<close>

lemma mux_match_pattern:
  assumes "mux_match routes path = Some h"
  shows "\<exists>p. (p, h) \<in> set routes \<and> (p = path \<or> last p = CHR ''/'' \<and> HasPrefix path p)"
proof (cases "map_of routes path")
  case (Some g)
  then show ?thesis using assms map_of_SomeD [OF Some] by (auto simp: mux_match_def)
next
  case None
  then obtain e es where es: "filter (subtree path) routes = e # es"
    and h: "h = snd (fold (\<lambda>x best. if length (fst best) < length (fst x) then x else best) es e)"
    using assms by (auto simp: mux_match_def split: list.splits)
  have fold: "fold (\<lambda>x best. if length (fst best) < length (fst x) then x else best) xs b \<in> set (b # xs)"
    for xs :: "(string \<times> 'a) list" and b by (induction xs arbitrary: b) auto
  let ?best = "fold (\<lambda>x best. if length (fst best) < length (fst x) then x else best) es e"
  have "?best \<in> set (filter (subtree path) routes)" unfolding es by (rule fold)
  then have "?best \<in> set routes" "last (fst ?best) = CHR ''/''" "HasPrefix path (fst ?best)" by (simp_all add: subtree_def)
  then show ?thesis unfolding h by (intro exI [of _ "fst ?best"]) simp
qed

definition all_public :: "string list" where
  "all_public =
     [''/healthz'', ''/readyz'', ''/metrics'', ''/swagger'', ''/swagger/'', ''/docs'', ''/docs/'', ''/api-docs/openapi.json'',
      ''/api/v1/auth/login'', ''/api/v1/auth/refresh'', ''/api/v1/cluster/status'', ''/api/v1/ledger/merkle'',
      ''/api/v1/ledger/merkle/latest'', ''/api/v1/ledger/merkle/checkpoints'', ''/api/v1/ledger/merkle/proof'',
      ''/api/v1/fx/currencies'', ''/api/v1/fx/rates'', ''/api/v1/auth/token'']"

lemma is_public_all: "is_public G path \<Longrightarrow> path \<in> set all_public"
  unfolding is_public_def publicPaths_def all_public_def by (auto split: if_splits)

definition guarded :: "string list" where
  "guarded =
     [''/api/v1/wallets'', ''/api/v1/wallets/'', ''/api/v1/wallets/deposit'', ''/api/v1/wallets/withdraw'', ''/api/v1/wallets/exchange'',
      ''/api/v1/wallets/kyc'', ''/api/v1/wallets/limits'', ''/api/v1/transfers'', ''/api/v1/webhooks/subscriptions'',
      ''/api/v1/webhooks/test'', ''/api/v1/ledger'', ''/api/v1/fx/quotes'', ''/api/v1/fx/convert'', ''/api/v1/fx/rates/refresh'',
      ''/api/v1/cluster/failover'', ''/api/v1/auth/logout'']"

lemma guarded_not_public:
  "list_all (\<lambda>p. \<not> public_prefix p \<and> list_all (\<lambda>q. q \<noteq> p \<and> \<not> (last p = CHR ''/'' \<and> HasPrefix q p)) all_public) guarded"
  "list_all (\<lambda>p. last p = CHR ''/'' \<longrightarrow> p = ''/api/v1/wallets/'') guarded"
  by code_simp+

lemma public_not_guarded:
  assumes "is_public G path \<or> public_prefix path" and "p = path \<or> last p = CHR ''/'' \<and> HasPrefix path p"
  shows "p \<notin> set guarded"
proof
  assume p: "p \<in> set guarded"
  note table = guarded_not_public(1) [unfolded list_all_iff, rule_format, OF p]
  show False
  proof (cases "is_public G path")
    case True
    then show False using is_public_all table assms(2) by blast
  next
    case False
    with assms table have sub: "public_prefix path" "last p = CHR ''/''" "HasPrefix path p" by auto
    with p guarded_not_public(2) have "p = ''/api/v1/wallets/''" by (simp add: list_all_iff)
    with sub obtain t where "path = ''/api/v1/wallets/'' @ t" by (auto simp: HasPrefix_iff)
    with sub(1) show False by (simp add: public_prefix_def)
  qed
qed

lemma guarded_routes:
  "map fst (wallet_routes G) @ map fst (butlast (account_routes G)) = guarded"
  by (simp add: wallet_routes_def account_routes_def guarded_def)

text \<open>On a public path only an open route answers.\<close>

lemma public_route:
  assumes "is_public G path \<or> public_prefix path" and "mux_match (registerGatewayRoutes G resolves) path = Some h"
  shows "(\<exists>p. (p, h) \<in> set (open_routes G resolves)) \<or> h = fixed (handleAuthToken G)"
proof -
  obtain p where p: "(p, h) \<in> set (registerGatewayRoutes G resolves)" "p = path \<or> last p = CHR ''/'' \<and> HasPrefix path p"
    using mux_match_pattern [OF assms(2)] by blast
  have not: "p \<notin> set guarded" using public_not_guarded [OF assms(1) p(2)] .
  define B where "B = butlast (account_routes G)"
  have B: "account_routes G = B @ [(''/api/v1/auth/token'', fixed (handleAuthToken G))]"
    unfolding B_def by (simp only: account_routes_def butlast.simps list.distinct simp_thms if_False if_True append.simps)
  have "(p, h) \<in> set (wallet_routes G @ B) \<or> h = fixed (handleAuthToken G) \<or> (p, h) \<in> set (open_routes G resolves)"
    using p(1) unfolding registerGatewayRoutes_def B set_append Un_iff by (simp only: set_simps insert_iff empty_iff prod.inject, blast)
  moreover have "p \<in> set guarded" if "(p, h) \<in> set (wallet_routes G @ B)"
    using that guarded_routes [of G] unfolding B_def by (metis fst_conv image_eqI list.set_map map_append)
  ultimately show ?thesis using not by blast
qed

subsection \<open>The interface\<close>

text \<open>The wallet service sees in the metadata exactly the identity of the claims.\<close>

definition identified :: "Claims \<Rightarrow> metadata \<Rightarrow> bool" where
  "identified c md \<longleftrightarrow> callerFromContext md = callerFromContext (withOutgoingAuthContext (Some c) [])"

lemma map_of_skip: "k \<notin> fst ` set m \<Longrightarrow> map_of (m @ xs) k = map_of xs k"
  by (induction m) auto

lemma identified_outgoing: "identified c (outgoing (Some c) co)"
proof -
  let ?m = "WithOutgoingMetadata co"
  have "''x-user-id'' \<notin> fst ` set ?m" "''x-user-roles'' \<notin> fst ` set ?m" by (auto simp: WithOutgoingMetadata_def)
  then show ?thesis
    by (simp add: identified_def outgoing_def withOutgoingAuthContext_def callerFromContext_def md_Get_def map_of_skip del: map_of_append)
qed

locale gateway_parts =
  fixes G :: "'b Gateway" and quiet :: "'b \<Rightarrow> 'b \<Rightarrow> bool" and acts :: "Claims \<Rightarrow> 'b \<Rightarrow> 'b \<Rightarrow> bool"
  assumes quiet_refl: "quiet b b"
    and quiet_trans: "quiet b1 b2 \<Longrightarrow> quiet b2 b3 \<Longrightarrow> quiet b1 b3"
    and acts_trans: "acts c b1 b2 \<Longrightarrow> acts c b2 b3 \<Longrightarrow> acts c b1 b3"
    and quiet_acts: "quiet b1 b2 \<Longrightarrow> acts c b1 b2"
    and validate_quiet: "quiet b (fst (ac_ValidateToken (g_authClient G) t b))"
    and issue_quiet: "quiet b (fst (ac_IssueToken (g_authClient G) a1 b))"
    and refresh_quiet: "quiet b (fst (ac_RefreshToken (g_authClient G) t b))"
    and revoke_quiet: "quiet b (fst (ac_RevokeToken (g_authClient G) a2 b))"
    and coordinator_quiet: "g_coordinator G = Some (get, put) \<Longrightarrow> quiet b (fst (get b)) \<and> quiet b (fst (put t b))"
    and ledger_quiet: "quiet b (fst (g_ledgerClient G md l1 b))"
    and http_quiet: "quiet b (fst (g_http G h1 b))"
    and fx_quiet: "g_fxClient G = Some fx \<Longrightarrow> quiet b (fst (fc_GetExchangeRate fx q1 b)) \<and> quiet b (fst (fc_ListExchangeRates fx q2 b))
          \<and> quiet b (fst (fc_CreateQuote fx q3 b)) \<and> quiet b (fst (fc_GetQuote fx q4 b)) \<and> quiet b (fst (fc_ConvertCurrency fx q5 b))
          \<and> quiet b (fst (fc_UpdateExchangeRate fx q6 b))"
    and health_quiet: "client \<in> {g_primaryClient G, g_standbyClient G} \<Longrightarrow> quiet b (fst (wc_HealthCheck client md b))"
    and create_acts: "client \<in> {g_primaryClient G, g_standbyClient G} \<Longrightarrow> identified c md \<Longrightarrow> acts c b (fst (wc_CreateWallet client md w1 b))"
    and balance_acts: "client \<in> {g_primaryClient G, g_standbyClient G} \<Longrightarrow> identified c md \<Longrightarrow> acts c b (fst (wc_GetBalance client md w2 b))"
    and transfer_acts: "client \<in> {g_primaryClient G, g_standbyClient G} \<Longrightarrow> identified c md \<Longrightarrow> acts c b (fst (wc_TransferFunds client md w3 b))"
    and exchange_acts: "client \<in> {g_primaryClient G, g_standbyClient G} \<Longrightarrow> identified c md \<Longrightarrow> acts c b (fst (wc_ExchangeCurrency client md w4 b))"
    and deposit_acts: "client \<in> {g_primaryClient G, g_standbyClient G} \<Longrightarrow> identified c md \<Longrightarrow> acts c b (fst (wc_DepositFunds client md w5 b))"
    and withdraw_acts: "client \<in> {g_primaryClient G, g_standbyClient G} \<Longrightarrow> identified c md \<Longrightarrow> acts c b (fst (wc_WithdrawFunds client md w5 b))"
    and kyc_acts: "client \<in> {g_primaryClient G, g_standbyClient G} \<Longrightarrow> identified c md \<Longrightarrow> acts c b (fst (wc_UpdateWalletKYC client md w6 b))"
    and limits_acts: "client \<in> {g_primaryClient G, g_standbyClient G} \<Longrightarrow> identified c md \<Longrightarrow> acts c b (fst (wc_GetWalletLimits client md w7 b))"
begin

definition still :: "'b gw_state \<Rightarrow> 'b gw_state \<Rightarrow> bool" where
  "still st st' \<longleftrightarrow> quiet (gs_back st) (gs_back st')"

definition steps :: "Claims \<Rightarrow> 'b gw_state \<Rightarrow> 'b gw_state \<Rightarrow> bool" where
  "steps c st st' \<longleftrightarrow> acts c (gs_back st) (gs_back st')"

lemma still_refl: "gs_back st' = gs_back st \<Longrightarrow> still st st'"
  by (simp add: still_def quiet_refl)

lemma still_trans: "still s1 s2 \<Longrightarrow> still s2 s3 \<Longrightarrow> still s1 s3"
  unfolding still_def by (rule quiet_trans)

lemma steps_trans: "steps c s1 s2 \<Longrightarrow> steps c s2 s3 \<Longrightarrow> steps c s1 s3"
  unfolding steps_def by (rule acts_trans)

lemma still_steps: "still s1 s2 \<Longrightarrow> steps c s1 s2"
  unfolding still_def steps_def by (rule quiet_acts)

lemma steps_refl: "gs_back st' = gs_back st \<Longrightarrow> steps c st st'"
  by (rule still_steps [OF still_refl])

lemma call_still: "(\<And>b. quiet b (fst (f b))) \<Longrightarrow> still st (fst (call f st))"
  by (simp add: call_def still_def split: prod.split) (metis fst_conv)

lemma call_steps: "(\<And>b. acts c b (fst (f b))) \<Longrightarrow> steps c st (fst (call f st))"
  by (simp add: call_def steps_def split: prod.split) (metis fst_conv)

lemma coordinator_target_still: "still st (fst (coordinator_target G st))"
proof (cases "g_coordinator G")
  case None
  then show ?thesis by (simp add: coordinator_target_def still_refl)
next
  case (Some p)
  obtain get put where p: "p = (get, put)" by (cases p)
  from coordinator_quiet [OF Some [unfolded p], of "gs_back st"] have "quiet (gs_back st) (fst (get (gs_back st)))" by simp
  then show ?thesis by (auto simp: coordinator_target_def Some p still_def split: prod.split sum.split)
qed

lemma client_still:
  "still st (fst (getActiveWalletClient G st))"
  "fst (snd (getActiveWalletClient G st)) \<in> {g_primaryClient G, g_standbyClient G}"
  using coordinator_target_still [of st] by (auto simp: getActiveWalletClient_def Let_def split: prod.split)

lemma clientE:
  assumes "getActiveWalletClient G st = (st', client, t)"
  shows "still st st'" and "client \<in> {g_primaryClient G, g_standbyClient G}"
  using client_still [of st] assms by simp_all

lemma identified_probe: "identified c (withOutgoingAuthContext (Some c) [])"
  by (simp add: identified_def)

lemma wallet_calls:
  assumes "getActiveWalletClient G s = (s1, client, t)"
  shows "call (wc_CreateWallet client (outgoing (Some c) co) w1) s1 = (s2, r1) \<Longrightarrow> steps c s s2"
    and "call (wc_GetBalance client (outgoing (Some c) co) w2) s1 = (s2, r2) \<Longrightarrow> steps c s s2"
    and "call (wc_GetBalance client (withOutgoingAuthContext (Some c) []) w2) s1 = (s2, r2) \<Longrightarrow> steps c s s2"
    and "call (wc_TransferFunds client (outgoing (Some c) co) w3) s1 = (s2, r3) \<Longrightarrow> steps c s s2"
    and "call (wc_ExchangeCurrency client (outgoing (Some c) co) w4) s1 = (s2, r4) \<Longrightarrow> steps c s s2"
    and "call (wc_DepositFunds client (outgoing (Some c) co) w5) s1 = (s2, r5) \<Longrightarrow> steps c s s2"
    and "call (wc_WithdrawFunds client (outgoing (Some c) co) w5) s1 = (s2, r5) \<Longrightarrow> steps c s s2"
    and "call (wc_UpdateWalletKYC client (outgoing (Some c) co) w6) s1 = (s2, r6) \<Longrightarrow> steps c s s2"
    and "call (wc_GetWalletLimits client (outgoing (Some c) co) w7) s1 = (s2, r7) \<Longrightarrow> steps c s s2"
proof -
  have go: "steps c s s2" if "call f s1 = (s2, r)" and "\<And>b. acts c b (fst (f b))" for f :: "('b, 'r) rpc" and r
    using steps_trans [OF still_steps [OF clientE(1) [OF assms]] call_steps [OF that(2)]] that(1) by (metis fst_conv)
  note client = clientE(2) [OF assms]
  show "call (wc_CreateWallet client (outgoing (Some c) co) w1) s1 = (s2, r1) \<Longrightarrow> steps c s s2"
    by (erule go) (rule create_acts [OF client identified_outgoing])
  show "call (wc_GetBalance client (outgoing (Some c) co) w2) s1 = (s2, r2) \<Longrightarrow> steps c s s2"
    by (erule go) (rule balance_acts [OF client identified_outgoing])
  show "call (wc_GetBalance client (withOutgoingAuthContext (Some c) []) w2) s1 = (s2, r2) \<Longrightarrow> steps c s s2"
    by (erule go) (rule balance_acts [OF client identified_probe])
  show "call (wc_TransferFunds client (outgoing (Some c) co) w3) s1 = (s2, r3) \<Longrightarrow> steps c s s2"
    by (erule go) (rule transfer_acts [OF client identified_outgoing])
  show "call (wc_ExchangeCurrency client (outgoing (Some c) co) w4) s1 = (s2, r4) \<Longrightarrow> steps c s s2"
    by (erule go) (rule exchange_acts [OF client identified_outgoing])
  show "call (wc_DepositFunds client (outgoing (Some c) co) w5) s1 = (s2, r5) \<Longrightarrow> steps c s s2"
    by (erule go) (rule deposit_acts [OF client identified_outgoing])
  show "call (wc_WithdrawFunds client (outgoing (Some c) co) w5) s1 = (s2, r5) \<Longrightarrow> steps c s s2"
    by (erule go) (rule withdraw_acts [OF client identified_outgoing])
  show "call (wc_UpdateWalletKYC client (outgoing (Some c) co) w6) s1 = (s2, r6) \<Longrightarrow> steps c s s2"
    by (erule go) (rule kyc_acts [OF client identified_outgoing])
  show "call (wc_GetWalletLimits client (outgoing (Some c) co) w7) s1 = (s2, r7) \<Longrightarrow> steps c s s2"
    by (erule go) (rule limits_acts [OF client identified_outgoing])
qed

lemma SetWalletOwner_steps: "steps c s s1 \<Longrightarrow> steps c s (SetWalletOwner G w i s1)"
  by (simp add: steps_def SetWalletOwner_def)

lemma check_access_steps: "check_access G (Some c) w st = (st', x) \<Longrightarrow> steps c st st'"
  by (auto simp: check_access_def verifyWalletAccess_def Let_def steps_refl
      split: if_splits prod.splits option.splits sum.splits dest: wallet_calls(3) intro!: SetWalletOwner_steps)

lemma dispatch_event_steps: "steps c s s1 \<Longrightarrow> steps c s (dispatch_event e kvs s1)"
  by (simp add: steps_def dispatch_event_def split: option.split)

subsubsection \<open>Handlers of the wallet service\<close>

lemma access_call:
  assumes "check_access G (Some c) w s = (s1, x)" and "getActiveWalletClient G s1 = (s2, client, t)"
  shows "call (wc_GetBalance client (outgoing (Some c) co) w2) s2 = (s3, r2) \<Longrightarrow> steps c s s3"
    and "call (wc_TransferFunds client (outgoing (Some c) co) w3) s2 = (s3, r3) \<Longrightarrow> steps c s s3"
    and "call (wc_ExchangeCurrency client (outgoing (Some c) co) w4) s2 = (s3, r4) \<Longrightarrow> steps c s s3"
    and "call (wc_DepositFunds client (outgoing (Some c) co) w5) s2 = (s3, r5) \<Longrightarrow> steps c s s3"
    and "call (wc_WithdrawFunds client (outgoing (Some c) co) w5) s2 = (s3, r5) \<Longrightarrow> steps c s s3"
    and "call (wc_GetWalletLimits client (outgoing (Some c) co) w7) s2 = (s3, r7) \<Longrightarrow> steps c s s3"
  by (rule steps_trans [OF check_access_steps [OF assms(1)]], erule wallet_calls [OF assms(2)])+

lemma steps_self [simp]: "steps c st st"
  by (simp add: steps_refl)

lemmas handler_rules = SetWalletOwner_steps dispatch_event_steps

lemma handleCreateWallet_steps: "steps c st (fst (handleCreateWallet G r (Some c) st))"
  by (auto simp: handleCreateWallet_def Let_def intro!: handler_rules
      split: if_splits prod.splits sum.splits bool.splits dest: wallet_calls(1))

lemma handleGetBalance_steps: "steps c st (fst (handleGetBalance G r (Some c) st))"
  by (auto simp: handleGetBalance_def Let_def intro!: handler_rules
      split: if_splits prod.splits sum.splits option.splits goerr.splits gocode.splits dest: check_access_steps access_call(1))

lemma handleTransfer_steps: "steps c st (fst (handleTransfer G r (Some c) st))"
  by (auto simp: handleTransfer_def Let_def intro!: handler_rules
      split: if_splits prod.splits sum.splits option.splits goerr.splits gocode.splits dest: check_access_steps access_call(2))

lemma handleWalletExchange_steps: "steps c st (fst (handleWalletExchange G r (Some c) st))"
  by (auto simp: handleWalletExchange_def Let_def intro!: handler_rules
      split: if_splits prod.splits sum.splits option.splits dest: check_access_steps access_call(3))

lemma executeDeposit_steps: "steps c st (fst (executeDeposit G r w (Some c) st))"
  by (auto simp: executeDeposit_def Let_def intro!: handler_rules
      split: if_splits prod.splits sum.splits option.splits dest: check_access_steps access_call(4))

lemma executeWithdraw_steps: "steps c st (fst (executeWithdraw G r w (Some c) st))"
  by (auto simp: executeWithdraw_def Let_def intro!: handler_rules
      split: if_splits prod.splits sum.splits option.splits dest: check_access_steps access_call(5))

lemma handleUpdateWalletKYC_steps: "steps c st (fst (handleUpdateWalletKYC G r (Some c) st))"
  by (auto simp: handleUpdateWalletKYC_def Let_def intro!: handler_rules
      split: if_splits prod.splits sum.splits option.splits dest: wallet_calls(8))

lemma handleGetWalletLimits_steps: "steps c st (fst (handleGetWalletLimits G r (Some c) st))"
  by (auto simp: handleGetWalletLimits_def Let_def intro!: handler_rules
      split: if_splits prod.splits sum.splits option.splits goerr.splits gocode.splits dest: check_access_steps access_call(6))

lemma handleWalletSubroutes_steps: "steps c st (fst (handleWalletSubroutes G r (Some c) st))"
  by (auto simp: handleWalletSubroutes_def Let_def split: list.split
      intro!: executeDeposit_steps executeWithdraw_steps handleGetBalance_steps)

lemma handleWallets_steps: "steps c st (fst (handleWallets G r (Some c) st))"
  by (simp add: handleWallets_def handleCreateWallet_steps handleGetBalance_steps)

subsubsection \<open>The other handlers\<close>

lemma apsnd_call_still: "(\<And>b. quiet b (fst (f b))) \<Longrightarrow> still st (fst (apsnd g (call f st)))"
  using call_still [of f st] by simp

lemma call_stillE: "call f s = (s1, x) \<Longrightarrow> (\<And>b. quiet b (fst (f b))) \<Longrightarrow> still s s1"
  using call_still [of f s] by simp

lemma still_self [simp]: "still st st"
  by (simp add: still_refl)

lemma still_dispatcher [simp]: "still st (st\<lparr>gs_dispatcher := d\<rparr>)" "still s s1 \<Longrightarrow> still s (s1\<lparr>gs_activeTarget := t\<rparr>)"
  by (simp_all add: still_def quiet_refl)

lemma webhook_handlers_still:
  "still st (fst (handleWebhookSubscriptions G r cl st))" "still st (fst (handleWebhookTest G r st))"
  by (auto simp: handleWebhookSubscriptions_def handleWebhookTest_def Let_def split: option.split prod.split sum.split)

lemma access_ledger:
  "check_access G (Some c) w s = (s1, x) \<Longrightarrow> call (g_ledgerClient G md q) s1 = (s2, y) \<Longrightarrow> steps c s s2"
  by (rule steps_trans [OF check_access_steps still_steps [OF call_stillE [OF _ ledger_quiet]]])

lemma handleLedger_steps: "steps c st (fst (handleLedger G r (Some c) st))"
  by (auto simp: handleLedger_def Let_def split: prod.splits option.splits sum.splits dest: check_access_steps access_ledger)

lemma if_still: "(P \<Longrightarrow> still st (fst x)) \<Longrightarrow> (\<not> P \<Longrightarrow> still st (fst y)) \<Longrightarrow> still st (fst (if P then x else y))"
  by simp

lemma http_still: "g_http G q (gs_back st) = (b, x) \<Longrightarrow> still st (st\<lparr>gs_back := b\<rparr>)"
  using http_quiet [of "gs_back st" q] by (simp add: still_def)

lemma handleLedgerMerkle_still: "still st (fst (handleLedgerMerkle G fb r st))"
  unfolding handleLedgerMerkle_def Let_def
  by (intro if_still; (simp only: fst_conv still_self)?)
    (auto simp: http_still split: prod.split sum.split split del: if_split)

lemma updateFailoverTarget_still: "still st (fst (updateFailoverTarget G t st))"
proof (cases "g_coordinator G")
  case None
  then show ?thesis by (simp add: updateFailoverTarget_def)
next
  case (Some p)
  obtain get put where p: "p = (get, put)" by (cases p)
  from coordinator_quiet [OF Some [unfolded p], of "gs_back st"] have "quiet (gs_back st) (fst (put t (gs_back st)))" by simp
  then show ?thesis by (auto simp: updateFailoverTarget_def Some p still_def split: prod.split option.split)
qed

lemma handleFailover_still: "still st (fst (handleFailover G r cl st))"
proof -
  have "still st s1" if "resolveCurrentTarget G st = (s1, t)" for s1 t
    using coordinator_target_still [of st] that by (auto simp: resolveCurrentTarget_def split: prod.splits)
  moreover have "still s1 s2" if "updateFailoverTarget G t s1 = (s2, e)" for s1 s2 t e
    using updateFailoverTarget_still [of s1 t] that by simp
  ultimately show ?thesis
    by (auto simp: handleFailover_def Let_def split: prod.splits option.splits if_splits intro: still_trans)
qed

lemma handleClusterStatus_still: "still st (fst (handleClusterStatus G r cl st))"
proof -
  have "still s s1" if "coordinator_target G s = (s1, t)" for s s1 t using coordinator_target_still [of s] that by simp
  moreover have "still s s1" if "call (wc_HealthCheck (g_primaryClient G) md) s = (s1, x)" for s s1 md x
    using that by (rule call_stillE) (simp add: health_quiet)
  moreover have "still s s1" if "call (wc_HealthCheck (g_standbyClient G) md) s = (s1, x)" for s s1 md x
    using that by (rule call_stillE) (simp add: health_quiet)
  ultimately show ?thesis
    unfolding handleClusterStatus_def Let_def by (simp split: prod.split) (blast intro: still_trans)
qed

lemma handleReadyz_still: "still st (fst (handleReadyz G st))"
proof -
  obtain s1 client t where g: "getActiveWalletClient G st = (s1, client, t)" by (metis prod_cases3)
  obtain s2 x where c: "call (wc_HealthCheck client None) s1 = (s2, x)" by (metis prod.exhaust)
  have "still s1 s2" by (rule call_stillE [OF c]) (rule health_quiet [OF clientE(2) [OF g]])
  with clientE(1) [OF g] have "still st s2" by (rule still_trans)
  then show ?thesis by (auto simp: handleReadyz_def g c split: sum.split prod.split)
qed

lemma session_handlers_still:
  "still st (fst (handleLogin G r st))" "still st (fst (handleRefresh G r st))" "still st (fst (handleLogout G r st))"
  by (auto simp: handleLogin_def handleRefresh_def handleLogout_def Let_def split: prod.splits sum.splits
      dest: call_stillE [OF _ issue_quiet] call_stillE [OF _ refresh_quiet] call_stillE [OF _ revoke_quiet])

lemma fx_call_still:
  assumes "g_fxClient G = Some fx"
  shows "still st (fst (call (fc_GetExchangeRate fx q1) st))" "still st (fst (call (fc_ListExchangeRates fx q2) st))"
    "still st (fst (call (fc_CreateQuote fx q3) st))" "still st (fst (call (fc_GetQuote fx q4) st))"
    "still st (fst (call (fc_ConvertCurrency fx q5) st))" "still st (fst (call (fc_UpdateExchangeRate fx q6) st))"
  by (rule call_still, simp add: fx_quiet [OF assms])+

lemma fx_handlers_still:
  "still st (fst (handleFXRates G r st))" "still st (fst (handleFXQuotes G r cl st))" "still st (fst (handleFXConvert G r cl st))"
  "still st (fst (handleFXRatesRefresh G r cl st))"
  by (auto simp: handleFXRates_def handleFXQuotes_def handleFXConvert_def handleFXRatesRefresh_def Let_def fx_call_still
      split: option.split sum.split)

subsubsection \<open>Requests\<close>

lemma fixed_still: "still st (fst (fixed f r cl st))"
  by (simp add: fixed_def)

lemma open_routes_still: "(p, h) \<in> set (open_routes G resolves) \<Longrightarrow> still st (fst (h r cl st))"
  unfolding open_routes_def
  by (simp only: set_simps insert_iff empty_iff prod.inject, elim disjE conjE)
    (simp_all add: handleLedgerMerkle_still fx_handlers_still handleClusterStatus_still session_handlers_still fixed_still handleReadyz_still)

lemma account_routes_steps: "(p, h) \<in> set (account_routes G) \<Longrightarrow> steps c st (fst (h r (Some c) st))"
  unfolding account_routes_def
  by (simp only: set_simps insert_iff empty_iff prod.inject, elim disjE conjE)
    (simp_all add: still_steps webhook_handlers_still handleLedger_steps fx_handlers_still handleFailover_still session_handlers_still fixed_still)

lemma wallet_routes_steps: "(p, h) \<in> set (wallet_routes G) \<Longrightarrow> steps c st (fst (h r (Some c) st))"
  unfolding wallet_routes_def
  by (simp only: set_simps insert_iff empty_iff prod.inject, elim disjE conjE)
    (simp_all add: handleWallets_steps handleWalletSubroutes_steps executeDeposit_steps executeWithdraw_steps handleWalletExchange_steps
      handleUpdateWalletKYC_steps handleGetWalletLimits_steps handleTransfer_steps)

lemma ServeMux_steps: "steps c st (fst (ServeMux (registerGatewayRoutes G resolves) r (Some c) st))"
proof (cases "mux_match (registerGatewayRoutes G resolves) (r_Path r)")
  case None
  then show ?thesis by (simp add: ServeMux_def Let_def)
next
  case (Some h)
  obtain p where "(p, h) \<in> set (registerGatewayRoutes G resolves)" using mux_match_pattern [OF Some] by blast
  then have "steps c st (fst (h r (Some c) st))"
    unfolding registerGatewayRoutes_def set_append Un_iff
    using wallet_routes_steps account_routes_steps open_routes_still [THEN still_steps] by blast
  with Some show ?thesis by (simp add: ServeMux_def Let_def)
qed

lemma ServeMux_public:
  assumes "is_public G (r_Path r) \<or> public_prefix (r_Path r)"
  shows "still st (fst (ServeMux (registerGatewayRoutes G resolves) r None st))"
proof (cases "mux_match (registerGatewayRoutes G resolves) (r_Path r)")
  case None
  then show ?thesis by (simp add: ServeMux_def Let_def)
next
  case (Some h)
  from public_route [OF assms Some] have "still st (fst (h r None st))" using open_routes_still fixed_still by blast
  with Some show ?thesis by (simp add: ServeMux_def Let_def)
qed

lemma limited_CORS:
  "\<exists>s1. gs_back s1 = gs_back st
     \<and> (fst (limited px G (CORSMiddleware h) r cl st) = s1 \<or> fst (limited px G (CORSMiddleware h) r cl st) = fst (h r cl s1))"
proof -
  obtain l x where l: "RateLimitMiddleware px (g_now G) (r_RemoteAddr r) (r_Header r ''X-Forwarded-For'') (gs_limiter st) = (l, x)"
    by (metis prod.exhaust)
  show ?thesis
    by (rule exI [of _ "st\<lparr>gs_limiter := l\<rparr>"]) (simp add: limited_def l CORSMiddleware_def split: option.split)
qed

abbreviation accepts :: "gw_request \<Rightarrow> 'b gw_state \<Rightarrow> Claims \<Rightarrow> bool" where
  "accepts r st c \<equiv> snd (AuthMiddleware (ac_ValidateToken (g_authClient G)) (is_public G) (g_now G) (r_Path r)
     (r_Header r ''Authorization'') (gs_claims st, gs_back st)) = Inr (Some c)"

lemma request_steps:
  assumes "buildGatewayRouter px resolves G r st = (st', a)"
  shows "still st st' \<or> (\<exists>c. accepts r st c \<and> steps c st st')"
proof -
  obtain cache b x where am: "AuthMiddleware (ac_ValidateToken (g_authClient G)) (is_public G) (g_now G) (r_Path r)
      (r_Header r ''Authorization'') (gs_claims st, gs_back st) = ((cache, b), x)" by (metis prod.exhaust)
  have b: "quiet (gs_back st) b"
  proof -
    have "b = gs_back st \<or> (\<exists>t. b = fst (ac_ValidateToken (g_authClient G) t (gs_back st)))"
      using am by (auto simp: AuthMiddleware_def Let_def split: if_splits sum.splits option.splits prod.splits) (metis fst_conv)+
    then show ?thesis using quiet_refl validate_quiet by auto
  qed
  let ?s = "st\<lparr>gs_claims := cache, gs_back := b\<rparr>"
  have s: "still st ?s" using b by (simp add: still_def)
  show ?thesis
  proof (cases x)
    case (Inl answer)
    then show ?thesis using assms am s by (auto simp: buildGatewayRouter_def authenticated_def)
  next
    case (Inr cl)
    let ?mux = "ServeMux (registerGatewayRoutes G resolves)"
    have st': "st' = fst (limited px G (CORSMiddleware ?mux) r cl ?s)"
      using assms am Inr by (simp add: buildGatewayRouter_def authenticated_def)
    obtain s1 where s1: "gs_back s1 = gs_back ?s" "st' = s1 \<or> st' = fst (?mux r cl s1)"
      using limited_CORS [of ?s px ?mux r cl] st' by blast
    have "still st s1" using s s1(1) by (simp add: still_def)
    show ?thesis
    proof (cases cl)
      case None
      then have "is_public G (r_Path r) \<or> public_prefix (r_Path r)"
        using am Inr by (auto simp: AuthMiddleware_def Let_def split: if_splits sum.splits option.splits prod.splits)
      from ServeMux_public [OF this, of s1] show ?thesis using s1(2) \<open>still st s1\<close> still_trans None by blast
    next
      case (Some c)
      have "steps c st st'"
        using s1(2) still_steps [OF \<open>still st s1\<close>] steps_trans [OF still_steps [OF \<open>still st s1\<close>] ServeMux_steps] Some by blast
      then show ?thesis using am Inr Some by auto
    qed
  qed
qed

end

end
