(* ===== verification/GatewayMoney.thy ===== *)
theory GatewayMoney
  imports GatewayParts WalletService
begin

text \<open>
  The gateway in front of the wallet service. The clients of both regions are the modelled
  handlers on one shared database, and whatever the remaining services do happens beside it.
  A request can then lower a balance only under accepted claims that the wallet accepts.
\<close>

subsection \<open>The wallet service as a client\<close>

text \<open>\<open>bk_cache\<close> holds the balance cache of the primary (\<open>True\<close>) and of the standby region, \<open>bk_rest\<close> the
  state of the services other than the wallet service.\<close>

record ('l2, 'o) backend =
  bk_db :: wallet_db
  bk_cache :: "bool \<Rightarrow> 'l2 BalanceCache option"
  bk_rest :: 'o

text \<open>A plain error reaches the client with the code \<open>Unknown\<close>; a panic ends the process, and the
  client loses its connection; a missing answer cannot be encoded.\<close>

definition grpc_error :: "goerr \<Rightarrow> goerr" where
  "grpc_error e = (case e of
     StatusErr c m \<Rightarrow> StatusErr c m | PlainErr m \<Rightarrow> StatusErr Unknown m
   | NilDereference \<Rightarrow> StatusErr Unavailable (lit ''error reading from server: EOF''))"

definition over_grpc :: "'r grpc \<Rightarrow> goerr + 'r" where
  "over_grpc answer =
     (case answer of
        (_, Some err) \<Rightarrow> Inl (grpc_error err)
      | (Some r, None) \<Rightarrow> Inr r
      | (None, None) \<Rightarrow> Inl (StatusErr Internal (lit ''grpc: error while marshaling: proto: Marshal called with nil'')))"

definition in_region ::
    "bool \<Rightarrow> ('l2 wallet_state \<Rightarrow> 'l2 wallet_state \<times> 'r grpc) \<Rightarrow> (('l2, 'o) backend, 'r) rpc" where
  "in_region primary handler b =
     (case handler \<lparr>st_db = bk_db b, st_cache = bk_cache b primary\<rparr> of
        (st, answer) \<Rightarrow> (b\<lparr>bk_db := st_db st, bk_cache := (bk_cache b)(primary := st_cache st)\<rparr>, over_grpc answer))"

text \<open>The opening balance is an \<open>int64\<close> on the wire.\<close>

definition wallet_service ::
    "bool \<Rightarrow> 'l2 wallet_env \<Rightarrow> (wallet_db, transferExecutionState) txn_runner
       \<Rightarrow> (wallet_db, string) txn_runner \<Rightarrow> ('l2, 'o) backend wallet_client" where
  "wallet_service primary E WT WT' =
     \<lparr>wc_CreateWallet = (\<lambda>md req. in_region primary
         (CreateWallet E md (Some (req\<lparr>cw_InitialBalance := wrap64 (cw_InitialBalance req)\<rparr>)))),
      wc_GetBalance = (\<lambda>md i. in_region primary (GetBalance E md (Some i))),
      wc_TransferFunds = (\<lambda>md req. in_region primary (TransferFunds E WT md (Some req))),
      wc_ExchangeCurrency = (\<lambda>md req. in_region primary (ExchangeCurrency E WT' md (Some req))),
      wc_DepositFunds = (\<lambda>md req. in_region primary (DepositFunds E WT' md (Some req))),
      wc_WithdrawFunds = (\<lambda>md req. in_region primary (WithdrawFunds E WT' md (Some req))),
      wc_UpdateWalletKYC = (\<lambda>md req. in_region primary (\<lambda>st. apsnd (\<lambda>r. (Some r, None)) (UpdateWalletKYC E (Some req) st))),
      wc_GetWalletLimits = (\<lambda>md i b. (b, map_sum grpc_error id (GetWalletLimits E md (Some i) (bk_db b)))),
      wc_HealthCheck = (\<lambda>md b. (b, Inr (HealthCheck (e_srv E))))\<rparr>"

subsection \<open>The gateway on top\<close>

text \<open>\<open>G0\<close> is a gateway of arbitrary other services.\<close>

definition on_rest :: "('o \<Rightarrow> 'o \<times> 'x) \<Rightarrow> ('l2, 'o) backend \<Rightarrow> ('l2, 'o) backend \<times> 'x" where
  "on_rest f b = (case f (bk_rest b) of (rest, x) \<Rightarrow> (b\<lparr>bk_rest := rest\<rparr>, x))"

definition rest_auth :: "'o auth_client \<Rightarrow> ('l2, 'o) backend auth_client" where
  "rest_auth c =
     \<lparr>ac_ValidateToken = (\<lambda>t. on_rest (ac_ValidateToken c t)), ac_IssueToken = (\<lambda>t. on_rest (ac_IssueToken c t)),
      ac_RefreshToken = (\<lambda>t. on_rest (ac_RefreshToken c t)), ac_RevokeToken = (\<lambda>t. on_rest (ac_RevokeToken c t))\<rparr>"

definition rest_fx :: "'o fx_rpcs \<Rightarrow> ('l2, 'o) backend fx_rpcs" where
  "rest_fx c =
     \<lparr>fc_GetExchangeRate = (\<lambda>q. on_rest (fc_GetExchangeRate c q)), fc_ListExchangeRates = (\<lambda>q. on_rest (fc_ListExchangeRates c q)),
      fc_CreateQuote = (\<lambda>q. on_rest (fc_CreateQuote c q)), fc_GetQuote = (\<lambda>q. on_rest (fc_GetQuote c q)),
      fc_ConvertCurrency = (\<lambda>q. on_rest (fc_ConvertCurrency c q)), fc_UpdateExchangeRate = (\<lambda>q. on_rest (fc_UpdateExchangeRate c q))\<rparr>"

definition platform ::
    "'l2 wallet_env \<Rightarrow> 'l2 wallet_env \<Rightarrow> (wallet_db, transferExecutionState) txn_runner
       \<Rightarrow> (wallet_db, string) txn_runner \<Rightarrow> 'o Gateway \<Rightarrow> ('l2, 'o) backend Gateway" where
  "platform E1 E2 WT WT' G0 =
     \<lparr>g_coordinator = map_option (\<lambda>(get, put). (on_rest get, \<lambda>t. on_rest (put t))) (g_coordinator G0),
      g_primaryClient = wallet_service True E1 WT WT', g_standbyClient = wallet_service False E2 WT WT',
      g_ledgerClient = (\<lambda>md q. on_rest (g_ledgerClient G0 md q)), g_authClient = rest_auth (g_authClient G0),
      g_fxClient = map_option rest_fx (g_fxClient G0), g_ledgerMgmtURL = g_ledgerMgmtURL G0,
      g_http = (\<lambda>q. on_rest (g_http G0 q)), g_webhooks = g_webhooks G0, g_getenv = g_getenv G0, g_now = g_now G0\<rparr>"

subsection \<open>Who may lower a balance\<close>

definition spender :: "Claims \<Rightarrow> WalletModel \<Rightarrow> bool" where
  "spender c w \<longleftrightarrow>
     (let caller = callerFromContext (withOutgoingAuthContext (Some c) [])
      in c_UserID caller = [] \<or> IsAdmin caller \<or> owns_by_name (ToLower (c_UserID caller)) (ToLower (w_ID w))
         \<or> w_OwnerID w \<noteq> [] \<and> EqualFold (w_OwnerID w) (c_UserID caller))"

definition same_wallet :: "WalletModel \<Rightarrow> WalletModel \<Rightarrow> bool" where
  "same_wallet w w' \<longleftrightarrow> w_ID w' = w_ID w \<and> w_OwnerID w' = w_OwnerID w"

lemma spender_same: "same_wallet w w' \<Longrightarrow> spender c w' = spender c w"
  by (simp add: spender_def same_wallet_def)

lemma spender_may_access:
  assumes "may_access md i ws" and "identified c md" and "distinct (map w_ID ws)" and "k < length ws" and "w_ID (ws ! k) = i"
  shows "spender c (ws ! k)"
proof -
  have "w = ws ! k" if "w \<in> set ws" "w_ID w = i" for w using that assms(3-5) distinct_ids_eq nth_mem by metis
  then show ?thesis using assms(1,2,5) unfolding may_access_def spender_def identified_def Let_def by metis
qed

text \<open>No wallet loses money unless \<open>may\<close> allows it, wallets are not lost, and keep their owner.\<close>

definition spent_by :: "(WalletModel \<Rightarrow> bool) \<Rightarrow> WalletModel list \<Rightarrow> WalletModel list \<Rightarrow> bool" where
  "spent_by may ws ws' \<longleftrightarrow>
     wallets_ok ws' \<and> length ws \<le> length ws'
     \<and> (\<forall>k < length ws. same_wallet (ws ! k) (ws' ! k)
          \<and> (\<forall>cur. getz (w_Balances (ws' ! k)) cur < getz (w_Balances (ws ! k)) cur \<longrightarrow> may (ws ! k)))"

lemma spent_by_refl: "wallets_ok ws \<Longrightarrow> spent_by may ws ws"
  by (simp add: spent_by_def same_wallet_def)

lemma spent_byD:
  assumes "spent_by may ws ws'" and "k < length ws"
  shows "k < length ws'" and "same_wallet (ws ! k) (ws' ! k)"
    and "getz (w_Balances (ws' ! k)) cur < getz (w_Balances (ws ! k)) cur \<Longrightarrow> may (ws ! k)"
  using assms by (auto simp: spent_by_def)

lemma spent_by_trans:
  assumes "spent_by (spender c) ws1 ws2" and "spent_by (spender c) ws2 ws3"
  shows "spent_by (spender c) ws1 ws3"
  unfolding spent_by_def
proof (intro conjI allI impI)
  fix k cur assume k: "k < length ws1"
  note a = spent_byD [OF assms(1) k] and b = spent_byD [OF assms(2) spent_byD(1) [OF assms(1) k]]
  show "same_wallet (ws1 ! k) (ws3 ! k)" using a(2) b(2) by (simp add: same_wallet_def)
  assume "getz (w_Balances (ws3 ! k)) cur < getz (w_Balances (ws1 ! k)) cur"
  then show "spender c (ws1 ! k)" using a(3) b(3) spender_same [OF a(2)] by (metis linorder_not_less order_less_le_trans)
qed (use assms in \<open>auto simp: spent_by_def\<close>)

lemma spent_by_mono: "spent_by may ws ws' \<Longrightarrow> (\<And>w. may w \<Longrightarrow> may' w) \<Longrightarrow> spent_by may' ws ws'"
  unfolding spent_by_def by blast

lemma spent_by_append: "wallets_ok (ws @ [w]) \<Longrightarrow> spent_by may ws (ws @ [w])"
  by (auto simp: spent_by_def same_wallet_def nth_append)

lemma spent_by_update:
  assumes "wallets_ok (ws[i := w])" and "i < length ws" and "same_wallet (ws ! i) w"
    and "\<And>cur. getz (w_Balances w) cur < getz (w_Balances (ws ! i)) cur \<Longrightarrow> may (ws ! i)"
  shows "spent_by may ws (ws[i := w])"
  using assms by (auto simp: spent_by_def same_wallet_def nth_list_update)

lemma applied_spent_by:
  assumes "applied now walletID pots ws ws'" and "wallets_ok ws"
    and "\<And>k. k < length ws \<Longrightarrow> w_ID (ws ! k) = walletID \<Longrightarrow> may (ws ! k)"
  shows "spent_by may ws ws'"
proof -
  from assms(1) obtain i b w where a: "i < length ws" "w_ID (ws ! i) = walletID" "inc_wallet pots b now (ws ! i) = Some w"
    "ws' = ws[i := w]" by (auto simp: applied_def)
  show ?thesis
    using applied_wallets_ok [OF assms(1,2)] assms(3) a(1,2) inc_wallet_Some(3,7) [OF a(3)]
    unfolding a(4) by (intro spent_by_update) (simp_all add: same_wallet_def)
qed

lemma op_outcome_spent_by:
  assumes "op_outcome E key walletID pots task usage st st' answer" and "wallets_ok (d_wallets (st_db st))" and "identified c md"
    and "answer \<noteq> None \<Longrightarrow> may_access md walletID (d_wallets (st_db st))"
  shows "spent_by (spender c) (d_wallets (st_db st)) (d_wallets (st_db st'))"
proof (cases answer)
  case None
  then show ?thesis using assms(1) by (simp add: op_outcome_def spent_by_refl [OF assms(2)])
next
  case (Some txn)
  have "distinct (map w_ID (d_wallets (st_db st)))" using assms(2) by (simp add: wallets_ok_def)
  from spender_may_access [OF _ assms(3) this] have "spender c (d_wallets (st_db st) ! k)"
    if "k < length (d_wallets (st_db st))" "w_ID (d_wallets (st_db st) ! k) = walletID" for k
    using that assms(4) Some by blast
  from applied_spent_by [where may = "spender c", OF _ assms(2) this] show ?thesis
    using assms(1) Some by (auto simp: op_outcome_def op_committed_def op_replayed_def finish_op_keeps spent_by_refl [OF assms(2)])
qed

lemma moved_spent_by:
  assumes "moved now src scur units dst dcur dunits ws ws'" and "wallets_ok ws" and "0 \<le> units" and "0 \<le> dunits"
    and "\<And>k. k < length ws \<Longrightarrow> w_ID (ws ! k) = src \<Longrightarrow> may (ws ! k)"
  shows "spent_by may ws ws'"
proof -
  from assms(1) obtain i j a b where m: "i < length ws" "j < length ws" "i \<noteq> j" "ws' = ws[i := a, j := b]" "w_ID (ws ! i) = src"
    "inc_wallet [(scur, - units)] (if scur = w_Currency (ws ! i) then Some (- units) else None) now (ws ! i) = Some a"
    "inc_wallet [(dcur, dunits)] (if dcur = w_Currency (ws ! j) then Some dunits else None) now (ws ! j) = Some b"
    by (auto simp: moved_def)
  note [simp] = inc_wallet_Some(3,7) [OF m(6)] inc_wallet_Some(3,7) [OF m(7)]
  have "getz (w_Balances (ws ! j)) cur \<le> getz (w_Balances b) cur" for cur
    using inc_wallet_Some(1) [OF m(7), of cur] assms(4) by (simp add: net_inc_single)
  then show ?thesis
    using m(1-5) assms(5) moved_wallets_ok [OF assms(1-4)]
    by (auto simp: spent_by_def same_wallet_def nth_list_update not_less [symmetric])
qed

subsection \<open>Every handler of the wallet service\<close>

context wallet_store
begin

lemma transfer_spent_by:
  assumes "transaction_runner WT" and "e_drv E = drv" and "wallets_ok (d_wallets (st_db st))" and "identified c md"
    and "TransferFunds E WT md (Some req) st = (st', resp)"
  shows "spent_by (spender c) (d_wallets (st_db st)) (d_wallets (st_db st'))"
  using assms(1-3,5)
proof (cases rule: TransferFunds_result)
  case (committed q)
  then have q: "validateTransferRequest E (Some req) (st_db st) = (None, None)" "transfer_committed E req st st' resp" by simp_all
  obtain x where x: "moved (e_now E) (tf_SourceWalletId req) (NormalizeCurrency (m_Currency (amount_of req)))
      (m_Units (amount_of req)) (tf_DestinationWalletId req) (NormalizeCurrency (credit_currency req x))
      (credit_units req x) (d_wallets (st_db st)) (d_wallets (st_db st'))"
    "fst resp = Some (transfer_response (e_srv E) x)" "x_txnStatus x = SUCCESS"
    using committed_task [OF q(2) assms(2)] by metis
  note pos = validate_accepts(3) [OF q(1)]
  have "may_access md (tf_SourceWalletId req) (d_wallets (st_db st))"
    using transfer_access [of E WT md req st st' "transfer_response (e_srv E) x" "snd resp"] assms(2,5) x(2,3)
    by (cases resp) (simp add: transfer_response_def)
  from spender_may_access [OF this assms(4)] show ?thesis
    using moved_spent_by [OF x(1) assms(3) pos credit_units_nonneg [OF pos]] assms(3) by (auto simp: wallets_ok_def)
qed (simp add: spent_by_refl assms(3))

lemma deposit_access:
  assumes "DepositFunds E WT ctx (Some req) st = (st', Some r, e)" and "e_drv E = drv"
  shows "may_access ctx (funds_wallet req) (d_wallets (st_db st))"
proof (cases "validate_funds E ctx (Some req) (st_db st)")
  case (Inr p)
  obtain key walletID amt cur rail q where "p = (key, walletID, amt, cur, rail, q)" by (metis prod_cases6)
  from validate_funds_Inr [OF Inr [unfolded this]] show ?thesis
    using access_granted [of "e_srv E" ctx] assms(2) by simp
qed (use assms(1) in \<open>simp add: DepositFunds_def\<close>)

lemma funds_spent_by:
  assumes "transaction_runner WT" and "e_drv E = drv" and "wallets_ok (d_wallets (st_db st))" and "identified c md"
  shows "DepositFunds E WT md (Some req) st = (st', resp) \<Longrightarrow> spent_by (spender c) (d_wallets (st_db st)) (d_wallets (st_db st'))"
    and "WithdrawFunds E WT md (Some req) st = (st', resp) \<Longrightarrow> spent_by (spender c) (d_wallets (st_db st)) (d_wallets (st_db st'))"
proof -
  have some: thesis if "funds_answer resp \<noteq> None" and "\<And>r e. resp = (Some r, e) \<Longrightarrow> thesis" for resp thesis
    using that by (cases resp) (auto simp: funds_answer_def split: option.splits)
  show "spent_by (spender c) (d_wallets (st_db st)) (d_wallets (st_db st'))" if d: "DepositFunds E WT md (Some req) st = (st', resp)"
    by (rule op_outcome_spent_by [OF DepositFunds_outcome [OF assms(1-3) d] assms(3,4)], erule some)
      (use deposit_access [OF _ assms(2)] d in simp)
  show "spent_by (spender c) (d_wallets (st_db st)) (d_wallets (st_db st'))" if w: "WithdrawFunds E WT md (Some req) st = (st', resp)"
    by (rule op_outcome_spent_by [OF WithdrawFunds_outcome [OF assms(1-3) w] assms(3,4)], erule some)
      (use withdraw_access [OF _ assms(2)] w in simp)
qed

lemma exchange_spent_by:
  assumes "transaction_runner WT" and "e_drv E = drv" and "wallets_ok (d_wallets (st_db st))" and "identified c md"
    and "ExchangeCurrency E WT md (Some req) st = (st', resp)"
  shows "spent_by (spender c) (d_wallets (st_db st)) (d_wallets (st_db st'))"
proof (rule op_outcome_spent_by [OF ExchangeCurrency_outcome [OF assms(1-3,5)] assms(3,4)])
  assume "exchange_answer resp \<noteq> None"
  then obtain r e where "resp = (Some r, e)" by (cases resp) (auto simp: exchange_answer_def split: option.splits)
  then show "may_access md (exchange_wallet req) (d_wallets (st_db st))" using exchange_access [OF _ assms(2)] assms(5) by simp
qed

lemma create_spent_by:
  assumes "e_drv E = drv" and "wallets_ok (d_wallets (st_db st))" and "fits64 (cw_InitialBalance req)"
    and "CreateWallet E md (Some req) st = (st', resp)"
  shows "spent_by may (d_wallets (st_db st)) (d_wallets (st_db st'))"
  using assms(4,1)
proof (cases rule: CreateWallet_cases)
  case (created w r)
  have "create_currency req \<noteq> []" using valid_currency_nonempty created(2) by (simp add: create_currency_def)
  then have "wallets_ok (d_wallets (st_db st) @ [w])"
    using assms(2,3) created by (intro wallets_ok_append new_wallet_ok [of w "create_currency req" "cw_InitialBalance req"]) simp_all
  then show ?thesis using created(10) by (simp add: spent_by_append invalidate_cache_def)
qed (simp add: spent_by_refl assms(2))

lemma kyc_spent_by:
  assumes "e_drv E = drv" and "wallets_ok (d_wallets (st_db st))" and "UpdateWalletKYC E req st = (st', resp)"
  shows "spent_by may (d_wallets (st_db st)) (d_wallets (st_db st'))"
  using assms(1,3)
proof (cases rule: kyc_cases)
  case (changed k tier t)
  let ?w = "(d_wallets (st_db st) ! k)\<lparr>w_KYCTier := tier, w_UpdatedAt := t\<rparr>"
  have "wallets_ok ((d_wallets (st_db st))[k := ?w])" by (rule wallets_ok_fields [OF assms(2) changed(1)]) simp_all
  then show ?thesis using changed spent_by_update [of "d_wallets (st_db st)" k ?w may] by (simp add: same_wallet_def)
qed (simp add: spent_by_refl assms(2))

end

subsection \<open>The interface discharged\<close>

locale wallet_platform = wallet_store drv for drv +
  fixes WT :: "(wallet_db, transferExecutionState) txn_runner" and WT' :: "(wallet_db, string) txn_runner"
    and E1 E2 :: "'l2 wallet_env" and G0 :: "'o Gateway"
  assumes runners: "transaction_runner WT" "transaction_runner WT'"
    and drivers: "e_drv E1 = drv" "e_drv E2 = drv"
begin

abbreviation unmoved :: "('l2, 'o) backend \<Rightarrow> ('l2, 'o) backend \<Rightarrow> bool" where
  "unmoved b b' \<equiv> bk_db b' = bk_db b"

definition spends :: "Claims \<Rightarrow> ('l2, 'o) backend \<Rightarrow> ('l2, 'o) backend \<Rightarrow> bool" where
  "spends c b b' \<longleftrightarrow> (wallets_ok (d_wallets (bk_db b)) \<longrightarrow> spent_by (spender c) (d_wallets (bk_db b)) (d_wallets (bk_db b')))"

lemma spends_trans: "spends c b1 b2 \<Longrightarrow> spends c b2 b3 \<Longrightarrow> spends c b1 b3"
  unfolding spends_def using spent_by_trans by (metis spent_by_def)

lemma unmoved_spends: "unmoved b b' \<Longrightarrow> spends c b b'"
  by (simp add: spends_def spent_by_refl)

lemma on_rest_unmoved [simp]: "bk_db (fst (on_rest f b)) = bk_db b"
  by (simp add: on_rest_def split: prod.split)

lemma in_region_spends:
  assumes "\<And>st st' resp. wallets_ok (d_wallets (st_db st)) \<Longrightarrow> handler st = (st', resp)
    \<Longrightarrow> spent_by (spender c) (d_wallets (st_db st)) (d_wallets (st_db st'))"
  shows "spends c b (fst (in_region primary handler b))"
  using assms [of "\<lparr>st_db = bk_db b, st_cache = bk_cache b primary\<rparr>"] by (simp add: spends_def in_region_def split: prod.split)

lemma wallet_service_spends:
  assumes "e_drv E = drv" and "identified c md"
  shows "spends c b (fst (wc_CreateWallet (wallet_service primary E WT WT') md w1 b))"
    and "spends c b (fst (wc_GetBalance (wallet_service primary E WT WT') md w2 b))"
    and "spends c b (fst (wc_TransferFunds (wallet_service primary E WT WT') md w3 b))"
    and "spends c b (fst (wc_ExchangeCurrency (wallet_service primary E WT WT') md w4 b))"
    and "spends c b (fst (wc_DepositFunds (wallet_service primary E WT WT') md w5 b))"
    and "spends c b (fst (wc_WithdrawFunds (wallet_service primary E WT WT') md w5 b))"
    and "spends c b (fst (wc_UpdateWalletKYC (wallet_service primary E WT WT') md w6 b))"
    and "spends c b (fst (wc_GetWalletLimits (wallet_service primary E WT WT') md w7 b))"
proof -
  show "spends c b (fst (wc_CreateWallet (wallet_service primary E WT WT') md w1 b))"
    unfolding wallet_service_def wallet_client.select_convs
    by (rule in_region_spends, rule create_spent_by [OF assms(1)]) simp_all
  show "spends c b (fst (wc_GetBalance (wallet_service primary E WT WT') md w2 b))"
    unfolding wallet_service_def wallet_client.select_convs
    by (rule in_region_spends) (simp add: GetBalance_db spent_by_refl)
  show "spends c b (fst (wc_TransferFunds (wallet_service primary E WT WT') md w3 b))"
    using transfer_spent_by [OF runners(1) assms(1) _ assms(2)] by (simp add: wallet_service_def in_region_spends)
  show "spends c b (fst (wc_ExchangeCurrency (wallet_service primary E WT WT') md w4 b))"
    using exchange_spent_by [OF runners(2) assms(1) _ assms(2)] by (simp add: wallet_service_def in_region_spends)
  show "spends c b (fst (wc_DepositFunds (wallet_service primary E WT WT') md w5 b))"
    using funds_spent_by(1) [OF runners(2) assms(1) _ assms(2)] by (simp add: wallet_service_def in_region_spends)
  show "spends c b (fst (wc_WithdrawFunds (wallet_service primary E WT WT') md w5 b))"
    using funds_spent_by(2) [OF runners(2) assms(1) _ assms(2)] by (simp add: wallet_service_def in_region_spends)
  have "spends c b (fst (in_region primary (\<lambda>st. apsnd (\<lambda>r. (Some r, None)) (UpdateWalletKYC E (Some w6) st)) b))"
    by (rule in_region_spends) (auto intro: kyc_spent_by [OF assms(1)] simp: apsnd_def map_prod_def split: prod.splits)
  then show "spends c b (fst (wc_UpdateWalletKYC (wallet_service primary E WT WT') md w6 b))" by (simp add: wallet_service_def)
  show "spends c b (fst (wc_GetWalletLimits (wallet_service primary E WT WT') md w7 b))"
    by (simp add: wallet_service_def unmoved_spends)
qed

lemma other_calls_unmoved:
  "unmoved b (fst (ac_ValidateToken (g_authClient (platform E1 E2 WT WT' G0)) t b))"
  "unmoved b (fst (ac_IssueToken (g_authClient (platform E1 E2 WT WT' G0)) a1 b))"
  "unmoved b (fst (ac_RefreshToken (g_authClient (platform E1 E2 WT WT' G0)) t b))"
  "unmoved b (fst (ac_RevokeToken (g_authClient (platform E1 E2 WT WT' G0)) a2 b))"
  "unmoved b (fst (g_ledgerClient (platform E1 E2 WT WT' G0) md l1 b))"
  "unmoved b (fst (g_http (platform E1 E2 WT WT' G0) h1 b))"
  by (simp_all add: platform_def rest_auth_def)

end

sublocale wallet_platform \<subseteq> parts: gateway_parts "platform E1 E2 WT WT' G0" unmoved spends
proof
  fix client :: "('l2, 'o) backend wallet_client" and c md and b :: "('l2, 'o) backend"
  assume client: "client \<in> {g_primaryClient (platform E1 E2 WT WT' G0), g_standbyClient (platform E1 E2 WT WT' G0)}"
  then obtain primary E where c: "client = wallet_service primary E WT WT'" and E: "e_drv E = drv"
    using drivers by (auto simp: platform_def)
  show "unmoved b (fst (wc_HealthCheck client md b))" by (simp add: c wallet_service_def)
  assume "identified c md"
  note w = wallet_service_spends [OF E this]
  show "spends c b (fst (wc_CreateWallet client md w1 b))" for w1 unfolding c by (rule w)
  show "spends c b (fst (wc_GetBalance client md w2 b))" for w2 unfolding c by (rule w)
  show "spends c b (fst (wc_TransferFunds client md w3 b))" for w3 unfolding c by (rule w)
  show "spends c b (fst (wc_ExchangeCurrency client md w4 b))" for w4 unfolding c by (rule w)
  show "spends c b (fst (wc_DepositFunds client md w5 b))" for w5 unfolding c by (rule w)
  show "spends c b (fst (wc_WithdrawFunds client md w5 b))" for w5 unfolding c by (rule w)
  show "spends c b (fst (wc_UpdateWalletKYC client md w6 b))" for w6 unfolding c by (rule w)
  show "spends c b (fst (wc_GetWalletLimits client md w7 b))" for w7 unfolding c by (rule w)
qed (auto simp: platform_def rest_auth_def rest_fx_def spends_trans unmoved_spends intro: spends_trans)

interpretation mem_platform: wallet_platform mem_driver run_once run_once sample_env sample_env G0 for G0
  by unfold_locales (simp_all add: once.transaction_runner_axioms sample_env_drv)

subsection \<open>The property\<close>

definition admitted :: "'b Gateway \<Rightarrow> gw_request \<Rightarrow> 'b gw_state \<Rightarrow> Claims \<Rightarrow> bool" where
  "admitted G r st c \<longleftrightarrow>
     snd (AuthMiddleware (ac_ValidateToken (g_authClient G)) (is_public G) (g_now G) (r_Path r) (r_Header r ''Authorization'')
            (gs_claims st, gs_back st)) = Inr (Some c)"

abbreviation wallets_behind :: "('l2, 'o) backend gw_state \<Rightarrow> WalletModel list" where
  "wallets_behind st \<equiv> d_wallets (bk_db (gs_back st))"

context wallet_platform
begin

lemma request_spends:
  assumes "buildGatewayRouter px resolves (platform E1 E2 WT WT' G0) r st = (st', answer)" and "wallets_ok (wallets_behind st)"
  shows "spent_by (\<lambda>w. \<exists>c. admitted (platform E1 E2 WT WT' G0) r st c \<and> spender c w) (wallets_behind st) (wallets_behind st')"
  using parts.request_steps [OF assms(1)]
proof (elim disjE exE conjE)
  assume "parts.still st st'"
  then show ?thesis using spent_by_refl [OF assms(2)] by (simp add: parts.still_def)
next
  fix c assume c: "parts.accepts r st c" "parts.steps c st st'"
  from c(2) have "spent_by (spender c) (wallets_behind st) (wallets_behind st')"
    using assms(2) by (simp add: parts.steps_def spends_def)
  then show ?thesis by (rule spent_by_mono) (use c(1) in \<open>auto simp: admitted_def\<close>)
qed

end

text \<open>
  C3. Whatever is sent to the gateway, and whatever the auth, FX and ledger services, the
  coordinator and the environment do: wallets stay sound, none disappears or changes its
  owner, and a pot gets smaller only if authentication admitted the request with claims that
  the wallet accepts: an administrator's, those of the owner by name or of the stored owner,
  or claims with a blank subject.
\<close>

theorem gateway_protects_balances:
  assumes "wallet_store drv" and "transaction_runner WT" and "transaction_runner WT'"
    and "e_drv E1 = drv" and "e_drv E2 = drv" and "wallets_ok (wallets_behind st)"
    and "buildGatewayRouter px resolves (platform E1 E2 WT WT' G0) r st = (st', answer)"
  shows "spent_by (\<lambda>w. \<exists>c. admitted (platform E1 E2 WT WT' G0) r st c \<and> spender c w) (wallets_behind st) (wallets_behind st')"
  using wallet_platform.request_spends [OF wallet_platform.intro [OF assms(1) wallet_platform_axioms.intro] assms(7,6)] assms(2-5)
  by blast

definition clerk :: "unit auth_client" where
  "clerk =
     \<lparr>ac_ValidateToken = (\<lambda>t b. (b, Inr \<lparr>vt_Valid = True, vt_Subject = t, vt_Roles = [''user''], vt_Scopes = [],
        vt_ExpiresAt = 0, vt_Error = TOKEN_OK\<rparr>)),
      ac_IssueToken = (\<lambda>t b. (b, Inl NilDereference)), ac_RefreshToken = (\<lambda>t b. (b, Inl NilDereference)),
      ac_RevokeToken = (\<lambda>t b. (b, Inl NilDereference))\<rparr>"

definition no_wallets :: "unit wallet_client" where
  "no_wallets =
     \<lparr>wc_CreateWallet = (\<lambda>md q b. (b, Inl NilDereference)), wc_GetBalance = (\<lambda>md q b. (b, Inl NilDereference)),
      wc_TransferFunds = (\<lambda>md q b. (b, Inl NilDereference)), wc_ExchangeCurrency = (\<lambda>md q b. (b, Inl NilDereference)),
      wc_DepositFunds = (\<lambda>md q b. (b, Inl NilDereference)), wc_WithdrawFunds = (\<lambda>md q b. (b, Inl NilDereference)),
      wc_UpdateWalletKYC = (\<lambda>md q b. (b, Inl NilDereference)), wc_GetWalletLimits = (\<lambda>md q b. (b, Inl NilDereference)),
      wc_HealthCheck = (\<lambda>md b. (b, Inl NilDereference))\<rparr>"

definition silent_webhooks :: webhook_env where
  "silent_webhooks =
     \<lparr>we_subs = None, we_deliveries = None, we_now = 0, we_oid = (\<lambda>n. []), we_eventID = [], we_secret = Inr [],
      we_rand = (\<lambda>n. 0), we_allowLocal = [], we_lookup = (\<lambda>h. Inr []), we_http = (\<lambda>p. Inr 200)\<rparr>"

definition other_services :: "unit Gateway" where
  "other_services =
     \<lparr>g_coordinator = None, g_primaryClient = no_wallets, g_standbyClient = no_wallets,
      g_ledgerClient = (\<lambda>md q b. (b, Inl NilDereference)), g_authClient = clerk, g_fxClient = None, g_ledgerMgmtURL = [],
      g_http = (\<lambda>q b. (b, Inl (lit []))), g_webhooks = silent_webhooks, g_getenv = (\<lambda>v. []), g_now = 1750000000000000000\<rparr>"

definition sample_gateway :: "(MemoryCache, unit) backend gw_state" where
  "sample_gateway =
     \<lparr>gs_activeTarget = ''PRIMARY'', gs_claims = newClaimsCache ''k'', gs_limiter = NewRateLimiter 100 100,
      gs_owners = NewWalletOwnershipCache 0, gs_dispatcher = None, gs_events = [],
      gs_back = \<lparr>bk_db = st_db (sample_state []), bk_cache = (\<lambda>primary. None), bk_rest = ()\<rparr>\<rparr>"

definition withdrawal_by :: "string \<Rightarrow> gw_request" where
  "withdrawal_by token =
     \<lparr>r_Method = ''POST'', r_Path = ''/api/v1/wallets/alice_1/withdraw'', r_Query = (\<lambda>k. []), r_RawQuery = [],
      r_Header = (\<lambda>h. if h = ''Authorization'' then ''Bearer '' @ token else []), r_RemoteAddr = ''192.0.2.7:4711'',
      r_Body = Inr (JObj [(''amount'', JNum ''2500''), (''currency'', JStr ''usd''), (''rail'', JStr ''card'')]), r_Fresh = ''a-1''\<rparr>"

abbreviation "sample_platform \<equiv> platform sample_env sample_env run_once run_once other_services"

definition direct :: proxy_config where
  "direct = \<lparr>px_TrustProxy = [], px_TrustedProxies = []\<rparr>"

definition answered :: "string \<Rightarrow> (MemoryCache, unit) backend gw_state \<times> gw_response" where
  "answered token = buildGatewayRouter direct (\<lambda>h. True) sample_platform (withdrawal_by token) sample_gateway"

definition user_claims :: "string \<Rightarrow> Claims" where
  "user_claims i = \<lparr>cl_Subject = i, cl_Roles = [''user''], cl_Scopes = [], cl_Issuer = [], cl_Audience = [], cl_IssuedAt = 0, cl_ExpiresAt = 0\<rparr>"

lemma sample_auth:
  assumes "ExtractBearerToken (''Bearer '' @ token) = Inr token"
  shows "AuthMiddleware (ac_ValidateToken (g_authClient sample_platform)) (is_public sample_platform) (g_now sample_platform)
       (r_Path (withdrawal_by token)) (r_Header (withdrawal_by token) ''Authorization'') (gs_claims sample_gateway, gs_back sample_gateway)
     = ((claimsCache_set (g_now sample_platform) token (user_claims token) (newClaimsCache ''k''), gs_back sample_gateway), Inr (Some (user_claims token)))"
proof -
  have "\<not> public_prefix ''/api/v1/wallets/alice_1/withdraw''" "\<not> is_public sample_platform ''/api/v1/wallets/alice_1/withdraw''"
    by code_simp+
  moreover have "claimsCache_get n token (newClaimsCache ''k'') = None" for n by (simp add: claimsCache_get_def newClaimsCache_def)
  ultimately show ?thesis
    using assms by (simp add: AuthMiddleware_def withdrawal_by_def platform_def rest_auth_def other_services_def clerk_def
        on_rest_def sample_gateway_def claims_of_response_def user_claims_def Let_def)
qed

lemma alice_served:
  "map w_Balance (wallets_behind (fst (limited direct sample_platform
     (CORSMiddleware (ServeMux (registerGatewayRoutes sample_platform (\<lambda>h. True))))
     (withdrawal_by ''alice'') (Some (user_claims ''alice'')) (sample_gateway\<lparr>gs_claims := K\<rparr>)))) = [97500, 5000]"
  by code_simp

lemma bearer_tokens: "ExtractBearerToken (''Bearer '' @ ''alice'') = Inr ''alice''"
   "ExtractBearerToken (''Bearer '' @ ''mallory'') = Inr ''mallory''" by code_simp+

lemma sample_admitted:
  "ExtractBearerToken (''Bearer '' @ token) = Inr token \<Longrightarrow> admitted sample_platform (withdrawal_by token) sample_gateway c \<Longrightarrow> c = user_claims token"
  unfolding admitted_def using sample_auth [of token] by simp

theorem gateway_protects_balances_witness:
  "map w_Balance (wallets_behind (fst (answered ''alice''))) = [97500, 5000]
   \<and> 100000 \<le> getz (w_Balances (wallets_behind (fst (answered ''mallory'')) ! 0)) ''USD''"
proof
  have "answered ''alice'' = limited direct sample_platform (CORSMiddleware (ServeMux (registerGatewayRoutes sample_platform (\<lambda>h. True))))
     (withdrawal_by ''alice'') (Some (user_claims ''alice''))
     (sample_gateway\<lparr>gs_claims := claimsCache_set (g_now sample_platform) ''alice'' (user_claims ''alice'') (newClaimsCache ''k'')\<rparr>)"
    unfolding answered_def buildGatewayRouter_def authenticated_def sample_auth [OF bearer_tokens(1)] by (simp add: sample_gateway_def)
  then show "map w_Balance (wallets_behind (fst (answered ''alice''))) = [97500, 5000]" by (simp only: alice_served)
  have st: "wallets_behind sample_gateway = d_wallets (st_db (sample_state []))" by (simp add: sample_gateway_def)
  have no: "\<not> spender (user_claims ''mallory'') (d_wallets (st_db (sample_state [])) ! 0)"
    "0 < length (d_wallets (st_db (sample_state [])))" "getz (w_Balances (d_wallets (st_db (sample_state [])) ! 0)) ''USD'' = 100000" by code_simp+
  have "spent_by (\<lambda>w. \<exists>c. admitted sample_platform (withdrawal_by ''mallory'') sample_gateway c \<and> spender c w)
      (wallets_behind sample_gateway) (wallets_behind (fst (answered ''mallory'')))"
    by (rule gateway_protects_balances [OF sample_laws(1,2) once.transaction_runner_axioms sample_env_drv sample_env_drv,
          where px = direct and resolves = "\<lambda>h. True" and answer = "snd (answered ''mallory'')"])
      (simp_all add: st sample_ok answered_def)
  from spent_byD(3) [OF this, of 0 "''USD''"] show "100000 \<le> getz (w_Balances (wallets_behind (fst (answered ''mallory'')) ! 0)) ''USD''"
    using no sample_admitted [OF bearer_tokens(2)] unfolding st by (metis not_less)
qed

end
