(* ===== verification/AuthStore.thy ===== *)
theory AuthStore
  imports GatewaySessions
begin

text \<open>
  The stores and the token engine of the auth service (\<open>cmd/auth-service/user_store.go\<close>,
  \<open>revocation.go\<close>, \<open>token_engine.go\<close>). Users, refresh tokens and revoked tokens are collections;
  bcrypt is a parameter; RSA signatures are those of \<open>crypto/rsa\<close>. A method reads the clock
  once, in nanoseconds since 1970.
\<close>

subsection \<open>Documents\<close>

definition UserStatusActive :: string where "UserStatusActive = ''ACTIVE''"
definition UserStatusSuspended :: string where "UserStatusSuspended = ''SUSPENDED''"
definition UserStatusLocked :: string where "UserStatusLocked = ''LOCKED''"
definition maxFailedLogins :: int where "maxFailedLogins = 5"
definition DefaultLockoutDuration :: int where "DefaultLockoutDuration = 15 * 60 * Second"

record UserRecord =
  u_ID :: string
  u_Username :: string
  u_Email :: string
  u_PasswordHash :: string
  u_Roles :: "string list"
  u_Scopes :: "string list"
  u_WalletIDs :: "string list"
  u_Status :: string
  u_FailedLoginCount :: int
  u_LockedUntil :: "int option"
  u_LastLoginAt :: "int option"
  u_CreatedAt :: int
  u_UpdatedAt :: int

record RefreshTokenRecord =
  rt_ID :: string
  rt_Token :: string
  rt_Subject :: string
  rt_Roles :: "string list"
  rt_Scopes :: "string list"
  rt_IssuedAt :: int
  rt_ExpiresAt :: int
  rt_Revoked :: bool

record RevokedTokenRecord =
  rv_ID :: string
  rv_TokenID :: string
  rv_Subject :: string
  rv_Reason :: string
  rv_RevokedAt :: int
  rv_ExpiresAt :: int

text \<open>Calls of an external identity provider; the reply has its status, its text and the JSON value it holds.\<close>

datatype oidc_call = GetURL string | PostForm string "(string \<times> string) list"

record http_reply =
  hp_Status :: int
  hp_Text :: string
  hp_Body :: "gomsg + json"

text \<open>\<open>au_store\<close> and \<open>au_revStore\<close> are \<open>None\<close> without a database. \<open>au_bcrypt\<close> compares a hash with a
  password, \<open>au_hash\<close> makes a hash; \<open>au_rand\<close> are 32 random bytes. \<open>au_DeleteMany\<close> deletes what a filter
  matches. \<open>au_http\<close> is the identity provider, \<open>au_range\<close> the order in which a map's keys are visited.\<close>

record auth_env =
  au_store :: "(UserRecord collection_ops \<times> RefreshTokenRecord collection_ops) option"
  au_revStore :: "RevokedTokenRecord collection_ops option"
  au_DeleteMany :: "(RevokedTokenRecord \<Rightarrow> bool) \<Rightarrow> RevokedTokenRecord list \<Rightarrow> RevokedTokenRecord list \<times> (mongo_error + int)"
  au_bcrypt :: "string \<Rightarrow> string \<Rightarrow> bool"
  au_hash :: "string \<Rightarrow> gomsg + string"
  au_now :: int
  au_oid :: "nat \<Rightarrow> string"
  au_rand :: "gomsg + int list"
  au_http :: "oidc_call \<Rightarrow> gomsg + http_reply"
  au_range :: "string list \<Rightarrow> string list"

text \<open>Unique indexes: the name of a user, a refresh token, the identifier of a revoked token.\<close>

definition user_conflict :: "UserRecord \<Rightarrow> UserRecord \<Rightarrow> bool" where
  "user_conflict u v \<longleftrightarrow> u_ID u = u_ID v \<or> u_Username u = u_Username v"

definition refresh_conflict :: "RefreshTokenRecord \<Rightarrow> RefreshTokenRecord \<Rightarrow> bool" where
  "refresh_conflict a b \<longleftrightarrow> rt_ID a = rt_ID b \<or> rt_Token a = rt_Token b"

definition revoked_conflict :: "RevokedTokenRecord \<Rightarrow> RevokedTokenRecord \<Rightarrow> bool" where
  "revoked_conflict a b \<longleftrightarrow> rv_ID a = rv_ID b \<or> rv_TokenID a = rv_TokenID b"

subsection \<open>Users\<close>

definition db_unavailable :: gomsg where "db_unavailable = lit ''user_store: database unavailable''"

definition FindByUsername :: "auth_env \<Rightarrow> string \<Rightarrow> UserRecord list \<Rightarrow> gomsg + UserRecord" where
  "FindByUsername E username us =
     (case au_store E of
        None \<Rightarrow> Inl db_unavailable
      | Some (users, tokens) \<Rightarrow>
          (case FindOne users (\<lambda>u. u_Username u = username) None us of
             Inl err \<Rightarrow> Inl (Msg ''user_store: user not found: %w'' [ArgE (err_msg err)])
           | Inr u \<Rightarrow> Inr u))"

text \<open>An update of one user, whose result the code ignores.\<close>

definition update_user :: "auth_env \<Rightarrow> string \<Rightarrow> (UserRecord \<Rightarrow> UserRecord) \<Rightarrow> UserRecord list \<Rightarrow> UserRecord list" where
  "update_user E username f us =
     (case au_store E of
        None \<Rightarrow> us
      | Some (users, tokens) \<Rightarrow> fst (UpdateOne users (\<lambda>u. u_Username u = username) (\<lambda>u. Some (f u)) us))"

definition unlocked :: "int \<Rightarrow> UserRecord \<Rightarrow> UserRecord" where
  "unlocked now u =
     u\<lparr>u_Status := UserStatusActive, u_FailedLoginCount := 0, u_LockedUntil := None, u_UpdatedAt := now\<rparr>"

definition login_failed :: "int \<Rightarrow> int \<Rightarrow> UserRecord \<Rightarrow> UserRecord" where
  "login_failed now newCount u =
     (let u = u\<lparr>u_FailedLoginCount := newCount, u_UpdatedAt := now\<rparr>
      in if maxFailedLogins \<le> newCount
         then u\<lparr>u_Status := UserStatusLocked, u_LockedUntil := Some (now + DefaultLockoutDuration)\<rparr> else u)"

definition login_succeeded :: "int \<Rightarrow> UserRecord \<Rightarrow> UserRecord" where
  "login_succeeded now u =
     u\<lparr>u_FailedLoginCount := 0, u_LockedUntil := None, u_LastLoginAt := Some now, u_UpdatedAt := now\<rparr>"

definition check_password ::
    "auth_env \<Rightarrow> string \<Rightarrow> string \<Rightarrow> UserRecord \<Rightarrow> UserRecord list \<Rightarrow> UserRecord list \<times> (gomsg + UserRecord)" where
  "check_password E username password user us =
     (if u_Status user = UserStatusSuspended then (us, Inl (lit ''account suspended''))
      else if \<not> au_bcrypt E (u_PasswordHash user) password
      then (update_user E username (login_failed (au_now E) (u_FailedLoginCount user + 1)) us, Inl (lit ''invalid credentials''))
      else (update_user E username (login_succeeded (au_now E)) us, Inr user))"

definition UserStore_Authenticate ::
    "auth_env \<Rightarrow> string \<Rightarrow> string \<Rightarrow> UserRecord list \<Rightarrow> UserRecord list \<times> (gomsg + UserRecord)" where
  "UserStore_Authenticate E username password us =
     (if au_store E = None then (us, Inl (lit ''user store unavailable''))
      else case FindByUsername E username us of
             Inl err \<Rightarrow> (us, Inl (lit ''invalid credentials''))
           | Inr user \<Rightarrow>
               if u_Status user = UserStatusLocked
               then (case u_LockedUntil user of
                       Some t \<Rightarrow>
                         if t < au_now E
                         then check_password E username password
                                (user\<lparr>u_Status := UserStatusActive, u_FailedLoginCount := 0, u_LockedUntil := None\<rparr>)
                                (update_user E username (unlocked (au_now E)) us)
                         else (us, Inl (lit ''account locked due to too many failed attempts''))
                     | None \<Rightarrow> (us, Inl (lit ''account locked due to too many failed attempts'')))
               else check_password E username password user us)"

definition CreateUser ::
    "auth_env \<Rightarrow> string \<Rightarrow> string \<Rightarrow> string \<Rightarrow> string list \<Rightarrow> string list \<Rightarrow> UserRecord list \<Rightarrow> UserRecord list \<times> gomsg option" where
  "CreateUser E username email password roles scopes us =
     (case au_store E of
        None \<Rightarrow> (us, Some db_unavailable)
      | Some (users, tokens) \<Rightarrow>
          (case au_hash E password of
             Inl err \<Rightarrow> (us, Some (Msg ''user_store: bcrypt hash: %w'' [ArgE err]))
           | Inr hash \<Rightarrow>
               apsnd (map_option err_msg)
                 (InsertOne users
                    \<lparr>u_ID = au_oid E 0, u_Username = username, u_Email = email, u_PasswordHash = hash, u_Roles = roles,
                     u_Scopes = scopes, u_WalletIDs = [], u_Status = UserStatusActive, u_FailedLoginCount = 0,
                     u_LockedUntil = None, u_LastLoginAt = None, u_CreatedAt = au_now E, u_UpdatedAt = au_now E\<rparr> us)))"

definition OwnsWallet :: "auth_env \<Rightarrow> string \<Rightarrow> string \<Rightarrow> UserRecord list \<Rightarrow> bool \<times> mongo_error option" where
  "OwnsWallet E subject walletID us =
     (case au_store E of
        None \<Rightarrow> (True, None)
      | Some (users, tokens) \<Rightarrow>
          (case CountDocuments users (\<lambda>u. u_Username u = subject \<and> walletID \<in> set (u_WalletIDs u)) us of
             Inl err \<Rightarrow> (False, Some err)
           | Inr n \<Rightarrow> (0 < n, None)))"

definition AddWalletToUser ::
    "auth_env \<Rightarrow> string \<Rightarrow> string \<Rightarrow> UserRecord list \<Rightarrow> UserRecord list \<times> gomsg option" where
  "AddWalletToUser E username walletID us =
     (case au_store E of
        None \<Rightarrow> (us, Some db_unavailable)
      | Some (users, tokens) \<Rightarrow>
          (case UpdateOne users (\<lambda>u. u_Username u = username)
                  (\<lambda>u. Some (u\<lparr>u_WalletIDs := (if walletID \<in> set (u_WalletIDs u) then u_WalletIDs u else u_WalletIDs u @ [walletID]),
                                u_UpdatedAt := au_now E\<rparr>)) us of
             (us, Inl err) \<Rightarrow> (us, Some (err_msg err))
           | (us, Inr r) \<Rightarrow> (us, None)))"

definition DefaultScopesForRoles :: "string list \<Rightarrow> string list" where
  "DefaultScopesForRoles roles =
     (if list_ex (\<lambda>r. EqualFold r ''admin'') roles
      then [''cluster:admin'', ''ledger:audit'', ''wallet:transfer'', ''wallet:read'']
      else [''wallet:transfer'', ''wallet:read''])"

subsection \<open>Refresh tokens\<close>

definition StoreRefreshToken ::
    "auth_env \<Rightarrow> string \<Rightarrow> string \<Rightarrow> string list \<Rightarrow> string list \<Rightarrow> int \<Rightarrow> RefreshTokenRecord list
       \<Rightarrow> RefreshTokenRecord list \<times> gomsg option" where
  "StoreRefreshToken E token subject roles scopes ttl rs =
     (case au_store E of
        None \<Rightarrow> (rs, Some db_unavailable)
      | Some (users, tokens) \<Rightarrow>
          apsnd (map_option err_msg)
            (InsertOne tokens
               \<lparr>rt_ID = au_oid E 1, rt_Token = token, rt_Subject = subject, rt_Roles = roles, rt_Scopes = scopes,
                rt_IssuedAt = au_now E, rt_ExpiresAt = au_now E + ttl, rt_Revoked = False\<rparr> rs))"

definition FindRefreshToken :: "auth_env \<Rightarrow> string \<Rightarrow> RefreshTokenRecord list \<Rightarrow> gomsg + RefreshTokenRecord" where
  "FindRefreshToken E token rs =
     (case au_store E of
        None \<Rightarrow> Inl db_unavailable
      | Some (users, tokens) \<Rightarrow>
          (case FindOne tokens (\<lambda>r. rt_Token r = token \<and> \<not> rt_Revoked r \<and> au_now E < rt_ExpiresAt r) None rs of
             Inl err \<Rightarrow> Inl (Msg ''user_store: refresh token not found or expired: %w'' [ArgE (err_msg err)])
           | Inr r \<Rightarrow> Inr r))"

definition RevokeRefreshToken :: "auth_env \<Rightarrow> string \<Rightarrow> RefreshTokenRecord list \<Rightarrow> RefreshTokenRecord list \<times> gomsg option" where
  "RevokeRefreshToken E token rs =
     (case au_store E of
        None \<Rightarrow> (rs, Some db_unavailable)
      | Some (users, tokens) \<Rightarrow>
          (case UpdateOne tokens (\<lambda>r. rt_Token r = token) (\<lambda>r. Some (r\<lparr>rt_Revoked := True\<rparr>)) rs of
             (rs, Inl err) \<Rightarrow> (rs, Some (err_msg err))
           | (rs, Inr r) \<Rightarrow> (rs, None)))"

subsection \<open>Revoked tokens\<close>

text \<open>Only errors for a duplicate key mention the code 11000.\<close>

definition Revoke ::
    "auth_env \<Rightarrow> string \<Rightarrow> string \<Rightarrow> string \<Rightarrow> int \<Rightarrow> RevokedTokenRecord list \<Rightarrow> RevokedTokenRecord list \<times> gomsg option" where
  "Revoke E tokenID subject reason expiresAt vs =
     (case au_revStore E of
        None \<Rightarrow> (vs, None)
      | Some col \<Rightarrow>
          (case InsertOne col
                  \<lparr>rv_ID = au_oid E 2, rv_TokenID = tokenID, rv_Subject = subject, rv_Reason = reason,
                   rv_RevokedAt = au_now E, rv_ExpiresAt = expiresAt\<rparr> vs of
             (vs, None) \<Rightarrow> (vs, None)
           | (vs, Some err) \<Rightarrow>
               (vs, if IsDuplicateKeyError err then None
                    else Some (Msg ''revocation_store: insert failed: %w'' [ArgE (err_msg err)]))))"

definition IsRevoked :: "auth_env \<Rightarrow> string \<Rightarrow> RevokedTokenRecord list \<Rightarrow> bool \<times> gomsg option" where
  "IsRevoked E tokenID vs =
     (case au_revStore E of
        None \<Rightarrow> (False, None)
      | Some col \<Rightarrow>
          (case CountDocuments col (\<lambda>v. rv_TokenID v = tokenID) vs of
             Inl err \<Rightarrow> (False, Some (Msg ''revocation_store: check failed: %w'' [ArgE (err_msg err)]))
           | Inr n \<Rightarrow> (0 < n, None)))"

definition PurgeExpired :: "auth_env \<Rightarrow> RevokedTokenRecord list \<Rightarrow> RevokedTokenRecord list \<times> (mongo_error + int)" where
  "PurgeExpired E vs =
     (case au_revStore E of
        None \<Rightarrow> (vs, Inr 0)
      | Some col \<Rightarrow> au_DeleteMany E (\<lambda>v. rv_ExpiresAt v < au_now E) vs)"

subsection \<open>RSA signatures\<close>

text \<open>\<open>crypto/rsa\<close>: the signature is the power of a padded message. The first argument of the padding is
  the prefix that names the hash function, empty for the hash 0.\<close>

record rsa_public =
  rsa_N :: int
  rsa_E :: int

fun pow_mod :: "int \<Rightarrow> nat \<Rightarrow> int \<Rightarrow> int" where
  "pow_mod b e n =
     (if e = 0 then 1 mod n
      else let h = pow_mod (b * b mod n) (e div 2) n in if odd e then b * h mod n else h)"

declare pow_mod.simps [simp del]

fun byte_length :: "nat \<Rightarrow> nat" where
  "byte_length n = (if n = 0 then 0 else Suc (byte_length (n div 256)))"

declare byte_length.simps [simp del]

definition int_of_bytes :: "int list \<Rightarrow> int" where
  "int_of_bytes bs = foldl (\<lambda>n b. n * 256 + b) 0 bs"

definition bytes_of_int :: "nat \<Rightarrow> int \<Rightarrow> int list" where
  "bytes_of_int k n = map (\<lambda>i. n div 256 ^ (k - 1 - i) mod 256) [0..<k]"

definition sha256_prefix :: "int list" where
  "sha256_prefix = [48, 49, 48, 13, 6, 9, 96, 134, 72, 1, 101, 3, 4, 2, 1, 5, 0, 4, 32]"

definition pkcs1_padded :: "nat \<Rightarrow> int list \<Rightarrow> int list \<Rightarrow> int list" where
  "pkcs1_padded k prefix digest =
     [0, 1] @ replicate (k - 3 - length (prefix @ digest)) 255 @ [0] @ prefix @ digest"

definition rsa_key_ok :: "rsa_public \<Rightarrow> bool" where
  "rsa_key_ok pub \<longleftrightarrow> 2 ^ 1023 \<le> rsa_N pub \<and> odd (rsa_N pub) \<and> 2 \<le> rsa_E pub \<and> rsa_E pub < 2 ^ 31 \<and> odd (rsa_E pub)"

definition VerifyPKCS1v15 :: "rsa_public \<Rightarrow> int list \<Rightarrow> int list \<Rightarrow> int list \<Rightarrow> bool" where
  "VerifyPKCS1v15 pub prefix digest sig =
     (let k = byte_length (nat (rsa_N pub))
      in rsa_key_ok pub \<and> length (prefix @ digest) + 11 \<le> k \<and> length sig = k \<and> int_of_bytes sig < rsa_N pub
         \<and> bytes_of_int k (pow_mod (int_of_bytes sig) (nat (rsa_E pub)) (rsa_N pub)) = pkcs1_padded k prefix digest)"

definition SignPKCS1v15 :: "rsa_public \<Rightarrow> int \<Rightarrow> int list \<Rightarrow> int list \<Rightarrow> gomsg + int list" where
  "SignPKCS1v15 pub d prefix digest =
     (let k = byte_length (nat (rsa_N pub))
      in if \<not> rsa_key_ok pub then Inl (lit ''crypto/rsa: invalid key'')
         else if k < length (prefix @ digest) + 11 then Inl (lit ''crypto/rsa: message too long for RSA key size'')
         else let sig = bytes_of_int k (pow_mod (int_of_bytes (pkcs1_padded k prefix digest)) (nat d) (rsa_N pub))
              in if VerifyPKCS1v15 pub prefix digest sig then Inr sig else Inl (lit ''rsa: internal error''))"

subsection \<open>The token engine\<close>

text \<open>A private key is the public key with its exponent.\<close>

record TokenEngine =
  te_hmacSecret :: string
  te_privateKey :: "(rsa_public \<times> int) option"
  te_publicKey :: "rsa_public option"
  te_algorithm :: string
  te_keyID :: string

definition AlgHS256 :: string where "AlgHS256 = ''HS256''"
definition AlgRS256 :: string where "AlgRS256 = ''RS256''"

definition NewHS256Engine :: "string \<Rightarrow> TokenEngine" where
  "NewHS256Engine secret =
     \<lparr>te_hmacSecret = secret, te_privateKey = None, te_publicKey = None, te_algorithm = AlgHS256, te_keyID = []\<rparr>"

definition NewRS256Engine :: "(rsa_public \<times> int) option \<Rightarrow> rsa_public option \<Rightarrow> string \<Rightarrow> TokenEngine" where
  "NewRS256Engine privateKey publicKey keyID =
     \<lparr>te_hmacSecret = [], te_privateKey = privateKey, te_publicKey = publicKey, te_algorithm = AlgRS256, te_keyID = keyID\<rparr>"

definition rs256_header :: "string \<Rightarrow> json" where
  "rs256_header kid =
     JObj ([(''alg'', JStr AlgRS256), (''typ'', JStr ''JWT'')] @ (if kid \<noteq> [] then [(''kid'', JStr kid)] else []))"

definition signRS256 :: "TokenEngine \<Rightarrow> Claims \<Rightarrow> gomsg + string" where
  "signRS256 e claims =
     (case te_privateKey e of
        None \<Rightarrow> Inl (lit ''token_engine: RS256 private key not configured'')
      | Some (pub, d) \<Rightarrow>
          let signingInput = encode_part (rs256_header (te_keyID e)) @ ''.'' @ encode_part (claims_json claims)
          in (case SignPKCS1v15 pub d [] (Sum256 signingInput) of
                Inl err \<Rightarrow> Inl (Msg ''token_engine: RS256 sign: %w'' [ArgE err])
              | Inr sig \<Rightarrow> Inr (signingInput @ ''.'' @ RawURL_EncodeToString sig)))"

definition sign :: "TokenEngine \<Rightarrow> int \<Rightarrow> Claims \<Rightarrow> gomsg + string" where
  "sign e now claims =
     (if te_algorithm e = AlgRS256 then signRS256 e claims else GenerateToken now claims (te_hmacSecret e))"

definition IssueAccessToken :: "TokenEngine \<Rightarrow> int \<Rightarrow> Claims \<Rightarrow> gomsg + string" where
  "IssueAccessToken e now claims = sign e now (stamp_claims (15 * 60 * Second) now claims)"

definition IssueRefreshToken :: "auth_env \<Rightarrow> gomsg + string" where
  "IssueRefreshToken E =
     (case au_rand E of
        Inl err \<Rightarrow> Inl (Msg ''token_engine: failed to generate refresh token: %w'' [ArgE err])
      | Inr bs \<Rightarrow> Inr (RawURL_EncodeToString bs))"

definition verifyRS256 :: "TokenEngine \<Rightarrow> int \<Rightarrow> string \<Rightarrow> gomsg + Claims" where
  "verifyRS256 e now tokenStr =
     (case te_publicKey e of
        None \<Rightarrow> Inl (lit ''token_engine: RS256 public key not configured'')
      | Some pub \<Rightarrow>
          (case Split (CHR ''.'') tokenStr of
             [hB64, cB64, sigB64] \<Rightarrow>
               (case RawURL_DecodeString sigB64 of
                  None \<Rightarrow> Inl ErrInvalidSignature
                | Some sig \<Rightarrow>
                    if \<not> VerifyPKCS1v15 pub [] (Sum256 (hB64 @ ''.'' @ cB64)) sig then Inl ErrInvalidSignature
                    else (case decode_claims cB64 of
                            Inl err \<Rightarrow> Inl ErrInvalidClaims
                          | Inr claims \<Rightarrow> if cl_ExpiresAt claims < now div Second then Inl ErrTokenExpired else Inr claims))
           | _ \<Rightarrow> Inl ErrInvalidToken))"

definition ValidateAccessToken :: "TokenEngine \<Rightarrow> int \<Rightarrow> string \<Rightarrow> gomsg + Claims" where
  "ValidateAccessToken e now tokenStr =
     (if te_algorithm e = AlgRS256 then verifyRS256 e now tokenStr else ValidateToken now tokenStr (te_hmacSecret e))"

definition TokenFingerprint :: "string \<Rightarrow> string \<Rightarrow> string" where
  "TokenFingerprint token cacheSecret = RawURL_EncodeToString (hmac_sha256 cacheSecret token)"

lemma pow_mod_power: "0 < n \<Longrightarrow> pow_mod b e n = b ^ e mod n"
proof (induction b e n rule: pow_mod.induct)
  case (1 b e n)
  show ?case
  proof (cases "e = 0")
    case False
    have ih: "pow_mod (b * b mod n) (e div 2) n = (b * b) ^ (e div 2) mod n"
      using 1 False by (simp add: power_mod)
    have "b ^ e = b ^ (2 * (e div 2) + e mod 2)" by simp
    also have "\<dots> = (b * b) ^ (e div 2) * b ^ (e mod 2)" by (simp only: power_add power_mult power2_eq_square)
    finally have e: "b ^ e = (b * b) ^ (e div 2) * (if odd e then b else 1)" by (cases "odd e") (simp_all add: odd_iff_mod_2_eq_one)
    show ?thesis by (subst pow_mod.simps) (simp add: False ih Let_def e mod_mult_right_eq mult.commute)
  qed (simp add: pow_mod.simps)
qed

text \<open>The engine signs with the hash 0, without the prefix that the algorithm RS256 asks for: no signature
  it accepts is one that a verifier of RS256 accepts.\<close>

lemma padding_differs: "pkcs1_padded k [] d \<noteq> pkcs1_padded k sha256_prefix d"
proof
  assume "pkcs1_padded k [] d = pkcs1_padded k sha256_prefix d"
  then have "[0, 1] @ replicate (k - 3 - length d) 255 @ [0]
      = [0, 1] @ replicate (k - 3 - length (sha256_prefix @ d)) 255 @ [0] @ sha256_prefix"
    using append_same_eq [of _ d] by (simp add: pkcs1_padded_def)
  from arg_cong [OF this, of last] show False by (simp add: sha256_prefix_def)
qed

lemma RS256_signatures_differ: "VerifyPKCS1v15 pub [] d sig \<Longrightarrow> \<not> VerifyPKCS1v15 pub sha256_prefix d sig"
  using padding_differs by (auto simp: VerifyPKCS1v15_def Let_def)

end
