(* ===== verification/AuthProviders.thy ===== *)
theory AuthProviders
  imports AuthStore
begin

text \<open>
  The identity providers of the auth service (\<open>cmd/auth-service/claims.go\<close>, \<open>jwks.go\<close>, \<open>oidc_client.go\<close>,
  \<open>provider.go\<close>): the local one on the user store, one for an external OpenID Connect server whose
  keys are cached, and the hybrid of both. A provider is a record of the methods of the Go
  interface.
\<close>

subsection \<open>Claims\<close>

record UnifiedClaims =
  uc_Subject :: string
  uc_Roles :: "string list"
  uc_Scopes :: "string list"
  uc_ExpiresAt :: int64
  uc_IssuedAt :: int64
  uc_TokenID :: string
  uc_Issuer :: string
  uc_Audience :: string
  uc_Email :: string
  uc_Provider :: string

definition ToAuthClaims :: "UnifiedClaims \<Rightarrow> Claims" where
  "ToAuthClaims u =
     \<lparr>cl_Subject = uc_Subject u, cl_Roles = uc_Roles u, cl_Scopes = uc_Scopes u, cl_Issuer = uc_Issuer u,
      cl_Audience = uc_Audience u, cl_IssuedAt = uc_IssuedAt u, cl_ExpiresAt = uc_ExpiresAt u\<rparr>"

record KeycloakTokenClaims =
  kc_Subject :: string
  kc_PreferredUsername :: string
  kc_Email :: string
  kc_EmailVerified :: bool
  kc_Name :: string
  kc_GivenName :: string
  kc_FamilyName :: string
  kc_Issuer :: string
  kc_Audience :: json
  kc_ExpiresAt :: int64
  kc_IssuedAt :: int64
  kc_NotBefore :: int64
  kc_TokenID :: string
  kc_Scope :: string
  kc_RealmAccess :: "string list"
  kc_ResourceAccess :: "(string, string list) gomap"

definition isStandardKeycloakNoiseRole :: "string \<Rightarrow> bool" where
  "isStandardKeycloakNoiseRole role \<longleftrightarrow> role \<in> {''offline_access'', ''uma_authorization'', ''default-roles-wallet-realm''}"

definition isStandardOIDCNoiseScope :: "string \<Rightarrow> bool" where
  "isStandardOIDCNoiseScope scope \<longleftrightarrow> scope \<in> {''openid'', ''profile'', ''email''}"

text \<open>A set of strings as a list without repetitions.\<close>

definition add_key :: "string \<Rightarrow> string list \<Rightarrow> string list" where
  "add_key k ks = (if k \<in> set ks then ks else ks @ [k])"

definition addRealmRoles :: "string list \<Rightarrow> string list \<Rightarrow> string list" where
  "addRealmRoles realmRoles roleMap =
     fold (\<lambda>r m. let rClean = TrimSpace r
                 in if rClean \<noteq> [] \<and> \<not> isStandardKeycloakNoiseRole rClean then add_key rClean m else m) realmRoles roleMap"

definition addClientRoles :: "(string, string list) gomap \<Rightarrow> string \<Rightarrow> string list \<Rightarrow> string list" where
  "addClientRoles resAccess clientID roleMap =
     (if clientID = [] then roleMap
      else case map_of resAccess clientID of
             None \<Rightarrow> roleMap
           | Some roles \<Rightarrow>
               fold (\<lambda>r m. let rClean = TrimSpace r in if rClean \<noteq> [] then add_key rClean m else m) roles roleMap)"

definition extractKeycloakRoles :: "auth_env \<Rightarrow> KeycloakTokenClaims \<Rightarrow> string \<Rightarrow> string list" where
  "extractKeycloakRoles E kc clientID =
     au_range E (addClientRoles (kc_ResourceAccess kc) clientID (addRealmRoles (kc_RealmAccess kc) []))"

fun Fields :: "string \<Rightarrow> string list" where
  "Fields [] = []"
| "Fields (c # cs) =
     (if is_space c then Fields cs
      else case cs of
             [] \<Rightarrow> [[c]]
           | d # _ \<Rightarrow> if is_space d then [c] # Fields cs else (case Fields cs of w # ws \<Rightarrow> (c # w) # ws | [] \<Rightarrow> [[c]]))"

definition extractKeycloakScopes :: "auth_env \<Rightarrow> string \<Rightarrow> string list" where
  "extractKeycloakScopes E scopeStr =
     au_range E (fold (\<lambda>s m. let sClean = TrimSpace s
        in if sClean \<noteq> [] \<and> \<not> isStandardOIDCNoiseScope sClean then add_key sClean m else m) (Fields scopeStr) [])"

definition normalizeAudience :: "json \<Rightarrow> string" where
  "normalizeAudience v =
     (case v of
        JStr s \<Rightarrow> s
      | JArr items \<Rightarrow> Join (concat (map (\<lambda>i. case i of JStr s \<Rightarrow> [s] | _ \<Rightarrow> []) items)) '',''
      | _ \<Rightarrow> [])"

definition MapKeycloakClaims :: "auth_env \<Rightarrow> KeycloakTokenClaims \<Rightarrow> string \<Rightarrow> UnifiedClaims" where
  "MapKeycloakClaims E kc clientID =
     \<lparr>uc_Subject = (if kc_PreferredUsername kc = [] then kc_Subject kc else kc_PreferredUsername kc),
      uc_Roles = extractKeycloakRoles E kc clientID, uc_Scopes = extractKeycloakScopes E (kc_Scope kc),
      uc_ExpiresAt = kc_ExpiresAt kc, uc_IssuedAt = kc_IssuedAt kc, uc_TokenID = kc_TokenID kc, uc_Issuer = kc_Issuer kc,
      uc_Audience = normalizeAudience (kc_Audience kc), uc_Email = kc_Email kc, uc_Provider = ''keycloak''\<rparr>"

subsection \<open>Decoding\<close>

text \<open>Decoding the texts of a token: \<open>realm_access\<close> is a struct with one field, \<open>resource_access\<close> a map of
  such structs.\<close>

definition into_access :: "string list decoder" where
  "into_access v old = (case v of JNull \<Rightarrow> (old, True) | JObj kvs \<Rightarrow> field into_strings old ''roles'' kvs | _ \<Rightarrow> (old, False))"

definition into_accesses :: "(string, string list) gomap decoder" where
  "into_accesses v old =
     (case v of
        JNull \<Rightarrow> ([], True)
      | JObj kvs \<Rightarrow>
          fold (\<lambda>(k, w) (m, ok). case into_access w [] of (roles, fits) \<Rightarrow> (AList.update k roles m, ok \<and> fits)) kvs (old, True)
      | _ \<Rightarrow> (old, False))"

definition into_any :: "json decoder" where
  "into_any v old = (v, True)"

definition keycloak_claims :: "json \<Rightarrow> gomsg + KeycloakTokenClaims" where
  "keycloak_claims v =
     (case members [''sub'', ''preferred_username'', ''email'', ''name'', ''given_name'', ''family_name'', ''iss'', ''jti'', ''scope'']
             [''exp'', ''iat'', ''nbf''] [] [] v of
        Inl err \<Rightarrow> Inl err
      | Inr kvs \<Rightarrow>
          if field_fits into_bool False ''email_verified'' kvs \<and> field_fits into_access [] ''realm_access'' kvs
             \<and> field_fits into_accesses [] ''resource_access'' kvs
          then Inr \<lparr>kc_Subject = str_field ''sub'' kvs, kc_PreferredUsername = str_field ''preferred_username'' kvs,
                    kc_Email = str_field ''email'' kvs, kc_EmailVerified = field_value into_bool False ''email_verified'' kvs,
                    kc_Name = str_field ''name'' kvs, kc_GivenName = str_field ''given_name'' kvs,
                    kc_FamilyName = str_field ''family_name'' kvs, kc_Issuer = str_field ''iss'' kvs,
                    kc_Audience = field_value into_any JNull ''aud'' kvs, kc_ExpiresAt = int_field ''exp'' kvs,
                    kc_IssuedAt = int_field ''iat'' kvs, kc_NotBefore = int_field ''nbf'' kvs, kc_TokenID = str_field ''jti'' kvs,
                    kc_Scope = str_field ''scope'' kvs, kc_RealmAccess = field_value into_access [] ''realm_access'' kvs,
                    kc_ResourceAccess = field_value into_accesses [] ''resource_access'' kvs\<rparr>
          else Inl unmarshal_error)"

text \<open>Base64 with or without padding.\<close>

definition URL_DecodeString :: "string \<Rightarrow> int list option" where
  "URL_DecodeString s =
     (let t = filter (\<lambda>c. c \<noteq> CHR 0x0A \<and> c \<noteq> CHR 0x0D) s
      in if CHR ''+'' \<in> set t \<or> CHR ''/'' \<in> set t then None else b64_decode (map std_char t))"

definition decodeBase64URL :: "string \<Rightarrow> int list option" where
  "decodeBase64URL s = (case RawURL_DecodeString s of Some b \<Rightarrow> Some b | None \<Rightarrow> URL_DecodeString s)"

definition json_part :: "string \<Rightarrow> json option" where
  "json_part s = Option.bind (decodeBase64URL s) (\<lambda>bs. json_Parse (map char_of bs))"

subsection \<open>The cache of keys\<close>

text \<open>A time is \<open>None\<close> while it has its zero value.\<close>

record JWKSCache =
  jk_jwksURL :: string
  jk_keys :: "(string, rsa_public) gomap"
  jk_keysList :: "rsa_public list"
  jk_lastFetched :: "int option"
  jk_ttl :: int
  jk_minRefresh :: int
  jk_lastAttempt :: "int option"

definition NewJWKSCache :: "string \<Rightarrow> int \<Rightarrow> JWKSCache" where
  "NewJWKSCache jwksURL ttl =
     \<lparr>jk_jwksURL = jwksURL, jk_keys = [], jk_keysList = [], jk_lastFetched = None,
      jk_ttl = (if ttl \<le> 0 then 3600 * Second else ttl), jk_minRefresh = 5 * Second, jk_lastAttempt = None\<rparr>"

definition exponent :: "int list \<Rightarrow> int" where
  "exponent bs = foldl (\<lambda>e b. wrap64 (e * 256) + b) 0 bs"

definition parseRSAPublicKey :: "string \<Rightarrow> string \<Rightarrow> gomsg + rsa_public" where
  "parseRSAPublicKey nB64 eB64 =
     (case (decodeBase64URL nB64, decodeBase64URL eB64) of
        (None, _) \<Rightarrow> Inl (lit ''decode modulus'')
      | (_, None) \<Rightarrow> Inl (lit ''decode exponent'')
      | (Some nBytes, Some eBytes) \<Rightarrow>
          if exponent eBytes = 0 then Inl (lit ''invalid RSA exponent (zero)'')
          else Inr \<lparr>rsa_N = int_of_bytes nBytes, rsa_E = exponent eBytes\<rparr>)"

text \<open>One key of a set, as its type, identifier, modulus and exponent.\<close>

definition web_key :: "json \<Rightarrow> gomsg + string \<times> string \<times> string \<times> string" where
  "web_key v =
     (case members [''kty'', ''kid'', ''use'', ''alg'', ''n'', ''e''] [] [] [] v of
        Inl err \<Rightarrow> Inl err
      | Inr kvs \<Rightarrow> Inr (str_field ''kty'' kvs, str_field ''kid'' kvs, str_field ''n'' kvs, str_field ''e'' kvs))"

fun all_Inr :: "('e + 'a) list \<Rightarrow> 'e + 'a list" where
  "all_Inr [] = Inr []"
| "all_Inr (Inl e # xs) = Inl e"
| "all_Inr (Inr x # xs) = map_sum id (Cons x) (all_Inr xs)"

definition into_keys :: "(gomsg + (string \<times> string \<times> string \<times> string) list) decoder" where
  "into_keys v old =
     (case v of
        JNull \<Rightarrow> (Inr [], True)
      | JArr items \<Rightarrow> (case all_Inr (map web_key items) of Inl err \<Rightarrow> (old, False) | Inr ks \<Rightarrow> (Inr ks, True))
      | _ \<Rightarrow> (old, False))"

definition web_key_set :: "json \<Rightarrow> gomsg + (string \<times> string \<times> string \<times> string) list" where
  "web_key_set v =
     (case members [] [] [] [] v of
        Inl err \<Rightarrow> Inl err
      | Inr kvs \<Rightarrow> if field_fits into_keys (Inr []) ''keys'' kvs then field_value into_keys (Inr []) ''keys'' kvs
                   else Inl unmarshal_error)"

definition usable_keys :: "(string \<times> string \<times> string \<times> string) list \<Rightarrow> (string, rsa_public) gomap \<times> rsa_public list" where
  "usable_keys ks =
     fold (\<lambda>(kty, kid, n, e) (newKeys, newList).
        if kty \<noteq> ''RSA'' then (newKeys, newList)
        else case parseRSAPublicKey n e of
               Inl err \<Rightarrow> (newKeys, newList)
             | Inr pub \<Rightarrow> (if kid \<noteq> [] then AList.update kid pub newKeys else newKeys, newList @ [pub])) ks ([], [])"

definition JWKS_Refresh :: "auth_env \<Rightarrow> JWKSCache \<Rightarrow> JWKSCache \<times> gomsg option" where
  "JWKS_Refresh E c =
     (if (case jk_lastAttempt c of None \<Rightarrow> False | Some t \<Rightarrow> au_now E - t < jk_minRefresh c) \<and> jk_keys c \<noteq> [] then (c, None)
      else let c = c\<lparr>jk_lastAttempt := Some (au_now E)\<rparr>
           in case au_http E (GetURL (jk_jwksURL c)) of
                Inl err \<Rightarrow> (c, Some (Msg ''jwks: fetch failed from %s: %w'' [ArgS (jk_jwksURL c), ArgE err]))
              | Inr resp \<Rightarrow>
                  if hp_Status resp \<noteq> 200
                  then (c, Some (Msg ''jwks: unexpected status %d from %s: %s''
                                   [ArgD (hp_Status resp), ArgS (jk_jwksURL c), ArgS (take 512 (hp_Text resp))]))
                  else (case (case hp_Body resp of Inl err \<Rightarrow> Inl err | Inr v \<Rightarrow> web_key_set v) of
                          Inl err \<Rightarrow> (c, Some (Msg ''jwks: decode error: %w'' [ArgE err]))
                        | Inr ks \<Rightarrow>
                            (case usable_keys ks of
                               (newKeys, newList) \<Rightarrow>
                                 if newKeys = [] \<and> newList = []
                                 then (c, Some (Msg ''jwks: no valid RSA public keys found at %s'' [ArgS (jk_jwksURL c)]))
                                 else (c\<lparr>jk_keys := newKeys, jk_keysList := newList, jk_lastFetched := Some (au_now E)\<rparr>, None))))"

definition GetKey :: "auth_env \<Rightarrow> string \<Rightarrow> JWKSCache \<Rightarrow> JWKSCache \<times> (gomsg + rsa_public)" where
  "GetKey E kid c =
     (let expired = (case jk_lastFetched c of None \<Rightarrow> True | Some t \<Rightarrow> jk_ttl c < au_now E - t);
          cached = map_of (jk_keys c) kid
      in case (cached, expired) of
           (Some key, False) \<Rightarrow> (c, Inr key)
         | _ \<Rightarrow>
             (case JWKS_Refresh E c of
                (c, Some err) \<Rightarrow>
                  (c, case cached of Some key \<Rightarrow> Inr key
                      | None \<Rightarrow> Inl (Msg ''jwks: key %q not found and refresh failed: %w'' [ArgS kid, ArgE err]))
              | (c, None) \<Rightarrow>
                  (c, case map_of (jk_keys c) kid of
                        Some key \<Rightarrow> Inr key
                      | None \<Rightarrow> if kid = [] \<and> length (jk_keysList c) = 1 then Inr (hd (jk_keysList c))
                                else Inl (Msg ''jwks: key with kid=%q not found in JWKS'' [ArgS kid]))))"

definition VerifyToken :: "auth_env \<Rightarrow> string \<Rightarrow> JWKSCache \<Rightarrow> JWKSCache \<times> (gomsg + KeycloakTokenClaims)" where
  "VerifyToken E tokenStr c =
     (case Split (CHR ''.'') tokenStr of
        [hB64, cB64, sigB64] \<Rightarrow>
          (case (case json_part hB64 of None \<Rightarrow> Inl ErrInvalidToken | Some v \<Rightarrow> members [''alg'', ''typ'', ''kid''] [] [] [] v) of
             Inl err \<Rightarrow> (c, Inl ErrInvalidToken)
           | Inr kvs \<Rightarrow>
               if str_field ''alg'' kvs \<noteq> ''RS256''
               then (c, Inl (Msg ''jwks: unsupported token algorithm %q (expected RS256)'' [ArgS (str_field ''alg'' kvs)]))
               else (case GetKey E (str_field ''kid'' kvs) c of
                       (c, Inl err) \<Rightarrow>
                         (c, Inl (Msg ''jwks: cannot obtain public key for kid=%q: %w'' [ArgS (str_field ''kid'' kvs), ArgE err]))
                     | (c, Inr pubKey) \<Rightarrow>
                         (c, case decodeBase64URL sigB64 of
                               None \<Rightarrow> Inl ErrInvalidSignature
                             | Some sig \<Rightarrow>
                                 if \<not> VerifyPKCS1v15 pubKey sha256_prefix (Sum256 (hB64 @ ''.'' @ cB64)) sig
                                 then Inl ErrInvalidSignature
                                 else (case (case json_part cB64 of None \<Rightarrow> Inl ErrInvalidClaims | Some v \<Rightarrow> keycloak_claims v) of
                                         Inl err \<Rightarrow> Inl ErrInvalidClaims
                                       | Inr claims \<Rightarrow>
                                           if 0 < kc_ExpiresAt claims \<and> kc_ExpiresAt claims < au_now E div Second
                                           then Inl ErrTokenExpired
                                           else if 0 < kc_NotBefore claims \<and> au_now E div Second < kc_NotBefore claims
                                           then Inl (lit ''token not yet valid (nbf)'') else Inr claims))))
      | _ \<Rightarrow> (c, Inl ErrInvalidToken))"

subsection \<open>The OpenID Connect client\<close>

text \<open>Fields of the replies that no code reads are checked when a reply is decoded, and not kept.\<close>

record OIDCDiscoveryResponse =
  od_Issuer :: string
  od_TokenEndpoint :: string
  od_JwksURI :: string

record OIDCTokenResponse =
  ot_AccessToken :: string
  ot_RefreshToken :: string
  ot_TokenType :: string
  ot_ExpiresIn :: int64
  ot_Error :: string
  ot_ErrorDescription :: string

record OIDCClient =
  oc_issuerURL :: string
  oc_clientID :: string
  oc_clientSecret :: string
  oc_config :: "OIDCDiscoveryResponse option"

definition discovery_of :: "json \<Rightarrow> gomsg + OIDCDiscoveryResponse" where
  "discovery_of v =
     (case members [''issuer'', ''authorization_endpoint'', ''token_endpoint'', ''jwks_uri'', ''userinfo_endpoint'',
                    ''end_session_endpoint'', ''revocation_endpoint''] [] [] [] v of
        Inl err \<Rightarrow> Inl err
      | Inr kvs \<Rightarrow> Inr \<lparr>od_Issuer = str_field ''issuer'' kvs, od_TokenEndpoint = str_field ''token_endpoint'' kvs,
                         od_JwksURI = str_field ''jwks_uri'' kvs\<rparr>)"

definition token_response_of :: "json \<Rightarrow> gomsg + OIDCTokenResponse" where
  "token_response_of v =
     (case members [''access_token'', ''refresh_token'', ''token_type'', ''scope'', ''error'', ''error_description'']
             [''expires_in'', ''refresh_expires_in''] [] [] v of
        Inl err \<Rightarrow> Inl err
      | Inr kvs \<Rightarrow> Inr \<lparr>ot_AccessToken = str_field ''access_token'' kvs, ot_RefreshToken = str_field ''refresh_token'' kvs,
                         ot_TokenType = str_field ''token_type'' kvs, ot_ExpiresIn = int_field ''expires_in'' kvs,
                         ot_Error = str_field ''error'' kvs, ot_ErrorDescription = str_field ''error_description'' kvs\<rparr>)"

text \<open>Without discovery a client is made only when the URL of the keys is given.\<close>

definition undiscovered :: "OIDCClient \<Rightarrow> string \<Rightarrow> gomsg \<Rightarrow> gomsg + OIDCClient" where
  "undiscovered client explicitJWKS err =
     (if explicitJWKS \<noteq> []
      then Inr (client\<lparr>oc_config := Some \<lparr>od_Issuer = oc_issuerURL client, od_TokenEndpoint = [], od_JwksURI = explicitJWKS\<rparr>\<rparr>)
      else Inl err)"

definition NewOIDCClient :: "auth_env \<Rightarrow> string \<Rightarrow> string \<Rightarrow> string \<Rightarrow> string \<Rightarrow> gomsg + OIDCClient" where
  "NewOIDCClient E issuerURL clientID clientSecret explicitJWKS =
     (let cleanIssuer = TrimRightSlashes issuerURL;
          client = \<lparr>oc_issuerURL = cleanIssuer, oc_clientID = clientID, oc_clientSecret = clientSecret, oc_config = None\<rparr>;
          discoveryURL = cleanIssuer @ ''/.well-known/openid-configuration''
      in case au_http E (GetURL discoveryURL) of
           Inl err \<Rightarrow> undiscovered client explicitJWKS (Msg ''oidc: discovery failed from %s: %w'' [ArgS discoveryURL, ArgE err])
         | Inr resp \<Rightarrow>
             if hp_Status resp \<noteq> 200
             then undiscovered client explicitJWKS
                    (Msg ''oidc: discovery returned status %d: %s'' [ArgD (hp_Status resp), ArgS (take 512 (hp_Text resp))])
             else (case (case hp_Body resp of Inl err \<Rightarrow> Inl err | Inr v \<Rightarrow> discovery_of v) of
                     Inl err \<Rightarrow> Inl (Msg ''oidc: parse discovery response: %w'' [ArgE err])
                   | Inr conf \<Rightarrow>
                       Inr (client\<lparr>oc_config := Some (if explicitJWKS \<noteq> [] then conf\<lparr>od_JwksURI := explicitJWKS\<rparr> else conf)\<rparr>)))"

definition JwksURI :: "OIDCClient \<Rightarrow> string" where
  "JwksURI c = (case oc_config c of Some conf \<Rightarrow> od_JwksURI conf | None \<Rightarrow> [])"

definition OIDC_Issuer :: "OIDCClient \<Rightarrow> string" where
  "OIDC_Issuer c = (case oc_config c of Some conf \<Rightarrow> if od_Issuer conf \<noteq> [] then od_Issuer conf else oc_issuerURL c | None \<Rightarrow> oc_issuerURL c)"

text \<open>A form for the token endpoint, and what comes back.\<close>

definition post_token ::
    "auth_env \<Rightarrow> OIDCClient \<Rightarrow> (string \<times> string) list \<Rightarrow> string \<Rightarrow> string \<Rightarrow> (int \<Rightarrow> OIDCTokenResponse \<Rightarrow> gomsg) \<Rightarrow> gomsg + OIDCTokenResponse" where
  "post_token E c form failed unparsed rejected =
     (case oc_config c of
        None \<Rightarrow> Inl (lit ''oidc: token endpoint not available'')
      | Some conf \<Rightarrow>
          if od_TokenEndpoint conf = [] then Inl (lit ''oidc: token endpoint not available'')
          else case au_http E (PostForm (od_TokenEndpoint conf) form) of
                 Inl err \<Rightarrow> Inl (Msg failed [ArgE err])
               | Inr resp \<Rightarrow>
                   (case (case hp_Body resp of Inl err \<Rightarrow> Inl err | Inr v \<Rightarrow> token_response_of v) of
                      Inl err \<Rightarrow> Inl (Msg unparsed [ArgE err])
                    | Inr tokenResp \<Rightarrow> if hp_Status resp \<noteq> 200 then Inl (rejected (hp_Status resp) tokenResp) else Inr tokenResp))"

definition client_fields :: "OIDCClient \<Rightarrow> (string \<times> string) list" where
  "client_fields c =
     [(''client_id'', oc_clientID c)] @ (if oc_clientSecret c \<noteq> [] then [(''client_secret'', oc_clientSecret c)] else [])"

definition AuthenticatePassword ::
    "auth_env \<Rightarrow> OIDCClient \<Rightarrow> string \<Rightarrow> string \<Rightarrow> string list \<Rightarrow> gomsg + OIDCTokenResponse" where
  "AuthenticatePassword E c username password scopes =
     post_token E c
       ([(''grant_type'', ''password'')] @ client_fields c
        @ [(''username'', username), (''password'', password),
           (''scope'', if scopes \<noteq> [] then ''openid '' @ Join scopes '' '' else ''openid'')])
       ''oidc: login request failed: %w'' ''oidc: parse token response: %w''
       (\<lambda>status t. let msg = (if ot_ErrorDescription t = [] then ot_Error t else ot_ErrorDescription t)
                   in if msg = [] then Msg ''oidc: authentication rejected: status %d'' [ArgD status]
                      else Msg ''oidc: authentication rejected: %s'' [ArgS msg])"

definition OIDC_RefreshToken :: "auth_env \<Rightarrow> OIDCClient \<Rightarrow> string \<Rightarrow> gomsg + OIDCTokenResponse" where
  "OIDC_RefreshToken E c refreshToken =
     post_token E c ([(''grant_type'', ''refresh_token'')] @ client_fields c @ [(''refresh_token'', refreshToken)])
       ''oidc: refresh request failed: %w'' ''oidc: parse refresh response: %w''
       (\<lambda>status t. Msg ''oidc: refresh failed: %s'' [ArgS (ot_ErrorDescription t)])"

subsection \<open>The external provider\<close>

record TokenPair =
  tp_AccessToken :: string
  tp_RefreshToken :: string
  tp_TokenType :: string
  tp_ExpiresIn :: int64
  tp_GrantedScopes :: "string list"

record KeycloakProvider =
  kp_oidcClient :: "OIDCClient option"
  kp_jwksCache :: "JWKSCache option"
  kp_clientID :: string
  kp_clientSecret :: string
  kp_issuer :: string
  kp_explicitJWKS :: string
  kp_isHealthy :: bool

definition NewKeycloakProvider :: "OIDCClient option \<Rightarrow> JWKSCache option \<Rightarrow> string \<Rightarrow> string \<Rightarrow> KeycloakProvider" where
  "NewKeycloakProvider oidcClient jwksCache clientID issuer =
     \<lparr>kp_oidcClient = oidcClient, kp_jwksCache = jwksCache, kp_clientID = clientID, kp_clientSecret = [],
      kp_issuer = TrimRightSlashes issuer, kp_explicitJWKS = [], kp_isHealthy = (oidcClient \<noteq> None)\<rparr>"

definition SetConfig :: "string \<Rightarrow> string \<Rightarrow> KeycloakProvider \<Rightarrow> KeycloakProvider" where
  "SetConfig clientSecret explicitJWKS p = p\<lparr>kp_clientSecret := clientSecret, kp_explicitJWKS := explicitJWKS\<rparr>"

definition Ping :: "auth_env \<Rightarrow> KeycloakProvider \<Rightarrow> gomsg option" where
  "Ping E p =
     (if kp_issuer p = [] then Some (lit ''oidc: issuer URL is empty'')
      else case au_http E (GetURL (TrimRightSlashes (kp_issuer p) @ ''/.well-known/openid-configuration'')) of
             Inl err \<Rightarrow> Some err
           | Inr resp \<Rightarrow> if hp_Status resp \<noteq> 200 then Some (Msg ''oidc: ping returned status %d'' [ArgD (hp_Status resp)]) else None)"

definition jwks_url :: "string \<Rightarrow> OIDCClient option \<Rightarrow> string \<Rightarrow> string" where
  "jwks_url explicitJWKS client issuer =
     (let u = (if explicitJWKS \<noteq> [] then explicitJWKS else case client of Some c \<Rightarrow> JwksURI c | None \<Rightarrow> [])
      in if u \<noteq> [] then u else TrimRightSlashes issuer @ ''/protocol/openid-connect/certs'')"

definition Reconnect :: "auth_env \<Rightarrow> KeycloakProvider \<Rightarrow> KeycloakProvider \<times> gomsg option" where
  "Reconnect E p =
     (case NewOIDCClient E (kp_issuer p) (kp_clientID p) (kp_clientSecret p) (kp_explicitJWKS p) of
        Inl err \<Rightarrow> (p\<lparr>kp_isHealthy := False\<rparr>, Some (Msg ''oidc reconnect failed: %w'' [ArgE err]))
      | Inr client \<Rightarrow>
          let cache = fst (JWKS_Refresh E (NewJWKSCache (jwks_url (kp_explicitJWKS p) (Some client) (kp_issuer p)) (3600 * Second)))
          in (p\<lparr>kp_oidcClient := Some client, kp_jwksCache := Some cache, kp_isHealthy := True\<rparr>, None))"

text \<open>One tick of the health poller.\<close>

definition health_tick :: "auth_env \<Rightarrow> KeycloakProvider \<Rightarrow> KeycloakProvider" where
  "health_tick E p =
     (case Ping E p of
        Some err \<Rightarrow> p\<lparr>kp_isHealthy := False\<rparr>
      | None \<Rightarrow> if kp_isHealthy p then p else fst (Reconnect E p))"

definition Keycloak_ValidateToken :: "auth_env \<Rightarrow> string \<Rightarrow> KeycloakProvider \<Rightarrow> KeycloakProvider \<times> (gomsg + UnifiedClaims)" where
  "Keycloak_ValidateToken E tokenStr p =
     (case kp_jwksCache p of
        None \<Rightarrow> (p, Inl (lit ''oidc: JWKS cache unavailable''))
      | Some cache \<Rightarrow>
          (case VerifyToken E tokenStr cache of
             (cache, Inl err) \<Rightarrow> (p\<lparr>kp_jwksCache := Some cache\<rparr>, Inl err)
           | (cache, Inr kcClaims) \<Rightarrow>
               (p\<lparr>kp_jwksCache := Some cache\<rparr>,
                if kp_issuer p \<noteq> [] \<and> TrimRightSlashes (kc_Issuer kcClaims) \<noteq> kp_issuer p
                then Inl (Msg ''oidc: token issuer %q does not match configured issuer %q'' [ArgS (kc_Issuer kcClaims), ArgS (kp_issuer p)])
                else Inr (MapKeycloakClaims E kcClaims (kp_clientID p)))))"

definition validated_pair ::
    "auth_env \<Rightarrow> string \<Rightarrow> gomsg + OIDCTokenResponse \<Rightarrow> KeycloakProvider \<Rightarrow> KeycloakProvider \<times> (gomsg + UnifiedClaims \<times> TokenPair)" where
  "validated_pair E note answer p =
     (case answer of
        Inl err \<Rightarrow> (p, Inl err)
      | Inr resp \<Rightarrow>
          (case Keycloak_ValidateToken E (ot_AccessToken resp) p of
             (p, Inl err) \<Rightarrow> (p, Inl (Msg note [ArgE err]))
           | (p, Inr uClaims) \<Rightarrow>
               (p, Inr (uClaims, \<lparr>tp_AccessToken = ot_AccessToken resp, tp_RefreshToken = ot_RefreshToken resp,
                                  tp_TokenType = ot_TokenType resp, tp_ExpiresIn = ot_ExpiresIn resp,
                                  tp_GrantedScopes = uc_Scopes uClaims\<rparr>))))"

definition oidc_unavailable :: gomsg where "oidc_unavailable = lit ''oidc: provider client unavailable or unhealthy''"

definition Keycloak_Authenticate ::
    "auth_env \<Rightarrow> string \<Rightarrow> string \<Rightarrow> string list \<Rightarrow> KeycloakProvider \<Rightarrow> KeycloakProvider \<times> (gomsg + UnifiedClaims \<times> TokenPair)" where
  "Keycloak_Authenticate E username password requestedScopes p =
     (case (kp_oidcClient p, kp_isHealthy p) of
        (Some client, True) \<Rightarrow>
          validated_pair E ''oidc: validating issued access token: %w''
            (AuthenticatePassword E client username password requestedScopes) p
      | _ \<Rightarrow> (p, Inl oidc_unavailable))"

definition Keycloak_RefreshToken ::
    "auth_env \<Rightarrow> string \<Rightarrow> KeycloakProvider \<Rightarrow> KeycloakProvider \<times> (gomsg + UnifiedClaims \<times> TokenPair)" where
  "Keycloak_RefreshToken E refreshToken p =
     (case (kp_oidcClient p, kp_isHealthy p) of
        (Some client, True) \<Rightarrow>
          validated_pair E ''oidc: validating refreshed access token: %w'' (OIDC_RefreshToken E client refreshToken) p
      | _ \<Rightarrow> (p, Inl oidc_unavailable))"

end
