(* ===== verification/AuthService.thy ===== *)
theory AuthService
  imports AuthProviders
begin

text \<open>
  The auth service (\<open>cmd/auth-service/server.go\<close>, and the local and hybrid providers of
  \<open>provider.go\<close>): issuing, validating, refreshing and revoking tokens, and authorization.
\<close>

subsection \<open>State and interface\<close>

record auth_state =
  as_users :: "UserRecord list"
  as_refresh :: "RefreshTokenRecord list"
  as_revoked :: "RevokedTokenRecord list"
  as_external :: "KeycloakProvider option"

record IdentityProvider =
  ip_Name :: string
  ip_Authenticate :: "auth_env \<Rightarrow> string \<Rightarrow> string \<Rightarrow> string list \<Rightarrow> auth_state
     \<Rightarrow> auth_state \<times> (gomsg + UnifiedClaims \<times> TokenPair)"
  ip_ValidateToken :: "auth_env \<Rightarrow> string \<Rightarrow> auth_state \<Rightarrow> auth_state \<times> (gomsg + UnifiedClaims)"
  ip_RefreshToken :: "auth_env \<Rightarrow> string \<Rightarrow> auth_state \<Rightarrow> auth_state \<times> (gomsg + UnifiedClaims \<times> TokenPair)"

definition refreshTokenTTL :: int where "refreshTokenTTL = 7 * 24 * 3600 * Second"

definition resolveScopes :: "string list \<Rightarrow> string list \<Rightarrow> string list \<Rightarrow> string list" where
  "resolveScopes roles allowed requested =
     (if requested = [] then DefaultScopesForRoles roles
      else let granted = filter (\<lambda>s. ToLower s \<in> ToLower ` set allowed) requested
           in if granted = [] then DefaultScopesForRoles roles else granted)"

definition hasScope :: "string list \<Rightarrow> string \<Rightarrow> bool" where
  "hasScope scopes target = list_ex (\<lambda>s. EqualFold s target) scopes"

definition deriveTokenID :: "string \<Rightarrow> int64 \<Rightarrow> string" where
  "deriveTokenID subject issuedAt = subject @ '':'' @ show_int issuedAt"

definition mapAuthErrorToProto :: "gomsg \<Rightarrow> TokenErrorCode" where
  "mapAuthErrorToProto err =
     (if err = ErrTokenExpired then TOKEN_EXPIRED
      else if err = ErrInvalidSignature then TOKEN_INVALID_SIG else TOKEN_MALFORMED)"

subsection \<open>The local provider\<close>

text \<open>A session: an access token and a refresh token for a subject. \<open>note\<close> is the text of the errors.\<close>

definition local_claims :: "auth_env \<Rightarrow> string \<Rightarrow> string list \<Rightarrow> string list \<Rightarrow> UnifiedClaims" where
  "local_claims E subject roles scopes =
     \<lparr>uc_Subject = subject, uc_Roles = roles, uc_Scopes = scopes, uc_ExpiresAt = (au_now E + 15 * 60 * Second) div Second,
      uc_IssuedAt = au_now E div Second, uc_TokenID = [], uc_Issuer = DefaultIssuer, uc_Audience = DefaultAudience,
      uc_Email = [], uc_Provider = ''local''\<rparr>"

definition session_claims :: "string \<Rightarrow> string list \<Rightarrow> string list \<Rightarrow> Claims" where
  "session_claims subject roles scopes =
     \<lparr>cl_Subject = subject, cl_Roles = roles, cl_Scopes = scopes, cl_Issuer = DefaultIssuer, cl_Audience = DefaultAudience,
      cl_IssuedAt = 0, cl_ExpiresAt = 0\<rparr>"

definition open_session ::
    "auth_env \<Rightarrow> TokenEngine \<Rightarrow> string \<times> string \<times> string \<Rightarrow> string option \<Rightarrow> string \<Rightarrow> string list \<Rightarrow> string list \<Rightarrow> auth_state
       \<Rightarrow> auth_state \<times> (gomsg + UnifiedClaims \<times> TokenPair)" where
  "open_session E engine notes replaced subject roles scopes st =
     (case notes of (n1, n2, n3) \<Rightarrow>
        (case IssueAccessToken engine (au_now E) (session_claims subject roles scopes) of
           Inl err \<Rightarrow> (st, Inl (Msg n1 [ArgE err]))
         | Inr accessToken \<Rightarrow>
             (case IssueRefreshToken E of
                Inl err \<Rightarrow> (st, Inl (Msg n2 [ArgE err]))
              | Inr refreshToken \<Rightarrow>
                  let rs = (case replaced of None \<Rightarrow> as_refresh st | Some old \<Rightarrow> fst (RevokeRefreshToken E old (as_refresh st)))
                  in (case StoreRefreshToken E refreshToken subject roles scopes refreshTokenTTL rs of
                        (rs, Some err) \<Rightarrow> (st\<lparr>as_refresh := rs\<rparr>, Inl (Msg n3 [ArgE err]))
                      | (rs, None) \<Rightarrow>
                          (st\<lparr>as_refresh := rs\<rparr>,
                           Inr (local_claims E subject roles scopes,
                                \<lparr>tp_AccessToken = accessToken, tp_RefreshToken = refreshToken, tp_TokenType = ''Bearer'',
                                 tp_ExpiresIn = 900, tp_GrantedScopes = scopes\<rparr>))))))"

definition Local_Authenticate ::
    "TokenEngine \<Rightarrow> auth_env \<Rightarrow> string \<Rightarrow> string \<Rightarrow> string list \<Rightarrow> auth_state \<Rightarrow> auth_state \<times> (gomsg + UnifiedClaims \<times> TokenPair)" where
  "Local_Authenticate engine E username password requestedScopes st =
     (case UserStore_Authenticate E username password (as_users st) of
        (us, Inl err) \<Rightarrow> (st\<lparr>as_users := us\<rparr>, Inl err)
      | (us, Inr user) \<Rightarrow>
          open_session E engine
            (''local: access token generation failed: %w'', ''local: refresh token generation failed: %w'',
             ''local: failed to store refresh token: %w'') None
            (u_Username user) (u_Roles user) (resolveScopes (u_Roles user) (u_Scopes user) requestedScopes) (st\<lparr>as_users := us\<rparr>))"

definition Local_ValidateToken :: "TokenEngine \<Rightarrow> auth_env \<Rightarrow> string \<Rightarrow> auth_state \<Rightarrow> auth_state \<times> (gomsg + UnifiedClaims)" where
  "Local_ValidateToken engine E tokenStr st =
     (st, case ValidateAccessToken engine (au_now E) tokenStr of
            Inl err \<Rightarrow> Inl err
          | Inr claims \<Rightarrow>
              Inr \<lparr>uc_Subject = cl_Subject claims, uc_Roles = cl_Roles claims, uc_Scopes = cl_Scopes claims,
                   uc_ExpiresAt = cl_ExpiresAt claims, uc_IssuedAt = cl_IssuedAt claims,
                   uc_TokenID = deriveTokenID (cl_Subject claims) (cl_IssuedAt claims), uc_Issuer = cl_Issuer claims,
                   uc_Audience = cl_Audience claims, uc_Email = [], uc_Provider = ''local''\<rparr>)"

definition Local_RefreshToken ::
    "TokenEngine \<Rightarrow> auth_env \<Rightarrow> string \<Rightarrow> auth_state \<Rightarrow> auth_state \<times> (gomsg + UnifiedClaims \<times> TokenPair)" where
  "Local_RefreshToken engine E refreshToken st =
     (case FindRefreshToken E refreshToken (as_refresh st) of
        Inl err \<Rightarrow> (st, Inl err)
      | Inr rec \<Rightarrow>
          open_session E engine
            (''local: token generation failed: %w'', ''local: refresh token generation failed: %w'',
             ''local: session rotation failed: %w'') (Some refreshToken) (rt_Subject rec) (rt_Roles rec) (rt_Scopes rec) st)"

definition LocalProvider :: "TokenEngine \<Rightarrow> IdentityProvider" where
  "LocalProvider engine =
     \<lparr>ip_Name = ''local'', ip_Authenticate = Local_Authenticate engine, ip_ValidateToken = Local_ValidateToken engine,
      ip_RefreshToken = Local_RefreshToken engine\<rparr>"

subsection \<open>The other providers\<close>

text \<open>A method of the external provider on the state of the service.\<close>

definition on_external :: "(KeycloakProvider \<Rightarrow> KeycloakProvider \<times> (gomsg + 'a)) \<Rightarrow> auth_state \<Rightarrow> auth_state \<times> (gomsg + 'a)" where
  "on_external f st =
     (case as_external st of
        None \<Rightarrow> (st, Inl oidc_unavailable)
      | Some p \<Rightarrow> (case f p of (p, r) \<Rightarrow> (st\<lparr>as_external := Some p\<rparr>, r)))"

definition Keycloak :: IdentityProvider where
  "Keycloak =
     \<lparr>ip_Name = ''keycloak'',
      ip_Authenticate = (\<lambda>E username password scopes. on_external (Keycloak_Authenticate E username password scopes)),
      ip_ValidateToken = (\<lambda>E tokenStr. on_external (Keycloak_ValidateToken E tokenStr)),
      ip_RefreshToken = (\<lambda>E refreshToken. on_external (Keycloak_RefreshToken E refreshToken))\<rparr>"

definition peekIssuer :: "string \<Rightarrow> string" where
  "peekIssuer tokenStr =
     (case Split (CHR ''.'') tokenStr of
        [h, c, s] \<Rightarrow>
          (case json_part c of
             None \<Rightarrow> []
           | Some v \<Rightarrow> (case members [''iss''] [] [] [] v of Inl err \<Rightarrow> [] | Inr kvs \<Rightarrow> str_field ''iss'' kvs))
      | _ \<Rightarrow> [])"

definition externally_issued :: "string \<Rightarrow> auth_state \<Rightarrow> bool" where
  "externally_issued tokenStr st =
     (case as_external st of None \<Rightarrow> False | Some p \<Rightarrow> kp_issuer p \<noteq> [] \<and> HasPrefix (peekIssuer tokenStr) (kp_issuer p))"

definition Hybrid_ValidateToken :: "TokenEngine \<Rightarrow> auth_env \<Rightarrow> string \<Rightarrow> auth_state \<Rightarrow> auth_state \<times> (gomsg + UnifiedClaims)" where
  "Hybrid_ValidateToken engine E tokenStr st =
     (let ext_first = externally_issued tokenStr st
      in case (if ext_first then ip_ValidateToken Keycloak E tokenStr st else (st, Inl (lit []))) of
           (st, Inr claims) \<Rightarrow> (st, Inr claims)
         | (st, Inl _) \<Rightarrow>
             (case Local_ValidateToken engine E tokenStr st of
                (st, Inr claims) \<Rightarrow> (st, Inr claims)
              | (st, Inl err) \<Rightarrow>
                  if as_external st \<noteq> None \<and> \<not> ext_first
                  then (case ip_ValidateToken Keycloak E tokenStr st of
                          (st, Inr claims) \<Rightarrow> (st, Inr claims) | (st, Inl _) \<Rightarrow> (st, Inl err))
                  else (st, Inl err)))"

definition external_healthy :: "auth_state \<Rightarrow> bool" where
  "external_healthy st = (case as_external st of None \<Rightarrow> False | Some p \<Rightarrow> kp_isHealthy p)"

definition Hybrid_Authenticate ::
    "TokenEngine \<Rightarrow> auth_env \<Rightarrow> string \<Rightarrow> string \<Rightarrow> string list \<Rightarrow> auth_state \<Rightarrow> auth_state \<times> (gomsg + UnifiedClaims \<times> TokenPair)" where
  "Hybrid_Authenticate engine E username password requestedScopes st =
     (case (if external_healthy st then ip_Authenticate Keycloak E username password requestedScopes st else (st, Inl (lit []))) of
        (st, Inr r) \<Rightarrow> (st, Inr r)
      | (st, Inl _) \<Rightarrow> Local_Authenticate engine E username password requestedScopes st)"

definition Hybrid_RefreshToken ::
    "TokenEngine \<Rightarrow> auth_env \<Rightarrow> string \<Rightarrow> auth_state \<Rightarrow> auth_state \<times> (gomsg + UnifiedClaims \<times> TokenPair)" where
  "Hybrid_RefreshToken engine E refreshToken st =
     (case Local_RefreshToken engine E refreshToken st of
        (st, Inr r) \<Rightarrow> (st, Inr r)
      | (st, Inl err) \<Rightarrow>
          (case (if external_healthy st then ip_RefreshToken Keycloak E refreshToken st else (st, Inl err)) of
             (st, Inr r) \<Rightarrow> (st, Inr r) | (st, Inl _) \<Rightarrow> (st, Inl err)))"

definition HybridProvider :: "TokenEngine \<Rightarrow> IdentityProvider" where
  "HybridProvider engine =
     \<lparr>ip_Name = ''hybrid'', ip_Authenticate = Hybrid_Authenticate engine, ip_ValidateToken = Hybrid_ValidateToken engine,
      ip_RefreshToken = Hybrid_RefreshToken engine\<rparr>"

subsection \<open>The service\<close>

record AuthValidateResponse = ValidateTokenResponse +
  vt_TokenId :: string

definition rejected_token :: "TokenErrorCode \<Rightarrow> AuthValidateResponse" where
  "rejected_token code =
     \<lparr>vt_Valid = False, vt_Subject = [], vt_Roles = [], vt_Scopes = [], vt_ExpiresAt = 0, vt_Error = code, vt_TokenId = []\<rparr>"

definition session_response :: "UnifiedClaims \<Rightarrow> TokenPair \<Rightarrow> IssueTokenResponse" where
  "session_response claims tokens =
     \<lparr>it_AccessToken = tp_AccessToken tokens, it_RefreshToken = tp_RefreshToken tokens, it_TokenType = tp_TokenType tokens,
      it_ExpiresIn = tp_ExpiresIn tokens, it_GrantedScopes = tp_GrantedScopes tokens, it_Subject = uc_Subject claims\<rparr>"

definition IssueToken ::
    "IdentityProvider \<Rightarrow> auth_env \<Rightarrow> string \<times> string \<times> string list \<Rightarrow> (auth_state, IssueTokenResponse) rpc" where
  "IssueToken P E req st =
     (case req of (username, password, requestedScopes) \<Rightarrow>
        if username = [] \<or> password = []
        then (st, Inl (StatusErr InvalidArgument (lit ''username and password are required'')))
        else case ip_Authenticate P E username password requestedScopes st of
               (st, Inl err) \<Rightarrow> (st, Inl (StatusErr Unauthenticated (lit ''invalid credentials'')))
             | (st, Inr (claims, tokens)) \<Rightarrow> (st, Inr (session_response claims tokens)))"

definition token_id :: "UnifiedClaims \<Rightarrow> string" where
  "token_id claims = (if uc_TokenID claims = [] then deriveTokenID (uc_Subject claims) (uc_IssuedAt claims) else uc_TokenID claims)"

definition authServer_ValidateToken :: "IdentityProvider \<Rightarrow> auth_env \<Rightarrow> string \<Rightarrow> (auth_state, AuthValidateResponse) rpc" where
  "authServer_ValidateToken P E token st =
     (if token = [] then (st, Inr (rejected_token TOKEN_MALFORMED))
      else case ip_ValidateToken P E token st of
             (st, Inl err) \<Rightarrow> (st, Inr (rejected_token (mapAuthErrorToProto err)))
           | (st, Inr claims) \<Rightarrow>
               (st, Inr (if fst (IsRevoked E (token_id claims) (as_revoked st)) then rejected_token TOKEN_REVOKED
                         else \<lparr>vt_Valid = True, vt_Subject = uc_Subject claims, vt_Roles = uc_Roles claims,
                               vt_Scopes = uc_Scopes claims, vt_ExpiresAt = uc_ExpiresAt claims, vt_Error = TOKEN_OK,
                               vt_TokenId = token_id claims\<rparr>)))"

definition authServer_RefreshToken :: "IdentityProvider \<Rightarrow> auth_env \<Rightarrow> string \<Rightarrow> (auth_state, IssueTokenResponse) rpc" where
  "authServer_RefreshToken P E refreshToken st =
     (if refreshToken = [] then (st, Inl (StatusErr InvalidArgument (lit ''refresh_token is required'')))
      else case ip_RefreshToken P E refreshToken st of
             (st, Inl err) \<Rightarrow> (st, Inl (StatusErr Unauthenticated (lit ''invalid or expired refresh token'')))
           | (st, Inr (claims, tokens)) \<Rightarrow> (st, Inr (session_response claims tokens)))"

definition RevokeToken :: "IdentityProvider \<Rightarrow> auth_env \<Rightarrow> string \<times> string \<Rightarrow> (auth_state, bool) rpc" where
  "RevokeToken P E req st =
     (case req of (token, reason) \<Rightarrow>
        if token = [] then (st, Inl (StatusErr InvalidArgument (lit ''token is required'')))
        else let reason = (if reason = [] then ''logout'' else reason)
             in case ip_ValidateToken P E token st of
                  (st, Inr claims) \<Rightarrow>
                    (st\<lparr>as_revoked := fst (Revoke E (token_id claims) (uc_Subject claims) reason (uc_ExpiresAt claims * Second)
                                             (as_revoked st))\<rparr>, Inr True)
                | (st, Inl err) \<Rightarrow> (st\<lparr>as_refresh := fst (RevokeRefreshToken E token (as_refresh st))\<rparr>, Inr True))"

text \<open>Authorization; a decision is whether the request is allowed, and the reason.\<close>

record AuthorizeRequest =
  az_Subject :: string
  az_Roles :: "string list"
  az_Scopes :: "string list"
  az_Resource :: string
  az_Action :: string

definition authorizeWallet :: "auth_env \<Rightarrow> AuthorizeRequest \<Rightarrow> UserRecord list \<Rightarrow> bool \<times> gomsg" where
  "authorizeWallet E req us =
     (let walletID = drop (length ''wallet:'') (az_Resource req); required = ''wallet:'' @ az_Action req
      in if az_Action req \<noteq> ''read'' \<and> az_Action req \<noteq> ''transfer'' then (False, lit ''unsupported wallet action'')
         else if \<not> hasScope (az_Scopes req) required then (False, Msg ''missing scope: %s'' [ArgS required])
         else case OwnsWallet E (az_Subject req) walletID us of
                (owns, Some err) \<Rightarrow> (False, lit ''ownership check failed'')
              | (owns, None) \<Rightarrow>
                  if owns then (True, lit ''wallet owner'')
                  else (False, Msg ''subject %s does not own wallet %s'' [ArgS (az_Subject req), ArgS walletID]))"

definition authorizeCluster :: "AuthorizeRequest \<Rightarrow> bool \<times> gomsg" where
  "authorizeCluster req =
     (if \<not> hasScope (az_Scopes req) ScopeClusterAdmin then (False, lit ''requires cluster:admin scope'')
      else (True, lit ''cluster admin scope''))"

definition authorizeLedger :: "AuthorizeRequest \<Rightarrow> bool \<times> gomsg" where
  "authorizeLedger req =
     (if \<not> hasScope (az_Scopes req) ScopeLedgerAudit then (False, lit ''requires ledger:audit scope'')
      else (True, lit ''ledger audit scope''))"

definition Authorize :: "auth_env \<Rightarrow> AuthorizeRequest \<Rightarrow> UserRecord list \<Rightarrow> bool \<times> gomsg" where
  "Authorize E req us =
     (if az_Subject req = [] then (False, lit ''missing subject'')
      else if list_ex (\<lambda>r. EqualFold r RoleAdmin) (az_Roles req) then (True, lit ''admin role'')
      else if HasPrefix (az_Resource req) ''wallet:'' then authorizeWallet E req us
      else if HasPrefix (az_Resource req) ''cluster:'' then authorizeCluster req
      else if HasPrefix (az_Resource req) ''ledger:'' then authorizeLedger req
      else (False, lit ''no matching policy''))"

subsection \<open>Start-up\<close>

text \<open>The accounts made at the first start (\<open>main.go\<close>); each gets identifiers of its own.\<close>

definition seed_user ::
    "auth_env \<Rightarrow> nat \<Rightarrow> string \<times> string \<times> string \<times> string list \<times> string list \<Rightarrow> UserRecord list \<Rightarrow> UserRecord list" where
  "seed_user E k user us =
     (case user of (username, email, password, roles, scopes) \<Rightarrow>
        (case FindByUsername E username us of
           Inr u \<Rightarrow> us
         | Inl err \<Rightarrow> fst (CreateUser (E\<lparr>au_oid := (\<lambda>n. au_oid E (n + k))\<rparr>) username email password roles scopes us)))"

definition seedDefaultAdmin :: "(string \<Rightarrow> string) \<Rightarrow> auth_env \<Rightarrow> UserRecord list \<Rightarrow> UserRecord list" where
  "seedDefaultAdmin getenv E us =
     (if au_store E = None then us
      else let adminUser = (if getenv ''ADMIN_USERNAME'' = [] then ''admin'' else getenv ''ADMIN_USERNAME'');
               adminPass = (if getenv ''ADMIN_PASSWORD'' = [] then ''admin123'' else getenv ''ADMIN_PASSWORD'');
               us = seed_user E 0 (adminUser, [], adminPass, [RoleAdmin],
                      [ScopeClusterAdmin, ScopeLedgerAudit, ScopeWalletTransfer, ScopeWalletRead]) us;
               us = seed_user E 1 (''alice'', ''alice@wallet.local'', ''password123'', [RoleUser], [ScopeWalletTransfer, ScopeWalletRead]) us
           in seed_user E 2 (''bob'', ''bob@wallet.local'', ''password123'', [RoleUser], [ScopeWalletTransfer, ScopeWalletRead]) us)"

text \<open>\<open>load\<close> reads the key files.\<close>

definition buildTokenEngine ::
    "(string \<Rightarrow> string) \<Rightarrow> (string \<Rightarrow> gomsg + rsa_public \<times> int) \<Rightarrow> (string \<Rightarrow> gomsg + rsa_public) \<Rightarrow> gomsg + TokenEngine" where
  "buildTokenEngine getenv loadPrivate loadPublic =
     (let privateKeyPath = getenv ''AUTH_PRIVATE_KEY_PATH''; publicKeyPath = getenv ''AUTH_PUBLIC_KEY_PATH''
      in if privateKeyPath \<noteq> [] \<and> publicKeyPath \<noteq> []
         then (case loadPrivate privateKeyPath of
                 Inl err \<Rightarrow> Inl (Msg ''load private key %s: %w'' [ArgS privateKeyPath, ArgE err])
               | Inr privKey \<Rightarrow>
                   (case loadPublic publicKeyPath of
                      Inl err \<Rightarrow> Inl (Msg ''load public key %s: %w'' [ArgS publicKeyPath, ArgE err])
                    | Inr pubKey \<Rightarrow>
                        Inr (NewRS256Engine (Some privKey) (Some pubKey)
                               (if getenv ''AUTH_KEY_ID'' = [] then ''default'' else getenv ''AUTH_KEY_ID''))))
         else Inr (NewHS256Engine (if getenv ''JWT_SECRET'' = []
                then ''development-wallet-insecure-secret-key-change-in-prod'' else getenv ''JWT_SECRET'')))"

text \<open>Up to ten attempts to reach the external provider; \<open>E n\<close> is the environment of the attempt \<open>n\<close>.\<close>

fun first_client :: "(nat \<Rightarrow> auth_env) \<Rightarrow> nat list \<Rightarrow> string \<Rightarrow> string \<Rightarrow> string \<Rightarrow> string \<Rightarrow> OIDCClient option" where
  "first_client E [] issuerURL clientID clientSecret explicitJWKS = None"
| "first_client E (n # ns) issuerURL clientID clientSecret explicitJWKS =
     (case NewOIDCClient (E n) issuerURL clientID clientSecret explicitJWKS of
        Inr client \<Rightarrow> Some client
      | Inl err \<Rightarrow> first_client E ns issuerURL clientID clientSecret explicitJWKS)"

definition initKeycloakProvider :: "(nat \<Rightarrow> auth_env) \<Rightarrow> string \<Rightarrow> string \<Rightarrow> string \<Rightarrow> string \<Rightarrow> KeycloakProvider" where
  "initKeycloakProvider E issuerURL clientID clientSecret explicitJWKS =
     (let oidcClient = first_client E [1..<11] issuerURL clientID clientSecret explicitJWKS;
          jwksCache = fst (JWKS_Refresh (E 11) (NewJWKSCache (jwks_url explicitJWKS oidcClient issuerURL) (3600 * Second)))
      in SetConfig clientSecret explicitJWKS (NewKeycloakProvider oidcClient (Some jwksCache) clientID issuerURL))"

definition or_default :: "string \<Rightarrow> string \<Rightarrow> string" where
  "or_default s d = (if s = [] then d else s)"

fun has_substring :: "string \<Rightarrow> string \<Rightarrow> bool" where
  "has_substring [] p = (p = [])"
| "has_substring (c # cs) p = (HasPrefix (c # cs) p \<or> has_substring cs p)"

definition setupIdentityProvider ::
    "(string \<Rightarrow> string) \<Rightarrow> (nat \<Rightarrow> auth_env) \<Rightarrow> string \<Rightarrow> TokenEngine \<Rightarrow> IdentityProvider \<times> KeycloakProvider option" where
  "setupIdentityProvider getenv E mode engine =
     (let keycloakURL = getenv ''KEYCLOAK_URL''; explicitJWKS = getenv ''KEYCLOAK_JWKS_URL'';
          realm = or_default (getenv ''KEYCLOAK_REALM'') ''wallet-realm'';
          clientID = or_default (getenv ''KEYCLOAK_CLIENT_ID'') ''wallet-api'';
          issuerURL = (if has_substring keycloakURL ''/realms/'' then keycloakURL else TrimRightSlashes keycloakURL @ ''/realms/'' @ realm)
      in if keycloakURL = [] \<and> explicitJWKS = [] then (LocalProvider engine, None)
         else let kcProvider = initKeycloakProvider E issuerURL clientID (getenv ''KEYCLOAK_CLIENT_SECRET'') explicitJWKS
              in if mode = ''keycloak'' then (Keycloak, Some kcProvider)
                 else if mode = ''hybrid'' then (HybridProvider engine, Some kcProvider)
                 else (LocalProvider engine, None))"

end
