(* ===== verification/AuthRevoked.thy ===== *)
theory AuthRevoked
  imports AuthSessions
begin

text \<open>
  Revocation. What the service relies on of an identity provider is the interface
  \<open>identity_provider\<close>: it leaves the list of revoked tokens alone, and a token has one
  identifier, whoever validates it and when. The local, the external and the hybrid provider
  keep to it.
\<close>

locale identity_provider =
  fixes P :: IdentityProvider
  assumes validate_keeps: "as_revoked (fst (ip_ValidateToken P E t st)) = as_revoked st"
    and authenticate_keeps: "as_revoked (fst (ip_Authenticate P E name password scopes st)) = as_revoked st"
    and refresh_keeps: "as_revoked (fst (ip_RefreshToken P E t st)) = as_revoked st"
    and same_id: "snd (ip_ValidateToken P E t st) = Inr c \<Longrightarrow> snd (ip_ValidateToken P E' t st') = Inr c' \<Longrightarrow> token_id c' = token_id c"

subsection \<open>The local provider\<close>

lemma ValidateAccessToken_claims:
  assumes "ValidateAccessToken e now t = Inr c"
  shows "\<exists>h p s. Split (CHR ''.'') t = [h, p, s] \<and> decode_claims p = Inr c \<and> (te_algorithm e \<noteq> AlgRS256 \<longrightarrow> header_ok h)"
  using assms
  by (auto simp: ValidateAccessToken_def verifyRS256_def ValidateToken_def split: if_splits option.splits list.splits sum.splits)

lemma Local_id:
  assumes "snd (Local_ValidateToken e E t st) = Inr c"
  obtains h p s cl where "Split (CHR ''.'') t = [h, p, s]" "decode_claims p = Inr cl" "te_algorithm e \<noteq> AlgRS256 \<Longrightarrow> header_ok h"
    "token_id c = deriveTokenID (cl_Subject cl) (cl_IssuedAt cl)"
proof -
  obtain cl where cl: "ValidateAccessToken e (au_now E) t = Inr cl" "token_id c = deriveTokenID (cl_Subject cl) (cl_IssuedAt cl)"
    using assms by (auto simp: Local_ValidateToken_def token_id_def deriveTokenID_def split: sum.splits)
  from ValidateAccessToken_claims [OF cl(1)] show thesis using that cl(2) by blast
qed

lemma open_session_keeps [simp]:
  "as_revoked (fst (open_session E e notes old subject roles scopes st)) = as_revoked st"
  by (simp add: open_session_def Let_def split: prod.split sum.split option.split)

lemma Local_keeps [simp]:
  "fst (Local_ValidateToken e E t st) = st"
  "as_revoked (fst (Local_Authenticate e E name password scopes st)) = as_revoked st"
  "as_revoked (fst (Local_RefreshToken e E t st)) = as_revoked st"
  by (simp_all add: Local_ValidateToken_def Local_Authenticate_def Local_RefreshToken_def split: prod.split sum.split)

interpretation local_provider: identity_provider "LocalProvider e" for e
proof
  fix E E' t st st' c c'
  assume "snd (ip_ValidateToken (LocalProvider e) E t st) = Inr c" "snd (ip_ValidateToken (LocalProvider e) E' t st') = Inr c'"
  then show "token_id c' = token_id c"
    by (auto simp: LocalProvider_def elim!: Local_id)
qed (simp_all add: LocalProvider_def)

subsection \<open>The external provider\<close>

lemma VerifyToken_claims:
  assumes "VerifyToken E t c = (c', Inr kc)"
  shows "\<exists>h p s v kvs w. Split (CHR ''.'') t = [h, p, s] \<and> json_part h = Some v \<and> members [''alg'', ''typ'', ''kid''] [] [] [] v = Inr kvs
    \<and> str_field ''alg'' kvs = ''RS256'' \<and> json_part p = Some w \<and> keycloak_claims w = Inr kc"
  using assms
  by (auto simp: VerifyToken_def split: list.splits option.splits sum.splits if_splits prod.splits)

lemma Keycloak_id:
  assumes "snd (ip_ValidateToken Keycloak E t st) = Inr c"
  obtains h p s v kvs w kc where "Split (CHR ''.'') t = [h, p, s]" "json_part h = Some v" "members [''alg'', ''typ'', ''kid''] [] [] [] v = Inr kvs"
    "str_field ''alg'' kvs = ''RS256''" "json_part p = Some w" "keycloak_claims w = Inr kc"
    "token_id c = (if kc_TokenID kc = [] then deriveTokenID (if kc_PreferredUsername kc = [] then kc_Subject kc else kc_PreferredUsername kc)
       (kc_IssuedAt kc) else kc_TokenID kc)"
proof -
  obtain k j j' kc where "VerifyToken E t j = (j', Inr kc)" "c = MapKeycloakClaims E kc k"
    using assms by (auto simp: Keycloak_def on_external_def Keycloak_ValidateToken_def split: option.splits prod.splits sum.splits if_splits)
  then show thesis using that VerifyToken_claims [of E t j j' kc] by (auto simp: token_id_def MapKeycloakClaims_def)
qed

lemma on_external_keeps [simp]: "as_revoked (fst (on_external f st)) = as_revoked st"
  by (simp add: on_external_def split: option.split prod.split)

interpretation external_provider: identity_provider Keycloak
proof
  fix E E' t st st' c c'
  assume "snd (ip_ValidateToken Keycloak E t st) = Inr c" "snd (ip_ValidateToken Keycloak E' t st') = Inr c'"
  then show "token_id c' = token_id c" by (elim Keycloak_id) simp
qed (simp_all add: Keycloak_def)

subsection \<open>The hybrid provider\<close>

text \<open>A token that names the algorithm HS256 is not one that names RS256.\<close>

lemma header_algorithm:
  assumes "header_ok h" and "json_part h = Some v" and "members [''alg'', ''typ'', ''kid''] [] [] [] v = Inr kvs"
  shows "str_field ''alg'' kvs \<noteq> ''RS256''"
proof -
  obtain bs where bs: "RawURL_DecodeString h = Some bs" "json_Parse (map char_of bs) \<noteq> None"
    using assms(1) by (cases "RawURL_DecodeString h"; cases "decode_part h") (auto simp: header_ok_def decode_part_def)
  then have "decode_part h = Some v" using assms(2) by (simp add: json_part_def decodeBase64URL_def decode_part_def)
  then obtain k2 where k2: "members [''alg'', ''typ''] [] [] [] v = Inr k2" "str_field ''alg'' k2 = ''HS256''"
    using assms(1) by (auto simp: header_ok_def split: sum.splits)
  then have "k2 = kvs" using assms(3) by (auto simp: members_def split: json.splits if_splits)
  then show ?thesis using k2(2) by simp
qed

lemma Hybrid_validates:
  assumes "snd (Hybrid_ValidateToken e E t st) = Inr c"
  shows "(\<exists>st'. snd (ip_ValidateToken Keycloak E t st') = Inr c) \<or> (\<exists>st'. snd (Local_ValidateToken e E t st') = Inr c)"
  using assms by (auto simp: Hybrid_ValidateToken_def Let_def split: prod.splits sum.splits if_splits) (metis snd_conv)+

lemma keeps_dest:
  "ip_ValidateToken Keycloak E t st = (st', r1) \<Longrightarrow> as_revoked st' = as_revoked st"
  "ip_Authenticate Keycloak E name password scopes st = (st', r2) \<Longrightarrow> as_revoked st' = as_revoked st"
  "ip_RefreshToken Keycloak E t st = (st', r2) \<Longrightarrow> as_revoked st' = as_revoked st"
  "Local_ValidateToken e E t st = (st', r1) \<Longrightarrow> as_revoked st' = as_revoked st"
  "Local_RefreshToken e E t st = (st', r2) \<Longrightarrow> as_revoked st' = as_revoked st"
  using external_provider.validate_keeps [of E t st] external_provider.authenticate_keeps [of E name password scopes st]
    external_provider.refresh_keeps [of E t st] Local_keeps(1) [of e E t st] Local_keeps(3) [of e E t st] by simp_all

lemma Hybrid_keeps [simp]:
  "as_revoked (fst (Hybrid_ValidateToken e E t st)) = as_revoked st"
  "as_revoked (fst (Hybrid_Authenticate e E name password scopes st)) = as_revoked st"
  "as_revoked (fst (Hybrid_RefreshToken e E t st)) = as_revoked st"
  by (auto simp: Hybrid_ValidateToken_def Hybrid_Authenticate_def Hybrid_RefreshToken_def Let_def
      dest!: keeps_dest split: prod.split sum.split if_splits)

interpretation hybrid_provider: identity_provider "HybridProvider (NewHS256Engine secret)" for secret
proof
  let ?e = "NewHS256Engine secret"
  have hs: "te_algorithm ?e \<noteq> AlgRS256" by (simp add: NewHS256Engine_def AlgHS256_def AlgRS256_def)
  have mixed: False if "snd (Local_ValidateToken ?e E t st) = Inr c" "snd (ip_ValidateToken Keycloak E' t st') = Inr c'" for E E' t st st' c c'
    using that by (elim Local_id Keycloak_id) (use hs header_algorithm in auto)
  fix E E' t st st' c c'
  assume "snd (ip_ValidateToken (HybridProvider ?e) E t st) = Inr c" "snd (ip_ValidateToken (HybridProvider ?e) E' t st') = Inr c'"
  then have "snd (Hybrid_ValidateToken ?e E t st) = Inr c" "snd (Hybrid_ValidateToken ?e E' t st') = Inr c'" by (simp_all add: HybridProvider_def)
  from this [THEN Hybrid_validates] show "token_id c' = token_id c"
  proof (elim disjE exE)
    fix s s' assume "snd (ip_ValidateToken Keycloak E t s) = Inr c" "snd (ip_ValidateToken Keycloak E' t s') = Inr c'"
    then show ?thesis by (rule external_provider.same_id)
  next
    fix s s' assume "snd (Local_ValidateToken ?e E t s) = Inr c" "snd (Local_ValidateToken ?e E' t s') = Inr c'"
    then show ?thesis by (rule local_provider.same_id [of ?e, unfolded LocalProvider_def IdentityProvider.select_convs])
  qed (blast dest: mixed)+
qed (simp_all add: HybridProvider_def)

subsection \<open>Runs of the service\<close>

text \<open>Whatever replicas do: requests, ticks of the health poller, and the removal of expired entries.
  \<open>good\<close> describes the environments.\<close>

inductive auth_run :: "IdentityProvider \<Rightarrow> (auth_env \<Rightarrow> bool) \<Rightarrow> auth_state \<Rightarrow> auth_state \<Rightarrow> bool" for P good st where
  start: "auth_run P good st st"
| issue: "auth_run P good st st1 \<Longrightarrow> good E \<Longrightarrow> auth_run P good st (fst (IssueToken P E req st1))"
| validate: "auth_run P good st st1 \<Longrightarrow> good E \<Longrightarrow> auth_run P good st (fst (authServer_ValidateToken P E t st1))"
| refresh: "auth_run P good st st1 \<Longrightarrow> good E \<Longrightarrow> auth_run P good st (fst (authServer_RefreshToken P E t st1))"
| revoke: "auth_run P good st st1 \<Longrightarrow> good E \<Longrightarrow> auth_run P good st (fst (RevokeToken P E revocation st1))"
| purge: "auth_run P good st st1 \<Longrightarrow> good E \<Longrightarrow> auth_run P good st (st1\<lparr>as_revoked := fst (PurgeExpired E (as_revoked st1))\<rparr>)"
| tick: "auth_run P good st st1 \<Longrightarrow> good E \<Longrightarrow> auth_run P good st (st1\<lparr>as_external := map_option (health_tick E) (as_external st1)\<rparr>)"

text \<open>A revocation store that follows the laws of its collection; \<open>DeleteMany\<close> removes only what its filter
  matches. The clock has not passed \<open>T\<close>.\<close>

definition lawful_until :: "int \<Rightarrow> auth_env \<Rightarrow> bool" where
  "lawful_until T E \<longleftrightarrow> au_now E \<le> T
     \<and> (\<exists>col. au_revStore E = Some col \<and> collection col revoked_conflict)
     \<and> (\<forall>f vs. set (filter (\<lambda>v. \<not> f v) vs) \<subseteq> set (fst (au_DeleteMany E f vs)))"

lemma lawful_untilD: "lawful_until T E \<Longrightarrow> set (filter (\<lambda>v. \<not> f v) vs) \<subseteq> set (fst (au_DeleteMany E f vs))"
  unfolding lawful_until_def by (elim conjE allE)

context identity_provider
begin

lemma run_keeps_revoked:
  assumes "auth_run P (lawful_until T) st st'" and "v \<in> set (as_revoked st)" and "T \<le> rv_ExpiresAt v"
  shows "v \<in> set (as_revoked st')"
  using assms(1)
proof induction
  case start
  then show ?case by (rule assms(2))
next
  case (issue st1 E req)
  then show ?case using authenticate_keeps by (auto simp: IssueToken_def split: prod.split sum.split) (metis fst_conv)+
next
  case (validate st1 E t)
  then show ?case using validate_keeps by (auto simp: authServer_ValidateToken_def split: prod.split sum.split) (metis fst_conv)+
next
  case (refresh st1 E t)
  then show ?case using refresh_keeps by (auto simp: authServer_RefreshToken_def split: prod.split sum.split) (metis fst_conv)+
next
  case (revoke st1 E revocation)
  obtain col where col: "au_revStore E = Some col" "collection col revoked_conflict" using revoke.hyps by (auto simp: lawful_until_def)
  have grows: "v \<in> set (fst (Revoke E i s r x vs))" if "v \<in> set vs" for i s r x vs
    by (rule collection.InsertOne_cases [OF col(2), of "\<lparr>rv_ID = au_oid E 2, rv_TokenID = i, rv_Subject = s, rv_Reason = r,
        rv_RevokedAt = au_now E, rv_ExpiresAt = x\<rparr>" vs]) (use that in \<open>simp_all add: Revoke_def col(1)\<close>)
  obtain t q where "revocation = (t, q)" by (cases revocation)
  then show ?case using revoke.IH validate_keeps [of E t st1] grows
    by (auto simp: RevokeToken_def Let_def split: prod.split sum.split)
next
  case (purge st1 E)
  let ?old = "\<lambda>v. rv_ExpiresAt v < au_now E"
  have "v \<in> set (filter (\<lambda>v. \<not> ?old v) (as_revoked st1))" using purge assms(3) by (auto simp: lawful_until_def)
  moreover have "set (filter (\<lambda>v. \<not> ?old v) (as_revoked st1)) \<subseteq> set (fst (au_DeleteMany E ?old (as_revoked st1)))"
    by (rule lawful_untilD [OF purge.hyps(2)])
  ultimately have "v \<in> set (fst (au_DeleteMany E ?old (as_revoked st1)))" by blast
  then show ?case using purge.IH by (simp add: PurgeExpired_def split: option.split)
qed simp

lemma revoked_is_rejected:
  assumes "snd (ip_ValidateToken P E0 token st0) = Inr c" and "v \<in> set (as_revoked st)" and "rv_TokenID v = token_id c"
    and "au_revStore E = Some col" and "collection col revoked_conflict" and "CountDocuments col (\<lambda>v. rv_TokenID v = token_id c) (as_revoked st) = Inr n"
    and "authServer_ValidateToken P E token st = (st', Inr resp)"
  shows "\<not> vt_Valid resp"
proof (cases "snd (ip_ValidateToken P E token st)")
  case (Inl err)
  then show ?thesis using assms(7)
    by (auto simp: authServer_ValidateToken_def rejected_token_def split: if_splits prod.splits sum.splits)
next
  case (Inr c')
  have id: "token_id c' = token_id c" by (rule same_id [OF assms(1) Inr])
  have "0 < n" using collection.CountDocuments_Inr [OF assms(5,6)] assms(2,3) by (auto simp: filter_empty_conv)
  then have "fst (IsRevoked E (token_id c') (as_revoked (fst (ip_ValidateToken P E token st))))"
    using assms(4,6) by (simp add: IsRevoked_def id validate_keeps)
  then show ?thesis using assms(7) Inr
    by (auto simp: authServer_ValidateToken_def rejected_token_def split: if_splits prod.splits sum.splits)
qed

lemma revocation_entered:
  assumes "snd (ip_ValidateToken P E token st) = Inr c" and "token \<noteq> []" and "au_revStore E = Some col" and "collection col revoked_conflict"
    and "\<not> (\<exists>v \<in> set (as_revoked st). rv_ID v = au_oid E 2 \<or> rv_TokenID v = token_id c)"
    and "snd (Revoke E (token_id c) (uc_Subject c) (if reason = [] then ''logout'' else reason) (uc_ExpiresAt c * Second) (as_revoked st)) = None"
  shows "\<exists>v \<in> set (as_revoked (fst (RevokeToken P E (token, reason) st))). rv_TokenID v = token_id c \<and> rv_ExpiresAt v = uc_ExpiresAt c * Second"
proof -
  let ?v = "\<lparr>rv_ID = au_oid E 2, rv_TokenID = token_id c, rv_Subject = uc_Subject c, rv_Reason = (if reason = [] then ''logout'' else reason),
     rv_RevokedAt = au_now E, rv_ExpiresAt = uc_ExpiresAt c * Second\<rparr>"
  obtain vs err where ins: "InsertOne col ?v (as_revoked st) = (vs, err)" by (cases "InsertOne col ?v (as_revoked st)")
  have "err = None"
  proof (rule ccontr)
    assume "err \<noteq> None"
    then obtain m where "err = Some (DuplicateKey m)" using assms(3,6) ins by (auto simp: Revoke_def split: if_splits elim!: IsDuplicateKeyError.elims)
    then show False using collection.InsertOne_dup [OF assms(4)] ins assms(5) by (fastforce simp: list_ex_iff revoked_conflict_def)
  qed
  then have "?v \<in> set vs" using collection.InsertOne_None [OF assms(4)] ins by fastforce
  moreover obtain st' where "ip_ValidateToken P E token st = (st', Inr c)" using assms(1) by (cases "ip_ValidateToken P E token st") simp
  ultimately show ?thesis
    using ins \<open>err = None\<close> assms(2,3) validate_keeps [of E token st] by (intro bexI [of _ ?v]) (simp_all add: RevokeToken_def Revoke_def)
qed

end

subsection \<open>Revoked for good\<close>


lemma HS256_validates:
  assumes "secret \<noteq> []" and "0 \<le> now" and "fits64 (now div Second + 900)" and "cl_IssuedAt c = 0" and "cl_ExpiresAt c = 0"
  obtains token where "IssueAccessToken (NewHS256Engine secret) now c = Inr token" "token \<noteq> []"
    "\<And>t. ValidateAccessToken (NewHS256Engine secret) t token =
       (if now div Second + 900 < t div Second then Inl ErrTokenExpired else Inr (stamp_claims (15 * 60 * Second) now c))"
proof -
  define C where "C = stamp_claims (15 * 60 * Second) now c"
  let ?input = "encode_part header_json @ ''.'' @ encode_part (claims_json C)"
  let ?token = "?input @ ''.'' @ RawURL_EncodeToString (hmac_sha256 secret ?input)"
  have e: "(now + 15 * 60 * Second) div Second = now div Second + 900" "0 \<le> now div Second" using assms(2) by (simp_all add: Second_def)
  have again: "stamp_claims (3600 * Second) now C = C"
    using e assms(4,5) by (cases c) (simp add: C_def stamp_claims_def DefaultIssuer_def DefaultAudience_def)
  have c: "0 \<le> cl_IssuedAt C" "fits64 (cl_IssuedAt C)" "0 \<le> cl_ExpiresAt C" "fits64 (cl_ExpiresAt C)" "cl_ExpiresAt C = now div Second + 900"
    using e assms(3-5) by (simp_all add: C_def stamp_claims_def fits64_def)
  have "json_ok header_json" by (simp add: header_json_def)
  note v = ValidateToken_made [OF assms(1) this header_ok_encoded c(1-4) refl]
  have "IssueAccessToken (NewHS256Engine secret) now c = Inr ?token"
    unfolding IssueAccessToken_def C_def [symmetric]
    using assms(1) by (simp add: sign_def NewHS256Engine_def AlgHS256_def AlgRS256_def GenerateToken_def Let_def again)
  moreover have "ValidateAccessToken (NewHS256Engine secret) t ?token = (if now div Second + 900 < t div Second then Inl ErrTokenExpired else Inr C)" for t
    using v [of t] c(5) by (simp add: ValidateAccessToken_def NewHS256Engine_def AlgHS256_def AlgRS256_def)
  ultimately show thesis using that [of ?token] unfolding C_def by simp
qed

definition empty_auth :: auth_state where
  "empty_auth = \<lparr>as_users = [sample_user], as_refresh = [], as_revoked = [], as_external = None\<rparr>"

definition bob_unified :: UnifiedClaims where
  "bob_unified =
     \<lparr>uc_Subject = ''bob'', uc_Roles = [''user''], uc_Scopes = [], uc_ExpiresAt = 905, uc_IssuedAt = 5, uc_TokenID = ''bob:5'',
      uc_Issuer = ''wallet-system'', uc_Audience = ''wallet-api'', uc_Email = [], uc_Provider = ''local''\<rparr>"

abbreviation "sample_provider \<equiv> LocalProvider (NewHS256Engine ''k'')"


end
