(* ===== verification/AuthLogin.thy ===== *)
theory AuthLogin
  imports AuthRevoked
begin

text \<open>
  What a login yields: who gets tokens, what they say, and that they are accepted. And a
  refresh token is used up by the session it opens.
\<close>

subsection \<open>Scopes\<close>

lemma resolveScopes_cases:
  "resolveScopes roles allowed requested = DefaultScopesForRoles roles
   \<or> set (resolveScopes roles allowed requested) \<subseteq> {s \<in> set requested. \<exists>a \<in> set allowed. EqualFold s a}"
proof -
  have "EqualFold s a" if "ToLower s = ToLower a" for s a using that by (simp add: EqualFold_def)
  then show ?thesis by (auto simp: resolveScopes_def Let_def)
qed

text \<open>A request for scopes none of which is allowed yields the default scopes, allowed or not.\<close>

lemma refused_scopes_become_defaults:
  "resolveScopes [''user''] [''wallet:read''] [''ledger:audit''] = [''wallet:transfer'', ''wallet:read'']"
  by code_simp

subsection \<open>Logins\<close>

lemma check_password_Inr:
  assumes "check_password E name password u us = (us', Inr v)"
  shows "v = u \<and> au_bcrypt E (u_PasswordHash u) password \<and> u_Status u \<noteq> UserStatusSuspended"
  using assms by (auto simp: check_password_def split: if_splits)

definition may_log_in :: "int \<Rightarrow> UserRecord \<Rightarrow> bool" where
  "may_log_in now u \<longleftrightarrow> u_Status u \<noteq> UserStatusSuspended
     \<and> (u_Status u = UserStatusLocked \<longrightarrow> (\<exists>t. u_LockedUntil u = Some t \<and> t < now))"

lemma Authenticate_Inr:
  assumes "UserStore_Authenticate E name password us = (us', Inr v)" and "au_store E = Some (M, R)" and "collection M user_conflict"
  shows "\<exists>u \<in> set us. u_Username u = name \<and> au_bcrypt E (u_PasswordHash u) password \<and> may_log_in (au_now E) u
    \<and> u_Username v = name \<and> u_Roles v = u_Roles u \<and> u_Scopes v = u_Scopes u"
proof -
  obtain u where f: "FindOne M (\<lambda>u. u_Username u = name) None us = Inr u"
    using assms(1,2) by (auto simp: UserStore_Authenticate_def FindByUsername_def split: sum.splits)
  from collection.FindOne_Inr [OF assms(3) this] have u: "u \<in> set us" "u_Username u = name" by auto
  have "au_bcrypt E (u_PasswordHash u) password \<and> may_log_in (au_now E) u \<and> u_Username v = name \<and> u_Roles v = u_Roles u \<and> u_Scopes v = u_Scopes u"
    using assms(1,2) f u(2)
    by (auto simp: UserStore_Authenticate_def FindByUsername_def may_log_in_def UserStatusLocked_def UserStatusSuspended_def
        dest!: check_password_Inr split: if_splits option.splits)
  then show ?thesis using u by blast
qed

lemma open_session_Inr:
  assumes "open_session E e notes old subject roles scopes st = (st', Inr (c, p))" and "au_store E = Some (M, R)" and "collection R refresh_conflict"
  shows "uc_Subject c = subject" "tp_GrantedScopes p = scopes" "IssueAccessToken e (au_now E) (session_claims subject roles scopes) = Inr (tp_AccessToken p)"
    "\<exists>r \<in> set (as_refresh st'). rt_Token r = tp_RefreshToken p \<and> rt_Subject r = subject \<and> rt_Roles r = roles \<and> rt_Scopes r = scopes
       \<and> \<not> rt_Revoked r \<and> rt_ExpiresAt r = au_now E + refreshTokenTTL"
proof -
  obtain access new rs rs' where o: "IssueAccessToken e (au_now E) (session_claims subject roles scopes) = Inr access" "IssueRefreshToken E = Inr new"
    "StoreRefreshToken E new subject roles scopes refreshTokenTTL rs = (rs', None)" "st' = st\<lparr>as_refresh := rs'\<rparr>"
    "c = local_claims E subject roles scopes" "tp_AccessToken p = access" "tp_RefreshToken p = new" "tp_GrantedScopes p = scopes"
    using assms(1) by (auto simp: open_session_def Let_def split: prod.splits sum.splits option.splits)
  obtain ds where "InsertOne R \<lparr>rt_ID = au_oid E 1, rt_Token = new, rt_Subject = subject, rt_Roles = roles, rt_Scopes = scopes,
      rt_IssuedAt = au_now E, rt_ExpiresAt = au_now E + refreshTokenTTL, rt_Revoked = False\<rparr> rs = (rs', None)"
    using o(3) assms(2) by (auto simp: StoreRefreshToken_def apsnd_def map_prod_def split: prod.splits)
  from collection.InsertOne_None [OF assms(3) this] show "\<exists>r \<in> set (as_refresh st'). rt_Token r = tp_RefreshToken p \<and> rt_Subject r = subject
      \<and> rt_Roles r = roles \<and> rt_Scopes r = scopes \<and> \<not> rt_Revoked r \<and> rt_ExpiresAt r = au_now E + refreshTokenTTL"
    using o(4,7) by auto
  show "uc_Subject c = subject" "tp_GrantedScopes p = scopes" "IssueAccessToken e (au_now E) (session_claims subject roles scopes) = Inr (tp_AccessToken p)"
    using o by (simp_all add: local_claims_def)
qed

lemma session_token_valid:
  assumes "IssueAccessToken (NewHS256Engine secret) now (session_claims subject roles scopes) = Inr token"
    and "0 \<le> now" and "fits64 (now div Second + 900)"
  shows "authServer_ValidateToken (LocalProvider (NewHS256Engine secret)) E token st =
    (st, Inr (if now div Second + 900 < au_now E div Second then rejected_token TOKEN_EXPIRED
       else if fst (IsRevoked E (deriveTokenID subject (now div Second)) (as_revoked st)) then rejected_token TOKEN_REVOKED
       else \<lparr>vt_Valid = True, vt_Subject = subject, vt_Roles = roles, vt_Scopes = scopes, vt_ExpiresAt = now div Second + 900,
             vt_Error = TOKEN_OK, vt_TokenId = deriveTokenID subject (now div Second)\<rparr>))"
proof -
  have "secret \<noteq> []"
    using assms(1) by (auto simp: IssueAccessToken_def sign_def GenerateToken_def NewHS256Engine_def AlgHS256_def AlgRS256_def split: if_splits)
  obtain token' where "IssueAccessToken (NewHS256Engine secret) now (session_claims subject roles scopes) = Inr token'" "token' \<noteq> []"
    "\<And>t. ValidateAccessToken (NewHS256Engine secret) t token' = (if now div Second + 900 < t div Second then Inl ErrTokenExpired
      else Inr (stamp_claims (15 * 60 * Second) now (session_claims subject roles scopes)))"
    by (rule HS256_validates [OF \<open>secret \<noteq> []\<close> assms(2,3), of "session_claims subject roles scopes"]) (simp_all add: session_claims_def)
  with assms(1) have v: "token \<noteq> []" "\<And>t. ValidateAccessToken (NewHS256Engine secret) t token = (if now div Second + 900 < t div Second then Inl ErrTokenExpired
      else Inr (stamp_claims (15 * 60 * Second) now (session_claims subject roles scopes)))"
    by simp_all
  have "(now + 15 * 60 * Second) div Second = now div Second + 900" by (simp add: Second_def)
  then show ?thesis using v(1)
    by (auto simp: authServer_ValidateToken_def LocalProvider_def Local_ValidateToken_def v(2) mapAuthErrorToProto_def stamp_claims_def
        session_claims_def token_id_def deriveTokenID_def)
qed


lemma sample_login:
  obtains st' resp where "IssueToken sample_provider (sample_auth_env (100 * Second)) (''alice'', ''secret'', [''wallet:read'']) empty_auth
    = (st', Inr resp)"
proof -
  let ?E = "sample_auth_env (100 * Second)"
  obtain us where us: "UserStore_Authenticate ?E ''alice'' ''secret'' [sample_user] = (us, Inr sample_user)"
  proof -
    have "FindByUsername ?E ''alice'' [sample_user] = Inr sample_user"
      using mem_users.find_account [of sample_user "[sample_user]" ?E] by (simp add: account_def sample_auth_env_def sample_user_def)
    moreover have "au_store ?E \<noteq> None" "au_bcrypt ?E (u_PasswordHash sample_user) ''secret''" "u_Status sample_user = UserStatusActive"
      by (simp_all add: sample_auth_env_def sample_user_def)
    ultimately show thesis using that
      by (auto simp: UserStore_Authenticate_def check_password_def UserStatusActive_def UserStatusLocked_def UserStatusSuspended_def)
  qed
  obtain token where t: "IssueAccessToken (NewHS256Engine ''k'') (100 * Second) (session_claims ''alice'' [''user''] [''wallet:read'']) = Inr token"
    by (rule HS256_validates [of "''k''" "100 * Second" "session_claims ''alice'' [''user''] [''wallet:read'']"])
      (simp_all add: session_claims_def Second_def fits64_def)
  have r: "resolveScopes [''user''] [''wallet:read'', ''wallet:transfer''] [''wallet:read''] = [''wallet:read'']" by code_simp
  have e: "au_now ?E = 100 * Second" "IssueRefreshToken ?E = Inr ''AQID''" "au_store ?E = Some (mem_ops user_conflict, mem_ops refresh_conflict)"
  proof -
    have "RawURL_EncodeToString [1, 2, 3] = ''AQID''" by code_simp
    then show "IssueRefreshToken ?E = Inr ''AQID''" by (simp add: IssueRefreshToken_def sample_auth_env_def)
  qed (simp_all add: sample_auth_env_def)
  have u: "u_Username sample_user = ''alice''" "u_Roles sample_user = [''user'']" "u_Scopes sample_user = [''wallet:read'', ''wallet:transfer'']"
    by (simp_all add: sample_user_def)
  have "as_users empty_auth = [sample_user]" "as_refresh empty_auth = []" by (simp_all add: empty_auth_def)
  then show thesis
    using that us t r e u
    by (simp add: IssueToken_def LocalProvider_def Local_Authenticate_def open_session_def StoreRefreshToken_def mem_ops_def mem_InsertOne_def)
qed


subsection \<open>Sessions are refreshed once\<close>

text \<open>A refresh that succeeds, with an update that does not fail, has marked the old token, and a marked
  token is not found again.\<close>

lemma refresh_uses_up_token:
  assumes "Local_RefreshToken e E token st = (st', Inr r)" and "au_store E = Some (M, R)" and "collection R refresh_conflict"
    and "distinct (map rt_Token (as_refresh st))" and "snd (RevokeRefreshToken E token (as_refresh st)) = None"
    and "au_store E2 = Some (M2, R2)" and "collection R2 refresh_conflict"
  shows "\<exists>err. FindRefreshToken E2 token (as_refresh st') = Inl err"
proof -
  define rs where "rs = fst (RevokeRefreshToken E token (as_refresh st))"
  obtain rec where rec: "FindRefreshToken E token (as_refresh st) = Inr rec"
    using assms(1) by (auto simp: Local_RefreshToken_def split: sum.splits)
  obtain x where x: "InsertOne R x rs = (as_refresh st', None)"
    using assms(1,2) rec
    by (auto simp: Local_RefreshToken_def open_session_def Let_def StoreRefreshToken_def apsnd_def map_prod_def rs_def
        split: sum.splits prod.splits option.splits)
  from collection.InsertOne_None [OF assms(3) x] have st': "as_refresh st' = rs @ [x]" and fresh: "\<not> list_ex (refresh_conflict x) rs" by auto
  have "rec \<in> set (as_refresh st)" "rt_Token rec = token"
    using rec assms(2) collection.FindOne_Inr [OF assms(3)] by (auto simp: FindRefreshToken_def split: sum.splits)
  then have known: "list_ex (\<lambda>r. rt_Token r = token) (as_refresh st)" by (auto simp: list_ex_iff)
  obtain q where q: "UpdateOne R (\<lambda>r. rt_Token r = token) (\<lambda>r. Some (r\<lparr>rt_Revoked := True\<rparr>)) (as_refresh st) = (rs, Inr q)"
    using assms(2,5) by (auto simp: RevokeRefreshToken_def rs_def split: prod.splits sum.splits)
  from collection.UpdateOne_Inr [OF assms(3) q] known
  obtain i where i: "i < length (as_refresh st)" "rt_Token (as_refresh st ! i) = token"
    "rs = (as_refresh st)[i := (as_refresh st ! i)\<lparr>rt_Revoked := True\<rparr>]" by auto
  have marked: "rt_Revoked d" if "d \<in> set rs" "rt_Token d = token" for d
  proof -
    from that(1) obtain k where k: "k < length (as_refresh st)" "d = rs ! k" by (auto simp: i(3) in_set_conv_nth)
    have "k = i" using assms(4) that(2) k i by (cases "k = i") (auto simp: distinct_conv_nth)
    then show ?thesis using k i by simp
  qed
  have "i < length rs" "rt_Token (rs ! i) = token" using i by simp_all
  then have "rs ! i \<in> set rs" "rt_Token (rs ! i) = token" by simp_all
  then have "rt_Token x \<noteq> token" using fresh by (auto simp: list_ex_iff refresh_conflict_def)
  with marked have none: "\<not> (rt_Token d = token \<and> \<not> rt_Revoked d)" if "d \<in> set (as_refresh st')" for d using that st' by auto
  have "\<nexists>d. FindOne R2 (\<lambda>r. rt_Token r = token \<and> \<not> rt_Revoked r \<and> au_now E2 < rt_ExpiresAt r) None (as_refresh st') = Inr d"
    using none collection.FindOne_Inr [OF assms(7)] by blast
  then show ?thesis using assms(6) by (auto simp: FindRefreshToken_def split: sum.split)
qed

end
