(* ===== verification/Spec2Isabelle.thy ===== *)
theory Spec2Isabelle
  imports LedgerFeed LedgerAudit LedgerPaging Checkpoints WalletFx WebhookProofs GatewayMoney AuthLogin
begin

text \<open>
  \<^bold>\<open>Global wallet microservices.\<close> The repository is a multi-currency wallet platform in Go. A
  gateway (\<open>cmd/api-gateway\<close>) authenticates users against the auth service and forwards their
  requests over gRPC to the wallet service (\<open>cmd/wallet-service\<close>), which owns the balances in
  MongoDB. Each movement of money commits, in one database transaction, the changed wallets,
  an idempotency record and a task in an outbox collection; a relay delivers the tasks to the
  ledger service (\<open>cmd/ledger-service\<close>), which books them as a hash chain of double-entry
  postings and seals ranges of entries by Merkle checkpoints (\<open>pkg/merkle\<close>). The FX service
  (\<open>cmd/fx-service\<close>) keeps a rate book, locks quotes and converts amounts. Several replicas run
  at once: a failover coordinator (\<open>pkg/coordinator\<close>) says which region may write, a lease
  elects the replica whose relay runs, and caches (\<open>pkg/cache\<close>) with an invalidation bus serve
  balance queries. Partners are told of completed movements by signed webhooks (\<open>pkg/webhook\<close>).

  This development models the wallet, ledger and FX services, the gateway in front of them and
  what they rest on. It proves that money is neither created nor lost on its way from a
  request to the books, and that it leaves a wallet only for those the wallet accepts.
  Everything is a definition that computes.

  \<^bold>\<open>The theories, in the order of the code.\<close>

  \<^item> \<open>Prelude\<close>: machine integers with the wrap-around written out (\<open>wrap64\<close>, \<open>fits64\<close>), Go maps as
    association lists, the string functions of the \<open>strings\<close> package on ASCII text, messages and
    errors as values (\<open>gomsg\<close> keeps a format with its arguments, \<open>goerr\<close> a gRPC status).
  \<^item> \<open>GoFloat\<close>: \<open>float64\<close> as the rational it denotes, with \<open>fl\<close> rounding to the nearest binary64
    value (ties to even), for the conversion arithmetic and the backoff.
  \<^item> \<open>Currency\<close>: \<open>pkg/db/currency.go\<close>. Which amounts validation accepts, exactly; the result
    of banker's conversion; agreement of the two currency tables.
  \<^item> \<open>Mongo\<close>: the driver as parameters. A collection is a list of documents and a record of
    operations; the locale \<open>collection\<close> states what the driver documents (an operation may
    always fail, and then changes nothing), \<open>transaction_runner\<close> what \<open>WithTransaction\<close> does
    (callback retried, rolled back on error). Both are interpreted by an in-memory database.
  \<^item> \<open>WalletTypes\<close>: documents, caller, server configuration and shared checks of
    \<open>cmd/wallet-service/main.go\<close>; the invariant \<open>wallets_ok\<close>; audit events of
    \<open>pkg/observability\<close>.
  \<^item> \<open>DistCache\<close>, \<open>WalletCache\<close>: \<open>pkg/cache\<close> and \<open>cmd/wallet-service/cache.go\<close>. The interface
    \<open>DistributedCache\<close> is the locale \<open>balance_store\<close> with its extensions; memory and tiered
    caches are instances. No stale hit, bounded size, store then lookup.
  \<^item> \<open>LedgerOutbox\<close>, \<open>RelayLease\<close>: \<open>cmd/wallet-service/ledger_outbox.go\<close>. The interface
    \<open>LedgerTaskStore\<close> is the locale \<open>task_store\<close>; the MongoDB store is its instance. A batch
    touches only bookkeeping fields and uses up attempts; at most one pod holds an unexpired
    lease; the backoff stays within its cap.
  \<^item> \<open>Compliance\<close>: \<open>cmd/wallet-service/compliance.go\<close>, KYC tiers and velocity limits, and the
    state a handler works on: \<open>wallet_db\<close> (the collections), the cache, and \<open>wallet_env\<close>
    (configuration, drivers, clock, fresh identifiers).
  \<^item> \<open>TransferFlow\<close>, \<open>TransferProofs\<close>: \<open>TransferFunds\<close> and its helpers, one definition each.
    Effect on balances, atomicity, at most once, limits, status checks, cache eviction.
  \<^item> \<open>WalletOps\<close>, \<open>WalletOpsProofs\<close>, \<open>WalletGuards\<close>: the other handlers of \<open>main.go\<close>. Effect of
    exchange, deposit and withdrawal on every branch; standby, access and freezing; creation
    and query as a round trip.
  \<^item> \<open>WalletService\<close>: all requests and the relay as an inductive step relation, and the invariant
    of the reachable states.
  \<^item> \<open>Encoding\<close>: SHA-256, hexadecimal, decimal and time formats of Go's standard library.
  \<^item> \<open>DoubleEntry\<close>, \<open>LedgerService\<close>: \<open>cmd/ledger-service/double_entry.go\<close> and \<open>main.go\<close>. Postings,
    the sealed text of an entry, \<open>RecordTransaction\<close> with its insertion loop, the queries.
  \<^item> \<open>LedgerChain\<close>, \<open>LedgerAudit\<close>, \<open>LedgerPaging\<close>: among any pods the entries stay one hash chain,
    a request is one atomic step of an abstract ledger and is recorded once; the audit accepts
    exactly the unbroken chains and a verified chain is fixed by its last hash up to a
    collision; paging returns every entry once.
  \<^item> \<open>LedgerFeed\<close>: wallet service and ledger together. Once the outbox is delivered the accounts
    of the ledger have moved as the wallets have.
  \<^item> \<open>Merkle\<close>, \<open>Checkpoints\<close>: \<open>pkg/merkle/tree.go\<close> and \<open>cmd/ledger-service/merkle.go\<close>. Proofs are
    complete and sound up to a collision; checkpoints cover gapless ranges.
  \<^item> \<open>FxFloat\<close>, \<open>FxProviders\<close>, \<open>FxEngine\<close>, \<open>FxQuotes\<close>, \<open>FxServer\<close>: \<open>cmd/fx-service\<close>, with infinities
    and NaN in its floats; feeds, rate book, quotes, conversions, gRPC and REST front ends.
  \<^item> \<open>FxSafety\<close>, \<open>FxOnce\<close>, \<open>FxReplay\<close>, \<open>FxSound\<close>: rely-guarantee proofs about the engine among
    other pods. A quote is executed at most once, a repeated key is answered alike, the rate
    book and every price stay sound.
  \<^item> \<open>WalletFx\<close>: the wallet service with the FX service as its client.
  \<^item> \<open>Coordinator\<close>: \<open>pkg/coordinator\<close>. When the regions agree on who may write.
  \<^item> \<open>GoNet\<close>, \<open>GoURL\<close>, \<open>GoJson\<close>, \<open>GoJsonText\<close>: IP addresses, URLs, decoding of JSON values into Go
    variables, and JSON texts with their parser and printer, which are a round trip.
  \<^item> \<open>Tokens\<close>, \<open>Jwt\<close>: \<open>pkg/auth/jwt.go\<close>. Claims, and signing and validating tokens.
  \<^item> \<open>Webhook\<close>, \<open>WebhookProofs\<close>: \<open>pkg/webhook\<close>. Signatures, destinations, deliveries and retries
    as a step relation; which URLs are ever posted to, and how often.
  \<^item> \<open>GatewayAccess\<close>: \<open>cmd/api-gateway/middleware.go\<close>. Authentication with its cache of claims,
    rate limiting, ownership. \<open>Gateway\<close>, \<open>GatewayOps\<close>, \<open>GatewaySessions\<close>: the handlers of
    \<open>cmd/api-gateway/main.go\<close>, by service. \<open>GatewayRouter\<close>: routes, multiplexer and the order of
    the middleware.
  \<^item> \<open>GatewayParts\<close>, \<open>GatewayMoney\<close>: what a request can do behind the gateway, first for any
    services that keep the laws of the locale \<open>gateway_parts\<close>, then with the modelled wallet
    service of both regions in their place.
  \<^item> \<open>AuthStore\<close>, \<open>AuthProviders\<close>, \<open>AuthService\<close>: \<open>cmd/auth-service\<close>. User store with lockout, refresh and
    revoked tokens, token engine; OpenID Connect client and key cache; the local, external and
    hybrid provider as records of the methods of the Go interface; the service itself.
  \<^item> \<open>AuthSessions\<close>, \<open>AuthRevoked\<close>, \<open>AuthLogin\<close>: the lockout, the locale \<open>identity_provider\<close> that all
    three providers keep to and what follows for revoked tokens, and what a login yields.
  \<^item> This theory: the properties of the service as a whole.

  \<^bold>\<open>How code becomes definitions.\<close> A handler is a function of its environment, the request and
  the state, and returns the new state with its answer; every early return is a branch. Names
  are those of the source where Isabelle allows it; record fields carry a prefix for their
  type. Parts of a long Go function are definitions of their own, composed as in the code. The
  clients of other services, the fraud detector and the second cache level are functions of
  the request, arbitrary in the theorems about one service; \<open>LedgerFeed\<close> and \<open>WalletFx\<close> put the
  modelled services in their place. A request of the wallet service reads the clock once; the
  FX service and the ledger number the readings of a call. The database of a wallet request is
  the one the transaction sees; interleavings of whole requests are sequences of steps, and
  snapshot isolation makes a committed transaction one step. The ledger and the FX service
  use no transactions: between any two database calls of one request other pods may change
  the collections, given by the arbitrary functions \<open>le_others\<close> and \<open>fx_others\<close> of the number of
  the interference point, and the theorems state what they rely on.

  \<^bold>\<open>Bounds.\<close> Every loop of the modelled code runs over a finite list or, as the insertion loop of
  the ledger with its five attempts, has a bound in the code. Only the parser of JSON texts
  has fuel, twice the length of the text and one more; \<open>json_Parse_text\<close> shows that this is
  enough for every text the printer writes.
  Integers of the code are \<open>int\<close> with \<open>wrap64\<close> where the code can overflow; the database
  refuses an increment that leaves the range of \<open>int64\<close>.

  \<^bold>\<open>Not modelled.\<close> Log lines, metrics and traces; the transport (gRPC, HTTP, TLS, AMQP, Redis);
  start-up and shutdown of processes; contexts and time-outs, which appear as errors of the
  operation they interrupt; the reads a wallet request makes outside its transaction are not
  interleaved with the writes of others. The expiry of idempotency records after 30 days by a
  TTL index (\<open>pkg/db/indexes.go\<close>) is not a step of the model: at most once, and the mirror of
  the outbox, hold while the records live.

  Whole components that are not modelled: the logging service and the transport of audit
  events (\<open>pkg/observability\<close> beside the events themselves), the command line client
  \<open>cmd/walletctl\<close>, and files and certificates (\<open>pkg/auth/keys.go\<close>, \<open>pkg/tlsutil\<close>).
\<close>

subsection \<open>A sample run\<close>

text \<open>A wallet is opened with 900 yen and receives a deposit of 500.\<close>

definition first_state :: "MemoryCache wallet_state" where
  "first_state = \<lparr>st_db = empty_db, st_cache = None\<rparr>"

definition opened_state :: "MemoryCache wallet_state" where
  "opened_state = fst (CreateWallet sample_env None (Some sample_create) first_state)"

definition yen_deposit :: FundsRequest where
  "yen_deposit =
     \<lparr>fr_IdempotencyKey = ''dep-1'', fr_WalletId = ''carol_1'',
      fr_Amount = Some \<lparr>m_Currency = ''JPY'', m_Units = 500, m_Nanos = 0, m_Scale = 0, m_CurrencyCode = []\<rparr>,
      fr_PaymentRail = WIRE, fr_Reference = []\<rparr>"

definition funded_state :: "MemoryCache wallet_state" where
  "funded_state = fst (DepositFunds sample_env run_once None (Some yen_deposit) opened_state)"

lemma sample_service_run: "service_run mem_driver (credited ''JPY'' 900 (\<lambda>c. 0)) funded_state"
proof -
  let ?c = "CreateWallet sample_env None (Some sample_create) first_state"
  have "service_run mem_driver (\<lambda>c. 0) first_state" by (rule service_run.start) (simp add: first_state_def)
  from service_run.create [OF this sample_env_drv, of sample_create None "fst ?c" "snd ?c"]
  have "service_run mem_driver (if fst (snd ?c) = None then \<lambda>c. 0
      else credited (create_currency sample_create) (cw_InitialBalance sample_create) (\<lambda>c. 0)) opened_state"
    by (simp add: opened_state_def sample_create_def fits64_def)
  moreover have "fst (snd ?c) \<noteq> None" "create_currency sample_create = ''JPY''" "cw_InitialBalance sample_create = 900"
    by code_simp+
  ultimately have r: "service_run mem_driver (credited ''JPY'' 900 (\<lambda>c. 0)) opened_state" by simp
  show ?thesis
    unfolding funded_state_def
    by (rule service_run.deposit [OF r sample_env_drv once.transaction_runner_axioms, of None yen_deposit _
          "snd (DepositFunds sample_env run_once None (Some yen_deposit) opened_state)"]) simp
qed

subsection \<open>Properties\<close>

text \<open>
  C1. The books always balance: after any sequence of requests to any replicas and any relay
  batches, for each currency the wallets together hold exactly what they were opened with plus
  what the ledger tasks, delivered or still queued, record. No request, retry, replay or
  failure creates or loses money.
\<close>

theorem service_reconciles:
  assumes "wallet_store drv" and "service_run drv opened st"
  shows "pot_total c (d_wallets (st_db st))
    = opened c + sum_list (map (\<lambda>t. task_flow t c) (d_tasks (st_db st)))"
  using wallet_store.run_sound [OF assms] by (simp add: sound_def)

theorem service_reconciles_witness:
  "pot_total ''JPY'' (d_wallets (st_db funded_state)) = 1400"
proof -
  have "map (\<lambda>t. task_flow t ''JPY'') (d_tasks (st_db funded_state)) = [500]" by code_simp
  then show ?thesis
    using service_reconciles [OF mem_store.wallet_store_axioms sample_service_run, of "''JPY''"]
    by (simp add: credited_def)
qed


definition yen_entry :: LedgerDocument where
  "yen_entry = ledger_document (pod_env ''l1'' (\<lambda>n ds. ds)) (request_of_task (hd (d_tasks (st_db funded_state)))) ''l1''
     [posting ''EXTERNAL_CLEARING_WIRE_JPY'' AccountTypeSettlementAsset PostingDebit 500 ''JPY'',
      posting ''carol_1'' AccountTypeCustomerLiability PostingCredit 500 ''JPY''] 1 GenesisHash 1700000000123000000"

lemma yen_ledger_run: "ledger_run (d_tasks (st_db funded_state)) [yen_entry]"
proof -
  let ?t = "hd (d_tasks (st_db funded_state))" and ?E = "pod_env ''l1'' (\<lambda>n ds. ds)"
  have t: "?t \<in> set (d_tasks (st_db funded_state))"
  proof -
    have "length (d_tasks (st_db funded_state)) = 1" by code_simp
    then show ?thesis by (cases "d_tasks (st_db funded_state)") auto
  qed
  have "record_validation ?E (request_of_task ?t) = None" "request_postings (request_of_task ?t) = Inr
      [posting ''EXTERNAL_CLEARING_WIRE_JPY'' AccountTypeSettlementAsset PostingDebit 500 ''JPY'',
       posting ''carol_1'' AccountTypeCustomerLiability PostingCredit 500 ''JPY'']"
    "parseTransactionDocID ''l1'' (rt_TransactionId (request_of_task ?t)) = ''l1''" by code_simp+
  from first_booking [OF this] have r: "RecordTransaction ?E None (request_of_task ?t) \<lparr>lb_entries = [], lb_outbox = []\<rparr>
      = (\<lparr>lb_entries = [yen_entry], lb_outbox = []\<rparr>, succeeded ''l1'')" by (simp add: yen_entry_def)
  have "ledger_collection (le_col ?E n)" "fed_growth ts ds (le_others ?E n ds)" for n ts ds
    using mem_ledger.ledger_collection_axioms feed.R_refl by (simp_all add: pod_env_def)
  with ledger_run.deliver [OF ledger_run.empty t _ _ r] show ?thesis by simp
qed


text \<open>
  C7. In every reachable state the wallets are sound: distinct identifiers, no pot negative or
  out of the range of \<open>int64\<close>, and the base balance equal to the pot of the primary currency.
\<close>

theorem service_wallets_sound:
  assumes "wallet_store drv" and "service_run drv opened st" and "w \<in> set (d_wallets (st_db st))"
  shows "distinct (map w_ID (d_wallets (st_db st))) \<and> 0 \<le> getz (w_Balances w) c \<and> fits64 (getz (w_Balances w) c)
    \<and> w_Balance w = getz (w_Balances w) (w_Currency w)"
  using wallet_store.run_sound [OF assms(1,2)] assms(3)
  by (auto simp: sound_def wallets_ok_def list_all_iff wallet_ok_iff)

theorem service_wallets_sound_witness:
  "map w_Balance (d_wallets (st_db funded_state)) = [1400]
   \<and> map w_Balance (d_wallets (st_db funded_state))
     = map (\<lambda>w. getz (w_Balances w) (w_Currency w)) (d_wallets (st_db funded_state))"
proof
  show "map w_Balance (d_wallets (st_db funded_state)) = [1400]" by code_simp
  show "map w_Balance (d_wallets (st_db funded_state))
      = map (\<lambda>w. getz (w_Balances w) (w_Currency w)) (d_wallets (st_db funded_state))"
    using service_wallets_sound [OF mem_store.wallet_store_axioms sample_service_run] by simp
qed

text \<open>
  The outbox mirrors the idempotency records: in every reachable state there is exactly one
  ledger task for each recorded key, in the same order and under the same transaction id, and no
  key is recorded twice. No committed movement goes without a ledger task, and no ledger task
  is stored for a movement that did not commit.
\<close>

lemma service_outbox_mirror:
  assumes "wallet_store drv" and "service_run drv opened st"
  shows "map (\<lambda>t. (lt_IdempotencyKey t, lt_TransactionID t)) (d_tasks (st_db st))
      = map (\<lambda>k. (i_ID k, i_TransactionID k)) (d_idempotency (st_db st))
    \<and> distinct (map lt_IdempotencyKey (d_tasks (st_db st)))"
proof -
  have s: "map task_ref (d_tasks (st_db st)) = map key_ref (d_idempotency (st_db st))"
    "distinct (map i_ID (d_idempotency (st_db st)))"
    using wallet_store.run_sound [OF assms] by (simp_all add: sound_def)
  have "map lt_IdempotencyKey (d_tasks (st_db st)) = map i_ID (d_idempotency (st_db st))"
    using arg_cong [OF s(1), of "map fst"] by (simp add: comp_def task_ref_def key_ref_def)
  then show ?thesis using s by (simp add: task_ref_def [abs_def] key_ref_def [abs_def])
qed

end
